(* ===== verification/Prelude.thy ===== *)
theory Prelude
  imports Complex_Main "HOL-Library.Monad_Syntax" "HOL-Library.Word"
    "HOL-Library.List_Lexorder" "HOL-Library.Char_ord"
begin

text \<open>
  What every component shares: the shape of a Rust \<open>Result\<close>, the early return of the
  question-mark operator as the first error of a list of checks, loops that thread a state
  and may return early, Rust strings as lists of UTF-8 bytes, and the bounds of \<open>i64\<close>. The functions
  of the standard library on strings are in \<open>Rust_Strings\<close>.

  A \<open>string\<close> is the list of the bytes of a Rust \<open>str\<close>, so \<open>length\<close> is \<open>len\<close>, and the
  order of \<open>List_Lexorder\<close> on it is the order Rust gives \<open>String\<close>.
\<close>

definition I64_MAX :: int where "I64_MAX = 9223372036854775807"
definition I64_MIN :: int where "I64_MIN = -9223372036854775808"

section \<open>Results\<close>

type_synonym ('e, 'a) result = "'e + 'a"

abbreviation Ok :: "'a \<Rightarrow> ('e, 'a) result" where "Ok \<equiv> Inr"
abbreviation Err :: "'e \<Rightarrow> ('e, 'a) result" where "Err \<equiv> Inl"

named_theorems result_simps \<open>when a check, a chain of checks or a loop of checks succeeds\<close>

definition ensure :: "bool \<Rightarrow> 'e \<Rightarrow> ('e, unit) result" where
  "ensure b e = (if b then Ok () else Err e)"

text \<open>A chain of checks, each followed by the question mark: the first error is returned.\<close>

fun checks :: "('e, unit) result list \<Rightarrow> ('e, unit) result" where
  "checks [] = Ok ()"
| "checks (c # cs) = (case c of Err e \<Rightarrow> Err e | Ok _ \<Rightarrow> checks cs)"

definition and_then :: "('e, 'a) result \<Rightarrow> ('a \<Rightarrow> ('e, 'b) result) \<Rightarrow> ('e, 'b) result" where
  "and_then r f = (case r of Err e \<Rightarrow> Err e | Ok a \<Rightarrow> f a)"

definition ok_or :: "'a option \<Rightarrow> 'e \<Rightarrow> ('e, 'a) result" where
  "ok_or x e = (case x of None \<Rightarrow> Err e | Some a \<Rightarrow> Ok a)"

definition if_some :: "'a option \<Rightarrow> ('a \<Rightarrow> ('e, unit) result) \<Rightarrow> ('e, unit) result" where
  "if_some x f = (case x of None \<Rightarrow> Ok () | Some a \<Rightarrow> f a)"

definition map_err :: "('e \<Rightarrow> 'f) \<Rightarrow> ('e, 'a) result \<Rightarrow> ('f, 'a) result" where
  "map_err g r = (case r of Err e \<Rightarrow> Err (g e) | Ok a \<Rightarrow> Ok a)"

definition is_ok :: "('e, 'a) result \<Rightarrow> bool" where
  "is_ok r = (case r of Err _ \<Rightarrow> False | Ok _ \<Rightarrow> True)"

text \<open>A \<open>for\<close> loop whose body updates a state and may return an error.\<close>

fun try_fold :: "('s \<Rightarrow> 'a \<Rightarrow> ('e, 's) result) \<Rightarrow> 's \<Rightarrow> 'a list \<Rightarrow> ('e, 's) result" where
  "try_fold f s [] = Ok s"
| "try_fold f s (x # xs) = (case f s x of Err e \<Rightarrow> Err e | Ok s' \<Rightarrow> try_fold f s' xs)"

text \<open>A \<open>for\<close> loop over \<open>enumerate()\<close> whose body only checks.\<close>

fun each_from :: "nat \<Rightarrow> (nat \<Rightarrow> 'a \<Rightarrow> ('e, unit) result) \<Rightarrow> 'a list \<Rightarrow> ('e, unit) result" where
  "each_from i f [] = Ok ()"
| "each_from i f (x # xs) = (case f i x of Err e \<Rightarrow> Err e | Ok _ \<Rightarrow> each_from (Suc i) f xs)"

abbreviation each :: "(nat \<Rightarrow> 'a \<Rightarrow> ('e, unit) result) \<Rightarrow> 'a list \<Rightarrow> ('e, unit) result" where
  "each \<equiv> each_from 0"

lemma ensure_Ok [result_simps]: "ensure b e = Ok u \<longleftrightarrow> b"
  by (simp add: ensure_def)

lemma checks_Ok [result_simps]: "checks cs = Ok u \<longleftrightarrow> (\<forall>c \<in> set cs. c = Ok ())"
  by (induction cs) (auto split: sum.splits)

lemma and_then_Ok [result_simps]: "and_then r f = Ok b \<longleftrightarrow> (\<exists>a. r = Ok a \<and> f a = Ok b)"
  by (auto simp: and_then_def split: sum.splits)

lemma ok_or_Ok [result_simps]: "ok_or x e = Ok a \<longleftrightarrow> x = Some a"
  by (auto simp: ok_or_def split: option.splits)

lemma if_some_Ok [result_simps]: "if_some x f = Ok u \<longleftrightarrow> (\<forall>a. x = Some a \<longrightarrow> f a = Ok ())"
  by (auto simp: if_some_def split: option.splits)

lemma map_err_Ok [result_simps]: "map_err g r = Ok a \<longleftrightarrow> r = Ok a"
  by (auto simp: map_err_def split: sum.splits)

lemma is_ok_iff [result_simps]: "is_ok r \<longleftrightarrow> (\<exists>a. r = Ok a)"
  by (auto simp: is_ok_def split: sum.splits)

lemma each_from_Ok [result_simps]:
  "each_from i f xs = Ok u \<longleftrightarrow> (\<forall>j < length xs. f (i + j) (xs ! j) = Ok ())"
proof (induction xs arbitrary: i)
  case Nil
  then show ?case by simp
next
  case (Cons x xs)
  have "(\<forall>j < length (x # xs). f (i + j) ((x # xs) ! j) = Ok ()) \<longleftrightarrow>
      f i x = Ok () \<and> (\<forall>j < length xs. f (Suc i + j) (xs ! j) = Ok ())"
    by (simp add: All_less_Suc2)
  then show ?case
    using Cons.IH [of "Suc i"] by (auto split: sum.splits)
qed

declare checks.simps [simp del] each_from.simps [simp del]

text \<open>Where the success of the body does not depend on the index, the loop checks every element.\<close>

lemma each_from_all:
  assumes "\<And>i x. f i x = Ok () \<longleftrightarrow> P x"
  shows "each_from i f xs = Ok u \<longleftrightarrow> (\<forall>x \<in> set xs. P x)"
  by (simp add: each_from_Ok assms all_set_conv_all_nth)

lemma try_fold_append:
  "try_fold f s (xs @ ys) = (case try_fold f s xs of Err e \<Rightarrow> Err e | Ok s' \<Rightarrow> try_fold f s' ys)"
  by (induction xs arbitrary: s) (auto split: sum.splits)

text \<open>\<open>collect\<close> of an iterator of results: the first error, or all the values.\<close>

fun collect_results :: "('a \<Rightarrow> ('e, 'b) result) \<Rightarrow> 'a list \<Rightarrow> ('e, 'b list) result" where
  "collect_results f [] = Ok []"
| "collect_results f (x # xs) = and_then (f x) (\<lambda>y. and_then (collect_results f xs) (\<lambda>ys. Ok (y # ys)))"

lemma collect_results_Ok:
  "collect_results f xs = Ok ys \<longleftrightarrow> list_all2 (\<lambda>x y. f x = Ok y) xs ys"
  by (induction xs arbitrary: ys) (auto simp: result_simps list_all2_Cons1)

text \<open>
  The loops that reject duplicates keep a \<open>HashSet\<close> and test \<open>insert\<close>: such a loop succeeds
  when every element passes its checks and the keys are distinct.
\<close>

lemma try_fold_seen:
  assumes "\<And>s x s'. f s x = Ok s' \<longleftrightarrow> P x \<and> k x \<notin> s \<and> s' = insert (k x) s"
  shows "try_fold f s xs = Ok s' \<longleftrightarrow>
    (\<forall>x \<in> set xs. P x) \<and> distinct (map k xs) \<and> k ` set xs \<inter> s = {} \<and> s' = k ` set xs \<union> s"
proof (induction xs arbitrary: s)
  case Nil
  then show ?case by auto
next
  case (Cons x xs)
  have "try_fold f s (x # xs) = Ok s' \<longleftrightarrow>
      P x \<and> k x \<notin> s \<and> try_fold f (insert (k x) s) xs = Ok s'"
  proof (cases "f s x")
    case (Inl e)
    then show ?thesis using assms [of s x "insert (k x) s"] by simp
  next
    case (Inr b)
    then show ?thesis using assms [of s x b] by auto
  qed
  then show ?case by (auto simp: Cons.IH)
qed

end
