(* ===== verification/Ordered_Map.thy ===== *)
theory Ordered_Map
  imports Prelude
begin

text \<open>
  \<open>BTreeMap\<close> of the standard library: the entries in increasing order of their keys, as an
  association list. \<open>bt_insert\<close> replaces the value of a present key. The interface that the
  other components rely on is the locale \<open>keyed_map\<close>, interpreted here on the list and, for
  \<open>HashMap\<close> where no order is observed, on HOL's partial functions.
\<close>

section \<open>The interface of a map\<close>

lemma map_of_rev_distinct: "distinct (map fst kvs) \<Longrightarrow> map_of (rev kvs) = map_of kvs"
proof (induction kvs)
  case (Cons kv kvs)
  then have "map_of kvs (fst kv) = None" by (simp add: map_of_eq_None_iff)
  with Cons show ?case by (auto simp: fun_eq_iff map_add_def split: option.splits)
qed simp

locale keyed_map =
  fixes empty :: "'m"
    and insert_at :: "'k \<Rightarrow> 'v \<Rightarrow> 'm \<Rightarrow> 'm"
    and get :: "'m \<Rightarrow> 'k \<Rightarrow> 'v option"
    and inv :: "'m \<Rightarrow> bool"
  assumes get_empty: "get empty k = None"
    and get_insert: "inv m \<Longrightarrow> get (insert_at k v m) k' = (if k' = k then Some v else get m k')"
    and inv_empty: "inv empty"
    and inv_insert: "inv m \<Longrightarrow> inv (insert_at k v m)"
begin

text \<open>The keys a sequence of insertions leaves are those it started with and those it inserts.\<close>

definition insert_all :: "('k \<times> 'v) list \<Rightarrow> 'm \<Rightarrow> 'm" where
  "insert_all kvs m = foldl (\<lambda>m (k, v). insert_at k v m) m kvs"

lemma inv_insert_all: "inv m \<Longrightarrow> inv (insert_all kvs m)"
  unfolding insert_all_def by (induction kvs arbitrary: m) (auto intro: inv_insert)

lemma get_insert_all:
  "inv m \<Longrightarrow> get (insert_all kvs m) k = (case map_of (rev kvs) k of Some v \<Rightarrow> Some v | None \<Rightarrow> get m k)"
proof (induction kvs rule: rev_induct)
  case Nil
  then show ?case by (simp add: insert_all_def)
next
  case (snoc kv kvs)
  obtain k' v' where "kv = (k', v')" by (cases kv)
  with snoc show ?case
    using inv_insert_all [of m kvs] by (auto simp: insert_all_def get_insert)
qed

lemma get_insert_all_distinct:
  "\<lbrakk>inv m; distinct (map fst kvs)\<rbrakk> \<Longrightarrow>
    get (insert_all kvs m) k = (case map_of kvs k of Some v \<Rightarrow> Some v | None \<Rightarrow> get m k)"
  by (simp add: get_insert_all map_of_rev_distinct)

end

section \<open>Entries in key order\<close>

type_synonym ('k, 'v) btree = "('k \<times> 'v) list"

fun bt_insert :: "'k::linorder \<Rightarrow> 'v \<Rightarrow> ('k, 'v) btree \<Rightarrow> ('k, 'v) btree" where
  "bt_insert k v [] = [(k, v)]"
| "bt_insert k v ((k', v') # m) =
    (if k < k' then (k, v) # (k', v') # m
     else if k = k' then (k, v) # m
     else (k', v') # bt_insert k v m)"

definition bt_inv :: "('k::linorder, 'v) btree \<Rightarrow> bool" where
  "bt_inv m \<longleftrightarrow> sorted_wrt (<) (map fst m)"

lemma bt_inv_Nil [simp]: "bt_inv []"
  by (simp add: bt_inv_def)

lemma set_bt_insert: "fst ` set (bt_insert k v m) = insert k (fst ` set m)"
  by (induction k v m rule: bt_insert.induct) (simp_all add: insert_commute)

lemma ball_bt_insert:
  "(\<forall>x \<in> set (bt_insert k v m). P (fst x)) \<longleftrightarrow> P k \<and> (\<forall>x \<in> set m. P (fst x))"
proof -
  have "(\<forall>x \<in> set (bt_insert k v m). P (fst x)) \<longleftrightarrow> (\<forall>y \<in> fst ` set (bt_insert k v m). P y)"
    by simp
  also have "\<dots> \<longleftrightarrow> P k \<and> (\<forall>x \<in> set m. P (fst x))"
    by (simp add: set_bt_insert)
  finally show ?thesis .
qed

lemma bt_inv_insert: "bt_inv m \<Longrightarrow> bt_inv (bt_insert k v m)"
proof (induction k v m rule: bt_insert.induct)
  case (2 k v k' v' m)
  then show ?case
    using ball_bt_insert [of k v m "\<lambda>x. k' < x"] by (auto simp: bt_inv_def)
qed (simp add: bt_inv_def)

lemma map_of_bt_insert: "bt_inv m \<Longrightarrow> map_of (bt_insert k v m) = (map_of m)(k \<mapsto> v)"
  by (induction m) (auto simp: bt_inv_def fun_eq_iff)

lemma bt_inv_distinct: "bt_inv m \<Longrightarrow> distinct (map fst m)"
  by (simp add: bt_inv_def strict_sorted_iff)

text \<open>A \<open>BTreeMap\<close> is determined by what it looks up.\<close>

lemma bt_ext:
  assumes "bt_inv m" "bt_inv m'" "map_of m = map_of m'"
  shows "m = m'"
proof (rule map_sorted_distinct_set_unique [of fst])
  have "distinct (map fst m)" "distinct (map fst m')"
    using assms(1,2) by (auto intro: bt_inv_distinct)
  then have s: "set m = set m'"
    using assms(3) by (metis map_of_eqI map_of_is_SomeI map_of_SomeD subsetI subset_antisym surj_pair)
  show "set m = set m'" by (rule s)
  show "inj_on fst (set m \<union> set m')"
    using \<open>distinct (map fst m)\<close> s by (simp add: distinct_map)
  show "sorted (map fst m)" "distinct (map fst m)" "sorted (map fst m')" "distinct (map fst m')"
    using assms(1,2) by (auto simp: bt_inv_def strict_sorted_iff)
qed

interpretation bt: keyed_map "[] :: ('k::linorder, 'v) btree" bt_insert map_of bt_inv
  by unfold_locales (auto simp: map_of_bt_insert bt_inv_insert)

interpretation hm: keyed_map "Map.empty :: 'k \<rightharpoonup> 'v" "\<lambda>k v m. m(k \<mapsto> v)" "\<lambda>m k. m k" "\<lambda>_. True"
  by unfold_locales auto

end
