(* ===== verification/Rust_Strings.thy ===== *)
theory Rust_Strings
  imports Prelude
begin

text \<open>
  The operations of Rust's \<open>str\<close> and \<open>u8\<close> that the program calls, on lists of UTF-8 bytes:
  ASCII classes, \<open>chars\<close> and the Unicode classes of a character, \<open>trim\<close>, \<open>split\<close>,
  \<open>strip_prefix\<close>, \<open>contains\<close>, \<open>rfind\<close>, case mapping, and decimal printing and reading.
\<close>

section \<open>Bytes\<close>

abbreviation code :: "char \<Rightarrow> nat" where "code \<equiv> of_char"

definition is_digit :: "char \<Rightarrow> bool" where
  "is_digit c \<longleftrightarrow> 48 \<le> code c \<and> code c \<le> 57"

definition is_lower :: "char \<Rightarrow> bool" where
  "is_lower c \<longleftrightarrow> 97 \<le> code c \<and> code c \<le> 122"

definition is_upper :: "char \<Rightarrow> bool" where
  "is_upper c \<longleftrightarrow> 65 \<le> code c \<and> code c \<le> 90"

definition is_alphabetic :: "char \<Rightarrow> bool" where
  "is_alphabetic c \<longleftrightarrow> is_lower c \<or> is_upper c"

definition is_alphanumeric :: "char \<Rightarrow> bool" where
  "is_alphanumeric c \<longleftrightarrow> is_alphabetic c \<or> is_digit c"

definition is_graphic :: "char \<Rightarrow> bool" where
  "is_graphic c \<longleftrightarrow> 33 \<le> code c \<and> code c \<le> 126"

definition is_ascii_byte :: "char \<Rightarrow> bool" where
  "is_ascii_byte c \<longleftrightarrow> code c < 128"

definition is_ascii_control :: "char \<Rightarrow> bool" where
  "is_ascii_control c \<longleftrightarrow> code c < 32 \<or> code c = 127"

lemmas byte_class_defs =
  is_digit_def is_lower_def is_upper_def is_alphabetic_def is_alphanumeric_def
  is_graphic_def is_ascii_byte_def is_ascii_control_def

abbreviation is_ascii :: "string \<Rightarrow> bool" where "is_ascii \<equiv> list_all is_ascii_byte"

lemma alphanumeric_graphic: "is_alphanumeric c \<Longrightarrow> is_graphic c"
  by (auto simp: byte_class_defs)

lemma digit_alphanumeric: "is_digit c \<Longrightarrow> is_alphanumeric c"
  by (simp add: is_alphanumeric_def)

lemma graphic_ascii: "is_graphic c \<Longrightarrow> is_ascii_byte c"
  by (simp add: byte_class_defs)

definition to_lower :: "string \<Rightarrow> string" where
  "to_lower = map (\<lambda>c. if is_upper c then char_of (code c + 32) else c)"

definition to_upper :: "string \<Rightarrow> string" where
  "to_upper = map (\<lambda>c. if is_lower c then char_of (code c - 32) else c)"

section \<open>Characters\<close>

text \<open>
  \<open>chars\<close> decodes the scalar values. A Rust \<open>str\<close> is well-formed UTF-8; the clauses for
  malformed input only make the function total.
\<close>

fun chars :: "string \<Rightarrow> nat list" where
  "chars [] = []"
| "chars (a # s) =
    (if code a < 128 then code a # chars s
     else if code a < 224 then
       (case s of b # s' \<Rightarrow> ((code a - 192) * 64 + (code b - 128)) # chars s' | _ \<Rightarrow> [code a])
     else if code a < 240 then
       (case s of b # c # s' \<Rightarrow>
          ((code a - 224) * 4096 + (code b - 128) * 64 + (code c - 128)) # chars s'
        | _ \<Rightarrow> [code a])
     else
       (case s of b # c # d # s' \<Rightarrow>
          ((code a - 240) * 262144 + (code b - 128) * 4096 + (code c - 128) * 64
            + (code d - 128)) # chars s'
        | _ \<Rightarrow> [code a]))"

definition is_control :: "nat \<Rightarrow> bool" where
  "is_control n \<longleftrightarrow> n < 32 \<or> (127 \<le> n \<and> n < 160)"

lemma chars_ascii: "is_ascii s \<Longrightarrow> chars s = map code s"
  by (induction s) (auto simp: is_ascii_byte_def)

text \<open>The bytes of the leading white space character (the Unicode property), 0 when there is none.\<close>

fun space_width :: "nat list \<Rightarrow> nat" where
  "space_width (a # s) =
    (if (9 \<le> a \<and> a \<le> 13) \<or> a = 32 then 1
     else if a = 194 then (case s of b # _ \<Rightarrow> if b = 133 \<or> b = 160 then 2 else 0 | _ \<Rightarrow> 0)
     else if a = 225 then
       (case s of b # c # _ \<Rightarrow> if b = 154 \<and> c = 128 then 3 else 0 | _ \<Rightarrow> 0)
     else if a = 226 then
       (case s of b # c # _ \<Rightarrow>
          if (b = 128 \<and> ((128 \<le> c \<and> c \<le> 138) \<or> c = 168 \<or> c = 169 \<or> c = 175))
            \<or> (b = 129 \<and> c = 159) then 3 else 0
        | _ \<Rightarrow> 0)
     else if a = 227 then
       (case s of b # c # _ \<Rightarrow> if b = 128 \<and> c = 128 then 3 else 0 | _ \<Rightarrow> 0)
     else 0)"
| "space_width [] = 0"

text \<open>The same for the trailing character, on the reversed bytes.\<close>

definition space_width_rev :: "nat list \<Rightarrow> nat" where
  "space_width_rev s =
    (if space_width (rev (take 1 s)) = 1 then 1
     else if space_width (rev (take 2 s)) = 2 then 2
     else if space_width (rev (take 3 s)) = 3 then 3 else 0)"

function trim_start :: "string \<Rightarrow> string" where
  "trim_start s = (let n = space_width (map code s) in
     if n = 0 \<or> s = [] then s else trim_start (drop n s))"
  by pat_completeness auto
termination
  by (relation "measure length") (auto simp: Let_def)

function trim_start_rev :: "string \<Rightarrow> string" where
  "trim_start_rev s = (let n = space_width_rev (map code s) in
     if n = 0 \<or> s = [] then s else trim_start_rev (drop n s))"
  by pat_completeness auto
termination
  by (relation "measure length") (auto simp: Let_def)

declare trim_start.simps [simp del] trim_start_rev.simps [simp del]

definition trim_end :: "string \<Rightarrow> string" where
  "trim_end s = rev (trim_start_rev (rev s))"

definition trim :: "string \<Rightarrow> string" where
  "trim s = trim_end (trim_start s)"

lemma trim_start_graphic: "is_graphic c \<Longrightarrow> trim_start (c # s) = c # s"
  by (subst trim_start.simps) (auto simp: is_graphic_def)

lemma space_width_visible:
  assumes "33 \<le> a" "a < 128"
  shows "space_width (xs @ [a]) \<le> length xs"
  using assms
  by (cases xs; cases "tl xs"; cases "tl (tl xs)") (auto split: list.splits)

lemma space_width_rev_visible:
  assumes "33 \<le> a" "a < 128"
  shows "space_width_rev (a # s) = 0"
proof -
  have "space_width (rev (take (Suc n) (a # s))) < Suc n" for n
    using space_width_visible [OF assms, of "rev (take n s)"] by simp
  from this [of 0] this [of 1] this [of 2] show ?thesis
    by (simp add: space_width_rev_def numeral_2_eq_2 numeral_3_eq_3)
qed

lemma trim_end_graphic: "is_graphic c \<Longrightarrow> trim_end (s @ [c]) = s @ [c]"
  unfolding trim_end_def
  by (subst trim_start_rev.simps) (simp add: is_graphic_def space_width_rev_visible)

lemma trim_Nil [simp]: "trim [] = []"
  by (simp add: trim_def trim_end_def trim_start.simps [of "[]"] trim_start_rev.simps [of "[]"])

lemma trim_graphic_ends:
  assumes "s \<noteq> []" "is_graphic (hd s)" "is_graphic (last s)"
  shows "trim s = s"
proof -
  have "trim_start s = s" using assms by (cases s) (auto simp: trim_start_graphic)
  moreover have "trim_end s = s"
    using assms trim_end_graphic [of "last s" "butlast s"] by simp
  ultimately show ?thesis by (simp add: trim_def)
qed

lemma trim_graphic: "list_all is_graphic s \<Longrightarrow> trim s = s"
  by (cases "s = []") (auto simp: list_all_iff intro!: trim_graphic_ends)

lemma space_width_rev_space: "space_width_rev (32 # s) = 1"
  by (simp add: space_width_rev_def)

text \<open>One blank after visible text is dropped.\<close>

lemma trim_trailing_blank:
  assumes "list_all is_graphic s"
  shows "trim (s @ '' '') = s"
proof (cases "s = []")
  case True
  have "trim_start '' '' = []"
    by (subst trim_start.simps) (simp add: trim_start.simps [of "[]"])
  then show ?thesis
    using True by (simp add: trim_def trim_end_def trim_start_rev.simps [of "[]"])
next
  case False
  then have g: "is_graphic (hd s)" "is_graphic (last s)"
    using assms by (auto simp: list_all_iff)
  have "trim_start (s @ '' '') = s @ '' ''"
    using False g by (cases s) (auto simp: trim_start_graphic)
  moreover have "trim_end (s @ '' '') = s"
  proof -
    have "trim_start_rev (CHR '' '' # rev s) = trim_start_rev (rev s)"
      by (subst trim_start_rev.simps) (simp add: space_width_rev_space)
    then show ?thesis
      using trim_end_graphic [OF g(2), of "butlast s"] False by (simp add: trim_end_def)
  qed
  ultimately show ?thesis by (simp add: trim_def)
qed

section \<open>Prefixes, suffixes and searching\<close>

definition starts_with :: "string \<Rightarrow> string \<Rightarrow> bool" where
  "starts_with p s \<longleftrightarrow> take (length p) s = p"

definition ends_with :: "string \<Rightarrow> string \<Rightarrow> bool" where
  "ends_with p s \<longleftrightarrow> starts_with (rev p) (rev s)"

fun strip_prefix :: "string \<Rightarrow> string \<Rightarrow> string option" where
  "strip_prefix [] s = Some s"
| "strip_prefix (p # ps) [] = None"
| "strip_prefix (p # ps) (c # s) = (if p = c then strip_prefix ps s else None)"

definition strip_suffix :: "string \<Rightarrow> string \<Rightarrow> string option" where
  "strip_suffix p s = map_option rev (strip_prefix (rev p) (rev s))"

fun contains :: "string \<Rightarrow> string \<Rightarrow> bool" where
  "contains p [] = (p = [])"
| "contains p (c # s) = (starts_with p (c # s) \<or> contains p s)"

text \<open>The byte offset of the last occurrence.\<close>

fun rfind :: "string \<Rightarrow> string \<Rightarrow> nat option" where
  "rfind p [] = (if p = [] then Some 0 else None)"
| "rfind p (c # s) = (case rfind p s of
      Some n \<Rightarrow> Some (Suc n)
    | None \<Rightarrow> if starts_with p (c # s) then Some 0 else None)"

lemma strip_prefix_Some: "strip_prefix p s = Some t \<longleftrightarrow> s = p @ t"
  by (induction p s rule: strip_prefix.induct) auto

lemma strip_prefix_append [simp]: "strip_prefix p (p @ t) = Some t"
  by (simp add: strip_prefix_Some)

lemma strip_suffix_Some: "strip_suffix p s = Some t \<longleftrightarrow> s = t @ p"
proof -
  have "strip_suffix p s = Some t \<longleftrightarrow> rev s = rev p @ rev t"
    by (auto simp: strip_suffix_def strip_prefix_Some)
  also have "\<dots> \<longleftrightarrow> s = t @ p"
    by (simp only: rev_append [symmetric] rev_is_rev_conv)
  finally show ?thesis .
qed

lemma starts_with_iff: "starts_with p s \<longleftrightarrow> (\<exists>t. s = p @ t)"
  unfolding starts_with_def by (metis append_eq_conv_conj append_take_drop_id)

lemma starts_with_append [simp]: "starts_with p (p @ t)"
  by (simp add: starts_with_iff)

lemma contains_iff: "contains p s \<longleftrightarrow> (\<exists>u v. s = u @ p @ v)"
proof (induction s)
  case Nil
  then show ?case by auto
next
  case (Cons c s)
  have "(\<exists>u v. c # s = u @ p @ v) \<longleftrightarrow> (\<exists>v. c # s = p @ v) \<or> (\<exists>u v. s = u @ p @ v)"
    by (auto simp: Cons_eq_append_conv)
  with Cons show ?case by (auto simp: starts_with_iff)
qed

lemma rfind_None: "rfind p s = None \<longleftrightarrow> \<not> contains p s"
  by (induction s) (auto split: option.splits if_splits)

lemma rfind_Some_starts: "rfind p s = Some n \<Longrightarrow> starts_with p (drop n s) \<and> n \<le> length s"
  by (induction s arbitrary: n) (auto simp: starts_with_def split: option.splits if_splits)

text \<open>
  The last occurrence is where the text after it has no further one: \<open>rfind\<close> finds the marker of
  \<open>u @ p @ v\<close> when \<open>p\<close> does not occur in what follows its first byte.
\<close>

lemma rfind_append:
  assumes "p \<noteq> []" "\<not> contains p (tl (p @ v))"
  shows "rfind p (u @ p @ v) = Some (length u)"
proof (induction u)
  case Nil
  obtain c p' where p: "p = c # p'" using assms(1) by (cases p) auto
  have "rfind p (p' @ v) = None" using assms(2) by (simp add: rfind_None p)
  then show ?case using starts_with_append [of p v] by (simp add: p)
next
  case (Cons c u)
  then show ?case by simp
qed

section \<open>Splitting at a byte\<close>

fun split_on :: "char \<Rightarrow> string \<Rightarrow> string list" where
  "split_on d [] = [[]]"
| "split_on d (c # s) =
    (if c = d then [] # split_on d s
     else (case split_on d s of [] \<Rightarrow> [[c]] | w # ws \<Rightarrow> (c # w) # ws))"

fun join_with :: "char \<Rightarrow> string list \<Rightarrow> string" where
  "join_with d [] = []"
| "join_with d [w] = w"
| "join_with d (w # v # ws) = w @ d # join_with d (v # ws)"

lemma split_on_nonempty [simp]: "split_on d s \<noteq> []"
  by (cases s) (auto split: list.splits)

lemma join_split [simp]: "join_with d (split_on d s) = s"
proof (induction s)
  case (Cons c s)
  obtain w ws where "split_on d s = w # ws" by (cases "split_on d s") auto
  with Cons show ?case by (cases ws) auto
qed simp

lemma split_on_no_sep: "d \<notin> set s \<Longrightarrow> split_on d s = [s]"
  by (induction s) auto

lemma split_on_append: "d \<notin> set w \<Longrightarrow> split_on d (w @ d # s) = w # split_on d s"
  by (induction w) auto

lemma split_join:
  "\<lbrakk>ws \<noteq> []; \<forall>w \<in> set ws. d \<notin> set w\<rbrakk> \<Longrightarrow> split_on d (join_with d ws) = ws"
  by (induction d ws rule: join_with.induct) (auto simp: split_on_no_sep split_on_append)

lemma split_on_no_sep_in: "w \<in> set (split_on d s) \<Longrightarrow> d \<notin> set w"
  by (induction s arbitrary: w) (auto split: if_splits list.splits)

lemma set_split_on: "w \<in> set (split_on d s) \<Longrightarrow> set w \<subseteq> set s"
  by (induction s arbitrary: w) (auto split: if_splits list.splits, blast)

section \<open>Decimal numbers\<close>

definition digit_char :: "nat \<Rightarrow> char" where
  "digit_char n = char_of (48 + n)"

definition digit_value :: "char \<Rightarrow> nat" where
  "digit_value c = code c - 48"

fun nat_str :: "nat \<Rightarrow> string" where
  "nat_str n = (if n < 10 then [digit_char n] else nat_str (n div 10) @ [digit_char (n mod 10)])"

declare nat_str.simps [simp del]

definition int_str :: "int \<Rightarrow> string" where
  "int_str i = (if i < 0 then CHR ''-'' # nat_str (nat (- i)) else nat_str (nat i))"

text \<open>\<open>BigInt::parse_bytes\<close> in base ten, on a string of digits.\<close>

definition dec_value :: "string \<Rightarrow> nat" where
  "dec_value s = foldl (\<lambda>n c. 10 * n + digit_value c) 0 s"

lemma code_digit_char: "n < 10 \<Longrightarrow> code (digit_char n) = 48 + n"
  by (simp add: digit_char_def)

lemma digit_char_eval:
  "digit_char 0 = CHR ''0''" "digit_char 1 = CHR ''1''" "digit_char (Suc 0) = CHR ''1''" "digit_char 2 = CHR ''2''"
  "digit_char 3 = CHR ''3''" "digit_char 4 = CHR ''4''" "digit_char 5 = CHR ''5''" "digit_char 6 = CHR ''6''"
  "digit_char 7 = CHR ''7''" "digit_char 8 = CHR ''8''" "digit_char 9 = CHR ''9''"
  by code_simp+

lemma digit_value_char [simp]: "n < 10 \<Longrightarrow> digit_value (digit_char n) = n"
  by (simp add: digit_value_def code_digit_char)

lemma is_digit_char [simp]: "n < 10 \<Longrightarrow> is_digit (digit_char n)"
  by (simp add: is_digit_def code_digit_char)

lemma nat_str_digits: "list_all is_digit (nat_str n)"
proof (induction n rule: nat_str.induct)
  case (1 n)
  then show ?case by (subst nat_str.simps) auto
qed

lemma nat_str_nonempty [simp]: "nat_str n \<noteq> []"
  by (subst nat_str.simps) simp

lemma dec_value_snoc [simp]: "dec_value (s @ [c]) = 10 * dec_value s + digit_value c"
  by (simp add: dec_value_def)

lemma dec_value_Nil [simp]: "dec_value [] = 0"
  by (simp add: dec_value_def)

lemma dec_value_nat_str [simp]: "dec_value (nat_str n) = n"
proof (induction n rule: nat_str.induct)
  case (1 n)
  show ?case
  proof (cases "n < 10")
    case True
    then show ?thesis
      using dec_value_snoc [of "[]" "digit_char n"] by (simp add: nat_str.simps [of n])
  next
    case False
    with 1 show ?thesis by (simp add: nat_str.simps [of n])
  qed
qed

lemma dec_value_append: "dec_value (s @ t) = dec_value s * 10 ^ length t + dec_value t"
  by (induction t rule: rev_induct)
    (simp_all add: append_assoc [symmetric] algebra_simps del: append_assoc)

lemma nat_str_inj [simp]: "nat_str m = nat_str n \<longleftrightarrow> m = n"
  by (metis dec_value_nat_str)

lemma digits_graphic: "list_all is_digit s \<Longrightarrow> list_all is_graphic s"
  by (auto simp: list_all_iff is_digit_def is_graphic_def)

end
