(* ===== verification/Json.thy ===== *)
theory Json
  imports Ordered_Map Rust_Strings
begin

text \<open>
  The JSON values of \<open>serde_json\<close> that the program inspects and builds. An object is a
  \<open>BTreeMap\<close> (the crate is built without \<open>preserve_order\<close>), so its members come in key order.
  A number is one of the three representations of \<open>serde_json::Number\<close>; the floating-point one
  is carried by its shortest decimal text, the text that \<open>to_string\<close> prints.
\<close>

datatype jnum = PosInt "64 word" | NegInt int | Float string

datatype json =
    JNull
  | JBool bool
  | JNum jnum
  | JStr string
  | JArr "json list"
  | JObj "(string \<times> json) list"

type_synonym jmap = "(string \<times> json) list"

fun num_str :: "jnum \<Rightarrow> string" where
  "num_str (PosInt n) = nat_str (unat n)"
| "num_str (NegInt i) = int_str i"
| "num_str (Float s) = s"

definition bool_str :: "bool \<Rightarrow> string" where
  "bool_str b = (if b then ''true'' else ''false'')"

fun as_object :: "json \<Rightarrow> jmap option" where
  "as_object (JObj m) = Some m"
| "as_object _ = None"

fun as_array :: "json \<Rightarrow> json list option" where
  "as_array (JArr vs) = Some vs"
| "as_array _ = None"

fun as_str :: "json \<Rightarrow> string option" where
  "as_str (JStr s) = Some s"
| "as_str _ = None"

fun as_bool :: "json \<Rightarrow> bool option" where
  "as_bool (JBool b) = Some b"
| "as_bool _ = None"

fun is_boolean :: "json \<Rightarrow> bool" where
  "is_boolean (JBool _) = True"
| "is_boolean _ = False"

text \<open>\<open>Map::get\<close>, and \<open>Value::get\<close> with a member name, which is \<open>None\<close> for a non-object.\<close>

definition member :: "string \<Rightarrow> jmap \<Rightarrow> json option" where
  "member k m = map_of m k"

definition field :: "string \<Rightarrow> json \<Rightarrow> json option" where
  "field k v = Option.bind (as_object v) (member k)"

text \<open>\<open>Option::or_else\<close>, and \<open>Iterator::find_map\<close>.\<close>

fun or_else :: "'a option \<Rightarrow> 'a option \<Rightarrow> 'a option" where
  "or_else None y = y"
| "or_else (Some x) y = Some x"

fun find_map :: "('a \<Rightarrow> 'b option) \<Rightarrow> 'a list \<Rightarrow> 'b option" where
  "find_map f [] = None"
| "find_map f (x # xs) = or_else (f x) (find_map f xs)"

lemma find_map_cong [fundef_cong]:
  "\<lbrakk>xs = ys; \<And>x. x \<in> set ys \<Longrightarrow> f x = g x\<rbrakk> \<Longrightarrow> find_map f xs = find_map g ys"
  by (induction ys arbitrary: xs) auto

lemma find_map_Some: "find_map f xs = Some y \<Longrightarrow> \<exists>x \<in> set xs. f x = Some y"
  by (induction xs) (auto elim: or_else.elims)

definition filter_opt :: "('a \<Rightarrow> bool) \<Rightarrow> 'a option \<Rightarrow> 'a option" where
  "filter_opt p x = (case x of Some a \<Rightarrow> if p a then Some a else None | None \<Rightarrow> None)"

text \<open>An object built by the \<open>serde\<close> derive: optional members are skipped when absent.\<close>

definition members :: "(string \<times> json option) list \<Rightarrow> json" where
  "members kvs = JObj (foldl (\<lambda>m (k, v). case v of None \<Rightarrow> m | Some j \<Rightarrow> bt_insert k j m) [] kvs)"

definition nullable :: "('a \<Rightarrow> json) \<Rightarrow> 'a option \<Rightarrow> json" where
  "nullable f x = (case x of None \<Rightarrow> JNull | Some a \<Rightarrow> f a)"

lemma nullable_inj: "(\<And>a b. f a = f b \<Longrightarrow> a = b) \<Longrightarrow> (\<And>a. f a \<noteq> JNull) \<Longrightarrow>
    nullable f x = nullable f y \<longleftrightarrow> x = y"
  by (cases x; cases y) (auto simp: nullable_def dest: sym)

lemma nullable_str [simp]: "nullable JStr x = nullable JStr y \<longleftrightarrow> x = y"
  by (rule nullable_inj) auto

definition present :: "(string \<times> json option) list \<Rightarrow> (string \<times> json) list" where
  "present kvs = map (\<lambda>(k, v). (k, the v)) (filter (\<lambda>(k, v). v \<noteq> None) kvs)"

lemma members_present: "members kvs = JObj (bt.insert_all (present kvs) [])"
proof -
  have "foldl (\<lambda>m (k, v). case v of None \<Rightarrow> m | Some j \<Rightarrow> bt_insert k j m) m kvs
      = bt.insert_all (present kvs) m" for m
    by (induction kvs arbitrary: m) (auto simp: bt.insert_all_def present_def split: option.splits)
  then show ?thesis by (simp add: members_def)
qed

lemma present_keys: "distinct (map fst kvs) \<Longrightarrow> distinct (map fst (present kvs))"
  by (induction kvs) (auto simp: present_def rev_image_eqI)

lemma map_of_present: "distinct (map fst kvs) \<Longrightarrow> map_of (present kvs) k = Option.bind (map_of kvs k) id"
proof (induction kvs)
  case (Cons kv kvs)
  have "map_of kvs (fst kv) = None" using Cons.prems by (simp add: map_of_eq_None_iff)
  with Cons show ?case by (cases kv) (auto simp: present_def)
qed (simp add: present_def)

lemma field_members:
  assumes "distinct (map fst kvs)"
  shows "field k (members kvs) = Option.bind (map_of kvs k) id"
  using bt.get_insert_all_distinct [OF bt.inv_empty present_keys [OF assms], of k] map_of_present [OF assms, of k]
  by (simp add: members_present field_def member_def split: option.splits)

text \<open>The object determines the values, so an identity is the tuple of its members.\<close>

lemma members_inj:
  assumes "members kvs = members kvs'" "map fst kvs = map fst kvs'" "distinct (map fst kvs)"
  shows "kvs = kvs'"
proof (rule nth_equalityI)
  show len: "length kvs = length kvs'" using assms(2) by (metis length_map)
  fix i assume i: "i < length kvs"
  have keys: "fst (kvs ! i) = fst (kvs' ! i)" using assms(2) i len by (metis nth_map)
  have look: "map_of xs (fst (xs ! i)) = Some (snd (xs ! i))"
    if "distinct (map fst xs)" "i < length xs" for xs :: "(string \<times> json option) list"
    using that by simp
  have "map_of kvs (fst (kvs' ! i)) = Some (snd (kvs ! i))"
    using look [OF assms(3) i] by (simp only: keys)
  moreover have "map_of kvs' (fst (kvs' ! i)) = Some (snd (kvs' ! i))"
    using look [of kvs'] assms(2,3) i len by simp
  moreover have "Option.bind (map_of kvs k) id = Option.bind (map_of kvs' k) id" for k
    using assms field_members by metis
  ultimately have "snd (kvs ! i) = snd (kvs' ! i)" by (metis bind.bind_lunit id_apply)
  with keys show "kvs ! i = kvs' ! i" by (simp add: prod_eq_iff)
qed

end
