(* ===== verification/Catalog_Types.thy ===== *)
theory Catalog_Types
  imports Json
begin

text \<open>
  The data of the catalog that other components refer to (\<open>src/src/catalog.rs\<close>): the Onshape
  source of a model, its identity key, and the overrides of a parameter.
\<close>

datatype element_kind = PartStudio | Assembly

fun element_kind_key :: "element_kind \<Rightarrow> string" where
  "element_kind_key PartStudio = ''part_studio''"
| "element_kind_key Assembly = ''assembly''"

record onshape_source =
  src_document_id :: string
  src_version_id :: string
  src_element_id :: string
  src_element_kind :: element_kind
  src_link_document_id :: "string option"

definition identity_key :: "onshape_source \<Rightarrow> string" where
  "identity_key s = (case src_link_document_id s of
      Some link \<Rightarrow> element_kind_key (src_element_kind s) @ '':'' @ src_document_id s @ '':''
        @ src_version_id s @ '':'' @ src_element_id s @ '':'' @ link
    | None \<Rightarrow> element_kind_key (src_element_kind s) @ '':'' @ src_document_id s @ '':''
        @ src_version_id s @ '':'' @ src_element_id s)"

record parameter_override =
  ov_label :: "string option"
  ov_description :: "string option"
  ov_hidden :: bool
  ov_precision :: "32 word option"
  ov_widget :: "string option"

text \<open>
  The key is the join of its parts at the colon, so it identifies the source as soon as no part
  holds a colon.
\<close>

definition identity_parts :: "onshape_source \<Rightarrow> string list" where
  "identity_parts s = [element_kind_key (src_element_kind s), src_document_id s,
     src_version_id s, src_element_id s] @ (case src_link_document_id s of None \<Rightarrow> [] | Some l \<Rightarrow> [l])"

lemma identity_key_join: "identity_key s = join_with CHR '':'' (identity_parts s)"
  by (simp add: identity_key_def identity_parts_def split: option.splits)

lemma element_kind_key_inj: "element_kind_key k = element_kind_key k' \<longleftrightarrow> k = k'"
  by (cases k; cases k') auto

lemma identity_parts_inj: "identity_parts s = identity_parts s' \<longleftrightarrow> s = s'"
  by (auto simp: identity_parts_def element_kind_key_inj split: option.splits)

lemma identity_key_no_colon:
  assumes "\<forall>w \<in> set (identity_parts s). CHR '':'' \<notin> set w"
    and "\<forall>w \<in> set (identity_parts s'). CHR '':'' \<notin> set w"
    and "identity_key s = identity_key s'"
  shows "s = s'"
proof -
  have "identity_parts s = split_on CHR '':'' (identity_key s)"
    using assms(1) unfolding identity_key_join by (intro split_join [symmetric]) (auto simp: identity_parts_def)
  moreover have "identity_parts s' = split_on CHR '':'' (identity_key s')"
    using assms(2) unfolding identity_key_join by (intro split_join [symmetric]) (auto simp: identity_parts_def)
  ultimately show ?thesis using assms(3) by (simp flip: identity_parts_inj)
qed

end
