(* ===== verification/Decimal.thy ===== *)
theory Decimal
  imports Rust_Strings
begin

text \<open>
  Decimal text and exact rationals (\<open>src/src/parameters.rs\<close>): \<open>parse_decimal_rational\<close>,
  \<open>rational_decimal_string\<close> and \<open>rational_parts\<close>. A \<open>BigRational\<close> is a \<open>rat\<close>; its reduced
  numerator and positive denominator are \<open>quotient_of\<close>.

  \<open>rational_decimal_string\<close> contains a long-division loop that stops only when the expansion
  terminates, so its model is partial: the outer \<open>None\<close> is a loop that never returns, the inner
  \<open>None\<close> the \<open>None\<close> the function returns. The lemmas show that the outer one never happens and
  that printing and parsing are inverse.
\<close>

section \<open>Parsing\<close>

definition sign_split :: "string \<Rightarrow> bool \<times> string" where
  "sign_split s = (case s of
      [] \<Rightarrow> (False, [])
    | c # rest \<Rightarrow> if c = CHR ''-'' then (True, rest)
        else if c = CHR ''+'' then (False, rest) else (False, s))"

definition parse_decimal_rational :: "string \<Rightarrow> rat option" where
  "parse_decimal_rational value =
    (let trimmed = trim value in
     if trimmed = [] then None
     else let (negative, unsigned) = sign_split trimmed in
     if unsigned = [] then None
     else (case split_on CHR ''.'' unsigned of
         [] \<Rightarrow> None
       | integer # pieces \<Rightarrow>
           if 2 \<le> length pieces then None
           else let fractional = (case pieces of [] \<Rightarrow> [] | f # _ \<Rightarrow> f) in
           if integer = [] \<and> fractional = [] then None
           else if \<not> list_all is_digit integer \<or> \<not> list_all is_digit fractional then None
           else let digits = integer @ fractional;
                    numerator = int (dec_value digits);
                    numerator = (if negative then - numerator else numerator)
                in Some (Fract numerator (10 ^ length fractional))))"

section \<open>Printing\<close>

text \<open>The loop that divides a factor out; a denominator is never zero.\<close>

function strip_factor :: "nat \<Rightarrow> nat \<Rightarrow> nat" where
  "strip_factor p n = (if n mod p = 0 \<and> 0 < n \<and> 1 < p then strip_factor p (n div p) else n)"
  by pat_completeness auto
termination
  by (relation "measure snd") auto

declare strip_factor.simps [simp del]

text \<open>The long-division loop over the remainder.\<close>

partial_function (option) frac_digits :: "nat \<Rightarrow> nat \<Rightarrow> string \<Rightarrow> string option" where
  "frac_digits d r acc =
    (if r = 0 then Some acc
     else frac_digits d (r * 10 mod d) (acc @ nat_str (r * 10 div d)))"

declare frac_digits.simps [code]

definition strip_zeros :: "string \<Rightarrow> string" where
  "strip_zeros s = rev (dropWhile (\<lambda>c. c = CHR ''0'') (rev s))"

definition rational_decimal_string :: "rat \<Rightarrow> string option option" where
  "rational_decimal_string v =
    (let (n, d) = quotient_of v in
     if strip_factor 5 (strip_factor 2 (nat d)) \<noteq> 1 then Some None
     else let sign = (if n < 0 then ''-'' else '''');
              numerator = nat \<bar>n\<bar>;
              integer = numerator div nat d;
              remainder = numerator mod nat d
          in if remainder = 0
             then Some (Some (if integer = 0 then ''0'' else sign @ nat_str integer))
             else do {
               fractional \<leftarrow> frac_digits (nat d) remainder [];
               let fractional = strip_zeros fractional;
               Some (Some (if integer = 0 \<and> sign = ''-'' \<and> list_all (\<lambda>b. b = CHR ''0'') fractional
                 then ''0'' else sign @ nat_str integer @ ''.'' @ fractional))
             })"

definition rational_parts :: "rat \<Rightarrow> string \<times> string" where
  "rational_parts v = (let (n, d) = quotient_of v in (int_str n, int_str d))"

section \<open>Terminating expansions\<close>

text \<open>The rationals with a finite decimal expansion.\<close>

definition finite_decimal :: "rat \<Rightarrow> bool" where
  "finite_decimal v \<longleftrightarrow> (\<exists>k. snd (quotient_of v) dvd 10 ^ k)"

lemma strip_factor_spec:
  assumes "0 < n" "1 < p"
  shows "\<exists>k. n = p ^ k * strip_factor p n \<and> \<not> p dvd strip_factor p n"
  using assms
proof (induction p n rule: strip_factor.induct)
  case (1 p n)
  show ?case
  proof (cases "p dvd n")
    case True
    then have "0 < n div p" using 1 by (auto elim!: dvdE)
    with 1 True obtain k where k: "n div p = p ^ k * strip_factor p (n div p)"
      "\<not> p dvd strip_factor p (n div p)"
      by (auto simp: dvd_eq_mod_eq_0)
    have e: "strip_factor p n = strip_factor p (n div p)"
      using True 1 by (subst strip_factor.simps) (simp add: dvd_eq_mod_eq_0)
    have "n = p * (n div p)" using True by simp
    also have "\<dots> = p ^ Suc k * strip_factor p n"
      by (subst k(1)) (simp add: e)
    finally show ?thesis using k(2) e by metis
  next
    case False
    then have "strip_factor p n = n"
      by (subst strip_factor.simps) (simp add: dvd_eq_mod_eq_0)
    with False show ?thesis by (intro exI [of _ 0]) simp
  qed
qed

lemma coprime_5:
  assumes "\<not> 5 dvd (n::nat)"
  shows "coprime n 5"
proof -
  have "n mod 5 \<in> {1, 2, 3, 4}" using assms by (simp add: dvd_eq_mod_eq_0) presburger
  moreover have "gcd n 5 = gcd 5 (n mod 5)" by (metis gcd.commute gcd_red_nat)
  ultimately show ?thesis
    by (auto simp: coprime_iff_gcd_eq_1 gcd_non_0_nat)
qed

lemma strip_25_iff:
  assumes "0 < (d::nat)"
  shows "strip_factor 5 (strip_factor 2 d) = 1 \<longleftrightarrow> (\<exists>k. d dvd 10 ^ k)"
proof -
  let ?e = "strip_factor 2 d" and ?f = "strip_factor 5 (strip_factor 2 d)"
  obtain a where a: "d = 2 ^ a * ?e" "\<not> 2 dvd ?e"
    using strip_factor_spec [OF assms, of 2] by auto
  then have e: "0 < ?e" using assms by (metis gr0I mult_0_right)
  obtain b where b: "?e = 5 ^ b * ?f" "\<not> 5 dvd ?f"
    using strip_factor_spec [OF e, of 5] by auto
  have d: "d = 2 ^ a * 5 ^ b * ?f" using a(1) b(1) by (metis mult.assoc)
  show ?thesis
  proof
    assume "?f = 1"
    then have "d = 2 ^ a * 5 ^ b" using d by simp
    also have "\<dots> dvd 2 ^ (a + b) * 5 ^ (a + b)"
      by (intro mult_dvd_mono le_imp_power_dvd) auto
    also have "\<dots> = 10 ^ (a + b)" by (simp flip: power_mult_distrib)
    finally show "\<exists>k. d dvd 10 ^ k" ..
  next
    assume "\<exists>k. d dvd 10 ^ k"
    then obtain k where "d dvd 10 ^ k" ..
    then have "?f dvd 10 ^ k" by (metis d dvd_mult_right)
    moreover have "\<not> 2 dvd ?f" using a(2) b(1) by (metis dvd_mult)
    then have "coprime ?f 2" by simp
    moreover have "coprime ?f 5" using b(2) by (rule coprime_5)
    ultimately have "coprime ?f (2 * 5)" by (simp only: coprime_mult_right_iff)
    then have "coprime ?f (10 ^ k)" by simp
    with \<open>?f dvd 10 ^ k\<close> show "?f = 1" by (metis coprime_common_divisor_nat dvd_refl)
  qed
qed

section \<open>The long-division loop\<close>

lemma nat_str_digit: "n < 10 \<Longrightarrow> nat_str n = [digit_char n]"
  by (simp add: nat_str.simps)

lemma dec_value_Cons: "dec_value (c # s) = digit_value c * 10 ^ length s + dec_value s"
  using dec_value_append [of "[c]" s] dec_value_snoc [of "[]" c] by simp

text \<open>
  From a remainder \<open>r\<close> the loop returns as soon as \<open>d\<close> divides \<open>r * 10 ^ k\<close> for some \<open>k\<close>; the digits
  it appends are the expansion of \<open>r / d\<close>, and the last of them is not zero.
\<close>

lemma frac_digits_returns:
  assumes "r < d" "d dvd r * 10 ^ k"
  shows "\<exists>ds. frac_digits d r acc = Some (acc @ ds) \<and> list_all is_digit ds
    \<and> dec_value ds * d = r * 10 ^ length ds \<and> (r \<noteq> 0 \<longrightarrow> ds \<noteq> [] \<and> last ds \<noteq> CHR ''0'')
    \<and> (r = 0 \<longrightarrow> ds = [])"
  using assms
proof (induction k arbitrary: r acc)
  case 0
  then have "r = 0" by (auto dest: dvd_imp_le)
  then show ?case by (simp add: frac_digits.simps)
next
  case (Suc k)
  show ?case
  proof (cases "r = 0")
    case True
    then show ?thesis by (simp add: frac_digits.simps)
  next
    case False
    define q where "q = r * 10 div d"
    define r' where "r' = r * 10 mod d"
    have q: "q < 10" using Suc.prems(1) by (simp add: q_def less_mult_imp_div_less)
    have split: "r * 10 = q * d + r'" by (simp add: q_def r'_def)
    have r': "r' < d" using Suc.prems(1) by (simp add: r'_def)
    have "d dvd (q * d + r') * 10 ^ k"
      using Suc.prems(2) split by (metis mult.assoc power_Suc)
    then have "d dvd r' * 10 ^ k"
      by (simp add: algebra_simps dvd_add_left_iff)
    then obtain ds where ds: "frac_digits d r' (acc @ [digit_char q]) = Some (acc @ digit_char q # ds)"
      "list_all is_digit ds" "dec_value ds * d = r' * 10 ^ length ds"
      "r' \<noteq> 0 \<longrightarrow> ds \<noteq> [] \<and> last ds \<noteq> CHR ''0''" "r' = 0 \<longrightarrow> ds = []"
      using Suc.IH [OF r'] by fastforce
    have "frac_digits d r acc = Some (acc @ digit_char q # ds)"
      using False q ds(1) by (subst frac_digits.simps) (simp add: nat_str_digit flip: q_def r'_def)
    moreover have "dec_value (digit_char q # ds) * d = r * 10 ^ length (digit_char q # ds)"
    proof -
      have "dec_value (digit_char q # ds) * d = (q * d + r') * 10 ^ length ds"
        using q ds(3) by (simp add: dec_value_Cons algebra_simps)
      also have "\<dots> = r * 10 ^ length (digit_char q # ds)" by (simp flip: split)
      finally show ?thesis .
    qed
    moreover have "last (digit_char q # ds) \<noteq> CHR ''0''"
    proof (cases "r' = 0")
      case True
      then have "q \<noteq> 0" using split False by (intro notI) simp
      then have "code (digit_char q) \<noteq> 48" using q by (simp add: code_digit_char)
      then have "digit_char q \<noteq> CHR ''0''" by auto
      then show ?thesis using True ds(5) by simp
    qed (use ds(4) in simp)
    ultimately show ?thesis
      using q ds(2) False by (intro exI [of _ "digit_char q # ds"]) simp
  qed
qed

lemma strip_zeros_id: "s \<noteq> [] \<Longrightarrow> last s \<noteq> CHR ''0'' \<Longrightarrow> strip_zeros s = s"
  unfolding strip_zeros_def by (cases "rev s") (auto simp: last_rev hd_rev rev_swap)

section \<open>What is printed\<close>

lemma quotient_parts:
  assumes "quotient_of v = (n, d)"
  shows "0 < d" "v = of_int n / of_int d" "coprime n d"
  using assms by (auto intro: quotient_of_denom_pos quotient_of_div quotient_of_coprime)

text \<open>
  \<open>decimal_text v s\<close>: the text \<open>s\<close> is an optional minus sign, digits, and optionally a point with
  more digits that do not end in zero, and its value is \<open>v\<close>.
\<close>

definition decimal_text :: "rat \<Rightarrow> string \<Rightarrow> bool" where
  "decimal_text v s \<longleftrightarrow> (\<exists>neg i f.
     s = (if neg then ''-'' else '''') @ nat_str i @ (if f = [] then [] else CHR ''.'' # f)
     \<and> list_all is_digit f \<and> (f \<noteq> [] \<longrightarrow> last f \<noteq> CHR ''0'')
     \<and> (neg \<longrightarrow> v < 0)
     \<and> v = (if neg then -1 else 1) * of_nat (dec_value (nat_str i @ f)) / 10 ^ length f)"

lemma rational_decimal_string_spec:
  shows "\<not> finite_decimal v \<Longrightarrow> rational_decimal_string v = Some None"
    and "finite_decimal v \<Longrightarrow> \<exists>s. rational_decimal_string v = Some (Some s) \<and> decimal_text v s"
proof -
  obtain n d where nd: "quotient_of v = (n, d)" by (cases "quotient_of v")
  note q = quotient_parts [OF nd]
  have fin: "strip_factor 5 (strip_factor 2 (nat d)) = 1 \<longleftrightarrow> finite_decimal v"
  proof -
    have "d dvd 10 ^ k \<longleftrightarrow> nat d dvd 10 ^ k" for k
      using q(1) by (metis nat_0_le int_dvd_int_iff of_nat_numeral of_nat_power less_imp_le)
    then show ?thesis
      using q(1) by (subst strip_25_iff) (auto simp: finite_decimal_def nd)
  qed
  show "\<not> finite_decimal v \<Longrightarrow> rational_decimal_string v = Some None"
    using fin by (simp add: rational_decimal_string_def nd)
  assume f: "finite_decimal v"
  define D where "D = nat d"
  define N where "N = nat \<bar>n\<bar>"
  define i where "i = N div D"
  define r where "r = N mod D"
  have D: "0 < D" "d = int D" using q(1) by (auto simp: D_def)
  have split: "N = i * D + r" by (simp add: i_def r_def)
  have v: "v = (if n < 0 then -1 else 1) * of_nat N / of_nat D"
    using q(2) D(2) by (auto simp: N_def)
  obtain k where "d dvd 10 ^ k" using f by (auto simp: finite_decimal_def nd)
  then have "D dvd r * 10 ^ k"
    using D(2) by (metis dvd_mult int_dvd_int_iff of_nat_numeral of_nat_power)
  then obtain ds where ds: "frac_digits D r [] = Some ds" "list_all is_digit ds"
      "dec_value ds * D = r * 10 ^ length ds"
      "r \<noteq> 0 \<longrightarrow> ds \<noteq> [] \<and> last ds \<noteq> CHR ''0''" "r = 0 \<longrightarrow> ds = []"
    using frac_digits_returns [of r D k "[]"] D(1) by (auto simp: r_def)
  let ?s = "(if n < 0 \<and> N \<noteq> 0 then ''-'' else '''') @ nat_str i @ (if ds = [] then [] else CHR ''.'' # ds)"
  have val: "of_nat N / of_nat D = of_nat (dec_value (nat_str i @ ds)) / (10 ^ length ds :: rat)"
  proof -
    have "dec_value (nat_str i @ ds) * D = N * 10 ^ length ds"
      using ds(3) split by (simp add: dec_value_append algebra_simps)
    then have "of_nat (dec_value (nat_str i @ ds)) * of_nat D = (of_nat N * 10 ^ length ds :: rat)"
      by (metis of_nat_mult of_nat_numeral of_nat_power)
    then show ?thesis using D(1) by (simp add: field_simps)
  qed
  have v': "v = (if n < 0 \<and> N \<noteq> 0 then -1 else 1) * (of_nat (dec_value (nat_str i @ ds)) / 10 ^ length ds)"
    using v by (auto simp flip: val)
  have neg: "v < 0" if "n < 0 \<and> N \<noteq> 0"
    using that D(1) by (simp add: v divide_neg_pos)
  have dt: "decimal_text v ?s"
    unfolding decimal_text_def
    using ds(2,4,5) neg v' by (intro exI [of _ "n < 0 \<and> N \<noteq> 0"] exI [of _ i] exI [of _ ds]) auto
  have "rational_decimal_string v = Some (Some ?s)"
  proof (cases "r = 0")
    case True
    have "nat_str 0 = ''0''" by code_simp
    moreover have "i = 0 \<longleftrightarrow> N = 0" using split True D(1) by auto
    ultimately show ?thesis
      using f fin True ds(5)
      by (auto simp: rational_decimal_string_def nd simp flip: N_def D_def i_def r_def)
  next
    case False
    then have "N \<noteq> 0" using split by auto
    have "\<not> list_all (\<lambda>b. b = CHR ''0'') ds"
      using False ds(4) by (auto simp: list_all_iff dest: last_in_set)
    with \<open>N \<noteq> 0\<close> show ?thesis
      using f fin False ds(1,4)
      by (auto simp: rational_decimal_string_def nd strip_zeros_id simp flip: N_def D_def i_def r_def)
  qed
  with dt show "\<exists>s. rational_decimal_string v = Some (Some s) \<and> decimal_text v s" by blast
qed

section \<open>Round trip\<close>

lemma sign_split_digit: "is_digit c \<Longrightarrow> sign_split (c # s) = (False, c # s)"
  by (auto simp: sign_split_def is_digit_def)

lemma digit_not_point: "list_all is_digit s \<Longrightarrow> CHR ''.'' \<notin> set s"
  by (auto simp: list_all_iff is_digit_def)

lemma split_point:
  assumes "list_all is_digit i" "list_all is_digit f"
  shows "split_on CHR ''.'' (i @ (if f = [] then [] else CHR ''.'' # f)) = (if f = [] then [i] else [i, f])"
  using assms by (auto simp: split_on_no_sep split_on_append digit_not_point)

lemma parse_split:
  assumes "trim s = s" "s \<noteq> []" "sign_split s = (neg, u)" "u \<noteq> []"
    and "split_on CHR ''.'' u = (if f = [] then [i] else [i, f])"
    and "list_all is_digit i" "list_all is_digit f" "i \<noteq> []"
  shows "parse_decimal_rational s = Some ((if neg then -1 else 1) * of_nat (dec_value (i @ f)) / 10 ^ length f)"
  using assms
  by (cases "f = []"; cases neg) (simp_all add: parse_decimal_rational_def Let_def Fract_of_int_quotient)

text \<open>What the parser reads from a sign, digits, and optionally a point with digits.\<close>

lemma parse_decimal_text:
  assumes "list_all is_digit i" "list_all is_digit f" "i \<noteq> []"
  shows "parse_decimal_rational
      ((if neg then ''-'' else '''') @ i @ (if f = [] then [] else CHR ''.'' # f))
    = Some ((if neg then -1 else 1) * of_nat (dec_value (i @ f)) / 10 ^ length f)"
    (is "parse_decimal_rational ?s = _")
proof -
  have g: "list_all is_graphic ?s"
    using assms(1,2) by (auto dest!: digits_graphic) (auto simp: is_graphic_def)
  obtain c i' where i: "i = c # i'" using assms(3) by (cases i) auto
  then have "is_digit c" using assms(1) by simp
  then have s: "sign_split ?s = (neg, i @ (if f = [] then [] else CHR ''.'' # f))"
    by (auto simp: i sign_split_digit) (auto simp: sign_split_def)
  show ?thesis
    using assms trim_graphic [OF g] s split_point [OF assms(1,2)] by (intro parse_split) auto
qed

lemma parse_printed:
  assumes "decimal_text v s"
  shows "parse_decimal_rational s = Some v"
proof -
  obtain neg i f where s: "s = (if neg then ''-'' else '''') @ nat_str i @ (if f = [] then [] else CHR ''.'' # f)"
    "list_all is_digit f" "v = (if neg then -1 else 1) * of_nat (dec_value (nat_str i @ f)) / 10 ^ length f"
    using assms by (auto simp: decimal_text_def)
  show ?thesis
    unfolding s(1) using parse_decimal_text [OF nat_str_digits s(2) nat_str_nonempty, of neg i] s(3) by simp
qed

lemma decimal_text_graphic: "decimal_text v s \<Longrightarrow> list_all is_graphic s \<and> s \<noteq> []"
  using nat_str_digits
  by (auto simp: decimal_text_def dest!: digits_graphic) (auto simp: is_graphic_def digits_graphic)

lemma finite_decimal_Fract: "finite_decimal (of_int n / 10 ^ k)"
proof -
  obtain a d where q: "quotient_of (of_int n / 10 ^ k) = (a, d)" by fastforce
  note qp = quotient_parts [OF q]
  have "of_int a * 10 ^ k = (of_int n * of_int d :: rat)"
    using qp(1,2) by (simp add: field_simps)
  then have "of_int (a * 10 ^ k) = (of_int (n * d) :: rat)" by simp
  then have "a * 10 ^ k = n * d" by (simp only: of_int_eq_iff)
  then have "d dvd a * 10 ^ k" by simp
  then have "d dvd 10 ^ k"
    using qp(3) by (simp add: coprime_commute coprime_dvd_mult_right_iff)
  then show ?thesis by (auto simp: finite_decimal_def q)
qed

lemma parse_finite:
  assumes "parse_decimal_rational s = Some v"
  shows "finite_decimal v"
proof -
  obtain n k where "v = Fract n (10 ^ k)"
    using assms by (auto simp: parse_decimal_rational_def Let_def split: if_splits list.splits prod.splits)
      (metis power_0)+
  then show ?thesis using finite_decimal_Fract [of n k] by (simp add: Fract_of_int_quotient)
qed

lemma finite_decimal_iff: "finite_decimal v \<longleftrightarrow> (\<exists>n k. v = of_int n / 10 ^ k)"
proof
  assume f: "finite_decimal v"
  obtain n d where nd: "quotient_of v = (n, d)" by fastforce
  note q = quotient_parts [OF nd]
  obtain k c where c: "10 ^ k = d * c" using f by (auto simp: finite_decimal_def nd)
  then have "c \<noteq> 0" by auto
  then have "v = of_int (n * c) / of_int (d * c)" using q(1,2) by simp
  then show "\<exists>n k. v = of_int n / 10 ^ k" using c by (metis of_int_numeral of_int_power)
qed (auto intro: finite_decimal_Fract)

lemma finite_decimal_mult:
  assumes "finite_decimal v" "finite_decimal w"
  shows "finite_decimal (v * w)"
proof -
  obtain n k m l where "v = of_int n / 10 ^ k" "w = of_int m / 10 ^ l"
    using assms by (auto simp: finite_decimal_iff)
  then have "v * w = of_int (n * m) / 10 ^ (k + l)" by (simp add: power_add)
  then show ?thesis unfolding finite_decimal_iff by blast
qed

text \<open>
  Printing a rational always returns: it gives \<open>None\<close> exactly for a value without a
  finite decimal expansion, and otherwise a text that parses back to the value.
\<close>

lemma rational_decimal_string_roundtrip:
  "\<exists>r. rational_decimal_string v = Some r \<and> (r = None \<longleftrightarrow> \<not> (\<exists>n k. v = of_int n / 10 ^ k))
    \<and> (case r of None \<Rightarrow> True | Some s \<Rightarrow> parse_decimal_rational s = Some v)"
  using rational_decimal_string_spec [of v] parse_printed [of v]
  by (cases "finite_decimal v") (auto simp flip: finite_decimal_iff)

end
