(* ===== verification/Codec.thy ===== *)
theory Codec
  imports Rust_Strings
begin

text \<open>
  The contract of the encodings of the program: decoding what was encoded gives it back, and,
  for the canonical ones, a text has at most one meaning and only its encoding decodes to it.
\<close>

locale codec =
  fixes enc :: "'a \<Rightarrow> 'b"
    and dec :: "'b \<Rightarrow> 'a option"
  assumes dec_enc: "dec (enc x) = Some x"
begin

lemma enc_inj: "enc x = enc y \<longleftrightarrow> x = y"
  by (metis dec_enc option.inject)

lemma dec_onto: "\<exists>s. dec s = Some x"
  using dec_enc by blast

end

locale canonical_codec = codec +
  assumes enc_dec: "dec s = Some x \<Longrightarrow> enc x = s"
begin

lemma dec_iff: "dec s = Some x \<longleftrightarrow> s = enc x"
  using enc_dec dec_enc by blast

lemma dec_None_iff: "dec s = None \<longleftrightarrow> s \<notin> range enc"
  by (metis (no_types, lifting) dec_enc enc_dec imageE option.distinct(1) not_None_eq rangeI)

end

end
