(* ===== verification/Parameters.thy ===== *)
theory Parameters
  imports Catalog_Types Decimal Codec
begin

text \<open>
  The parameters of a model (\<open>src/src/parameters.rs\<close>): their types, quantities with units, the
  canonical value of a submitted text and the validation of a whole submission. A result of type
  \<open>option\<close> stands for a call that might panic (an \<open>expect\<close>) or not return: \<open>None\<close> is that outcome.
\<close>

section \<open>Types\<close>

datatype parameter_kind = Text | Number | Boolean | Enum | Unsupported

record parameter_option =
  po_value :: string
  po_label :: string

datatype visibility_condition =
    AllOf "visibility_condition list"
  | AnyOf "visibility_condition list"
  | EqualTo string "string list"

record parameter =
  p_id :: string
  p_label :: string
  p_description :: "string option"
  p_kind :: parameter_kind
  p_required :: bool
  p_default_value :: "string option"
  p_options :: "parameter_option list"
  p_hidden :: bool
  p_visibility_condition :: "visibility_condition option"
  p_precision :: "32 word option"
  p_widget :: "string option"
  p_units :: "string option"
  p_raw :: json

record parameter_schema =
  ps_schema_version :: "32 word"
  ps_source :: onshape_source
  ps_parameters :: "parameter list"

datatype quantity_dimension = Length | Angle

datatype canonical_value =
    CText string
  | CNumber string string
  | CQuantity quantity_dimension string string string
  | CBoolean bool
  | CEnum string

record validated_configuration =
  vc_values :: "string \<rightharpoonup> string"
  vc_typed_values :: "(string, canonical_value) btree"

definition SCHEMA_VERSION :: "32 word" where "SCHEMA_VERSION = 4"

section \<open>Units\<close>

datatype quantity_unit =
  Millimeter | Centimeter | Meter | Inch | Foot | Degree | Radian

definition from_onshape_unit :: "string \<Rightarrow> quantity_unit option" where
  "from_onshape_unit u =
    (if u = ''millimeter'' then Some Millimeter
     else if u = ''centimeter'' then Some Centimeter
     else if u = ''meter'' then Some Meter
     else if u = ''inch'' then Some Inch
     else if u = ''foot'' then Some Foot
     else if u = ''degree'' then Some Degree
     else if u = ''radian'' then Some Radian
     else None)"

definition from_abbreviation :: "string \<Rightarrow> quantity_unit option" where
  "from_abbreviation u =
    (if u = ''mm'' then Some Millimeter
     else if u = ''cm'' then Some Centimeter
     else if u = ''m'' then Some Meter
     else if u = ''in'' then Some Inch
     else if u = ''ft'' then Some Foot
     else if u = ''deg'' then Some Degree
     else if u = ''rad'' then Some Radian
     else None)"

fun abbreviation_of :: "quantity_unit \<Rightarrow> string" where
  "abbreviation_of Millimeter = ''mm''"
| "abbreviation_of Centimeter = ''cm''"
| "abbreviation_of Meter = ''m''"
| "abbreviation_of Inch = ''in''"
| "abbreviation_of Foot = ''ft''"
| "abbreviation_of Degree = ''deg''"
| "abbreviation_of Radian = ''rad''"

fun dimension :: "quantity_unit \<Rightarrow> quantity_dimension" where
  "dimension Degree = Angle"
| "dimension Radian = Angle"
| "dimension _ = Length"

fun length_meters_factor :: "quantity_unit \<Rightarrow> rat option" where
  "length_meters_factor Millimeter = Some (Fract 1 1000)"
| "length_meters_factor Centimeter = Some (Fract 1 100)"
| "length_meters_factor Meter = Some (Fract 1 1)"
| "length_meters_factor Inch = Some (Fract 127 5000)"
| "length_meters_factor Foot = Some (Fract 381 1250)"
| "length_meters_factor Degree = None"
| "length_meters_factor Radian = None"

interpretation unit_abbr: canonical_codec abbreviation_of from_abbreviation
proof unfold_locales
  fix u s
  show "from_abbreviation (abbreviation_of u) = Some u"
    by (cases u) (simp_all add: from_abbreviation_def)
  show "from_abbreviation s = Some u \<Longrightarrow> abbreviation_of u = s"
    by (auto simp: from_abbreviation_def split: if_splits)
qed

definition LENGTH_UNIT_OPTIONS :: "(string \<times> string) list" where
  "LENGTH_UNIT_OPTIONS =
    [(''mm'', ''mm''), (''cm'', ''cm''), (''m'', ''m''), (''in'', ''in''), (''ft'', ''ft'')]"

definition ANGLE_UNIT_OPTIONS :: "(string \<times> string) list" where
  "ANGLE_UNIT_OPTIONS = [(''deg'', ''deg''), (''rad'', ''rad'')]"

definition onshape_unit :: "parameter \<Rightarrow> quantity_unit option" where
  "onshape_unit p = Option.bind (p_units p) from_onshape_unit"

definition quantity_unit_options :: "parameter \<Rightarrow> (string \<times> string) list option" where
  "quantity_unit_options p = (case onshape_unit p of
      None \<Rightarrow> None
    | Some u \<Rightarrow> Some (case dimension u of Length \<Rightarrow> LENGTH_UNIT_OPTIONS | Angle \<Rightarrow> ANGLE_UNIT_OPTIONS))"

definition default_quantity_unit :: "parameter \<Rightarrow> string option" where
  "default_quantity_unit p = map_option abbreviation_of (onshape_unit p)"

section \<open>Quantities\<close>

datatype quantity_parse_error = NotANumber | UnknownUnit | IncompatibleUnit

text \<open>
  The trailing run of letters: the byte after the last character that is not an ASCII letter
  starts it, and a byte of a longer UTF-8 sequence is no ASCII letter.
\<close>

definition trailing_quantity_unit :: "string \<Rightarrow> (nat \<times> string) option" where
  "trailing_quantity_unit value =
    (let trimmed = trim_end value;
         unit = rev (takeWhile is_alphabetic (rev trimmed));
         start = length trimmed - length unit
     in if unit = [] then None else Some (start, unit))"

definition parse_quantity ::
  "string \<Rightarrow> quantity_unit \<Rightarrow> (quantity_parse_error, rat \<times> quantity_unit) result" where
  "parse_quantity value default_unit =
    (let trimmed = trim value in
     and_then
       (case trailing_quantity_unit trimmed of
          Some (unit_start, unit) \<Rightarrow>
            if unit_start = 0 then Err NotANumber
            else and_then (ok_or (from_abbreviation unit) UnknownUnit)
              (\<lambda>u. Ok (trim (take unit_start trimmed), u))
        | None \<Rightarrow> Ok (trimmed, default_unit))
       (\<lambda>(number, unit).
          if dimension unit \<noteq> dimension default_unit then Err IncompatibleUnit
          else and_then (ok_or (parse_decimal_rational number) NotANumber) (\<lambda>n. Ok (n, unit))))"

definition canonical_quantity_value :: "rat \<Rightarrow> quantity_unit \<Rightarrow> (rat \<times> quantity_unit) option" where
  "canonical_quantity_value value unit = (case dimension unit of
      Length \<Rightarrow> map_option (\<lambda>f. (value * f, Meter)) (length_meters_factor unit)
    | Angle \<Rightarrow> Some (value, unit))"

fun quantity_error_message :: "parameter \<Rightarrow> quantity_parse_error \<Rightarrow> quantity_dimension \<Rightarrow> string" where
  "quantity_error_message p NotANumber _ = p_label p @ '' must be a plain decimal number''"
| "quantity_error_message p UnknownUnit _ = p_label p @ '' has an unknown unit''"
| "quantity_error_message p IncompatibleUnit Length = p_label p @ '' must use a length unit''"
| "quantity_error_message p IncompatibleUnit Angle = p_label p @ '' must use an angle unit''"

text \<open>\<open>expect\<close> on the decimal text: it panics when there is none.\<close>

definition expect :: "'a option option \<Rightarrow> 'a option" where
  "expect x = (case x of Some (Some a) \<Rightarrow> Some a | _ \<Rightarrow> None)"

definition canonicalize_dimensioned_number ::
  "parameter \<Rightarrow> string \<Rightarrow> (string, canonical_value \<times> string) result option" where
  "canonicalize_dimensioned_number p value = (case onshape_unit p of
      None \<Rightarrow> Some (Err (p_label p @ '' uses an unsupported unit''))
    | Some default_unit \<Rightarrow> (case parse_quantity value default_unit of
        Err e \<Rightarrow> Some (Err (quantity_error_message p e (dimension default_unit)))
      | Ok (number, unit) \<Rightarrow> do {
          (cv, cu) \<leftarrow> canonical_quantity_value number unit;
          text \<leftarrow> expect (rational_decimal_string cv);
          let (numerator, denominator) = rational_parts cv;
          Some (Ok (CQuantity (dimension cu) numerator denominator (abbreviation_of cu),
            text @ '' '' @ abbreviation_of cu))
        }))"

definition canonicalize_unitless_number ::
  "parameter \<Rightarrow> string \<Rightarrow> (string, canonical_value \<times> string) result option" where
  "canonicalize_unitless_number p value = (case parse_decimal_rational value of
      None \<Rightarrow> Some (Err (p_label p @ '' must be a plain decimal number''))
    | Some number \<Rightarrow> do {
        normalized \<leftarrow> expect (rational_decimal_string number);
        let (numerator, denominator) = rational_parts number;
        Some (Ok (CNumber numerator denominator, normalized))
      })"

definition configuration_value :: "parameter \<Rightarrow> string \<Rightarrow> string option" where
  "configuration_value p value = (case parse_decimal_rational value of
      None \<Rightarrow> Some value
    | Some n \<Rightarrow> do {
        number \<leftarrow> expect (rational_decimal_string n);
        Some (case onshape_unit p of
            Some unit \<Rightarrow> number @ '' '' @ abbreviation_of unit
          | None \<Rightarrow> number)
      })"

definition display_value :: "parameter \<Rightarrow> string option option" where
  "display_value p = (case p_default_value p of
      None \<Rightarrow> Some None
    | Some v \<Rightarrow> map_option Some (configuration_value p v))"

section \<open>Validating a submission\<close>

definition normalize_bool :: "string \<Rightarrow> string" where
  "normalize_bool v = (if v = ''on'' \<or> v = ''1'' then ''true'' else if v = ''0'' then ''false'' else v)"

definition is_bool_word :: "string \<Rightarrow> bool" where
  "is_bool_word v \<longleftrightarrow> v \<in> {''true'', ''false'', ''on'', ''0'', ''1''}"

definition unsupported_parameter_message :: "parameter \<Rightarrow> string" where
  "unsupported_parameter_message p =
    p_label p @ '' ('' @ p_id p @ '') uses an unsupported parameter type''"

text \<open>The three collections the loop over the parameters fills.\<close>

record validation =
  va_errors :: "string list"
  va_values :: "string \<rightharpoonup> string"
  va_typed_values :: "(string, canonical_value) btree"

definition accept :: "string \<Rightarrow> string \<Rightarrow> canonical_value \<Rightarrow> validation \<Rightarrow> validation" where
  "accept name value canonical s = s\<lparr>va_values := (va_values s)(name \<mapsto> value),
     va_typed_values := bt_insert name canonical (va_typed_values s)\<rparr>"

definition reject :: "string \<Rightarrow> validation \<Rightarrow> validation" where
  "reject e s = s\<lparr>va_errors := va_errors s @ [e]\<rparr>"

text \<open>
  \<open>submitted\<close> is a \<open>HashMap\<close>: its entries in the order the loops happen to visit them.
\<close>

definition chosen_value :: "(string \<times> string) list \<Rightarrow> parameter \<Rightarrow> string option" where
  "chosen_value submitted p =
    or_else (filter_opt (\<lambda>v. v \<noteq> []) (map_of submitted (p_id p))) (p_default_value p)"

definition canonicalize_number ::
  "parameter \<Rightarrow> string \<Rightarrow> (string, canonical_value \<times> string) result option" where
  "canonicalize_number p value =
    (if p_units p \<noteq> None then canonicalize_dimensioned_number p value
     else canonicalize_unitless_number p value)"

definition validate_parameter ::
  "(string \<times> string) list \<Rightarrow> validation \<Rightarrow> parameter \<Rightarrow> validation option" where
  "validate_parameter submitted s p =
    (if p_kind p = Unsupported then Some (reject (unsupported_parameter_message p) s)
     else case chosen_value submitted p of
       Some value \<Rightarrow> (case p_kind p of
           Text \<Rightarrow> Some (accept (p_id p) value (CText value) s)
         | Number \<Rightarrow> do {
             r \<leftarrow> canonicalize_number p value;
             Some (case r of
                 Ok (canonical, normalized) \<Rightarrow> accept (p_id p) normalized canonical s
               | Err e \<Rightarrow> reject e s)
           }
         | Boolean \<Rightarrow> Some (if is_bool_word value
             then accept (p_id p) (normalize_bool value) (CBoolean (normalize_bool value = ''true'')) s
             else reject (p_label p @ '' must be a boolean'') s)
         | Enum \<Rightarrow> Some (if list_ex (\<lambda>option. po_value option = value) (p_options p)
             then accept (p_id p) value (CEnum value) s
             else reject (p_label p @ '' has an invalid option'') s)
         | Unsupported \<Rightarrow> None)
     | None \<Rightarrow> Some (if p_required p then reject (p_label p @ '' is required'') s else s))"

fun validate_parameters ::
  "(string \<times> string) list \<Rightarrow> validation \<Rightarrow> parameter list \<Rightarrow> validation option" where
  "validate_parameters submitted s [] = Some s"
| "validate_parameters submitted s (p # ps) =
    Option.bind (validate_parameter submitted s p) (\<lambda>s'. validate_parameters submitted s' ps)"

definition unknown_errors :: "string set \<Rightarrow> (string \<times> string) list \<Rightarrow> string list" where
  "unknown_errors known submitted =
    map (\<lambda>name. ''unknown parameter: '' @ name) (filter (\<lambda>name. name \<notin> known) (map fst submitted))"

definition accept_unknown :: "string set \<Rightarrow> (string \<times> string) list \<Rightarrow> validation \<Rightarrow> validation" where
  "accept_unknown known submitted s =
    foldl (\<lambda>s (name, value). if name \<in> known \<or> value = [] then s else accept name value (CText value) s)
      s submitted"

definition known_names :: "parameter_schema \<Rightarrow> string set" where
  "known_names schema = set (map p_id (ps_parameters schema))"

definition validate_values ::
  "parameter_schema \<Rightarrow> (string \<times> string) list \<Rightarrow> bool \<Rightarrow> (string list, validated_configuration) result option"
where
  "validate_values schema submitted allow_unknown =
    (let known = known_names schema;
         errors = (if allow_unknown then [] else unknown_errors known submitted)
     in do {
       s \<leftarrow> validate_parameters submitted \<lparr>va_errors = errors, va_values = Map.empty, va_typed_values = []\<rparr>
              (ps_parameters schema);
       let s = (if allow_unknown then accept_unknown known submitted s else s);
       Some (if va_errors s = []
         then Ok \<lparr>vc_values = va_values s, vc_typed_values = va_typed_values s\<rparr>
         else Err (va_errors s))
     })"

section \<open>Values sent to the encoding service\<close>

definition fraction_expression :: "string \<Rightarrow> string \<Rightarrow> string" where
  "fraction_expression numerator denominator = ''('' @ numerator @ ''/'' @ denominator @ '')''"

fun encoding_request_value :: "canonical_value \<Rightarrow> string" where
  "encoding_request_value (CText v) = v"
| "encoding_request_value (CEnum v) = v"
| "encoding_request_value (CBoolean b) = bool_str b"
| "encoding_request_value (CNumber n d) = fraction_expression n d"
| "encoding_request_value (CQuantity _ n d unit) = fraction_expression n d @ '' '' @ unit"

definition encoding_request_values :: "(string, canonical_value) btree \<Rightarrow> (string, string) btree" where
  "encoding_request_values typed = map (\<lambda>(k, v). (k, encoding_request_value v)) typed"

end
