(* ===== verification/Parameter_Validation.thy ===== *)
theory Parameter_Validation
  imports Parameters
begin

text \<open>
  Correctness of \<open>validate_values\<close>: canonicalisation always returns and is idempotent; the loop
  over the parameters is described by the contribution of each parameter, and the maps it fills
  by the interpretations of \<open>keyed_map\<close>.
\<close>

section \<open>Canonical numbers\<close>

lemma canonical_unit_dimension: "canonical_quantity_value v u = Some (v', u') \<Longrightarrow> dimension u' = dimension u"
  by (cases u) (auto simp: canonical_quantity_value_def)

lemma finite_factor: "length_meters_factor u = Some f \<Longrightarrow> finite_decimal f"
proof -
  have "\<forall>f \<in> set_option (length_meters_factor u). finite_decimal f"
    using finite_decimal_Fract [of 254 4] finite_decimal_Fract [of 3048 4] finite_decimal_Fract [of 1 3]
      finite_decimal_Fract [of 1 2] finite_decimal_Fract [of 1 0]
    by (cases u) (simp_all add: Fract_of_int_quotient)
  then show "length_meters_factor u = Some f \<Longrightarrow> finite_decimal f" by simp
qed

lemma canonical_quantity_finite:
  assumes "finite_decimal v"
  shows "\<exists>v' u'. canonical_quantity_value v u = Some (v', u') \<and> finite_decimal v'
    \<and> canonical_quantity_value v' u' = Some (v', u')"
proof (cases "length_meters_factor u")
  case None
  then have "u = Degree \<or> u = Radian" by (cases u) auto
  then show ?thesis using assms by (auto simp: canonical_quantity_value_def)
next
  case (Some f)
  then have "dimension u = Length" by (cases u) auto
  moreover have "finite_decimal (v * f)"
    using assms finite_factor [OF Some] by (rule finite_decimal_mult)
  moreover have "Fract 1 1 = 1" by (simp add: One_rat_def)
  ultimately show ?thesis using Some by (simp add: canonical_quantity_value_def)
qed

lemma expect_decimal:
  assumes "finite_decimal v"
  obtains t where "expect (rational_decimal_string v) = Some t" "decimal_text v t"
  using rational_decimal_string_spec(2) [OF assms] by (auto simp: expect_def)

lemma parse_quantity_Ok:
  "parse_quantity value du = Ok (n, u) \<Longrightarrow> finite_decimal n \<and> dimension u = dimension du"
  unfolding parse_quantity_def Let_def
  by (auto simp: result_simps split: prod.splits if_splits dest: parse_finite)

lemma abbreviation_alphabetic: "list_all is_alphabetic (abbreviation_of u) \<and> abbreviation_of u \<noteq> []"
  by (cases u) (auto simp: is_alphabetic_def is_lower_def)

lemma parse_quantity_printed:
  assumes "decimal_text v t" "dimension u = dimension du"
  shows "parse_quantity (t @ '' '' @ abbreviation_of u) du = Ok (v, u)"
proof -
  let ?a = "abbreviation_of u" and ?s = "t @ '' '' @ abbreviation_of u"
  note g = decimal_text_graphic [OF assms(1)] and a = abbreviation_alphabetic [of u]
  have last: "is_graphic (last ?s)"
    using a alphanumeric_graphic by (auto simp: list_all_iff is_alphanumeric_def)
  have trim: "trim ?s = ?s"
    using g last by (intro trim_graphic_ends) (auto simp: list_all_iff hd_append)
  have tend: "trim_end ?s = ?s"
    using trim_end_graphic [OF last, of "butlast ?s"] append_butlast_last_id [of ?s] by simp
  have "takeWhile is_alphabetic (rev ?s) = rev ?a"
    using a by (auto simp: list_all_iff takeWhile_append is_alphabetic_def is_lower_def is_upper_def)
  then have "trailing_quantity_unit ?s = Some (Suc (length t), ?a)"
    using a tend by (simp add: trailing_quantity_unit_def Let_def)
  moreover have "trim (take (Suc (length t)) ?s) = t"
    using trim_trailing_blank [of t] g by (simp add: take_Cons')
  ultimately show ?thesis
    using assms parse_printed [OF assms(1)] trim
    by (simp add: parse_quantity_def and_then_def ok_or_def unit_abbr.dec_enc)
qed

lemma canonicalize_number_returns: "canonicalize_number p value \<noteq> None"
proof (cases "p_units p = None")
  case True
  then show ?thesis
    by (auto simp: canonicalize_number_def canonicalize_unitless_number_def split: option.splits prod.splits
        simp: case_prod_unfold Let_def dest!: parse_finite elim!: expect_decimal)
next
  case False
  then have "canonicalize_number p value = canonicalize_dimensioned_number p value"
    by (simp add: canonicalize_number_def)
  moreover have "canonicalize_dimensioned_number p value \<noteq> None"
  proof (cases "onshape_unit p")
    case (Some du)
    show ?thesis
    proof (cases "parse_quantity value du")
      case (Inr nu)
      obtain n u where nu: "nu = (n, u)" by (cases nu)
      obtain v' u' where c: "canonical_quantity_value n u = Some (v', u')" "finite_decimal v'"
        using canonical_quantity_finite [of n u] parse_quantity_Ok [of "value" du n u] Inr nu by auto
      obtain t where "expect (rational_decimal_string v') = Some t"
        using c(2) by (rule expect_decimal)
      then show ?thesis
        using Some Inr nu c by (simp add: canonicalize_dimensioned_number_def split: prod.splits)
    qed (simp add: canonicalize_dimensioned_number_def Some)
  qed (simp add: canonicalize_dimensioned_number_def)
  ultimately show ?thesis by simp
qed

text \<open>A canonical number and the text that stands for it.\<close>

definition number_value :: "parameter \<Rightarrow> canonical_value \<Rightarrow> string \<Rightarrow> bool" where
  "number_value p cv out \<longleftrightarrow> (case p_units p of
      None \<Rightarrow> (\<exists>v. decimal_text v out \<and> cv = CNumber (fst (rational_parts v)) (snd (rational_parts v)))
    | Some _ \<Rightarrow> (\<exists>v u du t. onshape_unit p = Some du \<and> dimension u = dimension du
        \<and> u \<in> {Meter, Degree, Radian} \<and> decimal_text v t \<and> out = t @ '' '' @ abbreviation_of u
        \<and> cv = CQuantity (dimension u) (fst (rational_parts v)) (snd (rational_parts v)) (abbreviation_of u)))"

lemma canonical_unit_range: "canonical_quantity_value v u = Some (v', u') \<Longrightarrow> u' \<in> {Meter, Degree, Radian}"
  by (cases u) (auto simp: canonical_quantity_value_def)

lemma expect_Some: "expect (rational_decimal_string v) = Some t \<Longrightarrow> finite_decimal v \<and> decimal_text v t"
  using rational_decimal_string_spec [of v]
  by (cases "finite_decimal v") (auto simp: expect_def split: option.splits)

lemma canonicalize_number_value:
  "canonicalize_number p value = Some (Ok (cv, out)) \<Longrightarrow> number_value p cv out"
  by (auto simp: canonicalize_number_def canonicalize_dimensioned_number_def
      canonicalize_unitless_number_def number_value_def Let_def bind_eq_Some_conv case_prod_unfold
      split: option.splits sum.splits if_splits
      dest!: expect_Some parse_quantity_Ok)
    (metis canonical_unit_dimension canonical_unit_range insertE singletonD)

text \<open>Canonicalising the canonical text gives the same value and the same text.\<close>

lemma decimal_text_finite: "decimal_text v t \<Longrightarrow> finite_decimal v"
  using parse_printed parse_finite by blast

lemma decimal_text_reprint:
  assumes "rational_decimal_string v = Some (Some t)"
  shows "parse_decimal_rational t = Some v"
  using rational_decimal_string_spec [of v] assms parse_printed by (cases "finite_decimal v") auto

lemma canonicalize_number_idem:
  assumes "canonicalize_number p s = Some (Ok (cv, out))"
  shows "canonicalize_number p out = Some (Ok (cv, out))"
proof (cases "p_units p = None")
  case True
  then obtain v where v: "parse_decimal_rational s = Some v" "expect (rational_decimal_string v) = Some out"
      "cv = CNumber (fst (rational_parts v)) (snd (rational_parts v))"
    using assms by (auto simp: canonicalize_number_def canonicalize_unitless_number_def Let_def
        bind_eq_Some_conv case_prod_unfold split: option.splits)
  then have "parse_decimal_rational out = Some v" by (auto dest!: expect_Some intro: parse_printed)
  with True v show ?thesis
    by (simp add: canonicalize_number_def canonicalize_unitless_number_def case_prod_unfold Let_def)
next
  case False
  then obtain du n u v w t where o: "onshape_unit p = Some du" and q: "parse_quantity s du = Ok (n, u)"
      and c: "canonical_quantity_value n u = Some (v, w)" and t: "expect (rational_decimal_string v) = Some t"
      and cv: "cv = CQuantity (dimension w) (fst (rational_parts v)) (snd (rational_parts v)) (abbreviation_of w)"
      and out: "out = t @ '' '' @ abbreviation_of w"
    using assms by (auto simp: canonicalize_number_def canonicalize_dimensioned_number_def Let_def
        bind_eq_Some_conv case_prod_unfold split: option.splits sum.splits)
  have "decimal_text v t" using t by (auto dest: expect_Some)
  moreover have "dimension w = dimension du"
    using canonical_unit_dimension [OF c] parse_quantity_Ok [OF q] by simp
  ultimately have "parse_quantity out du = Ok (v, w)" unfolding out by (rule parse_quantity_printed)
  moreover have "canonical_quantity_value v w = Some (v, w)"
    using canonical_quantity_finite [of n u] parse_quantity_Ok [OF q] c by auto
  ultimately show ?thesis
    using False o t cv out
    by (simp add: canonicalize_number_def canonicalize_dimensioned_number_def case_prod_unfold Let_def)
qed

lemma canonical_text_nonempty: "canonicalize_number p s = Some (Ok (cv, out)) \<Longrightarrow> out \<noteq> []"
  using canonicalize_number_value [of p s cv out] decimal_text_graphic
  by (auto simp: number_value_def split: option.splits)

section \<open>What each parameter contributes\<close>

definition value_contribution ::
  "parameter \<Rightarrow> string \<Rightarrow> (string, string \<times> canonical_value) result" where
  "value_contribution p v = (case p_kind p of
      Text \<Rightarrow> Ok (v, CText v)
    | Number \<Rightarrow> (case the (canonicalize_number p v) of Ok (cv, t) \<Rightarrow> Ok (t, cv) | Err e \<Rightarrow> Err e)
    | Boolean \<Rightarrow> if is_bool_word v then Ok (normalize_bool v, CBoolean (normalize_bool v = ''true''))
        else Err (p_label p @ '' must be a boolean'')
    | Enum \<Rightarrow> if list_ex (\<lambda>option. po_value option = v) (p_options p) then Ok (v, CEnum v)
        else Err (p_label p @ '' has an invalid option'')
    | Unsupported \<Rightarrow> Err (unsupported_parameter_message p))"

definition contribution ::
  "(string \<times> string) list \<Rightarrow> parameter \<Rightarrow> (string, (string \<times> canonical_value) option) result" where
  "contribution submitted p =
    (if p_kind p = Unsupported then Err (unsupported_parameter_message p)
     else case chosen_value submitted p of
       None \<Rightarrow> if p_required p then Err (p_label p @ '' is required'') else Ok None
     | Some v \<Rightarrow> (case value_contribution p v of Ok c \<Rightarrow> Ok (Some c) | Err e \<Rightarrow> Err e))"

definition record_contribution ::
  "string \<Rightarrow> (string, (string \<times> canonical_value) option) result \<Rightarrow> validation \<Rightarrow> validation" where
  "record_contribution name c s = (case c of
      Err e \<Rightarrow> reject e s
    | Ok None \<Rightarrow> s
    | Ok (Some (out, cv)) \<Rightarrow> accept name out cv s)"

lemma validate_parameter_contribution:
  "validate_parameter submitted s p = Some (record_contribution (p_id p) (contribution submitted p) s)"
proof (cases "chosen_value submitted p")
  case (Some v)
  obtain r where "canonicalize_number p v = Some r"
    using canonicalize_number_returns [of p v] by blast
  then show ?thesis
    using Some
    by (cases "p_kind p")
      (auto simp: validate_parameter_def contribution_def value_contribution_def record_contribution_def
        split: sum.splits)
qed (auto simp: validate_parameter_def contribution_def record_contribution_def)

definition contributions :: "(string \<times> string) list \<Rightarrow> parameter list \<Rightarrow> (string \<times> string \<times> canonical_value) list" where
  "contributions submitted ps =
    List.map_filter (\<lambda>p. case contribution submitted p of
      Ok (Some (out, cv)) \<Rightarrow> Some (p_id p, out, cv) | _ \<Rightarrow> None) ps"

definition parameter_errors :: "(string \<times> string) list \<Rightarrow> parameter list \<Rightarrow> string list" where
  "parameter_errors submitted ps =
    List.map_filter (\<lambda>p. case contribution submitted p of Err e \<Rightarrow> Some e | _ \<Rightarrow> None) ps"

definition unknown_entries :: "string set \<Rightarrow> (string \<times> string) list \<Rightarrow> (string \<times> string \<times> canonical_value) list" where
  "unknown_entries known submitted =
    map (\<lambda>(k, v). (k, v, CText v)) (filter (\<lambda>(k, v). k \<notin> known \<and> v \<noteq> []) submitted)"

definition accept_all :: "(string \<times> string \<times> canonical_value) list \<Rightarrow> validation \<Rightarrow> validation" where
  "accept_all es s = foldl (\<lambda>s (k, v, c). accept k v c s) s es"

lemma accept_all_fields:
  "accept_all es s = s\<lparr>va_values := hm.insert_all (map (\<lambda>(k, v, c). (k, v)) es) (va_values s),
     va_typed_values := bt.insert_all (map (\<lambda>(k, v, c). (k, c)) es) (va_typed_values s)\<rparr>"
  by (induction es arbitrary: s)
    (auto simp: accept_all_def accept_def hm.insert_all_def bt.insert_all_def)

lemma reject_accept_all:
  "accept_all es (reject e s) = reject e (accept_all es s)"
  by (simp add: accept_all_fields reject_def)

lemma validate_parameters_eq:
  "validate_parameters submitted s ps =
    Some ((accept_all (contributions submitted ps) s)\<lparr>va_errors := va_errors s @ parameter_errors submitted ps\<rparr>)"
proof (induction ps arbitrary: s)
  case Nil
  then show ?case by (simp add: contributions_def parameter_errors_def accept_all_def)
next
  case (Cons p ps)
  show ?case
    by (auto simp: validate_parameter_contribution Cons.IH contributions_def parameter_errors_def
        record_contribution_def accept_all_fields reject_def accept_def hm.insert_all_def bt.insert_all_def
        split: sum.splits option.splits)
qed

lemma accept_unknown_eq: "accept_unknown known submitted s = accept_all (unknown_entries known submitted) s"
  by (induction submitted arbitrary: s) (auto simp: accept_unknown_def accept_all_def unknown_entries_def)

section \<open>The whole submission\<close>

definition submission_entries ::
  "parameter_schema \<Rightarrow> (string \<times> string) list \<Rightarrow> bool \<Rightarrow> (string \<times> string \<times> canonical_value) list" where
  "submission_entries schema submitted allow_unknown =
    contributions submitted (ps_parameters schema)
      @ (if allow_unknown then unknown_entries (known_names schema) submitted else [])"

definition submission_errors :: "parameter_schema \<Rightarrow> (string \<times> string) list \<Rightarrow> bool \<Rightarrow> string list" where
  "submission_errors schema submitted allow_unknown =
    (if allow_unknown then [] else unknown_errors (known_names schema) submitted)
      @ parameter_errors submitted (ps_parameters schema)"

definition entry_values :: "(string \<times> string \<times> canonical_value) list \<Rightarrow> (string \<times> string) list" where
  "entry_values = map (\<lambda>(k, v, c). (k, v))"

definition entry_typed :: "(string \<times> string \<times> canonical_value) list \<Rightarrow> (string \<times> canonical_value) list" where
  "entry_typed = map (\<lambda>(k, v, c). (k, c))"

lemma validate_values_eq:
  "validate_values schema submitted allow_unknown =
    Some (if submission_errors schema submitted allow_unknown = []
      then Ok \<lparr>vc_values = hm.insert_all (entry_values (submission_entries schema submitted allow_unknown)) Map.empty,
               vc_typed_values = bt.insert_all (entry_typed (submission_entries schema submitted allow_unknown)) []\<rparr>
      else Err (submission_errors schema submitted allow_unknown))"
  by (simp add: validate_values_def Let_def validate_parameters_eq accept_unknown_eq accept_all_fields
      submission_errors_def submission_entries_def entry_values_def entry_typed_def
      hm.insert_all_def bt.insert_all_def)

lemma contributions_names: "set (map fst (contributions submitted ps)) \<subseteq> p_id ` set ps"
  by (auto simp: contributions_def List.map_filter_def split: sum.splits option.splits)

lemma distinct_contributions:
  "distinct (map p_id ps) \<Longrightarrow> distinct (map fst (contributions submitted ps))"
proof (induction ps)
  case (Cons p ps)
  then show ?case
    using contributions_names [of submitted ps]
    by (auto simp: contributions_def split: sum.splits option.splits)
qed (simp add: contributions_def)

lemma distinct_entries:
  assumes "distinct (map p_id (ps_parameters schema))" "distinct (map fst submitted)"
  shows "distinct (map fst (submission_entries schema submitted allow_unknown))"
proof -
  have "map fst (unknown_entries (known_names schema) submitted)
      = map fst (filter (\<lambda>(k, v). k \<notin> known_names schema \<and> v \<noteq> []) submitted)"
    by (simp add: unknown_entries_def case_prod_unfold comp_def)
  then have "distinct (map fst (unknown_entries (known_names schema) submitted))"
    using assms(2) by (simp add: distinct_map_filter)
  moreover have "set (map fst (unknown_entries (known_names schema) submitted)) \<inter> known_names schema = {}"
    by (auto simp: unknown_entries_def)
  moreover have "distinct (map fst (contributions submitted (ps_parameters schema)))"
    using assms(1) by (rule distinct_contributions)
  moreover have "set (map fst (contributions submitted (ps_parameters schema))) \<subseteq> known_names schema"
    using contributions_names [of submitted "ps_parameters schema"] by (simp add: known_names_def)
  ultimately show ?thesis
    unfolding submission_entries_def map_append distinct_append by (cases allow_unknown) (simp, blast, simp)
qed

lemma entry_values_keys: "map fst (entry_values es) = map fst es"
  by (simp add: entry_values_def case_prod_unfold)

lemma entry_typed_keys: "map fst (entry_typed es) = map fst es"
  by (simp add: entry_typed_def case_prod_unfold)

lemma entry_values_map_of: "map_of (entry_values es) k = map_option fst (map_of es k)"
  by (induction es) (auto simp: entry_values_def)

lemma entry_typed_map_of: "map_of (entry_typed es) k = map_option snd (map_of es k)"
  by (induction es) (auto simp: entry_typed_def)

lemma entry_values_lookup:
  "distinct (map fst es) \<Longrightarrow> hm.insert_all (entry_values es) Map.empty k = map_option fst (map_of es k)"
  by (subst hm.get_insert_all_distinct)
    (simp_all add: entry_values_keys entry_values_map_of split: option.splits)

lemma entry_typed_lookup:
  "distinct (map fst es) \<Longrightarrow> map_of (bt.insert_all (entry_typed es) []) k = map_option snd (map_of es k)"
  by (subst bt.get_insert_all_distinct)
    (simp_all add: entry_typed_keys entry_typed_map_of split: option.splits)

text \<open>The entry of a known name is what its parameter contributes.\<close>

lemma contributions_lookup:
  "\<lbrakk>distinct (map p_id ps); p \<in> set ps\<rbrakk> \<Longrightarrow>
    map_of (contributions submitted ps) (p_id p) = (case contribution submitted p of Ok c \<Rightarrow> c | Err _ \<Rightarrow> None)"
proof (induction ps)
  case (Cons q ps)
  have none: "map_of (contributions submitted ps) (p_id q) = None"
    using Cons.prems(1) contributions_names [of submitted ps] by (auto simp: map_of_eq_None_iff)
  show ?case
  proof (cases "p = q")
    case True
    then show ?thesis using none by (auto simp: contributions_def split: sum.splits option.splits)
  next
    case False
    then have "p_id p \<in> p_id ` set ps" using Cons.prems(2) by auto
    then have "p_id p \<noteq> p_id q" using Cons.prems(1) by (intro notI) simp
    then show ?thesis
      using Cons False by (auto simp: contributions_def split: sum.splits option.splits)
  qed
qed simp

lemma entries_known:
  assumes "distinct (map p_id (ps_parameters schema))" "p \<in> set (ps_parameters schema)"
  shows "map_of (submission_entries schema submitted allow_unknown) (p_id p)
    = (case contribution submitted p of Ok c \<Rightarrow> c | Err _ \<Rightarrow> None)"
proof -
  have "map_of (unknown_entries (known_names schema) submitted) (p_id p) = None"
    using assms(2) by (auto simp: map_of_eq_None_iff unknown_entries_def known_names_def)
  then show ?thesis
    using contributions_lookup [OF assms]
    by (auto simp: submission_entries_def map_add_def split: option.splits)
qed

lemma unknown_entries_lookup:
  "distinct (map fst submitted) \<Longrightarrow> k \<notin> known \<Longrightarrow>
    map_of (unknown_entries known submitted) k
      = map_option (\<lambda>v. (v, CText v)) (filter_opt (\<lambda>v. v \<noteq> []) (map_of submitted k))"
proof (induction submitted)
  case (Cons kv rest)
  obtain a b where kv: "kv = (a, b)" by (cases kv)
  show ?case
  proof (cases "a = k")
    case True
    then have "map_of (unknown_entries known rest) k = None"
      using Cons.prems kv by (auto simp: map_of_eq_None_iff unknown_entries_def image_iff) force?
    then show ?thesis
      using True Cons.prems(2) kv by (simp add: unknown_entries_def filter_opt_def)
  next
    case False
    then show ?thesis using Cons kv by (simp add: unknown_entries_def)
  qed
qed (simp add: unknown_entries_def filter_opt_def)

lemma entries_unknown:
  assumes "distinct (map fst submitted)" "k \<notin> known_names schema"
  shows "map_of (submission_entries schema submitted allow_unknown) k
    = (if allow_unknown then map_option (\<lambda>v. (v, CText v)) (filter_opt (\<lambda>v. v \<noteq> []) (map_of submitted k))
       else None)"
proof -
  have "map_of (contributions submitted (ps_parameters schema)) k = None"
    using assms(2) contributions_names [of submitted "ps_parameters schema"]
    by (auto simp: map_of_eq_None_iff known_names_def)
  then show ?thesis
    using unknown_entries_lookup [OF assms]
    by (auto simp: submission_entries_def map_add_def split: option.splits)
qed

section \<open>What an accepted submission satisfies\<close>

definition conforms :: "parameter \<Rightarrow> string \<Rightarrow> canonical_value \<Rightarrow> bool" where
  "conforms p t cv \<longleftrightarrow> (case p_kind p of
      Text \<Rightarrow> cv = CText t
    | Number \<Rightarrow> number_value p cv t
    | Boolean \<Rightarrow> (\<exists>b. cv = CBoolean b \<and> t = bool_str b)
    | Enum \<Rightarrow> cv = CEnum t \<and> t \<in> po_value ` set (p_options p)
    | Unsupported \<Rightarrow> False)"

lemma normalize_bool_word: "is_bool_word v \<Longrightarrow> normalize_bool v = bool_str (normalize_bool v = ''true'')"
  by (auto simp: is_bool_word_def normalize_bool_def bool_str_def)

lemma bool_str_word: "is_bool_word (bool_str b) \<and> normalize_bool (bool_str b) = bool_str b \<and> bool_str b \<noteq> []
    \<and> (bool_str b = ''true'' \<longleftrightarrow> b)"
  by (auto simp: is_bool_word_def normalize_bool_def bool_str_def)

lemma value_contribution_number:
  "p_kind p = Number \<Longrightarrow> value_contribution p v = Ok (t, cv) \<longleftrightarrow> canonicalize_number p v = Some (Ok (cv, t))"
  using canonicalize_number_returns [of p v] by (auto simp: value_contribution_def split: sum.splits)

lemma value_contribution_conforms: "value_contribution p v = Ok (t, cv) \<Longrightarrow> conforms p t cv"
  using normalize_bool_word [of v]
  by (cases "p_kind p")
    (auto simp: value_contribution_number conforms_def list_ex_iff
      intro: canonicalize_number_value, auto simp: value_contribution_def list_ex_iff split: if_splits)

lemma value_contribution_idem:
  assumes "value_contribution p v = Ok (t, cv)"
  shows "value_contribution p t = Ok (t, cv)"
proof (cases "p_kind p = Number")
  case True
  then show ?thesis using assms by (simp add: value_contribution_number canonicalize_number_idem)
next
  case False
  then show ?thesis
    using assms normalize_bool_word [of v] bool_str_word [of "normalize_bool v = ''true''"]
    by (cases "p_kind p") (auto simp: value_contribution_def split: if_splits)
qed

lemma value_contribution_nonempty:
  assumes "value_contribution p v = Ok (t, cv)" "v \<noteq> []"
  shows "t \<noteq> []"
proof (cases "p_kind p = Number")
  case True
  then show ?thesis using assms canonical_text_nonempty by (auto simp: value_contribution_number)
next
  case False
  then show ?thesis
    using assms normalize_bool_word [of v] bool_str_word [of "normalize_bool v = ''true''"]
    by (cases "p_kind p") (auto simp: value_contribution_def split: if_splits)
qed

lemma contribution_Some:
  "contribution submitted p = Ok (Some c) \<longleftrightarrow>
    p_kind p \<noteq> Unsupported \<and> (\<exists>v. chosen_value submitted p = Some v \<and> value_contribution p v = Ok c)"
  by (auto simp: contribution_def split: option.splits sum.splits)

lemma contribution_None:
  "contribution submitted p = Ok None \<longleftrightarrow>
    p_kind p \<noteq> Unsupported \<and> chosen_value submitted p = None \<and> \<not> p_required p"
  by (auto simp: contribution_def split: option.splits sum.splits)

lemma parameter_errors_Nil:
  "parameter_errors submitted ps = [] \<longleftrightarrow> (\<forall>p \<in> set ps. \<exists>c. contribution submitted p = Ok c)"
  by (induction ps) (auto simp: parameter_errors_def split: sum.splits)

lemma unknown_errors_Nil: "unknown_errors known submitted = [] \<longleftrightarrow> fst ` set submitted \<subseteq> known"
  by (auto simp: unknown_errors_def filter_empty_conv)

text \<open>
  Resubmitting a value that was accepted contributes the same value, and a parameter that
  contributed nothing still contributes nothing.
\<close>

lemma contribution_resubmitted:
  assumes c: "contribution submitted p = Ok (Some (t, cv))" and m: "map_of submitted' (p_id p) = Some t"
  shows "contribution submitted' p = Ok (Some (t, cv))"
proof -
  obtain v where v: "chosen_value submitted p = Some v" "value_contribution p v = Ok (t, cv)"
    using c by (auto simp: contribution_Some)
  have "v \<noteq> [] \<or> p_default_value p = Some []"
    using v(1) by (auto simp: chosen_value_def filter_opt_def split: option.splits if_splits)
  then obtain w where w: "chosen_value submitted' p = Some w" "w = t \<or> w = v"
    using m v value_contribution_nonempty [OF v(2)]
    by (cases "t = []") (auto simp: chosen_value_def filter_opt_def split: option.splits if_splits)
  then have "value_contribution p w = Ok (t, cv)"
    using v(2) value_contribution_idem [OF v(2)] by blast
  then show ?thesis using w(1) c by (simp add: contribution_Some)
qed

lemma contribution_absent:
  assumes "contribution submitted p = Ok None" "map_of submitted' (p_id p) = None"
  shows "contribution submitted' p = Ok None"
  using assms by (auto simp: contribution_None chosen_value_def filter_opt_def split: option.splits if_splits)

section \<open>Properties\<close>

text \<open>
  Validating a submission always returns: none of the \<open>expect\<close> calls on a decimal text panics
  and no long-division loop runs forever, for any schema and any submitted text.
\<close>

lemma validate_values_returns: "validate_values schema submitted allow_unknown \<noteq> None"
  by (simp add: validate_values_eq)


text \<open>A submission of the accepted texts gives every parameter what the first submission gave it.\<close>

lemma resubmitted_contribution:
  assumes ids: "distinct (map p_id (ps_parameters schema))"
    and none: "submission_errors schema submitted allow_unknown = []" and p: "p \<in> set (ps_parameters schema)"
    and texts: "\<And>k. map_of submitted' k = map_option fst (map_of (submission_entries schema submitted allow_unknown) k)"
  shows "contribution submitted' p = contribution submitted p"
proof -
  obtain c where c: "contribution submitted p = Ok c"
    using none p by (auto simp: submission_errors_def parameter_errors_Nil)
  have m: "map_of submitted' (p_id p) = map_option fst c"
    using entries_known [OF ids p, of submitted allow_unknown] c by (simp add: texts)
  show ?thesis
  proof (cases c)
    case None
    then show ?thesis using c m contribution_absent by simp
  next
    case (Some tc)
    then show ?thesis
      using c m contribution_resubmitted [of submitted p "fst tc" "snd tc" submitted'] by simp
  qed
qed

lemma resubmitted_known:
  assumes "distinct (map fst submitted)" "\<not> allow_unknown"
    and texts: "\<And>k. map_of submitted' k = map_option fst (map_of (submission_entries schema submitted allow_unknown) k)"
  shows "fst ` set submitted' \<subseteq> known_names schema"
proof
  fix k assume "k \<in> fst ` set submitted'"
  then have "map_of submitted' k \<noteq> None" by (simp only: map_of_eq_None_iff not_not)
  then have "map_of (submission_entries schema submitted allow_unknown) k \<noteq> None" using texts [of k] by auto
  then show "k \<in> known_names schema"
    using entries_unknown [OF assms(1), of k schema allow_unknown] assms(2) by fastforce
qed

text \<open>
  C2: Canonical form is stable: submitting the texts of an accepted configuration again, in any
  order, is accepted with exactly the same texts and the same typed values.
\<close>

theorem validate_values_resubmit:
  assumes "validate_values schema submitted allow_unknown = Some (Ok vc)"
    and "distinct (map p_id (ps_parameters schema))" "distinct (map fst submitted)"
    and "distinct (map fst submitted')" "map_of submitted' = vc_values vc"
  shows "validate_values schema submitted' allow_unknown = Some (Ok vc)"
proof -
  let ?ps = "ps_parameters schema"
  let ?es = "submission_entries schema submitted allow_unknown"
  let ?es' = "submission_entries schema submitted' allow_unknown"
  have d: "distinct (map fst ?es)" "distinct (map fst ?es')"
    using assms(2-4) by (auto intro: distinct_entries)
  have none: "submission_errors schema submitted allow_unknown = []"
    and vc: "vc = \<lparr>vc_values = hm.insert_all (entry_values ?es) Map.empty,
                   vc_typed_values = bt.insert_all (entry_typed ?es) []\<rparr>"
    using assms(1) by (auto simp: validate_values_eq split: if_splits)
  have sub': "map_of submitted' k = map_option fst (map_of ?es k)" for k
    using d(1) by (simp add: assms(5) vc entry_values_lookup)
  note same = resubmitted_contribution [OF assms(2) none _ sub']
  have lookup: "map_of ?es' k = map_of ?es k" for k
  proof (cases "k \<in> known_names schema")
    case True
    then obtain p where "p \<in> set ?ps" "k = p_id p" by (auto simp: known_names_def)
    then show ?thesis using assms(2) same by (simp add: entries_known)
  next
    case False
    then show ?thesis
      using entries_unknown [OF assms(3) False, of allow_unknown]
        entries_unknown [OF assms(4) False, of allow_unknown] sub' [of k]
      by (auto simp: filter_opt_def split: option.splits if_splits)
  qed
  have "submission_errors schema submitted' allow_unknown = []"
    using resubmitted_known [OF assms(3) _ sub'] none same by (auto simp: submission_errors_def unknown_errors_Nil parameter_errors_Nil)
  moreover have "hm.insert_all (entry_values ?es') Map.empty = hm.insert_all (entry_values ?es) Map.empty"
    using d lookup by (auto simp: entry_values_lookup)
  moreover have "bt.insert_all (entry_typed ?es') [] = bt.insert_all (entry_typed ?es) []"
    using d lookup by (intro bt_ext bt.inv_insert_all ext) (auto simp: entry_typed_lookup)
  ultimately show ?thesis by (simp add: validate_values_eq vc)
qed

definition reads_as_number :: "parameter \<Rightarrow> string \<Rightarrow> bool" where
  "reads_as_number p v \<longleftrightarrow> (case p_units p of
      None \<Rightarrow> parse_decimal_rational v \<noteq> None
    | Some _ \<Rightarrow> \<exists>du. onshape_unit p = Some du \<and> is_ok (parse_quantity v du))"

lemma canonicalize_number_accepts:
  "(\<exists>c. canonicalize_number p v = Some (Ok c)) \<longleftrightarrow> reads_as_number p v"
  using canonicalize_number_returns [of p v]
  by (auto simp: reads_as_number_def canonicalize_number_def canonicalize_dimensioned_number_def
      canonicalize_unitless_number_def case_prod_unfold Let_def is_ok_def bind_eq_Some_conv
      split: option.splits sum.splits)

lemma value_contribution_accepts:
  "(\<exists>c. value_contribution p v = Ok c) \<longleftrightarrow> (case p_kind p of
      Text \<Rightarrow> True
    | Number \<Rightarrow> reads_as_number p v
    | Boolean \<Rightarrow> is_bool_word v
    | Enum \<Rightarrow> v \<in> po_value ` set (p_options p)
    | Unsupported \<Rightarrow> False)"
proof (cases "p_kind p = Number")
  case True
  then show ?thesis
    using canonicalize_number_accepts [of p v] value_contribution_number [OF True, of v] by auto
next
  case False
  then show ?thesis
    by (cases "p_kind p") (auto simp: value_contribution_def list_ex_iff)
qed


section \<open>A concrete schema\<close>

definition example_parameter :: parameter where
  "example_parameter = \<lparr>p_id = ''w'', p_label = ''Width'', p_description = None, p_kind = Number,
     p_required = True, p_default_value = None, p_options = [], p_hidden = False,
     p_visibility_condition = None, p_precision = None, p_widget = None, p_units = Some ''inch'',
     p_raw = JNull\<rparr>"

definition example_schema :: parameter_schema where
  "example_schema = \<lparr>ps_schema_version = 4,
     ps_source = \<lparr>src_document_id = ''d'', src_version_id = ''v'', src_element_id = ''e'',
       src_element_kind = PartStudio, src_link_document_id = None\<rparr>,
     ps_parameters = [example_parameter]\<rparr>"

lemmas trim_eval = trim_def trim_end_def trim_start.simps trim_start_rev.simps space_width_rev_def Let_def

lemma trim_example:
  "trim ''1.5 in'' = ''1.5 in''" "trim_end ''1.5 in'' = ''1.5 in''" "trim ''1.5 '' = ''1.5''"
  "trim ''1.5'' = ''1.5''"
  "trim ''0.0381 m'' = ''0.0381 m''" "trim_end ''0.0381 m'' = ''0.0381 m''" "trim ''0.0381 '' = ''0.0381''"
  "trim ''0.0381'' = ''0.0381''"
  by (simp_all add: trim_eval)

lemma coprime_example: "coprime (381::int) 10000"
proof (rule coprimeI)
  fix c :: int assume "c dvd 381" "c dvd 10000"
  then have "c dvd 2021 * 381 - 77 * 10000" by (intro dvd_diff dvd_mult)
  then show "is_unit c" by simp
qed

lemma quotient_example: "quotient_of (381 / 10000) = (381, 10000)"
  using quotient_of_Fract [of 381 10000] normalize_stable [of 10000 381] coprime_example
  by (simp add: Fract_of_int_quotient)

lemma strip_example: "strip_factor 2 10000 = 625" "strip_factor 5 625 = 1"
  by (simp_all add: strip_factor.simps)

lemma decimal_example:
  "rational_decimal_string (381 / 10000) = Some (Some ''0.0381'')"
  "rational_parts (381 / 10000) = (''381'', ''10000'')"
  by (simp_all add: rational_decimal_string_def rational_parts_def quotient_example strip_example
      strip_zeros_def frac_digits.simps digit_char_eval nat_str.simps int_str_def Let_def)

lemma parse_example:
  "parse_quantity ''1.5 in'' Inch = Ok (3 / 2, Inch)"
  "parse_quantity ''0.0381 m'' Inch = Ok (381 / 10000, Meter)"
  by (simp_all add: parse_quantity_def trim_example trailing_quantity_unit_def byte_class_defs Let_def
      and_then_def ok_or_def from_abbreviation_def parse_decimal_rational_def sign_split_def
      dec_value_def digit_value_def Fract_of_int_quotient)

lemma example_accepted:
  "validate_values example_schema [(''w'', ''1.5 in'')] False
    = Some (Ok \<lparr>vc_values = [''w'' \<mapsto> ''0.0381 m''],
        vc_typed_values = [(''w'', CQuantity Length ''381'' ''10000'' ''m'')]\<rparr>)"
  by (simp add: validate_values_def example_schema_def example_parameter_def known_names_def unknown_errors_def
      validate_parameter_def chosen_value_def filter_opt_def canonicalize_number_def
      canonicalize_dimensioned_number_def onshape_unit_def from_onshape_unit_def parse_example
      canonical_quantity_value_def Fract_of_int_quotient decimal_example expect_def accept_def Let_def)


theorem validate_values_resubmit_witness:
  "validate_values example_schema [(''w'', ''0.0381 m'')] False
    = validate_values example_schema [(''w'', ''1.5 in'')] False"
  using validate_values_resubmit [OF example_accepted, of "[(''w'', ''0.0381 m'')]"] example_accepted
  by (simp add: example_schema_def)

end
