(* ===== verification/Cache_Identity.thy ===== *)
theory Cache_Identity
  imports Parameters
begin

text \<open>
  The content hashes that key the cache (\<open>src/src/cache_key.rs\<close> and \<open>src/src/cache_model.rs\<close>): the
  hashed document of every identity, member by member. RFC 8785 canonicalisation (\<open>serde_jcs\<close>) and
  SHA-256 (\<open>sha2\<close>) are libraries: \<open>jcs\<close> and \<open>sha\<close> are parameters, and what a theorem needs of
  them is the named hypothesis \<open>unambiguous\<close> on the documents it compares.
\<close>

section \<open>Hashing a document\<close>

type_synonym canonicalizer = "json \<Rightarrow> (string, string) result"
type_synonym digest = "string \<Rightarrow> string"

definition hash_preimage :: "string \<Rightarrow> json \<Rightarrow> json" where
  "hash_preimage domain payload = members [(''domain'', Some (JStr domain)), (''payload'', Some payload)]"

definition hex_digit :: "nat \<Rightarrow> char" where
  "hex_digit n = (if n < 10 then digit_char n else char_of (87 + n))"

definition hex_byte :: "char \<Rightarrow> string" where
  "hex_byte c = [hex_digit (code c div 16), hex_digit (code c mod 16)]"

definition hex_sha256 :: "digest \<Rightarrow> string \<Rightarrow> string" where
  "hex_sha256 sha bytes = concat (map hex_byte (sha bytes))"

definition hash_json :: "canonicalizer \<Rightarrow> digest \<Rightarrow> string \<Rightarrow> json \<Rightarrow> (string, string) result" where
  "hash_json jcs sha domain payload =
    and_then (jcs (hash_preimage domain payload)) (\<lambda>bytes. Ok (hex_sha256 sha bytes))"

text \<open>
  What the comparison of two hashes rests on: on the documents \<open>V\<close> the canonical text determines the
  document (RFC 8785, section 1), and SHA-256 has no collision among those texts.
\<close>

definition unambiguous :: "canonicalizer \<Rightarrow> digest \<Rightarrow> json set \<Rightarrow> bool" where
  "unambiguous jcs sha V \<longleftrightarrow>
    (\<forall>v \<in> V. \<forall>w \<in> V. \<forall>b. jcs v = Ok b \<and> jcs w = Ok b \<longrightarrow> v = w)
    \<and> (\<forall>v \<in> V. \<forall>w \<in> V. \<forall>b c. jcs v = Ok b \<and> jcs w = Ok c \<and> sha b = sha c \<longrightarrow> b = c)"

lemma unambiguous_mono: "\<lbrakk>unambiguous jcs sha V; W \<subseteq> V\<rbrakk> \<Longrightarrow> unambiguous jcs sha W"
  unfolding unambiguous_def by blast

lemma code_less: "code c < 256"
  by (cases c) (simp add: of_char_def) 

lemma code_hex_digit: "n < 16 \<Longrightarrow> code (hex_digit n) = (if n < 10 then 48 + n else 87 + n)"
  by (simp add: hex_digit_def code_digit_char of_char_of)

lemma hex_digit_inj:
  assumes "hex_digit m = hex_digit n" "m < 16" "n < 16"
  shows "m = n"
proof -
  have "(if m < 10 then 48 + m else 87 + m) = (if n < 10 then 48 + n else 87 + n)"
    unfolding code_hex_digit [OF assms(2), symmetric] code_hex_digit [OF assms(3), symmetric] assms(1) ..
  then show ?thesis using assms(2,3) by (simp split: if_splits)
qed

lemma hex_byte_inj: "hex_byte b = hex_byte c \<longleftrightarrow> b = c"
proof
  assume h: "hex_byte b = hex_byte c"
  have high: "code a div 16 < 16" for a by (rule less_mult_imp_div_less) (use code_less [of a] in simp)
  have low: "code a mod 16 < 16" for a by (rule mod_less_divisor) simp
  have "hex_digit (code b div 16) = hex_digit (code c div 16)"
    and "hex_digit (code b mod 16) = hex_digit (code c mod 16)"
    using h by (simp_all only: hex_byte_def list.inject)
  then have "code b div 16 = code c div 16" "code b mod 16 = code c mod 16"
    by (blast intro: hex_digit_inj high low)+
  then have "code b = code c" by (metis div_mult_mod_eq)
  then show "b = c" by simp
qed simp

lemma hex_inj: "concat (map hex_byte s) = concat (map hex_byte t) \<Longrightarrow> s = t"
proof (induction s arbitrary: t)
  case Nil
  then show ?case by (cases t) (auto simp: hex_byte_def)
next
  case (Cons b s)
  then obtain c t' where t: "t = c # t'" by (cases t) (auto simp: hex_byte_def)
  have "length (hex_byte b) = length (hex_byte c)" by (simp add: hex_byte_def)
  then have "hex_byte b = hex_byte c \<and> concat (map hex_byte s) = concat (map hex_byte t')"
    using Cons.prems by (simp add: t)
  with Cons.IH show ?case by (auto simp: t hex_byte_inj)
qed

lemma hash_preimage_inj: "hash_preimage d p = hash_preimage d' p' \<longleftrightarrow> d = d' \<and> p = p'"
  by (auto simp: hash_preimage_def dest!: members_inj)

lemma hash_json_binds:
  assumes "unambiguous jcs sha {hash_preimage d p, hash_preimage d' p'}"
    and "hash_json jcs sha d p = Ok h"
  shows "hash_json jcs sha d' p' = Ok h \<longleftrightarrow> d' = d \<and> p' = p"
proof
  assume "hash_json jcs sha d' p' = Ok h"
  then obtain b c where bc: "jcs (hash_preimage d p) = Ok b" "jcs (hash_preimage d' p') = Ok c"
    and "hex_sha256 sha b = hex_sha256 sha c"
    using assms(2) by (auto simp: hash_json_def result_simps)
  then have "sha b = sha c" by (auto simp: hex_sha256_def dest: hex_inj)
  then have "b = c" using assms(1) bc unfolding unambiguous_def by blast
  then have "hash_preimage d p = hash_preimage d' p'" using assms(1) bc unfolding unambiguous_def by blast
  then show "d' = d \<and> p' = p" by (simp add: hash_preimage_inj)
qed (use assms(2) in simp)


section \<open>Identities\<close>

definition CANONICALIZATION_VERSION :: "32 word" where "CANONICALIZATION_VERSION = 2"
definition RESPONSE_SHAPE_VERSION :: "32 word" where "RESPONSE_SHAPE_VERSION = 1"
definition ARTIFACT_SET_SCHEMA_VERSION :: "32 word" where "ARTIFACT_SET_SCHEMA_VERSION = 1"

record resolved_source =
  rs_document_id :: string
  rs_version_id :: string
  rs_microversion_id :: string
  rs_element_id :: string
  rs_element_kind :: element_kind
  rs_link_document_id :: "string option"

record encoded_configuration =
  ec_encoded_id :: string
  ec_query_param :: string

text \<open>The generic members of the request, response and post-processing identities are JSON values.\<close>

record request_identity =
  rq_api_host_class :: string
  rq_api_spec_version :: "string option"
  rq_operation :: string
  rq_method :: string
  rq_path_template :: string
  rq_path_params :: json
  rq_query :: json
  rq_body :: json
  rq_encoded_configuration :: "encoded_configuration option"
  rq_defaults_policy_version :: string
  rq_request_builder_version :: string

record response_identity =
  rp_translation_id :: string
  rp_start_response :: json
  rp_final_response :: json
  rp_poll_state :: json
  rp_response_shape_version :: "32 word"

record postprocess_identity =
  pp_raw_payload_hash :: string
  pp_processor_name :: string
  pp_processor_version :: string
  pp_policy :: json

record artifact_set_identity =
  as_artifact_set_schema_version :: "32 word"
  as_output_kind :: string
  as_format :: string
  as_source_hash :: string
  as_config_hash :: string
  as_options_hash :: string
  as_request_hash :: "string option"
  as_raw_payload_hash :: "string option"
  as_postprocess_hash :: string
  as_generator_processing_hash :: "string option"

definition u32_json :: "32 word \<Rightarrow> json" where
  "u32_json n = JNum (PosInt (ucast n))"

fun dimension_key :: "quantity_dimension \<Rightarrow> string" where
  "dimension_key Length = ''length''"
| "dimension_key Angle = ''angle''"

fun canonical_value_json :: "canonical_value \<Rightarrow> json" where
  "canonical_value_json (CText v) = members [(''kind'', Some (JStr ''text'')), (''value'', Some (JStr v))]"
| "canonical_value_json (CNumber n d) = members [(''kind'', Some (JStr ''number'')),
     (''numerator'', Some (JStr n)), (''denominator'', Some (JStr d))]"
| "canonical_value_json (CQuantity q n d u) = members [(''kind'', Some (JStr ''quantity'')),
     (''dimension'', Some (JStr (dimension_key q))), (''numerator'', Some (JStr n)),
     (''denominator'', Some (JStr d)), (''unit'', Some (JStr u))]"
| "canonical_value_json (CBoolean b) = members [(''kind'', Some (JStr ''boolean'')), (''value'', Some (JBool b))]"
| "canonical_value_json (CEnum v) = members [(''kind'', Some (JStr ''enum'')), (''value'', Some (JStr v))]"

definition typed_values_json :: "(string, canonical_value) btree \<Rightarrow> json" where
  "typed_values_json typed = JObj (map (\<lambda>(k, v). (k, canonical_value_json v)) typed)"

definition source_payload :: "resolved_source \<Rightarrow> json" where
  "source_payload i = members [(''documentId'', Some (JStr (rs_document_id i))),
     (''microversionId'', Some (JStr (rs_microversion_id i))),
     (''elementId'', Some (JStr (rs_element_id i))),
     (''elementKind'', Some (JStr (element_kind_key (rs_element_kind i)))),
     (''linkDocumentId'', Some (nullable JStr (rs_link_document_id i)))]"

definition source_hash :: "canonicalizer \<Rightarrow> digest \<Rightarrow> resolved_source \<Rightarrow> (string, string) result" where
  "source_hash jcs sha i = hash_json jcs sha ''source-v2'' (source_payload i)"

definition config_payload :: "string \<Rightarrow> 32 word \<Rightarrow> (string, canonical_value) btree \<Rightarrow> json" where
  "config_payload source version typed = members [
     (''canonicalizationVersion'', Some (u32_json CANONICALIZATION_VERSION)),
     (''sourceHash'', Some (JStr source)),
     (''parameterSchemaVersion'', Some (u32_json version)),
     (''typedValues'', Some (typed_values_json typed))]"

definition config_hash ::
  "canonicalizer \<Rightarrow> digest \<Rightarrow> string \<Rightarrow> 32 word \<Rightarrow> (string, canonical_value) btree \<Rightarrow> (string, string) result"
where
  "config_hash jcs sha source version typed =
    hash_json jcs sha ''config-v2'' (config_payload source version typed)"

definition options_hash ::
  "canonicalizer \<Rightarrow> digest \<Rightarrow> string \<Rightarrow> string \<Rightarrow> json \<Rightarrow> (string, string) result" where
  "options_hash jcs sha format version options =
    hash_json jcs sha ''options-v2'' (members [(''optionsVersion'', Some (JStr version)),
      (''format'', Some (JStr format)), (''options'', Some options)])"

definition encoded_configuration_json :: "encoded_configuration \<Rightarrow> json" where
  "encoded_configuration_json c = members [(''encodedId'', Some (JStr (ec_encoded_id c))),
     (''queryParam'', Some (JStr (ec_query_param c)))]"

definition request_identity_json :: "request_identity \<Rightarrow> json" where
  "request_identity_json i = members [
     (''apiHostClass'', Some (JStr (rq_api_host_class i))),
     (''apiSpecVersion'', Some (nullable JStr (rq_api_spec_version i))),
     (''operation'', Some (JStr (rq_operation i))),
     (''method'', Some (JStr (rq_method i))),
     (''pathTemplate'', Some (JStr (rq_path_template i))),
     (''pathParams'', Some (rq_path_params i)),
     (''query'', Some (rq_query i)),
     (''body'', Some (rq_body i)),
     (''encodedConfiguration'', Some (nullable encoded_configuration_json (rq_encoded_configuration i))),
     (''defaultsPolicyVersion'', Some (JStr (rq_defaults_policy_version i))),
     (''requestBuilderVersion'', Some (JStr (rq_request_builder_version i)))]"

definition request_hash :: "canonicalizer \<Rightarrow> digest \<Rightarrow> request_identity \<Rightarrow> (string, string) result" where
  "request_hash jcs sha i = hash_json jcs sha ''request-v2'' (request_identity_json i)"

definition response_hash :: "canonicalizer \<Rightarrow> digest \<Rightarrow> response_identity \<Rightarrow> (string, string) result" where
  "response_hash jcs sha i = hash_json jcs sha ''response-v2'' (members [
     (''translationId'', Some (JStr (rp_translation_id i))),
     (''startResponse'', Some (rp_start_response i)),
     (''finalResponse'', Some (rp_final_response i)),
     (''pollState'', Some (rp_poll_state i)),
     (''responseShapeVersion'', Some (u32_json (rp_response_shape_version i)))])"

definition postprocess_hash :: "canonicalizer \<Rightarrow> digest \<Rightarrow> postprocess_identity \<Rightarrow> (string, string) result" where
  "postprocess_hash jcs sha i = hash_json jcs sha ''postprocess-v2'' (members [
     (''rawPayloadHash'', Some (JStr (pp_raw_payload_hash i))),
     (''processorName'', Some (JStr (pp_processor_name i))),
     (''processorVersion'', Some (JStr (pp_processor_version i))),
     (''policy'', Some (pp_policy i))])"

definition artifact_set_payload :: "artifact_set_identity \<Rightarrow> json" where
  "artifact_set_payload i = members [
     (''artifactSetSchemaVersion'', Some (u32_json (as_artifact_set_schema_version i))),
     (''outputKind'', Some (JStr (as_output_kind i))),
     (''format'', Some (JStr (as_format i))),
     (''sourceHash'', Some (JStr (as_source_hash i))),
     (''configHash'', Some (JStr (as_config_hash i))),
     (''optionsHash'', Some (JStr (as_options_hash i))),
     (''requestHash'', map_option JStr (as_request_hash i)),
     (''rawPayloadHash'', map_option JStr (as_raw_payload_hash i)),
     (''postprocessHash'', Some (JStr (as_postprocess_hash i))),
     (''generatorProcessingHash'', map_option JStr (as_generator_processing_hash i))]"

definition artifact_set_hash :: "canonicalizer \<Rightarrow> digest \<Rightarrow> artifact_set_identity \<Rightarrow> (string, string) result" where
  "artifact_set_hash jcs sha i = hash_json jcs sha ''artifact-set-v2'' (artifact_set_payload i)"

section \<open>The parameter schema\<close>

fun parameter_kind_key :: "parameter_kind \<Rightarrow> string" where
  "parameter_kind_key Text = ''text''"
| "parameter_kind_key Number = ''number''"
| "parameter_kind_key Boolean = ''boolean''"
| "parameter_kind_key Enum = ''enum''"
| "parameter_kind_key Unsupported = ''unsupported''"

fun visibility_condition_json :: "visibility_condition \<Rightarrow> json" where
  "visibility_condition_json (AllOf cs) = members [(''kind'', Some (JStr ''all'')),
     (''conditions'', Some (JArr (map visibility_condition_json cs)))]"
| "visibility_condition_json (AnyOf cs) = members [(''kind'', Some (JStr ''any'')),
     (''conditions'', Some (JArr (map visibility_condition_json cs)))]"
| "visibility_condition_json (EqualTo p vs) = members [(''kind'', Some (JStr ''equal'')),
     (''parameterId'', Some (JStr p)), (''values'', Some (JArr (map JStr vs)))]"

definition parameter_option_json :: "parameter_option \<Rightarrow> json" where
  "parameter_option_json po = members [(''value'', Some (JStr (po_value po))), (''label'', Some (JStr (po_label po)))]"

definition onshape_source_json :: "onshape_source \<Rightarrow> json" where
  "onshape_source_json s = members [(''documentId'', Some (JStr (src_document_id s))),
     (''versionId'', Some (JStr (src_version_id s))), (''elementId'', Some (JStr (src_element_id s))),
     (''elementKind'', Some (JStr (element_kind_key (src_element_kind s)))),
     (''linkDocumentId'', map_option JStr (src_link_document_id s))]"

definition parameter_json :: "parameter \<Rightarrow> json" where
  "parameter_json p = members [(''id'', Some (JStr (p_id p))), (''label'', Some (JStr (p_label p))),
     (''description'', Some (nullable JStr (p_description p))),
     (''kind'', Some (JStr (parameter_kind_key (p_kind p)))),
     (''required'', Some (JBool (p_required p))),
     (''defaultValue'', Some (nullable JStr (p_default_value p))),
     (''options'', Some (JArr (map parameter_option_json (p_options p)))),
     (''hidden'', Some (JBool (p_hidden p))),
     (''visibilityCondition'', map_option visibility_condition_json (p_visibility_condition p)),
     (''precision'', Some (nullable u32_json (p_precision p))),
     (''widget'', Some (nullable JStr (p_widget p))),
     (''units'', Some (nullable JStr (p_units p))),
     (''raw'', Some (p_raw p))]"

definition parameter_schema_json :: "parameter_schema \<Rightarrow> json" where
  "parameter_schema_json s = members [(''schemaVersion'', Some (u32_json (ps_schema_version s))),
     (''source'', Some (onshape_source_json (ps_source s))),
     (''parameters'', Some (JArr (map parameter_json (ps_parameters s))))]"

definition parameter_schema_hash :: "canonicalizer \<Rightarrow> digest \<Rightarrow> parameter_schema \<Rightarrow> (string, string) result" where
  "parameter_schema_hash jcs sha s = hash_json jcs sha ''parameter-schema-v2'' (parameter_schema_json s)"

section \<open>What a hash identifies\<close>

lemma unat_u32 [simp]: "unat (ucast (n :: 32 word) :: 64 word) = unat n"
  using unsigned_less [of n, where ?'a = nat] by (simp add: unsigned_ucast_eq take_bit_nat_eq_self)

lemma u32_json_inj [simp]: "u32_json m = u32_json n \<longleftrightarrow> m = n"
proof
  assume "u32_json m = u32_json n"
  then have "unat (ucast m :: 64 word) = unat (ucast n :: 64 word)"
    by (simp only: u32_json_def json.inject jnum.inject)
  then have "unat m = unat n" by simp
  then show "m = n" by (simp only: word_unat_eq_iff)
qed simp

lemma dimension_key_inj [simp]: "dimension_key a = dimension_key b \<longleftrightarrow> a = b"
  by (cases a; cases b) simp_all

lemma canonical_value_json_inj [simp]: "canonical_value_json v = canonical_value_json w \<longleftrightarrow> v = w"
proof
  assume e: "canonical_value_json v = canonical_value_json w"
  have f: "field k (canonical_value_json v) = field k (canonical_value_json w)" for k
    by (simp only: e)
  show "v = w"
    using f [of "''kind''"] f [of "''value''"] f [of "''numerator''"] f [of "''denominator''"]
      f [of "''unit''"] f [of "''dimension''"]
    by (cases v; cases w) (simp_all add: field_members)
qed simp

lemma typed_values_json_inj [simp]: "typed_values_json s = typed_values_json t \<longleftrightarrow> s = t"
proof -
  have "inj (\<lambda>(k :: string, v). (k, canonical_value_json v))" by (auto intro!: injI)
  then show ?thesis by (simp add: typed_values_json_def inj_map_eq_map)
qed

text \<open>
  The source hash identifies the resolved source up to its version: two sources have the same
  hash exactly when they agree on document, microversion, element, kind of element and linked
  document, whatever version they were resolved from.
\<close>

lemma source_hash_identifies:
  assumes "unambiguous jcs sha {hash_preimage ''source-v2'' (source_payload i),
      hash_preimage ''source-v2'' (source_payload i')}"
    and "source_hash jcs sha i = Ok h"
  shows "source_hash jcs sha i' = Ok h \<longleftrightarrow> i'\<lparr>rs_version_id := rs_version_id i\<rparr> = i"
proof -
  have "source_payload i' = source_payload i \<longleftrightarrow> i'\<lparr>rs_version_id := rs_version_id i\<rparr> = i"
    by (cases i; cases i') (auto simp: source_payload_def element_kind_key_inj dest!: members_inj)
  then show ?thesis
    using hash_json_binds [OF assms(1) assms(2) [unfolded source_hash_def]]
    by (simp add: source_hash_def)
qed

text \<open>
  The configuration hash identifies the source hash, the schema version and the typed values:
  two configurations share it exactly when all three are equal.
\<close>

lemma config_hash_identifies:
  assumes "unambiguous jcs sha {hash_preimage ''config-v2'' (config_payload s n t),
      hash_preimage ''config-v2'' (config_payload s' n' t')}"
    and "config_hash jcs sha s n t = Ok h"
  shows "config_hash jcs sha s' n' t' = Ok h \<longleftrightarrow> s' = s \<and> n' = n \<and> t' = t"
proof -
  have "config_payload s' n' t' = config_payload s n t \<longleftrightarrow> s' = s \<and> n' = n \<and> t' = t"
    by (auto simp: config_payload_def dest!: members_inj)
  then show ?thesis
    using hash_json_binds [OF assms(1) assms(2) [unfolded config_hash_def]]
    by (simp add: config_hash_def)
qed

lemma map_option_str_inj [simp]: "map_option JStr x = map_option JStr y \<longleftrightarrow> x = y"
  by (cases x; cases y) auto

text \<open>
  C6: The artifact-set hash identifies the whole identity, an absent request, payload or processing
  hash included.
\<close>

theorem artifact_set_hash_identifies:
  assumes "unambiguous jcs sha {hash_preimage ''artifact-set-v2'' (artifact_set_payload i),
      hash_preimage ''artifact-set-v2'' (artifact_set_payload i')}"
    and "artifact_set_hash jcs sha i = Ok h"
  shows "artifact_set_hash jcs sha i' = Ok h \<longleftrightarrow> i' = i"
proof -
  have "artifact_set_payload i' = artifact_set_payload i \<longleftrightarrow> i' = i"
    by (cases i; cases i') (auto simp: artifact_set_payload_def dest!: members_inj)
  then show ?thesis
    using hash_json_binds [OF assms(1) assms(2) [unfolded artifact_set_hash_def]]
    by (simp add: artifact_set_hash_def)
qed

section \<open>Concrete instances\<close>

text \<open>A canonicaliser that distinguishes the documents below by one member, and a digest.\<close>

definition example_jcs :: "string \<Rightarrow> canonicalizer" where
  "example_jcs k v = (case Option.bind (field ''payload'' v) (field k) of
      Some (JStr s) \<Rightarrow> Ok s
    | _ \<Rightarrow> Err ''unsupported'')"

definition example_digest :: digest where
  "example_digest s = take 32 (s @ replicate 32 CHR 0x00)"

lemma example_jcs_preimage:
  "example_jcs k (hash_preimage d p) = (case field k p of Some (JStr s) \<Rightarrow> Ok s | _ \<Rightarrow> Err ''unsupported'')"
  by (simp add: example_jcs_def hash_preimage_def field_members)

definition example_source :: "string \<Rightarrow> string \<Rightarrow> resolved_source" where
  "example_source v m = \<lparr>rs_document_id = ''d'', rs_version_id = v, rs_microversion_id = m,
     rs_element_id = ''e'', rs_element_kind = PartStudio, rs_link_document_id = None\<rparr>"

lemma source_hash_identifies_witness:
  "source_hash (example_jcs ''microversionId'') example_digest (example_source ''v2'' ''m1'')
      = source_hash (example_jcs ''microversionId'') example_digest (example_source ''v1'' ''m1'')
    \<and> source_hash (example_jcs ''microversionId'') example_digest (example_source ''v1'' ''m2'')
      \<noteq> source_hash (example_jcs ''microversionId'') example_digest (example_source ''v1'' ''m1'')"
proof -
  let ?s = "source_hash (example_jcs ''microversionId'') example_digest"
  have ok: "\<exists>h. ?s (example_source v m) = Ok h" for v m
    by (simp add: source_hash_def hash_json_def example_jcs_preimage source_payload_def field_members
        example_source_def and_then_def)
  obtain h where h: "?s (example_source ''v1'' ''m1'') = Ok h" using ok by blast
  have u: "unambiguous (example_jcs ''microversionId'') example_digest
      {hash_preimage ''source-v2'' (source_payload (example_source ''v1'' ''m1'')),
       hash_preimage ''source-v2'' (source_payload (example_source v m))}"
    if "(v, m) = (''v2'', ''m1'') \<or> (v, m) = (''v1'', ''m2'')" for v m
    using that
    by (auto simp: unambiguous_def example_jcs_preimage source_payload_def field_members
        example_source_def example_digest_def hash_preimage_inj)
  show ?thesis
    using source_hash_identifies [OF u h, of "''v2''" "''m1''"] source_hash_identifies [OF u h, of "''v1''" "''m2''"] h
    by (simp add: example_source_def)
qed

lemma config_hash_identifies_witness:
  "config_hash (example_jcs ''sourceHash'') example_digest ''s'' 4 [(''a'', CBoolean True)]
    \<noteq> config_hash (example_jcs ''sourceHash'') example_digest ''t'' 4 [(''a'', CBoolean True)]"
proof -
  let ?c = "config_hash (example_jcs ''sourceHash'') example_digest"
  obtain h where h: "?c ''s'' 4 [(''a'', CBoolean True)] = Ok h"
    by (auto simp: config_hash_def hash_json_def example_jcs_preimage config_payload_def field_members and_then_def)
  have u: "unambiguous (example_jcs ''sourceHash'') example_digest
      {hash_preimage ''config-v2'' (config_payload ''s'' 4 [(''a'', CBoolean True)]),
       hash_preimage ''config-v2'' (config_payload ''t'' 4 [(''a'', CBoolean True)])}"
    by (auto simp: unambiguous_def example_jcs_preimage config_payload_def field_members example_digest_def)
  show ?thesis
    using config_hash_identifies [OF u h] by (simp add: h)
qed

definition example_artifact :: "string \<Rightarrow> string option \<Rightarrow> artifact_set_identity" where
  "example_artifact s r = \<lparr>as_artifact_set_schema_version = ARTIFACT_SET_SCHEMA_VERSION,
     as_output_kind = ''download'', as_format = ''stl'', as_source_hash = s, as_config_hash = ''c'',
     as_options_hash = ''o'', as_request_hash = r, as_raw_payload_hash = None,
     as_postprocess_hash = ''p'', as_generator_processing_hash = None\<rparr>"

theorem artifact_set_hash_identifies_witness:
  "artifact_set_hash (example_jcs ''sourceHash'') example_digest (example_artifact ''s'' None)
    \<noteq> artifact_set_hash (example_jcs ''sourceHash'') example_digest (example_artifact ''t'' (Some ''r''))"
proof -
  let ?a = "artifact_set_hash (example_jcs ''sourceHash'') example_digest"
  obtain h where h: "?a (example_artifact ''s'' None) = Ok h"
    by (auto simp: artifact_set_hash_def hash_json_def example_jcs_preimage artifact_set_payload_def
        field_members and_then_def example_artifact_def)
  have u: "unambiguous (example_jcs ''sourceHash'') example_digest
      {hash_preimage ''artifact-set-v2'' (artifact_set_payload (example_artifact ''s'' None)),
       hash_preimage ''artifact-set-v2'' (artifact_set_payload (example_artifact ''t'' (Some ''r'')))}"
    by (auto simp: unambiguous_def example_jcs_preimage artifact_set_payload_def field_members
        example_digest_def example_artifact_def)
  show ?thesis
    using artifact_set_hash_identifies [OF u h] h by auto (simp add: example_artifact_def)
qed

end
