(* ===== verification/Generator_Types.thy ===== *)
theory Generator_Types
  imports Cache_Identity
begin

text \<open>
  The documents of the generator protocol (\<open>src/src/generator_protocol.rs\<close>): the structures and
  enumerations, the JSON documents \<open>serde\<close> derives for the parts that are hashed, and the three
  computed identities.
\<close>

section \<open>Limits\<close>

definition PROTOCOL_VERSION :: "32 word" where "PROTOCOL_VERSION = 1"
definition INPUT_MANIFEST_VERSION :: "32 word" where "INPUT_MANIFEST_VERSION = 1"
definition MAX_REQUEST_BYTES :: nat where "MAX_REQUEST_BYTES = 1048576"
definition MAX_INPUT_MANIFEST_BYTES :: nat where "MAX_INPUT_MANIFEST_BYTES = 1048576"
definition MAX_RESULT_BYTES :: nat where "MAX_RESULT_BYTES = 262144"
definition MAX_INPUT_OBJECTS :: nat where "MAX_INPUT_OBJECTS = 256"
definition MAX_DIAGNOSTICS :: nat where "MAX_DIAGNOSTICS = 64"
definition MAX_ERRORS :: nat where "MAX_ERRORS = 64"
definition MAX_IDENTITY_LENGTH :: nat where "MAX_IDENTITY_LENGTH = 256"
definition MAX_PATH_LENGTH :: nat where "MAX_PATH_LENGTH = 1024"
definition MAX_PATH_SEGMENTS :: nat where "MAX_PATH_SEGMENTS = 64"
definition MAX_PATH_SEGMENT_LENGTH :: nat where "MAX_PATH_SEGMENT_LENGTH = 255"
definition MAX_DISPLAY_LENGTH :: nat where "MAX_DISPLAY_LENGTH = 1024"
definition MAX_REASON_LENGTH :: nat where "MAX_REASON_LENGTH = 2048"
definition MAX_CODE_LENGTH :: nat where "MAX_CODE_LENGTH = 128"
definition MAX_MESSAGE_LENGTH :: nat where "MAX_MESSAGE_LENGTH = 2048"
definition MAX_CONTEXT_ENTRIES :: nat where "MAX_CONTEXT_ENTRIES = 16"
definition MAX_CONTEXT_KEY_LENGTH :: nat where "MAX_CONTEXT_KEY_LENGTH = 64"
definition MAX_CONTEXT_VALUE_LENGTH :: nat where "MAX_CONTEXT_VALUE_LENGTH = 512"
definition MAX_OCCURRENCE_SEGMENTS :: nat where "MAX_OCCURRENCE_SEGMENTS = 64"
definition MAX_SAFE_JSON_INTEGER :: "64 word" where "MAX_SAFE_JSON_INTEGER = 9007199254740991"

section \<open>Structures\<close>

datatype protocol_error =
    DocumentTooLarge string nat
  | InvalidJson string string
  | Invalid string
  | Identity string

datatype request_document_type = GeneratorRequest
datatype manifest_document_type = InputManifest
datatype result_document_type = GeneratorResult
datatype manifest_status = Available | Unavailable
datatype grouping_policy = Grouped | Individual
datatype mapping_status = Proven | Unproven | Missing | Duplicate | Ambiguous
datatype input_role = RawGeometry | AuxiliaryGeometry
datatype output_role = GeneratedProject
datatype result_status = Success | Failure
datatype diagnostic_severity = Info | Warning
datatype error_category =
  MalformedRequest | UnsupportedRequest | InvalidInput | GenerationFailed | InternalError

record file_content =
  fc_content_identity :: string
  fc_path :: string
  fc_sha256 :: string
  fc_byte_length :: "64 word"
  fc_media_type :: string
  fc_detected_kind_identity :: string

record mapping_evidence =
  me_classification :: string
  me_evidence_identity :: string

record object_mapping =
  om_status :: mapping_status
  om_evidence :: "mapping_evidence option"
  om_reason :: "string option"

record input_object =
  io_object_identity :: string
  io_role :: input_role
  io_retained_content :: file_content
  io_mapping :: object_mapping
  io_source_object_identity :: "string option"
  io_occurrence_path :: "string list option"
  io_producer_result_identity :: "string option"
  io_source_filename :: "string option"
  io_display_name :: "string option"
  io_parent_object_identity :: "string option"

record export_input =
  ei_kind_identity :: string
  ei_schema_identity :: string
  ei_grouping_policy :: grouping_policy
  ei_observation_status :: mapping_status
  ei_observation_evidence_identity :: "string option"

record manifest_decision =
  md_status :: manifest_status
  md_reason :: "string option"

record input_manifest =
  im_document_type :: manifest_document_type
  im_protocol_version :: "32 word"
  im_manifest_version :: "32 word"
  im_manifest_identity :: string
  im_input_set_identity :: "string option"
  im_requirements_identity :: string
  im_source_identity :: string
  im_configuration_identity :: string
  im_export :: export_input
  im_decision :: manifest_decision
  im_objects :: "input_object list"

record identity_bindings =
  ib_package_identity :: string
  ib_build_identity :: string
  ib_binary_identity :: string
  ib_dialect_identity :: string
  ib_capability_identities :: "string list"
  ib_input_kind_identity :: string
  ib_input_schema_identity :: string
  ib_settings_identity :: string
  ib_settings_schema_identity :: string
  ib_provenance_set_identity :: string
  ib_normalization_identity :: string
  ib_validation_identity :: string

record manifest_reference =
  mr_path :: string
  mr_manifest_identity :: string
  mr_input_set_identity :: string

record settings_input =
  si_settings_identity :: string
  si_schema_identity :: string
  si_content :: file_content

record output_declaration =
  od_output_identity :: string
  od_role :: output_role
  od_path :: string
  od_media_type :: string
  od_max_byte_length :: "64 word"

record generator_request =
  gr_document_type :: request_document_type
  gr_protocol_version :: "32 word"
  gr_invocation_identity :: string
  gr_expected_identities :: identity_bindings
  gr_input_manifest :: manifest_reference
  gr_settings :: settings_input
  gr_output :: output_declaration

record diagnostic_context =
  dc_key :: string
  dc_value :: string

record diagnostic =
  dg_severity :: diagnostic_severity
  dg_code :: string
  dg_message :: string
  dg_instance_path :: "string option"
  dg_context :: "diagnostic_context list"

record structured_error =
  se_category :: error_category
  se_code :: string
  se_message :: string
  se_instance_path :: "string option"
  se_context :: "diagnostic_context list"

record generated_output =
  go_output_identity :: string
  go_role :: output_role
  go_path :: string
  go_media_type :: string
  go_byte_length :: "64 word"
  go_sha256 :: string

record generator_result =
  rt_document_type :: result_document_type
  rt_protocol_version :: "32 word"
  rt_status :: result_status
  rt_invocation_identity :: "string option"
  rt_reported_identities :: "identity_bindings option"
  rt_output :: "generated_output option"
  rt_diagnostics :: "diagnostic list"
  rt_errors :: "structured_error list"

section \<open>Documents\<close>

definition u64_json :: "64 word \<Rightarrow> json" where "u64_json n = JNum (PosInt n)"

fun manifest_status_key :: "manifest_status \<Rightarrow> string" where
  "manifest_status_key Available = ''available''"
| "manifest_status_key Unavailable = ''unavailable''"

fun grouping_policy_key :: "grouping_policy \<Rightarrow> string" where
  "grouping_policy_key Grouped = ''grouped''"
| "grouping_policy_key Individual = ''individual''"

fun mapping_status_key :: "mapping_status \<Rightarrow> string" where
  "mapping_status_key Proven = ''proven''"
| "mapping_status_key Unproven = ''unproven''"
| "mapping_status_key Missing = ''missing''"
| "mapping_status_key Duplicate = ''duplicate''"
| "mapping_status_key Ambiguous = ''ambiguous''"

fun input_role_key :: "input_role \<Rightarrow> string" where
  "input_role_key RawGeometry = ''rawGeometry''"
| "input_role_key AuxiliaryGeometry = ''auxiliaryGeometry''"

definition file_content_json :: "file_content \<Rightarrow> json" where
  "file_content_json c = members [
     (''contentIdentity'', Some (JStr (fc_content_identity c))), (''path'', Some (JStr (fc_path c))),
     (''sha256'', Some (JStr (fc_sha256 c))), (''byteLength'', Some (u64_json (fc_byte_length c))),
     (''mediaType'', Some (JStr (fc_media_type c))),
     (''detectedKindIdentity'', Some (JStr (fc_detected_kind_identity c)))]"

definition mapping_evidence_json :: "mapping_evidence \<Rightarrow> json" where
  "mapping_evidence_json e = members [
     (''classification'', Some (JStr (me_classification e))),
     (''evidenceIdentity'', Some (JStr (me_evidence_identity e)))]"

definition object_mapping_json :: "object_mapping \<Rightarrow> json" where
  "object_mapping_json m = members [
     (''status'', Some (JStr (mapping_status_key (om_status m)))),
     (''evidence'', map_option mapping_evidence_json (om_evidence m)),
     (''reason'', map_option JStr (om_reason m))]"

definition input_object_json :: "input_object \<Rightarrow> json" where
  "input_object_json o' = members [
     (''objectIdentity'', Some (JStr (io_object_identity o'))),
     (''role'', Some (JStr (input_role_key (io_role o')))),
     (''retainedContent'', Some (file_content_json (io_retained_content o'))),
     (''mapping'', Some (object_mapping_json (io_mapping o'))),
     (''sourceObjectIdentity'', map_option JStr (io_source_object_identity o')),
     (''occurrencePath'', map_option (\<lambda>p. JArr (map JStr p)) (io_occurrence_path o')),
     (''producerResultIdentity'', map_option JStr (io_producer_result_identity o')),
     (''sourceFilename'', map_option JStr (io_source_filename o')),
     (''displayName'', map_option JStr (io_display_name o')),
     (''parentObjectIdentity'', map_option JStr (io_parent_object_identity o'))]"

definition export_input_json :: "export_input \<Rightarrow> json" where
  "export_input_json e = members [
     (''kindIdentity'', Some (JStr (ei_kind_identity e))),
     (''schemaIdentity'', Some (JStr (ei_schema_identity e))),
     (''groupingPolicy'', Some (JStr (grouping_policy_key (ei_grouping_policy e)))),
     (''observationStatus'', Some (JStr (mapping_status_key (ei_observation_status e)))),
     (''observationEvidenceIdentity'', map_option JStr (ei_observation_evidence_identity e))]"

definition manifest_decision_json :: "manifest_decision \<Rightarrow> json" where
  "manifest_decision_json d = members [
     (''status'', Some (JStr (manifest_status_key (md_status d)))),
     (''reason'', map_option JStr (md_reason d))]"

definition identity_bindings_json :: "identity_bindings \<Rightarrow> json" where
  "identity_bindings_json b = members [
     (''packageIdentity'', Some (JStr (ib_package_identity b))),
     (''buildIdentity'', Some (JStr (ib_build_identity b))),
     (''binaryIdentity'', Some (JStr (ib_binary_identity b))),
     (''dialectIdentity'', Some (JStr (ib_dialect_identity b))),
     (''capabilityIdentities'', Some (JArr (map JStr (ib_capability_identities b)))),
     (''inputKindIdentity'', Some (JStr (ib_input_kind_identity b))),
     (''inputSchemaIdentity'', Some (JStr (ib_input_schema_identity b))),
     (''settingsIdentity'', Some (JStr (ib_settings_identity b))),
     (''settingsSchemaIdentity'', Some (JStr (ib_settings_schema_identity b))),
     (''provenanceSetIdentity'', Some (JStr (ib_provenance_set_identity b))),
     (''normalizationIdentity'', Some (JStr (ib_normalization_identity b))),
     (''validationIdentity'', Some (JStr (ib_validation_identity b)))]"

definition manifest_reference_json :: "manifest_reference \<Rightarrow> json" where
  "manifest_reference_json r = members [
     (''path'', Some (JStr (mr_path r))),
     (''manifestIdentity'', Some (JStr (mr_manifest_identity r))),
     (''inputSetIdentity'', Some (JStr (mr_input_set_identity r)))]"

definition settings_input_json :: "settings_input \<Rightarrow> json" where
  "settings_input_json s = members [
     (''settingsIdentity'', Some (JStr (si_settings_identity s))),
     (''schemaIdentity'', Some (JStr (si_schema_identity s))),
     (''content'', Some (file_content_json (si_content s)))]"

definition output_declaration_json :: "output_declaration \<Rightarrow> json" where
  "output_declaration_json d = members [
     (''outputIdentity'', Some (JStr (od_output_identity d))),
     (''role'', Some (JStr ''generatedProject'')),
     (''path'', Some (JStr (od_path d))),
     (''mediaType'', Some (JStr (od_media_type d))),
     (''maxByteLength'', Some (u64_json (od_max_byte_length d)))]"

section \<open>Identities\<close>

definition input_set_payload :: "input_manifest \<Rightarrow> json" where
  "input_set_payload m = members [
     (''protocolVersion'', Some (u32_json (im_protocol_version m))),
     (''manifestVersion'', Some (u32_json (im_manifest_version m))),
     (''objects'', Some (JArr (map input_object_json (im_objects m))))]"

definition computed_input_set_identity ::
  "canonicalizer \<Rightarrow> digest \<Rightarrow> input_manifest \<Rightarrow> (protocol_error, string option) result" where
  "computed_input_set_identity jcs sha m =
    (if md_status (im_decision m) = Unavailable then Ok None
     else map_err Identity (and_then (hash_json jcs sha ''generator-input-set-v1'' (input_set_payload m))
       (\<lambda>h. Ok (Some h))))"

definition manifest_payload :: "input_manifest \<Rightarrow> json" where
  "manifest_payload m = members [
     (''documentType'', Some (JStr ''inputManifest'')),
     (''protocolVersion'', Some (u32_json (im_protocol_version m))),
     (''manifestVersion'', Some (u32_json (im_manifest_version m))),
     (''inputSetIdentity'', map_option JStr (im_input_set_identity m)),
     (''requirementsIdentity'', Some (JStr (im_requirements_identity m))),
     (''sourceIdentity'', Some (JStr (im_source_identity m))),
     (''configurationIdentity'', Some (JStr (im_configuration_identity m))),
     (''export'', Some (export_input_json (im_export m))),
     (''decision'', Some (manifest_decision_json (im_decision m))),
     (''objects'', Some (JArr (map input_object_json (im_objects m))))]"

definition computed_manifest_identity ::
  "canonicalizer \<Rightarrow> digest \<Rightarrow> input_manifest \<Rightarrow> (protocol_error, string) result" where
  "computed_manifest_identity jcs sha m =
    map_err Identity (hash_json jcs sha ''generator-input-manifest-v1'' (manifest_payload m))"

definition invocation_payload :: "generator_request \<Rightarrow> json" where
  "invocation_payload r = members [
     (''documentType'', Some (JStr ''generatorRequest'')),
     (''protocolVersion'', Some (u32_json (gr_protocol_version r))),
     (''expectedIdentities'', Some (identity_bindings_json (gr_expected_identities r))),
     (''inputManifest'', Some (manifest_reference_json (gr_input_manifest r))),
     (''settings'', Some (settings_input_json (gr_settings r))),
     (''output'', Some (output_declaration_json (gr_output r)))]"

definition computed_invocation_identity ::
  "canonicalizer \<Rightarrow> digest \<Rightarrow> generator_request \<Rightarrow> (protocol_error, string) result" where
  "computed_invocation_identity jcs sha r =
    map_err Identity (hash_json jcs sha ''generator-invocation-v1'' (invocation_payload r))"

text \<open>Each document determines the structure it was derived from.\<close>

named_theorems document_inj

lemma u64_json_inj [simp]: "u64_json m = u64_json n \<longleftrightarrow> m = n"
  by (simp add: u64_json_def)

lemma mapping_status_key_inj [simp]: "mapping_status_key a = mapping_status_key b \<longleftrightarrow> a = b"
  by (cases a; cases b) simp_all

lemma manifest_status_key_inj [simp]: "manifest_status_key a = manifest_status_key b \<longleftrightarrow> a = b"
  by (cases a; cases b) simp_all

lemma grouping_policy_key_inj [simp]: "grouping_policy_key a = grouping_policy_key b \<longleftrightarrow> a = b"
  by (cases a; cases b) simp_all

lemma input_role_key_inj [simp]: "input_role_key a = input_role_key b \<longleftrightarrow> a = b"
  by (cases a; cases b) simp_all

lemma map_JStr_inj [simp]: "map JStr xs = map JStr ys \<longleftrightarrow> xs = ys"
  by (rule inj_map_eq_map) (simp add: inj_def)

lemma file_content_json_inj [document_inj]: "file_content_json a = file_content_json b \<longleftrightarrow> a = b"
  by (cases a; cases b) (auto simp: file_content_json_def dest!: members_inj)

lemma mapping_evidence_json_inj [document_inj]: "mapping_evidence_json a = mapping_evidence_json b \<longleftrightarrow> a = b"
  by (cases a; cases b) (auto simp: mapping_evidence_json_def dest!: members_inj)

lemma map_option_inj: "(\<And>a b. f a = f b \<longleftrightarrow> a = b) \<Longrightarrow> map_option f x = map_option f y \<longleftrightarrow> x = y"
  by (cases x; cases y) auto

lemma object_mapping_json_inj [document_inj]: "object_mapping_json a = object_mapping_json b \<longleftrightarrow> a = b"
  by (cases a; cases b)
    (auto simp: object_mapping_json_def map_option_inj [of mapping_evidence_json, OF mapping_evidence_json_inj]
      dest!: members_inj)

lemma input_object_json_inj [document_inj]: "input_object_json a = input_object_json b \<longleftrightarrow> a = b"
proof -
  have p: "map_option (\<lambda>p. JArr (map JStr p)) x = map_option (\<lambda>p. JArr (map JStr p)) y \<longleftrightarrow> x = y" for x y
    by (rule map_option_inj) simp
  show ?thesis
    by (cases a; cases b) (auto simp: input_object_json_def document_inj p dest!: members_inj)
qed

lemma input_objects_json_inj [document_inj]:
  "map input_object_json xs = map input_object_json ys \<longleftrightarrow> xs = ys"
  by (rule inj_map_eq_map) (simp add: inj_def document_inj)

lemma export_input_json_inj [document_inj]: "export_input_json a = export_input_json b \<longleftrightarrow> a = b"
  by (cases a; cases b) (auto simp: export_input_json_def dest!: members_inj)

lemma manifest_decision_json_inj [document_inj]: "manifest_decision_json a = manifest_decision_json b \<longleftrightarrow> a = b"
  by (cases a; cases b) (auto simp: manifest_decision_json_def dest!: members_inj)

lemma identity_bindings_json_inj [document_inj]: "identity_bindings_json a = identity_bindings_json b \<longleftrightarrow> a = b"
  by (cases a; cases b) (auto simp: identity_bindings_json_def dest!: members_inj)

lemma manifest_reference_json_inj [document_inj]: "manifest_reference_json a = manifest_reference_json b \<longleftrightarrow> a = b"
  by (cases a; cases b) (auto simp: manifest_reference_json_def dest!: members_inj)

lemma settings_input_json_inj [document_inj]: "settings_input_json a = settings_input_json b \<longleftrightarrow> a = b"
  by (cases a; cases b) (auto simp: settings_input_json_def document_inj dest!: members_inj)

lemma output_role_single [simp]: "(a :: output_role) = b"
  by (cases a; cases b) simp

lemma output_declaration_json_inj [document_inj]: "output_declaration_json a = output_declaration_json b \<longleftrightarrow> a = b"
  by (cases a; cases b) (auto simp: output_declaration_json_def dest!: members_inj)

end
