(* ===== verification/Generator_Protocol.thy ===== *)
theory Generator_Protocol
  imports Generator_Types
begin

text \<open>
  The validation of the generator protocol's documents (\<open>src/src/generator_protocol.rs\<close>): field
  checks with their messages, the manifest with its object loop and the walk along the parents, the
  request, the result, and the bindings between them. A long function of the code is split at its
  paragraphs into definitions composed in its order. \<open>serde_json::from_slice\<close> with the derived
  deserializers is the parameter \<open>decode\<close> of the three parsers.
\<close>

type_synonym check = "(protocol_error, unit) result"

definition require :: "bool \<Rightarrow> string \<Rightarrow> check" where
  "require c m = ensure c (Invalid m)"

lemma require_Ok [result_simps]: "require c m = Ok u \<longleftrightarrow> c"
  by (simp add: require_def result_simps)

section \<open>Fields\<close>

definition validate_version :: "32 word \<Rightarrow> string \<Rightarrow> check" where
  "validate_version v f = require (v = PROTOCOL_VERSION) (''unsupported '' @ f @ '': '' @ nat_str (unat v))"

definition validate_identity_with_limit :: "string \<Rightarrow> nat \<Rightarrow> string \<Rightarrow> check" where
  "validate_identity_with_limit v limit f =
    require (v \<noteq> [] \<and> length v \<le> limit \<and> list_all is_graphic v)
      (f @ '' must contain 1 to '' @ nat_str limit @ '' visible ASCII characters'')"

definition validate_identity :: "string \<Rightarrow> string \<Rightarrow> check" where
  "validate_identity v f =
    require (v \<noteq> [] \<and> length v \<le> MAX_IDENTITY_LENGTH \<and> list_all is_graphic v)
      (f @ '' must contain 1 to '' @ nat_str MAX_IDENTITY_LENGTH @ '' visible ASCII characters'')"

definition validate_optional_identity :: "string option \<Rightarrow> string \<Rightarrow> check" where
  "validate_optional_identity v f = if_some v (\<lambda>v. validate_identity v f)"

definition is_lower_hex :: "char \<Rightarrow> bool" where
  "is_lower_hex c \<longleftrightarrow> is_digit c \<or> (97 \<le> code c \<and> code c \<le> 102)"

definition validate_sha256 :: "string \<Rightarrow> string \<Rightarrow> check" where
  "validate_sha256 v f = require (length v = 64 \<and> list_all is_lower_hex v)
     (f @ '' must be a lowercase 64-character SHA-256 value'')"

definition validate_byte_length :: "64 word \<Rightarrow> string \<Rightarrow> check" where
  "validate_byte_length v f = require (v > 0 \<and> v \<le> MAX_SAFE_JSON_INTEGER)
     (f @ '' must be between 1 and '' @ nat_str (unat MAX_SAFE_JSON_INTEGER))"

definition is_media_type_character :: "char \<Rightarrow> bool" where
  "is_media_type_character c \<longleftrightarrow> is_alphanumeric c
    \<or> c \<in> {CHR ''!'', CHR ''#'', CHR ''$'', CHR ''&'', CHR ''^'', CHR ''_'', CHR ''.'', CHR ''+'', CHR ''-''}"

definition validate_media_type :: "string \<Rightarrow> string \<Rightarrow> check" where
  "validate_media_type v f =
    (let parts = split_on CHR ''/'' v;
         type_name = (case parts of p # _ \<Rightarrow> p | [] \<Rightarrow> []);
         subtype = (case parts of _ # p # _ \<Rightarrow> p | _ \<Rightarrow> [])
     in require (type_name \<noteq> [] \<and> subtype \<noteq> [] \<and> length parts \<le> 2
          \<and> list_all is_media_type_character type_name \<and> list_all is_media_type_character subtype)
        (f @ '' must be a media type without parameters''))"

definition valid_segment :: "string \<Rightarrow> bool" where
  "valid_segment s \<longleftrightarrow> s \<noteq> [] \<and> length s \<le> MAX_PATH_SEGMENT_LENGTH
    \<and> (case s of c # _ \<Rightarrow> is_alphanumeric c | [] \<Rightarrow> False)
    \<and> list_all (\<lambda>c. is_alphanumeric c \<or> c \<in> {CHR ''.'', CHR ''_'', CHR ''-''}) s"

definition validate_relative_path :: "string \<Rightarrow> string \<Rightarrow> check" where
  "validate_relative_path v f =
    (let segments = split_on CHR ''/'' v
     in checks [
       require (v \<noteq> [] \<and> length v \<le> MAX_PATH_LENGTH \<and> is_ascii v)
         (f @ '' must be a non-empty ASCII path of at most '' @ nat_str MAX_PATH_LENGTH @ '' bytes''),
       require (length segments \<le> MAX_PATH_SEGMENTS)
         (f @ '' exceeds '' @ nat_str MAX_PATH_SEGMENTS @ '' path segments''),
       each (\<lambda>_ segment. require (valid_segment segment)
         (f @ '' contains an invalid path segment; use ASCII letters, numbers, dot, underscore, or hyphen''))
         segments])"

definition is_under_directory :: "string \<Rightarrow> string \<Rightarrow> bool" where
  "is_under_directory path directory = (case strip_prefix directory path of
      Some suffix \<Rightarrow> starts_with ''/'' suffix \<and> length suffix > 1
    | None \<Rightarrow> False)"

definition validate_text :: "string \<Rightarrow> nat \<Rightarrow> string \<Rightarrow> check" where
  "validate_text v limit f =
    require (v \<noteq> [] \<and> length (chars v) \<le> limit \<and> list_all (\<lambda>c. \<not> is_control c) (chars v))
      (f @ '' must contain 1 to '' @ nat_str limit @ '' non-control characters'')"

definition validate_optional_display :: "string option \<Rightarrow> string \<Rightarrow> check" where
  "validate_optional_display v f = if_some v (\<lambda>v. validate_text v MAX_DISPLAY_LENGTH f)"

text \<open>The scan of a JSON pointer: an index that skips the character after a tilde.\<close>

function pointer_scan :: "string \<Rightarrow> string \<Rightarrow> nat \<Rightarrow> check" where
  "pointer_scan f bytes i =
    (if i < length bytes then
       if is_ascii_control (bytes ! i) then Err (Invalid (f @ '' must not contain control characters''))
       else if bytes ! i = CHR ''~'' then
         if i + 1 < length bytes \<and> bytes ! (i + 1) \<in> {CHR ''0'', CHR ''1''}
         then pointer_scan f bytes (i + 2)
         else Err (Invalid (f @ '' contains an invalid JSON Pointer escape''))
       else pointer_scan f bytes (i + 1)
     else Ok ())"
  by pat_completeness auto
termination
  by (relation "measure (\<lambda>(_, bytes, i). length bytes - i)") auto

declare pointer_scan.simps [simp del]

definition validate_json_pointer :: "string \<Rightarrow> string \<Rightarrow> check" where
  "validate_json_pointer v f = checks [
     require (length v \<le> MAX_PATH_LENGTH \<and> (v = [] \<or> starts_with ''/'' v))
       (f @ '' must be an empty JSON Pointer or start with slash''),
     pointer_scan f v 0]"

section \<open>The input manifest\<close>

definition validate_file_content :: "file_content \<Rightarrow> string \<Rightarrow> check" where
  "validate_file_content c f = checks [
     validate_identity (fc_content_identity c) (f @ ''.contentIdentity''),
     validate_relative_path (fc_path c) (f @ ''.path''),
     validate_sha256 (fc_sha256 c) (f @ ''.sha256''),
     validate_byte_length (fc_byte_length c) (f @ ''.byteLength''),
     validate_media_type (fc_media_type c) (f @ ''.mediaType''),
     validate_identity (fc_detected_kind_identity c) (f @ ''.detectedKindIdentity'')]"

definition validate_object_mapping :: "object_mapping \<Rightarrow> string \<Rightarrow> check" where
  "validate_object_mapping m f = checks [
     (if om_status m = Proven then checks [
        require (om_evidence m \<noteq> None) (f @ ''.evidence is required for a proven mapping''),
        require (om_reason m = None) (f @ ''.reason is not allowed for a proven mapping'')]
      else require (om_reason m \<noteq> None) (f @ ''.reason is required when mapping is not proven'')),
     if_some (om_evidence m) (\<lambda>e. checks [
        validate_identity (me_classification e) (f @ ''.evidence.classification''),
        validate_identity (me_evidence_identity e) (f @ ''.evidence.evidenceIdentity'')]),
     if_some (om_reason m) (\<lambda>r. validate_text r MAX_REASON_LENGTH (f @ ''.reason''))]"

definition validate_manifest_header :: "input_manifest \<Rightarrow> check" where
  "validate_manifest_header m = checks [
     validate_version (im_protocol_version m) ''input manifest protocolVersion'',
     require (im_manifest_version m = INPUT_MANIFEST_VERSION)
       (''unsupported input manifest version: '' @ nat_str (unat (im_manifest_version m))),
     validate_sha256 (im_manifest_identity m) ''manifestIdentity'',
     validate_identity (im_requirements_identity m) ''requirementsIdentity'',
     validate_identity (im_source_identity m) ''sourceIdentity'',
     validate_identity (im_configuration_identity m) ''configurationIdentity'',
     validate_identity (ei_kind_identity (im_export m)) ''export.kindIdentity'',
     validate_identity (ei_schema_identity (im_export m)) ''export.schemaIdentity'']"

definition validate_manifest_observation :: "export_input \<Rightarrow> check" where
  "validate_manifest_observation e = checks [
     (if ei_observation_status e = Proven
      then require (ei_observation_evidence_identity e \<noteq> None)
        ''export.observationEvidenceIdentity is required when observationStatus is proven''
      else require (ei_observation_evidence_identity e = None)
        ''export.observationEvidenceIdentity is only allowed when observationStatus is proven''),
     if_some (ei_observation_evidence_identity e)
       (\<lambda>i. validate_identity i ''export.observationEvidenceIdentity'')]"

definition validate_manifest_decision :: "input_manifest \<Rightarrow> check" where
  "validate_manifest_decision m = checks [
     require (length (im_objects m) \<le> MAX_INPUT_OBJECTS)
       (''input manifest exceeds '' @ nat_str MAX_INPUT_OBJECTS @ '' objects''),
     (case md_status (im_decision m) of
        Available \<Rightarrow> checks [
          require (md_reason (im_decision m) = None)
            ''decision.reason is not allowed for an available manifest'',
          require (im_objects m \<noteq> []) ''an available manifest must contain at least one object'',
          require (ei_observation_status (im_export m) = Proven)
            ''an available manifest requires a proven export observation'',
          require (im_input_set_identity m \<noteq> None) ''an available manifest requires inputSetIdentity'']
      | Unavailable \<Rightarrow> checks [
          require (md_reason (im_decision m) \<noteq> None) ''an unavailable manifest requires decision.reason'',
          require (im_input_set_identity m = None)
            ''an unavailable manifest must not declare inputSetIdentity'']),
     if_some (md_reason (im_decision m)) (\<lambda>r. validate_text r MAX_REASON_LENGTH ''decision.reason'')]"

text \<open>The collections of the object loop; \<open>by_identity\<close> is a \<open>HashMap\<close>, the newest entry first.\<close>

record object_index =
  ox_identities :: "string set"
  ox_paths :: "string set"
  ox_by_identity :: "(string \<times> input_object) list"

definition validate_occurrence_path :: "string \<Rightarrow> string list \<Rightarrow> check" where
  "validate_occurrence_path f path = checks [
     require (path \<noteq> [] \<and> length path \<le> MAX_OCCURRENCE_SEGMENTS)
       (f @ ''.occurrencePath must contain 1 to '' @ nat_str MAX_OCCURRENCE_SEGMENTS @ '' segments''),
     each (\<lambda>i segment. validate_identity segment (f @ ''.occurrencePath['' @ nat_str i @ '']'')) path]"

definition validate_object ::
  "manifest_status \<Rightarrow> object_index \<Rightarrow> nat \<times> input_object \<Rightarrow> (protocol_error, object_index) result" where
  "validate_object status s = (\<lambda>(i, o').
    (let f = ''objects['' @ nat_str i @ '']''
     in and_then (checks [
       validate_identity (io_object_identity o') (f @ ''.objectIdentity''),
       require (io_object_identity o' \<notin> ox_identities s)
         (''duplicate input object identity: '' @ io_object_identity o'),
       validate_file_content (io_retained_content o') (f @ ''.retainedContent''),
       require (is_under_directory (fc_path (io_retained_content o')) ''inputs'')
         (f @ ''.retainedContent.path must be beneath inputs/''),
       require (fc_path (io_retained_content o') \<notin> ox_paths s)
         (''duplicate retained-content path: '' @ fc_path (io_retained_content o')),
       validate_object_mapping (io_mapping o') (f @ ''.mapping''),
       (if status = Available then require (om_status (io_mapping o') = Proven)
          (f @ '' is not proven and cannot be used by an invocation'') else Ok ()),
       validate_optional_identity (io_source_object_identity o') (f @ ''.sourceObjectIdentity''),
       validate_optional_identity (io_producer_result_identity o') (f @ ''.producerResultIdentity''),
       validate_optional_identity (io_parent_object_identity o') (f @ ''.parentObjectIdentity''),
       validate_optional_display (io_source_filename o') (f @ ''.sourceFilename''),
       validate_optional_display (io_display_name o') (f @ ''.displayName''),
       if_some (io_occurrence_path o') (validate_occurrence_path f)])
       (\<lambda>_. Ok \<lparr>ox_identities = insert (io_object_identity o') (ox_identities s),
             ox_paths = insert (fc_path (io_retained_content o')) (ox_paths s),
             ox_by_identity = (io_object_identity o', o') # ox_by_identity s\<rparr>)))"

definition validate_objects :: "input_manifest \<Rightarrow> (protocol_error, object_index) result" where
  "validate_objects m = try_fold (validate_object (md_status (im_decision m)))
     \<lparr>ox_identities = {}, ox_paths = {}, ox_by_identity = []\<rparr> (enumerate 0 (im_objects m))"

text \<open>The walk from an object to its parent until there is none, or a visited one is met again.\<close>

definition parent_of :: "(string \<times> input_object) list \<Rightarrow> string \<Rightarrow> string option" where
  "parent_of m i = Option.bind (map_of m i) io_parent_object_identity"

function parent_walk :: "(string \<times> input_object) list \<Rightarrow> string set \<Rightarrow> string option \<Rightarrow> check" where
  "parent_walk m visited current = (case current of
      None \<Rightarrow> Ok ()
    | Some i \<Rightarrow> if i \<in> visited then Err (Invalid (''input object parent cycle includes '' @ i))
        else parent_walk m (insert i visited) (parent_of m i))"
  by pat_completeness auto
termination
proof (relation "measure (\<lambda>(m, visited, current).
    case current of None \<Rightarrow> 0 | Some _ \<Rightarrow> Suc (card (fst ` set m - visited)))")
  fix m :: "(string \<times> input_object) list" and visited current and i :: string
  assume "current = Some i" "i \<notin> visited"
  moreover have "card (fst ` set m - insert i visited) < card (fst ` set m - visited)"
    if "parent_of m i \<noteq> None" "i \<notin> visited"
  proof (rule psubset_card_mono)
    have "i \<in> fst ` set m"
      using that(1) by (cases "map_of m i") (auto simp: parent_of_def dest: map_of_SomeD intro: rev_image_eqI)
    then show "fst ` set m - insert i visited \<subset> fst ` set m - visited" using that(2) by blast
  qed simp
  ultimately show "((m, insert i visited, parent_of m i), m, visited, current)
      \<in> measure (\<lambda>(m, visited, current).
          case current of None \<Rightarrow> 0 | Some _ \<Rightarrow> Suc (card (fst ` set m - visited)))"
    by (cases "parent_of m i") auto
qed simp

declare parent_walk.simps [simp del]

definition validate_parents :: "(string \<times> input_object) list \<Rightarrow> input_object list \<Rightarrow> check" where
  "validate_parents m objects = each (\<lambda>_ o'. checks [
     if_some (io_parent_object_identity o') (\<lambda>parent. require (parent \<in> fst ` set m)
       (''input object '' @ io_object_identity o' @ '' references missing parent '' @ parent)),
     parent_walk m {} (Some (io_object_identity o'))]) objects"

definition validate_manifest_identities :: "canonicalizer \<Rightarrow> digest \<Rightarrow> input_manifest \<Rightarrow> check" where
  "validate_manifest_identities jcs sha m =
    and_then (computed_input_set_identity jcs sha m) (\<lambda>computed. checks [
      require (im_input_set_identity m = computed) ''inputSetIdentity does not match the ordered input objects'',
      and_then (computed_manifest_identity jcs sha m) (\<lambda>h.
        require (im_manifest_identity m = h) ''manifestIdentity does not match the input manifest'')])"

definition validate_manifest :: "canonicalizer \<Rightarrow> digest \<Rightarrow> input_manifest \<Rightarrow> check" where
  "validate_manifest jcs sha m =
    and_then (checks [validate_manifest_header m, validate_manifest_observation (im_export m),
      validate_manifest_decision m]) (\<lambda>_.
    and_then (validate_objects m) (\<lambda>s. checks [
      require (md_status (im_decision m) \<noteq> Available
          \<or> list_ex (\<lambda>o'. io_role o' = RawGeometry) (im_objects m))
        ''an available manifest requires at least one rawGeometry object'',
      validate_parents (ox_by_identity s) (im_objects m),
      validate_manifest_identities jcs sha m]))"

section \<open>The request\<close>

definition validate_identity_bindings :: "identity_bindings \<Rightarrow> string \<Rightarrow> check" where
  "validate_identity_bindings b f = checks [
     each (\<lambda>_ (name, v). validate_identity v (f @ ''.'' @ name))
       [(''packageIdentity'', ib_package_identity b),
        (''buildIdentity'', ib_build_identity b),
        (''binaryIdentity'', ib_binary_identity b),
        (''dialectIdentity'', ib_dialect_identity b),
        (''inputKindIdentity'', ib_input_kind_identity b),
        (''inputSchemaIdentity'', ib_input_schema_identity b),
        (''settingsIdentity'', ib_settings_identity b),
        (''settingsSchemaIdentity'', ib_settings_schema_identity b),
        (''provenanceSetIdentity'', ib_provenance_set_identity b),
        (''normalizationIdentity'', ib_normalization_identity b),
        (''validationIdentity'', ib_validation_identity b)],
     require (length (ib_capability_identities b) \<le> MAX_INPUT_OBJECTS)
       (f @ ''.capabilityIdentities exceeds '' @ nat_str MAX_INPUT_OBJECTS @ '' entries''),
     each (\<lambda>i v. validate_identity v (f @ ''.capabilityIdentities['' @ nat_str i @ '']''))
       (ib_capability_identities b),
     require (list_all (\<lambda>(a, b). a < b)
         (zip (ib_capability_identities b) (drop 1 (ib_capability_identities b))))
       (f @ ''.capabilityIdentities must be unique and sorted lexicographically'')]"

definition validate_request :: "canonicalizer \<Rightarrow> digest \<Rightarrow> generator_request \<Rightarrow> check" where
  "validate_request jcs sha r =
    (let manifest = gr_input_manifest r; settings = gr_settings r; out = gr_output r;
         expected = gr_expected_identities r
     in checks [
     validate_version (gr_protocol_version r) ''generator request protocolVersion'',
     validate_sha256 (gr_invocation_identity r) ''invocationIdentity'',
     validate_identity_bindings expected ''expectedIdentities'',
     validate_relative_path (mr_path manifest) ''inputManifest.path'',
     require (is_under_directory (mr_path manifest) ''inputs'') ''inputManifest.path must be beneath inputs/'',
     validate_sha256 (mr_manifest_identity manifest) ''inputManifest.manifestIdentity'',
     validate_sha256 (mr_input_set_identity manifest) ''inputManifest.inputSetIdentity'',
     validate_identity (si_settings_identity settings) ''settings.settingsIdentity'',
     validate_identity (si_schema_identity settings) ''settings.schemaIdentity'',
     validate_file_content (si_content settings) ''settings.content'',
     require (is_under_directory (fc_path (si_content settings)) ''inputs'')
       ''settings.content.path must be beneath inputs/'',
     require (fc_path (si_content settings) \<noteq> mr_path manifest)
       ''settings.content.path must differ from inputManifest.path'',
     validate_identity (od_output_identity out) ''output.outputIdentity'',
     validate_relative_path (od_path out) ''output.path'',
     require (is_under_directory (od_path out) ''outputs'') ''output.path must be beneath outputs/'',
     validate_media_type (od_media_type out) ''output.mediaType'',
     validate_byte_length (od_max_byte_length out) ''output.maxByteLength'',
     require (ib_settings_identity expected = si_settings_identity settings)
       ''expectedIdentities.settingsIdentity does not match settings.settingsIdentity'',
     require (ib_settings_schema_identity expected = si_schema_identity settings)
       ''expectedIdentities.settingsSchemaIdentity does not match settings.schemaIdentity'',
     and_then (computed_invocation_identity jcs sha r) (\<lambda>h.
       require (gr_invocation_identity r = h)
         ''invocationIdentity does not match the generator request'')])"

definition validate_with_manifest ::
  "canonicalizer \<Rightarrow> digest \<Rightarrow> generator_request \<Rightarrow> input_manifest \<Rightarrow> check" where
  "validate_with_manifest jcs sha r m =
    (let reference = gr_input_manifest r; expected = gr_expected_identities r
     in checks [
     validate_request jcs sha r,
     validate_manifest jcs sha m,
     require (md_status (im_decision m) = Available) ''an unavailable input manifest cannot be invoked'',
     require (mr_manifest_identity reference = im_manifest_identity m)
       ''request manifestIdentity does not match the input manifest'',
     require (list_all (\<lambda>o'. fc_path (io_retained_content o') \<noteq> mr_path reference) (im_objects m))
       ''inputManifest.path must differ from every retained-content path'',
     require (im_input_set_identity m = Some (mr_input_set_identity reference))
       ''request inputSetIdentity does not match the input manifest'',
     require (ib_input_kind_identity expected = ei_kind_identity (im_export m))
       ''expected inputKindIdentity does not match the input manifest'',
     require (ib_input_schema_identity expected = ei_schema_identity (im_export m))
       ''expected inputSchemaIdentity does not match the input manifest'',
     require (list_all (\<lambda>o'. fc_path (io_retained_content o') \<noteq> fc_path (si_content (gr_settings r)))
         (im_objects m))
       ''settings.content.path must differ from every retained-content path''])"

section \<open>The result\<close>

definition is_code_character :: "char \<Rightarrow> bool" where
  "is_code_character c \<longleftrightarrow> is_lower c \<or> is_digit c \<or> c \<in> {CHR ''_'', CHR ''-''}"

definition validate_context_item ::
  "string \<Rightarrow> string set \<Rightarrow> nat \<times> diagnostic_context \<Rightarrow> (protocol_error, string set) result" where
  "validate_context_item f keys = (\<lambda>(i, item).
     and_then (checks [
       validate_identity_with_limit (dc_key item) MAX_CONTEXT_KEY_LENGTH
         (f @ ''.context['' @ nat_str i @ ''].key''),
       validate_text (dc_value item) MAX_CONTEXT_VALUE_LENGTH
         (f @ ''.context['' @ nat_str i @ ''].value''),
       require (dc_key item \<notin> keys) (f @ ''.context contains duplicate key '' @ dc_key item)])
       (\<lambda>_. Ok (insert (dc_key item) keys)))"

definition validate_report_entry ::
  "string \<Rightarrow> string \<Rightarrow> string option \<Rightarrow> diagnostic_context list \<Rightarrow> string \<Rightarrow> check" where
  "validate_report_entry entry_code message instance_path ctxt f = checks [
     require (entry_code \<noteq> [] \<and> length entry_code \<le> MAX_CODE_LENGTH \<and> list_all is_code_character entry_code)
       (f @ ''.code must contain 1 to '' @ nat_str MAX_CODE_LENGTH @ '' lowercase ASCII code characters''),
     validate_text message MAX_MESSAGE_LENGTH (f @ ''.message''),
     if_some instance_path (\<lambda>p. validate_json_pointer p (f @ ''.instancePath'')),
     require (length ctxt \<le> MAX_CONTEXT_ENTRIES)
       (f @ ''.context exceeds '' @ nat_str MAX_CONTEXT_ENTRIES @ '' entries''),
     and_then (try_fold (validate_context_item f) {} (enumerate 0 ctxt)) (\<lambda>_. Ok ())]"

definition validate_output :: "generated_output \<Rightarrow> check" where
  "validate_output out = checks [
     validate_identity (go_output_identity out) ''output.outputIdentity'',
     validate_relative_path (go_path out) ''output.path'',
     require (is_under_directory (go_path out) ''outputs'') ''output.path must be beneath outputs/'',
     validate_media_type (go_media_type out) ''output.mediaType'',
     validate_byte_length (go_byte_length out) ''output.byteLength'',
     validate_sha256 (go_sha256 out) ''output.sha256'']"

definition validate_result :: "generator_result \<Rightarrow> check" where
  "validate_result t = checks [
     validate_version (rt_protocol_version t) ''generator result protocolVersion'',
     if_some (rt_invocation_identity t) (\<lambda>i. validate_sha256 i ''invocationIdentity''),
     if_some (rt_reported_identities t) (\<lambda>b. validate_identity_bindings b ''reportedIdentities''),
     require (length (rt_diagnostics t) \<le> MAX_DIAGNOSTICS)
       (''diagnostics exceeds '' @ nat_str MAX_DIAGNOSTICS @ '' entries''),
     require (length (rt_errors t) \<le> MAX_ERRORS)
       (''errors exceeds '' @ nat_str MAX_ERRORS @ '' entries''),
     each (\<lambda>i d. validate_report_entry (dg_code d) (dg_message d) (dg_instance_path d) (dg_context d)
       (''diagnostics['' @ nat_str i @ '']'')) (rt_diagnostics t),
     each (\<lambda>i e. validate_report_entry (se_code e) (se_message e) (se_instance_path e) (se_context e)
       (''errors['' @ nat_str i @ '']'')) (rt_errors t),
     if_some (rt_output t) validate_output,
     (case rt_status t of
        Success \<Rightarrow> checks [
          require (rt_invocation_identity t \<noteq> None) ''a success result requires invocationIdentity'',
          require (rt_reported_identities t \<noteq> None) ''a success result requires reportedIdentities'',
          require (rt_output t \<noteq> None) ''a success result requires output'',
          require (rt_errors t = []) ''a success result must not contain errors'']
      | Failure \<Rightarrow> checks [
          require (rt_output t = None) ''a failure result must not contain output'',
          require (rt_errors t \<noteq> []) ''a failure result requires at least one structured error''])]"

text \<open>The outer option is the \<open>expect\<close> of the success output: \<open>None\<close> is its panic.\<close>

definition validate_success_output :: "generated_output \<Rightarrow> output_declaration \<Rightarrow> check" where
  "validate_success_output out declared = checks [
     require (go_output_identity out = od_output_identity declared \<and> go_role out = od_role declared
         \<and> go_path out = od_path declared \<and> go_media_type out = od_media_type declared)
       ''success result output declaration does not match the request'',
     require (go_byte_length out \<le> od_max_byte_length declared)
       ''success result output exceeds the request byte limit'']"

definition validate_against_request ::
  "canonicalizer \<Rightarrow> digest \<Rightarrow> generator_result \<Rightarrow> generator_request \<Rightarrow> check option" where
  "validate_against_request jcs sha t r =
    (case checks [
       validate_request jcs sha r,
       validate_result t,
       if_some (rt_invocation_identity t) (\<lambda>i. require (i = gr_invocation_identity r)
         ''result invocationIdentity does not match the request''),
       if_some (rt_reported_identities t) (\<lambda>b. require (b = gr_expected_identities r)
         ''result identities do not match the request'')]
     of Err e \<Rightarrow> Some (Err e)
      | Ok _ \<Rightarrow>
        if rt_status t = Success
        then map_option (\<lambda>out. validate_success_output out (gr_output r)) (rt_output t)
        else Some (Ok ()))"

section \<open>Parsing\<close>

definition parse_json ::
  "(string \<Rightarrow> (string, 'a) result) \<Rightarrow> string \<Rightarrow> nat \<Rightarrow> string \<Rightarrow> (protocol_error, 'a) result" where
  "parse_json decode bytes limit document =
    (if length bytes > limit then Err (DocumentTooLarge document limit)
     else map_err (InvalidJson document) (decode bytes))"

definition parse_request ::
  "canonicalizer \<Rightarrow> digest \<Rightarrow> (string \<Rightarrow> (string, generator_request) result) \<Rightarrow> string
    \<Rightarrow> (protocol_error, generator_request) result" where
  "parse_request jcs sha decode bytes =
    and_then (parse_json decode bytes MAX_REQUEST_BYTES ''generator request'') (\<lambda>r.
    and_then (validate_request jcs sha r) (\<lambda>_. Ok r))"

definition parse_input_manifest ::
  "canonicalizer \<Rightarrow> digest \<Rightarrow> (string \<Rightarrow> (string, input_manifest) result) \<Rightarrow> string
    \<Rightarrow> (protocol_error, input_manifest) result" where
  "parse_input_manifest jcs sha decode bytes =
    and_then (parse_json decode bytes MAX_INPUT_MANIFEST_BYTES ''input manifest'') (\<lambda>m.
    and_then (validate_manifest jcs sha m) (\<lambda>_. Ok m))"

definition parse_result ::
  "(string \<Rightarrow> (string, generator_result) result) \<Rightarrow> string \<Rightarrow> (protocol_error, generator_result) result"
where
  "parse_result decode bytes =
    and_then (parse_json decode bytes MAX_RESULT_BYTES ''generator result'') (\<lambda>t.
    and_then (validate_result t) (\<lambda>_. Ok t))"

end
