(* ===== verification/Protocol_Fields.thy ===== *)
theory Protocol_Fields
  imports Generator_Protocol
begin

text \<open>
  What the field checks of the generator protocol accept: the grammar of each field as a predicate,
  path safety, JSON pointers against RFC 6901, and the parent walk against acyclicity.
\<close>

section \<open>Grammars of fields\<close>

named_theorems field_simps \<open>the check of a field succeeds on its grammar\<close>

definition identity_ok :: "string \<Rightarrow> bool" where
  "identity_ok v \<longleftrightarrow> v \<noteq> [] \<and> length v \<le> 256 \<and> list_all is_graphic v"

definition sha256_ok :: "string \<Rightarrow> bool" where
  "sha256_ok v \<longleftrightarrow> length v = 64 \<and> list_all is_lower_hex v"

definition byte_length_ok :: "64 word \<Rightarrow> bool" where
  "byte_length_ok n \<longleftrightarrow> 1 \<le> unat n \<and> unat n < 2 ^ 53"

definition media_type_ok :: "string \<Rightarrow> bool" where
  "media_type_ok v \<longleftrightarrow> (\<exists>t s. v = t @ CHR ''/'' # s \<and> t \<noteq> [] \<and> s \<noteq> []
     \<and> list_all is_media_type_character t \<and> list_all is_media_type_character s)"

definition path_ok :: "string \<Rightarrow> bool" where
  "path_ok v \<longleftrightarrow> length v \<le> 1024 \<and> length (split_on CHR ''/'' v) \<le> 64
     \<and> list_all valid_segment (split_on CHR ''/'' v)"

definition text_ok :: "nat \<Rightarrow> string \<Rightarrow> bool" where
  "text_ok limit v \<longleftrightarrow> v \<noteq> [] \<and> length (chars v) \<le> limit \<and> list_all (\<lambda>c. \<not> is_control c) (chars v)"

lemma validate_version_Ok [field_simps]: "validate_version v f = Ok u \<longleftrightarrow> v = 1"
  by (simp add: validate_version_def result_simps PROTOCOL_VERSION_def)

lemma validate_identity_Ok [field_simps]: "validate_identity v f = Ok u \<longleftrightarrow> identity_ok v"
  by (simp add: validate_identity_def identity_ok_def result_simps MAX_IDENTITY_LENGTH_def)

lemma validate_optional_identity_Ok [field_simps]:
  "validate_optional_identity v f = Ok u \<longleftrightarrow> pred_option identity_ok v"
  by (cases v) (simp_all add: validate_optional_identity_def result_simps field_simps)

lemma validate_sha256_Ok [field_simps]: "validate_sha256 v f = Ok u \<longleftrightarrow> sha256_ok v"
  by (simp add: validate_sha256_def sha256_ok_def result_simps)

lemma validate_byte_length_Ok [field_simps]: "validate_byte_length n f = Ok u \<longleftrightarrow> byte_length_ok n"
proof -
  have "n \<le> MAX_SAFE_JSON_INTEGER \<longleftrightarrow> unat n < 2 ^ 53"
    by (simp add: MAX_SAFE_JSON_INTEGER_def word_le_nat_alt less_Suc_eq_le [symmetric])
  moreover have "n > 0 \<longleftrightarrow> 1 \<le> unat n"
    by (simp add: word_less_nat_alt Suc_le_eq)
  ultimately show ?thesis
    by (simp add: validate_byte_length_def byte_length_ok_def result_simps)
qed

lemma media_character_no_slash: "list_all is_media_type_character s \<Longrightarrow> CHR ''/'' \<notin> set s"
  by (auto simp: list_all_iff is_media_type_character_def byte_class_defs)

lemma validate_media_type_Ok [field_simps]: "validate_media_type v f = Ok u \<longleftrightarrow> media_type_ok v"
proof
  assume "validate_media_type v f = Ok u"
  moreover obtain p ps where "split_on CHR ''/'' v = p # ps"
    by (cases "split_on CHR ''/'' v") auto
  ultimately obtain t s where parts: "split_on CHR ''/'' v = [t, s]"
    and ok: "t \<noteq> []" "s \<noteq> []" "list_all is_media_type_character t" "list_all is_media_type_character s"
    by (cases ps) (auto simp: validate_media_type_def result_simps Let_def Suc_le_eq)
  have "v = t @ CHR ''/'' # s" using join_split [of "CHR ''/''" v] by (simp add: parts)
  with ok show "media_type_ok v" by (auto simp: media_type_ok_def)
next
  assume "media_type_ok v"
  then obtain t s where v: "v = t @ CHR ''/'' # s" and ok: "t \<noteq> []" "s \<noteq> []"
    "list_all is_media_type_character t" "list_all is_media_type_character s"
    by (auto simp: media_type_ok_def)
  then have "split_on CHR ''/'' v = [t, s]"
    by (simp add: split_on_append split_on_no_sep media_character_no_slash)
  with ok show "validate_media_type v f = Ok u" by (simp add: validate_media_type_def result_simps)
qed

lemma valid_segment_ascii: "valid_segment s \<Longrightarrow> is_ascii s \<and> s \<noteq> []"
  by (auto simp: valid_segment_def list_all_iff byte_class_defs)

lemma ascii_join: "(\<And>s. s \<in> set ss \<Longrightarrow> is_ascii s) \<Longrightarrow> is_ascii (join_with CHR ''/'' ss)"
  by (induction "CHR ''/''" ss rule: join_with.induct) (auto simp: is_ascii_byte_def)

lemma validate_relative_path_Ok [field_simps]: "validate_relative_path v f = Ok u \<longleftrightarrow> path_ok v"
proof -
  have "is_ascii v \<and> v \<noteq> []" if "list_all valid_segment (split_on CHR ''/'' v)"
  proof
    have "is_ascii s" if "s \<in> set (split_on CHR ''/'' v)" for s
      using that \<open>list_all valid_segment (split_on CHR ''/'' v)\<close> valid_segment_ascii [of s]
      by (simp only: list_all_iff [of valid_segment])
    then have "is_ascii (join_with CHR ''/'' (split_on CHR ''/'' v))" by (rule ascii_join)
    then show "is_ascii v" by simp
    show "v \<noteq> []" using that by (auto simp: valid_segment_def)
  qed
  then show ?thesis
    by (auto simp: validate_relative_path_def path_ok_def result_simps Let_def MAX_PATH_LENGTH_def
        MAX_PATH_SEGMENTS_def list_all_length simp flip: list_all_iff)
qed

lemma validate_text_Ok [field_simps]: "validate_text v limit f = Ok u \<longleftrightarrow> text_ok limit v"
  by (simp add: validate_text_def text_ok_def result_simps)

lemma validate_optional_display_Ok [field_simps]:
  "validate_optional_display v f = Ok u \<longleftrightarrow> pred_option (text_ok 1024) v"
  by (cases v) (simp_all add: validate_optional_display_def result_simps field_simps MAX_DISPLAY_LENGTH_def)

lemma hex_sha256_ok:
  assumes "length (sha b) = 32"
  shows "sha256_ok (hex_sha256 sha b)"
proof -
  have "length (concat (map hex_byte s)) = 2 * length s" for s
    by (induction s) (simp_all add: hex_byte_def)
  moreover have "is_lower_hex (hex_digit n)" if "n < 16" for n
    using that code_hex_digit [OF that] by (simp add: is_lower_hex_def is_digit_def)
  then have "list_all is_lower_hex (hex_byte c)" for c
    using less_mult_imp_div_less [of "code c" 16 16] code_less [of c] by (simp add: hex_byte_def)
  then have "list_all is_lower_hex (concat (map hex_byte s))" for s
    by (induction s) simp_all
  ultimately show ?thesis using assms by (simp add: sha256_ok_def hex_sha256_def)
qed

section \<open>Paths stay below their directory\<close>

text \<open>Where a relative path leads from a directory: lexical resolution of its segments.\<close>

fun resolve :: "string list \<Rightarrow> string list \<Rightarrow> string list" where
  "resolve dir [] = dir"
| "resolve dir (s # ss) =
    (if s = '''' \<or> s = ''.'' then resolve dir ss
     else if s = ''..'' then resolve (butlast dir) ss
     else resolve (dir @ [s]) ss)"

lemma valid_segment_name: "valid_segment s \<Longrightarrow> s \<noteq> '''' \<and> s \<noteq> ''.'' \<and> s \<noteq> ''..''"
  by (auto simp: valid_segment_def byte_class_defs)

lemma resolve_names: "list_all valid_segment ss \<Longrightarrow> resolve dir ss = dir @ ss"
  by (induction ss arbitrary: dir) (auto dest: valid_segment_name)

lemma under_directory: "is_under_directory p d \<longleftrightarrow> (\<exists>t. p = d @ CHR ''/'' # t \<and> t \<noteq> [])"
proof (cases "strip_prefix d p")
  case None
  then have "p \<noteq> d @ t" for t by auto
  then show ?thesis by (simp add: is_under_directory_def None)
next
  case (Some q)
  have "is_under_directory p d \<longleftrightarrow> starts_with ''/'' q \<and> length q > 1"
    by (simp add: is_under_directory_def Some)
  also have "\<dots> \<longleftrightarrow> (\<exists>t. p = d @ CHR ''/'' # t \<and> t \<noteq> [])"
    using Some by (cases q) (auto simp: strip_prefix_Some starts_with_iff)
  finally show ?thesis .
qed

text \<open>
  A relative path accepted beneath a directory stays there: resolved from any root, with dot
  and dot-dot segments interpreted, it names a file strictly below that directory, and the path is
  exactly the segments of that file.
\<close>

lemma accepted_path_is_confined:
  assumes "validate_relative_path p f = Ok ()" and "is_under_directory p d" and "CHR ''/'' \<notin> set d"
  shows "\<exists>rest. rest \<noteq> [] \<and> resolve base (split_on CHR ''/'' p) = base @ d # rest
    \<and> join_with CHR ''/'' (d # rest) = p"
proof -
  obtain t where t: "p = d @ CHR ''/'' # t" "t \<noteq> []" using assms(2) by (auto simp: under_directory)
  then have s: "split_on CHR ''/'' p = d # split_on CHR ''/'' t" using assms(3) by (simp add: split_on_append)
  have "resolve base (split_on CHR ''/'' p) = base @ split_on CHR ''/'' p"
    using assms(1) by (simp add: field_simps path_ok_def resolve_names)
  then show ?thesis
    using join_split [of "CHR ''/''" p] by (intro exI [of _ "split_on CHR ''/'' t"]) (simp add: s)
qed

section \<open>JSON pointers\<close>

text \<open>RFC 6901: each token is preceded by a slash, its tildes and slashes escaped.\<close>

definition escape_token :: "string \<Rightarrow> string" where
  "escape_token t = concat (map (\<lambda>c. if c = CHR ''~'' then ''~0'' else if c = CHR ''/'' then ''~1'' else [c]) t)"

definition pointer_of :: "string list \<Rightarrow> string" where
  "pointer_of tokens = concat (map (\<lambda>t. CHR ''/'' # escape_token t) tokens)"

fun well_escaped :: "string \<Rightarrow> bool" where
  "well_escaped [] = True"
| "well_escaped (c # s) = (\<not> is_ascii_control c \<and>
    (if c = CHR ''~'' then (case s of d # s' \<Rightarrow> d \<in> {CHR ''0'', CHR ''1''} \<and> well_escaped s' | [] \<Rightarrow> False)
     else well_escaped s))"

lemma pointer_scan_Ok: "pointer_scan f v i = Ok u \<longleftrightarrow> well_escaped (drop i v)"
proof (induction f v i rule: pointer_scan.induct)
  case (1 f v i)
  show ?case
  proof (cases "i < length v")
    case True
    then have d: "drop i v = v ! i # drop (Suc i) v" by (simp add: Cons_nth_drop_Suc)
    show ?thesis
    proof (cases "Suc i < length v")
      case True
      then have "drop (Suc i) v = v ! Suc i # drop (i + 2) v" by (simp add: Cons_nth_drop_Suc)
      then show ?thesis
        using 1 d \<open>i < length v\<close> True by (subst pointer_scan.simps) (auto simp: is_ascii_control_def)
    next
      case False
      then show ?thesis
        using 1 d \<open>i < length v\<close> by (subst pointer_scan.simps) auto
    qed
  qed (subst pointer_scan.simps, simp)
qed

lemma well_escaped_token:
  "well_escaped (escape_token t @ r) \<longleftrightarrow> list_all (\<lambda>c. \<not> is_ascii_control c) t \<and> well_escaped r"
  by (induction t) (auto simp: escape_token_def byte_class_defs)

lemma well_escaped_pointer:
  "well_escaped (pointer_of tokens) \<longleftrightarrow> list_all (list_all (\<lambda>c. \<not> is_ascii_control c)) tokens"
  by (induction tokens) (auto simp: pointer_of_def well_escaped_token byte_class_defs)

lemma well_escaped_split: "well_escaped s \<Longrightarrow> \<exists>t tokens. s = escape_token t @ pointer_of tokens"
proof (induction s rule: well_escaped.induct)
  case 1
  show ?case by (intro exI [of _ "[]"]) (simp add: escape_token_def pointer_of_def)
next
  case (2 c s)
  show ?case
  proof (cases "c = CHR ''~''")
    case True
    then obtain d s' where s: "s = d # s'" "d \<in> {CHR ''0'', CHR ''1''}" "well_escaped s'"
      using 2(3) by (auto split: list.splits)
    then obtain t tokens where "s' = escape_token t @ pointer_of tokens" using 2(1) True by blast
    then have "c # s = escape_token ((if d = CHR ''0'' then CHR ''~'' else CHR ''/'') # t) @ pointer_of tokens"
      using s True by (auto simp: escape_token_def)
    then show ?thesis by blast
  next
    case False
    then obtain t tokens where st: "s = escape_token t @ pointer_of tokens" using 2 by auto
    show ?thesis
    proof (cases "c = CHR ''/''")
      case True
      then have "c # s = escape_token [] @ pointer_of (t # tokens)"
        by (simp add: st escape_token_def pointer_of_def)
      then show ?thesis by blast
    next
      case no: False
      have "c # s = escape_token (c # t) @ pointer_of tokens" using False no by (simp add: st escape_token_def)
      then show ?thesis by blast
    qed
  qed
qed

text \<open>
  The scan accepts exactly the JSON pointers of RFC 6901, of at most 1024 bytes, whose tokens
  hold no control character.
\<close>

lemma json_pointer_grammar:
  "validate_json_pointer v f = Ok () \<longleftrightarrow> length v \<le> 1024
    \<and> (\<exists>tokens. v = pointer_of tokens \<and> list_all (list_all (\<lambda>c. \<not> is_ascii_control c)) tokens)"
proof -
  have "(v = [] \<or> starts_with ''/'' v) \<and> well_escaped v \<longleftrightarrow>
      (\<exists>tokens. v = pointer_of tokens \<and> list_all (list_all (\<lambda>c. \<not> is_ascii_control c)) tokens)"
    (is "?l \<longleftrightarrow> ?r")
  proof
    assume l: ?l
    show ?r
    proof (cases v)
      case Nil
      then show ?thesis by (intro exI [of _ "[]"]) (simp add: pointer_of_def)
    next
      case (Cons c s)
      then have c: "c = CHR ''/''" "well_escaped s" using l by (auto simp: starts_with_iff)
      then obtain t tokens where "s = escape_token t @ pointer_of tokens" using well_escaped_split by blast
      then have "v = pointer_of (t # tokens)" by (simp add: Cons c pointer_of_def)
      then show ?thesis using l well_escaped_pointer by blast
    qed
  next
    assume ?r
    then obtain tokens where v: "v = pointer_of tokens" "well_escaped v" using well_escaped_pointer by blast
    then show ?l by (cases tokens) (auto simp: pointer_of_def starts_with_iff)
  qed
  then show ?thesis
    by (auto simp: validate_json_pointer_def result_simps pointer_scan_Ok MAX_PATH_LENGTH_def)
qed

end
