(* ===== verification/Protocol_Documents.thy ===== *)
theory Protocol_Documents
  imports Protocol_Fields
begin

text \<open>
  What the document checks of the generator protocol accept: the manifest against a declarative
  specification (distinct identities and paths, an acyclic parent relation, identities that match),
  the files of an invocation, the manifest a request is bound to, and the result of a request.
\<close>

section \<open>Parents\<close>

definition parent_relation :: "(string \<times> input_object) list \<Rightarrow> (string \<times> string) set" where
  "parent_relation m = {(i, p). parent_of m i = Some p}"

lemma walk_avoids:
  "\<lbrakk>parent_walk m visited (Some i) = Ok u; (i, j) \<in> (parent_relation m)\<^sup>*\<rbrakk> \<Longrightarrow> j \<notin> visited"
proof (induction m visited "Some i" arbitrary: i rule: parent_walk.induct)
  case (1 m visited)
  have i: "i \<notin> visited" and w: "parent_walk m (insert i visited) (parent_of m i) = Ok u"
    using 1(2) by (subst (asm) parent_walk.simps, simp split: if_splits)+
  from 1(3) show ?case
  proof (cases rule: converse_rtranclE)
    case base
    then show ?thesis using i by simp
  next
    case (step k)
    then have "parent_of m i = Some k" by (simp add: parent_relation_def)
    then show ?thesis using 1(1) [OF refl i] w step by simp
  qed
qed

lemma walk_ends:
  "\<lbrakk>acyclic (parent_relation m); \<forall>v \<in> visited. (v, i) \<in> (parent_relation m)\<^sup>+\<rbrakk>
    \<Longrightarrow> parent_walk m visited (Some i) = Ok ()"
proof (induction m visited "Some i" arbitrary: i rule: parent_walk.induct)
  case (1 m visited)
  have i: "i \<notin> visited" using 1(2,3) by (auto simp: acyclic_def)
  show ?case
  proof (cases "parent_of m i")
    case None
    then show ?thesis using i by (subst parent_walk.simps) (simp add: parent_walk.simps)
  next
    case (Some p)
    then have ip: "(i, p) \<in> parent_relation m" by (simp add: parent_relation_def)
    then have "\<forall>v \<in> insert i visited. (v, p) \<in> (parent_relation m)\<^sup>+" using 1(3) by (auto intro: trancl_into_trancl)
    then have "parent_walk m (insert i visited) (Some p) = Ok ()"
      using 1(1) [OF refl i] 1(2) Some by simp
    then show ?thesis using i Some by (subst parent_walk.simps) simp
  qed
qed

lemma walks_acyclic:
  "(\<forall>i \<in> fst ` set m. parent_walk m {} (Some i) = Ok ()) \<longleftrightarrow> acyclic (parent_relation m)"
proof
  assume w: "\<forall>i \<in> fst ` set m. parent_walk m {} (Some i) = Ok ()"
  show "acyclic (parent_relation m)"
    unfolding acyclic_def
  proof (intro allI notI)
    fix i assume "(i, i) \<in> (parent_relation m)\<^sup>+"
    then obtain k where k: "(i, k) \<in> parent_relation m" "(k, i) \<in> (parent_relation m)\<^sup>*"
      by (auto dest: tranclD)
    then have p: "parent_of m i = Some k" by (simp add: parent_relation_def)
    then have "i \<in> fst ` set m"
      by (cases "map_of m i") (auto simp: parent_of_def dest: map_of_SomeD intro: rev_image_eqI)
    then have "parent_walk m {i} (Some k) = Ok ()"
      using w p by (subst (asm) parent_walk.simps) auto
    then show False using walk_avoids k(2) by fastforce
  qed
qed (auto intro: walk_ends)

lemma validate_parents_Ok:
  assumes "fst ` set m = io_object_identity ` set objects"
  shows "validate_parents m objects = Ok u \<longleftrightarrow>
    (\<forall>o' \<in> set objects. pred_option (\<lambda>p. p \<in> fst ` set m) (io_parent_object_identity o'))
    \<and> acyclic (parent_relation m)"
proof -
  have "validate_parents m objects = Ok u \<longleftrightarrow>
      (\<forall>o' \<in> set objects. pred_option (\<lambda>p. p \<in> fst ` set m) (io_parent_object_identity o')
        \<and> parent_walk m {} (Some (io_object_identity o')) = Ok ())"
    unfolding validate_parents_def
    by (rule each_from_all) (auto simp: result_simps pred_option_def split: option.splits)
  also have "\<dots> \<longleftrightarrow> (\<forall>o' \<in> set objects. pred_option (\<lambda>p. p \<in> fst ` set m) (io_parent_object_identity o'))
      \<and> (\<forall>i \<in> fst ` set m. parent_walk m {} (Some i) = Ok ())"
    unfolding assms by auto
  finally show ?thesis by (simp only: walks_acyclic)
qed

section \<open>The manifest\<close>

definition file_content_ok :: "file_content \<Rightarrow> bool" where
  "file_content_ok c \<longleftrightarrow> identity_ok (fc_content_identity c) \<and> path_ok (fc_path c)
    \<and> sha256_ok (fc_sha256 c) \<and> byte_length_ok (fc_byte_length c) \<and> media_type_ok (fc_media_type c)
    \<and> identity_ok (fc_detected_kind_identity c)"

definition mapping_ok :: "object_mapping \<Rightarrow> bool" where
  "mapping_ok m \<longleftrightarrow> (if om_status m = Proven then om_evidence m \<noteq> None \<and> om_reason m = None else om_reason m \<noteq> None)
    \<and> pred_option (\<lambda>e. identity_ok (me_classification e) \<and> identity_ok (me_evidence_identity e)) (om_evidence m)
    \<and> pred_option (text_ok 2048) (om_reason m)"

definition object_ok :: "manifest_status \<Rightarrow> input_object \<Rightarrow> bool" where
  "object_ok status x \<longleftrightarrow> identity_ok (io_object_identity x) \<and> file_content_ok (io_retained_content x)
    \<and> is_under_directory (fc_path (io_retained_content x)) ''inputs''
    \<and> mapping_ok (io_mapping x) \<and> (status = Available \<longrightarrow> om_status (io_mapping x) = Proven)
    \<and> pred_option identity_ok (io_source_object_identity x)
    \<and> pred_option identity_ok (io_producer_result_identity x)
    \<and> pred_option identity_ok (io_parent_object_identity x)
    \<and> pred_option (text_ok 1024) (io_source_filename x)
    \<and> pred_option (text_ok 1024) (io_display_name x)
    \<and> pred_option (\<lambda>p. p \<noteq> [] \<and> length p \<le> 64 \<and> list_all identity_ok p) (io_occurrence_path x)"

lemma validate_file_content_Ok [field_simps]: "validate_file_content c f = Ok u \<longleftrightarrow> file_content_ok c"
  by (simp add: validate_file_content_def file_content_ok_def result_simps field_simps)

lemma if_some_pred: "(\<And>a. g a = Ok () \<longleftrightarrow> P a) \<Longrightarrow> if_some x g = Ok u \<longleftrightarrow> pred_option P x"
  by (cases x) (auto simp: if_some_def)

lemma validate_object_mapping_Ok [field_simps]: "validate_object_mapping m f = Ok u \<longleftrightarrow> mapping_ok m"
  by (cases "om_evidence m"; cases "om_reason m")
    (auto simp: validate_object_mapping_def mapping_ok_def result_simps field_simps MAX_REASON_LENGTH_def)

lemma validate_occurrence_path_Ok [field_simps]:
  "validate_occurrence_path f p = Ok u \<longleftrightarrow> p \<noteq> [] \<and> length p \<le> 64 \<and> list_all identity_ok p"
  by (auto simp: validate_occurrence_path_def result_simps field_simps MAX_OCCURRENCE_SEGMENTS_def list_all_length)

lemma validate_object_Ok:
  "validate_object status s (i, x) = Ok s' \<longleftrightarrow> object_ok status x
    \<and> io_object_identity x \<notin> ox_identities s \<and> fc_path (io_retained_content x) \<notin> ox_paths s
    \<and> s' = \<lparr>ox_identities = insert (io_object_identity x) (ox_identities s),
            ox_paths = insert (fc_path (io_retained_content x)) (ox_paths s),
            ox_by_identity = (io_object_identity x, x) # ox_by_identity s\<rparr>"
proof -
  have o: "if_some (io_occurrence_path x) (validate_occurrence_path f) = Ok () \<longleftrightarrow>
      pred_option (\<lambda>p. p \<noteq> [] \<and> length p \<le> 64 \<and> list_all identity_ok p) (io_occurrence_path x)" for f
    by (rule if_some_pred) (rule validate_occurrence_path_Ok)
  have st: "(if status = Available then require (om_status (io_mapping x) = Proven) e else Ok ()) = Ok () \<longleftrightarrow>
      (status = Available \<longrightarrow> om_status (io_mapping x) = Proven)" for e
    by (simp add: result_simps)
  show ?thesis
    unfolding validate_object_def object_ok_def Let_def
    by (auto simp only: case_prod_conv and_then_Ok checks_Ok list.set ball_simps insert_iff empty_iff
        require_Ok field_simps o st sum.inject prod.case)
qed

definition object_id :: "input_object \<Rightarrow> string" where "object_id x = io_object_identity x"
definition object_path :: "input_object \<Rightarrow> string" where "object_path x = fc_path (io_retained_content x)"

definition object_entries :: "input_object list \<Rightarrow> (string \<times> input_object) list" where
  "object_entries xs = rev (map (\<lambda>x. (object_id x, x)) xs)"

lemma objects_fold:
  "try_fold (validate_object status) s (enumerate n xs) = Ok s' \<longleftrightarrow>
    list_all (object_ok status) xs
    \<and> distinct (map object_id xs) \<and> object_id ` set xs \<inter> ox_identities s = {}
    \<and> distinct (map object_path xs) \<and> object_path ` set xs \<inter> ox_paths s = {}
    \<and> s' = \<lparr>ox_identities = object_id ` set xs \<union> ox_identities s,
            ox_paths = object_path ` set xs \<union> ox_paths s,
            ox_by_identity = object_entries xs @ ox_by_identity s\<rparr>"
proof (induction xs arbitrary: s n)
  case Nil
  then show ?case by (cases s) (auto simp: object_entries_def)
next
  case (Cons x xs)
  let ?s = "\<lparr>ox_identities = insert (object_id x) (ox_identities s),
      ox_paths = insert (object_path x) (ox_paths s), ox_by_identity = (object_id x, x) # ox_by_identity s\<rparr>"
  have "try_fold (validate_object status) s (enumerate n (x # xs)) = Ok s' \<longleftrightarrow>
      (\<exists>t. validate_object status s (n, x) = Ok t
        \<and> try_fold (validate_object status) t (enumerate (Suc n) xs) = Ok s')"
    by (auto split: sum.splits)
  also have "\<dots> \<longleftrightarrow> object_ok status x \<and> object_id x \<notin> ox_identities s \<and> object_path x \<notin> ox_paths s
      \<and> try_fold (validate_object status) ?s (enumerate (Suc n) xs) = Ok s'"
    unfolding validate_object_Ok by (auto simp: object_id_def object_path_def)
  finally show ?case
    unfolding Cons.IH by (auto simp: object_entries_def)
qed

lemma validate_objects_Ok:
  "validate_objects m = Ok s \<longleftrightarrow> list_all (object_ok (md_status (im_decision m))) (im_objects m)
    \<and> distinct (map object_id (im_objects m)) \<and> distinct (map object_path (im_objects m))
    \<and> s = \<lparr>ox_identities = object_id ` set (im_objects m), ox_paths = object_path ` set (im_objects m),
          ox_by_identity = object_entries (im_objects m)\<rparr>"
  by (simp add: validate_objects_def objects_fold)

definition observation_ok :: "export_input \<Rightarrow> bool" where
  "observation_ok e \<longleftrightarrow> (case ei_observation_evidence_identity e of
      None \<Rightarrow> ei_observation_status e \<noteq> Proven
    | Some i \<Rightarrow> ei_observation_status e = Proven \<and> identity_ok i)"

definition decision_ok :: "input_manifest \<Rightarrow> bool" where
  "decision_ok m \<longleftrightarrow> length (im_objects m) \<le> 256 \<and> (case md_status (im_decision m) of
      Available \<Rightarrow> md_reason (im_decision m) = None \<and> ei_observation_status (im_export m) = Proven
        \<and> im_input_set_identity m \<noteq> None \<and> list_ex (\<lambda>x. io_role x = RawGeometry) (im_objects m)
    | Unavailable \<Rightarrow> im_input_set_identity m = None
        \<and> (case md_reason (im_decision m) of None \<Rightarrow> False | Some r \<Rightarrow> text_ok 2048 r))"

definition header_ok :: "input_manifest \<Rightarrow> bool" where
  "header_ok m \<longleftrightarrow> im_protocol_version m = 1 \<and> im_manifest_version m = 1 \<and> sha256_ok (im_manifest_identity m)
    \<and> list_all identity_ok [im_requirements_identity m, im_source_identity m, im_configuration_identity m,
        ei_kind_identity (im_export m), ei_schema_identity (im_export m)]"

definition manifest_identities_ok :: "canonicalizer \<Rightarrow> digest \<Rightarrow> input_manifest \<Rightarrow> bool" where
  "manifest_identities_ok jcs sha m \<longleftrightarrow>
    hash_json jcs sha ''generator-input-manifest-v1'' (manifest_payload m) = Ok (im_manifest_identity m)
    \<and> (case im_input_set_identity m of None \<Rightarrow> md_status (im_decision m) = Unavailable
       | Some i \<Rightarrow> md_status (im_decision m) = Available
           \<and> hash_json jcs sha ''generator-input-set-v1'' (input_set_payload m) = Ok i)"

lemma validate_header_Ok [field_simps]: "validate_manifest_header m = Ok u \<longleftrightarrow> header_ok m"
  by (simp add: validate_manifest_header_def header_ok_def result_simps field_simps INPUT_MANIFEST_VERSION_def)

lemma validate_observation_Ok [field_simps]: "validate_manifest_observation e = Ok u \<longleftrightarrow> observation_ok e"
  by (cases "ei_observation_evidence_identity e")
    (auto simp: validate_manifest_observation_def observation_ok_def result_simps field_simps)

lemma validate_decision_Ok:
  "validate_manifest_decision m = Ok u \<and> (md_status (im_decision m) \<noteq> Available
      \<or> list_ex (\<lambda>x. io_role x = RawGeometry) (im_objects m)) \<longleftrightarrow> decision_ok m"
  by (cases "md_status (im_decision m)"; cases "md_reason (im_decision m)")
    (auto simp: validate_manifest_decision_def decision_ok_def result_simps field_simps
      MAX_INPUT_OBJECTS_def MAX_REASON_LENGTH_def)

lemma validate_identities_Ok:
  "validate_manifest_identities jcs sha m = Ok u \<longleftrightarrow> manifest_identities_ok jcs sha m"
  by (cases "im_input_set_identity m"; cases "md_status (im_decision m)")
    (auto simp: validate_manifest_identities_def manifest_identities_ok_def computed_input_set_identity_def
      computed_manifest_identity_def result_simps)

text \<open>
  The parent relation of the objects, by their identities, and the whole specification.
\<close>

definition object_parents :: "input_object list \<Rightarrow> (string \<times> string) set" where
  "object_parents xs = {(object_id x, p) |x p. x \<in> set xs \<and> io_parent_object_identity x = Some p}"

lemma parents_range: "snd ` object_parents xs = {p. \<exists>x \<in> set xs. io_parent_object_identity x = Some p}"
  by (force simp: object_parents_def)

lemma pred_option_iff: "pred_option P x \<longleftrightarrow> (\<forall>a. x = Some a \<longrightarrow> P a)"
  by (cases x) auto

definition manifest_spec :: "canonicalizer \<Rightarrow> digest \<Rightarrow> input_manifest \<Rightarrow> bool" where
  "manifest_spec jcs sha m \<longleftrightarrow> header_ok m \<and> observation_ok (im_export m) \<and> decision_ok m
    \<and> list_all (object_ok (md_status (im_decision m))) (im_objects m)
    \<and> distinct (map object_id (im_objects m)) \<and> distinct (map object_path (im_objects m))
    \<and> snd ` object_parents (im_objects m) \<subseteq> object_id ` set (im_objects m)
    \<and> acyclic (object_parents (im_objects m))
    \<and> manifest_identities_ok jcs sha m"

lemma parents_of_entries:
  assumes "distinct (map object_id xs)"
  shows "parent_relation (object_entries xs) = object_parents xs"
proof -
  have "map_of (object_entries xs) = map_of (map (\<lambda>x. (object_id x, x)) xs)"
    unfolding object_entries_def by (rule map_of_rev_distinct) (use assms in \<open>simp add: comp_def\<close>)
  moreover have "map_of (map (\<lambda>x. (object_id x, x)) xs) i = Some x \<longleftrightarrow> x \<in> set xs \<and> object_id x = i" for i x
    using assms by (subst map_of_eq_Some_iff) (auto simp: comp_def)
  ultimately show ?thesis
    by (auto simp: parent_relation_def parent_of_def object_parents_def bind_eq_Some_conv)
qed

lemma manifest_valid: "validate_manifest jcs sha m = Ok () \<longleftrightarrow> manifest_spec jcs sha m"
proof -
  let ?xs = "im_objects m"
  have keys: "fst ` set (object_entries ?xs) = object_id ` set ?xs"
    by (simp add: object_entries_def image_image)
  have parents: "validate_parents (object_entries ?xs) ?xs = Ok () \<longleftrightarrow>
      snd ` object_parents ?xs \<subseteq> object_id ` set ?xs \<and> acyclic (object_parents ?xs)"
    if "distinct (map object_id ?xs)"
  proof -
    have "(\<forall>x \<in> set ?xs. pred_option (\<lambda>p. p \<in> fst ` set (object_entries ?xs)) (io_parent_object_identity x))
        \<longleftrightarrow> snd ` object_parents ?xs \<subseteq> object_id ` set ?xs"
      unfolding keys parents_range pred_option_iff by blast
    moreover have "fst ` set (object_entries ?xs) = io_object_identity ` set ?xs"
      unfolding keys by (simp add: object_id_def)
    ultimately show ?thesis
      using validate_parents_Ok [of "object_entries ?xs" ?xs "()"] parents_of_entries [OF that] by simp
  qed
  have "validate_manifest jcs sha m = Ok () \<longleftrightarrow>
      header_ok m \<and> observation_ok (im_export m) \<and> validate_manifest_decision m = Ok ()
      \<and> (\<exists>s. validate_objects m = Ok s
        \<and> (md_status (im_decision m) \<noteq> Available \<or> list_ex (\<lambda>x. io_role x = RawGeometry) ?xs)
        \<and> validate_parents (ox_by_identity s) ?xs = Ok () \<and> validate_manifest_identities jcs sha m = Ok ())"
    by (auto simp: validate_manifest_def result_simps field_simps)
  also have "\<dots> \<longleftrightarrow> header_ok m \<and> observation_ok (im_export m) \<and> decision_ok m
      \<and> list_all (object_ok (md_status (im_decision m))) ?xs
      \<and> distinct (map object_id ?xs) \<and> distinct (map object_path ?xs)
      \<and> validate_parents (object_entries ?xs) ?xs = Ok () \<and> manifest_identities_ok jcs sha m"
    unfolding validate_objects_Ok validate_identities_Ok validate_decision_Ok [of m "()", symmetric] by auto
  finally show ?thesis using parents by (auto simp: manifest_spec_def)
qed

text \<open>
  C7: The manifest validation accepts exactly the manifests of the specification: well-formed
  fields, a decision that agrees with the observation and the objects, distinct object identities
  and paths, parents that are objects of the manifest, no cycle among parents, and the two
  identities equal to the hashes of the content.
\<close>

theorem validate_manifest_iff: "validate_manifest jcs sha m = Ok () \<longleftrightarrow> manifest_spec jcs sha m"
  by (rule manifest_valid)

section \<open>The request\<close>

lemma adjacent_sorted:
  "list_all (\<lambda>(a, b). a < b) (zip xs (drop 1 xs)) \<longleftrightarrow> sorted_wrt (<) (xs :: string list)"
proof -
  have "list_all (\<lambda>(a, b). a < b) (zip xs (drop 1 xs)) \<longleftrightarrow> (\<forall>i. Suc i < length xs \<longrightarrow> xs ! i < xs ! Suc i)"
    by (auto simp: list_all_length)
  also have "\<dots> \<longleftrightarrow> sorted_wrt (<) xs"
    by (rule sorted_wrt_iff_nth_Suc_transp [symmetric]) (auto simp: transp_on_def intro: less_trans)
  finally show ?thesis .
qed

lemma each_pairs_Ok: "each_from i (\<lambda>_ (name, v). validate_identity v (g name)) xs = Ok u \<longleftrightarrow>
    list_all (\<lambda>(_, v). identity_ok v) xs"
  by (subst each_from_all [where P = "\<lambda>(_, v). identity_ok v"])
    (auto simp: field_simps list_all_iff split: prod.splits)

definition bindings_ok :: "identity_bindings \<Rightarrow> bool" where
  "bindings_ok b \<longleftrightarrow> list_all identity_ok [ib_package_identity b, ib_build_identity b, ib_binary_identity b,
      ib_dialect_identity b, ib_input_kind_identity b, ib_input_schema_identity b, ib_settings_identity b,
      ib_settings_schema_identity b, ib_provenance_set_identity b, ib_normalization_identity b,
      ib_validation_identity b]
    \<and> length (ib_capability_identities b) \<le> 256 \<and> list_all identity_ok (ib_capability_identities b)
    \<and> sorted_wrt (<) (ib_capability_identities b)"

lemma validate_bindings_Ok [field_simps]: "validate_identity_bindings b f = Ok u \<longleftrightarrow> bindings_ok b"
  unfolding validate_identity_bindings_def bindings_ok_def checks_Ok
  by (simp add: each_pairs_Ok adjacent_sorted [simplified] require_Ok)
    (auto simp: result_simps field_simps MAX_INPUT_OBJECTS_def list_all_length)

definition request_spec :: "canonicalizer \<Rightarrow> digest \<Rightarrow> generator_request \<Rightarrow> bool" where
  "request_spec jcs sha r \<longleftrightarrow>
    gr_protocol_version r = 1 \<and> bindings_ok (gr_expected_identities r)
    \<and> path_ok (mr_path (gr_input_manifest r)) \<and> is_under_directory (mr_path (gr_input_manifest r)) ''inputs''
    \<and> sha256_ok (mr_manifest_identity (gr_input_manifest r))
    \<and> sha256_ok (mr_input_set_identity (gr_input_manifest r))
    \<and> identity_ok (si_settings_identity (gr_settings r)) \<and> identity_ok (si_schema_identity (gr_settings r))
    \<and> file_content_ok (si_content (gr_settings r))
    \<and> is_under_directory (fc_path (si_content (gr_settings r))) ''inputs''
    \<and> fc_path (si_content (gr_settings r)) \<noteq> mr_path (gr_input_manifest r)
    \<and> identity_ok (od_output_identity (gr_output r))
    \<and> path_ok (od_path (gr_output r)) \<and> is_under_directory (od_path (gr_output r)) ''outputs''
    \<and> media_type_ok (od_media_type (gr_output r)) \<and> byte_length_ok (od_max_byte_length (gr_output r))
    \<and> ib_settings_identity (gr_expected_identities r) = si_settings_identity (gr_settings r)
    \<and> ib_settings_schema_identity (gr_expected_identities r) = si_schema_identity (gr_settings r)
    \<and> sha256_ok (gr_invocation_identity r)
    \<and> hash_json jcs sha ''generator-invocation-v1'' (invocation_payload r) = Ok (gr_invocation_identity r)"

lemma validate_request_Ok [field_simps]: "validate_request jcs sha r = Ok u \<longleftrightarrow> request_spec jcs sha r"
  unfolding validate_request_def request_spec_def Let_def checks_Ok
  by (auto simp: result_simps field_simps computed_invocation_identity_def)

text \<open>
  The files of an accepted invocation never overlap: the manifest, the settings, every retained
  input and the declared output have pairwise different paths, the output beneath outputs and all
  others beneath inputs.
\<close>

lemma invocation_files_disjoint:
  assumes "validate_with_manifest jcs sha r m = Ok ()"
  shows "distinct (mr_path (gr_input_manifest r) # fc_path (si_content (gr_settings r)) # od_path (gr_output r)
      # map (\<lambda>x. fc_path (io_retained_content x)) (im_objects m))
    \<and> list_all (\<lambda>p. is_under_directory p ''inputs'') (mr_path (gr_input_manifest r)
        # fc_path (si_content (gr_settings r)) # map (\<lambda>x. fc_path (io_retained_content x)) (im_objects m))
    \<and> is_under_directory (od_path (gr_output r)) ''outputs''"
proof -
  have r: "request_spec jcs sha r" and m: "manifest_spec jcs sha m"
    and apart: "mr_path (gr_input_manifest r) \<notin> object_path ` set (im_objects m)"
      "fc_path (si_content (gr_settings r)) \<notin> object_path ` set (im_objects m)"
    using assms
    by (auto simp: validate_with_manifest_def result_simps field_simps manifest_valid
        Let_def object_path_def list_all_iff)
  have o: "list_all (\<lambda>x. is_under_directory (object_path x) ''inputs'') (im_objects m)"
    "distinct (map object_path (im_objects m))"
    using m by (auto simp: manifest_spec_def list_all_iff object_ok_def object_path_def)
  have out: "\<not> is_under_directory p ''inputs''" if "is_under_directory p ''outputs''" for p
    using that by (auto simp: under_directory)
  have p: "(\<lambda>x. fc_path (io_retained_content x)) = object_path" by (simp add: fun_eq_iff object_path_def)
  show ?thesis
    unfolding p using r o apart out by (auto simp: request_spec_def list_all_iff)
qed

text \<open>
  A request is bound to one manifest: two manifests that both validate with it are equal, since
  the manifest identity in the request is the hash of the manifest's whole content.
\<close>

lemma request_determines_manifest:
  assumes "unambiguous jcs sha {hash_preimage ''generator-input-manifest-v1'' (manifest_payload m),
      hash_preimage ''generator-input-manifest-v1'' (manifest_payload m')}"
    and "validate_with_manifest jcs sha r m = Ok ()" and "validate_with_manifest jcs sha r m' = Ok ()"
  shows "m' = m"
proof -
  have v: "hash_json jcs sha ''generator-input-manifest-v1'' (manifest_payload x) = Ok (im_manifest_identity x)
      \<and> im_manifest_identity x = mr_manifest_identity (gr_input_manifest r)"
    if "validate_with_manifest jcs sha r x = Ok ()" for x
    using that by (auto simp: validate_with_manifest_def result_simps field_simps manifest_valid
        Let_def manifest_spec_def manifest_identities_ok_def)
  have "manifest_payload m' = manifest_payload m"
    using hash_json_binds [OF assms(1)] v [OF assms(2)] v [OF assms(3)] by metis
  moreover have "im_manifest_identity m' = im_manifest_identity m" using v [OF assms(2)] v [OF assms(3)] by simp
  moreover have "im_document_type m' = im_document_type m"
    by (cases "im_document_type m'"; cases "im_document_type m") simp
  ultimately show ?thesis
    by (cases m; cases m') (auto simp: manifest_payload_def document_inj dest!: members_inj)
qed

named_theorems protocol_eval \<open>evaluation of the checks on a concrete document\<close>

section \<open>A concrete invocation\<close>

text \<open>A canonicaliser that writes the domain of a document, and the same text for any other document.\<close>

definition domain_jcs :: canonicalizer where
  "domain_jcs v = (case field ''domain'' v of Some (JStr d) \<Rightarrow> Ok d | _ \<Rightarrow> Ok ''text'')"

lemma domain_hash: "hash_json domain_jcs sha d p = Ok (hex_sha256 sha d)"
  by (simp add: hash_json_def domain_jcs_def hash_preimage_def field_members and_then_def)

lemma example_digest_ok: "sha256_ok (hex_sha256 example_digest b)"
  by (rule hex_sha256_ok) (simp add: example_digest_def)

definition example_content :: "string \<Rightarrow> file_content" where
  "example_content path = \<lparr>fc_content_identity = ''c'', fc_path = path,
     fc_sha256 = hex_sha256 example_digest path, fc_byte_length = 7, fc_media_type = ''model/stl'',
     fc_detected_kind_identity = ''stl''\<rparr>"

definition example_manifest :: input_manifest where
  "example_manifest = \<lparr>im_document_type = InputManifest, im_protocol_version = 1, im_manifest_version = 1,
     im_manifest_identity = hex_sha256 example_digest ''generator-input-manifest-v1'',
     im_input_set_identity = Some (hex_sha256 example_digest ''generator-input-set-v1''),
     im_requirements_identity = ''r'', im_source_identity = ''s'', im_configuration_identity = ''k'',
     im_export = \<lparr>ei_kind_identity = ''kind'', ei_schema_identity = ''schema'', ei_grouping_policy = Grouped,
       ei_observation_status = Proven, ei_observation_evidence_identity = Some ''e''\<rparr>,
     im_decision = \<lparr>md_status = Available, md_reason = None\<rparr>,
     im_objects = [\<lparr>io_object_identity = ''o'', io_role = RawGeometry,
       io_retained_content = example_content ''inputs/o.stl'',
       io_mapping = \<lparr>om_status = Proven,
         om_evidence = Some \<lparr>me_classification = ''c'', me_evidence_identity = ''e''\<rparr>, om_reason = None\<rparr>,
       io_source_object_identity = None, io_occurrence_path = None, io_producer_result_identity = None,
       io_source_filename = None, io_display_name = None, io_parent_object_identity = None\<rparr>]\<rparr>"

definition example_request :: generator_request where
  "example_request = \<lparr>gr_document_type = GeneratorRequest, gr_protocol_version = 1,
     gr_invocation_identity = hex_sha256 example_digest ''generator-invocation-v1'',
     gr_expected_identities = \<lparr>ib_package_identity = ''p'', ib_build_identity = ''b'', ib_binary_identity = ''b'',
       ib_dialect_identity = ''d'', ib_capability_identities = [''a'', ''b''], ib_input_kind_identity = ''kind'',
       ib_input_schema_identity = ''schema'', ib_settings_identity = ''set'', ib_settings_schema_identity = ''ss'',
       ib_provenance_set_identity = ''p'', ib_normalization_identity = ''n'', ib_validation_identity = ''v''\<rparr>,
     gr_input_manifest = \<lparr>mr_path = ''inputs/manifest.json'',
       mr_manifest_identity = hex_sha256 example_digest ''generator-input-manifest-v1'',
       mr_input_set_identity = hex_sha256 example_digest ''generator-input-set-v1''\<rparr>,
     gr_settings = \<lparr>si_settings_identity = ''set'', si_schema_identity = ''ss'',
       si_content = example_content ''inputs/settings.json''\<rparr>,
     gr_output = \<lparr>od_output_identity = ''out'', od_role = GeneratedProject, od_path = ''outputs/p.3mf'',
       od_media_type = ''model/3mf'', od_max_byte_length = 1000\<rparr>\<rparr>"

lemmas example_field_eval = identity_ok_def byte_class_defs path_ok_def valid_segment_def
  MAX_PATH_SEGMENT_LENGTH_def byte_length_ok_def is_under_directory_def starts_with_def

lemma example_paths [protocol_eval]:
  "path_ok ''inputs/o.stl''" "path_ok ''inputs/manifest.json''" "path_ok ''inputs/settings.json''"
  "path_ok ''outputs/p.3mf''" "is_under_directory ''inputs/o.stl'' ''inputs''"
  "is_under_directory ''inputs/manifest.json'' ''inputs''" "is_under_directory ''inputs/settings.json'' ''inputs''"
  "is_under_directory ''outputs/p.3mf'' ''outputs''"
  by (simp_all add: example_field_eval)

lemma example_media [protocol_eval]: "media_type_ok ''model/stl''" "media_type_ok ''model/3mf''"
  unfolding media_type_ok_def
  by (rule exI [of _ "''model''"], rule exI [of _ "''stl''"], simp add: is_media_type_character_def byte_class_defs)
    (rule exI [of _ "''model''"], rule exI [of _ "''3mf''"], simp add: is_media_type_character_def byte_class_defs)

lemma example_content_ok [protocol_eval]: "path_ok p \<Longrightarrow> file_content_ok (example_content p)"
  by (simp add: file_content_ok_def example_content_def example_digest_ok protocol_eval identity_ok_def
      byte_class_defs byte_length_ok_def)

lemma example_manifest_ok: "manifest_spec domain_jcs example_digest example_manifest"
  by (simp add: manifest_spec_def header_ok_def observation_ok_def decision_ok_def object_ok_def mapping_ok_def
      object_parents_def manifest_identities_ok_def domain_hash example_digest_ok protocol_eval
      example_manifest_def identity_ok_def byte_class_defs acyclic_def)
    (simp add: example_content_def protocol_eval)

lemma example_request_ok: "request_spec domain_jcs example_digest example_request"
  by (simp add: request_spec_def bindings_ok_def example_request_def domain_hash example_digest_ok protocol_eval
      identity_ok_def byte_class_defs byte_length_ok_def)
    (simp add: example_content_def protocol_eval)

lemma example_invocation_ok: "validate_with_manifest domain_jcs example_digest example_request example_manifest = Ok ()"
  using example_manifest_ok example_request_ok
  by (simp add: validate_with_manifest_def result_simps field_simps manifest_valid Let_def)
    (simp add: example_manifest_def example_request_def example_content_def)

section \<open>The result\<close>

text \<open>
  Comparing a result with its request never panics, and an accepted success result carries
  exactly the declared output: its identity, role, path and media type, a size of at least one
  byte and at most the declared limit, and the identities and the invocation of the request.
\<close>

lemma result_matches_request:
  "\<exists>c. validate_against_request jcs sha t r = Some c
    \<and> (case c of Err _ \<Rightarrow> True
      | Ok _ \<Rightarrow> (rt_status t = Failure \<and> rt_output t = None \<and> rt_errors t \<noteq> [])
        \<or> (\<exists>out. rt_output t = Some out \<and> rt_errors t = []
          \<and> rt_invocation_identity t = Some (gr_invocation_identity r)
          \<and> rt_reported_identities t = Some (gr_expected_identities r)
          \<and> go_output_identity out = od_output_identity (gr_output r)
          \<and> go_path out = od_path (gr_output r) \<and> go_media_type out = od_media_type (gr_output r)
          \<and> sha256_ok (go_sha256 out)
          \<and> 1 \<le> unat (go_byte_length out) \<and> unat (go_byte_length out) \<le> unat (od_max_byte_length (gr_output r))
          \<and> unat (od_max_byte_length (gr_output r)) < 2 ^ 53))"
proof (cases "validate_against_request jcs sha t r")
  case None
  then have "validate_result t = Ok ()" "rt_status t = Success" "rt_output t = None"
    by (auto simp: validate_against_request_def result_simps split: sum.splits if_splits)
  then show ?thesis by (auto simp: validate_result_def result_simps)
next
  case (Some c)
  show ?thesis
  proof (cases "c = Ok ()")
    case True
    obtain u where "checks [validate_request jcs sha r, validate_result t,
        if_some (rt_invocation_identity t) (\<lambda>i. require (i = gr_invocation_identity r)
          ''result invocationIdentity does not match the request''),
        if_some (rt_reported_identities t) (\<lambda>b. require (b = gr_expected_identities r)
          ''result identities do not match the request'')] = Ok u"
      and tail: "rt_status t = Success \<Longrightarrow> \<exists>out. rt_output t = Some out \<and> validate_success_output out (gr_output r) = Ok ()"
      using Some True by (auto simp: validate_against_request_def split: sum.splits if_splits)
    then have r: "request_spec jcs sha r" and t: "validate_result t = Ok ()"
      and same: "pred_option (\<lambda>i. i = gr_invocation_identity r) (rt_invocation_identity t)"
        "pred_option (\<lambda>b. b = gr_expected_identities r) (rt_reported_identities t)"
      by (auto simp: result_simps field_simps pred_option_def split: option.splits)
    show ?thesis
    proof (cases "rt_status t")
      case Failure
      then show ?thesis using Some True t by (auto simp: validate_result_def result_simps)
    next
      case Success
      then obtain out where out: "rt_output t = Some out" "validate_success_output out (gr_output r) = Ok ()"
        using tail by blast
      then show ?thesis
        using Some True t same r Success
        by (auto simp: validate_result_def result_simps validate_output_def field_simps byte_length_ok_def
            request_spec_def validate_success_output_def word_le_nat_alt)
    qed
  qed (use Some in \<open>auto split: sum.splits\<close>)
qed

end
