(* ===== verification/Parameter_Schema.thy ===== *)
theory Parameter_Schema
  imports Parameter_Validation
begin

text \<open>
  The normalisation of Onshape's configuration metadata into a parameter schema, and the catalog's
  overrides (\<open>src/src/parameters.rs\<close>): the search for the parameter array, the fields and the kind
  of a parameter, its options, its default value and its visibility condition. The lemmas give the
  shape of a normalised schema, the meaning of a normalised condition, and that overrides do not
  change what a submission means.
\<close>

section \<open>Reading members\<close>

fun value_to_string :: "json \<Rightarrow> string option" where
  "value_to_string (JStr s) = Some s"
| "value_to_string (JNum n) = Some (num_str n)"
| "value_to_string (JBool b) = Some (bool_str b)"
| "value_to_string _ = None"

definition first_string :: "jmap \<Rightarrow> string list \<Rightarrow> string option" where
  "first_string m names = find_map value_to_string (List.map_filter (\<lambda>name. member name m) names)"

definition first_text :: "jmap \<Rightarrow> string list \<Rightarrow> string option" where
  "first_text m names = find_map as_str (List.map_filter (\<lambda>name. member name m) names)"

definition message_of :: "jmap \<Rightarrow> jmap" where
  "message_of m = (case Option.bind (member ''message'' m) as_object of Some m' \<Rightarrow> m' | None \<Rightarrow> m)"

definition unwrap_or :: "'a \<Rightarrow> 'a option \<Rightarrow> 'a" where
  "unwrap_or d x = (case x of Some a \<Rightarrow> a | None \<Rightarrow> d)"

definition range_and_default_message :: "jmap \<Rightarrow> json option" where
  "range_and_default_message message = Option.bind (member ''rangeAndDefault'' message) (field ''message'')"

lemma size_member: "member k m = Some v \<Longrightarrow> size v < size (JObj m)"
  unfolding member_def by (induction m) (auto split: if_splits)

lemma size_element: "v \<in> set vs \<Longrightarrow> size v < size (JArr vs)"
  by (induction vs) auto

lemma size_value: "kv \<in> set m \<Longrightarrow> size (snd kv) < size (JObj m)"
  by (induction m) auto

lemma size_message: "size (JObj (message_of m)) \<le> size (JObj m)"
proof (cases "Option.bind (member ''message'' m) as_object")
  case None
  then show ?thesis by (simp add: message_of_def)
next
  case (Some m')
  then have "member ''message'' m = Some (JObj m')"
    by (auto simp: bind_eq_Some_conv elim: as_object.elims)
  then show ?thesis using size_member [of "''message''" m "JObj m'"] Some by (simp add: message_of_def)
qed

function find_parameter_array :: "json \<Rightarrow> json list option" where
  "find_parameter_array v =
    (case Option.bind (or_else (field ''configurationParameters'' v) (field ''parameters'' v)) as_array of
       Some vs \<Rightarrow> Some vs
     | None \<Rightarrow> (case v of JObj m \<Rightarrow> find_map (\<lambda>j. find_parameter_array j) (map snd m) | _ \<Rightarrow> None))"
  by pat_completeness auto
termination
proof (relation "measure size")
  fix v :: json and m :: jmap and j
  assume "v = JObj m" "j \<in> set (map snd m)"
  then show "(j, v) \<in> measure size" using size_value [of _ m] by auto
qed simp

declare find_parameter_array.simps [simp del]

section \<open>Visibility conditions\<close>

definition visibility_condition_values :: "json \<Rightarrow> bool \<Rightarrow> string list option" where
  "visibility_condition_values value in_array = do {
     values \<leftarrow> (if in_array then
         (case value of JArr vs \<Rightarrow> those (map value_to_string vs)
          | _ \<Rightarrow> map_option (\<lambda>s. [s]) (value_to_string value))
       else map_option (\<lambda>s. [s]) (value_to_string value));
     if values = [] then None else Some values
   }"

type_synonym condition_result = "(unit, visibility_condition option) result"

definition normalize_equal_visibility_condition :: "jmap \<Rightarrow> condition_result" where
  "normalize_equal_visibility_condition message =
    and_then (ok_or (first_string message [''parameterId'']) ()) (\<lambda>parameter_id.
    and_then (ok_or (member ''value'' message) ()) (\<lambda>value.
      let in_array = unwrap_or False (Option.bind (member ''inArray'' message) as_bool)
      in and_then (ok_or (visibility_condition_values value in_array) ()) (\<lambda>values.
        Ok (Some (EqualTo parameter_id values)))))"

text \<open>
  The loop over the children of a logical condition, on their results: it stops at the first error,
  and returns early, as \<open>None\<close>, at a child without a condition under OR.
\<close>

fun collect_conditions ::
  "string \<Rightarrow> condition_result list \<Rightarrow> visibility_condition list \<Rightarrow> (unit, visibility_condition list option) result"
where
  "collect_conditions operation [] acc = Ok (Some acc)"
| "collect_conditions operation (r # rs) acc = (case r of
      Err e \<Rightarrow> Err e
    | Ok (Some c) \<Rightarrow> collect_conditions operation rs (acc @ [c])
    | Ok None \<Rightarrow> if operation = ''OR'' then Ok None else collect_conditions operation rs acc)"

definition logical_condition :: "string \<Rightarrow> condition_result list \<Rightarrow> condition_result" where
  "logical_condition operation results =
    and_then (collect_conditions operation results []) (\<lambda>collected. case collected of
        None \<Rightarrow> Ok None
      | Some conditions \<Rightarrow>
          if conditions = [] then Ok None
          else if operation = ''AND'' then Ok (Some (AllOf conditions))
          else if operation = ''OR'' then Ok (Some (AnyOf conditions))
          else Err ())"

definition condition_type_hint :: "jmap \<Rightarrow> string" where
  "condition_type_hint m = to_lower (unwrap_or '''' (or_else (first_text m [''typeName'', ''type''])
     (first_text (message_of m) [''typeName'', ''type''])))"

definition is_logical :: "jmap \<Rightarrow> bool" where
  "is_logical m \<longleftrightarrow> contains ''visibilitylogical'' (condition_type_hint m)
    \<or> (member ''operation'' (message_of m) \<noteq> None \<and> member ''children'' (message_of m) \<noteq> None)"

definition is_equal :: "jmap \<Rightarrow> bool" where
  "is_equal m \<longleftrightarrow> contains ''visibilityonequal'' (condition_type_hint m)
    \<or> (member ''parameterId'' (message_of m) \<noteq> None \<and> member ''value'' (message_of m) \<noteq> None)"

definition children_of :: "jmap \<Rightarrow> json list option" where
  "children_of message = Option.bind (member ''children'' message) as_array"

lemma children_of_Some: "children_of m = Some vs \<longleftrightarrow> member ''children'' m = Some (JArr vs)"
  by (auto simp: children_of_def bind_eq_Some_conv elim: as_array.elims)

lemma size_child:
  assumes "children_of (message_of m) = Some children" "child \<in> set children"
  shows "size child < size (JObj m)"
proof -
  have "size child < size (JArr children)" using assms(2) by (rule size_element)
  also have "\<dots> < size (JObj (message_of m))" using assms(1) by (auto simp: children_of_Some dest: size_member)
  also have "\<dots> \<le> size (JObj m)" by (rule size_message)
  finally show ?thesis .
qed

function normalize_visibility_condition_result :: "json \<Rightarrow> condition_result" where
  "normalize_visibility_condition_result v = (case v of
      JObj m \<Rightarrow>
        if message_of m = [] then Ok None
        else if is_logical m then
          (case first_text (message_of m) [''operation''] of
             None \<Rightarrow> Err ()
           | Some operation \<Rightarrow> (case children_of (message_of m) of
               None \<Rightarrow> Err ()
             | Some children \<Rightarrow> logical_condition (to_upper operation)
                 (map (\<lambda>child. normalize_visibility_condition_result child) children)))
        else if is_equal m then normalize_equal_visibility_condition (message_of m)
        else Err ()
    | _ \<Rightarrow> Err ())"
  by pat_completeness auto
termination
proof (relation "measure size")
  fix v m children child
  assume "v = JObj m" "children_of (message_of m) = Some children" "child \<in> set children"
  then show "(child, v) \<in> measure size" using size_child [of m children child] by simp
qed simp

declare normalize_visibility_condition_result.simps [simp del]

definition normalize_visibility_condition :: "json \<Rightarrow> visibility_condition option" where
  "normalize_visibility_condition v = (case normalize_visibility_condition_result v of
      Ok c \<Rightarrow> c
    | Err _ \<Rightarrow> None)"

section \<open>Parameters\<close>

definition extract_option :: "json \<Rightarrow> parameter_option option" where
  "extract_option item = (case value_to_string item of
      Some label \<Rightarrow> Some \<lparr>po_value = label, po_label = label\<rparr>
    | None \<Rightarrow> do {
        m \<leftarrow> as_object item;
        let message = message_of m;
        v \<leftarrow> first_string message [''option'', ''value'', ''id'', ''message''];
        let label = unwrap_or v (first_string message [''optionName'', ''label'', ''name'', ''displayName'']);
        Some \<lparr>po_value = v, po_label = label\<rparr>
      })"

definition option_arrays :: "json \<Rightarrow> json list list" where
  "option_arrays v = (case v of
      JObj m \<Rightarrow>
        let message = Option.bind (member ''message'' m) as_object
        in List.map_filter (\<lambda>x. Option.bind x as_array)
          [member ''options'' m, member ''items'' m,
           Option.bind message (member ''options''), Option.bind message (member ''items'')]
    | _ \<Rightarrow> [])"

definition extract_options :: "json \<Rightarrow> parameter_option list" where
  "extract_options v = List.map_filter extract_option (concat (option_arrays v))"

definition normalize_default_value :: "json option \<Rightarrow> bool \<Rightarrow> string option" where
  "normalize_default_value v is_integer = do {
     s \<leftarrow> Option.bind v value_to_string;
     if is_integer then
       (case parse_decimal_rational s of
          Some number \<Rightarrow> (let (n, d) = quotient_of number in Some (if d = 1 then int_str n else s))
        | None \<Rightarrow> Some s)
     else Some s
   }"

definition parameter_type_hint :: "jmap \<Rightarrow> string" where
  "parameter_type_hint m = to_lower (unwrap_or '''' (or_else
     (first_text m [''typeName'', ''parameterType'', ''type''])
     (first_text (message_of m) [''typeName'', ''parameterType'', ''quantityType'', ''type''])))"

definition is_integer_parameter :: "jmap \<Rightarrow> bool" where
  "is_integer_parameter m \<longleftrightarrow> contains ''integer'' (parameter_type_hint m)
    \<or> first_text (message_of m) [''quantityType''] = Some ''INTEGER''"

definition parameter_default :: "jmap \<Rightarrow> string option" where
  "parameter_default m = (let message = message_of m in
     normalize_default_value
       (or_else (member ''defaultValue'' message) (or_else (member ''default'' message)
         (or_else (member ''value'' message)
           (Option.bind (range_and_default_message message) (field ''defaultValue'')))))
       (is_integer_parameter m))"

definition parameter_units :: "jmap \<Rightarrow> string option" where
  "parameter_units m = filter_opt (\<lambda>u. u \<noteq> []) (Option.bind
     (Option.bind (range_and_default_message (message_of m)) (field ''units'')) value_to_string)"

definition parameter_kind_of :: "jmap \<Rightarrow> parameter_option list \<Rightarrow> string option \<Rightarrow> parameter_kind" where
  "parameter_kind_of m options default_value = (let hint = parameter_type_hint m in
     if options \<noteq> [] then Enum
     else if contains ''bool'' hint \<or> list_ex (\<lambda>(_, v). is_boolean v) m then Boolean
     else if list_ex (\<lambda>w. contains w hint)
          [''double'', ''number'', ''integer'', ''real'', ''length'', ''angle'']
        \<or> Option.bind default_value parse_decimal_rational \<noteq> None then Number
     else if contains ''string'' hint \<or> contains ''text'' hint then Text
     else Unsupported)"

definition normalize_parameter :: "json \<Rightarrow> parameter option" where
  "normalize_parameter v = do {
     m \<leftarrow> as_object v;
     let message = message_of m;
     id \<leftarrow> first_string message [''parameterId'', ''id'', ''messageId''];
     let options = extract_options v;
     let default_value = parameter_default m;
     Some \<lparr>p_id = id,
       p_label = unwrap_or id (first_string message [''parameterName'', ''name'', ''label'']),
       p_description = first_string message [''description'', ''helpText''],
       p_kind = parameter_kind_of m options default_value,
       p_required = unwrap_or False (Option.bind (member ''required'' message) as_bool),
       p_default_value = default_value,
       p_options = options,
       p_hidden = False,
       p_visibility_condition = Option.bind
         (or_else (member ''visibilityCondition'' message) (member ''visibilityCondition'' m))
         normalize_visibility_condition,
       p_precision = (if is_integer_parameter m then Some 0 else None),
       p_widget = None,
       p_units = parameter_units m,
       p_raw = v\<rparr>
   }"

definition normalize_configuration :: "onshape_source \<Rightarrow> json \<Rightarrow> parameter_schema" where
  "normalize_configuration source raw = \<lparr>ps_schema_version = SCHEMA_VERSION, ps_source = source,
     ps_parameters = (case find_parameter_array raw of
        Some items \<Rightarrow> List.map_filter normalize_parameter items
      | None \<Rightarrow> [])\<rparr>"

section \<open>Overrides\<close>

definition override_parameter :: "parameter_override \<Rightarrow> parameter \<Rightarrow> parameter" where
  "override_parameter ov p = p\<lparr>
     p_label := unwrap_or (p_label p) (ov_label ov),
     p_description := or_else (ov_description ov) (p_description p),
     p_hidden := (if ov_hidden ov then True else p_hidden p),
     p_precision := or_else (ov_precision ov) (p_precision p),
     p_widget := or_else (ov_widget ov) (p_widget p)\<rparr>"

definition apply_overrides :: "parameter_schema \<Rightarrow> (string \<rightharpoonup> parameter_override) \<Rightarrow> parameter_schema" where
  "apply_overrides schema overrides = schema\<lparr>ps_parameters := map (\<lambda>p. case overrides (p_id p) of
      Some ov \<Rightarrow> override_parameter ov p
    | None \<Rightarrow> p) (ps_parameters schema)\<rparr>"

section \<open>Overrides keep the meaning of a submission\<close>

definition accepted :: "('e, 'a) result \<Rightarrow> 'a option" where
  "accepted r = (case r of Ok a \<Rightarrow> Some a | Err _ \<Rightarrow> None)"

lemma override_fields [simp]:
  "p_id (override_parameter ov p) = p_id p" "p_kind (override_parameter ov p) = p_kind p"
  "p_required (override_parameter ov p) = p_required p"
  "p_default_value (override_parameter ov p) = p_default_value p"
  "p_options (override_parameter ov p) = p_options p" "p_units (override_parameter ov p) = p_units p"
  by (simp_all add: override_parameter_def)

lemma override_number:
  "canonicalize_number (override_parameter ov p) v = Some (Ok c) \<longleftrightarrow> canonicalize_number p v = Some (Ok c)"
proof -
  have u: "onshape_unit (override_parameter ov p) = onshape_unit p" by (simp add: onshape_unit_def)
  show ?thesis
    unfolding canonicalize_number_def canonicalize_dimensioned_number_def canonicalize_unitless_number_def u
    by (auto split: option.splits sum.splits)
qed

lemma override_value:
  "value_contribution (override_parameter ov p) v = Ok c \<longleftrightarrow> value_contribution p v = Ok c"
proof (cases "p_kind p = Number")
  case True
  obtain r where r: "canonicalize_number p v = Some r" using canonicalize_number_returns [of p v] by blast
  obtain r' where r': "canonicalize_number (override_parameter ov p) v = Some r'"
    using canonicalize_number_returns [of "override_parameter ov p" v] by blast
  have "r' = Ok x \<longleftrightarrow> r = Ok x" for x using override_number [of ov p v x] r r' by simp
  then show ?thesis
    using True r r' by (cases r; cases r') (auto simp: value_contribution_def)
next
  case False
  then show ?thesis by (cases "p_kind p") (auto simp: value_contribution_def)
qed

lemma override_contribution:
  "accepted (contribution submitted (override_parameter ov p)) = accepted (contribution submitted p)"
proof -
  have chosen: "chosen_value submitted (override_parameter ov p) = chosen_value submitted p"
    by (simp add: chosen_value_def)
  have eq: "contribution submitted (override_parameter ov p) = Ok c \<longleftrightarrow> contribution submitted p = Ok c" for c
    unfolding contribution_def chosen
    by (auto simp: override_value split: option.splits sum.splits)
      (metis override_value sum.exhaust sum.distinct(1) sum.inject(2))+
  show ?thesis
    using eq by (cases "contribution submitted p"; cases "contribution submitted (override_parameter ov p)")
      (auto simp: accepted_def)
qed

lemma contributions_accepted:
  "contributions submitted ps = List.map_filter (\<lambda>p. case accepted (contribution submitted p) of
     Some (Some (out, cv)) \<Rightarrow> Some (p_id p, out, cv) | _ \<Rightarrow> None) ps"
  unfolding contributions_def
  by (rule arg_cong [of _ _ "\<lambda>f. List.map_filter f ps"]) (auto simp: fun_eq_iff accepted_def split: sum.splits option.splits)

lemma parameter_errors_accepted:
  "parameter_errors submitted ps = [] \<longleftrightarrow> list_all (\<lambda>p. accepted (contribution submitted p) \<noteq> None) ps"
proof -
  have "(\<exists>c. contribution submitted p = Ok c) \<longleftrightarrow> accepted (contribution submitted p) \<noteq> None" for p
    by (cases "contribution submitted p") (auto simp: accepted_def)
  then show ?thesis by (simp only: parameter_errors_Nil list_all_iff)
qed

lemma map_filter_map: "List.map_filter g (map f xs) = List.map_filter (\<lambda>x. g (f x)) xs"
  by (induction xs) (simp_all add: List.map_filter_simps split: option.splits)

text \<open>
  The overrides of the catalog change how parameters are presented, never what a submission
  means: the same submissions are accepted, with the same texts and the same typed values.
\<close>

lemma overrides_keep_accepted_values:
  "validate_values (apply_overrides schema overrides) submitted allow_unknown = Some (Ok vc)
    \<longleftrightarrow> validate_values schema submitted allow_unknown = Some (Ok vc)"
proof -
  let ?f = "\<lambda>p. case overrides (p_id p) of Some ov \<Rightarrow> override_parameter ov p | None \<Rightarrow> p"
  let ?ps = "ps_parameters schema"
  have ids: "p_id (?f p) = p_id p" and acc: "accepted (contribution submitted (?f p)) = accepted (contribution submitted p)"
    for p by (auto simp: override_contribution split: option.splits)
  have ps: "ps_parameters (apply_overrides schema overrides) = map ?f ?ps" by (simp add: apply_overrides_def)
  have known: "known_names (apply_overrides schema overrides) = known_names schema"
    by (simp add: known_names_def ps comp_def ids)
  have "contributions submitted (map ?f ?ps) = contributions submitted ?ps"
    unfolding contributions_accepted map_filter_map
    by (rule arg_cong [of _ _ "\<lambda>g. List.map_filter g ?ps"])
      (simp add: fun_eq_iff acc ids split: option.splits)
  then have entries: "submission_entries (apply_overrides schema overrides) submitted allow_unknown
      = submission_entries schema submitted allow_unknown"
    by (simp add: submission_entries_def ps known)
  have "parameter_errors submitted (map ?f ?ps) = [] \<longleftrightarrow> parameter_errors submitted ?ps = []"
    unfolding parameter_errors_accepted by (simp add: list_all_iff acc)
  then have "submission_errors (apply_overrides schema overrides) submitted allow_unknown = []
      \<longleftrightarrow> submission_errors schema submitted allow_unknown = []"
    by (simp add: submission_errors_def ps known)
  then show ?thesis unfolding validate_values_eq entries by simp
qed

section \<open>The meaning of a visibility condition\<close>

fun condition_wf :: "visibility_condition \<Rightarrow> bool" where
  "condition_wf (AllOf cs) \<longleftrightarrow> cs \<noteq> [] \<and> list_all condition_wf cs"
| "condition_wf (AnyOf cs) \<longleftrightarrow> cs \<noteq> [] \<and> list_all condition_wf cs"
| "condition_wf (EqualTo p vs) \<longleftrightarrow> vs \<noteq> []"

fun visible :: "(string \<rightharpoonup> string) \<Rightarrow> visibility_condition \<Rightarrow> bool" where
  "visible env (AllOf cs) \<longleftrightarrow> list_all (visible env) cs"
| "visible env (AnyOf cs) \<longleftrightarrow> list_ex (visible env) cs"
| "visible env (EqualTo p vs) \<longleftrightarrow> (case env p of Some s \<Rightarrow> s \<in> set vs | None \<Rightarrow> False)"

text \<open>
  The same on Onshape's document: an empty condition holds, AND and OR range over the children and
  hold without any, and a value is compared with the value or with the elements of the array.
\<close>

definition raw_equal :: "(string \<rightharpoonup> string) \<Rightarrow> jmap \<Rightarrow> bool" where
  "raw_equal env message = (case (first_string message [''parameterId''], member ''value'' message) of
      (Some p, Some v) \<Rightarrow> env p \<noteq> None \<and>
        (if Option.bind (member ''inArray'' message) as_bool = Some True
         then (case v of JArr vs \<Rightarrow> list_ex (\<lambda>x. value_to_string x = env p) vs | _ \<Rightarrow> value_to_string v = env p)
         else value_to_string v = env p)
    | _ \<Rightarrow> True)"

function raw_visible :: "(string \<rightharpoonup> string) \<Rightarrow> json \<Rightarrow> bool" where
  "raw_visible env v = (case v of
      JObj m \<Rightarrow>
        if message_of m = [] then True
        else if is_logical m then
          (case children_of (message_of m) of
             None \<Rightarrow> True
           | Some children \<Rightarrow> children = [] \<or>
              (if map_option to_upper (first_text (message_of m) [''operation'']) = Some ''OR''
               then list_ex (\<lambda>c. raw_visible env c) children
               else list_all (\<lambda>c. raw_visible env c) children))
        else raw_equal env (message_of m)
    | _ \<Rightarrow> True)"
  by pat_completeness auto

termination
proof (relation "measure (\<lambda>(_, v). size v)")
  fix env :: "string \<rightharpoonup> string" and v m children child
  assume "v = JObj m" "children_of (message_of m) = Some children" "child \<in> set children"
  then show "((env, child), env, v) \<in> measure (\<lambda>(_, v). size v)" using size_child [of m children child] by simp
  then show "((env, child), env, v) \<in> measure (\<lambda>(_, v). size v)" .
qed simp

declare raw_visible.simps [simp del]

lemma collect_None: "collect_conditions operation rs acc = Ok None \<Longrightarrow> operation = ''OR'' \<and> Ok None \<in> set rs"
  by (induction operation rs acc rule: collect_conditions.induct) (auto split: sum.splits option.splits if_splits)

lemma collect_Some:
  "collect_conditions operation rs acc = Ok (Some out) \<Longrightarrow>
    (\<forall>r \<in> set rs. \<exists>x. r = Ok x) \<and> (operation = ''OR'' \<longrightarrow> Ok None \<notin> set rs)
    \<and> out = acc @ List.map_filter (\<lambda>r. case r of Ok x \<Rightarrow> x | Err _ \<Rightarrow> None) rs"
  by (induction operation rs acc rule: collect_conditions.induct)
    (auto simp: List.map_filter_simps split: sum.splits option.splits if_splits)

definition condition_agrees :: "(string \<rightharpoonup> string) \<Rightarrow> json \<Rightarrow> visibility_condition option \<Rightarrow> bool" where
  "condition_agrees env v r = (case r of
      None \<Rightarrow> raw_visible env v
    | Some c \<Rightarrow> condition_wf c \<and> visible env c = raw_visible env v)"

lemma equal_agrees:
  assumes "normalize_equal_visibility_condition message = Ok r"
  shows "\<exists>p vs. r = Some (EqualTo p vs) \<and> vs \<noteq> [] \<and> visible env (EqualTo p vs) = raw_equal env message"
proof -
  obtain p v vs where p: "first_string message [''parameterId''] = Some p" and v: "member ''value'' message = Some v"
    and vs: "visibility_condition_values v (unwrap_or False (Option.bind (member ''inArray'' message) as_bool)) = Some vs"
    and r: "r = Some (EqualTo p vs)"
    using assms by (auto simp: normalize_equal_visibility_condition_def result_simps Let_def)
  have b: "unwrap_or False x \<longleftrightarrow> x = Some True" for x by (cases x) (auto simp: unwrap_or_def)
  have those: "those (map value_to_string js) = Some ss \<Longrightarrow>
      (\<exists>x \<in> set js. value_to_string x = Some s) \<longleftrightarrow> s \<in> set ss" for js ss s
    by (induction js arbitrary: ss) (auto split: option.splits)
  have single: "vs = [s'] \<Longrightarrow> value_to_string v = Some s' \<Longrightarrow> ?thesis"
    if "\<not> (Option.bind (member ''inArray'' message) as_bool = Some True \<and> (\<exists>js. v = JArr js))" for s'
    using that p v r by (cases v) (auto simp: raw_equal_def split: option.splits)
  show ?thesis
  proof (cases "Option.bind (member ''inArray'' message) as_bool = Some True \<and> (\<exists>js. v = JArr js)")
    case True
    then obtain js where js: "v = JArr js" by blast
    then have ss: "those (map value_to_string js) = Some vs" "vs \<noteq> []"
      using vs True by (auto simp: visibility_condition_values_def b bind_eq_Some_conv split: if_splits)
    then show ?thesis
      using True p v r js those [OF ss(1)] by (auto simp: raw_equal_def list_ex_iff split: option.splits)
  next
    case False
    then obtain s' where "value_to_string v = Some s'" "vs = [s']"
      using vs by (cases v) (auto simp: visibility_condition_values_def b bind_eq_Some_conv split: if_splits)
    then show ?thesis using single False by blast
  qed
qed

lemma logical_agrees:
  assumes "logical_condition operation (map R cs) = Ok r"
    and "\<And>c x. c \<in> set cs \<Longrightarrow> R c = Ok x \<Longrightarrow> condition_agrees env c x"
  shows "case r of
      None \<Rightarrow> cs = [] \<or> (if operation = ''OR'' then list_ex (raw_visible env) cs else list_all (raw_visible env) cs)
    | Some k \<Rightarrow> condition_wf k \<and> cs \<noteq> []
        \<and> visible env k = (if operation = ''OR'' then list_ex (raw_visible env) cs else list_all (raw_visible env) cs)"
proof -
  obtain collected where col: "collect_conditions operation (map R cs) [] = Ok collected"
    using assms(1) by (auto simp: logical_condition_def result_simps)
  show ?thesis
  proof (cases collected)
    case None
    then obtain c where "operation = ''OR''" "c \<in> set cs" "R c = Ok None"
      using collect_None [of operation "map R cs" "[]"] col by auto
    then show ?thesis
      using assms(1) col None assms(2) [of c None]
      by (auto simp: logical_condition_def and_then_def condition_agrees_def list_ex_iff)
  next
    case (Some out)
    let ?g = "\<lambda>r. case r of Ok x \<Rightarrow> x | Err _ \<Rightarrow> None"
    have all: "\<forall>c \<in> set cs. \<exists>x. R c = Ok x" and no: "operation = ''OR'' \<Longrightarrow> \<forall>c \<in> set cs. R c \<noteq> Ok None"
      and out: "out = List.map_filter (\<lambda>c. ?g (R c)) cs"
      using collect_Some [of operation "map R cs" "[]" out] col Some
      by (auto simp: map_filter_map) (metis image_eqI)
    have k: "k \<in> set out \<longleftrightarrow> (\<exists>c \<in> set cs. R c = Ok (Some k))" for k
      using all by (force simp: out List.map_filter_def)
    have wf: "list_all condition_wf out"
      using assms(2) by (fastforce simp: list_all_iff k condition_agrees_def)
    have ag: "condition_agrees env c x" if "c \<in> set cs" "R c = Ok x" for c x using that by (rule assms(2))
    have ex: "list_ex (visible env) out = list_ex (raw_visible env) cs" if or: "operation = ''OR''"
    proof -
      have "\<exists>x. R c = Ok (Some x) \<and> visible env x = raw_visible env c" if c: "c \<in> set cs" for c
      proof -
        obtain y where y: "R c = Ok y" using all c by blast
        then have "y \<noteq> None" using no [OF or] c by auto
        then show ?thesis using ag [OF c y] y by (auto simp: condition_agrees_def)
      qed
      moreover have "visible env x = raw_visible env c" if "c \<in> set cs" "R c = Ok (Some x)" for c x
        using ag [OF that] by (simp add: condition_agrees_def)
      ultimately show ?thesis unfolding list_ex_iff Bex_def k by metis
    qed
    have al: "list_all (visible env) out = list_all (raw_visible env) cs"
    proof
      assume l: "list_all (visible env) out"
      have "raw_visible env c" if c: "c \<in> set cs" for c
      proof -
        obtain x where x: "R c = Ok x" using all c by blast
        show ?thesis
        proof (cases x)
          case None
          then show ?thesis using ag [OF c x] by (simp add: condition_agrees_def)
        next
          case (Some y)
          then have "y \<in> set out" using k c x by blast
          then have "visible env y" using l by (simp only: list_all_iff)
          then show ?thesis using ag [OF c x] Some by (simp add: condition_agrees_def)
        qed
      qed      then show "list_all (raw_visible env) cs" by (simp add: list_all_iff)
    next
      assume "list_all (raw_visible env) cs"
      then show "list_all (visible env) out"
        unfolding list_all_iff Ball_def k using ag by (fastforce simp: condition_agrees_def)
    qed
    show ?thesis
    proof (cases "out = []")
      case True
      then have "r = None" using assms(1) col Some by (simp add: logical_condition_def and_then_def)
      moreover have "list_all (raw_visible env) cs" using al True by simp
      moreover have "cs = []" if or: "operation = ''OR''"
      proof (rule ccontr)
        assume "cs \<noteq> []"
        then obtain c where c: "c \<in> set cs" by (cases cs) auto
        then obtain x where x: "R c = Ok x" using all by blast
        then obtain y where "x = Some y" using no [OF or] c by (cases x) auto
        then have "y \<in> set out" using k c x by blast
        with True show False by simp
      qed
      ultimately show ?thesis by auto
    next
      case False
      then have "cs \<noteq> []" by (auto simp: out)
      with False show ?thesis
        using assms(1) col Some wf ex al
        by (auto simp: logical_condition_def and_then_def split: if_splits)
    qed
  qed
qed

lemma condition_agrees_result:
  assumes "normalize_visibility_condition_result v = Ok r"
  shows "condition_agrees env v r"
  using assms
proof (induction v arbitrary: r rule: normalize_visibility_condition_result.induct)
  case (1 v)
  then obtain m where m: "v = JObj m"
    by (subst (asm) (2) normalize_visibility_condition_result.simps) (auto split: json.splits)
  consider (empty) "message_of m = []"
    | (logical) "message_of m \<noteq> []" "is_logical m"
    | (equal) "message_of m \<noteq> []" "\<not> is_logical m" "is_equal m"
    using 1(2) m by (subst (asm) normalize_visibility_condition_result.simps) (auto split: if_splits)
  then show ?case
  proof cases
    case empty
    then show ?thesis
      using 1(2) m by (subst (asm) normalize_visibility_condition_result.simps)
        (auto simp: condition_agrees_def raw_visible.simps [of env "JObj m"])
  next
    case logical
    then obtain op children where op: "first_text (message_of m) [''operation''] = Some op"
      and c: "children_of (message_of m) = Some children"
      and r: "logical_condition (to_upper op) (map normalize_visibility_condition_result children) = Ok r"
      using 1(2) m by (subst (asm) normalize_visibility_condition_result.simps) (auto split: option.splits)
    have "condition_agrees env x y" if "x \<in> set children" "normalize_visibility_condition_result x = Ok y" for x y
      using 1(1) [OF m logical op c that(1) that(2)] .
    from logical_agrees [OF r this] show ?thesis
      using logical op c m by (auto simp: condition_agrees_def raw_visible.simps [of env "JObj m"] split: option.splits)
  next
    case equal
    then have "normalize_equal_visibility_condition (message_of m) = Ok r"
      using 1(2) m by (subst (asm) normalize_visibility_condition_result.simps) auto
    from equal_agrees [OF this, of env] show ?thesis
      using equal m by (auto simp: condition_agrees_def raw_visible.simps [of env "JObj m"])
  qed
qed

lemma visibility_agrees:
  "case normalize_visibility_condition_result v of
      Err _ \<Rightarrow> normalize_visibility_condition v = None
    | Ok r \<Rightarrow> normalize_visibility_condition v = r \<and> condition_agrees env v r"
  using condition_agrees_result by (auto simp: normalize_visibility_condition_def split: sum.splits)


section \<open>The shape of a normalised schema\<close>

lemma decimal_text_int: "decimal_text (of_int n) (int_str n)"
proof -
  have "int_str n = (if n < 0 then ''-'' else '''') @ nat_str (nat \<bar>n\<bar>)" by (simp add: int_str_def)
  moreover have "(of_int n :: rat) = (if n < 0 then -1 else 1) * of_nat (nat \<bar>n\<bar>)"
    by (simp add: of_nat_nat abs_if)
  ultimately show ?thesis
    unfolding decimal_text_def
    by (intro exI [of _ "n < 0"] exI [of _ "nat \<bar>n\<bar>"] exI [of _ "[]"]) auto
qed

lemma quotient_of_integer: "quotient_of (of_int n) = (n, 1)"
  by (simp add: of_int_rat quotient_of_Fract)

text \<open>
  An integer parameter's default, where it is the text of an integer, is its canonical text.
\<close>

definition integer_default_ok :: "string option \<Rightarrow> bool" where
  "integer_default_ok d = (case Option.bind d parse_decimal_rational of
      None \<Rightarrow> True
    | Some q \<Rightarrow> snd (quotient_of q) \<noteq> 1 \<or> d = Some (int_str (fst (quotient_of q))))"

lemma normalize_integer_default: "integer_default_ok (normalize_default_value v True)"
proof (cases "Option.bind v value_to_string")
  case None
  then show ?thesis by (simp add: normalize_default_value_def integer_default_ok_def)
next
  case (Some s)
  show ?thesis
  proof (cases "parse_decimal_rational s")
    case None
    then show ?thesis using Some by (simp add: normalize_default_value_def integer_default_ok_def)
  next
    case (Some q)
    obtain n d where q: "quotient_of q = (n, d)" by fastforce
    have p: "parse_decimal_rational (int_str n) = Some (of_int n)"
      by (rule parse_printed [OF decimal_text_int])
    show ?thesis
      using \<open>Option.bind v value_to_string = Some s\<close> Some q p
      by (auto simp: normalize_default_value_def integer_default_ok_def quotient_of_integer)
  qed
qed

definition parameter_normal :: "parameter \<Rightarrow> bool" where
  "parameter_normal p \<longleftrightarrow> (p_kind p = Enum \<longleftrightarrow> p_options p \<noteq> [])
    \<and> p_units p \<noteq> Some [] \<and> \<not> p_hidden p \<and> p_widget p = None
    \<and> (case p_precision p of None \<Rightarrow> True | Some n \<Rightarrow> n = 0 \<and> integer_default_ok (p_default_value p))
    \<and> pred_option condition_wf (p_visibility_condition p)
    \<and> (p_kind p = Unsupported \<longrightarrow> Option.bind (p_default_value p) parse_decimal_rational = None)"

lemma normalized_condition_wf: "normalize_visibility_condition v = Some c \<Longrightarrow> condition_wf c"
  using visibility_agrees [of v Map.empty] by (auto simp: condition_agrees_def split: sum.splits)

lemma kind_Enum: "parameter_kind_of m options d = Enum \<longleftrightarrow> options \<noteq> []"
  by (simp add: parameter_kind_of_def Let_def)

lemma kind_Unsupported:
  "parameter_kind_of m options d = Unsupported \<Longrightarrow> Option.bind d parse_decimal_rational = None"
  by (auto simp: parameter_kind_of_def Let_def split: if_splits)

lemma units_nonempty: "parameter_units m \<noteq> Some []"
  by (auto simp: parameter_units_def filter_opt_def split: option.splits)

lemma condition_option_wf: "pred_option condition_wf (Option.bind x normalize_visibility_condition)"
  by (cases x; cases "normalize_visibility_condition (the x)") (auto dest: normalized_condition_wf)

lemma normalize_parameter_normal:
  assumes "normalize_parameter v = Some p"
  shows "parameter_normal p"
proof -
  obtain m id label required c where
    "p = \<lparr>p_id = id, p_label = label, p_description = c,
      p_kind = parameter_kind_of m (extract_options v) (parameter_default m), p_required = required,
      p_default_value = parameter_default m, p_options = extract_options v, p_hidden = False,
      p_visibility_condition = Option.bind
        (or_else (member ''visibilityCondition'' (message_of m)) (member ''visibilityCondition'' m))
        normalize_visibility_condition,
      p_precision = (if is_integer_parameter m then Some 0 else None), p_widget = None,
      p_units = parameter_units m, p_raw = v\<rparr>"
    using assms unfolding normalize_parameter_def Let_def bind_eq_Some_conv option.inject by blast
  then show ?thesis
    using normalize_integer_default
    by (simp add: parameter_normal_def kind_Enum kind_Unsupported units_nonempty condition_option_wf
        parameter_default_def Let_def)
qed

text \<open>
  C5: Whatever document Onshape sends, normalisation returns a schema of the current version whose
  parameters are well formed: an option list exactly for an enumeration, no empty unit, no empty
  visibility list, an integer's default in canonical form, and no numeric default left unsupported.
\<close>

theorem normalized_schema_wellformed:
  "list_all parameter_normal (ps_parameters (normalize_configuration source raw))
    \<and> ps_schema_version (normalize_configuration source raw) = 4
    \<and> ps_source (normalize_configuration source raw) = source"
  by (auto simp: normalize_configuration_def list_all_iff List.map_filter_def SCHEMA_VERSION_def
      normalize_parameter_normal split: option.splits)

end
