(* ===== verification/Sql_Table.thy ===== *)
theory Sql_Table
  imports Prelude
begin

text \<open>
  What the SQL statements of \<open>src/src/db.rs\<close> do to one table: a table is the list of its rows in
  the order of insertion. \<open>UPDATE ... SET ... WHERE\<close> rewrites the selected rows and counts them; the
  locale \<open>keyed_update\<close> is the contract of an update that leaves the table's UNIQUE column alone.
\<close>

definition update_where :: "('r \<Rightarrow> bool) \<Rightarrow> ('r \<Rightarrow> 'r) \<Rightarrow> 'r list \<Rightarrow> nat \<times> 'r list" where
  "update_where p change t = (length (filter p t), map (\<lambda>r. if p r then change r else r) t)"

definition find_row :: "('r \<Rightarrow> 'k) \<Rightarrow> 'k \<Rightarrow> 'r list \<Rightarrow> 'r option" where
  "find_row key k t = find (\<lambda>r. key r = k) t"

text \<open>\<open>rows_affected() == 1\<close>\<close>

definition one_row :: "nat \<times> 't \<Rightarrow> bool \<times> 't" where
  "one_row = (\<lambda>(n, t). (n = 1, t))"

lemma find_row_Some: "find_row key k t = Some r \<Longrightarrow> r \<in> set t \<and> key r = k"
  by (auto simp: find_row_def find_Some_iff)

lemma find_row_None: "find_row key k t = None \<longleftrightarrow> k \<notin> key ` set t"
  by (auto simp: find_row_def find_None_iff)

lemma find_row_distinct:
  "distinct (map key t) \<Longrightarrow> r \<in> set t \<Longrightarrow> find_row key (key r) t = Some r"
  by (induction t) (auto simp: find_row_def rev_image_eqI)

lemma find_row_iff:
  "distinct (map key t) \<Longrightarrow> find_row key k t = Some r \<longleftrightarrow> r \<in> set t \<and> key r = k"
  using find_row_Some find_row_distinct by metis

lemma find_row_append:
  "find_row key k (t @ [r]) = (case find_row key k t of Some x \<Rightarrow> Some x | None \<Rightarrow> if key r = k then Some r else None)"
  by (induction t) (auto simp: find_row_def)

lemma update_none: "\<forall>r \<in> set t. \<not> p r \<Longrightarrow> update_where p change t = (0, t)"
  by (auto simp: update_where_def filter_empty_conv intro: map_idI)

lemma set_update: "set (snd (update_where p change t)) = {if p r then change r else r |r. r \<in> set t}"
  by (auto simp: update_where_def)

locale keyed_update =
  fixes key :: "'r \<Rightarrow> 'k" and change :: "'r \<Rightarrow> 'r"
  assumes key_change: "key (change r) = key r"
begin

lemma keys: "map key (snd (update_where p change t)) = map key t"
  by (simp add: update_where_def key_change comp_def if_distrib cong: if_cong)

lemma row: "find_row key k (snd (update_where p change t))
    = map_option (\<lambda>r. if p r then change r else r) (find_row key k t)"
  by (induction t) (auto simp: update_where_def find_row_def key_change)

text \<open>A condition that fixes the key affects one row, the row of the key, or none.\<close>

lemma affected:
  assumes "distinct (map key t)" "\<And>r. p r \<Longrightarrow> key r = k"
  shows "fst (update_where p change t) = (case find_row key k t of
      Some r \<Rightarrow> if p r then 1 else 0
    | None \<Rightarrow> 0)"
  using assms
proof (induction t)
  case Nil
  then show ?case by (simp add: update_where_def find_row_def)
next
  case (Cons r t)
  show ?case
  proof (cases "key r = k")
    case True
    then have "k \<notin> key ` set t" using Cons.prems(1) by auto
    then have "\<forall>x \<in> set t. \<not> p x" using Cons.prems(2) by blast
    then have "filter p t = []" by (simp add: filter_empty_conv)
    then show ?thesis using True by (simp add: update_where_def find_row_def)
  next
    case False
    then show ?thesis using Cons by (auto simp: update_where_def find_row_def)
  qed
qed

lemma other_rows:
  assumes "\<And>r. p r \<Longrightarrow> key r = k" "k' \<noteq> k"
  shows "find_row key k' (snd (update_where p change t)) = find_row key k' t"
  using assms find_row_Some [of key k' t]
  by (cases "find_row key k' t") (auto simp: row)

end

end
