(* ===== verification/Job_Queue.thy ===== *)
theory Job_Queue
  imports Sql_Table Rust_Strings
begin

text \<open>
  The job queue: the \<open>jobs\<close> table of \<open>src/migrations\<close>, the statements of \<open>src/src/db.rs\<close> on it, and
  the worker's step of \<open>src/src/main.rs\<close> over them. Times are the milliseconds of \<open>strftime\<close>; each
  statement takes the time \<open>now\<close> at which SQLite evaluates it. A database error is not modelled: a
  statement that fails leaves the table as it was and ends the caller.
\<close>

section \<open>The table\<close>

record job =
  j_id :: nat
  j_work_key :: string
  j_job_kind :: string
  j_status :: string
  j_payload_json :: string
  j_error_summary :: "string option"
  j_attempt :: int
  j_lease_until :: "nat option"
  j_created_at :: nat
  j_updated_at :: nat
  j_max_attempts :: int
  j_next_retry_at :: "nat option"

record job_lease =
  jl_work_key :: string
  jl_job_kind :: string
  jl_payload_json :: string
  jl_attempt :: int
  jl_max_attempts :: int

type_synonym jobs = "job list"

definition after :: "nat \<Rightarrow> nat \<Rightarrow> nat" where
  "after now seconds = now + 1000 * seconds"

definition new_job :: "nat \<Rightarrow> nat \<Rightarrow> string \<Rightarrow> string \<Rightarrow> string \<Rightarrow> job" where
  "new_job now i work_key kind payload = \<lparr>j_id = i, j_work_key = work_key, j_job_kind = kind,
     j_status = ''queued'', j_payload_json = payload, j_error_summary = None, j_attempt = 0,
     j_lease_until = None, j_created_at = now, j_updated_at = now, j_max_attempts = 3,
     j_next_retry_at = None\<rparr>"

section \<open>Enqueueing\<close>

definition requeue :: "nat \<Rightarrow> job \<Rightarrow> job" where
  "requeue now r = r\<lparr>j_status := ''queued'', j_error_summary := None, j_attempt := 0,
     j_lease_until := None, j_next_retry_at := None, j_updated_at := now\<rparr>"

definition enqueue_conflict :: "nat \<Rightarrow> string \<Rightarrow> string \<Rightarrow> job \<Rightarrow> job" where
  "enqueue_conflict now kind payload r = (requeue now r)\<lparr>j_job_kind := kind, j_payload_json := payload\<rparr>"

definition enqueue_job_inner ::
  "nat \<Rightarrow> string \<Rightarrow> string \<Rightarrow> string \<Rightarrow> bool \<Rightarrow> jobs \<Rightarrow> bool \<times> jobs" where
  "enqueue_job_inner now work_key kind payload force_ready t =
    (if find_row j_work_key work_key t = None
     then (True, t @ [new_job now (Suc (length t)) work_key kind payload])
     else one_row (update_where
       (\<lambda>r. j_work_key r = work_key \<and> (j_status r \<in> {''failed'', ''superseded''} \<or> (force_ready \<and> j_status r = ''ready'')))
       (enqueue_conflict now kind payload) t))"

definition enqueue_job :: "nat \<Rightarrow> string \<Rightarrow> string \<Rightarrow> string \<Rightarrow> jobs \<Rightarrow> bool \<times> jobs" where
  "enqueue_job now work_key kind payload t = enqueue_job_inner now work_key kind payload False t"

definition force_enqueue_job :: "nat \<Rightarrow> string \<Rightarrow> string \<Rightarrow> string \<Rightarrow> jobs \<Rightarrow> bool \<times> jobs" where
  "force_enqueue_job now work_key kind payload t = enqueue_job_inner now work_key kind payload True t"

section \<open>Claiming\<close>

definition claimable :: "nat \<Rightarrow> job \<Rightarrow> bool" where
  "claimable now r \<longleftrightarrow>
    (j_status r = ''queued'' \<and> (case j_next_retry_at r of None \<Rightarrow> True | Some u \<Rightarrow> u \<le> now))
    \<or> (j_status r = ''running'' \<and> (case j_lease_until r of None \<Rightarrow> False | Some u \<Rightarrow> u \<le> now))"

definition claim_rank :: "job \<Rightarrow> nat" where
  "claim_rank r = (if j_status r = ''queued'' then 0 else 1)"

definition claim_due :: "job \<Rightarrow> nat" where
  "claim_due r = (case j_next_retry_at r of Some u \<Rightarrow> u | None \<Rightarrow> j_created_at r)"

definition claim_before :: "job \<Rightarrow> job \<Rightarrow> bool" where
  "claim_before a b \<longleftrightarrow> claim_rank a < claim_rank b \<or> (claim_rank a = claim_rank b \<and>
    (claim_due a < claim_due b \<or> (claim_due a = claim_due b \<and> j_created_at a < j_created_at b)))"

text \<open>\<open>ORDER BY ... LIMIT 1\<close>: of rows that compare equal the first inserted one.\<close>

fun first_claim :: "jobs \<Rightarrow> job option" where
  "first_claim [] = None"
| "first_claim (r # rs) = (case first_claim rs of
      None \<Rightarrow> Some r
    | Some s \<Rightarrow> if claim_before s r then Some s else Some r)"

definition mark_running :: "nat \<Rightarrow> nat \<Rightarrow> job \<Rightarrow> job" where
  "mark_running now lease_seconds r = r\<lparr>j_status := ''running'', j_attempt := j_attempt r + 1,
     j_lease_until := Some (after now lease_seconds), j_updated_at := now\<rparr>"

definition lease_of :: "job \<Rightarrow> job_lease" where
  "lease_of r = \<lparr>jl_work_key = j_work_key r, jl_job_kind = j_job_kind r, jl_payload_json = j_payload_json r,
     jl_attempt = j_attempt r, jl_max_attempts = j_max_attempts r\<rparr>"

definition claim_next_job :: "nat \<Rightarrow> nat \<Rightarrow> jobs \<Rightarrow> job_lease option \<times> jobs" where
  "claim_next_job now lease_seconds t = (case first_claim (filter (claimable now) t) of
      None \<Rightarrow> (None, t)
    | Some r \<Rightarrow> (Some (lease_of (mark_running now lease_seconds r)),
        snd (update_where (\<lambda>x. j_id x = j_id r) (mark_running now lease_seconds) t)))"

section \<open>Settling\<close>

text \<open>The guard of every statement of a worker on its job.\<close>

definition holds_lease :: "string \<Rightarrow> int \<Rightarrow> job \<Rightarrow> bool" where
  "holds_lease work_key attempt r \<longleftrightarrow>
    j_work_key r = work_key \<and> j_attempt r = attempt \<and> j_status r = ''running''"

definition set_lease :: "nat \<Rightarrow> nat \<Rightarrow> job \<Rightarrow> job" where
  "set_lease now lease_seconds r = r\<lparr>j_lease_until := Some (after now lease_seconds)\<rparr>"

definition extend_job_lease :: "nat \<Rightarrow> string \<Rightarrow> int \<Rightarrow> nat \<Rightarrow> jobs \<Rightarrow> bool \<times> jobs" where
  "extend_job_lease now work_key attempt lease_seconds t =
    one_row (update_where (holds_lease work_key attempt) (set_lease now lease_seconds) t)"

definition set_finished :: "nat \<Rightarrow> string \<Rightarrow> string option \<Rightarrow> job \<Rightarrow> job" where
  "set_finished now status error r = r\<lparr>j_status := status, j_error_summary := error,
     j_lease_until := None, j_next_retry_at := None, j_updated_at := now\<rparr>"

definition finish_job :: "nat \<Rightarrow> string \<Rightarrow> int \<Rightarrow> string \<Rightarrow> string option \<Rightarrow> jobs \<Rightarrow> bool \<times> jobs" where
  "finish_job now work_key attempt status error t =
    one_row (update_where (holds_lease work_key attempt) (set_finished now status error) t)"

definition set_failed :: "nat \<Rightarrow> string \<Rightarrow> int \<Rightarrow> job \<Rightarrow> job" where
  "set_failed now error delay r = r\<lparr>
     j_status := (if j_attempt r \<ge> j_max_attempts r then ''failed'' else ''queued''),
     j_error_summary := Some error, j_lease_until := None,
     j_next_retry_at := (if j_attempt r \<ge> j_max_attempts r then None else Some (after now (nat delay))),
     j_updated_at := now\<rparr>"

definition record_job_failure :: "nat \<Rightarrow> string \<Rightarrow> int \<Rightarrow> string \<Rightarrow> int \<Rightarrow> jobs \<Rightarrow> bool \<times> jobs" where
  "record_job_failure now work_key attempt error delay t =
    one_row (update_where (holds_lease work_key attempt) (set_failed now error (max delay 0)) t)"

definition set_superseded :: "nat \<Rightarrow> job \<Rightarrow> job" where
  "set_superseded now r = r\<lparr>j_status := ''superseded'', j_lease_until := None,
     j_next_retry_at := None, j_updated_at := now\<rparr>"

definition supersede_ready_job :: "nat \<Rightarrow> string \<Rightarrow> jobs \<Rightarrow> bool \<times> jobs" where
  "supersede_ready_job now work_key t =
    one_row (update_where (\<lambda>r. j_work_key r = work_key \<and> j_status r = ''ready'') (set_superseded now) t)"

section \<open>Retrying failed jobs\<close>

definition retryable :: "job \<Rightarrow> bool" where
  "retryable r \<longleftrightarrow> j_status r = ''failed'' \<and> j_payload_json r \<noteq> ''{}''"

definition retry_failed_jobs :: "nat \<Rightarrow> jobs \<Rightarrow> nat \<times> jobs" where
  "retry_failed_jobs now t = update_where retryable (requeue now) t"

definition retry_failed_job :: "nat \<Rightarrow> string \<Rightarrow> jobs \<Rightarrow> bool \<times> jobs" where
  "retry_failed_job now work_key t =
    one_row (update_where (\<lambda>r. j_work_key r = work_key \<and> retryable r) (requeue now) t)"

definition retry_failed_jobs_by_kind :: "nat \<Rightarrow> string \<Rightarrow> jobs \<Rightarrow> nat \<times> jobs" where
  "retry_failed_jobs_by_kind now kind t =
    update_where (\<lambda>r. j_job_kind r = kind \<and> retryable r) (requeue now) t"

section \<open>The worker\<close>

definition RETRY_BACKOFF_BASE_SECONDS :: int where "RETRY_BACKOFF_BASE_SECONDS = 30"
definition RETRY_BACKOFF_CAP_SECONDS :: int where "RETRY_BACKOFF_CAP_SECONDS = 300"
definition V2_EXPORT_WORK_KEY_PREFIX :: string where "V2_EXPORT_WORK_KEY_PREFIX = ''work-v2:export:''"


definition saturate_i64 :: "int \<Rightarrow> int" where
  "saturate_i64 x = (if x > I64_MAX then I64_MAX else if x < I64_MIN then I64_MIN else x)"

text \<open>
  The exponent is converted to \<open>u32\<close>, so a negative one wraps to a large number; the shift is
  checked against the width, and \<open>fastrand\<close>'s choice from the closed range is the parameter \<open>rand\<close>.
\<close>

definition retry_backoff_seconds :: "(int \<Rightarrow> int) \<Rightarrow> int \<Rightarrow> int" where
  "retry_backoff_seconds rand attempt =
    (let exponent = min (saturate_i64 (attempt - 1)) 10 mod 2 ^ 32;
         multiplier = (if exponent < 64 then
             (let shifted = 2 ^ nat exponent in if shifted > I64_MAX then shifted - 2 ^ 64 else shifted)
           else I64_MAX);
         max_delay = min (saturate_i64 (RETRY_BACKOFF_BASE_SECONDS * multiplier)) RETRY_BACKOFF_CAP_SECONDS
     in rand max_delay)"

definition should_retire_legacy_export_job :: "job_lease \<Rightarrow> bool" where
  "should_retire_legacy_export_job l \<longleftrightarrow> jl_job_kind l \<in> {''preview_export'', ''download_export''}
    \<and> \<not> starts_with V2_EXPORT_WORK_KEY_PREFIX (jl_work_key l)"

text \<open>
  One step of a worker. \<open>exec\<close> is \<open>execute_job\<close>: it may change the table (it enqueues and other
  workers run meanwhile); \<open>now\<close> is the time of the claim and of its follow-up, \<open>later\<close> the time when
  the execution has ended.
\<close>

definition process_next_job ::
  "nat \<Rightarrow> nat \<Rightarrow> (int \<Rightarrow> int) \<Rightarrow> (job_lease \<Rightarrow> jobs \<Rightarrow> (string, unit) result \<times> jobs) \<Rightarrow> jobs
    \<Rightarrow> (string, bool) result \<times> jobs" where
  "process_next_job now later rand exec t =
    (case claim_next_job now (15 * 60) t of
       (None, t) \<Rightarrow> (Ok False, t)
     | (Some job, t) \<Rightarrow>
         (let (held, t) = (if jl_job_kind job = ''bambu_project''
                then extend_job_lease now (jl_work_key job) (jl_attempt job) (35 * 60) t
                else (True, t))
          in if \<not> held then (Ok True, t)
          else if should_retire_legacy_export_job job then
            (Ok True, snd (finish_job now (jl_work_key job) (jl_attempt job) ''superseded''
               (Some ''legacy export jobs are retired after the cache v2 hard cut'') t))
          else (case exec job t of
              (Ok _, t) \<Rightarrow> (Ok True, snd (finish_job later (jl_work_key job) (jl_attempt job) ''ready'' None t))
            | (Err e, t) \<Rightarrow>
                (let will_retry = jl_attempt job < jl_max_attempts job;
                     delay = (if will_retry then retry_backoff_seconds rand (jl_attempt job) else 0);
                     t = snd (record_job_failure later (jl_work_key job) (jl_attempt job) e delay t)
                 in (if will_retry then Ok True else Err e, t)))))"

section \<open>The updates keep the key\<close>

interpretation requeued: keyed_update j_work_key "requeue now" for now
  by unfold_locales (simp add: requeue_def)

interpretation enqueued: keyed_update j_work_key "enqueue_conflict now kind payload" for now kind payload
  by unfold_locales (simp add: enqueue_conflict_def requeue_def)

interpretation running: keyed_update j_work_key "mark_running now lease_seconds" for now lease_seconds
  by unfold_locales (simp add: mark_running_def)

interpretation leased: keyed_update j_work_key "set_lease now lease_seconds" for now lease_seconds
  by unfold_locales (simp add: set_lease_def)

interpretation finished: keyed_update j_work_key "set_finished now status error" for now status error
  by unfold_locales (simp add: set_finished_def)

interpretation failed: keyed_update j_work_key "set_failed now error delay" for now error delay
  by unfold_locales (simp add: set_failed_def)

interpretation superseded: keyed_update j_work_key "set_superseded now" for now
  by unfold_locales (simp add: set_superseded_def)

end
