(* ===== verification/Job_Queue_Runs.thy ===== *)
theory Job_Queue_Runs
  imports Job_Queue
begin

text \<open>
  What the job queue guarantees: an invariant of the table over every interleaving of workers and
  enqueuers, which job a claim takes, what a worker whose lease was taken over can still do, and how
  one worker step settles its job.
\<close>

section \<open>Rows\<close>

definition job_ok :: "job \<Rightarrow> bool" where
  "job_ok r \<longleftrightarrow> j_status r \<in> {''queued'', ''running'', ''ready'', ''failed'', ''superseded''}
    \<and> (j_lease_until r \<noteq> None \<longleftrightarrow> j_status r = ''running'')
    \<and> 0 \<le> j_attempt r \<and> (j_status r = ''running'' \<longrightarrow> 1 \<le> j_attempt r)
    \<and> (j_status r = ''queued'' \<longrightarrow> j_attempt r < j_max_attempts r)
    \<and> (j_status r = ''failed'' \<longrightarrow> j_max_attempts r \<le> j_attempt r)
    \<and> (j_next_retry_at r \<noteq> None \<longrightarrow> j_status r \<in> {''queued'', ''running''})
    \<and> j_max_attempts r = 3"

definition jobs_ok :: "jobs \<Rightarrow> bool" where
  "jobs_ok t \<longleftrightarrow> distinct (map j_work_key t) \<and> map j_id t = map Suc [0..<length t] \<and> list_all job_ok t"

abbreviation job_of :: "string \<Rightarrow> jobs \<Rightarrow> job option" where
  "job_of k t \<equiv> find_row j_work_key k t"

lemma ids_distinct: "jobs_ok t \<Longrightarrow> distinct (map j_id t)"
proof -
  assume "jobs_ok t"
  then have "map j_id t = map Suc [0..<length t]" by (simp add: jobs_ok_def)
  moreover have "distinct (map Suc [0..<length t])" by (simp add: map_Suc_upt)
  ultimately show ?thesis by (simp only:)
qed

lemma same_id:
  assumes "jobs_ok t" "r \<in> set t" "x \<in> set t" "j_id x = j_id r"
  shows "x = r"
proof -
  have "distinct (map j_id t)" using assms(1) by (rule ids_distinct)
  then show ?thesis using assms by (auto simp: distinct_map dest: inj_onD)
qed

lemma jobs_ok_update:
  assumes "jobs_ok t" "\<And>r. j_work_key (change r) = j_work_key r" "\<And>r. j_id (change r) = j_id r"
    "\<And>r. r \<in> set t \<Longrightarrow> p r \<Longrightarrow> job_ok r \<Longrightarrow> job_ok (change r)"
  shows "jobs_ok (snd (update_where p change t))"
proof -
  let ?f = "\<lambda>r. if p r then change r else r"
  have t: "snd (update_where p change t) = map ?f t" by (simp add: update_where_def)
  have "map j_work_key (map ?f t) = map j_work_key t" "map j_id (map ?f t) = map j_id t"
    by (auto simp: assms(2,3))
  moreover have "list_all job_ok (map ?f t)" using assms(1,4) by (auto simp: jobs_ok_def list_all_iff)
  ultimately show ?thesis using assms(1) unfolding t jobs_ok_def by (simp only: length_map)
qed

lemma one_row_table [simp]: "snd (one_row x) = snd x" "fst (one_row x) = (fst x = 1)"
  by (auto simp: one_row_def split: prod.splits)

lemma requeue_ok: "job_ok r \<Longrightarrow> job_ok (requeue now r)"
  by (simp add: job_ok_def requeue_def)

lemma enqueue_ok: "jobs_ok t \<Longrightarrow> jobs_ok (snd (enqueue_job_inner now k kind payload force t))"
proof (cases "job_of k t = None")
  case True
  assume "jobs_ok t"
  then show ?thesis
    using True by (simp add: enqueue_job_inner_def jobs_ok_def find_row_None new_job_def job_ok_def)
next
  case False
  assume "jobs_ok t"
  then show ?thesis
    using False requeue_ok by (auto simp: enqueue_job_inner_def enqueue_conflict_def requeue_def job_ok_def
        intro!: jobs_ok_update)
qed

lemma first_claim_None: "first_claim t = None \<longleftrightarrow> t = []"
  by (induction t) (auto split: option.splits)

lemma first_claim_Some: "first_claim t = Some r \<Longrightarrow> r \<in> set t \<and> (\<forall>x \<in> set t. \<not> claim_before x r)"
proof (induction t arbitrary: r)
  case (Cons x t)
  have asym: "claim_before a b \<Longrightarrow> \<not> claim_before b a" for a b by (auto simp: claim_before_def)
  have irr: "\<not> claim_before a a" for a by (simp add: claim_before_def)
  show ?case
  proof (cases "first_claim t")
    case None
    then show ?thesis using Cons.prems irr by (auto simp: first_claim_None)
  next
    case (Some s)
    then have s: "s \<in> set t" "\<forall>y \<in> set t. \<not> claim_before y s" using Cons.IH by auto
    show ?thesis
    proof (cases "claim_before s x")
      case True
      then show ?thesis using Cons.prems Some s asym [of s x] by auto
    next
      case False
      have "\<not> claim_before y x" if "y \<in> set t" for y
        using that s(2) False by (auto simp: claim_before_def)
      then show ?thesis using Cons.prems Some False irr by auto
    qed
  qed
qed simp

lemma claim_cases:
  "(claim_next_job now seconds t = (None, t) \<and> (\<forall>r \<in> set t. \<not> claimable now r))
    \<or> (\<exists>r \<in> set t. claimable now r \<and> (\<forall>x \<in> set t. claimable now x \<longrightarrow> \<not> claim_before x r)
      \<and> claim_next_job now seconds t = (Some (lease_of (mark_running now seconds r)),
          snd (update_where (\<lambda>x. j_id x = j_id r) (mark_running now seconds) t)))"
proof (cases "first_claim (filter (claimable now) t)")
  case None
  then show ?thesis by (auto simp: claim_next_job_def first_claim_None filter_empty_conv)
next
  case (Some r)
  from first_claim_Some [OF this] Some show ?thesis by (auto simp: claim_next_job_def)
qed

lemma claim_row:
  assumes "jobs_ok t" "r \<in> set t"
  shows "job_of k (snd (update_where (\<lambda>x. j_id x = j_id r) (mark_running now seconds) t))
    = (if k = j_work_key r then Some (mark_running now seconds r) else job_of k t)"
proof (cases "k = j_work_key r")
  case True
  have "job_of k t = Some r"
    unfolding True using assms by (intro find_row_distinct) (simp_all add: jobs_ok_def)
  then show ?thesis using True by (simp add: running.row)
next
  case False
  show ?thesis
  proof (cases "job_of k t")
    case None
    then show ?thesis using False by (simp add: running.row)
  next
    case (Some x)
    then have x: "x \<in> set t" "j_work_key x = k" using find_row_Some by fast+
    then have "j_id x \<noteq> j_id r" using same_id [OF assms x(1)] False by blast
    then show ?thesis using Some False by (simp add: running.row)
  qed
qed

lemma claim_ok: "jobs_ok t \<Longrightarrow> jobs_ok (snd (claim_next_job now seconds t))"
proof -
  assume t: "jobs_ok t"
  from claim_cases [of now seconds t] show ?thesis
  proof (elim disjE bexE conjE)
    fix r
    assume r: "r \<in> set t" and eq: "claim_next_job now seconds t = (Some (lease_of (mark_running now seconds r)),
        snd (update_where (\<lambda>x. j_id x = j_id r) (mark_running now seconds) t))"
    have "jobs_ok (snd (update_where (\<lambda>x. j_id x = j_id r) (mark_running now seconds) t))"
      by (rule jobs_ok_update [OF t]) (auto simp: mark_running_def job_ok_def)
    then show ?thesis by (simp add: eq)
  qed (use t in simp)
qed

lemma settle_ok:
  assumes "jobs_ok t"
  shows "jobs_ok (snd (extend_job_lease now k a seconds t))"
    and "status \<in> {''ready'', ''superseded''} \<Longrightarrow> jobs_ok (snd (finish_job now k a status error t))"
    and "jobs_ok (snd (record_job_failure now k a e delay t))"
    and "jobs_ok (snd (supersede_ready_job now k t))"
    and "jobs_ok (snd (retry_failed_jobs now t))" "jobs_ok (snd (retry_failed_job now k t))"
    and "jobs_ok (snd (retry_failed_jobs_by_kind now kind t))"
  using assms
  by (auto simp: extend_job_lease_def finish_job_def record_job_failure_def supersede_ready_job_def
      retry_failed_jobs_def retry_failed_job_def retry_failed_jobs_by_kind_def holds_lease_def set_lease_def
      set_finished_def set_failed_def set_superseded_def requeue_def job_ok_def intro!: jobs_ok_update)

text \<open>A job that may be claimed: queued with no retry time ahead of now, or running past its lease.\<close>

definition due :: "nat \<Rightarrow> job \<Rightarrow> bool" where
  "due now r \<longleftrightarrow> j_status r = ''queued'' \<and> pred_option (\<lambda>u. u \<le> now) (j_next_retry_at r)
    \<or> j_status r = ''running'' \<and> (\<exists>u. j_lease_until r = Some u \<and> u \<le> now)"

lemma claimable_due: "claimable now r = due now r"
  by (auto simp: claimable_def due_def split: option.splits)

text \<open>
  What a claim does: it takes a job that is queued and due or whose lease has run out, the best
  of those in the queue's order, marks exactly that row as running with the next attempt number and
  a lease of the given length, and leaves every other row alone; when it takes none, none is due.
\<close>

lemma claim_takes_best_due_job:
  assumes "jobs_ok t"
  shows "case claim_next_job now seconds t of
      (None, t') \<Rightarrow> t' = t \<and> list_all (\<lambda>r. \<not> due now r) t
    | (Some l, t') \<Rightarrow> jobs_ok t' \<and> (\<exists>r. job_of (jl_work_key l) t = Some r \<and> due now r
        \<and> list_all (\<lambda>x. \<not> (due now x \<and> claim_before x r)) t
        \<and> jl_attempt l = j_attempt r + 1
        \<and> job_of (jl_work_key l) t' = Some (mark_running now seconds r)
        \<and> (\<forall>k \<in> UNIV - {jl_work_key l}. job_of k t' = job_of k t))"
  using claim_cases [of now seconds t, unfolded claimable_due]
proof (elim disjE bexE conjE)
  fix r
  assume r: "r \<in> set t" "due now r" "\<forall>x \<in> set t. due now x \<longrightarrow> \<not> claim_before x r"
    and eq: "claim_next_job now seconds t = (Some (lease_of (mark_running now seconds r)),
        snd (update_where (\<lambda>x. j_id x = j_id r) (mark_running now seconds) t))"
  have d: "distinct (map j_work_key t)" using assms by (simp add: jobs_ok_def)
  show ?thesis
    using claim_ok [OF assms, of now seconds] r find_row_distinct [OF d r(1)]
    by (auto simp: eq lease_of_def claim_row [OF assms r(1)] mark_running_def list_all_iff)
qed (auto simp: list_all_iff)

section \<open>Runs\<close>

text \<open>
  One event of the system. A worker's statement names the lease it was given; a worker never loses
  the memory of a lease, so its statements may come at any later time and in any order.
\<close>

datatype queue_event =
    Tick nat
  | Enqueue string string string bool
  | Claim nat
  | Extend string int nat
  | Finish string int string "string option"
  | Fail string int string int
  | Supersede string
  | RetryAll
  | RetryOne string
  | RetryKind string

record queue_state =
  qs_now :: nat
  qs_jobs :: jobs
  qs_leases :: "(string \<times> int) list"

fun enabled :: "queue_state \<Rightarrow> queue_event \<Rightarrow> bool" where
  "enabled s (Extend k a seconds) = ((k, a) \<in> set (qs_leases s))"
| "enabled s (Finish k a status error) = ((k, a) \<in> set (qs_leases s) \<and> status \<in> {''ready'', ''superseded''})"
| "enabled s (Fail k a e delay) = ((k, a) \<in> set (qs_leases s))"
| "enabled s _ = True"

fun jobs_after :: "nat \<Rightarrow> queue_event \<Rightarrow> jobs \<Rightarrow> jobs" where
  "jobs_after now (Tick d) t = t"
| "jobs_after now (Enqueue k kind payload force) t = snd (enqueue_job_inner now k kind payload force t)"
| "jobs_after now (Claim seconds) t = snd (claim_next_job now seconds t)"
| "jobs_after now (Extend k a seconds) t = snd (extend_job_lease now k a seconds t)"
| "jobs_after now (Finish k a status error) t = snd (finish_job now k a status error t)"
| "jobs_after now (Fail k a e delay) t = snd (record_job_failure now k a e delay t)"
| "jobs_after now (Supersede k) t = snd (supersede_ready_job now k t)"
| "jobs_after now RetryAll t = snd (retry_failed_jobs now t)"
| "jobs_after now (RetryOne k) t = snd (retry_failed_job now k t)"
| "jobs_after now (RetryKind kind) t = snd (retry_failed_jobs_by_kind now kind t)"

fun leases_after :: "nat \<Rightarrow> queue_event \<Rightarrow> jobs \<Rightarrow> (string \<times> int) list" where
  "leases_after now (Claim seconds) t = (case fst (claim_next_job now seconds t) of
      Some l \<Rightarrow> [(jl_work_key l, jl_attempt l)]
    | None \<Rightarrow> [])"
| "leases_after now _ t = []"

fun clock_after :: "queue_event \<Rightarrow> nat \<Rightarrow> nat" where
  "clock_after (Tick d) now = now + d"
| "clock_after _ now = now"

definition apply_event :: "queue_event \<Rightarrow> queue_state \<Rightarrow> queue_state" where
  "apply_event e s = \<lparr>qs_now = clock_after e (qs_now s), qs_jobs = jobs_after (qs_now s) e (qs_jobs s),
     qs_leases = qs_leases s @ leases_after (qs_now s) e (qs_jobs s)\<rparr>"

inductive queue_run :: "queue_state \<Rightarrow> queue_event list \<Rightarrow> queue_state \<Rightarrow> bool" where
  run_start: "queue_run s [] s"
| run_event: "\<lbrakk>queue_run s es s'; enabled s' e\<rbrakk> \<Longrightarrow> queue_run s (es @ [e]) (apply_event e s')"

inductive_cases queue_run_snocE: "queue_run s (es @ [e]) s'"

definition empty_queue :: "nat \<Rightarrow> queue_state" where
  "empty_queue now = \<lparr>qs_now = now, qs_jobs = [], qs_leases = []\<rparr>"

definition leased_rows :: "queue_state \<Rightarrow> bool" where
  "leased_rows s \<longleftrightarrow> list_all (\<lambda>r. j_status r = ''running'' \<longrightarrow> (j_work_key r, j_attempt r) \<in> set (qs_leases s)) (qs_jobs s)"

lemma jobs_ok_after: "\<lbrakk>jobs_ok (qs_jobs s); enabled s e\<rbrakk> \<Longrightarrow> jobs_ok (qs_jobs (apply_event e s))"
  by (cases e) (auto simp: apply_event_def enqueue_ok claim_ok settle_ok)

text \<open>Only a claim makes a row running.\<close>

lemma running_row_after:
  assumes "jobs_ok (qs_jobs s)" "r' \<in> set (jobs_after now e (qs_jobs s))" "j_status r' = ''running''"
    "enabled s e"
  shows "(\<exists>r \<in> set (qs_jobs s). j_work_key r = j_work_key r' \<and> j_attempt r = j_attempt r' \<and> j_status r = ''running'')
    \<or> (j_work_key r', j_attempt r') \<in> set (leases_after now e (qs_jobs s))"
proof (cases e)
  case (Claim seconds)
  from claim_cases [of now seconds "qs_jobs s"] show ?thesis
  proof (elim disjE bexE conjE)
    fix r
    assume r: "r \<in> set (qs_jobs s)"
      and eq: "claim_next_job now seconds (qs_jobs s) = (Some (lease_of (mark_running now seconds r)),
        snd (update_where (\<lambda>x. j_id x = j_id r) (mark_running now seconds) (qs_jobs s)))"
    obtain x where x: "x \<in> set (qs_jobs s)" "r' = (if j_id x = j_id r then mark_running now seconds x else x)"
      using assms(2) by (auto simp: Claim eq set_update)
    show ?thesis
    proof (cases "j_id x = j_id r")
      case True
      then have "x = r" using same_id [OF assms(1) r x(1)] by simp
      then show ?thesis using x True by (simp add: Claim eq lease_of_def mark_running_def)
    next
      case False
      then show ?thesis using x assms(3) by auto
    qed
  qed (use assms(2,3) Claim in auto)
next
  case (Enqueue k kind payload force)
  then show ?thesis
    using assms(2,3)
    by (auto simp: enqueue_job_inner_def new_job_def set_update enqueue_conflict_def requeue_def split: if_splits)
qed (use assms in \<open>auto simp: set_update extend_job_lease_def finish_job_def record_job_failure_def
    supersede_ready_job_def retry_failed_jobs_def retry_failed_job_def retry_failed_jobs_by_kind_def
    set_lease_def set_finished_def set_failed_def set_superseded_def requeue_def split: if_splits\<close>)

lemma run_ok:
  assumes "queue_run (empty_queue now) es s"
  shows "jobs_ok (qs_jobs s) \<and> leased_rows s"
  using assms
proof (induction "empty_queue now" es s rule: queue_run.induct)
  case run_start
  then show ?case by (simp add: empty_queue_def jobs_ok_def leased_rows_def)
next
  case (run_event es s e)
  have "leased_rows (apply_event e s)"
    unfolding leased_rows_def list_all_iff
  proof (intro ballI impI)
    fix r' assume r': "r' \<in> set (qs_jobs (apply_event e s))" "j_status r' = ''running''"
    then have "r' \<in> set (jobs_after (qs_now s) e (qs_jobs s))" by (simp add: apply_event_def)
    from running_row_after [OF _ this r'(2) run_event(3)] run_event(2)
    show "(j_work_key r', j_attempt r') \<in> set (qs_leases (apply_event e s))"
      by (force simp: leased_rows_def list_all_iff apply_event_def)
  qed
  then show ?case using run_event jobs_ok_after by simp
qed


section \<open>Leases that were taken over\<close>

text \<open>The events that start the attempts of a job over.\<close>

fun resets :: "string \<Rightarrow> queue_event \<Rightarrow> bool" where
  "resets k (Enqueue k' kind payload force) = (k' = k)"
| "resets k RetryAll = True"
| "resets k (RetryOne k') = (k' = k)"
| "resets k (RetryKind kind) = True"
| "resets k _ = False"

lemma attempt_grows:
  assumes "jobs_ok t" "job_of k t = Some r" "\<not> resets k e"
  shows "\<exists>r'. job_of k (jobs_after now e t) = Some r' \<and> j_attempt r \<le> j_attempt r'"
proof (cases e)
  case (Claim seconds)
  from claim_cases [of now seconds t] show ?thesis
  proof (elim disjE bexE conjE)
    fix x
    assume x: "x \<in> set t"
      and eq: "claim_next_job now seconds t = (Some (lease_of (mark_running now seconds x)),
        snd (update_where (\<lambda>y. j_id y = j_id x) (mark_running now seconds) t))"
    have "x = r" if "k = j_work_key x"
      using assms(1,2) x that find_row_distinct [of j_work_key t x] by (simp add: jobs_ok_def)
    then show ?thesis
      using assms(2) claim_row [OF assms(1) x, of k now seconds] by (auto simp: Claim eq mark_running_def)
  qed (use assms(2) Claim in auto)
next
  case (Enqueue k' kind payload force)
  then have "k \<noteq> k'" using assms(3) by simp
  then show ?thesis
    using assms(2) by (auto simp: Enqueue enqueue_job_inner_def find_row_append enqueued.row)
      (auto dest: find_row_Some)
qed (use assms in \<open>auto simp: extend_job_lease_def finish_job_def record_job_failure_def supersede_ready_job_def
    retry_failed_job_def leased.row finished.row failed.row superseded.row requeued.row
    set_lease_def set_finished_def set_failed_def set_superseded_def dest: find_row_Some\<close>)

lemma attempt_grows_run:
  assumes "queue_run s es s'" "jobs_ok (qs_jobs s)" "job_of k (qs_jobs s) = Some r" "list_all (\<lambda>e. \<not> resets k e) es"
  shows "jobs_ok (qs_jobs s') \<and> (\<exists>r'. job_of k (qs_jobs s') = Some r' \<and> j_attempt r \<le> j_attempt r')"
  using assms
proof (induction rule: queue_run.induct)
  case (run_event s es s' e)
  then obtain r' where r': "jobs_ok (qs_jobs s')" "job_of k (qs_jobs s') = Some r'" "j_attempt r \<le> j_attempt r'"
    by auto
  then obtain r'' where "job_of k (jobs_after (qs_now s') e (qs_jobs s')) = Some r''" "j_attempt r' \<le> j_attempt r''"
    using attempt_grows [of "qs_jobs s'" k r' e "qs_now s'"] run_event by auto
  then show ?case using r' jobs_ok_after [OF r'(1) run_event(2)] by (auto simp: apply_event_def)
qed auto

lemma not_held:
  assumes "jobs_ok t" "job_of k t = Some r" "j_attempt r \<noteq> a"
  shows "\<forall>x \<in> set t. \<not> holds_lease k a x"
  using assms find_row_distinct [of j_work_key t] by (force simp: holds_lease_def jobs_ok_def)


section \<open>Concrete runs\<close>

fun execute :: "queue_state \<Rightarrow> queue_event list \<Rightarrow> queue_state option" where
  "execute s [] = Some s"
| "execute s (e # es) = (if enabled s e then execute (apply_event e s) es else None)"

lemma run_append: "\<lbrakk>queue_run s' es' s''; queue_run s es s'\<rbrakk> \<Longrightarrow> queue_run s (es @ es') s''"
proof (induction rule: queue_run.induct)
  case (run_event s' es' s'' e)
  then show ?case using queue_run.run_event [of s "es @ es'" s'' e] by simp
qed simp

lemma execute_run: "execute s es = Some s' \<Longrightarrow> queue_run s es s'"
proof (induction es arbitrary: s)
  case (Cons e es)
  then have e: "enabled s e" and r: "queue_run (apply_event e s) es s'" by (auto split: if_splits)
  have "queue_run s ([] @ [e]) (apply_event e s)" by (rule run_event [OF run_start e])
  from run_append [OF r this] show ?case by simp
qed (auto intro: run_start)

lemmas queue_eval = apply_event_def empty_queue_def enqueue_job_inner_def find_row_def new_job_def
  claim_next_job_def claimable_def claim_before_def claim_rank_def claim_due_def lease_of_def mark_running_def
  after_def update_where_def finish_job_def holds_lease_def set_finished_def one_row_def
  record_job_failure_def set_failed_def enqueue_conflict_def requeue_def

definition first_run :: "queue_event list" where
  "first_run = [Enqueue ''w'' ''k'' ''p'' False, Claim 60, Tick 60000, Claim 60]"

definition second_run :: "queue_event list" where
  "second_run = [Tick 1, Finish ''w'' 1 ''ready'' None]"

definition final_state :: "queue_event list \<Rightarrow> queue_state" where
  "final_state es = the (execute (empty_queue 0) es)"

lemma first_run_ok: "queue_run (empty_queue 0) first_run (final_state first_run)"
  by (rule execute_run) (simp add: final_state_def first_run_def queue_eval)

lemma second_run_ok: "queue_run (final_state first_run) second_run (the (execute (final_state first_run) second_run))"
  by (rule execute_run) (simp add: final_state_def first_run_def second_run_def queue_eval)



text \<open>
  The attempt number alone does not identify a lease: enqueueing a finished job anew starts its
  attempts over, so a worker that still holds the first attempt of the earlier round completes the
  job while another worker executes the first attempt of the later round.
\<close>

lemma stale_worker_after_requeue:
  "\<exists>s. queue_run (empty_queue 0)
      [Enqueue ''w'' ''k'' ''p'' False, Claim 60, Tick 60000, Claim 60, Finish ''w'' 2 ''ready'' None,
       Enqueue ''w'' ''k'' ''q'' True, Claim 60] s
    \<and> qs_leases s = [(''w'', 1), (''w'', 2), (''w'', 1)]
    \<and> fst (finish_job (qs_now s) ''w'' 1 ''ready'' None (qs_jobs s))
    \<and> map j_payload_json (snd (finish_job (qs_now s) ''w'' 1 ''ready'' None (qs_jobs s))) = [''q'']
    \<and> map j_status (snd (finish_job (qs_now s) ''w'' 1 ''ready'' None (qs_jobs s))) = [''ready'']"
proof -
  let ?es = "[Enqueue ''w'' ''k'' ''p'' False, Claim 60, Tick 60000, Claim 60, Finish ''w'' 2 ''ready'' None,
       Enqueue ''w'' ''k'' ''q'' True, Claim 60]"
  let ?s = "\<lparr>qs_now = 60000, qs_jobs = [\<lparr>j_id = 1, j_work_key = ''w'', j_job_kind = ''k'',
       j_status = ''running'', j_payload_json = ''q'', j_error_summary = None, j_attempt = 1,
       j_lease_until = Some 120000, j_created_at = 0, j_updated_at = 60000, j_max_attempts = 3,
       j_next_retry_at = None\<rparr>], qs_leases = [(''w'', 1), (''w'', 2), (''w'', 1)]\<rparr>"
  have "queue_run (empty_queue 0) ?es ?s"
    by (rule execute_run) (simp add: queue_eval)
  then show ?thesis
    by (intro exI [of _ ?s]) (simp add: finish_job_def update_where_def holds_lease_def one_row_def set_finished_def)
qed

section \<open>One worker step\<close>

lemma held_rows:
  assumes "distinct (map j_work_key t)" "job_of k t = Some x" "j_attempt x = a" "j_status x = ''running''"
  shows "holds_lease k a x" "\<And>r. holds_lease k a r \<Longrightarrow> j_work_key r = k"
  using assms find_row_Some [OF assms(2)] by (auto simp: holds_lease_def)

lemma held_extend:
  assumes "distinct (map j_work_key t)" "job_of k t = Some x" "j_attempt x = a" "j_status x = ''running''"
  shows "fst (extend_job_lease now k a seconds t)
    \<and> job_of k (snd (extend_job_lease now k a seconds t)) = Some (set_lease now seconds x)
    \<and> distinct (map j_work_key (snd (extend_job_lease now k a seconds t)))"
  using assms held_rows [OF assms]
  by (simp add: extend_job_lease_def leased.keys leased.row leased.affected [OF assms(1), where k = k])

lemma held_finish:
  assumes "distinct (map j_work_key t)" "job_of k t = Some x" "j_attempt x = a" "j_status x = ''running''"
  shows "job_of k (snd (finish_job now k a status error t)) = Some (set_finished now status error x)"
  using assms held_rows [OF assms] by (simp add: finish_job_def finished.row)

lemma held_fail:
  assumes "distinct (map j_work_key t)" "job_of k t = Some x" "j_attempt x = a" "j_status x = ''running''"
  shows "job_of k (snd (record_job_failure now k a e delay t)) = Some (set_failed now e (max delay 0) x)"
  using assms held_rows [OF assms] by (simp add: record_job_failure_def failed.row)

lemma backoff_bounds:
  assumes "\<And>m. 0 \<le> m \<Longrightarrow> 0 \<le> rand m \<and> rand m \<le> m" and "1 \<le> attempt" "attempt \<le> I64_MAX"
  shows "0 \<le> retry_backoff_seconds rand attempt \<and> retry_backoff_seconds rand attempt \<le> 300
    \<and> retry_backoff_seconds rand attempt \<le> 30 * 2 ^ nat (attempt - 1)"
proof -
  define x where "x = min (attempt - 1) 10"
  have x: "0 \<le> x" "x \<le> 10" "x \<le> attempt - 1" using assms(2) by (auto simp: x_def)
  have e: "min (saturate_i64 (attempt - 1)) 10 mod 2 ^ 32 = x"
    using x assms(2,3) by (auto simp: saturate_i64_def x_def I64_MAX_def I64_MIN_def)
  have p: "(1 :: int) \<le> 2 ^ nat x" "(2 :: int) ^ nat x \<le> 1024"
    using power_increasing [of "nat x" 10 "2 :: int"] x by simp_all
  have d: "retry_backoff_seconds rand attempt = rand (min (30 * 2 ^ nat x) 300)"
  proof -
    have "I64_MIN \<le> 30 * 2 ^ nat x" "30 * 2 ^ nat x \<le> I64_MAX" "\<not> 2 ^ nat x > I64_MAX"
      unfolding I64_MIN_def I64_MAX_def using p by linarith+
    moreover have "x < 64" using x by simp
    moreover have "saturate_i64 v = v" if "I64_MIN \<le> v" "v \<le> I64_MAX" for v
      using that by (simp add: saturate_i64_def)
    ultimately have "saturate_i64 (30 * 2 ^ nat x) = 30 * 2 ^ nat x" "\<not> 2 ^ nat x > I64_MAX" "x < 64" by blast+
    then show ?thesis
      unfolding retry_backoff_seconds_def e Let_def RETRY_BACKOFF_BASE_SECONDS_def RETRY_BACKOFF_CAP_SECONDS_def
      by simp
  qed
  have "(2 :: int) ^ nat x \<le> 2 ^ nat (attempt - 1)" using x by (intro power_increasing) auto
  then show ?thesis using assms(1) [of "min (30 * 2 ^ nat x) 300"] p unfolding d by linarith
qed

text \<open>What a worker does with a job it has claimed: one statement settles the row.\<close>

definition worked ::
  "nat \<Rightarrow> nat \<Rightarrow> (int \<Rightarrow> int) \<Rightarrow> (job_lease \<Rightarrow> jobs \<Rightarrow> (string, unit) result \<times> jobs) \<Rightarrow> job_lease \<Rightarrow> jobs
    \<Rightarrow> (string, bool) result \<times> jobs" where
  "worked now later rand exec l t =
    (if should_retire_legacy_export_job l then
      (Ok True, snd (finish_job now (jl_work_key l) (jl_attempt l) ''superseded''
         (Some ''legacy export jobs are retired after the cache v2 hard cut'') t))
    else (case exec l t of
        (Ok _, t) \<Rightarrow> (Ok True, snd (finish_job later (jl_work_key l) (jl_attempt l) ''ready'' None t))
      | (Err e, t) \<Rightarrow> (if jl_attempt l < 3 then Ok True else Err e,
          snd (record_job_failure later (jl_work_key l) (jl_attempt l) e
            (if jl_attempt l < 3 then retry_backoff_seconds rand (jl_attempt l) else 0) t))))"

lemma claimed_job_worked:
  assumes ok: "jobs_ok t" and r: "r \<in> set t" "j_attempt r < I64_MAX"
    and eq: "claim_next_job now 900 t = (Some (lease_of (mark_running now 900 r)),
      snd (update_where (\<lambda>x. j_id x = j_id r) (mark_running now 900) t))"
  defines "l \<equiv> lease_of (mark_running now 900 r)"
  obtains t2 x where "job_of (jl_work_key l) t2 = Some x" "j_attempt x = jl_attempt l" "j_status x = ''running''"
    "j_max_attempts x = 3" "distinct (map j_work_key t2)" "1 \<le> jl_attempt l" "jl_attempt l \<le> I64_MAX"
    "process_next_job now later rand exec t = worked now later rand exec l t2"
proof -
  define k where "k = jl_work_key l"
  define t1 where "t1 = snd (claim_next_job now 900 t)"
  have row1: "job_of k t1 = Some (mark_running now 900 r)"
    using claim_row [OF ok r(1), of k now 900] by (simp add: t1_def eq k_def l_def lease_of_def mark_running_def)
  have d1: "distinct (map j_work_key t1)" using claim_ok [OF ok] by (simp add: jobs_ok_def t1_def)
  have rok: "job_ok r" using ok r(1) by (auto simp: jobs_ok_def list_all_iff)
  have l: "jl_max_attempts l = 3" "1 \<le> jl_attempt l" "jl_attempt l \<le> I64_MAX"
    using rok r(2) by (auto simp: l_def lease_of_def mark_running_def job_ok_def)
  have x1: "j_attempt (mark_running now 900 r) = jl_attempt l" "j_status (mark_running now 900 r) = ''running''"
    "j_max_attempts (mark_running now 900 r) = 3"
    using rok by (simp_all add: l_def lease_of_def mark_running_def job_ok_def)
  define t2 where "t2 = (if jl_job_kind l = ''bambu_project''
    then snd (extend_job_lease now k (jl_attempt l) (35 * 60) t1) else t1)"
  note ext = held_extend [OF d1 row1 x1(1,2), of now "35 * 60"]
  obtain x where x: "job_of k t2 = Some x" "j_attempt x = jl_attempt l" "j_status x = ''running''"
    "j_max_attempts x = 3" and d2: "distinct (map j_work_key t2)"
    using ext row1 x1 d1 by (cases "jl_job_kind l = ''bambu_project''") (auto simp: t2_def set_lease_def)
  have c: "claim_next_job now (15 * 60) t = (Some l, t1)" by (simp add: t1_def eq l_def)
  have e: "(if jl_job_kind l = ''bambu_project'' then extend_job_lease now k (jl_attempt l) (35 * 60) t1
      else (True, t1)) = (True, t2)"
    using ext by (simp add: t2_def prod_eq_iff)
  have "process_next_job now later rand exec t = worked now later rand exec l t2"
    unfolding process_next_job_def worked_def c prod.case option.case k_def [symmetric] e Let_def l(1)
    by (simp add: case_prod_unfold split: sum.splits)
  then show thesis using that x d2 l k_def by blast
qed

lemma worked_settles:
  assumes held: "distinct (map j_work_key t)" "job_of (jl_work_key l) t = Some x" "j_attempt x = jl_attempt l" "j_status x = ''running''"
    and limit: "j_max_attempts x = 3" and attempt: "1 \<le> jl_attempt l" "jl_attempt l \<le> I64_MAX" and rand: "\<And>m. 0 \<le> m \<Longrightarrow> 0 \<le> rand m \<and> rand m \<le> m"
    and exec: "job_of (jl_work_key l) (snd (exec l t)) = job_of (jl_work_key l) t" "distinct (map j_work_key (snd (exec l t)))"
    and run: "worked now later rand exec l t = (result, t')"
  shows "\<exists>r. job_of (jl_work_key l) t' = Some r \<and> j_attempt r = jl_attempt l \<and> j_lease_until r = None
        \<and> ((j_status r = ''superseded'' \<and> should_retire_legacy_export_job l \<and> result = Ok True)
          \<or> (j_status r = ''ready'' \<and> result = Ok True)
          \<or> (j_status r = ''queued'' \<and> jl_attempt l < 3 \<and> result = Ok True
              \<and> (\<exists>u. j_next_retry_at r = Some u \<and> later \<le> u \<and> u \<le> later + 300000))
          \<or> (j_status r = ''failed'' \<and> 3 \<le> jl_attempt l \<and> (\<exists>e. result = Err e)))"
proof (cases "should_retire_legacy_export_job l")
  case True
  then show ?thesis using held_finish [OF held] run held by (auto simp: worked_def set_finished_def)
next
  case False
  obtain c u where c: "exec l t = (c, u)" by fastforce
  have x: "job_of (jl_work_key l) u = Some x" and d: "distinct (map j_work_key u)" using exec held(2) by (simp_all add: c)
  show ?thesis
  proof (cases c)
    case (Inr v)
    then show ?thesis using held_finish [OF d x held(3,4)] run held False by (auto simp: worked_def set_finished_def c)
  next
    case (Inl e)
    let ?d = "if jl_attempt l < 3 then retry_backoff_seconds rand (jl_attempt l) else 0"
    have "0 \<le> ?d" "?d \<le> 300" using backoff_bounds [OF rand attempt] by auto
    then have "later \<le> after later (nat ?d)" "after later (nat ?d) \<le> later + 300000" by (auto simp: after_def)
    then show ?thesis
      using held_fail [OF d x held(3,4), of later e ?d] run held limit False
      by (auto simp: worked_def set_failed_def c Inl max_def split: if_splits)
  qed
qed


end
