(* ===== verification/Annotation.thy ===== *)
theory Annotation
  imports Generator_Types
begin

text \<open>
  The authoring annotations and the generator settings (\<open>src/src/onshape_annotation.rs\<close>): the two
  carriers of an annotation, the authoring document with its cross references, its context, and the
  settings of versions 1 and 2. \<open>serde_json\<close>'s writer and the derived deserializers are parameters
  (\<open>to_vec\<close>, \<open>decode\<close>); an \<open>f64\<close> is its bit pattern.
\<close>

section \<open>Limits and markers\<close>

definition AUTHORING_SCHEMA_VERSION :: "32 word" where "AUTHORING_SCHEMA_VERSION = 1"
definition SETTINGS_V2_SCHEMA_VERSION :: "32 word" where "SETTINGS_V2_SCHEMA_VERSION = 2"
definition MAX_DOCUMENT_BYTES :: nat where "MAX_DOCUMENT_BYTES = 1048576"
definition MAX_OBJECTS :: nat where "MAX_OBJECTS = 256"
definition MAX_DESCRIPTION_BYTES :: nat where "MAX_DESCRIPTION_BYTES = 65536"
definition MAX_DESCRIPTION_ANNOTATION_BYTES :: nat where "MAX_DESCRIPTION_ANNOTATION_BYTES = 4096"
definition MAX_NAME_SUFFIX_BYTES :: nat where "MAX_NAME_SUFFIX_BYTES = 192"
definition MAX_DISPLAY_NAME_SCALARS :: nat where "MAX_DISPLAY_NAME_SCALARS = 256"
definition MAX_DESCRIPTION_TARGETS :: nat where "MAX_DESCRIPTION_TARGETS = 64"
definition MAX_NAME_TARGETS :: nat where "MAX_NAME_TARGETS = 4"
definition MAX_OCCURRENCE_PATH_SEGMENTS :: nat where "MAX_OCCURRENCE_PATH_SEGMENTS = 64"
definition MAX_SOURCE_VALUE_BYTES :: nat where "MAX_SOURCE_VALUE_BYTES = 4096"
definition MAX_SETTINGS_EDGES :: nat where "MAX_SETTINGS_EDGES = 16384"

definition DESCRIPTION_MARKER_PREFIX :: string where "DESCRIPTION_MARKER_PREFIX = ''onshape-export:''"
definition DESCRIPTION_V1_PREFIX :: string where "DESCRIPTION_V1_PREFIX = ''onshape-export:v1 ''"
definition NAME_MARKER_PREFIX :: string where "NAME_MARKER_PREFIX = '' [onshape-export:''"

section \<open>Structures\<close>

datatype annotation_error =
    DocumentTooLarge string nat
  | InvalidJson string string
  | Invalid string
  | Identity string

datatype authoring_selector =
    PartStudioPart string string string string string
  | AssemblyOccurrence string string string string "string list"

datatype semantic_role = Printable | SupportBlocker

fun transport_role :: "semantic_role \<Rightarrow> input_role" where
  "transport_role Printable = RawGeometry"
| "transport_role SupportBlocker = AuxiliaryGeometry"

record annotation =
  an_role :: semantic_role
  an_key :: "string option"
  an_targets :: "string list"

record parsed_carriers =
  pc_display_name :: string
  pc_annotation :: annotation

record authoring_object =
  ao_selector :: authoring_selector
  ao_display_name :: string
  ao_annotation :: annotation

record authoring_document =
  ad_schema_version :: "32 word"
  ad_objects :: "authoring_object list"

record authoring_context_entry =
  ce_selector :: authoring_selector
  ce_plan_position :: nat
  ce_configured_part_identity :: string

record settings_blocker =
  sb_object_identity :: string
  sb_targets :: "string list"

record generator_settings =
  gs_schema_version :: "32 word"
  gs_blockers :: "settings_blocker list"

type_synonym f64 = "64 word"

record settings_placement =
  sp_object_identity :: string
  sp_matrix :: "f64 list"

record generator_settings_v2 =
  gv_schema_version :: "32 word"
  gv_blockers :: "settings_blocker list"
  gv_placements :: "settings_placement list"

record manifest_object_summary =
  mo_object_identity :: string
  mo_transport_role :: input_role

record expected_placement =
  ep_object_identity :: string
  ep_transport_role :: input_role
  ep_matrix :: "f64 list"

type_synonym acheck = "(annotation_error, unit) result"

definition demand :: "bool \<Rightarrow> string \<Rightarrow> acheck" where
  "demand c m = ensure c (Invalid m)"

lemma demand_Ok [result_simps]: "demand c m = Ok u \<longleftrightarrow> c"
  by (simp add: demand_def result_simps)

section \<open>Documents\<close>

type_synonym writer = "json \<Rightarrow> (string, string) result"

definition selector_members :: "string \<Rightarrow> string \<Rightarrow> string \<Rightarrow> string \<Rightarrow> string \<Rightarrow> (string \<times> json option) list" where
  "selector_members kind d m e c = [(''kind'', Some (JStr kind)), (''documentId'', Some (JStr d)),
     (''documentMicroversion'', Some (JStr m)), (''elementId'', Some (JStr e)),
     (''configurationIdentity'', Some (JStr c))]"

fun authoring_selector_json :: "authoring_selector \<Rightarrow> json" where
  "authoring_selector_json (PartStudioPart d m e c p) =
     members (selector_members ''partStudioPart'' d m e c @ [(''partId'', Some (JStr p))])"
| "authoring_selector_json (AssemblyOccurrence d m e c path) =
     members (selector_members ''assemblyOccurrence'' d m e c @ [(''occurrencePath'', Some (JArr (map JStr path)))])"

fun semantic_role_key :: "semantic_role \<Rightarrow> string" where
  "semantic_role_key Printable = ''printable''"
| "semantic_role_key SupportBlocker = ''supportBlocker''"

definition annotation_json :: "annotation \<Rightarrow> json" where
  "annotation_json a = members [(''role'', Some (JStr (semantic_role_key (an_role a)))),
     (''key'', map_option JStr (an_key a)), (''targets'', Some (JArr (map JStr (an_targets a))))]"

definition authoring_object_json :: "authoring_object \<Rightarrow> json" where
  "authoring_object_json x = members [(''selector'', Some (authoring_selector_json (ao_selector x))),
     (''displayName'', Some (JStr (ao_display_name x))), (''annotation'', Some (annotation_json (ao_annotation x)))]"

definition authoring_document_json :: "authoring_document \<Rightarrow> json" where
  "authoring_document_json d = members [(''schemaVersion'', Some (u32_json (ad_schema_version d))),
     (''objects'', Some (JArr (map authoring_object_json (ad_objects d))))]"

definition settings_blocker_json :: "settings_blocker \<Rightarrow> json" where
  "settings_blocker_json b = members [(''objectIdentity'', Some (JStr (sb_object_identity b))),
     (''targets'', Some (JArr (map JStr (sb_targets b))))]"

definition generator_settings_json :: "generator_settings \<Rightarrow> json" where
  "generator_settings_json s = members [(''schemaVersion'', Some (u32_json (gs_schema_version s))),
     (''blockers'', Some (JArr (map settings_blocker_json (gs_blockers s))))]"

text \<open>
  The decimal text of a finite \<open>f64\<close> is the writer's (\<open>ryu\<close>): the parameter \<open>print\<close>. The exponent
  field is all ones exactly for the infinities and NaNs, which the writer turns into \<open>null\<close>.
\<close>

definition f64_exponent :: "f64 \<Rightarrow> f64" where
  "f64_exponent x = drop_bit 52 x mod 2048"

definition f64_is_finite :: "f64 \<Rightarrow> bool" where
  "f64_is_finite x \<longleftrightarrow> f64_exponent x \<noteq> 2047"

definition f64_json :: "(f64 \<Rightarrow> string) \<Rightarrow> f64 \<Rightarrow> json" where
  "f64_json print x = (if f64_is_finite x then JNum (Float (print x)) else JNull)"

definition settings_placement_json :: "(f64 \<Rightarrow> string) \<Rightarrow> settings_placement \<Rightarrow> json" where
  "settings_placement_json print p = members [(''objectIdentity'', Some (JStr (sp_object_identity p))),
     (''matrix'', Some (JArr (map (f64_json print) (sp_matrix p))))]"

definition generator_settings_v2_json :: "(f64 \<Rightarrow> string) \<Rightarrow> generator_settings_v2 \<Rightarrow> json" where
  "generator_settings_v2_json print s = members [(''schemaVersion'', Some (u32_json (gv_schema_version s))),
     (''blockers'', Some (JArr (map settings_blocker_json (gv_blockers s)))),
     (''placements'', Some (JArr (map (settings_placement_json print) (gv_placements s))))]"

definition validate_serialized_size :: "writer \<Rightarrow> json \<Rightarrow> string \<Rightarrow> acheck" where
  "validate_serialized_size to_vec v document =
    and_then (map_err (InvalidJson document) (to_vec v)) (\<lambda>bytes.
      if length bytes > MAX_DOCUMENT_BYTES then Err (DocumentTooLarge document MAX_DOCUMENT_BYTES) else Ok ())"

definition parse_typed_json ::
  "(string \<Rightarrow> (string, 'a) result) \<Rightarrow> string \<Rightarrow> nat \<Rightarrow> string \<Rightarrow> (annotation_error, 'a) result" where
  "parse_typed_json decode bytes limit document =
    (if length bytes > limit then Err (DocumentTooLarge document limit)
     else map_err (InvalidJson document) (decode bytes))"

section \<open>Fields\<close>

definition is_key_character :: "char \<Rightarrow> bool" where
  "is_key_character c \<longleftrightarrow> is_alphanumeric c \<or> c \<in> {CHR ''.'', CHR ''_'', CHR ''-''}"

definition key_ok :: "string \<Rightarrow> bool" where
  "key_ok v \<longleftrightarrow> length v \<le> 32 \<and> (case v of
      [] \<Rightarrow> False
    | c # s \<Rightarrow> is_alphanumeric c \<and> list_all is_key_character s)"

definition validate_key :: "string \<Rightarrow> string \<Rightarrow> acheck" where
  "validate_key v f = demand (key_ok v) (f @ '' must match [A-Za-z0-9][A-Za-z0-9._-]{0,31}'')"

definition display_name_ok :: "string \<Rightarrow> bool" where
  "display_name_ok v \<longleftrightarrow> v \<noteq> [] \<and> length (chars v) \<le> MAX_DISPLAY_NAME_SCALARS
     \<and> list_all (\<lambda>c. \<not> is_control c) (chars v)"

definition validate_display_name :: "string \<Rightarrow> string \<Rightarrow> acheck" where
  "validate_display_name v f = demand (display_name_ok v)
     (f @ '' must contain 1 to '' @ nat_str MAX_DISPLAY_NAME_SCALARS
        @ '' Unicode scalar values and no Cc characters'')"

definition visible_bytes :: "nat \<Rightarrow> string \<Rightarrow> bool" where
  "visible_bytes limit v \<longleftrightarrow> v \<noteq> [] \<and> length v \<le> limit \<and> list_all is_graphic v"

definition validate_source_value :: "string \<Rightarrow> string \<Rightarrow> acheck" where
  "validate_source_value v f = demand (visible_bytes MAX_SOURCE_VALUE_BYTES v)
     (f @ '' must contain 1 to '' @ nat_str MAX_SOURCE_VALUE_BYTES @ '' visible ASCII bytes'')"

definition validate_object_identity :: "string \<Rightarrow> string \<Rightarrow> acheck" where
  "validate_object_identity v f = demand (visible_bytes MAX_IDENTITY_LENGTH v)
     (f @ '' must contain 1 to '' @ nat_str MAX_IDENTITY_LENGTH @ '' visible ASCII characters'')"

definition validate_source_parts :: "string \<Rightarrow> string \<Rightarrow> string \<Rightarrow> string \<Rightarrow> string \<Rightarrow> acheck list" where
  "validate_source_parts f d m e c = [
     validate_source_value d (f @ ''.documentId''),
     validate_source_value m (f @ ''.documentMicroversion''),
     validate_source_value e (f @ ''.elementId''),
     validate_source_value c (f @ ''.configurationIdentity'')]"

fun validate_selector :: "authoring_selector \<Rightarrow> string \<Rightarrow> acheck" where
  "validate_selector (PartStudioPart d m e c p) f =
     checks (validate_source_value p (f @ ''.partId'') # validate_source_parts f d m e c)"
| "validate_selector (AssemblyOccurrence d m e c path) f =
     checks ([demand (path \<noteq> [] \<and> length path \<le> MAX_OCCURRENCE_PATH_SEGMENTS)
         (f @ ''.occurrencePath must contain 1 to '' @ nat_str MAX_OCCURRENCE_PATH_SEGMENTS @ '' segments''),
       each (\<lambda>i s. validate_source_value s (f @ ''.occurrencePath['' @ nat_str i @ '']'')) path]
       @ validate_source_parts f d m e c)"

definition unique_target :: "string \<Rightarrow> (string \<Rightarrow> nat \<Rightarrow> acheck) \<Rightarrow> string set \<Rightarrow> nat \<times> string \<Rightarrow> (annotation_error, string set) result" where
  "unique_target message check seen = (\<lambda>(i, t). and_then
     (checks [check t i, demand (t \<notin> seen) (message @ t)]) (\<lambda>_. Ok (insert t seen)))"

definition validate_annotation :: "annotation \<Rightarrow> nat \<Rightarrow> string \<Rightarrow> acheck" where
  "validate_annotation a target_limit f = checks [
     if_some (an_key a) (\<lambda>k. validate_key k (f @ ''.key'')),
     demand (length (an_targets a) \<le> target_limit)
       (f @ ''.targets exceeds '' @ nat_str target_limit @ '' entries''),
     and_then (try_fold (unique_target (f @ ''.targets contains duplicate key '')
         (\<lambda>t i. validate_key t (f @ ''.targets['' @ nat_str i @ '']''))) {} (enumerate 0 (an_targets a)))
       (\<lambda>_. Ok ()),
     (case an_role a of
        Printable \<Rightarrow> demand (an_targets a = []) (f @ '': printable annotations cannot have targets'')
      | SupportBlocker \<Rightarrow> demand (an_targets a \<noteq> []) (f @ '': supportBlocker annotations require a target''))]"

section \<open>Carriers\<close>

type_synonym annotation_decoder = "string \<Rightarrow> (string, annotation) result"

definition parse_description_annotation ::
  "annotation_decoder \<Rightarrow> string \<Rightarrow> (annotation_error, annotation option) result" where
  "parse_description_annotation decode description =
    and_then (demand (length description \<le> MAX_DESCRIPTION_BYTES)
      (''Description exceeds '' @ nat_str MAX_DESCRIPTION_BYTES @ '' UTF-8 bytes'')) (\<lambda>_.
    (case filter (starts_with DESCRIPTION_MARKER_PREFIX) (split_on (CHR 0x0A) description) of
       [] \<Rightarrow> Ok None
     | line # others \<Rightarrow>
         and_then (demand (others = []) ''Description must contain exactly one recognized annotation marker line'') (\<lambda>_.
         and_then (ok_or (strip_prefix DESCRIPTION_V1_PREFIX line)
           (Invalid ''unsupported or incomplete Description marker'')) (\<lambda>text.
         and_then (checks [
           demand (text \<noteq> []) ''Description annotation JSON is missing'',
           demand (starts_with ''{'' text \<and> ends_with ''}'' text)
             ''Description annotation JSON object must begin immediately after the marker and extend through the line end'',
           demand (length text \<le> MAX_DESCRIPTION_ANNOTATION_BYTES)
             (''Description annotation exceeds '' @ nat_str MAX_DESCRIPTION_ANNOTATION_BYTES @ '' UTF-8 bytes'')]) (\<lambda>_.
         and_then (parse_typed_json decode text (length text) ''Description annotation'') (\<lambda>a.
         and_then (validate_annotation a MAX_DESCRIPTION_TARGETS ''Description annotation'') (\<lambda>_.
           Ok (Some a))))))))"

definition parse_role_directive :: "string \<Rightarrow> (annotation_error, semantic_role) result" where
  "parse_role_directive d = (case strip_prefix ''role='' d of
      Some r \<Rightarrow> if r = ''printable'' then Ok Printable
        else if r = ''supportBlocker'' then Ok SupportBlocker
        else Err (Invalid ''invalid Name annotation role'')
    | None \<Rightarrow> Err (Invalid ''invalid Name annotation role''))"

definition parse_key_directive :: "string \<Rightarrow> (annotation_error, string option) result" where
  "parse_key_directive d =
    and_then (ok_or (strip_prefix ''key='' d) (Invalid ''invalid Name key directive'')) (\<lambda>key.
    and_then (validate_key key ''Name annotation key'') (\<lambda>_. Ok (Some key)))"

definition parse_targets_directive :: "string \<Rightarrow> (annotation_error, string list) result" where
  "parse_targets_directive d =
    and_then (ok_or (strip_prefix ''targets='' d) (Invalid ''invalid Name targets directive'')) (\<lambda>t.
      Ok (if t = [] then [] else split_on CHR '','' t))"

definition parse_directives :: "string list \<Rightarrow> (annotation_error, annotation) result" where
  "parse_directives directives =
    and_then (demand (length directives \<in> {3, 4}) ''Name annotation has an invalid directive count'') (\<lambda>_.
    and_then (demand (directives ! 0 = ''v1'') ''unsupported Name annotation version'') (\<lambda>_.
    and_then (parse_role_directive (directives ! 1)) (\<lambda>role.
    and_then (if length directives = 4
        then and_then (parse_key_directive (directives ! 2)) (\<lambda>key. Ok (key, directives ! 3))
        else Ok (None, directives ! 2)) (\<lambda>(key, targets_directive).
    and_then (parse_targets_directive targets_directive) (\<lambda>targets.
    let a = \<lparr>an_role = role, an_key = key, an_targets = targets\<rparr>
    in and_then (validate_annotation a MAX_NAME_TARGETS ''Name annotation'') (\<lambda>_. Ok a))))))"

definition parse_name_annotation :: "string \<Rightarrow> (annotation_error, string \<times> annotation option) result" where
  "parse_name_annotation name =
    and_then (validate_display_name name ''API Part Name'') (\<lambda>_.
    (case rfind NAME_MARKER_PREFIX name of
       None \<Rightarrow> Ok (name, None)
     | Some marker_start \<Rightarrow>
         let suffix = drop marker_start name
         in if \<not> (ends_with '']'' suffix \<or> \<not> contains '']'' suffix) then Ok (name, None)
         else and_then (checks [
             demand (is_ascii suffix) ''Name annotation suffix must be ASCII'',
             demand (length suffix \<le> MAX_NAME_SUFFIX_BYTES)
               (''Name annotation suffix exceeds '' @ nat_str MAX_NAME_SUFFIX_BYTES @ '' ASCII bytes''),
             demand (\<not> contains ''%'' suffix) ''Name annotation suffix forbids percent'']) (\<lambda>_.
           and_then (ok_or (Option.bind (strip_prefix '' [onshape-export:'' suffix) (strip_suffix '']''))
             (Invalid ''incomplete Name annotation suffix'')) (\<lambda>body.
           and_then (parse_directives (split_on CHR '';'' body)) (\<lambda>a.
           let display_name = take marker_start name
           in and_then (validate_display_name display_name ''displayName after Name suffix removal'') (\<lambda>_.
             Ok (display_name, Some a)))))))"

definition parse_carriers ::
  "annotation_decoder \<Rightarrow> string \<Rightarrow> string \<Rightarrow> (annotation_error, parsed_carriers) result" where
  "parse_carriers decode description name =
    and_then (parse_description_annotation decode description) (\<lambda>from_description.
    and_then (parse_name_annotation name) (\<lambda>(display_name, from_name).
    and_then (case (from_description, from_name) of
        (Some d, Some n) \<Rightarrow> and_then (demand (d = n) ''Description and Name annotations disagree'') (\<lambda>_. Ok d)
      | (Some d, None) \<Rightarrow> Ok d
      | (None, Some n) \<Rightarrow> Ok n
      | (None, None) \<Rightarrow> Ok \<lparr>an_role = Printable, an_key = None, an_targets = []\<rparr>) (\<lambda>a.
      Ok \<lparr>pc_display_name = display_name, pc_annotation = a\<rparr>)))"

section \<open>The authoring document\<close>

definition validate_authoring_object :: "authoring_object \<Rightarrow> nat \<Rightarrow> acheck" where
  "validate_authoring_object x i = (let f = ''objects['' @ nat_str i @ '']'' in checks [
     validate_selector (ao_selector x) (f @ ''.selector''),
     validate_display_name (ao_display_name x) (f @ ''.displayName''),
     validate_annotation (ao_annotation x) MAX_DESCRIPTION_TARGETS (f @ ''.annotation'')])"

definition normalize_authoring_object ::
  "annotation_decoder \<Rightarrow> authoring_selector \<Rightarrow> string \<Rightarrow> string \<Rightarrow> (annotation_error, authoring_object) result" where
  "normalize_authoring_object decode selector description name =
    and_then (parse_carriers decode description name) (\<lambda>p.
      let x = \<lparr>ao_selector = selector, ao_display_name = pc_display_name p, ao_annotation = pc_annotation p\<rparr>
      in and_then (validate_authoring_object x 0) (\<lambda>_. Ok x))"

text \<open>\<open>keys.entry(key).or_default().push(index)\<close>\<close>

definition push_key :: "string option \<Rightarrow> nat \<Rightarrow> (string \<rightharpoonup> nat list) \<Rightarrow> (string \<rightharpoonup> nat list)" where
  "push_key key i m = (case key of
      None \<Rightarrow> m
    | Some k \<Rightarrow> m(k \<mapsto> (case m k of None \<Rightarrow> [] | Some xs \<Rightarrow> xs) @ [i]))"

definition index_object ::
  "authoring_selector set \<times> (string \<rightharpoonup> nat list) \<Rightarrow> nat \<times> authoring_object
    \<Rightarrow> (annotation_error, authoring_selector set \<times> (string \<rightharpoonup> nat list)) result" where
  "index_object = (\<lambda>(selectors, keys) (i, x). and_then (checks [
     validate_authoring_object x i,
     demand (ao_selector x \<notin> selectors)
       (''objects['' @ nat_str i @ ''].selector duplicates another selector'')])
     (\<lambda>_. Ok (insert (ao_selector x) selectors, push_key (an_key (ao_annotation x)) i keys)))"

definition validate_target ::
  "authoring_object list \<Rightarrow> (string \<rightharpoonup> nat list) \<Rightarrow> nat \<Rightarrow> string \<Rightarrow> acheck" where
  "validate_target objects keys i t = (let p = ''objects['' @ nat_str i @ '']'' in
     and_then (ok_or (keys t) (Invalid (p @ '' target '' @ t @ '' does not resolve''))) (\<lambda>matches.
     checks [
       demand (length matches = 1) (p @ '' target '' @ t @ '' is ambiguous''),
       demand (matches ! 0 \<noteq> i) (p @ '' cannot target itself''),
       demand (an_role (ao_annotation (objects ! (matches ! 0))) = Printable)
         (p @ '' target '' @ t @ '' is not printable'')]))"

definition validate_authoring_document :: "writer \<Rightarrow> authoring_document \<Rightarrow> acheck" where
  "validate_authoring_document to_vec d =
    and_then (checks [
      validate_serialized_size to_vec (authoring_document_json d) ''authoring document'',
      demand (ad_schema_version d = AUTHORING_SCHEMA_VERSION)
        (''unsupported authoring schemaVersion: '' @ nat_str (unat (ad_schema_version d))),
      demand (length (ad_objects d) \<le> MAX_OBJECTS)
        (''authoring document exceeds '' @ nat_str MAX_OBJECTS @ '' objects'')]) (\<lambda>_.
    and_then (try_fold index_object ({}, Map.empty) (enumerate 0 (ad_objects d))) (\<lambda>(_, keys).
    each (\<lambda>i x. each (\<lambda>_ t. validate_target (ad_objects d) keys i t) (an_targets (ao_annotation x)))
      (ad_objects d)))"

definition parse_authoring_document ::
  "writer \<Rightarrow> (string \<Rightarrow> (string, authoring_document) result) \<Rightarrow> string
    \<Rightarrow> (annotation_error, authoring_document) result" where
  "parse_authoring_document to_vec decode bytes =
    and_then (parse_typed_json decode bytes MAX_DOCUMENT_BYTES ''authoring document'') (\<lambda>d.
    and_then (validate_authoring_document to_vec d) (\<lambda>_. Ok d))"

section \<open>The context of a document\<close>

record part_index =
  px_by_part :: "string \<rightharpoonup> string \<times> string"
  px_groups :: "(string \<times> (nat \<times> string \<times> string) list) list"

text \<open>
  The groups are a \<open>HashMap\<close>, whose order of iteration decides only which of several errors is
  reported; here the groups come in the order of their first object.
\<close>

fun push_group :: "string \<Rightarrow> 'a \<Rightarrow> (string \<times> 'a list) list \<Rightarrow> (string \<times> 'a list) list" where
  "push_group k x [] = [(k, [x])]"
| "push_group k x ((k', xs) # gs) = (if k' = k then (k', xs @ [x]) # gs else (k', xs) # push_group k x gs)"

definition canonical_annotation :: "canonicalizer \<Rightarrow> annotation \<Rightarrow> (annotation_error, string) result" where
  "canonical_annotation jcs a = map_err Identity (jcs (annotation_json a))"

definition index_context_entry ::
  "canonicalizer \<Rightarrow> part_index \<Rightarrow> nat \<times> authoring_object \<times> authoring_context_entry
    \<Rightarrow> (annotation_error, part_index) result" where
  "index_context_entry jcs s = (\<lambda>(i, x, entry).
     let p = ''context['' @ nat_str i @ '']''; part = ce_configured_part_identity entry in
     and_then (checks [
       demand (ce_plan_position entry = i) (p @ ''.planPosition does not match document order''),
       demand (ce_selector entry = ao_selector x) (p @ ''.selector does not match the authoring object''),
       demand (part \<noteq> []) (p @ ''.configuredPartIdentity must not be empty'')]) (\<lambda>_.
     and_then (canonical_annotation jcs (ao_annotation x)) (\<lambda>canonical.
     and_then (case px_by_part s part of
         Some (display_name, annotation) \<Rightarrow> and_then (checks [
             demand (display_name = ao_display_name x)
               (''configured part '' @ part @ '' has conflicting display names''),
             demand (annotation = canonical)
               (''configured part '' @ part @ '' has conflicting annotations'')]) (\<lambda>_. Ok (px_by_part s))
       | None \<Rightarrow> Ok ((px_by_part s)(part \<mapsto> (ao_display_name x, canonical)))) (\<lambda>by_part.
     Ok \<lparr>px_by_part = by_part,
         px_groups = (case an_key (ao_annotation x) of
             None \<Rightarrow> px_groups s
           | Some key \<Rightarrow> push_group key (i, part, canonical) (px_groups s))\<rparr>))))"

definition validate_key_group :: "string \<times> (nat \<times> string \<times> string) list \<Rightarrow> acheck" where
  "validate_key_group = (\<lambda>(key, group). case group of
      (_, part, annotation) # _ # _ \<Rightarrow>
        demand (list_all (\<lambda>(_, p, a). p = part \<and> a = annotation) group)
          (''duplicate key '' @ key @ '' does not represent identical configured-part fan-out'')
    | _ \<Rightarrow> Ok ())"

definition validate_authoring_context ::
  "writer \<Rightarrow> canonicalizer \<Rightarrow> authoring_document \<Rightarrow> authoring_context_entry list \<Rightarrow> acheck" where
  "validate_authoring_context to_vec jcs d ctxt =
    and_then (validate_authoring_document to_vec d) (\<lambda>_.
    and_then (demand (length ctxt = length (ad_objects d))
      ''authoring context must contain exactly one entry per object'') (\<lambda>_.
    and_then (try_fold (index_context_entry jcs) \<lparr>px_by_part = Map.empty, px_groups = []\<rparr>
      (enumerate 0 (zip (ad_objects d) ctxt))) (\<lambda>s.
    each (\<lambda>_. validate_key_group) (px_groups s))))"

section \<open>Generator settings\<close>

definition validate_blocker ::
  "string set \<times> nat \<Rightarrow> nat \<times> settings_blocker \<Rightarrow> (annotation_error, string set \<times> nat) result" where
  "validate_blocker = (\<lambda>(seen, edges) (i, b). let p = ''blockers['' @ nat_str i @ '']'' in
     and_then (checks [
       validate_object_identity (sb_object_identity b) (p @ ''.objectIdentity''),
       demand (sb_object_identity b \<notin> seen) (''duplicate blocker identity: '' @ sb_object_identity b),
       demand (sb_targets b \<noteq> [] \<and> length (sb_targets b) \<le> MAX_DESCRIPTION_TARGETS)
         (p @ ''.targets must contain 1 to 64 identities''),
       and_then (try_fold (unique_target (p @ '' contains duplicate target '')
           (\<lambda>t j. validate_object_identity t (p @ ''.targets['' @ nat_str j @ '']''))) {}
           (enumerate 0 (sb_targets b))) (\<lambda>_. Ok ())])
       (\<lambda>_. Ok (insert (sb_object_identity b) seen, edges + length (sb_targets b))))"

definition validate_generator_settings :: "writer \<Rightarrow> generator_settings \<Rightarrow> acheck" where
  "validate_generator_settings to_vec s =
    and_then (checks [
      validate_serialized_size to_vec (generator_settings_json s) ''generator settings'',
      demand (gs_schema_version s = AUTHORING_SCHEMA_VERSION)
        (''unsupported generator settings schemaVersion: '' @ nat_str (unat (gs_schema_version s))),
      demand (length (gs_blockers s) \<le> MAX_OBJECTS)
        (''generator settings exceed '' @ nat_str MAX_OBJECTS @ '' blockers'')]) (\<lambda>_.
    and_then (try_fold validate_blocker ({}, 0) (enumerate 0 (gs_blockers s))) (\<lambda>(_, edges).
    demand (edges \<le> MAX_SETTINGS_EDGES)
      (''generator settings exceed '' @ nat_str MAX_SETTINGS_EDGES @ '' target edges'')))"

definition parse_generator_settings ::
  "writer \<Rightarrow> (string \<Rightarrow> (string, generator_settings) result) \<Rightarrow> string
    \<Rightarrow> (annotation_error, generator_settings) result" where
  "parse_generator_settings to_vec decode bytes =
    and_then (parse_typed_json decode bytes MAX_DOCUMENT_BYTES ''generator settings'') (\<lambda>s.
    and_then (validate_generator_settings to_vec s) (\<lambda>_. Ok s))"

text \<open>
  The settings of a document. Indexing the map of keys panics on a missing key, and indexing the
  identities out of range: the outer \<open>None\<close>. A later object replaces an earlier one of the same key.
\<close>

definition unique_keys :: "authoring_object list \<Rightarrow> (string \<rightharpoonup> nat)" where
  "unique_keys objects = foldl (\<lambda>m (i, x). case an_key (ao_annotation x) of None \<Rightarrow> m | Some k \<Rightarrow> m(k \<mapsto> i))
     Map.empty (enumerate 0 objects)"

definition at_index :: "'a list \<Rightarrow> nat \<Rightarrow> 'a option" where
  "at_index xs i = (if i < length xs then Some (xs ! i) else None)"

definition target_identity :: "string list \<Rightarrow> (string \<rightharpoonup> nat) \<Rightarrow> string \<Rightarrow> string option" where
  "target_identity identities keys t = Option.bind (keys t) (at_index identities)"

definition blocker_of ::
  "string list \<Rightarrow> (string \<rightharpoonup> nat) \<Rightarrow> nat \<times> authoring_object \<Rightarrow> settings_blocker option" where
  "blocker_of identities keys = (\<lambda>(i, x). do {
     identity \<leftarrow> at_index identities i;
     targets \<leftarrow> those (map (target_identity identities keys) (an_targets (ao_annotation x)));
     Some \<lparr>sb_object_identity = identity, sb_targets = targets\<rparr>
   })"

definition build_generator_settings ::
  "writer \<Rightarrow> authoring_document \<Rightarrow> string list \<Rightarrow> (annotation_error, generator_settings) result option" where
  "build_generator_settings to_vec d identities =
    (case and_then (validate_authoring_document to_vec d) (\<lambda>_. checks [
        demand (length identities = length (ad_objects d))
          ''manifest identity list must align exactly with authoring objects'',
        each (\<lambda>i v. validate_object_identity v (''manifestObjectIdentities['' @ nat_str i @ '']'')) identities])
     of Err e \<Rightarrow> Some (Err e)
      | Ok _ \<Rightarrow> do {
          blockers \<leftarrow> those (map (blocker_of identities (unique_keys (ad_objects d)))
            (filter (\<lambda>(_, x). an_role (ao_annotation x) = SupportBlocker) (enumerate 0 (ad_objects d))));
          let s = \<lparr>gs_schema_version = AUTHORING_SCHEMA_VERSION, gs_blockers = blockers\<rparr>;
          Some (and_then (validate_generator_settings to_vec s) (\<lambda>_. Ok s))
        })"

definition index_manifest_object ::
  "(string \<rightharpoonup> input_role) \<Rightarrow> nat \<times> manifest_object_summary \<Rightarrow> (annotation_error, string \<rightharpoonup> input_role) result" where
  "index_manifest_object m = (\<lambda>(i, x). and_then (checks [
     validate_object_identity (mo_object_identity x) (''manifest['' @ nat_str i @ ''].objectIdentity''),
     demand (m (mo_object_identity x) = None)
       (''manifest contains duplicate identity '' @ mo_object_identity x)])
     (\<lambda>_. Ok (m(mo_object_identity x \<mapsto> mo_transport_role x))))"

definition validate_settings_context ::
  "writer \<Rightarrow> generator_settings \<Rightarrow> manifest_object_summary list \<Rightarrow> acheck" where
  "validate_settings_context to_vec s manifest =
    and_then (validate_generator_settings to_vec s) (\<lambda>_.
    and_then (try_fold index_manifest_object Map.empty (enumerate 0 manifest)) (\<lambda>by_identity.
    let auxiliary = set (map mo_object_identity
          (filter (\<lambda>x. mo_transport_role x = AuxiliaryGeometry) manifest));
        blockers = set (map sb_object_identity (gs_blockers s))
    in checks [
      demand (blockers = auxiliary) ''settings blockers must equal the manifest auxiliaryGeometry identity set'',
      each (\<lambda>_ b. checks [
        demand (by_identity (sb_object_identity b) = Some AuxiliaryGeometry)
          (''blocker '' @ sb_object_identity b @ '' is not auxiliaryGeometry''),
        each (\<lambda>_ t. demand (by_identity t = Some RawGeometry)
          (''target '' @ t @ '' is missing or is not rawGeometry'')) (sb_targets b)]) (gs_blockers s)]))"

section \<open>Settings with placements\<close>

definition F64_ONE :: f64 where "F64_ONE = 0x3FF0000000000000"
definition F64_NEG_ZERO :: f64 where "F64_NEG_ZERO = 0x8000000000000000"

definition f64_is_zero :: "f64 \<Rightarrow> bool" where
  "f64_is_zero x \<longleftrightarrow> x = 0 \<or> x = F64_NEG_ZERO"

definition f64_is_nan :: "f64 \<Rightarrow> bool" where
  "f64_is_nan x \<longleftrightarrow> f64_exponent x = 2047 \<and> x mod 2 ^ 52 \<noteq> 0"

text \<open>\<open>==\<close> of \<open>f64\<close>: the zeros are equal, and a NaN equals nothing.\<close>

definition f64_eq :: "f64 \<Rightarrow> f64 \<Rightarrow> bool" where
  "f64_eq x y \<longleftrightarrow> \<not> f64_is_nan x \<and> \<not> f64_is_nan y \<and> (x = y \<or> (f64_is_zero x \<and> f64_is_zero y))"

definition f64s_eq :: "f64 list \<Rightarrow> f64 list \<Rightarrow> bool" where
  "f64s_eq = list_all2 f64_eq"

definition normalize_matrix :: "f64 list \<Rightarrow> f64 list" where
  "normalize_matrix m = map (\<lambda>x. if f64_eq x 0 then 0 else x) m"

definition validate_matrix :: "f64 list \<Rightarrow> string \<Rightarrow> acheck" where
  "validate_matrix m f = checks [
     demand (length m = 16) (f @ '' must contain exactly 16 scalars''),
     demand (list_all f64_is_finite m) (f @ '' must contain only finite scalars''),
     demand (f64s_eq (drop 12 m) [0, 0, 0, F64_ONE])
       (f @ '' final row must be [0,0,0,1] after signed-zero normalization'')]"

definition normalize_generator_settings_v2 :: "generator_settings_v2 \<Rightarrow> generator_settings_v2" where
  "normalize_generator_settings_v2 s = s\<lparr>gv_placements :=
     map (\<lambda>p. p\<lparr>sp_matrix := normalize_matrix (sp_matrix p)\<rparr>) (gv_placements s)\<rparr>"

definition validate_placement ::
  "string set \<Rightarrow> nat \<times> settings_placement \<Rightarrow> (annotation_error, string set) result" where
  "validate_placement seen = (\<lambda>(i, p). let f = ''placements['' @ nat_str i @ '']'' in and_then (checks [
     validate_object_identity (sp_object_identity p) (f @ ''.objectIdentity''),
     demand (sp_object_identity p \<notin> seen) (''duplicate placement identity: '' @ sp_object_identity p),
     validate_matrix (sp_matrix p) (f @ ''.matrix'')])
     (\<lambda>_. Ok (insert (sp_object_identity p) seen)))"

definition settings_v1_of :: "generator_settings_v2 \<Rightarrow> generator_settings" where
  "settings_v1_of s = \<lparr>gs_schema_version = AUTHORING_SCHEMA_VERSION, gs_blockers = gv_blockers s\<rparr>"

definition validate_normalized_generator_settings_v2 ::
  "writer \<Rightarrow> (f64 \<Rightarrow> string) \<Rightarrow> generator_settings_v2 \<Rightarrow> acheck" where
  "validate_normalized_generator_settings_v2 to_vec print s = checks [
     validate_serialized_size to_vec (generator_settings_v2_json print s) ''generator settings v2'',
     demand (gv_schema_version s = SETTINGS_V2_SCHEMA_VERSION)
       (''unsupported generator settings v2 schemaVersion: '' @ nat_str (unat (gv_schema_version s))),
     validate_generator_settings to_vec (settings_v1_of s),
     demand (length (gv_placements s) \<le> MAX_OBJECTS)
       (''generator settings v2 exceed '' @ nat_str MAX_OBJECTS @ '' placements''),
     and_then (try_fold validate_placement {} (enumerate 0 (gv_placements s))) (\<lambda>_. Ok ())]"

definition validate_generator_settings_v2 ::
  "writer \<Rightarrow> (f64 \<Rightarrow> string) \<Rightarrow> generator_settings_v2 \<Rightarrow> acheck" where
  "validate_generator_settings_v2 to_vec print s =
    validate_normalized_generator_settings_v2 to_vec print (normalize_generator_settings_v2 s)"

definition parse_generator_settings_v2 ::
  "writer \<Rightarrow> (f64 \<Rightarrow> string) \<Rightarrow> (string \<Rightarrow> (string, generator_settings_v2) result) \<Rightarrow> string
    \<Rightarrow> (annotation_error, generator_settings_v2) result" where
  "parse_generator_settings_v2 to_vec print decode bytes =
    and_then (parse_typed_json decode bytes MAX_DOCUMENT_BYTES ''generator settings v2'') (\<lambda>s.
    let normalized = normalize_generator_settings_v2 s
    in and_then (validate_normalized_generator_settings_v2 to_vec print normalized) (\<lambda>_. Ok normalized))"

definition summary_of :: "expected_placement \<Rightarrow> manifest_object_summary" where
  "summary_of e = \<lparr>mo_object_identity = ep_object_identity e, mo_transport_role = ep_transport_role e\<rparr>"

definition validate_expected_placement :: "nat \<Rightarrow> settings_placement \<times> expected_placement \<Rightarrow> acheck" where
  "validate_expected_placement i = (\<lambda>(p, e). let expected = normalize_matrix (ep_matrix e) in checks [
     demand (sp_object_identity p = ep_object_identity e)
       (''placements['' @ nat_str i @ ''].objectIdentity does not match expected manifest order''),
     validate_matrix expected (''expected['' @ nat_str i @ ''].expectedNeutralPlacementMatrix''),
     demand (f64s_eq (sp_matrix p) expected)
       (''placements['' @ nat_str i @ ''].matrix does not match expected neutral placement'')])"

definition validate_settings_context_v2 ::
  "writer \<Rightarrow> (f64 \<Rightarrow> string) \<Rightarrow> generator_settings_v2 \<Rightarrow> expected_placement list \<Rightarrow> acheck" where
  "validate_settings_context_v2 to_vec print s expected =
    (let normalized = normalize_generator_settings_v2 s in checks [
     validate_normalized_generator_settings_v2 to_vec print normalized,
     demand (length (gv_placements normalized) = length expected)
       ''settings placements must contain exactly one entry per expected manifest object'',
     validate_settings_context to_vec (settings_v1_of normalized) (map summary_of expected),
     each validate_expected_placement (zip (gv_placements normalized) expected)])"

section \<open>Identities\<close>

definition annotation_hash ::
  "canonicalizer \<Rightarrow> digest \<Rightarrow> string \<Rightarrow> json \<Rightarrow> (annotation_error, string) result" where
  "annotation_hash jcs sha domain payload = map_err Identity (hash_json jcs sha domain payload)"

definition authoring_document_identity ::
  "writer \<Rightarrow> canonicalizer \<Rightarrow> digest \<Rightarrow> authoring_document \<Rightarrow> (annotation_error, string) result" where
  "authoring_document_identity to_vec jcs sha d =
    and_then (validate_authoring_document to_vec d) (\<lambda>_.
      annotation_hash jcs sha ''onshape-export-authoring-document-v1'' (authoring_document_json d))"

definition generator_settings_identity ::
  "writer \<Rightarrow> canonicalizer \<Rightarrow> digest \<Rightarrow> generator_settings \<Rightarrow> (annotation_error, string) result" where
  "generator_settings_identity to_vec jcs sha s =
    and_then (validate_generator_settings to_vec s) (\<lambda>_.
      annotation_hash jcs sha ''onshape-export-generator-settings-v1'' (generator_settings_json s))"

definition generator_settings_v2_canonical_json_bytes ::
  "writer \<Rightarrow> (f64 \<Rightarrow> string) \<Rightarrow> canonicalizer \<Rightarrow> generator_settings_v2 \<Rightarrow> (annotation_error, string) result" where
  "generator_settings_v2_canonical_json_bytes to_vec print jcs s =
    (let normalized = normalize_generator_settings_v2 s
     in and_then (validate_normalized_generator_settings_v2 to_vec print normalized) (\<lambda>_.
       map_err Identity (jcs (generator_settings_v2_json print normalized))))"

definition generator_settings_v2_identity ::
  "writer \<Rightarrow> (f64 \<Rightarrow> string) \<Rightarrow> canonicalizer \<Rightarrow> digest \<Rightarrow> generator_settings_v2
    \<Rightarrow> (annotation_error, string) result" where
  "generator_settings_v2_identity to_vec print jcs sha s =
    (let normalized = normalize_generator_settings_v2 s
     in and_then (validate_normalized_generator_settings_v2 to_vec print normalized) (\<lambda>_.
       annotation_hash jcs sha ''onshape-export-generator-settings-v2''
         (generator_settings_v2_json print normalized)))"

end
