(* ===== verification/Strict_Json.thy ===== *)
theory Strict_Json
  imports Annotation
begin

text \<open>
  The strict JSON reader of the embedded schemas and their identities (\<open>parse_strict_value\<close>,
  \<open>StrictValue\<close> and \<open>schema_identity\<close> of \<open>src/src/onshape_annotation.rs\<close>). The configuration
  reader of \<open>src/src/deployed_generator.rs\<close> is the same visitor with another message for a repeated
  member, so that message is an argument (\<open>dup\<close>). The tokenizer of
  \<open>serde_json\<close> is a parameter: it gives the events the visitor sees, as a tree.
\<close>

section \<open>The events of a document\<close>

text \<open>
  \<open>Failure\<close> is where the tokenizer reports an error instead of a value (or of a member name); nothing
  behind it is read.
\<close>

datatype event =
    Failure string
  | Unit
  | Boolean bool
  | Signed "64 word"
  | Unsigned "64 word"
  | Double f64
  | Text string
  | Sequence "event list"
  | Object "(string \<times> event) list"

definition from_i64 :: "64 word \<Rightarrow> jnum" where
  "from_i64 i = (if sint i < 0 then NegInt (sint i) else PosInt i)"

definition from_f64 :: "(f64 \<Rightarrow> string) \<Rightarrow> f64 \<Rightarrow> jnum option" where
  "from_f64 print x = (if f64_is_finite x then Some (Float (print x)) else None)"

section \<open>The visitor\<close>

fun strict_value :: "(string \<Rightarrow> string) \<Rightarrow> (f64 \<Rightarrow> string) \<Rightarrow> event \<Rightarrow> (string, json) result"
  and strict_seq :: "(string \<Rightarrow> string) \<Rightarrow> (f64 \<Rightarrow> string) \<Rightarrow> event list \<Rightarrow> json list \<Rightarrow> (string, json list) result"
  and strict_map :: "(string \<Rightarrow> string) \<Rightarrow> (f64 \<Rightarrow> string) \<Rightarrow> (string \<times> event) list \<Rightarrow> jmap \<Rightarrow> (string, jmap) result" where
  "strict_value dup print (Failure e) = Err e"
| "strict_value dup print Unit = Ok JNull"
| "strict_value dup print (Boolean b) = Ok (JBool b)"
| "strict_value dup print (Signed i) = Ok (JNum (from_i64 i))"
| "strict_value dup print (Unsigned u) = Ok (JNum (PosInt u))"
| "strict_value dup print (Double x) = (case from_f64 print x of
      Some n \<Rightarrow> Ok (JNum n) | None \<Rightarrow> Err ''non-finite JSON number'')"
| "strict_value dup print (Text s) = Ok (JStr s)"
| "strict_value dup print (Sequence es) = (case strict_seq dup print es [] of Err e \<Rightarrow> Err e | Ok vs \<Rightarrow> Ok (JArr vs))"
| "strict_value dup print (Object kes) = (case strict_map dup print kes [] of Err e \<Rightarrow> Err e | Ok m \<Rightarrow> Ok (JObj m))"
| "strict_seq dup print [] vs = Ok vs"
| "strict_seq dup print (e # es) vs = (case strict_value dup print e of
      Err x \<Rightarrow> Err x | Ok v \<Rightarrow> strict_seq dup print es (vs @ [v]))"
| "strict_map dup print [] m = Ok m"
| "strict_map dup print ((k, e) # kes) m = (case strict_value dup print e of
      Err x \<Rightarrow> Err x
    | Ok v \<Rightarrow> if member k m \<noteq> None then Err (dup k)
        else strict_map dup print kes (bt_insert k v m))"

definition duplicate_member :: "string \<Rightarrow> string" where
  "duplicate_member k = ''duplicate object member '' @ k"

definition parse_strict_value ::
  "(f64 \<Rightarrow> string) \<Rightarrow> (string \<Rightarrow> event \<times> (string, unit) result) \<Rightarrow> string \<Rightarrow> nat \<Rightarrow> string
    \<Rightarrow> (annotation_error, json) result" where
  "parse_strict_value print tokens bytes limit document =
    (if length bytes > limit then Err (DocumentTooLarge document limit)
     else let (e, rest) = tokens bytes
       in and_then (map_err (InvalidJson document) (strict_value duplicate_member print e)) (\<lambda>v.
          and_then (map_err (InvalidJson document) rest) (\<lambda>_. Ok v)))"

definition schema_identity ::
  "(f64 \<Rightarrow> string) \<Rightarrow> (string \<Rightarrow> event \<times> (string, unit) result) \<Rightarrow> canonicalizer \<Rightarrow> digest
    \<Rightarrow> string \<Rightarrow> string \<Rightarrow> string \<Rightarrow> (annotation_error, string) result" where
  "schema_identity print tokens jcs sha bytes domain document =
    and_then (parse_strict_value print tokens bytes MAX_DOCUMENT_BYTES document) (\<lambda>schema.
      annotation_hash jcs sha domain schema)"

section \<open>What the reader accepts\<close>

text \<open>The value of a document when a repeated member simply replaces the earlier one.\<close>

fun lenient :: "(f64 \<Rightarrow> string) \<Rightarrow> event \<Rightarrow> json" where
  "lenient print (Failure e) = JNull"
| "lenient print Unit = JNull"
| "lenient print (Boolean b) = JBool b"
| "lenient print (Signed i) = JNum (from_i64 i)"
| "lenient print (Unsigned u) = JNum (PosInt u)"
| "lenient print (Double x) = JNum (Float (print x))"
| "lenient print (Text s) = JStr s"
| "lenient print (Sequence es) = JArr (map (lenient print) es)"
| "lenient print (Object kes) = JObj (bt.insert_all (map (\<lambda>(k, e). (k, lenient print e)) kes) [])"

text \<open>No token is an error, no number is infinite, and no object names a member twice, at any depth.\<close>

fun unambiguous_event :: "event \<Rightarrow> bool" where
  "unambiguous_event (Failure _) = False"
| "unambiguous_event (Double x) = f64_is_finite x"
| "unambiguous_event (Sequence es) = list_all unambiguous_event es"
| "unambiguous_event (Object kes) = (distinct (map fst kes) \<and> list_all (\<lambda>(_, e). unambiguous_event e) kes)"
| "unambiguous_event _ = True"

lemma member_keys: "member k m \<noteq> None \<longleftrightarrow> k \<in> fst ` set m"
  by (auto simp: member_def map_of_eq_None_iff)

lemma strict_reader:
  "strict_value dup print e = Ok v \<longleftrightarrow> unambiguous_event e \<and> v = lenient print e"
  "strict_seq dup print es vs = Ok ws \<longleftrightarrow> list_all unambiguous_event es \<and> ws = vs @ map (lenient print) es"
  "strict_map dup print kes m = Ok m' \<longleftrightarrow>
    distinct (map fst kes) \<and> list_all (\<lambda>(_, e). unambiguous_event e) kes \<and> fst ` set kes \<inter> fst ` set m = {}
      \<and> m' = bt.insert_all (map (\<lambda>(k, e). (k, lenient print e)) kes) m"
proof (induction dup print e and dup print es vs and dup print kes m arbitrary: v and ws and m'
    rule: strict_value_strict_seq_strict_map.induct)
  case (6 dup print x)
  then show ?case by (auto simp: from_f64_def)
next
  case (8 dup print es)
  from 8 [of "map (lenient print) es"] 8 show ?case by (cases "strict_seq dup print es []") auto
next
  case (9 dup print kes)
  from 9 [of "bt.insert_all (map (\<lambda>(k, e). (k, lenient print e)) kes) []"] 9
  show ?case by (cases "strict_map dup print kes []") auto
next
  case (11 dup print e es vs)
  show ?case
  proof (cases "strict_value dup print e")
    case (Inl x)
    then show ?thesis using "11.IH"(1) [of "lenient print e"] by auto
  next
    case (Inr w)
    with "11.IH"(1) have "unambiguous_event e" "w = lenient print e" by auto
    then show ?thesis using "11.IH"(2) [OF Inr, of ws] Inr by auto
  qed
next
  case (12 dup print m)
  then show ?case by (auto simp: bt.insert_all_def)
next
  case (13 dup print k e kes m)
  show ?case
  proof (cases "strict_value dup print e")
    case (Inl x)
    then show ?thesis using "13.IH"(1) [of "lenient print e"] by auto
  next
    case (Inr w)
    with "13.IH"(1) have e: "unambiguous_event e" "w = lenient print e" by auto
    have ins: "bt.insert_all (map (\<lambda>(k, e). (k, lenient print e)) ((k, e) # kes)) m
        = bt.insert_all (map (\<lambda>(k, e). (k, lenient print e)) kes) (bt_insert k w m)"
      by (simp add: bt.insert_all_def e)
    show ?thesis
    proof (cases "member k m = None")
      case True
      then have "k \<notin> fst ` set m" using member_keys by metis
      then show ?thesis
        using "13.IH"(2) [OF Inr, of m'] True Inr e unfolding ins by (auto simp: set_bt_insert)
    next
      case False
      then have "k \<in> fst ` set m" using member_keys by metis
      then show ?thesis using False Inr by auto
    qed
  qed
qed auto

text \<open>
  C17: the strict reader accepts a document exactly when no token of it is an error, every number is
  finite and no object at any depth names a member twice, and then it returns the value that ordinary
  reading gives.
\<close>

theorem strict_reader_accepts_iff:
  "strict_value dup print e = Ok v \<longleftrightarrow> unambiguous_event e \<and> v = lenient print e"
  by (rule strict_reader(1))

end
