(* ===== verification/Deployed_Generator.thy ===== *)
theory Deployed_Generator
  imports Strict_Json Generator_Protocol
begin

text \<open>
  The deployed generator (\<open>src/src/deployed_generator.rs\<close>): its configuration document, the check of
  its executable, its static identity, and the compatibility of a request with it. What the operating
  system answers about the executable is the argument \<open>probe\<close>; the derived deserializer is \<open>decode\<close>.
\<close>

unbundle bit_operations_syntax

section \<open>The document\<close>

datatype deployed_error =
    NotConfigured
  | ConfigReadFailure string string
  | ConfigDecodeFailure string
  | DuplicateField
  | ConfigInvalid string
  | ExecutableMissing string
  | ExecutableNotRegularFile string
  | ExecutableUnreadable string string
  | ExecutableNotExecutable string
  | BinaryDigestMismatch string string
  | UnsupportedCombination string
  | IdentityFailure string

record deployed_document =
  dd_executable_path :: string
  dd_package_identity :: string
  dd_package_sha256 :: string
  dd_build_identity :: string
  dd_binary_identity :: string
  dd_binary_sha256 :: string
  dd_protocol_version :: "32 word"
  dd_dialect_identity :: string
  dd_capability_identities :: "string list"
  dd_input_kind_identity :: string
  dd_input_schema_identity :: string
  dd_settings_schema_identity :: string
  dd_provenance_set_identity :: string
  dd_normalization_identity :: string
  dd_validation_identity :: string

record deployed_generator =
  dg_document :: deployed_document
  dg_static_identity :: string

record compatibility_request =
  cr_protocol_version :: "32 word"
  cr_dialect_identity :: string
  cr_capability_identities :: "string list"
  cr_input_kind_identity :: string
  cr_input_schema_identity :: string
  cr_settings_schema_identity :: string

section \<open>Validation of the document\<close>

definition MAX_CAPABILITIES :: nat where "MAX_CAPABILITIES = 256"

type_synonym dcheck = "(deployed_error, unit) result"

definition ensure_config :: "bool \<Rightarrow> string \<Rightarrow> dcheck" where
  "ensure_config c m = ensure c (ConfigInvalid m)"

definition validate_config_identity :: "string \<Rightarrow> string \<Rightarrow> dcheck" where
  "validate_config_identity v f = ensure_config (v \<noteq> [] \<and> length v \<le> MAX_IDENTITY_LENGTH \<and> list_all is_graphic v)
     (f @ '' must contain 1 to '' @ nat_str MAX_IDENTITY_LENGTH @ '' visible ASCII characters'')"

definition validate_config_sha256 :: "string \<Rightarrow> string \<Rightarrow> dcheck" where
  "validate_config_sha256 v f = ensure_config (length v = 64 \<and> list_all is_lower_hex v)
     (f @ '' must be a lowercase 64-character SHA-256 value'')"

definition validate_deployed :: "deployed_document \<Rightarrow> dcheck" where
  "validate_deployed d = checks [
     ensure_config (starts_with ''/'' (dd_executable_path d)) ''executablePath must be absolute'',
     ensure_config (dd_protocol_version d = PROTOCOL_VERSION)
       (''protocolVersion must be the implemented version '' @ nat_str (unat PROTOCOL_VERSION)),
     each (\<lambda>_ (name, v). validate_config_identity v name)
       [(''packageIdentity'', dd_package_identity d),
        (''buildIdentity'', dd_build_identity d),
        (''binaryIdentity'', dd_binary_identity d),
        (''dialectIdentity'', dd_dialect_identity d),
        (''inputKindIdentity'', dd_input_kind_identity d),
        (''inputSchemaIdentity'', dd_input_schema_identity d),
        (''settingsSchemaIdentity'', dd_settings_schema_identity d),
        (''provenanceSetIdentity'', dd_provenance_set_identity d),
        (''normalizationIdentity'', dd_normalization_identity d),
        (''validationIdentity'', dd_validation_identity d)],
     validate_config_sha256 (dd_package_sha256 d) ''packageSha256'',
     validate_config_sha256 (dd_binary_sha256 d) ''binarySha256'',
     ensure_config (length (dd_capability_identities d) \<le> MAX_CAPABILITIES)
       (''capabilityIdentities exceeds '' @ nat_str MAX_CAPABILITIES @ '' entries''),
     each (\<lambda>i v. validate_config_identity v (''capabilityIdentities['' @ nat_str i @ '']''))
       (dd_capability_identities d),
     ensure_config (list_all (\<lambda>(a, b). a < b)
         (zip (dd_capability_identities d) (drop 1 (dd_capability_identities d))))
       ''capabilityIdentities must be unique and sorted lexicographically'']"

section \<open>The executable\<close>

datatype io_error = NotFound | OtherIo string

text \<open>
  The answers of the file system, in the order of the calls: \<open>fs::metadata\<close> (a regular file?),
  \<open>File::open\<close>, \<open>File::metadata\<close> (a regular file, and the mode), and the bytes that \<open>read\<close> delivers
  until the end of the file.
\<close>

record executable_probe =
  xp_path_metadata :: "(io_error, bool) result"
  xp_open :: "(io_error, unit) result"
  xp_metadata :: "(string, bool \<times> 32 word) result"
  xp_read :: "(string, string) result"

definition missing_or_unreadable :: "string \<Rightarrow> io_error \<Rightarrow> deployed_error" where
  "missing_or_unreadable path e = (case e of
      NotFound \<Rightarrow> ExecutableMissing path
    | OtherIo m \<Rightarrow> ExecutableUnreadable path m)"

definition validate_executable :: "digest \<Rightarrow> executable_probe \<Rightarrow> deployed_document \<Rightarrow> dcheck" where
  "validate_executable sha probe d = (let path = dd_executable_path d in
     and_then (map_err (missing_or_unreadable path) (xp_path_metadata probe)) (\<lambda>regular.
     and_then (ensure regular (ExecutableNotRegularFile path)) (\<lambda>_.
     and_then (map_err (missing_or_unreadable path) (xp_open probe)) (\<lambda>_.
     and_then (map_err (ExecutableUnreadable path) (xp_metadata probe)) (\<lambda>(regular, mode).
     and_then (ensure regular (ExecutableNotRegularFile path)) (\<lambda>_.
     and_then (ensure (mode AND 0x49 \<noteq> 0) (ExecutableNotExecutable path)) (\<lambda>_.
     and_then (map_err (ExecutableUnreadable path) (xp_read probe)) (\<lambda>bytes.
     let measured = hex_sha256 sha bytes
     in ensure (measured = dd_binary_sha256 d) (BinaryDigestMismatch (dd_binary_sha256 d) measured)))))))))"

section \<open>The static identity\<close>

definition DEPLOYED_GENERATOR_IDENTITY_DOMAIN :: string where
  "DEPLOYED_GENERATOR_IDENTITY_DOMAIN = ''onshape-export-deployed-generator-v1'' @ [CHR 0x00]"

definition immutable_payload :: "deployed_document \<Rightarrow> json" where
  "immutable_payload d = members [
     (''packageIdentity'', Some (JStr (dd_package_identity d))),
     (''packageSha256'', Some (JStr (dd_package_sha256 d))),
     (''buildIdentity'', Some (JStr (dd_build_identity d))),
     (''binaryIdentity'', Some (JStr (dd_binary_identity d))),
     (''binarySha256'', Some (JStr (dd_binary_sha256 d))),
     (''protocolVersion'', Some (u32_json (dd_protocol_version d))),
     (''dialectIdentity'', Some (JStr (dd_dialect_identity d))),
     (''capabilityIdentities'', Some (JArr (map JStr (dd_capability_identities d)))),
     (''inputKindIdentity'', Some (JStr (dd_input_kind_identity d))),
     (''inputSchemaIdentity'', Some (JStr (dd_input_schema_identity d))),
     (''settingsSchemaIdentity'', Some (JStr (dd_settings_schema_identity d))),
     (''provenanceSetIdentity'', Some (JStr (dd_provenance_set_identity d))),
     (''normalizationIdentity'', Some (JStr (dd_normalization_identity d))),
     (''validationIdentity'', Some (JStr (dd_validation_identity d)))]"

definition computed_static_identity ::
  "canonicalizer \<Rightarrow> digest \<Rightarrow> deployed_document \<Rightarrow> (deployed_error, string) result" where
  "computed_static_identity jcs sha d =
    and_then (map_err IdentityFailure (jcs (immutable_payload d))) (\<lambda>canonical.
      Ok (hex_sha256 sha (DEPLOYED_GENERATOR_IDENTITY_DOMAIN @ canonical)))"

section \<open>Loading\<close>

definition DUPLICATE_MARKER :: string where "DUPLICATE_MARKER = ''onshape-export-duplicate-field:''"

definition map_decode_error :: "string \<Rightarrow> deployed_error" where
  "map_decode_error m = (if contains DUPLICATE_MARKER m then DuplicateField else ConfigDecodeFailure m)"

definition parse_config_value ::
  "(f64 \<Rightarrow> string) \<Rightarrow> (string \<Rightarrow> event \<times> (string, unit) result) \<Rightarrow> string \<Rightarrow> (deployed_error, json) result" where
  "parse_config_value print tokens bytes = (let (e, rest) = tokens bytes in
     and_then (map_err map_decode_error (strict_value (\<lambda>k. DUPLICATE_MARKER @ k) print e)) (\<lambda>v.
     and_then (map_err map_decode_error rest) (\<lambda>_. Ok v)))"

definition from_bytes ::
  "(f64 \<Rightarrow> string) \<Rightarrow> (string \<Rightarrow> event \<times> (string, unit) result) \<Rightarrow> (json \<Rightarrow> (string, deployed_document) result)
    \<Rightarrow> canonicalizer \<Rightarrow> digest \<Rightarrow> executable_probe \<Rightarrow> string \<Rightarrow> (deployed_error, deployed_generator) result" where
  "from_bytes print tokens decode jcs sha probe bytes =
    and_then (parse_config_value print tokens bytes) (\<lambda>v.
    and_then (ensure (as_object v \<noteq> None) (ConfigInvalid ''document must be one JSON object'')) (\<lambda>_.
    and_then (map_err ConfigInvalid (decode v)) (\<lambda>d.
    and_then (validate_deployed d) (\<lambda>_.
    and_then (validate_executable sha probe d) (\<lambda>_.
    and_then (computed_static_identity jcs sha d) (\<lambda>identity.
      Ok \<lparr>dg_document = d, dg_static_identity = identity\<rparr>))))))"

text \<open>The configuration file: absent variable and absent file both mean that nothing is configured.\<close>

definition load_generator ::
  "(string \<Rightarrow> (deployed_error, deployed_generator) result) \<Rightarrow> string option \<Rightarrow> (string \<Rightarrow> (io_error, string) result)
    \<Rightarrow> (deployed_error, deployed_generator) result" where
  "load_generator open_bytes path read = (case path of
      None \<Rightarrow> Err NotConfigured
    | Some path \<Rightarrow> (case read path of
        Ok bytes \<Rightarrow> open_bytes bytes
      | Err NotFound \<Rightarrow> Err NotConfigured
      | Err (OtherIo m) \<Rightarrow> Err (ConfigReadFailure path m)))"

datatype availability = AvailableGenerator deployed_generator | NoGenerator

definition load_availability :: "(deployed_error, deployed_generator) result \<Rightarrow> (deployed_error, availability) result" where
  "load_availability r = (case r of
      Ok g \<Rightarrow> Ok (AvailableGenerator g)
    | Err NotConfigured \<Rightarrow> Ok NoGenerator
    | Err e \<Rightarrow> Err e)"

fun availability_identity :: "availability \<Rightarrow> string option" where
  "availability_identity NoGenerator = None"
| "availability_identity (AvailableGenerator g) = Some (dg_static_identity g)"

section \<open>Compatibility\<close>

definition ensure_compatible :: "deployed_generator \<Rightarrow> compatibility_request \<Rightarrow> dcheck" where
  "ensure_compatible g r = (let d = dg_document g in
     checks (map (\<lambda>(matches, field). ensure matches (UnsupportedCombination field)) [
       (cr_protocol_version r = dd_protocol_version d, ''protocolVersion''),
       (cr_dialect_identity r = dd_dialect_identity d, ''dialectIdentity''),
       (cr_capability_identities r = dd_capability_identities d, ''capabilityIdentities''),
       (cr_input_kind_identity r = dd_input_kind_identity d, ''inputKindIdentity''),
       (cr_input_schema_identity r = dd_input_schema_identity d, ''inputSchemaIdentity''),
       (cr_settings_schema_identity r = dd_settings_schema_identity d, ''settingsSchemaIdentity'')]))"

definition identity_bindings_of :: "deployed_generator \<Rightarrow> string \<Rightarrow> identity_bindings" where
  "identity_bindings_of g settings_identity = (let d = dg_document g in
     \<lparr>ib_package_identity = dd_package_identity d, ib_build_identity = dd_build_identity d,
      ib_binary_identity = dd_binary_identity d, ib_dialect_identity = dd_dialect_identity d,
      ib_capability_identities = dd_capability_identities d,
      ib_input_kind_identity = dd_input_kind_identity d, ib_input_schema_identity = dd_input_schema_identity d,
      ib_settings_identity = settings_identity, ib_settings_schema_identity = dd_settings_schema_identity d,
      ib_provenance_set_identity = dd_provenance_set_identity d,
      ib_normalization_identity = dd_normalization_identity d, ib_validation_identity = dd_validation_identity d\<rparr>)"

section \<open>What the static identity identifies\<close>

lemma immutable_payload_inj:
  "immutable_payload d = immutable_payload d' \<longleftrightarrow> d' = d\<lparr>dd_executable_path := dd_executable_path d'\<rparr>"
  by (cases d; cases d') (auto simp: immutable_payload_def u32_json_inj dest!: members_inj)

text \<open>
  Two deployments have the same static identity exactly when their documents agree in everything
  but the path of the executable, as long as canonicalisation and SHA-256 tell the two payloads apart.
\<close>

lemma static_identity_identifies:
  assumes "unambiguous jcs (\<lambda>b. sha (DEPLOYED_GENERATOR_IDENTITY_DOMAIN @ b)) {immutable_payload d, immutable_payload d'}"
    and "computed_static_identity jcs sha d = Ok h"
  shows "computed_static_identity jcs sha d' = Ok h \<longleftrightarrow> d' = d\<lparr>dd_executable_path := dd_executable_path d'\<rparr>"
proof -
  let ?D = DEPLOYED_GENERATOR_IDENTITY_DOMAIN
  have "immutable_payload d = immutable_payload d'" if t: "computed_static_identity jcs sha d' = Ok h"
  proof -
    obtain b c where bc: "jcs (immutable_payload d) = Ok b" "jcs (immutable_payload d') = Ok c"
      and "hex_sha256 sha (?D @ b) = hex_sha256 sha (?D @ c)"
      using assms(2) t by (auto simp: computed_static_identity_def result_simps)
    then have "sha (?D @ b) = sha (?D @ c)" by (auto simp: hex_sha256_def dest: hex_inj)
    then have "b = c" using assms(1) bc unfolding unambiguous_def by blast
    then show ?thesis using assms(1) bc unfolding unambiguous_def by blast
  qed
  moreover have "computed_static_identity jcs sha d' = Ok h" if "immutable_payload d = immutable_payload d'"
    using assms(2) that by (simp add: computed_static_identity_def)
  ultimately show ?thesis using immutable_payload_inj [of d d'] by blast
qed

end
