(* ===== verification/Annotation_Carriers.thy ===== *)
theory Annotation_Carriers
  imports Annotation
begin

text \<open>
  The grammar of an annotation and the round trip through the Part Name: the suffix that writes an
  annotation is read back as that annotation, with the display name in front of it.
\<close>

named_theorems annotation_simps \<open>the checks of an annotation succeed on its grammar\<close>

section \<open>Annotations\<close>

definition annotation_ok :: "nat \<Rightarrow> annotation \<Rightarrow> bool" where
  "annotation_ok limit a \<longleftrightarrow> pred_option key_ok (an_key a) \<and> length (an_targets a) \<le> limit
    \<and> list_all key_ok (an_targets a) \<and> distinct (an_targets a)
    \<and> (an_role a = Printable \<longleftrightarrow> an_targets a = [])"

lemma validate_key_Ok [annotation_simps]: "validate_key v f = Ok u \<longleftrightarrow> key_ok v"
  by (simp add: validate_key_def result_simps)

lemma validate_display_name_Ok [annotation_simps]: "validate_display_name v f = Ok u \<longleftrightarrow> display_name_ok v"
  by (simp add: validate_display_name_def result_simps)

lemma validate_source_value_Ok [annotation_simps]: "validate_source_value v f = Ok u \<longleftrightarrow> visible_bytes 4096 v"
  by (simp add: validate_source_value_def result_simps MAX_SOURCE_VALUE_BYTES_def)

lemma validate_object_identity_Ok [annotation_simps]: "validate_object_identity v f = Ok u \<longleftrightarrow> visible_bytes 256 v"
  by (simp add: validate_object_identity_def result_simps MAX_IDENTITY_LENGTH_def)

lemma unique_targets_Ok:
  assumes "\<And>t i. check t i = Ok () \<longleftrightarrow> P t"
  shows "(\<exists>s. try_fold (unique_target message check) seen (enumerate n ts) = Ok s) \<longleftrightarrow>
    list_all P ts \<and> distinct ts \<and> set ts \<inter> seen = {}"
proof -
  have "unique_target message check s x = Ok s' \<longleftrightarrow> P (snd x) \<and> snd x \<notin> s \<and> s' = insert (snd x) s" for s x s'
    by (cases x) (auto simp: unique_target_def result_simps assms)
  from try_fold_seen [of "unique_target message check" "P \<circ> snd" snd, unfolded o_def, OF this]
  have "(\<exists>s. try_fold (unique_target message check) seen (enumerate n ts) = Ok s) \<longleftrightarrow>
      (\<forall>x \<in> set (enumerate n ts). P (snd x)) \<and> distinct (map snd (enumerate n ts))
        \<and> snd ` set (enumerate n ts) \<inter> seen = {}" by auto
  moreover have "snd ` set (enumerate n ts) = set ts" by (simp flip: set_map)
  moreover have "(\<forall>x \<in> set (enumerate n ts). P (snd x)) \<longleftrightarrow> (\<forall>t \<in> set (map snd (enumerate n ts)). P t)"
    unfolding set_map by blast
  ultimately show ?thesis by (simp add: list_all_iff)
qed

lemma validate_annotation_Ok [annotation_simps]: "validate_annotation a limit f = Ok u \<longleftrightarrow> annotation_ok limit a"
proof -
  have k: "if_some (an_key a) (\<lambda>k. validate_key k g) = Ok () \<longleftrightarrow> pred_option key_ok (an_key a)" for g
    by (cases "an_key a") (auto simp: if_some_def annotation_simps)
  have t: "and_then (try_fold (unique_target message (\<lambda>t i. validate_key t (g i))) {} (enumerate 0 (an_targets a)))
      (\<lambda>_. Ok ()) = Ok () \<longleftrightarrow> list_all key_ok (an_targets a) \<and> distinct (an_targets a)" for message g
    using unique_targets_Ok [of "\<lambda>t i. validate_key t (g i)" key_ok message "{}" 0 "an_targets a"]
    by (simp add: result_simps annotation_simps)
  show ?thesis
    by (cases "an_role a") (auto simp: validate_annotation_def annotation_ok_def checks_Ok k t demand_Ok)
qed

section \<open>Writing the Name suffix\<close>

definition render_directives :: "annotation \<Rightarrow> string list" where
  "render_directives a = [''v1'', ''role='' @ semantic_role_key (an_role a)]
    @ (case an_key a of None \<Rightarrow> [] | Some k \<Rightarrow> [''key='' @ k])
    @ [''targets='' @ join_with CHR '','' (an_targets a)]"

definition render_suffix :: "annotation \<Rightarrow> string" where
  "render_suffix a = '' [onshape-export:'' @ join_with CHR '';'' (render_directives a) @ '']''"

definition plain :: "char \<Rightarrow> bool" where
  "plain c \<longleftrightarrow> is_key_character c \<or> c \<in> {CHR ''='', CHR '',''}"

lemma key_character_plain: "is_key_character c \<Longrightarrow> plain c \<and> c \<noteq> CHR '','' \<and> c \<noteq> CHR ''=''"
  by (auto simp: plain_def is_key_character_def byte_class_defs)

lemma key_ok_characters: "key_ok k \<Longrightarrow> list_all is_key_character k \<and> k \<noteq> []"
  by (cases k) (auto simp: key_ok_def is_key_character_def)

lemma set_join: "set (join_with d ws) \<subseteq> insert d (\<Union> (set ` set ws))"
  by (induction d ws rule: join_with.induct) auto

lemma targets_plain:
  assumes "list_all key_ok ts"
  shows "list_all plain (join_with CHR '','' ts)"
proof -
  have "plain c" if "t \<in> set ts" "c \<in> set t" for t c
    using assms that key_ok_characters [of t] key_character_plain [of c] by (auto simp: list_all_iff)
  moreover have "plain CHR '',''" by (simp add: plain_def)
  ultimately show ?thesis using set_join [of "CHR '',''" ts] unfolding list_all_iff by blast
qed

lemma directives_plain:
  assumes "annotation_ok limit a" "w \<in> set (render_directives a)"
  shows "list_all plain w"
proof -
  have "list_all plain (join_with CHR '','' (an_targets a))" using assms(1) targets_plain by (simp add: annotation_ok_def)
  moreover have "list_all plain k" if "an_key a = Some k" for k
    using assms(1) that key_ok_characters [of k] key_character_plain by (auto simp: annotation_ok_def list_all_iff)
  moreover have "list_all plain (semantic_role_key r)" for r
    by (cases r) (simp_all add: plain_def is_key_character_def byte_class_defs)
  moreover have "list_all plain ''v1''" "list_all plain ''role=''" "list_all plain ''key=''" "list_all plain ''targets=''"
    by (simp_all add: plain_def is_key_character_def byte_class_defs)
  ultimately show ?thesis using assms(2) by (auto simp: render_directives_def split: option.splits)
qed

lemma plain_not: "plain c \<Longrightarrow> c \<notin> {CHR '';'', CHR '' '', CHR ''['', CHR '']'', CHR ''%''} \<and> is_ascii_byte c"
  by (auto simp: plain_def is_key_character_def byte_class_defs is_ascii_byte_def)

lemma split_targets:
  assumes "list_all key_ok ts" "ts \<noteq> []"
  shows "split_on CHR '','' (join_with CHR '','' ts) = ts \<and> join_with CHR '','' ts \<noteq> []"
proof
  have c: "CHR '','' \<notin> set t" if "t \<in> set ts" for t
    using assms(1) that key_ok_characters [of t] key_character_plain by (auto simp: list_all_iff)
  show s: "split_on CHR '','' (join_with CHR '','' ts) = ts"
    using assms(2) c by (intro split_join) auto
  show "join_with CHR '','' ts \<noteq> []"
  proof
    assume "join_with CHR '','' ts = []"
    then have "ts = [[]]" using s by simp
    then show False using assms(1) by (simp add: key_ok_def)
  qed
qed

lemma parse_rendered_directives:
  assumes "annotation_ok 4 a"
  shows "parse_directives (render_directives a) = Ok a"
proof -
  have r: "parse_role_directive (''role='' @ semantic_role_key (an_role a)) = Ok (an_role a)"
    by (cases "an_role a") (simp_all add: parse_role_directive_def)
  have t: "parse_targets_directive (''targets='' @ join_with CHR '','' (an_targets a)) = Ok (an_targets a)"
  proof (cases "an_targets a = []")
    case True
    then show ?thesis by (simp add: parse_targets_directive_def and_then_def ok_or_def)
  next
    case False
    then show ?thesis
      using split_targets [of "an_targets a"] assms
      by (simp add: parse_targets_directive_def and_then_def ok_or_def annotation_ok_def)
  qed
  have v: "validate_annotation a MAX_NAME_TARGETS f = Ok ()" for f
    using assms by (simp add: annotation_simps MAX_NAME_TARGETS_def)
  show ?thesis
  proof (cases "an_key a")
    case None
    then have e: "\<lparr>an_role = an_role a, an_key = None, an_targets = an_targets a\<rparr> = a" by simp
    then show ?thesis
      using r t v None by (simp add: e parse_directives_def render_directives_def and_then_def demand_def ensure_def Let_def)
  next
    case (Some k)
    have "parse_key_directive (''key='' @ k) = Ok (Some k)"
      using assms Some by (simp add: parse_key_directive_def and_then_def ok_or_def validate_key_def demand_def
          ensure_def annotation_ok_def)
    moreover have e: "\<lparr>an_role = an_role a, an_key = Some k, an_targets = an_targets a\<rparr> = a" using Some by simp
    ultimately show ?thesis
      using r t v Some by (simp add: e parse_directives_def render_directives_def and_then_def demand_def ensure_def Let_def)
  qed
qed

section \<open>The exact grammar of an annotated Part Name\<close>

lemma parse_role_Ok: "parse_role_directive w = Ok r \<longleftrightarrow> w = ''role='' @ semantic_role_key r"
proof
  assume a: "parse_role_directive w = Ok r"
  then obtain t where "w = ''role='' @ t"
    by (auto simp: parse_role_directive_def strip_prefix_Some split: option.splits)
  with a show "w = ''role='' @ semantic_role_key r"
    by (auto simp: parse_role_directive_def split: if_splits)
qed (cases r; simp add: parse_role_directive_def)

lemma parse_key_Ok: "parse_key_directive w = Ok k \<longleftrightarrow> (\<exists>v. k = Some v \<and> w = ''key='' @ v \<and> key_ok v)"
  unfolding parse_key_directive_def by (auto simp: result_simps annotation_simps strip_prefix_Some)

lemma parse_targets_Ok: "parse_targets_directive w = Ok ts \<Longrightarrow> w = ''targets='' @ join_with CHR '','' ts"
  unfolding parse_targets_directive_def by (auto simp: result_simps strip_prefix_Some split: if_splits)

lemma parse_directives_Ok: "parse_directives ds = Ok a \<longleftrightarrow> ds = render_directives a \<and> annotation_ok 4 a"
proof
  assume h: "parse_directives ds = Ok a"
  then have ok: "annotation_ok 4 a"
    unfolding parse_directives_def by (auto simp: result_simps annotation_simps MAX_NAME_TARGETS_def Let_def)
  have role: "parse_role_directive (ds ! 1) = Ok (an_role a)" and v: "ds ! 0 = ''v1''"
    using h unfolding parse_directives_def by (auto simp: result_simps demand_Ok Let_def)
  have "length ds = 3 \<or> length ds = 4" using h unfolding parse_directives_def by (auto simp: result_simps demand_Ok)
  then show "ds = render_directives a \<and> annotation_ok 4 a"
  proof
    assume l: "length ds = 3"
    then obtain x y z where ds: "ds = [x, y, z]" by (auto simp: numeral_eq_Suc length_Suc_conv)
    have "an_key a = None" "parse_targets_directive z = Ok (an_targets a)"
      using h l unfolding parse_directives_def ds by (auto simp: result_simps Let_def)
    then show ?thesis using role v ok by (auto simp: ds render_directives_def parse_role_Ok dest!: parse_targets_Ok)
  next
    assume l: "length ds = 4"
    then obtain x y k z where ds: "ds = [x, y, k, z]" by (auto simp: numeral_eq_Suc length_Suc_conv)
    have "parse_key_directive k = Ok (an_key a)" "parse_targets_directive z = Ok (an_targets a)"
      using h l unfolding parse_directives_def ds by (auto simp: result_simps Let_def)
    then show ?thesis
      using role v ok by (auto simp: ds render_directives_def parse_role_Ok parse_key_Ok dest!: parse_targets_Ok)
  qed
qed (use parse_rendered_directives in blast)

lemma split_directives:
  assumes "annotation_ok 4 a"
  shows "split_on CHR '';'' (join_with CHR '';'' (render_directives a)) = render_directives a"
proof (rule split_join)
  show "\<forall>w \<in> set (render_directives a). CHR '';'' \<notin> set w"
    using directives_plain [OF assms] plain_not by (fastforce simp: list_all_iff)
qed (simp add: render_directives_def)

lemma suffix_characters:
  assumes "annotation_ok 4 a"
  shows "list_all (\<lambda>c. plain c \<or> c = CHR '';'') (join_with CHR '';'' (render_directives a))"
  using set_join [of "CHR '';''" "render_directives a"] directives_plain [OF assms]
  unfolding list_all_iff by blast

lemma contains_byte: "contains [c] s \<longleftrightarrow> c \<in> set s"
  by (auto simp: contains_iff in_set_conv_decomp)

lemma contains_first: "contains (c # p) s \<Longrightarrow> c \<in> set s"
  by (auto simp: contains_iff)

lemma ends_with_iff: "ends_with p s \<longleftrightarrow> (\<exists>t. s = t @ p)"
proof -
  have "ends_with p s \<longleftrightarrow> (\<exists>t. rev s = rev p @ t)" by (simp add: ends_with_def starts_with_iff)
  also have "\<dots> \<longleftrightarrow> (\<exists>t. s = t @ p)" by (metis rev_append rev_rev_ident)  finally show ?thesis .
qed

lemma marker_of_suffix:
  assumes "annotation_ok 4 a"
  shows "rfind NAME_MARKER_PREFIX (d @ render_suffix a) = Some (length d)"
proof -
  let ?b = "join_with CHR '';'' (render_directives a) @ '']''"
  have "CHR '' '' \<notin> set ?b" using suffix_characters [OF assms] plain_not by (fastforce simp: list_all_iff)
  then have "CHR '' '' \<notin> set (tl (NAME_MARKER_PREFIX @ ?b))" by (simp add: NAME_MARKER_PREFIX_def)
  moreover have "NAME_MARKER_PREFIX = CHR '' '' # ''[onshape-export:''" by (simp add: NAME_MARKER_PREFIX_def)
  ultimately have "\<not> contains NAME_MARKER_PREFIX (tl (NAME_MARKER_PREFIX @ ?b))"
    by (metis contains_first)
  then show ?thesis
    using rfind_append [of NAME_MARKER_PREFIX ?b d] by (simp add: NAME_MARKER_PREFIX_def render_suffix_def)
qed

text \<open>
  C13: the Part Names that carry an annotation are exactly a valid display name followed by the suffix
  written for a valid annotation, the whole itself a valid name and the suffix within 192 bytes; the
  parser returns that display name and that annotation, so an annotation has one spelling and is read
  back as it was written.
\<close>

theorem name_annotation_grammar:
  "parse_name_annotation name = Ok (d, Some a) \<longleftrightarrow>
    name = d @ render_suffix a \<and> annotation_ok 4 a \<and> display_name_ok d
      \<and> display_name_ok name \<and> length (render_suffix a) \<le> 192"
proof
  assume h: "parse_name_annotation name = Ok (d, Some a)"
  then obtain n where n: "rfind NAME_MARKER_PREFIX name = Some n"
    by (auto simp: parse_name_annotation_def result_simps split: option.splits)
  from h n have r: "d = take n name" "display_name_ok d" "display_name_ok name" "length (drop n name) \<le> 192"
    and e: "\<exists>body. strip_prefix '' [onshape-export:'' (drop n name) = Some (body @ '']'')
      \<and> parse_directives (split_on CHR '';'' body) = Ok a"
    by (auto simp: parse_name_annotation_def result_simps annotation_simps demand_Ok Let_def bind_eq_Some_conv
        MAX_NAME_SUFFIX_BYTES_def strip_suffix_Some split: if_splits)
  obtain body where b: "drop n name = '' [onshape-export:'' @ body @ '']''"
    and a: "split_on CHR '';'' body = render_directives a" "annotation_ok 4 a"
    using e by (auto simp: strip_prefix_Some parse_directives_Ok)
  have "body = join_with CHR '';'' (render_directives a)" using a(1) join_split by metis
  with b have "drop n name = render_suffix a" by (simp add: render_suffix_def)  then have "drop n name = render_suffix a" by (simp add: render_suffix_def)
  then show "name = d @ render_suffix a \<and> annotation_ok 4 a \<and> display_name_ok d
      \<and> display_name_ok name \<and> length (render_suffix a) \<le> 192"
    using a r by (metis append_take_drop_id)
next
  assume h: "name = d @ render_suffix a \<and> annotation_ok 4 a \<and> display_name_ok d
      \<and> display_name_ok name \<and> length (render_suffix a) \<le> 192"
  then have name: "display_name_ok (d @ render_suffix a)" by metis
  let ?b = "join_with CHR '';'' (render_directives a)"
  have chars: "is_ascii (render_suffix a)" "CHR ''%'' \<notin> set (render_suffix a)"
    using h suffix_characters [of a] plain_not
    by (fastforce simp: render_suffix_def list_all_iff is_ascii_byte_def)+
  have "strip_prefix '' [onshape-export:'' (render_suffix a) = Some (?b @ '']'')" "strip_suffix '']'' (?b @ '']'') = Some ?b"
    "ends_with '']'' (render_suffix a)"
    by (simp_all add: render_suffix_def strip_prefix_Some strip_suffix_Some ends_with_iff)
  then show "parse_name_annotation name = Ok (d, Some a)"
    using h name chars split_directives [of a] marker_of_suffix [of a d] parse_directives_Ok [of "render_directives a" a]
    by (simp add: parse_name_annotation_def and_then_Ok checks_Ok demand_Ok ok_or_Ok annotation_simps Let_def
        contains_byte MAX_NAME_SUFFIX_BYTES_def)
qed

end
