(* ===== verification/Annotation_Settings.thy ===== *)
theory Annotation_Settings
  imports Annotation_Carriers
begin

text \<open>
  What the authoring document guarantees, and the generator settings built from it: the links of a
  valid document resolve, so that building its settings cannot panic, and the result passes the
  validation against the manifest it was built for.
\<close>

section \<open>The index of keys\<close>

lemma enumerate_snoc: "enumerate n (xs @ [x]) = enumerate n xs @ [(n + length xs, x)]"
  by (simp add: enumerate_append_eq)

definition key_at :: "authoring_object list \<Rightarrow> nat \<Rightarrow> string option" where
  "key_at objects i = an_key (ao_annotation (objects ! i))"

definition holders :: "authoring_object list \<Rightarrow> string \<Rightarrow> nat list" where
  "holders objects k = filter (\<lambda>i. key_at objects i = Some k) [0..<length objects]"

definition key_index :: "authoring_object list \<Rightarrow> (string \<rightharpoonup> nat list)" where
  "key_index objects k = (if holders objects k = [] then None else Some (holders objects k))"

lemma holders_snoc: "holders (xs @ [x]) k = holders xs k @ (if an_key (ao_annotation x) = Some k then [length xs] else [])"
proof -
  have "filter (\<lambda>i. key_at (xs @ [x]) i = Some k) [0..<length xs] = holders xs k"
    unfolding holders_def by (rule filter_cong) (auto simp: key_at_def nth_append)
  then show ?thesis by (simp add: holders_def key_at_def)
qed

lemma key_index_snoc: "key_index (xs @ [x]) = push_key (an_key (ao_annotation x)) (length xs) (key_index xs)"
  by (auto simp: key_index_def push_key_def holders_snoc fun_eq_iff split: option.splits)

definition object_ok :: "authoring_object \<Rightarrow> bool" where
  "object_ok x \<longleftrightarrow> (\<forall>i. validate_authoring_object x i = Ok ())"

fun selector_ok :: "authoring_selector \<Rightarrow> bool" where
  "selector_ok (PartStudioPart d m e c p) = list_all (visible_bytes 4096) [p, d, m, e, c]"
| "selector_ok (AssemblyOccurrence d m e c path) =
    (list_all (visible_bytes 4096) ([d, m, e, c] @ path) \<and> path \<noteq> [] \<and> length path \<le> 64)"

lemma validate_selector_Ok [annotation_simps]: "validate_selector s f = Ok u \<longleftrightarrow> selector_ok s"
proof (cases s)
  case (AssemblyOccurrence d m e c path)
  have "each (\<lambda>i v. validate_source_value v (g i)) path = Ok () \<longleftrightarrow> list_all (visible_bytes 4096) path" for g
    by (simp add: each_from_all annotation_simps list_all_iff)
  then show ?thesis
    by (auto simp: AssemblyOccurrence checks_Ok annotation_simps demand_Ok validate_source_parts_def
        MAX_OCCURRENCE_PATH_SEGMENTS_def)
qed (auto simp: checks_Ok annotation_simps validate_source_parts_def)

lemma authoring_object_Ok [annotation_simps]:
  "validate_authoring_object x i = Ok u \<longleftrightarrow>
    selector_ok (ao_selector x) \<and> display_name_ok (ao_display_name x) \<and> annotation_ok 64 (ao_annotation x)"
  by (auto simp: validate_authoring_object_def Let_def checks_Ok annotation_simps MAX_DESCRIPTION_TARGETS_def)

lemma object_ok_iff:
  "object_ok x \<longleftrightarrow>
    selector_ok (ao_selector x) \<and> display_name_ok (ao_display_name x) \<and> annotation_ok 64 (ao_annotation x)"
  by (simp add: object_ok_def annotation_simps)

lemma index_object_Ok:
  "index_object (sel, keys) (i, x) = Ok s' \<longleftrightarrow> object_ok x \<and> ao_selector x \<notin> sel
    \<and> s' = (insert (ao_selector x) sel, push_key (an_key (ao_annotation x)) i keys)"
  by (auto simp: index_object_def result_simps annotation_simps demand_Ok object_ok_iff)

lemma index_objects_Ok:
  "try_fold index_object ({}, Map.empty) (enumerate 0 objects) = Ok s \<longleftrightarrow>
    list_all object_ok objects \<and> distinct (map ao_selector objects)
      \<and> s = (set (map ao_selector objects), key_index objects)"
proof (induction objects arbitrary: s rule: rev_induct)
  case Nil
  then show ?case by (auto simp: key_index_def holders_def fun_eq_iff)
next
  case (snoc x xs)
  have "try_fold index_object ({}, Map.empty) (enumerate 0 (xs @ [x])) = Ok s \<longleftrightarrow>
      (\<exists>s0. try_fold index_object ({}, Map.empty) (enumerate 0 xs) = Ok s0 \<and> index_object s0 (length xs, x) = Ok s)"
    by (auto simp: enumerate_snoc try_fold_append split: sum.splits)
  also have "\<dots> \<longleftrightarrow> list_all object_ok xs \<and> distinct (map ao_selector xs)
      \<and> index_object (set (map ao_selector xs), key_index xs) (length xs, x) = Ok s"
    using snoc by auto
  also have "\<dots> \<longleftrightarrow> list_all object_ok (xs @ [x]) \<and> distinct (map ao_selector (xs @ [x]))
      \<and> s = (set (map ao_selector (xs @ [x])), key_index (xs @ [x]))"
    by (auto simp: index_object_Ok key_index_snoc)
  finally show ?case .
qed

section \<open>The document\<close>

text \<open>A target names the key of exactly one object, another one, and that object is printable.\<close>

definition resolves :: "authoring_object list \<Rightarrow> nat \<Rightarrow> string \<Rightarrow> nat \<Rightarrow> bool" where
  "resolves objects i t j \<longleftrightarrow> holders objects t = [j] \<and> j \<noteq> i \<and> an_role (ao_annotation (objects ! j)) = Printable"

definition linked :: "authoring_object list \<Rightarrow> bool" where
  "linked objects \<longleftrightarrow> (\<forall>i < length objects. \<forall>t \<in> set (an_targets (ao_annotation (objects ! i))). \<exists>j. resolves objects i t j)"

lemma validate_target_Ok:
  "validate_target objects (key_index objects) i t = Ok u \<longleftrightarrow> (\<exists>j. resolves objects i t j)"
proof -
  have "length xs = Suc 0 \<longleftrightarrow> (\<exists>j. xs = [j])" for xs :: "nat list" by (auto simp: length_Suc_conv)
  then show ?thesis
    by (auto simp: validate_target_def resolves_def key_index_def Let_def result_simps demand_Ok)
qed

definition within_size :: "writer \<Rightarrow> json \<Rightarrow> bool" where
  "within_size to_vec v \<longleftrightarrow> (case to_vec v of Ok bytes \<Rightarrow> length bytes \<le> 1048576 | Err _ \<Rightarrow> False)"

lemma validate_size_Ok [annotation_simps]: "validate_serialized_size to_vec v d = Ok u \<longleftrightarrow> within_size to_vec v"
  by (cases "to_vec v") (simp_all add: validate_serialized_size_def within_size_def and_then_def map_err_def
      MAX_DOCUMENT_BYTES_def)

lemma document_Ok:
  "validate_authoring_document to_vec d = Ok () \<longleftrightarrow>
    within_size to_vec (authoring_document_json d) \<and> ad_schema_version d = 1 \<and> length (ad_objects d) \<le> 256
      \<and> list_all object_ok (ad_objects d) \<and> distinct (map ao_selector (ad_objects d)) \<and> linked (ad_objects d)"
proof -
  have "each (\<lambda>i x. each (\<lambda>_ t. validate_target (ad_objects d) (key_index (ad_objects d)) i t)
      (an_targets (ao_annotation x))) (ad_objects d) = Ok () \<longleftrightarrow> linked (ad_objects d)"
    unfolding linked_def each_from_Ok [of 0 _ "ad_objects d"] add_0
      each_from_all [OF validate_target_Ok [of "ad_objects d"]] ..
  then show ?thesis
    by (auto simp: validate_authoring_document_def result_simps annotation_simps demand_Ok index_objects_Ok
        AUTHORING_SCHEMA_VERSION_def MAX_OBJECTS_def)
qed


section \<open>The settings of a document\<close>

lemma unique_keys_last:
  "unique_keys objects t = (if holders objects t = [] then None else Some (last (holders objects t)))"
proof (induction objects rule: rev_induct)
  case Nil
  then show ?case by (simp add: unique_keys_def holders_def)
next
  case (snoc x xs)
  have "unique_keys (xs @ [x]) = (case an_key (ao_annotation x) of
      None \<Rightarrow> unique_keys xs | Some k \<Rightarrow> (unique_keys xs)(k \<mapsto> length xs))"
    by (cases "an_key (ao_annotation x)") (simp_all add: unique_keys_def enumerate_snoc)
  then show ?case using snoc by (auto simp: holders_snoc split: option.splits)
qed

lemma enumerate_nth: "enumerate 0 xs = map (\<lambda>i. (i, xs ! i)) [0..<length xs]"
  by (rule nth_equalityI) (simp_all add: nth_enumerate_eq)

definition blocker_at :: "authoring_object list \<Rightarrow> string list \<Rightarrow> nat \<Rightarrow> settings_blocker" where
  "blocker_at objects ids i = \<lparr>sb_object_identity = ids ! i,
     sb_targets = map (\<lambda>t. ids ! hd (holders objects t)) (an_targets (ao_annotation (objects ! i)))\<rparr>"

definition blocker_positions :: "authoring_object list \<Rightarrow> nat list" where
  "blocker_positions objects =
    filter (\<lambda>i. an_role (ao_annotation (objects ! i)) = SupportBlocker) [0..<length objects]"

text \<open>The settings a linked document is meant to have.\<close>

definition intended_settings :: "authoring_object list \<Rightarrow> string list \<Rightarrow> generator_settings" where
  "intended_settings objects ids =
    \<lparr>gs_schema_version = 1, gs_blockers = map (blocker_at objects ids) (blocker_positions objects)\<rparr>"

lemma those_map_Some: "\<forall>x \<in> set xs. f x = Some (g x) \<Longrightarrow> those (map f xs) = Some (map g xs)"
  by (induction xs) auto

lemma holders_less: "j \<in> set (holders objects t) \<Longrightarrow> j < length objects \<and> key_at objects j = Some t"
  by (simp add: holders_def)

lemma blocker_of_linked:
  assumes "linked objects" "length ids = length objects" "i < length objects"
  shows "blocker_of ids (unique_keys objects) (i, objects ! i) = Some (blocker_at objects ids i)"
proof -
  have "target_identity ids (unique_keys objects) t = Some (ids ! hd (holders objects t))"
    if t: "t \<in> set (an_targets (ao_annotation (objects ! i)))" for t
  proof -
    obtain j where "holders objects t = [j]" using assms(1,3) t by (auto simp: linked_def resolves_def)
    then show ?thesis
      using assms(2) holders_less [of j objects t] by (simp add: target_identity_def unique_keys_last at_index_def)
  qed
  then have "those (map (target_identity ids (unique_keys objects)) (an_targets (ao_annotation (objects ! i))))
      = Some (map (\<lambda>t. ids ! hd (holders objects t)) (an_targets (ao_annotation (objects ! i))))"
    by (intro those_map_Some ballI)
  then show ?thesis
    using assms by (simp add: blocker_of_def at_index_def blocker_at_def)
qed

lemma build_linked:
  assumes "validate_authoring_document to_vec d = Ok ()" "length ids = length (ad_objects d)"
    "list_all (visible_bytes 256) ids"
  shows "build_generator_settings to_vec d ids =
    (let s = intended_settings (ad_objects d) ids
     in Some (and_then (validate_generator_settings to_vec s) (\<lambda>_. Ok s)))"
proof -
  let ?o = "ad_objects d"
  have l: "linked ?o" using assms(1) by (simp add: document_Ok)
  have "those (map (blocker_of ids (unique_keys ?o))
      (filter (\<lambda>(_, x). an_role (ao_annotation x) = SupportBlocker) (enumerate 0 ?o)))
    = those (map (\<lambda>i. blocker_of ids (unique_keys ?o) (i, ?o ! i)) (blocker_positions ?o))"
    by (simp add: enumerate_nth blocker_positions_def filter_map o_def)
  also have "\<dots> = Some (map (blocker_at ?o ids) (blocker_positions ?o))"
    by (rule those_map_Some) (simp add: blocker_of_linked [OF l assms(2)] blocker_positions_def)
  finally have b: "those (map (blocker_of ids (unique_keys ?o))
      (filter (\<lambda>(_, x). an_role (ao_annotation x) = SupportBlocker) (enumerate 0 ?o)))
    = Some (map (blocker_at ?o ids) (blocker_positions ?o))" .
  have "each (\<lambda>i v. validate_object_identity v (g i)) ids = Ok ()" for g
    using assms(3) by (simp add: each_from_all annotation_simps list_all_iff)
  then have "and_then (validate_authoring_document to_vec d) (\<lambda>_. checks [
      demand (length ids = length ?o) m,
      each (\<lambda>i v. validate_object_identity v (g i)) ids]) = Ok ()" for m g
    using assms(1,2) by (simp add: result_simps demand_Ok)
  then show ?thesis
    by (simp add: build_generator_settings_def b intended_settings_def AUTHORING_SCHEMA_VERSION_def Let_def)
qed

text \<open>
  Building the settings of any document for any list of identities returns settings or an error:
  the lookups of the keys and of the identities, which would panic, are always in range.
\<close>

lemma build_settings_never_panics: "build_generator_settings to_vec d ids \<noteq> None"
proof -
  let ?v = "and_then (validate_authoring_document to_vec d) (\<lambda>_. checks [
        demand (length ids = length (ad_objects d))
          ''manifest identity list must align exactly with authoring objects'',
        each (\<lambda>i v. validate_object_identity v (''manifestObjectIdentities['' @ nat_str i @ '']'')) ids])"
  show ?thesis
  proof (cases ?v)
    case (Inl e)
    then show ?thesis by (simp add: build_generator_settings_def)
  next
    case (Inr u)
    then have "validate_authoring_document to_vec d = Ok ()" "length ids = length (ad_objects d)"
      "list_all (visible_bytes 256) ids"
      by (auto simp: result_simps demand_Ok annotation_simps list_all_length)
    from build_linked [OF this] show ?thesis by (simp add: Let_def)
  qed
qed

section \<open>Validating settings\<close>

fun blocker_ok :: "settings_blocker \<Rightarrow> bool" where
  "blocker_ok b \<longleftrightarrow> visible_bytes 256 (sb_object_identity b) \<and> list_all (visible_bytes 256) (sb_targets b)
    \<and> distinct (sb_targets b) \<and> sb_targets b \<noteq> [] \<and> length (sb_targets b) \<le> 64"

declare blocker_ok.simps [simp del]

lemma validate_blocker_Ok:
  "validate_blocker (seen, edges) (i, b) = Ok s' \<longleftrightarrow> blocker_ok b \<and> sb_object_identity b \<notin> seen
    \<and> s' = (insert (sb_object_identity b) seen, edges + length (sb_targets b))"
proof -
  have t: "and_then (try_fold (unique_target m (\<lambda>t j. validate_object_identity t (g j))) {} (enumerate 0 (sb_targets b)))
      (\<lambda>_. Ok ()) = Ok () \<longleftrightarrow> list_all (visible_bytes 256) (sb_targets b) \<and> distinct (sb_targets b)" for m g
    using unique_targets_Ok [of "\<lambda>t j. validate_object_identity t (g j)" "visible_bytes 256" m "{}" 0 "sb_targets b"]
    by (simp add: result_simps annotation_simps)
  show ?thesis
    by (auto simp: validate_blocker_def Let_def and_then_Ok [of "checks cs" for cs] checks_Ok t demand_Ok
        annotation_simps blocker_ok.simps MAX_DESCRIPTION_TARGETS_def)
qed

definition edges :: "settings_blocker list \<Rightarrow> nat" where
  "edges bs = sum_list (map (length \<circ> sb_targets) bs)"

lemma validate_blockers_Ok:
  "try_fold validate_blocker (seen, n) (enumerate i bs) = Ok s \<longleftrightarrow>
    list_all blocker_ok bs \<and> distinct (map sb_object_identity bs) \<and> sb_object_identity ` set bs \<inter> seen = {}
      \<and> s = (sb_object_identity ` set bs \<union> seen, n + edges bs)"
proof (induction bs arbitrary: seen n i)
  case (Cons b bs)
  have "try_fold validate_blocker (seen, n) (enumerate i (b # bs)) = Ok s \<longleftrightarrow>
      (\<exists>s'. validate_blocker (seen, n) (i, b) = Ok s' \<and> try_fold validate_blocker s' (enumerate (Suc i) bs) = Ok s)"
    by (auto split: sum.splits)
  also have "\<dots> \<longleftrightarrow> blocker_ok b \<and> sb_object_identity b \<notin> seen \<and> try_fold validate_blocker
      (insert (sb_object_identity b) seen, n + length (sb_targets b)) (enumerate (Suc i) bs) = Ok s"
    by (simp add: validate_blocker_Ok)
  finally show ?case by (auto simp: Cons.IH edges_def)
qed (auto simp: edges_def)

lemma edges_bound: "list_all blocker_ok bs \<Longrightarrow> edges bs \<le> 64 * length bs"
  by (induction bs) (auto simp: edges_def blocker_ok.simps)

text \<open>The limit on the edges follows from the limits on the blockers and on the targets of each.\<close>

lemma validate_settings_Ok [annotation_simps]:
  "validate_generator_settings to_vec s = Ok u \<longleftrightarrow>
    within_size to_vec (generator_settings_json s) \<and> gs_schema_version s = 1 \<and> length (gs_blockers s) \<le> 256
      \<and> list_all blocker_ok (gs_blockers s) \<and> distinct (map sb_object_identity (gs_blockers s))"
  using edges_bound [of "gs_blockers s"]
  by (auto simp: validate_generator_settings_def result_simps annotation_simps demand_Ok validate_blockers_Ok
      AUTHORING_SCHEMA_VERSION_def MAX_OBJECTS_def MAX_SETTINGS_EDGES_def)

lemma index_manifest_object_Ok:
  "index_manifest_object m (i, x) = Ok m' \<longleftrightarrow> visible_bytes 256 (mo_object_identity x)
    \<and> mo_object_identity x \<notin> dom m \<and> m' = m(mo_object_identity x \<mapsto> mo_transport_role x)"
  by (auto simp: index_manifest_object_def result_simps annotation_simps demand_Ok)

lemma index_manifest_Ok:
  "try_fold index_manifest_object m (enumerate i xs) = Ok m' \<longleftrightarrow>
    list_all (\<lambda>x. visible_bytes 256 (mo_object_identity x)) xs \<and> distinct (map mo_object_identity xs)
      \<and> mo_object_identity ` set xs \<inter> dom m = {}
      \<and> m' = hm.insert_all (map (\<lambda>x. (mo_object_identity x, mo_transport_role x)) xs) m"
proof (induction xs arbitrary: m i)
  case (Cons x xs)
  have "try_fold index_manifest_object m (enumerate i (x # xs)) = Ok m' \<longleftrightarrow>
      visible_bytes 256 (mo_object_identity x) \<and> mo_object_identity x \<notin> dom m \<and>
      try_fold index_manifest_object (m(mo_object_identity x \<mapsto> mo_transport_role x)) (enumerate (Suc i) xs) = Ok m'"
  proof (cases "index_manifest_object m (i, x)")
    case (Inl e)
    then show ?thesis using index_manifest_object_Ok [of m i x "m(mo_object_identity x \<mapsto> mo_transport_role x)"] by simp
  next
    case (Inr m1)
    then show ?thesis using index_manifest_object_Ok [of m i x m1] by auto
  qed
  moreover have "dom (m(mo_object_identity x \<mapsto> mo_transport_role x)) = insert (mo_object_identity x) (dom m)" by simp
  ultimately show ?case unfolding Cons.IH by (auto simp: hm.insert_all_def simp del: fun_upd_apply)
qed (auto simp: hm.insert_all_def)

section \<open>The settings fit the manifest\<close>

text \<open>The manifest of a document: its objects under the given identities, in the roles they are transported in.\<close>

definition summary_at :: "authoring_object list \<Rightarrow> string list \<Rightarrow> nat \<Rightarrow> manifest_object_summary" where
  "summary_at objects ids i = \<lparr>mo_object_identity = ids ! i,
     mo_transport_role = transport_role (an_role (ao_annotation (objects ! i)))\<rparr>"

definition manifest_of :: "authoring_object list \<Rightarrow> string list \<Rightarrow> manifest_object_summary list" where
  "manifest_of objects ids = map (summary_at objects ids) [0..<length objects]"

lemma manifest_identities:
  "length ids = length objects \<Longrightarrow> map mo_object_identity (manifest_of objects ids) = ids"
  by (rule nth_equalityI) (simp_all add: manifest_of_def summary_at_def)

lemma manifest_lookup:
  assumes "distinct ids" "length ids = length objects" "i < length objects"
  shows "map_of (map (\<lambda>x. (mo_object_identity x, mo_transport_role x)) (manifest_of objects ids)) (ids ! i)
    = Some (transport_role (an_role (ao_annotation (objects ! i))))"
proof (rule map_of_is_SomeI)
  show "distinct (map fst (map (\<lambda>x. (mo_object_identity x, mo_transport_role x)) (manifest_of objects ids)))"
    using manifest_identities [OF assms(2)] assms(1) by (simp add: o_def)
  show "(ids ! i, transport_role (an_role (ao_annotation (objects ! i))))
      \<in> set (map (\<lambda>x. (mo_object_identity x, mo_transport_role x)) (manifest_of objects ids))"
    using assms(3) by (auto simp: manifest_of_def summary_at_def image_iff)
qed

lemma transport_role_eq [simp]:
  "transport_role r = AuxiliaryGeometry \<longleftrightarrow> r = SupportBlocker" "transport_role r = RawGeometry \<longleftrightarrow> r = Printable"
  by (cases r; simp)+

lemma intended_fits:
  assumes "linked objects" "distinct ids" "length ids = length objects" "list_all (visible_bytes 256) ids"
    "validate_generator_settings to_vec (intended_settings objects ids) = Ok ()"
  shows "validate_settings_context to_vec (intended_settings objects ids) (manifest_of objects ids) = Ok ()"
proof -
  let ?m = "map_of (map (\<lambda>x. (mo_object_identity x, mo_transport_role x)) (manifest_of objects ids))"
  have ids: "map mo_object_identity (manifest_of objects ids) = ids" by (rule manifest_identities [OF assms(3)])
  have v: "list_all (\<lambda>x. visible_bytes 256 (mo_object_identity x)) (manifest_of objects ids)"
    using assms(4) list.pred_map [of "visible_bytes 256" mo_object_identity "manifest_of objects ids"]
    unfolding ids comp_def by simp
  have "distinct (map fst (map (\<lambda>x. (mo_object_identity x, mo_transport_role x)) (manifest_of objects ids)))"
    using assms(2) ids by (simp add: comp_def)
  from hm.get_insert_all_distinct [OF TrueI this, of Map.empty]
  have m: "hm.insert_all (map (\<lambda>x. (mo_object_identity x, mo_transport_role x)) (manifest_of objects ids)) Map.empty = ?m"
    by (intro ext) (simp split: option.split)
  have i: "try_fold index_manifest_object Map.empty (enumerate 0 (manifest_of objects ids)) = Ok ?m"
    unfolding index_manifest_Ok m ids using v assms(2) by simp  have a: "mo_object_identity ` set (filter (\<lambda>x. mo_transport_role x = AuxiliaryGeometry) (manifest_of objects ids))
      = sb_object_identity ` set (gs_blockers (intended_settings objects ids))"
    by (simp add: manifest_of_def intended_settings_def blocker_positions_def summary_at_def blocker_at_def
        filter_map o_def image_image)
  have t: "?m (ids ! hd (holders objects t)) = Some RawGeometry"
    if h: "k < length objects" "t \<in> set (an_targets (ao_annotation (objects ! k)))" for k t
  proof -
    obtain j where j: "holders objects t = [j]" "an_role (ao_annotation (objects ! j)) = Printable"
      using assms(1) h unfolding linked_def resolves_def by blast
    then have "j < length objects" using holders_less [of j objects t] by simp
    then show ?thesis using manifest_lookup [OF assms(2,3)] j by simp
  qed
  have b: "?m (sb_object_identity b) = Some AuxiliaryGeometry \<and> (\<forall>t \<in> set (sb_targets b). ?m t = Some RawGeometry)"
    if "b \<in> set (gs_blockers (intended_settings objects ids))" for b
    using that t manifest_lookup [OF assms(2,3)]
    by (auto simp: intended_settings_def blocker_positions_def blocker_at_def)
  show ?thesis
    unfolding validate_settings_context_def Let_def
    using assms(5) i a b by (auto simp: and_then_Ok checks_Ok demand_Ok each_from_all)
qed

text \<open>
  C15: settings that were built from a document pass the validation against the manifest of its objects,
  under the same identities and with the role each object is transported in, exactly when those
  identities are distinct.
\<close>

theorem built_settings_fit_manifest:
  assumes "build_generator_settings to_vec d ids = Some (Ok s)"
  shows "validate_settings_context to_vec s (manifest_of (ad_objects d) ids) = Ok () \<longleftrightarrow> distinct ids"
proof -
  let ?v = "and_then (validate_authoring_document to_vec d) (\<lambda>_. checks [
        demand (length ids = length (ad_objects d))
          ''manifest identity list must align exactly with authoring objects'',
        each (\<lambda>i v. validate_object_identity v (''manifestObjectIdentities['' @ nat_str i @ '']'')) ids])"
  have "?v = Ok ()" using assms by (cases ?v) (auto simp: build_generator_settings_def)
  then have d: "validate_authoring_document to_vec d = Ok ()" "length ids = length (ad_objects d)"
      "list_all (visible_bytes 256) ids"
    by (auto simp: result_simps demand_Ok annotation_simps list_all_length)
  from assms build_linked [OF d] have s: "s = intended_settings (ad_objects d) ids"
      "validate_generator_settings to_vec s = Ok ()"
    by (auto simp: Let_def and_then_Ok)
  have l: "linked (ad_objects d)" using d(1) by (simp add: document_Ok)
  show ?thesis
  proof
    assume "validate_settings_context to_vec s (manifest_of (ad_objects d) ids) = Ok ()"
    then have "distinct (map mo_object_identity (manifest_of (ad_objects d) ids))"
      by (auto simp: validate_settings_context_def and_then_Ok index_manifest_Ok)
    then show "distinct ids" by (simp add: manifest_identities d(2))
  next
    assume "distinct ids"
    then show "validate_settings_context to_vec s (manifest_of (ad_objects d) ids) = Ok ()"
      using intended_fits [OF l _ d(2,3)] s by simp
  qed
qed

text \<open>A part and a support blocker that targets it.\<close>

definition example_objects :: "authoring_object list" where
  "example_objects = [
     \<lparr>ao_selector = PartStudioPart ''d'' ''m'' ''e'' ''c'' ''p1'', ao_display_name = ''Body'',
      ao_annotation = \<lparr>an_role = Printable, an_key = Some ''body'', an_targets = []\<rparr>\<rparr>,
     \<lparr>ao_selector = PartStudioPart ''d'' ''m'' ''e'' ''c'' ''p2'', ao_display_name = ''Blocker'',
      ao_annotation = \<lparr>an_role = SupportBlocker, an_key = None, an_targets = [''body'']\<rparr>\<rparr>]"

definition example_document :: authoring_document where
  "example_document = \<lparr>ad_schema_version = 1, ad_objects = example_objects\<rparr>"

definition example_settings :: generator_settings where
  "example_settings = \<lparr>gs_schema_version = 1,
     gs_blockers = [\<lparr>sb_object_identity = ''B'', sb_targets = [''A'']\<rparr>]\<rparr>"

lemma example_build:
  "build_generator_settings (\<lambda>_. Ok []) example_document [''A'', ''B''] = Some (Ok example_settings)"
proof -
  have h: "holders example_objects ''body'' = [0]" "length example_objects = 2"
    by (simp_all add: holders_def example_objects_def key_at_def numeral_2_eq_2)
  have v: "list_all (visible_bytes 256) [''A'', ''B'']" and "list_all object_ok example_objects"
    by (simp_all add: example_objects_def object_ok_iff visible_bytes_def byte_class_defs display_name_ok_def
        MAX_DISPLAY_NAME_SCALARS_def is_control_def annotation_ok_def key_ok_def is_key_character_def)
  moreover have "resolves example_objects 1 ''body'' 0" by (simp add: resolves_def h) (simp add: example_objects_def)
  then have "linked example_objects"
    unfolding linked_def h(2) by (auto simp: example_objects_def less_2_cases_iff)
  moreover have "distinct (map ao_selector example_objects)" by (simp add: example_objects_def)
  ultimately have d: "validate_authoring_document (\<lambda>_. Ok []) example_document = Ok ()"
    by (simp add: document_Ok example_document_def within_size_def h)
  have "blocker_positions example_objects = [1]"
    by (simp add: blocker_positions_def example_objects_def numeral_2_eq_2)
  then have s: "intended_settings example_objects [''A'', ''B''] = example_settings"
    by (simp add: intended_settings_def blocker_at_def example_settings_def h) (simp add: example_objects_def h [unfolded example_objects_def])
  have "validate_generator_settings (\<lambda>_. Ok []) example_settings = Ok ()"
    by (simp add: validate_settings_Ok within_size_def example_settings_def blocker_ok.simps visible_bytes_def byte_class_defs)
  then show ?thesis
    using build_linked [OF d, of "[''A'', ''B'']"] v s h by (simp add: example_document_def and_then_def)
qed

theorem built_settings_fit_manifest_witness:
  "validate_settings_context (\<lambda>_. Ok []) example_settings
     (manifest_of (ad_objects example_document) [''A'', ''B'']) = Ok ()"
  using built_settings_fit_manifest [OF example_build] by simp

end
