(* ===== verification/Annotation_Placements.thy ===== *)
theory Annotation_Placements
  imports Annotation_Settings
begin

text \<open>
  Settings of version 2: normalisation removes the negative zeros of the placement matrices, so that
  comparing two normalised matrices as floating-point numbers compares their bits, and settings that
  pass the validation in context carry exactly the expected placements.
\<close>

section \<open>Floating-point equality after normalisation\<close>

lemma neg_zero_exponent: "f64_exponent F64_NEG_ZERO = 0" "f64_exponent 0 = 0" "f64_exponent F64_ONE = 1023"
  by (simp_all add: f64_exponent_def F64_NEG_ZERO_def F64_ONE_def)

lemma not_nan: "f64_is_finite x \<Longrightarrow> \<not> f64_is_nan x"
  by (simp add: f64_is_finite_def f64_is_nan_def)

lemma eq_zero: "f64_eq x 0 \<longleftrightarrow> f64_is_zero x"
  by (auto simp: f64_eq_def f64_is_zero_def f64_is_nan_def neg_zero_exponent)

definition normal_scalar :: "f64 \<Rightarrow> bool" where
  "normal_scalar x \<longleftrightarrow> f64_is_finite x \<and> x \<noteq> F64_NEG_ZERO"

lemma eq_normal: "\<lbrakk>normal_scalar x; normal_scalar y\<rbrakk> \<Longrightarrow> f64_eq x y \<longleftrightarrow> x = y"
  by (auto simp: f64_eq_def normal_scalar_def not_nan f64_is_zero_def)

lemma normalize_scalar: "f64_is_finite x \<Longrightarrow> normal_scalar (if f64_eq x 0 then 0 else x)"
  by (auto simp: eq_zero f64_is_zero_def normal_scalar_def f64_is_finite_def neg_zero_exponent F64_NEG_ZERO_def)

lemma normalize_no_neg_zero: "F64_NEG_ZERO \<notin> set (normalize_matrix m)"
  by (auto simp: normalize_matrix_def eq_zero f64_is_zero_def F64_NEG_ZERO_def)

lemma normalize_idem: "normalize_matrix (normalize_matrix m) = normalize_matrix m"
  by (simp add: normalize_matrix_def eq_zero f64_is_zero_def)

lemma eq_normal_list: "\<lbrakk>list_all normal_scalar xs; list_all normal_scalar ys\<rbrakk> \<Longrightarrow> f64s_eq xs ys \<longleftrightarrow> xs = ys"
  unfolding f64s_eq_def by (induction xs arbitrary: ys) (auto simp: list_all2_Cons1 eq_normal)

lemma finite_normal: "list_all f64_is_finite (normalize_matrix m) \<longleftrightarrow> list_all normal_scalar (normalize_matrix m)"
  using normalize_no_neg_zero [of m] by (auto simp: normal_scalar_def list_all_iff)

text \<open>Bit for bit: 16 finite scalars, none a negative zero, with the last row of an affine map.\<close>

definition affine_matrix :: "f64 list \<Rightarrow> bool" where
  "affine_matrix m \<longleftrightarrow> length m = 16 \<and> list_all normal_scalar m \<and> drop 12 m = [0, 0, 0, F64_ONE]"

definition valid_matrix :: "f64 list \<Rightarrow> bool" where
  "valid_matrix m \<longleftrightarrow> length m = 16 \<and> list_all f64_is_finite m \<and> f64s_eq (drop 12 m) [0, 0, 0, F64_ONE]"

lemma validate_matrix_Ok [annotation_simps]: "validate_matrix m f = Ok u \<longleftrightarrow> valid_matrix m"
  by (auto simp: validate_matrix_def valid_matrix_def checks_Ok demand_Ok)

lemma valid_normalized: "valid_matrix (normalize_matrix m) \<longleftrightarrow> affine_matrix (normalize_matrix m)"
proof -
  have n: "list_all normal_scalar [0, 0, 0, F64_ONE]"
    by (auto simp: normal_scalar_def f64_is_finite_def neg_zero_exponent F64_NEG_ZERO_def F64_ONE_def) (simp add: f64_exponent_def)
  have "f64s_eq (drop 12 (normalize_matrix m)) [0, 0, 0, F64_ONE] \<longleftrightarrow> drop 12 (normalize_matrix m) = [0, 0, 0, F64_ONE]"
    if "list_all normal_scalar (normalize_matrix m)"
    by (rule eq_normal_list [OF _ n]) (use that in \<open>auto simp: list_all_iff dest: in_set_dropD\<close>)
  then show ?thesis
    by (auto simp: valid_matrix_def affine_matrix_def finite_normal)
qed

section \<open>Settings in context\<close>

definition placement_of :: "expected_placement \<Rightarrow> settings_placement" where
  "placement_of e = \<lparr>sp_object_identity = ep_object_identity e, sp_matrix = normalize_matrix (ep_matrix e)\<rparr>"

definition placements_ok :: "settings_placement list \<Rightarrow> bool" where
  "placements_ok ps \<longleftrightarrow> list_all (\<lambda>p. visible_bytes 256 (sp_object_identity p) \<and> affine_matrix (sp_matrix p)) ps
    \<and> distinct (map sp_object_identity ps) \<and> length ps \<le> 256"

definition normalized_placements :: "settings_placement list \<Rightarrow> bool" where
  "normalized_placements ps \<longleftrightarrow> list_all (\<lambda>p. normalize_matrix (sp_matrix p) = sp_matrix p) ps"

lemma normalize_placements: "normalized_placements (gv_placements (normalize_generator_settings_v2 s))"
  by (simp add: normalized_placements_def normalize_generator_settings_v2_def list_all_iff normalize_idem)

lemma validate_placements_Ok:
  assumes "normalized_placements ps"
  shows "(\<exists>s. try_fold validate_placement {} (enumerate 0 ps) = Ok s) \<and> length ps \<le> 256 \<longleftrightarrow> placements_ok ps"
proof -
  have m: "valid_matrix (sp_matrix p) \<longleftrightarrow> affine_matrix (sp_matrix p)" if "p \<in> set ps" for p
    using that assms valid_normalized [of "sp_matrix p"] by (simp add: normalized_placements_def list_all_iff)
  let ?P = "\<lambda>ip. visible_bytes 256 (sp_object_identity (snd ip)) \<and> valid_matrix (sp_matrix (snd ip))"
  have "validate_placement s ip = Ok s' \<longleftrightarrow> ?P ip \<and> sp_object_identity (snd ip) \<notin> s
      \<and> s' = insert (sp_object_identity (snd ip)) s" for s ip s'
    by (cases ip) (auto simp: validate_placement_def Let_def and_then_Ok checks_Ok demand_Ok annotation_simps)  note fold = try_fold_seen [of validate_placement ?P "\<lambda>ip. sp_object_identity (snd ip)", OF this]
  have "map (\<lambda>ip. sp_object_identity (snd ip)) (enumerate 0 ps) = map sp_object_identity ps"
    using map_map [of sp_object_identity snd "enumerate 0 ps"] by (simp add: comp_def)
  moreover have "(\<forall>ip \<in> set (enumerate 0 ps). ?P ip) \<longleftrightarrow> (\<forall>p \<in> set (map snd (enumerate 0 ps)).
      visible_bytes 256 (sp_object_identity p) \<and> valid_matrix (sp_matrix p))"
    unfolding set_map by blast
  ultimately show ?thesis
    using m by (auto simp: fold placements_ok_def list_all_iff)
qed

lemma settings_v2_Ok:
  "validate_normalized_generator_settings_v2 to_vec print (normalize_generator_settings_v2 s) = Ok u \<longleftrightarrow>
    within_size to_vec (generator_settings_v2_json print (normalize_generator_settings_v2 s))
      \<and> gv_schema_version s = 2 \<and> validate_generator_settings to_vec (settings_v1_of s) = Ok ()
      \<and> placements_ok (gv_placements (normalize_generator_settings_v2 s))"
proof -
  let ?n = "normalize_generator_settings_v2 s"
  have "settings_v1_of ?n = settings_v1_of s" "gv_schema_version ?n = gv_schema_version s"
    by (simp_all add: settings_v1_of_def normalize_generator_settings_v2_def)
  then show ?thesis
    using validate_placements_Ok [OF normalize_placements, of s]
    by (auto simp: validate_normalized_generator_settings_v2_def checks_Ok demand_Ok annotation_simps and_then_Ok
        SETTINGS_V2_SCHEMA_VERSION_def MAX_OBJECTS_def)
qed

lemma expected_placement_Ok:
  assumes "normalize_matrix (sp_matrix p) = sp_matrix p" "affine_matrix (sp_matrix p)"
  shows "validate_expected_placement i (p, e) = Ok () \<longleftrightarrow>
    p = placement_of e \<and> affine_matrix (normalize_matrix (ep_matrix e))"
proof -
  have "f64s_eq (sp_matrix p) (normalize_matrix (ep_matrix e)) \<longleftrightarrow> sp_matrix p = normalize_matrix (ep_matrix e)"
    if "affine_matrix (normalize_matrix (ep_matrix e))"
    using that assms(2) by (intro eq_normal_list) (simp_all add: affine_matrix_def)
  then show ?thesis
    by (cases p) (auto simp: validate_expected_placement_def Let_def checks_Ok demand_Ok annotation_simps
        valid_normalized placement_of_def)
qed

lemma context_v2_Ok:
  "validate_settings_context_v2 to_vec print s expected = Ok () \<longleftrightarrow>
    within_size to_vec (generator_settings_v2_json print (normalize_generator_settings_v2 s))
      \<and> gv_schema_version s = 2
      \<and> validate_settings_context to_vec (settings_v1_of s) (map summary_of expected) = Ok ()
      \<and> gv_placements (normalize_generator_settings_v2 s) = map placement_of expected
      \<and> placements_ok (map placement_of expected)"
proof -
  let ?n = "normalize_generator_settings_v2 s"
  let ?ps = "gv_placements ?n"
  have v1: "settings_v1_of ?n = settings_v1_of s" by (simp add: settings_v1_of_def normalize_generator_settings_v2_def)
  have implied: "validate_generator_settings to_vec (settings_v1_of s) = Ok ()"
    if "validate_settings_context to_vec (settings_v1_of s) m = Ok ()" for m
    using that by (auto simp: validate_settings_context_def and_then_Ok)
  have e: "each validate_expected_placement (zip ?ps expected) = Ok () \<longleftrightarrow> ?ps = map placement_of expected"
    if ok: "placements_ok ?ps" and l: "length ?ps = length expected"
  proof -
    have j: "validate_expected_placement i (?ps ! i, expected ! i) = Ok () \<longleftrightarrow> ?ps ! i = placement_of (expected ! i)"
      if "i < length expected" for i
    proof -
      have "?ps ! i \<in> set ?ps" using that l by simp
      then have n: "normalize_matrix (sp_matrix (?ps ! i)) = sp_matrix (?ps ! i)" "affine_matrix (sp_matrix (?ps ! i))"
        using normalize_placements [of s] ok unfolding normalized_placements_def placements_ok_def list_all_iff by auto
      then show ?thesis by (auto simp: expected_placement_Ok placement_of_def)
    qed
    show ?thesis
      using l j by (auto simp: each_from_Ok list_eq_iff_nth_eq)
  qed
  show ?thesis
    unfolding validate_settings_context_v2_def Let_def checks_Ok v1
    using e implied by (auto simp: settings_v2_Ok demand_Ok)
qed

text \<open>
  C16: settings with placements are accepted in a context exactly when they serialise within a mebibyte,
  have version 2, their blockers fit the manifest of the context, and after normalisation their
  placements are, bit for bit and in manifest order, the normalised expected placements, each an affine
  map with identities of their own.
\<close>

theorem settings_v2_in_context_iff:
  "validate_settings_context_v2 to_vec print s expected = Ok () \<longleftrightarrow>
    within_size to_vec (generator_settings_v2_json print (normalize_generator_settings_v2 s))
      \<and> gv_schema_version s = 2
      \<and> validate_settings_context to_vec (settings_v1_of s) (map summary_of expected) = Ok ()
      \<and> gv_placements (normalize_generator_settings_v2 s) = map placement_of expected
      \<and> placements_ok (map placement_of expected)"
  by (rule context_v2_Ok)

end
