(* ===== verification/Bounded_Json.thy ===== *)
theory Bounded_Json
  imports Strict_Json
begin

text \<open>
  The bounded JSON reader (\<open>parse_json\<close> and \<open>BoundedValue\<close> of \<open>src/src/onshape_api.rs\<close>), over the
  events of the tokenizer: every error of the visitor becomes the same failure, so the visitor returns
  \<open>None\<close>. The count of the members is the budget that all the objects of the document share.
\<close>

section \<open>Failures\<close>

datatype failure_kind =
    InvalidSelection
  | OperationalApiContractFailure
  | UnavailableSourceState
  | AuthenticationFailure
  | TransportFailure
  | OperationalTimeoutFailure
  | OperationalTranslationFailure
  | OperationalHttpFailure

record safe_diagnostic =
  sd_code :: string
  sd_message :: string
  sd_operation :: "string option"
  sd_selector_position :: "nat option"

record api_failure =
  af_kind :: failure_kind
  af_diagnostics :: "safe_diagnostic list"

fun failure_message :: "failure_kind \<Rightarrow> string" where
  "failure_message InvalidSelection = ''The selection request is invalid.''"
| "failure_message OperationalApiContractFailure = ''The Onshape API contract could not be verified.''"
| "failure_message UnavailableSourceState = ''The selected source state is unavailable.''"
| "failure_message AuthenticationFailure = ''Onshape authentication failed.''"
| "failure_message TransportFailure = ''The Onshape operation did not complete.''"
| "failure_message OperationalTimeoutFailure = ''The geometry acquisition deadline expired.''"
| "failure_message OperationalTranslationFailure = ''The geometry translation failed.''"
| "failure_message OperationalHttpFailure = ''The geometry HTTP operation failed.''"

definition is_code_byte :: "char \<Rightarrow> bool" where
  "is_code_byte c \<longleftrightarrow> is_lower c \<or> is_digit c \<or> c \<in> {CHR ''_'', CHR ''.'', CHR ''-''}"

definition api_failure_new :: "failure_kind \<Rightarrow> string \<Rightarrow> api_failure" where
  "api_failure_new kind name = (let name = take 128 (filter is_code_byte name) in
     \<lparr>af_kind = kind, af_diagnostics = [\<lparr>sd_code = (if name = [] then ''failure'' else name),
        sd_message = failure_message kind, sd_operation = None, sd_selector_position = None\<rparr>]\<rparr>)"

definition operational :: "string \<Rightarrow> api_failure" where
  "operational name = api_failure_new OperationalApiContractFailure name"

definition with_operation :: "string \<Rightarrow> api_failure \<Rightarrow> api_failure" where
  "with_operation operation f = f\<lparr>af_diagnostics :=
     map (\<lambda>d. d\<lparr>sd_operation := Some (take 128 (filter is_graphic operation))\<rparr>) (af_diagnostics f)\<rparr>"

definition with_position :: "nat \<Rightarrow> api_failure \<Rightarrow> api_failure" where
  "with_position position f = f\<lparr>af_diagnostics :=
     map (\<lambda>d. d\<lparr>sd_selector_position := Some position\<rparr>) (af_diagnostics f)\<rparr>"

fun failure_kind_name :: "failure_kind \<Rightarrow> string" where
  "failure_kind_name InvalidSelection = ''InvalidSelection''"
| "failure_kind_name OperationalApiContractFailure = ''OperationalApiContractFailure''"
| "failure_kind_name UnavailableSourceState = ''UnavailableSourceState''"
| "failure_kind_name AuthenticationFailure = ''AuthenticationFailure''"
| "failure_kind_name TransportFailure = ''TransportFailure''"
| "failure_kind_name OperationalTimeoutFailure = ''OperationalTimeoutFailure''"
| "failure_kind_name OperationalTranslationFailure = ''OperationalTranslationFailure''"
| "failure_kind_name OperationalHttpFailure = ''OperationalHttpFailure''"

definition shown_text :: "(char \<Rightarrow> bool) \<Rightarrow> string \<Rightarrow> bool" where
  "shown_text allowed s \<longleftrightarrow> s \<noteq> [] \<and> length s \<le> 128 \<and> list_all allowed s"

definition display_failure :: "api_failure \<Rightarrow> string" where
  "display_failure f = failure_kind_name (af_kind f) @ (case af_diagnostics f of
      [] \<Rightarrow> []
    | d # _ \<Rightarrow> if \<not> shown_text is_code_byte (sd_code d) then []
        else '' ('' @ sd_code d @ (case sd_operation d of
            None \<Rightarrow> []
          | Some operation \<Rightarrow> if shown_text is_graphic operation then '' in '' @ operation else []) @ '')'')"

section \<open>The visitor\<close>

definition MAX_DEPTH :: nat where "MAX_DEPTH = 32"
definition MAX_ARRAY_ENTRIES :: nat where "MAX_ARRAY_ENTRIES = 4096"
definition MAX_OBJECT_MEMBERS :: nat where "MAX_OBJECT_MEMBERS = 256"
definition MAX_TOTAL_MEMBERS :: nat where "MAX_TOTAL_MEMBERS = 262144"

fun bounded_value :: "(f64 \<Rightarrow> string) \<Rightarrow> nat \<Rightarrow> nat \<Rightarrow> event \<Rightarrow> (json \<times> nat) option"
  and bounded_seq :: "(f64 \<Rightarrow> string) \<Rightarrow> nat \<Rightarrow> nat \<Rightarrow> event list \<Rightarrow> json list \<Rightarrow> (json list \<times> nat) option"
  and bounded_map :: "(f64 \<Rightarrow> string) \<Rightarrow> nat \<Rightarrow> nat \<Rightarrow> (string \<times> event) list \<Rightarrow> jmap \<Rightarrow> (jmap \<times> nat) option" where
  "bounded_value print depth used (Failure _) = None"
| "bounded_value print depth used Unit = Some (JNull, used)"
| "bounded_value print depth used (Boolean b) = Some (JBool b, used)"
| "bounded_value print depth used (Signed i) = Some (JNum (from_i64 i), used)"
| "bounded_value print depth used (Unsigned u) = Some (JNum (PosInt u), used)"
| "bounded_value print depth used (Double x) = (case from_f64 print x of
      Some n \<Rightarrow> Some (JNum n, used) | None \<Rightarrow> None)"
| "bounded_value print depth used (Text s) = Some (JStr s, used)"
| "bounded_value print depth used (Sequence es) =
    (if depth \<ge> MAX_DEPTH then None
     else (case bounded_seq print (Suc depth) used es [] of
        Some (vs, used) \<Rightarrow> Some (JArr vs, used) | None \<Rightarrow> None))"
| "bounded_value print depth used (Object kes) =
    (if depth \<ge> MAX_DEPTH then None
     else (case bounded_map print (Suc depth) used kes [] of
        Some (m, used) \<Rightarrow> Some (JObj m, used) | None \<Rightarrow> None))"
| "bounded_seq print depth used [] vs = Some (vs, used)"
| "bounded_seq print depth used (e # es) vs = (case bounded_value print depth used e of
      None \<Rightarrow> None
    | Some (v, used) \<Rightarrow>
        if length vs = MAX_ARRAY_ENTRIES then None else bounded_seq print depth used es (vs @ [v]))"
| "bounded_map print depth used [] m = Some (m, used)"
| "bounded_map print depth used ((k, e) # kes) m =
    (if length m = MAX_OBJECT_MEMBERS \<or> used = MAX_TOTAL_MEMBERS then None
     else if member k m \<noteq> None then None
     else (case bounded_value print depth (Suc used) e of
        None \<Rightarrow> None
      | Some (v, used) \<Rightarrow> bounded_map print depth used kes (bt_insert k v m)))"

section \<open>UTF-8\<close>

text \<open>\<open>str::from_utf8\<close>: no overlong form, no surrogate, nothing above U+10FFFF.\<close>

definition continuation :: "char \<Rightarrow> bool" where
  "continuation c \<longleftrightarrow> 128 \<le> code c \<and> code c < 192"

fun valid_utf8 :: "string \<Rightarrow> bool" where
  "valid_utf8 [] = True"
| "valid_utf8 (a # s) =
    (if code a < 128 then valid_utf8 s
     else if code a < 194 then False
     else if code a < 224 then (case s of
        b # s' \<Rightarrow> continuation b \<and> valid_utf8 s' | _ \<Rightarrow> False)
     else if code a < 240 then (case s of
        b # c # s' \<Rightarrow> continuation b \<and> continuation c
          \<and> (code a = 224 \<longrightarrow> 160 \<le> code b) \<and> (code a = 237 \<longrightarrow> code b < 160) \<and> valid_utf8 s'
      | _ \<Rightarrow> False)
     else if code a < 245 then (case s of
        b # c # d # s' \<Rightarrow> continuation b \<and> continuation c \<and> continuation d
          \<and> (code a = 240 \<longrightarrow> 144 \<le> code b) \<and> (code a = 244 \<longrightarrow> code b < 144) \<and> valid_utf8 s'
      | _ \<Rightarrow> False)
     else False)"

definition parse_bounded_json ::
  "(f64 \<Rightarrow> string) \<Rightarrow> (string \<Rightarrow> event \<times> (string, unit) result) \<Rightarrow> string \<Rightarrow> nat \<Rightarrow> (api_failure, json) result" where
  "parse_bounded_json print tokens bytes limit =
    (if length bytes > limit then Err (operational ''response_byte_limit'')
     else if \<not> valid_utf8 bytes then Err (operational ''invalid_json_utf8'')
     else (case bounded_value print 0 0 (fst (tokens bytes)) of
        None \<Rightarrow> Err (operational ''invalid_bounded_json'')
      | Some (v, _) \<Rightarrow>
          if is_ok (snd (tokens bytes)) then Ok v else Err (operational ''invalid_bounded_json'')))"

section \<open>What the reader accepts\<close>

fun members_of :: "event \<Rightarrow> nat" where
  "members_of (Sequence es) = sum_list (map members_of es)"
| "members_of (Object kes) = length kes + sum_list (map (\<lambda>(_, e). members_of e) kes)"
| "members_of _ = 0"

text \<open>The containers nest at most so deep, and none has too many entries.\<close>

fun within_bounds :: "nat \<Rightarrow> event \<Rightarrow> bool" where
  "within_bounds depth (Sequence es) = (depth < 32 \<and> length es \<le> 4096 \<and> list_all (within_bounds (Suc depth)) es)"
| "within_bounds depth (Object kes) =
    (depth < 32 \<and> length kes \<le> 256 \<and> list_all (\<lambda>(_, e). within_bounds (Suc depth) e) kes)"
| "within_bounds _ _ = True"

lemma length_bt_insert: "k \<notin> fst ` set m \<Longrightarrow> length (bt_insert k v m) = Suc (length m)"
  by (induction k v m rule: bt_insert.induct) auto

lemma bounded_reader:
  "used \<le> 262144 \<Longrightarrow> bounded_value print depth used e = Some (v, used') \<longleftrightarrow>
    unambiguous_event e \<and> within_bounds depth e \<and> used + members_of e \<le> 262144
      \<and> v = lenient print e \<and> used' = used + members_of e"
  "\<lbrakk>used \<le> 262144; length vs \<le> 4096\<rbrakk> \<Longrightarrow> bounded_seq print depth used es vs = Some (ws, used') \<longleftrightarrow>
    list_all unambiguous_event es \<and> list_all (within_bounds depth) es \<and> length vs + length es \<le> 4096
      \<and> used + sum_list (map members_of es) \<le> 262144
      \<and> ws = vs @ map (lenient print) es \<and> used' = used + sum_list (map members_of es)"
  "\<lbrakk>used \<le> 262144; length m \<le> 256\<rbrakk> \<Longrightarrow> bounded_map print depth used kes m = Some (m', used') \<longleftrightarrow>
    distinct (map fst kes) \<and> list_all (\<lambda>(_, e). unambiguous_event e) kes \<and> fst ` set kes \<inter> fst ` set m = {}
      \<and> list_all (\<lambda>(_, e). within_bounds depth e) kes \<and> length m + length kes \<le> 256
      \<and> used + length kes + sum_list (map (\<lambda>(_, e). members_of e) kes) \<le> 262144
      \<and> m' = bt.insert_all (map (\<lambda>(k, e). (k, lenient print e)) kes) m
      \<and> used' = used + length kes + sum_list (map (\<lambda>(_, e). members_of e) kes)"
proof (induction print depth used e and print depth used es vs and print depth used kes m
    arbitrary: v used' and ws used' and m' used' rule: bounded_value_bounded_seq_bounded_map.induct)
  case (6 print depth used x)
  then show ?case by (auto simp: from_f64_def)
next
  case (8 print depth used es)
  show ?case
  proof (cases "depth < 32")
    case True
    then have d: "\<not> MAX_DEPTH \<le> depth" by (simp add: MAX_DEPTH_def)
    note IH = "8.IH" [OF d "8.prems", of _]
    show ?thesis using IH True d by (auto split: option.splits prod.splits)
  next
    case False
    then show ?thesis by (simp add: MAX_DEPTH_def)
  qed
next
  case (9 print depth used kes)
  show ?case
  proof (cases "depth < 32")
    case True
    then have d: "\<not> MAX_DEPTH \<le> depth" by (simp add: MAX_DEPTH_def)
    note IH = "9.IH" [OF d "9.prems", of _]
    show ?thesis
    proof (cases "bounded_map print (Suc depth) used kes []")
      case None
      then show ?thesis
        using IH [of "bt.insert_all (map (\<lambda>(k, e). (k, lenient print e)) kes) []"
            "used + length kes + sum_list (map (\<lambda>(_, e). members_of e) kes)"] True d by auto
    next
      case (Some r)
      then show ?thesis using IH [of "fst r" "snd r"] True d by (cases r) auto
    qed
  next
    case False
    then show ?thesis by (simp add: MAX_DEPTH_def)
  qed
next
  case (11 print depth used e es vs)
  show ?case
  proof (cases "bounded_value print depth used e")
    case None
    then show ?thesis using "11.IH"(1) [OF "11.prems"(1), of "lenient print e" "used + members_of e"] by auto
  next
    case (Some r)
    obtain w u where r: "r = (w, u)" by (cases r)
    have e: "unambiguous_event e" "within_bounds depth e" "u \<le> 262144" "w = lenient print e" "u = used + members_of e"
      using "11.IH"(1) [OF "11.prems"(1), of w u] Some r by auto
    show ?thesis
    proof (cases "length vs = 4096")
      case True
      then show ?thesis using Some r by (simp add: MAX_ARRAY_ENTRIES_def)
    next
      case False
      then have l: "length vs \<noteq> MAX_ARRAY_ENTRIES" "length (vs @ [w]) \<le> 4096"
        using "11.prems" by (simp_all add: MAX_ARRAY_ENTRIES_def)
      show ?thesis
        using "11.IH"(2) [OF Some r [symmetric] l(1) e(3) l(2), of ws used'] Some r l e by auto
    qed
  qed
next
  case (12 print depth used m)
  then show ?case by (auto simp: bt.insert_all_def)
next
  case (13 print depth used k e kes m)
  show ?case
  proof (cases "length m = 256 \<or> used = 262144 \<or> member k m \<noteq> None")
    case True
    then show ?thesis using member_keys [of k m] by (auto simp: MAX_OBJECT_MEMBERS_def MAX_TOTAL_MEMBERS_def)
  next
    case False
    then have g: "\<not> (length m = MAX_OBJECT_MEMBERS \<or> used = MAX_TOTAL_MEMBERS)" "\<not> member k m \<noteq> None"
      "Suc used \<le> 262144" "k \<notin> fst ` set m"
      using "13.prems" member_keys [of k m] by (auto simp: MAX_OBJECT_MEMBERS_def MAX_TOTAL_MEMBERS_def)
    note IH1 = "13.IH"(1) [OF g(1,2,3)]
    show ?thesis
    proof (cases "bounded_value print depth (Suc used) e")
      case None
      then show ?thesis using IH1 [of "lenient print e" "Suc used + members_of e"] g by auto
    next
      case (Some r)
      obtain w u where r: "r = (w, u)" by (cases r)
      have e: "unambiguous_event e" "within_bounds depth e" "u \<le> 262144" "w = lenient print e"
        "u = Suc used + members_of e"
        using IH1 [of w u] Some r by auto
      have l: "length (bt_insert k w m) \<le> 256" "length (bt_insert k w m) = Suc (length m)"
        using False "13.prems" length_bt_insert [OF g(4)] by auto
      have ins: "bt.insert_all (map (\<lambda>(k, e). (k, lenient print e)) ((k, e) # kes)) m
          = bt.insert_all (map (\<lambda>(k, e). (k, lenient print e)) kes) (bt_insert k w m)"
        by (simp add: bt.insert_all_def e)
      show ?thesis
        using "13.IH"(2) [OF g(1,2) Some r [symmetric] e(3) l(1), of m' used'] Some r g l e
        unfolding ins by (auto simp: set_bt_insert)
    qed
  qed
qed auto

text \<open>
  C19: the bounded reader accepts a document exactly when no token of it is an error and no member is
  repeated, the containers nest at most 32 deep with at most 4096 elements or 256 members each, and the
  whole document has at most 262144 members; it then returns the ordinary value of the document.
\<close>

theorem bounded_reader_accepts_iff:
  "(\<exists>used. bounded_value print 0 0 e = Some (v, used)) \<longleftrightarrow>
    unambiguous_event e \<and> within_bounds 0 e \<and> members_of e \<le> 262144 \<and> v = lenient print e"
  by (simp add: bounded_reader(1))

end
