(* ===== verification/Generator_Processing.thy ===== *)
theory Generator_Processing
  imports Deployed_Generator Annotation_Placements Protocol_Documents Bounded_Json
begin

text \<open>
  Preparing the processing of an input manifest by the deployed generator
  (\<open>src/src/generator_processing.rs\<close>): the recipe with all its identities, its ordered occurrences, and
  reopening a stored recipe. An \<open>anyhow\<close> error is its outermost message.
\<close>

section \<open>The libraries\<close>

text \<open>
  What comes from outside: RFC 8785 canonicalisation, SHA-256, \<open>serde_json\<close>'s writer and tokenizer, the
  printer of an \<open>f64\<close>, and the text of the embedded schema of the settings.
\<close>

record libraries =
  lb_jcs :: canonicalizer
  lb_sha :: digest
  lb_to_vec :: writer
  lb_print :: "f64 \<Rightarrow> string"
  lb_tokens :: "string \<Rightarrow> event \<times> (string, unit) result"
  lb_settings_v2_schema :: string

definition canonical_json_bytes :: "libraries \<Rightarrow> json \<Rightarrow> (string, string) result" where
  "canonical_json_bytes lib v = lb_jcs lib v"

definition hashed :: "libraries \<Rightarrow> string \<Rightarrow> json \<Rightarrow> (string, string) result" where
  "hashed lib domain v = hash_json (lb_jcs lib) (lb_sha lib) domain v"

definition failing :: "string \<Rightarrow> ('e, 'a) result \<Rightarrow> (string, 'a) result" where
  "failing message r = map_err (\<lambda>_. message) r"

definition generator_settings_v2_schema_identity :: "libraries \<Rightarrow> (annotation_error, string) result" where
  "generator_settings_v2_schema_identity lib =
    schema_identity (lb_print lib) (lb_tokens lib) (lb_jcs lib) (lb_sha lib) (lb_settings_v2_schema lib)
      ''onshape-export-generator-settings-schema-v2'' ''generator settings v2 schema''"

section \<open>The recipe\<close>

definition GENERATOR_PROCESSING_RECIPE_VERSION :: "32 word" where "GENERATOR_PROCESSING_RECIPE_VERSION = 1"

record compatibility_identity =
  ci_protocol_version :: "32 word"
  ci_dialect_identity :: string
  ci_capability_identities :: "string list"
  ci_input_kind_identity :: string
  ci_input_schema_identity :: string
  ci_settings_schema_identity :: string

datatype compatibility_decision = Supported | Unsupported string

fun decision_status :: "compatibility_decision \<Rightarrow> string" where
  "decision_status Supported = ''supported''"
| "decision_status (Unsupported _) = ''unsupported''"

record processing_recipe =
  pr_recipe_version :: "32 word"
  pr_deployed_generator_identity :: string
  pr_compatibility :: compatibility_identity
  pr_compatibility_decision :: compatibility_decision
  pr_compatibility_decision_identity :: string
  pr_input_manifest :: input_manifest
  pr_settings :: generator_settings_v2
  pr_settings_identity :: string
  pr_settings_schema_identity :: string
  pr_invocation :: generator_request

record protocol_inputs =
  pi_manifest_path :: string
  pi_settings_content_identity :: string
  pi_settings_path :: string
  pi_settings_media_type :: string
  pi_settings_detected_kind_identity :: string
  pi_output :: output_declaration

record occurrence =
  oc_occurrence_identity :: string
  oc_occurrence_order :: nat
  oc_object_identity :: string
  oc_content_identity :: string
  oc_content_sha256 :: string
  oc_content_byte_length :: "64 word"
  oc_staged_path :: string
  oc_transport_role :: string
  oc_display_name :: "string option"
  oc_mapping_json :: string
  oc_provenance_json :: string
  oc_placement_json :: string

record prepared =
  pp_processing_hash :: string
  pp_recipe_json :: string
  pp_recipe :: processing_recipe
  pp_occurrences :: "occurrence list"

section \<open>Documents\<close>

definition compatibility_identity_json :: "compatibility_identity \<Rightarrow> json" where
  "compatibility_identity_json c = members [
     (''protocolVersion'', Some (u32_json (ci_protocol_version c))),
     (''dialectIdentity'', Some (JStr (ci_dialect_identity c))),
     (''capabilityIdentities'', Some (JArr (map JStr (ci_capability_identities c)))),
     (''inputKindIdentity'', Some (JStr (ci_input_kind_identity c))),
     (''inputSchemaIdentity'', Some (JStr (ci_input_schema_identity c))),
     (''settingsSchemaIdentity'', Some (JStr (ci_settings_schema_identity c)))]"

fun compatibility_decision_json :: "compatibility_decision \<Rightarrow> json" where
  "compatibility_decision_json Supported = members [(''status'', Some (JStr ''supported''))]"
| "compatibility_decision_json (Unsupported f) =
    members [(''status'', Some (JStr ''unsupported'')), (''field'', Some (JStr f))]"

definition compatibility_decision_payload :: "compatibility_identity \<Rightarrow> compatibility_decision \<Rightarrow> json" where
  "compatibility_decision_payload c d = members [
     (''compatibility'', Some (compatibility_identity_json c)),
     (''decision'', Some (compatibility_decision_json d))]"

definition input_manifest_json :: "input_manifest \<Rightarrow> json" where
  "input_manifest_json m = members [
     (''documentType'', Some (JStr ''inputManifest'')),
     (''protocolVersion'', Some (u32_json (im_protocol_version m))),
     (''manifestVersion'', Some (u32_json (im_manifest_version m))),
     (''manifestIdentity'', Some (JStr (im_manifest_identity m))),
     (''inputSetIdentity'', map_option JStr (im_input_set_identity m)),
     (''requirementsIdentity'', Some (JStr (im_requirements_identity m))),
     (''sourceIdentity'', Some (JStr (im_source_identity m))),
     (''configurationIdentity'', Some (JStr (im_configuration_identity m))),
     (''export'', Some (export_input_json (im_export m))),
     (''decision'', Some (manifest_decision_json (im_decision m))),
     (''objects'', Some (JArr (map input_object_json (im_objects m))))]"

definition generator_request_json :: "generator_request \<Rightarrow> json" where
  "generator_request_json r = members [
     (''documentType'', Some (JStr ''generatorRequest'')),
     (''protocolVersion'', Some (u32_json (gr_protocol_version r))),
     (''invocationIdentity'', Some (JStr (gr_invocation_identity r))),
     (''expectedIdentities'', Some (identity_bindings_json (gr_expected_identities r))),
     (''inputManifest'', Some (manifest_reference_json (gr_input_manifest r))),
     (''settings'', Some (settings_input_json (gr_settings r))),
     (''output'', Some (output_declaration_json (gr_output r)))]"

definition recipe_json :: "libraries \<Rightarrow> processing_recipe \<Rightarrow> json" where
  "recipe_json lib r = members [
     (''recipeVersion'', Some (u32_json (pr_recipe_version r))),
     (''deployedGeneratorIdentity'', Some (JStr (pr_deployed_generator_identity r))),
     (''compatibility'', Some (compatibility_identity_json (pr_compatibility r))),
     (''compatibilityDecision'', Some (compatibility_decision_json (pr_compatibility_decision r))),
     (''compatibilityDecisionIdentity'', Some (JStr (pr_compatibility_decision_identity r))),
     (''inputManifest'', Some (input_manifest_json (pr_input_manifest r))),
     (''settings'', Some (generator_settings_v2_json (lb_print lib) (pr_settings r))),
     (''settingsIdentity'', Some (JStr (pr_settings_identity r))),
     (''settingsSchemaIdentity'', Some (JStr (pr_settings_schema_identity r))),
     (''invocation'', Some (generator_request_json (pr_invocation r)))]"

definition occurrence_identity_payload :: "string \<Rightarrow> nat \<Rightarrow> string \<Rightarrow> string \<Rightarrow> json" where
  "occurrence_identity_payload processing_hash order object_identity staged_path = members [
     (''processingHash'', Some (JStr processing_hash)),
     (''occurrenceOrder'', Some (u64_json (of_nat order))),
     (''objectIdentity'', Some (JStr object_identity)),
     (''stagedPath'', Some (JStr staged_path))]"

definition occurrence_provenance_json :: "input_object \<Rightarrow> json" where
  "occurrence_provenance_json x = members [
     (''sourceObjectIdentity'', Some (nullable JStr (io_source_object_identity x))),
     (''occurrencePath'', Some (nullable (\<lambda>p. JArr (map JStr p)) (io_occurrence_path x))),
     (''producerResultIdentity'', Some (nullable JStr (io_producer_result_identity x))),
     (''sourceFilename'', Some (nullable JStr (io_source_filename x))),
     (''parentObjectIdentity'', Some (nullable JStr (io_parent_object_identity x)))]"

section \<open>Preparing\<close>

definition compatibility_identity_of :: "compatibility_request \<Rightarrow> compatibility_identity" where
  "compatibility_identity_of c = \<lparr>ci_protocol_version = cr_protocol_version c,
     ci_dialect_identity = cr_dialect_identity c, ci_capability_identities = cr_capability_identities c,
     ci_input_kind_identity = cr_input_kind_identity c, ci_input_schema_identity = cr_input_schema_identity c,
     ci_settings_schema_identity = cr_settings_schema_identity c\<rparr>"

definition compatibility_decision_of ::
  "deployed_generator \<Rightarrow> compatibility_request \<Rightarrow> (string, compatibility_decision) result" where
  "compatibility_decision_of g c = (case ensure_compatible g c of
      Ok _ \<Rightarrow> Ok Supported
    | Err (UnsupportedCombination f) \<Rightarrow> Ok (Unsupported f)
    | Err _ \<Rightarrow> Err ''could not evaluate generator compatibility'')"

definition generator_processing_hash :: "libraries \<Rightarrow> processing_recipe \<Rightarrow> (string, string) result" where
  "generator_processing_hash lib r = hashed lib ''generator-processing-recipe-v1'' (recipe_json lib r)"

definition derive_occurrence ::
  "libraries \<Rightarrow> string \<Rightarrow> nat \<times> input_object \<times> settings_placement \<Rightarrow> (string, occurrence) result" where
  "derive_occurrence lib processing_hash = (\<lambda>(order, x, placement).
     and_then (hashed lib ''generator-processing-occurrence-v1''
       (occurrence_identity_payload processing_hash order (io_object_identity x) (fc_path (io_retained_content x)))) (\<lambda>identity.
     and_then (canonical_json_bytes lib (object_mapping_json (io_mapping x))) (\<lambda>mapping.
     and_then (canonical_json_bytes lib (occurrence_provenance_json x)) (\<lambda>provenance.
     and_then (canonical_json_bytes lib (settings_placement_json (lb_print lib) placement)) (\<lambda>placement.
     Ok \<lparr>oc_occurrence_identity = identity, oc_occurrence_order = order,
         oc_object_identity = io_object_identity x,
         oc_content_identity = fc_content_identity (io_retained_content x),
         oc_content_sha256 = fc_sha256 (io_retained_content x),
         oc_content_byte_length = fc_byte_length (io_retained_content x),
         oc_staged_path = fc_path (io_retained_content x),
         oc_transport_role = input_role_key (io_role x), oc_display_name = io_display_name x,
         oc_mapping_json = mapping, oc_provenance_json = provenance, oc_placement_json = placement\<rparr>)))))"

definition derive_occurrences ::
  "libraries \<Rightarrow> string \<Rightarrow> processing_recipe \<Rightarrow> (string, occurrence list) result" where
  "derive_occurrences lib processing_hash r =
    collect_results (derive_occurrence lib processing_hash)
      (enumerate 0 (zip (im_objects (pr_input_manifest r)) (gv_placements (pr_settings r))))"

text \<open>The invocation before its own identity is filled in.\<close>

definition invocation_of ::
  "libraries \<Rightarrow> deployed_generator \<Rightarrow> compatibility_request \<Rightarrow> input_manifest \<Rightarrow> string \<Rightarrow> string \<Rightarrow> string \<Rightarrow> string
    \<Rightarrow> protocol_inputs \<Rightarrow> generator_request" where
  "invocation_of lib g c m input_set_identity settings_identity settings_schema_identity settings_bytes i =
    \<lparr>gr_document_type = GeneratorRequest, gr_protocol_version = cr_protocol_version c,
     gr_invocation_identity = [], gr_expected_identities = identity_bindings_of g settings_identity,
     gr_input_manifest = \<lparr>mr_path = pi_manifest_path i, mr_manifest_identity = im_manifest_identity m,
       mr_input_set_identity = input_set_identity\<rparr>,
     gr_settings = \<lparr>si_settings_identity = settings_identity, si_schema_identity = settings_schema_identity,
       si_content = \<lparr>fc_content_identity = pi_settings_content_identity i, fc_path = pi_settings_path i,
         fc_sha256 = hex_sha256 (lb_sha lib) settings_bytes, fc_byte_length = of_nat (length settings_bytes),
         fc_media_type = pi_settings_media_type i,
         fc_detected_kind_identity = pi_settings_detected_kind_identity i\<rparr>\<rparr>,
     gr_output = pi_output i\<rparr>"

definition expected_matches_manifest :: "expected_placement list \<Rightarrow> input_manifest \<Rightarrow> bool" where
  "expected_matches_manifest expected m \<longleftrightarrow> length expected = length (im_objects m)
    \<and> list_all (\<lambda>(e, x). ep_object_identity e = io_object_identity x \<and> ep_transport_role e = io_role x)
        (zip expected (im_objects m))"

text \<open>What \<open>prepare_generator_processing\<close> does once its inputs are checked; the settings are normalised.\<close>

definition prepare_checked ::
  "libraries \<Rightarrow> deployed_generator \<Rightarrow> compatibility_request \<Rightarrow> input_manifest \<Rightarrow> generator_settings_v2
    \<Rightarrow> protocol_inputs \<Rightarrow> (string, prepared) result" where
  "prepare_checked lib g c m settings i =
    (let jcs = lb_jcs lib; sha = lb_sha lib; to_vec = lb_to_vec lib; print = lb_print lib;
         compatibility = compatibility_identity_of c
     in
     and_then (failing ''could not identify settings schema'' (generator_settings_v2_schema_identity lib)) (\<lambda>settings_schema_identity.
     and_then (ensure (settings_schema_identity = cr_settings_schema_identity c)
       ''implemented settings schema does not match the compatibility request'') (\<lambda>_.
     and_then (failing ''could not identify generator settings''
       (generator_settings_v2_identity to_vec print jcs sha settings)) (\<lambda>settings_identity.
     and_then (failing ''could not serialize generator settings''
       (generator_settings_v2_canonical_json_bytes to_vec print jcs settings)) (\<lambda>settings_bytes.
     and_then (compatibility_decision_of g c) (\<lambda>decision.
     and_then (hashed lib ''generator-compatibility-decision-v1''
       (compatibility_decision_payload compatibility decision)) (\<lambda>decision_identity.
     and_then (ok_or (im_input_set_identity m) ''available manifest has no input-set identity'') (\<lambda>input_set_identity.
     let blank = invocation_of lib g c m input_set_identity settings_identity settings_schema_identity settings_bytes i
     in
     and_then (failing ''could not identify generator invocation'' (computed_invocation_identity jcs sha blank)) (\<lambda>invocation_identity.
     let invocation = blank\<lparr>gr_invocation_identity := invocation_identity\<rparr>
     in
     and_then (failing ''invalid generator invocation'' (validate_with_manifest jcs sha invocation m)) (\<lambda>_.
     let r = \<lparr>pr_recipe_version = GENERATOR_PROCESSING_RECIPE_VERSION,
           pr_deployed_generator_identity = dg_static_identity g, pr_compatibility = compatibility,
           pr_compatibility_decision = decision, pr_compatibility_decision_identity = decision_identity,
           pr_input_manifest = m, pr_settings = settings, pr_settings_identity = settings_identity,
           pr_settings_schema_identity = settings_schema_identity, pr_invocation = invocation\<rparr>
     in
     and_then (generator_processing_hash lib r) (\<lambda>processing_hash.
     and_then (canonical_json_bytes lib (recipe_json lib r)) (\<lambda>text.
     and_then (derive_occurrences lib processing_hash r) (\<lambda>occurrences.
     Ok \<lparr>pp_processing_hash = processing_hash, pp_recipe_json = text, pp_recipe = r,
         pp_occurrences = occurrences\<rparr>)))))))))))))"

definition prepare_generator_processing ::
  "libraries \<Rightarrow> deployed_generator \<Rightarrow> compatibility_request \<Rightarrow> input_manifest \<Rightarrow> generator_settings_v2
    \<Rightarrow> expected_placement list \<Rightarrow> protocol_inputs \<Rightarrow> (string, prepared) result" where
  "prepare_generator_processing lib g c m settings expected i =
    (let normalized = normalize_generator_settings_v2 settings in
     and_then (checks [
       failing ''invalid generator input manifest'' (validate_manifest (lb_jcs lib) (lb_sha lib) m),
       ensure (md_status (im_decision m) = Available) ''generator processing requires an available input manifest'',
       ensure (ei_kind_identity (im_export m) = cr_input_kind_identity c)
         ''manifest input kind does not match the compatibility request'',
       ensure (ei_schema_identity (im_export m) = cr_input_schema_identity c)
         ''manifest input schema does not match the compatibility request'',
       ensure (expected_matches_manifest expected m)
         ''expected placements must match manifest object identity, role, and order'',
       failing ''invalid generator settings context''
         (validate_settings_context_v2 (lb_to_vec lib) (lb_print lib) normalized expected)]) (\<lambda>_.
     prepare_checked lib g c m normalized i))"

section \<open>Reopening a stored recipe\<close>

definition expected_of_recipe :: "processing_recipe \<Rightarrow> expected_placement list" where
  "expected_of_recipe r = map (\<lambda>(x, p). \<lparr>ep_object_identity = io_object_identity x, ep_transport_role = io_role x,
     ep_matrix = sp_matrix p\<rparr>) (zip (im_objects (pr_input_manifest r)) (gv_placements (pr_settings r)))"

definition compatibility_request_of :: "compatibility_identity \<Rightarrow> compatibility_request" where
  "compatibility_request_of c = \<lparr>cr_protocol_version = ci_protocol_version c,
     cr_dialect_identity = ci_dialect_identity c, cr_capability_identities = ci_capability_identities c,
     cr_input_kind_identity = ci_input_kind_identity c, cr_input_schema_identity = ci_input_schema_identity c,
     cr_settings_schema_identity = ci_settings_schema_identity c\<rparr>"

definition protocol_inputs_of :: "generator_request \<Rightarrow> protocol_inputs" where
  "protocol_inputs_of r = \<lparr>pi_manifest_path = mr_path (gr_input_manifest r),
     pi_settings_content_identity = fc_content_identity (si_content (gr_settings r)),
     pi_settings_path = fc_path (si_content (gr_settings r)),
     pi_settings_media_type = fc_media_type (si_content (gr_settings r)),
     pi_settings_detected_kind_identity = fc_detected_kind_identity (si_content (gr_settings r)),
     pi_output = gr_output r\<rparr>"

definition reopen_generator_processing ::
  "libraries \<Rightarrow> (json \<Rightarrow> (string, processing_recipe) result) \<Rightarrow> deployed_generator \<Rightarrow> string \<Rightarrow> string
    \<Rightarrow> (string, prepared) result" where
  "reopen_generator_processing lib decode g processing_hash text =
    and_then (map_err display_failure (parse_bounded_json (lb_print lib) (lb_tokens lib) text 16777216)) (\<lambda>v.
    and_then (decode v) (\<lambda>r.
    and_then (checks [
      ensure (pr_deployed_generator_identity r = dg_static_identity g
          \<and> pr_recipe_version r = GENERATOR_PROCESSING_RECIPE_VERSION \<and> pr_compatibility_decision r = Supported)
        ''stored generator recipe does not match the supported deployment'',
      ensure (length (im_objects (pr_input_manifest r)) = length (gv_placements (pr_settings r)))
        ''stored generator placement order is incomplete'']) (\<lambda>_.
    and_then (prepare_generator_processing lib g (compatibility_request_of (pr_compatibility r))
      (pr_input_manifest r) (pr_settings r) (expected_of_recipe r) (protocol_inputs_of (pr_invocation r))) (\<lambda>p.
    and_then (ensure (pp_processing_hash p = processing_hash \<and> pp_recipe_json p = text)
      ''stored generator recipe integrity mismatch'') (\<lambda>_. Ok p)))))"

section \<open>Artifact identities\<close>

definition generator_options_json :: "prepared \<Rightarrow> json" where
  "generator_options_json p = (let r = pp_recipe p in members [
     (''dialectIdentity'', Some (JStr (ci_dialect_identity (pr_compatibility r)))),
     (''capabilityIdentities'', Some (JArr (map JStr (ci_capability_identities (pr_compatibility r))))),
     (''settingsIdentity'', Some (JStr (pr_settings_identity r))),
     (''settingsSchemaIdentity'', Some (JStr (pr_settings_schema_identity r)))])"

definition generator_options_hash :: "libraries \<Rightarrow> prepared \<Rightarrow> string \<Rightarrow> (string, string) result" where
  "generator_options_hash lib p format =
    options_hash (lb_jcs lib) (lb_sha lib) format ''generator-project-v1'' (generator_options_json p)"

definition generator_artifact_set_identity ::
  "libraries \<Rightarrow> prepared \<Rightarrow> string \<Rightarrow> string \<Rightarrow> (string, artifact_set_identity) result" where
  "generator_artifact_set_identity lib p output_kind format =
    and_then (generator_options_hash lib p format) (\<lambda>options.
    Ok \<lparr>as_artifact_set_schema_version = ARTIFACT_SET_SCHEMA_VERSION, as_output_kind = output_kind,
        as_format = format, as_source_hash = im_source_identity (pr_input_manifest (pp_recipe p)),
        as_config_hash = im_configuration_identity (pr_input_manifest (pp_recipe p)),
        as_options_hash = options, as_request_hash = None, as_raw_payload_hash = None,
        as_postprocess_hash = pp_processing_hash p,
        as_generator_processing_hash = Some (pp_processing_hash p)\<rparr>)"

definition generator_artifact_set_hash ::
  "libraries \<Rightarrow> prepared \<Rightarrow> string \<Rightarrow> string \<Rightarrow> (string, string) result" where
  "generator_artifact_set_hash lib p output_kind format =
    and_then (generator_artifact_set_identity lib p output_kind format)
      (artifact_set_hash (lb_jcs lib) (lb_sha lib))"

end
