(* ===== verification/Processing_Recipe.thy ===== *)
theory Processing_Recipe
  imports Generator_Processing
begin

text \<open>
  What a prepared recipe guarantees: it reopens to itself, its invocation is valid for its manifest, and
  its occurrences have identities of their own.
\<close>

section \<open>The parts of a prepared recipe\<close>

lemma failing_Ok [result_simps]: "failing m r = Ok a \<longleftrightarrow> r = Ok a"
  by (simp add: failing_def result_simps)

lemma prepare_checked_recipe:
  assumes "prepare_checked lib g c m s i = Ok p"
  shows "pr_compatibility (pp_recipe p) = compatibility_identity_of c"
    and "compatibility_decision_of g c = Ok (pr_compatibility_decision (pp_recipe p))"
    and "pr_input_manifest (pp_recipe p) = m" and "pr_settings (pp_recipe p) = s"
    and "protocol_inputs_of (pr_invocation (pp_recipe p)) = i"
    and "pr_deployed_generator_identity (pp_recipe p) = dg_static_identity g"
    and "pr_recipe_version (pp_recipe p) = GENERATOR_PROCESSING_RECIPE_VERSION"
    and "validate_with_manifest (lb_jcs lib) (lb_sha lib) (pr_invocation (pp_recipe p)) m = Ok ()"
    and "derive_occurrences lib (pp_processing_hash p) (pp_recipe p) = Ok (pp_occurrences p)"
    and "gr_expected_identities (pr_invocation (pp_recipe p)) = identity_bindings_of g (pr_settings_identity (pp_recipe p))"
  using assms
  by (auto simp: prepare_checked_def Let_def result_simps protocol_inputs_of_def invocation_of_def)

lemma compatibility_request_roundtrip [simp]: "compatibility_request_of (compatibility_identity_of c) = c"
  by (simp add: compatibility_request_of_def compatibility_identity_of_def)

lemma normalize_settings_idem [simp]:
  "normalize_generator_settings_v2 (normalize_generator_settings_v2 s) = normalize_generator_settings_v2 s"
  by (simp add: normalize_generator_settings_v2_def normalize_idem)

definition inputs_accepted ::
  "libraries \<Rightarrow> compatibility_request \<Rightarrow> input_manifest \<Rightarrow> generator_settings_v2 \<Rightarrow> expected_placement list \<Rightarrow> bool" where
  "inputs_accepted lib c m s expected \<longleftrightarrow> validate_manifest (lb_jcs lib) (lb_sha lib) m = Ok ()
    \<and> md_status (im_decision m) = Available \<and> ei_kind_identity (im_export m) = cr_input_kind_identity c
    \<and> ei_schema_identity (im_export m) = cr_input_schema_identity c \<and> expected_matches_manifest expected m
    \<and> validate_settings_context_v2 (lb_to_vec lib) (lb_print lib) s expected = Ok ()"

lemma prepare_Ok:
  "prepare_generator_processing lib g c m s expected i = Ok p \<longleftrightarrow>
    inputs_accepted lib c m (normalize_generator_settings_v2 s) expected
      \<and> prepare_checked lib g c m (normalize_generator_settings_v2 s) i = Ok p"
  by (auto simp: prepare_generator_processing_def inputs_accepted_def Let_def result_simps)

section \<open>Reopening\<close>

lemma expected_again:
  assumes "length expected = length objects"
    and "list_all (\<lambda>(e, x). ep_object_identity e = io_object_identity x \<and> ep_transport_role e = io_role x) (zip expected objects)"
  defines "again \<equiv> map (\<lambda>(x, p). \<lparr>ep_object_identity = io_object_identity x, ep_transport_role = io_role x,
     ep_matrix = sp_matrix p\<rparr>) (zip objects (map placement_of expected))"
  shows "map summary_of again = map summary_of expected" and "map placement_of again = map placement_of expected"
    and "list_all (\<lambda>(e, x). ep_object_identity e = io_object_identity x \<and> ep_transport_role e = io_role x) (zip again objects)"
    and "length again = length objects"
  using assms(1,2) unfolding again_def
  by (induction expected objects rule: list_induct2) (auto simp: summary_of_def placement_of_def normalize_idem)

lemma reopened_inputs:
  assumes "inputs_accepted lib c m s expected" "normalize_generator_settings_v2 s = s"
    and r: "pr_input_manifest r = m" "pr_settings r = s"
  shows "inputs_accepted lib c m s (expected_of_recipe r) \<and> length (im_objects m) = length (gv_placements s)"
proof -
  have context_ok: "validate_settings_context_v2 (lb_to_vec lib) (lb_print lib) s expected = Ok ()"
    and l: "length expected = length (im_objects m)"
    and same: "list_all (\<lambda>(e, x). ep_object_identity e = io_object_identity x \<and> ep_transport_role e = io_role x)
      (zip expected (im_objects m))"
    using assms(1) by (simp_all add: inputs_accepted_def expected_matches_manifest_def)
  have places: "gv_placements s = map placement_of expected"
    using context_ok assms(2) by (simp add: context_v2_Ok)
  have e: "expected_of_recipe r = map (\<lambda>(x, p). \<lparr>ep_object_identity = io_object_identity x, ep_transport_role = io_role x,
     ep_matrix = sp_matrix p\<rparr>) (zip (im_objects m) (map placement_of expected))"
    by (simp add: expected_of_recipe_def r places)
  show ?thesis
    using assms(1) expected_again [OF l same] context_ok l
    by (simp add: inputs_accepted_def expected_matches_manifest_def e context_v2_Ok places)
qed

text \<open>
  The reader inverts the canonical writer on this recipe: RFC 8785 text is JSON, and the derived
  deserializer returns the structure the derived serializer wrote.
\<close>

definition reads_back :: "libraries \<Rightarrow> (json \<Rightarrow> (string, processing_recipe) result) \<Rightarrow> prepared \<Rightarrow> bool" where
  "reads_back lib decode p \<longleftrightarrow>
    (case parse_bounded_json (lb_print lib) (lb_tokens lib) (pp_recipe_json p) 16777216 of
      Ok v \<Rightarrow> decode v = Ok (pp_recipe p) | Err _ \<Rightarrow> False)"

lemma decision_supported: "compatibility_decision_of g c = Ok Supported \<longleftrightarrow> ensure_compatible g c = Ok ()"
  by (auto simp: compatibility_decision_of_def split: sum.splits deployed_error.splits)

text \<open>
  C18: a recipe that was prepared for a supported combination reopens to itself under the same
  deployment, although reopening takes nothing of it but its stored text and hash and derives
  everything again: the expected placements from the stored settings, the request from the stored
  identities, the invocation, its identity, the processing hash and the occurrences.
\<close>

theorem reopen_prepared:
  assumes "prepare_generator_processing lib g c m s expected i = Ok p"
    and "ensure_compatible g c = Ok ()"
    and "reads_back lib decode p"
  shows "reopen_generator_processing lib decode g (pp_processing_hash p) (pp_recipe_json p) = Ok p"
proof -
  let ?n = "normalize_generator_settings_v2 s"
  have acc: "inputs_accepted lib c m ?n expected" and p: "prepare_checked lib g c m ?n i = Ok p"
    using assms(1) by (simp_all add: prepare_Ok)
  note parts = prepare_checked_recipe [OF p]
  obtain v where v: "parse_bounded_json (lb_print lib) (lb_tokens lib) (pp_recipe_json p) 16777216 = Ok v"
    "decode v = Ok (pp_recipe p)"
    using assms(3) by (auto simp: reads_back_def split: sum.splits)
  have again: "inputs_accepted lib c m ?n (expected_of_recipe (pp_recipe p))"
    "length (im_objects m) = length (gv_placements ?n)"
    using reopened_inputs [OF acc normalize_settings_idem, of "pp_recipe p"] parts by auto
  then have "prepare_generator_processing lib g (compatibility_request_of (pr_compatibility (pp_recipe p)))
      (pr_input_manifest (pp_recipe p)) (pr_settings (pp_recipe p)) (expected_of_recipe (pp_recipe p))
      (protocol_inputs_of (pr_invocation (pp_recipe p))) = Ok p"
    using p parts by (simp add: prepare_Ok)
  moreover have "pr_compatibility_decision (pp_recipe p) = Supported"
    using parts(2) decision_supported [of g c] assms(2) by simp
  ultimately show ?thesis
    using v again parts by (simp add: reopen_generator_processing_def and_then_Ok map_err_Ok checks_Ok ensure_Ok)
qed

section \<open>The invocation\<close>

lemma compatible_bindings:
  "ensure_compatible g c = Ok () \<longleftrightarrow>
    c = \<lparr>cr_protocol_version = dd_protocol_version (dg_document g),
      cr_dialect_identity = dd_dialect_identity (dg_document g),
      cr_capability_identities = dd_capability_identities (dg_document g),
      cr_input_kind_identity = dd_input_kind_identity (dg_document g),
      cr_input_schema_identity = dd_input_schema_identity (dg_document g),
      cr_settings_schema_identity = dd_settings_schema_identity (dg_document g)\<rparr>"
  by (cases c) (auto simp: ensure_compatible_def Let_def result_simps)

section \<open>The occurrences\<close>

lemma derive_occurrence_Ok:
  assumes "derive_occurrence lib h (n, x, q) = Ok oc"
  shows "oc_occurrence_order oc = n" and "oc_object_identity oc = io_object_identity x"
    and "oc_staged_path oc = fc_path (io_retained_content x)"
    and "hashed lib ''generator-processing-occurrence-v1''
      (occurrence_identity_payload h n (io_object_identity x) (fc_path (io_retained_content x))) = Ok (oc_occurrence_identity oc)"
  using assms by (auto simp: derive_occurrence_def result_simps)

definition occurrence_documents :: "string \<Rightarrow> occurrence list \<Rightarrow> json set" where
  "occurrence_documents h ocs = (\<lambda>oc. hash_preimage ''generator-processing-occurrence-v1''
     (occurrence_identity_payload h (oc_occurrence_order oc) (oc_object_identity oc) (oc_staged_path oc))) ` set ocs"

lemma occurrence_facts:
  assumes "derive_occurrences lib h r = Ok ocs"
  shows "length ocs = min (length (im_objects (pr_input_manifest r))) (length (gv_placements (pr_settings r)))"
    and "k < length ocs \<Longrightarrow> oc_occurrence_order (ocs ! k) = k
      \<and> oc_object_identity (ocs ! k) = io_object_identity (im_objects (pr_input_manifest r) ! k)
      \<and> oc_staged_path (ocs ! k) = fc_path (io_retained_content (im_objects (pr_input_manifest r) ! k))
      \<and> hashed lib ''generator-processing-occurrence-v1''
          (occurrence_identity_payload h k (oc_object_identity (ocs ! k)) (oc_staged_path (ocs ! k)))
        = Ok (oc_occurrence_identity (ocs ! k))"
proof -
  let ?zs = "zip (im_objects (pr_input_manifest r)) (gv_placements (pr_settings r))"
  have all: "list_all2 (\<lambda>z oc. derive_occurrence lib h z = Ok oc) (enumerate 0 ?zs) ocs"
    using assms by (simp add: derive_occurrences_def collect_results_Ok)
  then have l: "length ocs = length ?zs" using list_all2_lengthD by fastforce
  then show "length ocs = min (length (im_objects (pr_input_manifest r))) (length (gv_placements (pr_settings r)))" by simp
  assume k: "k < length ocs"
  then have "derive_occurrence lib h (k, im_objects (pr_input_manifest r) ! k, gv_placements (pr_settings r) ! k) = Ok (ocs ! k)"
    using list_all2_nthD [OF all, of k] l by (simp add: nth_enumerate_eq)
  from derive_occurrence_Ok [OF this]
  show "oc_occurrence_order (ocs ! k) = k
      \<and> oc_object_identity (ocs ! k) = io_object_identity (im_objects (pr_input_manifest r) ! k)
      \<and> oc_staged_path (ocs ! k) = fc_path (io_retained_content (im_objects (pr_input_manifest r) ! k))
      \<and> hashed lib ''generator-processing-occurrence-v1''
          (occurrence_identity_payload h k (oc_object_identity (ocs ! k)) (oc_staged_path (ocs ! k)))
        = Ok (oc_occurrence_identity (ocs ! k))" by simp
qed

lemma occurrence_payload_inj:
  "occurrence_identity_payload h n a x = occurrence_identity_payload h' n' a' x' \<Longrightarrow> a = a'"
  by (auto simp: occurrence_identity_payload_def dest!: members_inj)

lemma occurrence_identities_distinct:
  assumes "derive_occurrences lib h r = Ok ocs" "distinct (map oc_object_identity ocs)"
    "unambiguous (lb_jcs lib) (lb_sha lib) (occurrence_documents h ocs)"
  shows "distinct (map oc_occurrence_identity ocs)"
proof -
  note at = occurrence_facts(2) [OF assms(1)]
  show ?thesis
    unfolding distinct_conv_nth length_map
  proof (intro allI impI)
    fix a b assume ab: "a < length ocs" "b < length ocs" "a \<noteq> b"
    let ?d = "\<lambda>k. occurrence_identity_payload h k (oc_object_identity (ocs ! k)) (oc_staged_path (ocs ! k))"
    have doc: "hash_preimage ''generator-processing-occurrence-v1'' (?d k) \<in> occurrence_documents h ocs"
      if "k < length ocs" for k
      unfolding occurrence_documents_def using that at [OF that] by (intro image_eqI [of _ _ "ocs ! k"]) auto
    have u: "unambiguous (lb_jcs lib) (lb_sha lib)
      {hash_preimage ''generator-processing-occurrence-v1'' (?d a), hash_preimage ''generator-processing-occurrence-v1'' (?d b)}"
      by (rule unambiguous_mono [OF assms(3)]) (use doc ab in auto)
    have "hash_json (lb_jcs lib) (lb_sha lib) ''generator-processing-occurrence-v1'' (?d k) = Ok (oc_occurrence_identity (ocs ! k))"
      if "k < length ocs" for k using at [OF that] unfolding hashed_def by blast
    from hash_json_binds [OF u this [OF ab(1)]] this [OF ab(2)] have "oc_occurrence_identity (ocs ! a) = oc_occurrence_identity (ocs ! b) \<Longrightarrow> ?d b = ?d a"
      by simp
    moreover have "oc_object_identity (ocs ! a) \<noteq> oc_object_identity (ocs ! b)"
      using assms(2) ab by (metis distinct_conv_nth length_map nth_map)
    ultimately have "oc_occurrence_identity (ocs ! a) \<noteq> oc_occurrence_identity (ocs ! b)"
      using occurrence_payload_inj by metis
    then show "map oc_occurrence_identity ocs ! a \<noteq> map oc_occurrence_identity ocs ! b" using ab by simp
  qed
qed

lemma occurrences_of_prepared:
  assumes "prepare_generator_processing lib g c m s expected i = Ok p"
    and "unambiguous (lb_jcs lib) (lb_sha lib) (occurrence_documents (pp_processing_hash p) (pp_occurrences p))"
  shows "map oc_object_identity (pp_occurrences p) = map io_object_identity (im_objects m)
    \<and> map oc_occurrence_order (pp_occurrences p) = [0..<length (im_objects m)]
    \<and> distinct (map oc_staged_path (pp_occurrences p))
    \<and> distinct (map oc_occurrence_identity (pp_occurrences p))"
proof -
  let ?n = "normalize_generator_settings_v2 s" and ?ocs = "pp_occurrences p" and ?h = "pp_processing_hash p"
  have acc: "inputs_accepted lib c m ?n expected" and p: "prepare_checked lib g c m ?n i = Ok p"
    using assms(1) by (simp_all add: prepare_Ok)
  note parts = prepare_checked_recipe [OF p]
  have "length (im_objects m) = length (gv_placements ?n)"
    using reopened_inputs [OF acc normalize_settings_idem, of "pp_recipe p"] parts by auto
  then have l: "length ?ocs = length (im_objects m)" using occurrence_facts(1) [OF parts(9)] parts by simp
  note at = occurrence_facts(2) [OF parts(9), unfolded parts(3)]
  have spec: "manifest_spec (lb_jcs lib) (lb_sha lib) m" using acc by (simp add: inputs_accepted_def manifest_valid)
  have ids: "map oc_object_identity ?ocs = map io_object_identity (im_objects m)"
    by (rule nth_equalityI) (use l at in auto)
  have paths: "map oc_staged_path ?ocs = map (\<lambda>x. fc_path (io_retained_content x)) (im_objects m)"
    by (rule nth_equalityI) (use l at in auto)
  have d: "distinct (map io_object_identity (im_objects m))" "distinct (map (\<lambda>x. fc_path (io_retained_content x)) (im_objects m))"
    using spec by (simp_all add: manifest_spec_def object_id_def object_path_def comp_def cong: map_cong)
  have "distinct (map oc_occurrence_identity ?ocs)"
    by (rule occurrence_identities_distinct [OF parts(9) _ assms(2)]) (use ids d(1) in simp)
  moreover have "map oc_occurrence_order ?ocs = [0..<length (im_objects m)]"
    by (rule nth_equalityI) (use l at in auto)
  ultimately show ?thesis using ids paths d(2) by simp
qed

text \<open>
  A prepared recipe has one occurrence for every object of the manifest, in the order of the
  manifest and numbered by it; no two occurrences share a staged path, and no two share an identity as
  long as canonicalisation and SHA-256 tell their documents apart.
\<close>

lemma prepared_occurrences:
  assumes "prepare_generator_processing lib g c m s expected i = Ok p"
    and "unambiguous (lb_jcs lib) (lb_sha lib) (occurrence_documents (pp_processing_hash p) (pp_occurrences p))"
  shows "map oc_object_identity (pp_occurrences p) = map io_object_identity (im_objects m)
    \<and> map oc_occurrence_order (pp_occurrences p) = [0..<length (im_objects m)]
    \<and> distinct (map oc_staged_path (pp_occurrences p))
    \<and> distinct (map oc_occurrence_identity (pp_occurrences p))"
  using assms by (rule occurrences_of_prepared)

end
