(* ===== verification/Processing_Example.thy ===== *)
theory Processing_Example
  imports Processing_Recipe
begin

text \<open>
  A concrete preparation: one raw object, no blocker, an identity placement, and a deployment that
  supports the combination. It witnesses the theorems on recipes.
\<close>

definition example_libraries :: libraries where
  "example_libraries = \<lparr>lb_jcs = domain_jcs, lb_sha = example_digest, lb_to_vec = (\<lambda>_. Ok []),
     lb_print = (\<lambda>_. ''0.0''), lb_tokens = (\<lambda>_. (Unit, Ok ())), lb_settings_v2_schema = []\<rparr>"

definition example_schema_identity :: string where
  "example_schema_identity = hex_sha256 example_digest ''onshape-export-generator-settings-schema-v2''"

definition example_settings_identity :: string where
  "example_settings_identity = hex_sha256 example_digest ''onshape-export-generator-settings-v2''"

definition example_generator :: deployed_generator where
  "example_generator = \<lparr>dg_document = \<lparr>dd_executable_path = ''/bin/g'', dd_package_identity = ''p'',
     dd_package_sha256 = ''x'', dd_build_identity = ''b'', dd_binary_identity = ''b'', dd_binary_sha256 = ''y'',
     dd_protocol_version = 1, dd_dialect_identity = ''d'', dd_capability_identities = [''a'', ''b''],
     dd_input_kind_identity = ''kind'', dd_input_schema_identity = ''schema'',
     dd_settings_schema_identity = example_schema_identity, dd_provenance_set_identity = ''p'',
     dd_normalization_identity = ''n'', dd_validation_identity = ''v''\<rparr>, dg_static_identity = ''static''\<rparr>"

definition example_compatibility :: compatibility_request where
  "example_compatibility = \<lparr>cr_protocol_version = 1, cr_dialect_identity = ''d'',
     cr_capability_identities = [''a'', ''b''], cr_input_kind_identity = ''kind'',
     cr_input_schema_identity = ''schema'', cr_settings_schema_identity = example_schema_identity\<rparr>"

definition example_matrix :: "f64 list" where
  "example_matrix = [F64_ONE, 0, 0, 0, 0, F64_ONE, 0, 0, 0, 0, F64_ONE, 0, 0, 0, 0, F64_ONE]"

definition example_settings_v2 :: generator_settings_v2 where
  "example_settings_v2 = \<lparr>gv_schema_version = 2, gv_blockers = [],
     gv_placements = [\<lparr>sp_object_identity = ''o'', sp_matrix = example_matrix\<rparr>]\<rparr>"

definition example_expected :: "expected_placement list" where
  "example_expected = [\<lparr>ep_object_identity = ''o'', ep_transport_role = RawGeometry, ep_matrix = example_matrix\<rparr>]"

definition example_inputs :: protocol_inputs where
  "example_inputs = \<lparr>pi_manifest_path = ''inputs/manifest.json'', pi_settings_content_identity = ''c'',
     pi_settings_path = ''inputs/settings.json'', pi_settings_media_type = ''model/stl'',
     pi_settings_detected_kind_identity = ''json'',
     pi_output = \<lparr>od_output_identity = ''out'', od_role = GeneratedProject, od_path = ''outputs/p.3mf'',
       od_media_type = ''model/3mf'', od_max_byte_length = 1000\<rparr>\<rparr>"

lemma example_matrix_normal: "normalize_matrix example_matrix = example_matrix" "affine_matrix example_matrix"
  by (simp_all add: normalize_matrix_def example_matrix_def eq_zero f64_is_zero_def affine_matrix_def normal_scalar_def
      f64_is_finite_def neg_zero_exponent F64_ONE_def F64_NEG_ZERO_def)
    (simp_all add: f64_exponent_def)

lemma example_normalized [simp]: "normalize_generator_settings_v2 example_settings_v2 = example_settings_v2"
  by (simp add: normalize_generator_settings_v2_def example_settings_v2_def example_matrix_normal)

lemma example_context:
  "validate_settings_context_v2 (\<lambda>_. Ok []) print example_settings_v2 example_expected = Ok ()"
proof -
  have v: "visible_bytes 256 ''o''" by (simp add: visible_bytes_def byte_class_defs)
  have "index_manifest_object Map.empty (0, \<lparr>mo_object_identity = ''o'', mo_transport_role = RawGeometry\<rparr>)
      = Ok [''o'' \<mapsto> RawGeometry]"
    using v by (simp add: index_manifest_object_Ok)
  then have "validate_settings_context (\<lambda>_. Ok []) (settings_v1_of example_settings_v2) (map summary_of example_expected) = Ok ()"
    using v by (simp add: validate_settings_context_def settings_v1_of_def example_settings_v2_def and_then_Ok
        validate_settings_Ok within_size_def AUTHORING_SCHEMA_VERSION_def checks_Ok demand_Ok each_from_Ok
        example_expected_def summary_of_def Let_def)
  moreover have "placements_ok (map placement_of example_expected)"
    using v by (simp add: placements_ok_def placement_of_def example_expected_def example_matrix_normal)
  ultimately show ?thesis
    by (simp add: context_v2_Ok within_size_def)
      (simp add: example_settings_v2_def placement_of_def example_expected_def example_matrix_normal)
qed

lemma example_library_parts [simp]:
  "lb_jcs example_libraries = domain_jcs" "lb_sha example_libraries = example_digest"
  "lb_to_vec example_libraries = (\<lambda>_. Ok [])" "lb_print example_libraries = (\<lambda>_. ''0.0'')"
  by (simp_all add: example_libraries_def)

lemma example_hashed [simp]: "hashed example_libraries d v = Ok (hex_sha256 example_digest d)"
  by (simp add: hashed_def domain_hash)

lemma example_settings_valid:
  "validate_normalized_generator_settings_v2 (\<lambda>_. Ok []) print example_settings_v2 = Ok ()"
  using settings_v2_Ok [of "\<lambda>_. Ok []" print example_settings_v2] example_context [of print]
  by (simp add: context_v2_Ok) (auto simp: validate_settings_context_def and_then_Ok)

lemma example_identities:
  "generator_settings_v2_schema_identity example_libraries = Ok example_schema_identity"
  "generator_settings_v2_identity (\<lambda>_. Ok []) print domain_jcs example_digest example_settings_v2 = Ok example_settings_identity"
  by (simp_all add: generator_settings_v2_schema_identity_def schema_identity_def parse_strict_value_def
      example_libraries_def MAX_DOCUMENT_BYTES_def and_then_def map_err_def annotation_hash_def domain_hash
      example_schema_identity_def generator_settings_v2_identity_def example_settings_valid example_settings_identity_def)

lemma example_supported: "ensure_compatible example_generator example_compatibility = Ok ()"
  by (simp add: compatible_bindings example_generator_def example_compatibility_def)

lemma example_bytes:
  "generator_settings_v2_canonical_json_bytes (\<lambda>_. Ok []) print domain_jcs example_settings_v2 = Ok ''text''"
  by (simp add: generator_settings_v2_canonical_json_bytes_def and_then_def example_settings_valid map_err_def
      domain_jcs_def generator_settings_v2_json_def field_members)

lemma example_jcs_total: "\<exists>b. canonical_json_bytes example_libraries v = Ok b"
  by (simp add: canonical_json_bytes_def domain_jcs_def split: option.splits json.splits)

definition example_blank :: generator_request where
  "example_blank = invocation_of example_libraries example_generator example_compatibility example_manifest
     (hex_sha256 example_digest ''generator-input-set-v1'') example_settings_identity example_schema_identity
     ''text'' example_inputs"

lemma sha256_identity: "sha256_ok v \<Longrightarrow> identity_ok v"
proof -
  have "is_lower_hex c \<Longrightarrow> is_graphic c" for c by (auto simp: is_lower_hex_def byte_class_defs)
  then show "sha256_ok v \<Longrightarrow> identity_ok v" by (auto simp: sha256_ok_def identity_ok_def list_all_iff)
qed

lemma example_invocation:
  "validate_with_manifest domain_jcs example_digest
     (example_blank\<lparr>gr_invocation_identity := hex_sha256 example_digest ''generator-invocation-v1''\<rparr>) example_manifest = Ok ()"
proof -
  let ?r = "example_blank\<lparr>gr_invocation_identity := hex_sha256 example_digest ''generator-invocation-v1''\<rparr>"
  have ids: "identity_ok example_schema_identity" "identity_ok example_settings_identity"
    unfolding example_schema_identity_def example_settings_identity_def by (rule sha256_identity [OF example_digest_ok])+
  have "request_spec domain_jcs example_digest ?r"
    using ids
    by (simp add: example_blank_def request_spec_def bindings_ok_def domain_hash example_digest_ok protocol_eval
        invocation_of_def identity_bindings_of_def example_generator_def Let_def example_inputs_def
        example_manifest_def example_compatibility_def identity_ok_def byte_class_defs byte_length_ok_def
        file_content_ok_def)
  then show ?thesis
    using example_manifest_ok
    by (simp add: validate_with_manifest_def result_simps field_simps manifest_valid Let_def)
      (simp add: example_manifest_def example_blank_def invocation_of_def identity_bindings_of_def example_generator_def
        example_inputs_def example_content_def Let_def)
qed

lemma example_request_accepted: "inputs_accepted example_libraries example_compatibility example_manifest example_settings_v2 example_expected"
  using example_manifest_ok example_context
  by (simp add: inputs_accepted_def manifest_valid expected_matches_manifest_def)
    (simp add: example_manifest_def example_compatibility_def example_expected_def)

definition example_recipe :: processing_recipe where
  "example_recipe = \<lparr>pr_recipe_version = GENERATOR_PROCESSING_RECIPE_VERSION,
     pr_deployed_generator_identity = ''static'', pr_compatibility = compatibility_identity_of example_compatibility,
     pr_compatibility_decision = Supported,
     pr_compatibility_decision_identity = hex_sha256 example_digest ''generator-compatibility-decision-v1'',
     pr_input_manifest = example_manifest, pr_settings = example_settings_v2,
     pr_settings_identity = example_settings_identity, pr_settings_schema_identity = example_schema_identity,
     pr_invocation = example_blank\<lparr>gr_invocation_identity := hex_sha256 example_digest ''generator-invocation-v1''\<rparr>\<rparr>"

definition example_occurrence :: occurrence where
  "example_occurrence = \<lparr>oc_occurrence_identity = hex_sha256 example_digest ''generator-processing-occurrence-v1'',
     oc_occurrence_order = 0, oc_object_identity = ''o'', oc_content_identity = ''c'',
     oc_content_sha256 = hex_sha256 example_digest ''inputs/o.stl'', oc_content_byte_length = 7,
     oc_staged_path = ''inputs/o.stl'', oc_transport_role = ''rawGeometry'', oc_display_name = None,
     oc_mapping_json = ''text'', oc_provenance_json = ''text'', oc_placement_json = ''text''\<rparr>"

definition example_prepared :: prepared where
  "example_prepared = \<lparr>pp_processing_hash = hex_sha256 example_digest ''generator-processing-recipe-v1'',
     pp_recipe_json = ''text'', pp_recipe = example_recipe, pp_occurrences = [example_occurrence]\<rparr>"

lemma example_derived: "derive_occurrences example_libraries h example_recipe = Ok [example_occurrence]"
  by (simp add: derive_occurrences_def example_recipe_def example_manifest_def example_settings_v2_def
      derive_occurrence_def and_then_def canonical_json_bytes_def domain_jcs_def object_mapping_json_def
      occurrence_provenance_json_def settings_placement_json_def field_members example_occurrence_def example_content_def)

lemma example_prepare:
  "prepare_generator_processing example_libraries example_generator example_compatibility example_manifest
     example_settings_v2 example_expected example_inputs = Ok example_prepared"
proof -
  have m: "im_input_set_identity example_manifest = Some (hex_sha256 example_digest ''generator-input-set-v1'')"
    by (simp add: example_manifest_def)
  have c: "cr_settings_schema_identity example_compatibility = example_schema_identity"
    by (simp add: example_compatibility_def)
  have d: "compatibility_decision_of example_generator example_compatibility = Ok Supported"
    by (simp add: decision_supported example_supported)
  have s: "dg_static_identity example_generator = ''static''" by (simp add: example_generator_def)
  have t: "canonical_json_bytes example_libraries (recipe_json example_libraries r) = Ok ''text''" for r
    by (simp add: canonical_json_bytes_def domain_jcs_def recipe_json_def field_members)
  have i: "computed_invocation_identity domain_jcs example_digest r = Ok (hex_sha256 example_digest ''generator-invocation-v1'')" for r
    by (simp add: computed_invocation_identity_def domain_hash map_err_def)
  show ?thesis
    unfolding prepare_Ok example_normalized
    using example_request_accepted example_derived
    by (simp add: prepare_checked_def Let_def example_identities example_bytes failing_def map_err_def and_then_def
        ensure_def c d m s t i ok_or_def example_blank_def [symmetric] example_invocation example_recipe_def [symmetric]
        generator_processing_hash_def example_prepared_def)
qed

theorem reopen_prepared_witness:
  "reopen_generator_processing example_libraries (\<lambda>_. Ok example_recipe) example_generator
     (hex_sha256 example_digest ''generator-processing-recipe-v1'') ''text'' = Ok example_prepared"
proof -
  have "reads_back example_libraries (\<lambda>_. Ok example_recipe) example_prepared"
    by (simp add: reads_back_def parse_bounded_json_def example_libraries_def example_prepared_def is_ok_def)
  from reopen_prepared [OF example_prepare example_supported this] show ?thesis by (simp add: example_prepared_def)
qed

section \<open>The static identity\<close>

text \<open>A writer that keeps the build identity of a deployment.\<close>

definition build_jcs :: canonicalizer where
  "build_jcs v = (case field ''buildIdentity'' v of Some (JStr b) \<Rightarrow> Ok b | _ \<Rightarrow> Err ''unsupported'')"

lemma static_identity_identifies_witness:
  "computed_static_identity build_jcs id (dg_document example_generator)
    \<noteq> computed_static_identity build_jcs id (dg_document example_generator\<lparr>dd_build_identity := ''other''\<rparr>)"
proof -
  let ?d = "dg_document example_generator"
  have j: "build_jcs (immutable_payload d) = Ok (dd_build_identity d)" for d
    by (simp add: build_jcs_def immutable_payload_def field_members)
  have u: "unambiguous build_jcs (\<lambda>b. id (DEPLOYED_GENERATOR_IDENTITY_DOMAIN @ b))
      {immutable_payload ?d, immutable_payload (?d\<lparr>dd_build_identity := ''other''\<rparr>)}"
    by (auto simp: unambiguous_def j example_generator_def)
  have "computed_static_identity build_jcs id ?d = Ok (hex_sha256 id (DEPLOYED_GENERATOR_IDENTITY_DOMAIN @ ''b''))"
    by (simp add: computed_static_identity_def j and_then_def map_err_def example_generator_def)
  from static_identity_identifies [OF u this] this show ?thesis by (simp add: example_generator_def)
qed

end
