(* ===== verification/Artifact_Store.thy ===== *)
theory Artifact_Store
  imports Sql_Table Generator_Processing
begin

text \<open>
  The store of artifacts and of the immutable records behind them: the tables
  \<open>artifact_sets\<close>, \<open>artifact_files\<close>, \<open>generator_processing_recipes\<close>,
  \<open>generator_processing_occurrences\<close>, \<open>bambu_project_requests\<close> and \<open>acquisition_plan_provenance\<close> of
  \<open>src/migrations\<close> and the operations of \<open>src/src/db.rs\<close> on them. A table is the list of its rows; times
  are milliseconds and every statement takes the time \<open>now\<close> of its evaluation. A transaction that
  returns an error leaves the store as it was when it began.
\<close>

section \<open>Rows\<close>

datatype sql_error = ProtocolError string | RowNotFound | ConstraintViolation | Panicked string

record recipe_row =
  rr_processing_hash :: string
  rr_recipe_version :: int
  rr_deployed_generator_identity :: string
  rr_manifest_identity :: string
  rr_input_set_identity :: string
  rr_settings_identity :: string
  rr_settings_schema_identity :: string
  rr_compatibility_decision_identity :: string
  rr_compatibility_status :: string
  rr_recipe_json :: string

record occurrence_row =
  ow_occurrence_identity :: string
  ow_processing_hash :: string
  ow_occurrence_order :: int
  ow_object_identity :: string
  ow_content_identity :: string
  ow_content_sha256 :: string
  ow_content_byte_length :: int
  ow_staged_path :: string
  ow_transport_role :: string
  ow_display_name :: "string option"
  ow_mapping_json :: string
  ow_provenance_json :: string
  ow_placement_json :: string

record artifact_set =
  at_artifact_set_hash :: string
  at_source_hash :: string
  at_config_hash :: string
  at_options_hash :: string
  at_request_hash :: "string option"
  at_raw_payload_hash :: "string option"
  at_postprocess_hash :: "string option"
  at_generator_processing_hash :: "string option"
  at_output_kind :: string
  at_format :: string
  at_status :: string
  at_primary_object_key :: "string option"
  at_metadata_json :: string
  at_created_at :: nat
  at_updated_at :: nat
  at_superseded_at :: "nat option"
  at_superseded_by :: "string option"
  at_supersession_reason :: "string option"

record artifact_file =
  fl_artifact_set_hash :: string
  fl_role :: string
  fl_logical_path :: string
  fl_original_path :: "string option"
  fl_object_key :: string
  fl_content_type :: string
  fl_byte_len :: int
  fl_sha256 :: string
  fl_metadata_json :: string

record project_request =
  bp_request_identity :: string
  bp_request_json :: string
  bp_processing_hash :: "string option"
  bp_output_snapshot_identity :: "string option"
  bp_failure_category :: "string option"
  bp_failure_code :: "string option"
  bp_updated_at :: nat

record provenance_row =
  av_plan_identity :: string
  av_provenance_identity :: string
  av_record_json :: string

record store =
  st_recipes :: "recipe_row list"
  st_occurrences :: "occurrence_row list"
  st_sets :: "artifact_set list"
  st_files :: "artifact_file list"
  st_requests :: "project_request list"
  st_provenance :: "provenance_row list"

text \<open>What a transaction does: its changes are kept when it commits, and dropped when it fails.\<close>

definition transaction ::
  "('s \<Rightarrow> (sql_error, 'a \<times> 's) result) \<Rightarrow> 's \<Rightarrow> (sql_error, 'a) result \<times> 's" where
  "transaction body s = (case body s of Err e \<Rightarrow> (Err e, s) | Ok (a, s') \<Rightarrow> (Ok a, s'))"

text \<open>Two operations of their own, one after the other; the first error ends the caller.\<close>

definition and_also ::
  "('s \<Rightarrow> (sql_error, 'a) result \<times> 's) \<Rightarrow> ('a \<Rightarrow> 's \<Rightarrow> (sql_error, 'b) result \<times> 's)
    \<Rightarrow> 's \<Rightarrow> (sql_error, 'b) result \<times> 's" where
  "and_also first rest s = (case first s of (Err e, s') \<Rightarrow> (Err e, s') | (Ok a, s') \<Rightarrow> rest a s')"

definition refused :: "(sql_error, 'a) result \<Rightarrow> 's \<Rightarrow> (sql_error, 'a) result \<times> 's" where
  "refused r s = (r, s)"

section \<open>Acquisition provenance\<close>

definition find_provenance :: "string \<Rightarrow> store \<Rightarrow> provenance_row option" where
  "find_provenance plan s = find_row av_plan_identity plan (st_provenance s)"

definition record_acquisition_provenance ::
  "string \<Rightarrow> string \<Rightarrow> string \<Rightarrow> store \<Rightarrow> (sql_error, unit) result \<times> store" where
  "record_acquisition_provenance plan provenance_identity json = transaction (\<lambda>s.
     let s = (if find_provenance plan s = None
       then s\<lparr>st_provenance := st_provenance s @ [\<lparr>av_plan_identity = plan,
         av_provenance_identity = provenance_identity, av_record_json = json\<rparr>]\<rparr> else s)
     in and_then (ok_or (find_provenance plan s) RowNotFound) (\<lambda>r.
        if av_provenance_identity r \<noteq> provenance_identity \<or> av_record_json r \<noteq> json
        then Err (ProtocolError ''acquisition provenance conflict'') else Ok ((), s)))"

definition acquisition_provenance :: "string \<Rightarrow> store \<Rightarrow> (string \<times> string) option" where
  "acquisition_provenance plan s =
    map_option (\<lambda>r. (av_provenance_identity r, av_record_json r)) (find_provenance plan s)"

section \<open>Recipes and their occurrences\<close>

definition occurrence_columns :: "string \<Rightarrow> occurrence \<Rightarrow> occurrence_row" where
  "occurrence_columns hash c =
    \<lparr>ow_occurrence_identity = oc_occurrence_identity c, ow_processing_hash = hash,
     ow_occurrence_order = int (oc_occurrence_order c), ow_object_identity = oc_object_identity c,
     ow_content_identity = oc_content_identity c, ow_content_sha256 = oc_content_sha256 c,
     ow_content_byte_length = uint (oc_content_byte_length c), ow_staged_path = oc_staged_path c,
     ow_transport_role = oc_transport_role c, ow_display_name = oc_display_name c,
     ow_mapping_json = oc_mapping_json c, ow_provenance_json = oc_provenance_json c,
     ow_placement_json = oc_placement_json c\<rparr>"

text \<open>Columns of type INTEGER hold an \<open>i64\<close>.\<close>

definition occurrence_row_of :: "string \<Rightarrow> occurrence \<Rightarrow> (sql_error, occurrence_row) result" where
  "occurrence_row_of hash c =
    and_then (ensure (int (oc_occurrence_order c) \<le> I64_MAX)
      (ProtocolError ''generator occurrence order exceeds SQLite INTEGER'')) (\<lambda>_.
    and_then (ensure (uint (oc_content_byte_length c) \<le> I64_MAX)
      (ProtocolError ''generator occurrence length exceeds SQLite INTEGER'')) (\<lambda>_.
    Ok (occurrence_columns hash c)))"
definition recipe_row_of :: "prepared \<Rightarrow> string \<Rightarrow> recipe_row" where
  "recipe_row_of p input_set_identity = (let r = pp_recipe p in
    \<lparr>rr_processing_hash = pp_processing_hash p, rr_recipe_version = uint (pr_recipe_version r),
     rr_deployed_generator_identity = pr_deployed_generator_identity r,
     rr_manifest_identity = im_manifest_identity (pr_input_manifest r),
     rr_input_set_identity = input_set_identity, rr_settings_identity = pr_settings_identity r,
     rr_settings_schema_identity = pr_settings_schema_identity r,
     rr_compatibility_decision_identity = pr_compatibility_decision_identity r,
     rr_compatibility_status = decision_status (pr_compatibility_decision r),
     rr_recipe_json = pp_recipe_json p\<rparr>)"

text \<open>\<open>ON CONFLICT DO NOTHING\<close> over the primary key and the three UNIQUE constraints.\<close>

definition occurrence_conflict :: "occurrence_row \<Rightarrow> occurrence_row \<Rightarrow> bool" where
  "occurrence_conflict c r \<longleftrightarrow> ow_occurrence_identity r = ow_occurrence_identity c
    \<or> (ow_processing_hash r = ow_processing_hash c \<and> (ow_occurrence_order r = ow_occurrence_order c
      \<or> ow_object_identity r = ow_object_identity c \<or> ow_staged_path r = ow_staged_path c))"

definition insert_occurrence :: "occurrence_row \<Rightarrow> occurrence_row list \<Rightarrow> occurrence_row list" where
  "insert_occurrence c t = (if list_ex (occurrence_conflict c) t then t else t @ [c])"

definition occurrences_of :: "string \<Rightarrow> occurrence_row list \<Rightarrow> occurrence_row list" where
  "occurrences_of hash t = sort_key ow_occurrence_order (filter (\<lambda>r. ow_processing_hash r = hash) t)"

definition insert_recipe_fields ::
  "recipe_row \<Rightarrow> occurrence_row list \<Rightarrow> store \<Rightarrow> (sql_error, bool) result \<times> store" where
  "insert_recipe_fields recipe occurrences = transaction (\<lambda>s.
     let hash = rr_processing_hash recipe;
         inserted = (find_row rr_processing_hash hash (st_recipes s) = None);
         s = (if inserted then s\<lparr>st_recipes := st_recipes s @ [recipe]\<rparr> else s)
     in and_then (ok_or (find_row rr_processing_hash hash (st_recipes s)) RowNotFound) (\<lambda>row.
        if row \<noteq> recipe then Err (ProtocolError (''immutable generator recipe conflict for '' @ hash))
        else
          let s = s\<lparr>st_occurrences := fold insert_occurrence occurrences (st_occurrences s)\<rparr>
          in if occurrences_of hash (st_occurrences s) \<noteq> occurrences
             then Err (ProtocolError (''immutable generator occurrence conflict for '' @ hash))
             else Ok (inserted, s)))"

definition insert_generator_processing_recipe ::
  "prepared \<Rightarrow> store \<Rightarrow> (sql_error, bool) result \<times> store" where
  "insert_generator_processing_recipe p s =
    (case collect_results (occurrence_row_of (pp_processing_hash p)) (pp_occurrences p) of
      Err e \<Rightarrow> (Err e, s)
    | Ok occurrences \<Rightarrow> (case im_input_set_identity (pr_input_manifest (pp_recipe p)) of
        None \<Rightarrow> (Err (ProtocolError ''generator processing recipe has no input-set identity''), s)
      | Some input_set_identity \<Rightarrow> insert_recipe_fields (recipe_row_of p input_set_identity) occurrences s))"

definition generator_artifact_conflict :: sql_error where
  "generator_artifact_conflict = ProtocolError ''immutable generator artifact conflict''"

definition recipe_matches :: "prepared \<Rightarrow> recipe_row \<Rightarrow> bool" where
  "recipe_matches p row \<longleftrightarrow> (case im_input_set_identity (pr_input_manifest (pp_recipe p)) of
      None \<Rightarrow> False
    | Some input_set_identity \<Rightarrow> row = recipe_row_of p input_set_identity)"

definition occurrence_matches :: "occurrence_row \<Rightarrow> occurrence \<Rightarrow> bool" where
  "occurrence_matches row c \<longleftrightarrow> ow_occurrence_identity row = oc_occurrence_identity c
    \<and> ow_occurrence_order row = int (oc_occurrence_order c) \<and> ow_object_identity row = oc_object_identity c
    \<and> ow_content_identity row = oc_content_identity c \<and> ow_content_sha256 row = oc_content_sha256 c
    \<and> ow_content_byte_length row = uint (oc_content_byte_length c) \<and> ow_staged_path row = oc_staged_path c
    \<and> ow_transport_role row = oc_transport_role c \<and> ow_display_name row = oc_display_name c
    \<and> ow_mapping_json row = oc_mapping_json c \<and> ow_provenance_json row = oc_provenance_json c
    \<and> ow_placement_json row = oc_placement_json c"

text \<open>The row of a recipe is selected by its hash, so the comparison of rows covers the columns.\<close>

definition verify_persisted_generator_recipe :: "prepared \<Rightarrow> store \<Rightarrow> (sql_error, unit) result" where
  "verify_persisted_generator_recipe p s =
    and_then (ok_or (find_row rr_processing_hash (pp_processing_hash p) (st_recipes s))
      generator_artifact_conflict) (\<lambda>row.
    let rows = occurrences_of (pp_processing_hash p) (st_occurrences s) in checks [
      ensure (recipe_matches p row) generator_artifact_conflict,
      ensure (length rows = length (pp_occurrences p)
        \<and> list_all (\<lambda>(row, c). occurrence_matches row c) (zip rows (pp_occurrences p)))
        generator_artifact_conflict])"

section \<open>Project requests\<close>

definition valid_generator_sha256 :: "string \<Rightarrow> bool" where
  "valid_generator_sha256 h \<longleftrightarrow> length h = 64 \<and> list_all is_lower_hex h"

definition find_request :: "string \<Rightarrow> store \<Rightarrow> project_request option" where
  "find_request i s = find_row bp_request_identity i (st_requests s)"

definition insert_bambu_project_request ::
  "nat \<Rightarrow> string \<Rightarrow> string \<Rightarrow> store \<Rightarrow> (sql_error, unit) result \<times> store" where
  "insert_bambu_project_request now i json = transaction (\<lambda>s.
     let s = (if find_request i s = None
       then s\<lparr>st_requests := st_requests s @ [\<lparr>bp_request_identity = i, bp_request_json = json,
         bp_processing_hash = None, bp_output_snapshot_identity = None, bp_failure_category = None,
         bp_failure_code = None, bp_updated_at = now\<rparr>]\<rparr> else s)
     in and_then (ok_or (find_request i s) RowNotFound) (\<lambda>r.
        if bp_request_json r \<noteq> json then Err (ProtocolError ''immutable project request conflict'')
        else Ok ((), s)))"

definition update_requests ::
  "(project_request \<Rightarrow> bool) \<Rightarrow> (project_request \<Rightarrow> project_request) \<Rightarrow> store \<Rightarrow> store" where
  "update_requests p change s = s\<lparr>st_requests := snd (update_where p change (st_requests s))\<rparr>"

definition bind_request :: "nat \<Rightarrow> string \<Rightarrow> string \<Rightarrow> project_request \<Rightarrow> project_request" where
  "bind_request now hash snapshot r = r\<lparr>bp_processing_hash := Some hash,
     bp_output_snapshot_identity := Some snapshot, bp_failure_category := None, bp_failure_code := None,
     bp_updated_at := now\<rparr>"

definition bind_bambu_project_output ::
  "nat \<Rightarrow> string \<Rightarrow> string \<Rightarrow> prepared \<Rightarrow> string \<Rightarrow> store \<Rightarrow> (sql_error, unit) result \<times> store" where
  "bind_bambu_project_output now i json p snapshot =
    (if \<not> valid_generator_sha256 snapshot
     then refused (Err (ProtocolError ''invalid project output snapshot identity''))
     else and_also (insert_generator_processing_recipe p) (\<lambda>_. transaction (\<lambda>s.
       and_then (ok_or (find_request i s) RowNotFound) (\<lambda>r.
         if bp_request_json r \<noteq> json
           \<or> \<not> pred_option (\<lambda>h. h = pp_processing_hash p) (bp_processing_hash r)
           \<or> \<not> pred_option (\<lambda>h. h = snapshot) (bp_output_snapshot_identity r)
           \<or> (bp_processing_hash r = None) \<noteq> (bp_output_snapshot_identity r = None)
         then Err (ProtocolError ''immutable project recipe association conflict'')
         else Ok ((), update_requests (\<lambda>r. bp_request_identity r = i)
           (bind_request now (pp_processing_hash p) snapshot) s)))))"

definition record_bambu_project_failure ::
  "nat \<Rightarrow> string \<Rightarrow> string option \<Rightarrow> string option \<Rightarrow> store \<Rightarrow> store" where
  "record_bambu_project_failure now i category failure_code s =
    update_requests (\<lambda>r. bp_request_identity r = i) (\<lambda>r. r\<lparr>bp_failure_category := category,
      bp_failure_code := failure_code, bp_updated_at := now\<rparr>) s"

section \<open>Artifact sets\<close>

record artifact_upsert =
  au_artifact_key :: string
  au_model_slug :: string
  au_config_hash :: string
  au_output_kind :: string
  au_format :: string
  au_object_key :: string
  au_content_type :: string
  au_byte_len :: int
  au_sha256 :: string
  au_producing_job_key :: "string option"
  au_source_hash :: string
  au_options_hash :: string
  au_request_hash :: "string option"
  au_raw_payload_hash :: "string option"
  au_postprocess_hash :: "string option"
  au_generator_processing_hash :: "string option"
  au_parameter_schema_version :: int
  au_config_values_json :: string

record artifact_stage =
  ag_model_slug :: string
  ag_output_kind :: string
  ag_format :: string
  ag_object_key :: string
  ag_content_type :: string
  ag_byte_len :: int
  ag_sha256 :: string
  ag_producing_job_key :: "string option"
  ag_parameter_schema_version :: int
  ag_config_values_json :: string

record generator_file =
  gf_role :: string
  gf_logical_path :: string
  gf_original_path :: "string option"
  gf_object_key :: string
  gf_content_type :: string
  gf_byte_len :: int
  gf_sha256 :: string
  gf_metadata_json :: string

record artifact_state =
  xs_artifact_set_hash :: string
  xs_status :: string
  xs_updated_at :: nat

definition i64_json :: "int \<Rightarrow> json" where
  "i64_json i = JNum (from_i64 (word_of_int i))"

definition artifact_metadata_json :: "string \<Rightarrow> string option \<Rightarrow> int \<Rightarrow> string \<Rightarrow> json" where
  "artifact_metadata_json model_slug job_key schema_version values_json = members [
     (''modelSlug'', Some (JStr model_slug)), (''producingJobKey'', Some (nullable JStr job_key)),
     (''parameterSchemaVersion'', Some (i64_json schema_version)),
     (''configValuesJson'', Some (JStr values_json))]"

text \<open>\<open>to_string\<close> of the metadata with its \<open>expect\<close>.\<close>

definition metadata_text :: "libraries \<Rightarrow> json \<Rightarrow> (sql_error, string) result" where
  "metadata_text lib v = map_err (\<lambda>_. Panicked ''artifact metadata serializes'') (lb_to_vec lib v)"

definition generator_identity_error :: "string \<Rightarrow> sql_error" where
  "generator_identity_error e = ProtocolError (''could not derive generator artifact identity: '' @ e)"

definition identity_for :: "libraries \<Rightarrow> prepared \<Rightarrow> string \<Rightarrow> string \<Rightarrow> (sql_error, artifact_set_identity) result" where
  "identity_for lib p kind format = map_err generator_identity_error (generator_artifact_set_identity lib p kind format)"

definition hash_for :: "libraries \<Rightarrow> prepared \<Rightarrow> string \<Rightarrow> string \<Rightarrow> (sql_error, string) result" where
  "hash_for lib p kind format = map_err generator_identity_error (generator_artifact_set_hash lib p kind format)"

definition find_set :: "string \<Rightarrow> store \<Rightarrow> artifact_set option" where
  "find_set h s = find_row at_artifact_set_hash h (st_sets s)"

definition files_of :: "string \<Rightarrow> store \<Rightarrow> artifact_file list" where
  "files_of h s = filter (\<lambda>f. fl_artifact_set_hash f = h) (st_files s)"

definition update_sets ::
  "(artifact_set \<Rightarrow> bool) \<Rightarrow> (artifact_set \<Rightarrow> artifact_set) \<Rightarrow> store \<Rightarrow> nat \<times> store" where
  "update_sets p change s = (let (n, t) = update_where p change (st_sets s) in (n, s\<lparr>st_sets := t\<rparr>))"

text \<open>The foreign key of \<open>generator_processing_hash\<close> is enforced (\<open>PRAGMA foreign_keys = ON\<close>).\<close>

definition recipe_exists :: "string option \<Rightarrow> store \<Rightarrow> bool" where
  "recipe_exists h s = pred_option (\<lambda>h. find_row rr_processing_hash h (st_recipes s) \<noteq> None) h"

definition insert_file :: "store \<Rightarrow> artifact_file \<Rightarrow> (sql_error, store) result" where
  "insert_file s f =
    (if list_ex (\<lambda>x. fl_object_key x = fl_object_key f \<or> (fl_artifact_set_hash x = fl_artifact_set_hash f
        \<and> fl_role x = fl_role f \<and> fl_logical_path x = fl_logical_path f)) (st_files s)
     then Err ConstraintViolation else Ok (s\<lparr>st_files := st_files s @ [f]\<rparr>))"

definition new_set :: "nat \<Rightarrow> artifact_upsert \<Rightarrow> string \<Rightarrow> artifact_set" where
  "new_set now a metadata = \<lparr>at_artifact_set_hash = au_artifact_key a, at_source_hash = au_source_hash a,
     at_config_hash = au_config_hash a, at_options_hash = au_options_hash a,
     at_request_hash = au_request_hash a, at_raw_payload_hash = au_raw_payload_hash a,
     at_postprocess_hash = au_postprocess_hash a,
     at_generator_processing_hash = au_generator_processing_hash a, at_output_kind = au_output_kind a,
     at_format = au_format a, at_status = ''staged'', at_primary_object_key = Some (au_object_key a),
     at_metadata_json = metadata, at_created_at = now, at_updated_at = now, at_superseded_at = None,
     at_superseded_by = None, at_supersession_reason = None\<rparr>"

text \<open>The upsert of a set replaces a row that no generator made, and no other.\<close>

definition upsert_set :: "artifact_set \<Rightarrow> store \<Rightarrow> (sql_error, nat \<times> store) result" where
  "upsert_set r s = (if find_set (at_artifact_set_hash r) s = None
     then (if recipe_exists (at_generator_processing_hash r) s
       then Ok (1, s\<lparr>st_sets := st_sets s @ [r]\<rparr>) else Err ConstraintViolation)
     else Ok (update_sets (\<lambda>x. at_artifact_set_hash x = at_artifact_set_hash r
         \<and> at_generator_processing_hash x = None \<and> at_generator_processing_hash r = None) (\<lambda>_. r) s))"

definition stage_artifact_inner ::
  "libraries \<Rightarrow> nat \<Rightarrow> artifact_upsert \<Rightarrow> artifact_file list \<Rightarrow> store \<Rightarrow> (sql_error, unit) result \<times> store" where
  "stage_artifact_inner lib now a files s =
    (case metadata_text lib (artifact_metadata_json (au_model_slug a) (au_producing_job_key a)
        (au_parameter_schema_version a) (au_config_values_json a)) of
      Err e \<Rightarrow> (Err e, s)
    | Ok metadata \<Rightarrow> transaction (\<lambda>s.
        and_then (upsert_set (new_set now a metadata) s) (\<lambda>(n, s).
        if n = 0
        then Err (ProtocolError (''immutable generator artifact conflict for '' @ au_artifact_key a))
        else
          let s = s\<lparr>st_files := filter (\<lambda>f. fl_artifact_set_hash f \<noteq> au_artifact_key a) (st_files s)\<rparr>
          in and_then (try_fold insert_file s files) (\<lambda>s. Ok ((), s)))) s)"

definition stage_artifact ::
  "libraries \<Rightarrow> nat \<Rightarrow> artifact_upsert \<Rightarrow> artifact_file list \<Rightarrow> store \<Rightarrow> (sql_error, unit) result \<times> store" where
  "stage_artifact lib now a files =
    (if au_generator_processing_hash a \<noteq> None
     then refused (Err (ProtocolError ''generator artifacts must use prepared-recipe staging''))
     else stage_artifact_inner lib now a files)"

definition generator_upsert :: "artifact_stage \<Rightarrow> artifact_set_identity \<Rightarrow> string \<Rightarrow> string \<Rightarrow> artifact_upsert" where
  "generator_upsert a i hash processing_hash =
    \<lparr>au_artifact_key = hash, au_model_slug = ag_model_slug a, au_config_hash = as_config_hash i,
     au_output_kind = as_output_kind i, au_format = as_format i, au_object_key = ag_object_key a,
     au_content_type = ag_content_type a, au_byte_len = ag_byte_len a, au_sha256 = ag_sha256 a,
     au_producing_job_key = ag_producing_job_key a, au_source_hash = as_source_hash i,
     au_options_hash = as_options_hash i, au_request_hash = None, au_raw_payload_hash = None,
     au_postprocess_hash = Some processing_hash, au_generator_processing_hash = Some processing_hash,
     au_parameter_schema_version = ag_parameter_schema_version a,
     au_config_values_json = ag_config_values_json a\<rparr>"

definition file_row :: "string \<Rightarrow> generator_file \<Rightarrow> artifact_file" where
  "file_row hash f = \<lparr>fl_artifact_set_hash = hash, fl_role = gf_role f, fl_logical_path = gf_logical_path f,
     fl_original_path = gf_original_path f, fl_object_key = gf_object_key f,
     fl_content_type = gf_content_type f, fl_byte_len = gf_byte_len f, fl_sha256 = gf_sha256 f,
     fl_metadata_json = gf_metadata_json f\<rparr>"

definition stored_file :: "artifact_file \<Rightarrow> generator_file" where
  "stored_file f = \<lparr>gf_role = fl_role f, gf_logical_path = fl_logical_path f,
     gf_original_path = fl_original_path f, gf_object_key = fl_object_key f,
     gf_content_type = fl_content_type f, gf_byte_len = fl_byte_len f, gf_sha256 = fl_sha256 f,
     gf_metadata_json = fl_metadata_json f\<rparr>"

definition is_supported :: "prepared \<Rightarrow> bool" where
  "is_supported p \<longleftrightarrow> pr_compatibility_decision (pp_recipe p) = Supported"

definition stage_generator_artifact ::
  "libraries \<Rightarrow> nat \<Rightarrow> prepared \<Rightarrow> artifact_stage \<Rightarrow> generator_file list \<Rightarrow> store
    \<Rightarrow> (sql_error, string) result \<times> store" where
  "stage_generator_artifact lib now p a files =
    (if \<not> is_supported p
     then refused (Err (ProtocolError ''unsupported generator recipe cannot stage an artifact''))
     else and_also (insert_generator_processing_recipe p) (\<lambda>_.
       and_also (refused (identity_for lib p (ag_output_kind a) (ag_format a))) (\<lambda>i.
       and_also (refused (hash_for lib p (ag_output_kind a) (ag_format a))) (\<lambda>hash.
       and_also (stage_artifact_inner lib now (generator_upsert a i hash (pp_processing_hash p))
         (map (file_row hash) files)) (\<lambda>_. refused (Ok hash))))))"

section \<open>Staging and resuming a generator artifact\<close>

text \<open>A path is given as its bytes; \<open>chars\<close> are the characters it encodes.\<close>

definition valid_generator_logical_path :: "string \<Rightarrow> bool" where
  "valid_generator_logical_path path \<longleftrightarrow> path \<noteq> [] \<and> path \<notin> {''.'', ''..''}
    \<and> list_all (\<lambda>c. c \<noteq> CHR ''/'' \<and> c \<noteq> CHR 0x5C) path \<and> list_all (\<lambda>c. \<not> is_control c) (chars path)"

definition output_of :: "prepared \<Rightarrow> output_declaration" where
  "output_of p = gr_output (pr_invocation (pp_recipe p))"

text \<open>What the file of a generator artifact must be, when it is staged and when it is loaded.\<close>

definition generator_file_ok :: "prepared \<Rightarrow> generator_file \<Rightarrow> bool" where
  "generator_file_ok p f \<longleftrightarrow> gf_role f = ''generated_project'' \<and> gf_original_path f = None
    \<and> valid_generator_logical_path (gf_logical_path f)
    \<and> gf_content_type f = od_media_type (output_of p) \<and> \<not> gf_byte_len f \<le> 0
    \<and> valid_generator_sha256 (gf_sha256 f) \<and> \<not> gf_byte_len f > uint (od_max_byte_length (output_of p))"

definition unsuperseded :: "artifact_set \<Rightarrow> bool" where
  "unsuperseded r \<longleftrightarrow> at_superseded_at r = None \<and> at_superseded_by r = None \<and> at_supersession_reason r = None"

definition record_matches :: "prepared \<Rightarrow> artifact_set_identity \<Rightarrow> string \<Rightarrow> string \<Rightarrow> artifact_set \<Rightarrow> bool" where
  "record_matches p i kind format r \<longleftrightarrow> is_supported p \<and> at_source_hash r = as_source_hash i
    \<and> at_config_hash r = as_config_hash i \<and> at_options_hash r = as_options_hash i
    \<and> at_output_kind r = kind \<and> at_format r = format \<and> at_request_hash r = None
    \<and> at_raw_payload_hash r = None \<and> at_postprocess_hash r = Some (pp_processing_hash p)
    \<and> at_generator_processing_hash r = Some (pp_processing_hash p)
    \<and> at_status r \<in> {''staged'', ''upload_failed'', ''ready''} \<and> unsuperseded r"

definition load_generator_artifact ::
  "libraries \<Rightarrow> prepared \<Rightarrow> string \<Rightarrow> string \<Rightarrow> store
    \<Rightarrow> (sql_error, (artifact_set \<times> generator_file) option) result" where
  "load_generator_artifact lib p kind format s =
    and_then (identity_for lib p kind format) (\<lambda>i.
    and_then (hash_for lib p kind format) (\<lambda>hash.
    (case find_set hash s of
       None \<Rightarrow> Ok None
     | Some r \<Rightarrow>
         if \<not> record_matches p i kind format r then Err generator_artifact_conflict
         else and_then (verify_persisted_generator_recipe p s) (\<lambda>_.
           (case files_of hash s of
              [row] \<Rightarrow>
                let f = stored_file row
                in if \<not> generator_file_ok p f \<or> at_primary_object_key r \<noteq> Some (gf_object_key f)
                     \<or> gf_object_key f = []
                   then Err generator_artifact_conflict
                   else Ok (Some (r, f))
            | _ \<Rightarrow> Err generator_artifact_conflict)))))"

definition staged_set :: "nat \<Rightarrow> prepared \<Rightarrow> artifact_stage \<Rightarrow> artifact_set_identity \<Rightarrow> string \<Rightarrow> string \<Rightarrow> artifact_set" where
  "staged_set now p a i hash metadata =
    \<lparr>at_artifact_set_hash = hash, at_source_hash = as_source_hash i, at_config_hash = as_config_hash i,
     at_options_hash = as_options_hash i, at_request_hash = None, at_raw_payload_hash = None,
     at_postprocess_hash = Some (pp_processing_hash p),
     at_generator_processing_hash = Some (pp_processing_hash p), at_output_kind = ag_output_kind a,
     at_format = ag_format a, at_status = ''staged'', at_primary_object_key = Some (ag_object_key a),
     at_metadata_json = metadata, at_created_at = now, at_updated_at = now, at_superseded_at = None,
     at_superseded_by = None, at_supersession_reason = None\<rparr>"

definition staged_files_ok :: "prepared \<Rightarrow> artifact_stage \<Rightarrow> generator_file \<Rightarrow> bool" where
  "staged_files_ok p a f \<longleftrightarrow> gf_object_key f = ag_object_key a \<and> gf_content_type f = ag_content_type a
    \<and> gf_byte_len f = ag_byte_len a \<and> gf_sha256 f = ag_sha256 a \<and> generator_file_ok p f"

text \<open>The transaction: insert the set and its file unless the set is there, then load and compare.\<close>

definition insert_staged ::
  "nat \<Rightarrow> prepared \<Rightarrow> artifact_stage \<Rightarrow> generator_file \<Rightarrow> artifact_set_identity \<Rightarrow> string \<Rightarrow> string \<Rightarrow> store
    \<Rightarrow> (sql_error, store) result" where
  "insert_staged now p a f i hash metadata s =
    (if find_set hash s \<noteq> None then Ok s
     else if \<not> recipe_exists (Some (pp_processing_hash p)) s then Err ConstraintViolation
     else insert_file (s\<lparr>st_sets := st_sets s @ [staged_set now p a i hash metadata]\<rparr>) (file_row hash f))"

definition resume_staged ::
  "libraries \<Rightarrow> nat \<Rightarrow> prepared \<Rightarrow> artifact_stage \<Rightarrow> generator_file \<Rightarrow> artifact_set_identity \<Rightarrow> string \<Rightarrow> string \<Rightarrow> store
    \<Rightarrow> (sql_error, artifact_state \<times> store) result" where
  "resume_staged lib now p a f i hash metadata s =
    and_then (insert_staged now p a f i hash metadata s) (\<lambda>s.
    and_then (load_generator_artifact lib p (ag_output_kind a) (ag_format a) s) (\<lambda>loaded.
    and_then (ok_or loaded generator_artifact_conflict) (\<lambda>(r, stored).
    if at_primary_object_key r \<noteq> Some (ag_object_key a) \<or> at_metadata_json r \<noteq> metadata \<or> stored \<noteq> f
    then Err generator_artifact_conflict
    else Ok (\<lparr>xs_artifact_set_hash = hash, xs_status = at_status r, xs_updated_at = at_updated_at r\<rparr>, s))))"

definition stage_or_resume_generator_artifact ::
  "libraries \<Rightarrow> nat \<Rightarrow> prepared \<Rightarrow> artifact_stage \<Rightarrow> generator_file list \<Rightarrow> store
    \<Rightarrow> (sql_error, artifact_state) result \<times> store" where
  "stage_or_resume_generator_artifact lib now p a files =
    (case files of
       [f] \<Rightarrow> if \<not> is_supported p \<or> \<not> staged_files_ok p a f
         then refused (Err generator_artifact_conflict)
         else and_also (insert_generator_processing_recipe p) (\<lambda>_.
           and_also (refused (identity_for lib p (ag_output_kind a) (ag_format a))) (\<lambda>i.
           and_also (refused (hash_for lib p (ag_output_kind a) (ag_format a))) (\<lambda>hash.
           and_also (refused (metadata_text lib (artifact_metadata_json (ag_model_slug a)
             (ag_producing_job_key a) (ag_parameter_schema_version a) (ag_config_values_json a)))) (\<lambda>metadata.
           transaction (resume_staged lib now p a f i hash metadata)))))
     | _ \<Rightarrow> refused (Err generator_artifact_conflict))"

section \<open>Transitions\<close>

text \<open>\<open>MAX(now, updated_at + 1 ms)\<close>\<close>

definition advance :: "nat \<Rightarrow> string \<Rightarrow> artifact_set \<Rightarrow> artifact_set" where
  "advance now status r = r\<lparr>at_status := status, at_updated_at := max now (at_updated_at r + 1)\<rparr>"

definition fail_generator_artifact :: "nat \<Rightarrow> string \<Rightarrow> store \<Rightarrow> bool \<times> store" where
  "fail_generator_artifact now hash s = one_row (update_sets (\<lambda>r. at_artifact_set_hash r = hash
     \<and> at_generator_processing_hash r \<noteq> None \<and> at_status r \<in> {''staged'', ''upload_failed''}
     \<and> unsuperseded r) (advance now ''upload_failed'') s)"

definition fail_ready_generator_verification :: "nat \<Rightarrow> string \<Rightarrow> nat \<Rightarrow> store \<Rightarrow> bool \<times> store" where
  "fail_ready_generator_verification now hash expected_updated_at s = one_row (update_sets (\<lambda>r.
     at_artifact_set_hash r = hash \<and> at_generator_processing_hash r \<noteq> None \<and> at_status r = ''ready''
     \<and> at_updated_at r = expected_updated_at \<and> unsuperseded r) (advance now ''upload_failed'') s)"

definition supersede :: "nat \<Rightarrow> string option \<Rightarrow> string option \<Rightarrow> artifact_set \<Rightarrow> artifact_set" where
  "supersede now by' reason r = r\<lparr>at_status := ''superseded'', at_superseded_at := Some now,
     at_superseded_by := by', at_supersession_reason := reason, at_updated_at := now\<rparr>"

definition supersede_ready_artifacts_for_output ::
  "nat \<Rightarrow> string \<Rightarrow> string \<Rightarrow> string \<Rightarrow> string \<Rightarrow> string \<Rightarrow> string option \<Rightarrow> store \<Rightarrow> nat \<times> store" where
  "supersede_ready_artifacts_for_output now source config options kind retained reason s =
    update_sets (\<lambda>r. at_source_hash r = source \<and> at_config_hash r = config \<and> at_options_hash r = options
      \<and> at_output_kind r = kind \<and> at_status r = ''ready'' \<and> at_artifact_set_hash r \<noteq> retained)
      (supersede now (Some retained) reason) s"

definition complete_generator_artifact ::
  "libraries \<Rightarrow> nat \<Rightarrow> prepared \<Rightarrow> string \<Rightarrow> string \<Rightarrow> string \<Rightarrow> store \<Rightarrow> (sql_error, bool) result \<times> store" where
  "complete_generator_artifact lib now p kind format object_key s =
    (case hash_for lib p kind format of
       Err e \<Rightarrow> (Err e, s)
     | Ok hash \<Rightarrow> transaction (\<lambda>s.
         and_then (load_generator_artifact lib p kind format s) (\<lambda>loaded. case loaded of
           None \<Rightarrow> Ok (False, s)
         | Some (r, f) \<Rightarrow>
             if gf_object_key f \<noteq> object_key then Err generator_artifact_conflict
             else if at_status r = ''ready'' then Ok (True, s)
             else
               let s = snd (update_sets (\<lambda>x. at_artifact_set_hash x = hash
                 \<and> at_status x \<in> {''staged'', ''upload_failed''} \<and> unsuperseded x) (advance now ''ready'') s)
               in Ok (True, snd (supersede_ready_artifacts_for_output now (at_source_hash r)
                 (at_config_hash r) (at_options_hash r) kind hash (Some ''replaced'') s)))) s)"

definition generator_artifact_for_reconciliation ::
  "libraries \<Rightarrow> prepared \<Rightarrow> string \<Rightarrow> string \<Rightarrow> store
    \<Rightarrow> (sql_error, (artifact_set \<times> generator_file) option) result \<times> store" where
  "generator_artifact_for_reconciliation lib p kind format =
    transaction (\<lambda>s. and_then (load_generator_artifact lib p kind format s) (\<lambda>loaded. Ok (loaded, s)))"

text \<open>The statements that the exports without a generator use.\<close>

definition mark_artifact_set_ready :: "nat \<Rightarrow> string \<Rightarrow> string \<Rightarrow> store \<Rightarrow> bool \<times> store" where
  "mark_artifact_set_ready now hash primary s = one_row (update_sets (\<lambda>r. at_artifact_set_hash r = hash)
     (\<lambda>r. r\<lparr>at_status := ''ready'', at_primary_object_key := Some primary, at_updated_at := now\<rparr>) s)"

definition transition_artifact_set_status :: "nat \<Rightarrow> string \<Rightarrow> string \<Rightarrow> store \<Rightarrow> bool \<times> store" where
  "transition_artifact_set_status now hash status s = one_row (update_sets (\<lambda>r. at_artifact_set_hash r = hash)
     (\<lambda>r. r\<lparr>at_status := status, at_updated_at := now\<rparr>) s)"

definition supersede_artifact_set ::
  "nat \<Rightarrow> string \<Rightarrow> string option \<Rightarrow> string option \<Rightarrow> store \<Rightarrow> bool \<times> store" where
  "supersede_artifact_set now hash by' reason s = one_row (update_sets
     (\<lambda>r. at_artifact_set_hash r = hash \<and> at_status r \<noteq> ''superseded'') (supersede now by' reason) s)"

definition supersede_artifact :: "nat \<Rightarrow> string \<Rightarrow> store \<Rightarrow> bool \<times> store" where
  "supersede_artifact now hash = supersede_artifact_set now hash None None"

section \<open>Reopening from the store\<close>

text \<open>\<open>decode\<close> is the derived deserializer of a recipe; the errors are those of \<open>anyhow\<close>.\<close>

datatype reopen_error = StoreError sql_error | RecipeError string

definition reopen_from_store ::
  "libraries \<Rightarrow> (json \<Rightarrow> (string, processing_recipe) result) \<Rightarrow> deployed_generator \<Rightarrow> string \<Rightarrow> store
    \<Rightarrow> (reopen_error, prepared) result" where
  "reopen_from_store lib decode g hash s =
    and_then (ok_or (find_row rr_processing_hash hash (st_recipes s)) (StoreError RowNotFound)) (\<lambda>row.
    and_then (map_err RecipeError (reopen_generator_processing lib decode g hash (rr_recipe_json row))) (\<lambda>p.
    and_then (map_err StoreError (verify_persisted_generator_recipe p s)) (\<lambda>_. Ok p)))"

end
