(* ===== verification/Runs.thy ===== *)
theory Runs
  imports Prelude
begin

text \<open>
  Runs: sequences of operations on a state. The locale \<open>monotone_runs\<close> is the contract of operations
  that only ever move the state along a preorder; \<open>invariant_runs\<close> that of operations that keep an
  invariant. Their lemmas lift one step to any run.
\<close>

definition run_steps :: "('o \<Rightarrow> 's \<Rightarrow> 's) \<Rightarrow> 'o list \<Rightarrow> 's \<Rightarrow> 's" where
  "run_steps step ops s = fold step ops s"

lemma run_steps_simps [simp]:
  "run_steps step [] s = s"
  "run_steps step (x # ops) s = run_steps step ops (step x s)"
  by (simp_all add: run_steps_def)

locale monotone_runs =
  fixes step :: "'o \<Rightarrow> 's \<Rightarrow> 's" and allowed :: "'o \<Rightarrow> bool" and moves :: "'s \<Rightarrow> 's \<Rightarrow> bool"
  assumes moves_refl: "moves s s"
    and moves_trans: "moves s t \<Longrightarrow> moves t u \<Longrightarrow> moves s u"
    and step_moves: "allowed x \<Longrightarrow> moves s (step x s)"
begin

lemma run_moves: "list_all allowed ops \<Longrightarrow> moves s (run_steps step ops s)"
  by (induction ops arbitrary: s) (auto intro: moves_refl moves_trans step_moves)

end

locale invariant_runs =
  fixes step :: "'o \<Rightarrow> 's \<Rightarrow> 's" and allowed :: "'o \<Rightarrow> bool" and inv :: "'s \<Rightarrow> bool"
  assumes step_inv: "allowed x \<Longrightarrow> inv s \<Longrightarrow> inv (step x s)"
begin

lemma run_inv: "list_all allowed ops \<Longrightarrow> inv s \<Longrightarrow> inv (run_steps step ops s)"
  by (induction ops arbitrary: s) (auto intro: step_inv)

end

end
