(* ===== verification/Artifact_Runs.thy ===== *)
theory Artifact_Runs
  imports Artifact_Store Runs "HOL-Library.Sublist"
begin

text \<open>
  Runs of operations on the artifact store: the records behind generator artifacts never change, the
  time of the last update is a version of a generator artifact, and at most one artifact of an output
  is ready.
\<close>

section \<open>Operations\<close>

datatype artifact_op =
    RecordProvenance string string string
  | InsertRecipe prepared
  | InsertRequest string string
  | BindOutput string string prepared string
  | RecordFailure string "string option" "string option"
  | StageArtifact artifact_upsert "generator_file list"
  | StageGenerator prepared artifact_stage "generator_file list"
  | StageOrResume prepared artifact_stage "generator_file list"
  | FailArtifact string
  | FailReady string nat
  | Complete prepared string string string
  | SupersedeSet string "string option" "string option"
  | SupersedeReady string string string string string "string option"
  | MarkReady string string
  | TransitionStatus string string

text \<open>The callers give the files of a set under the set's own hash.\<close>

fun artifact_step :: "libraries \<Rightarrow> nat \<times> artifact_op \<Rightarrow> store \<Rightarrow> store" where
  "artifact_step lib (now, RecordProvenance plan i json) s = snd (record_acquisition_provenance plan i json s)"
| "artifact_step lib (now, InsertRecipe p) s = snd (insert_generator_processing_recipe p s)"
| "artifact_step lib (now, InsertRequest i json) s = snd (insert_bambu_project_request now i json s)"
| "artifact_step lib (now, BindOutput i json p snapshot) s = snd (bind_bambu_project_output now i json p snapshot s)"
| "artifact_step lib (now, RecordFailure i c f) s = record_bambu_project_failure now i c f s"
| "artifact_step lib (now, StageArtifact a fs) s =
    snd (stage_artifact lib now a (map (file_row (au_artifact_key a)) fs) s)"
| "artifact_step lib (now, StageGenerator p a fs) s = snd (stage_generator_artifact lib now p a fs s)"
| "artifact_step lib (now, StageOrResume p a fs) s = snd (stage_or_resume_generator_artifact lib now p a fs s)"
| "artifact_step lib (now, FailArtifact h) s = snd (fail_generator_artifact now h s)"
| "artifact_step lib (now, FailReady h u) s = snd (fail_ready_generator_verification now h u s)"
| "artifact_step lib (now, Complete p kind format key) s = snd (complete_generator_artifact lib now p kind format key s)"
| "artifact_step lib (now, SupersedeSet h by' reason) s = snd (supersede_artifact_set now h by' reason s)"
| "artifact_step lib (now, SupersedeReady src cfg opts kind h reason) s =
    snd (supersede_ready_artifacts_for_output now src cfg opts kind h reason s)"
| "artifact_step lib (now, MarkReady h primary) s = snd (mark_artifact_set_ready now h primary s)"
| "artifact_step lib (now, TransitionStatus h status) s = snd (transition_artifact_set_status now h status s)"

text \<open>The statements that the exports without a generator apply to a set by its hash.\<close>

fun unguarded :: "string \<Rightarrow> artifact_op \<Rightarrow> bool" where
  "unguarded h (MarkReady h' _) \<longleftrightarrow> h' = h"
| "unguarded h (TransitionStatus h' _) \<longleftrightarrow> h' = h"
| "unguarded h _ \<longleftrightarrow> False"

section \<open>Cases of the operations\<close>

lemma transaction_cases:
  "snd (transaction body s) = s \<or> (\<exists>a. body s = Ok (a, snd (transaction body s)))"
  by (auto simp: transaction_def split: sum.splits)

lemma transaction_Ok: "transaction body s = (Ok a, s') \<longleftrightarrow> body s = Ok (a, s')"
  by (auto simp: transaction_def split: sum.splits)

lemma and_also_Ok: "and_also first rest s = (Ok b, s'') \<longleftrightarrow>
    (\<exists>a s'. first s = (Ok a, s') \<and> rest a s' = (Ok b, s''))"
  by (auto simp: and_also_def split: sum.splits prod.splits)

lemma refused_Ok: "refused r s = (Ok a, s') \<longleftrightarrow> r = Ok a \<and> s' = s"
  by (auto simp: refused_def)

lemma and_also_cases:
  "snd (and_also first rest s) = snd (first s)
    \<or> (\<exists>a. fst (first s) = Ok a \<and> snd (and_also first rest s) = snd (rest a (snd (first s))))"
  by (auto simp: and_also_def split: sum.splits prod.splits)

lemma snd_refused [simp]: "snd (refused r s) = s"
  by (simp add: refused_def)

lemma snd_one_row [simp]: "snd (one_row x) = snd x"
  by (simp add: one_row_def split: prod.splits)

lemma snd_update_sets: "snd (update_sets p change s) = s\<lparr>st_sets := snd (update_where p change (st_sets s))\<rparr>"
  by (simp add: update_sets_def split: prod.splits)

section \<open>The records behind the artifacts\<close>

text \<open>Tables that are only appended to, and requests that keep what they were made for.\<close>

definition bound_output :: "project_request \<Rightarrow> (string \<times> string) option" where
  "bound_output r = (case (bp_processing_hash r, bp_output_snapshot_identity r) of
      (Some h, Some x) \<Rightarrow> Some (h, x) | _ \<Rightarrow> None)"

definition same_request :: "project_request \<Rightarrow> project_request \<Rightarrow> bool" where
  "same_request r r' \<longleftrightarrow> bp_request_identity r' = bp_request_identity r \<and> bp_request_json r' = bp_request_json r
    \<and> (bound_output r = None \<or> bound_output r' = bound_output r)"

definition requests_kept :: "project_request list \<Rightarrow> project_request list \<Rightarrow> bool" where
  "requests_kept t t' \<longleftrightarrow> (\<forall>i r. find_row bp_request_identity i t = Some r \<longrightarrow>
    (\<exists>r'. find_row bp_request_identity i t' = Some r' \<and> same_request r r'))"

definition records_kept :: "store \<Rightarrow> store \<Rightarrow> bool" where
  "records_kept s s' \<longleftrightarrow> prefix (st_recipes s) (st_recipes s') \<and> prefix (st_occurrences s) (st_occurrences s')
    \<and> prefix (st_provenance s) (st_provenance s') \<and> requests_kept (st_requests s) (st_requests s')"

lemma same_request_refl [simp]: "same_request r r"
  by (simp add: same_request_def)

lemma requests_kept_refl [simp]: "requests_kept t t"
  by (auto simp: requests_kept_def)

lemma requests_kept_trans: "requests_kept t t' \<Longrightarrow> requests_kept t' t'' \<Longrightarrow> requests_kept t t''"
  unfolding requests_kept_def same_request_def by metis

lemma records_kept_refl [simp]: "records_kept s s"
  by (simp add: records_kept_def)

lemma records_kept_trans: "records_kept s t \<Longrightarrow> records_kept t u \<Longrightarrow> records_kept s u"
  unfolding records_kept_def using requests_kept_trans prefix_order.trans by metis

lemma records_kept_same:
  "st_recipes s' = st_recipes s \<Longrightarrow> st_occurrences s' = st_occurrences s \<Longrightarrow> st_provenance s' = st_provenance s
    \<Longrightarrow> st_requests s' = st_requests s \<Longrightarrow> records_kept s s'"
  by (simp add: records_kept_def)

lemma requests_kept_append: "requests_kept t (t @ [r])"
  by (auto simp: requests_kept_def find_row_append)

lemma requests_kept_update:
  assumes "\<And>r. bp_request_identity (change r) = bp_request_identity r"
    and "\<And>r. find_row bp_request_identity i t = Some r \<Longrightarrow> p r \<Longrightarrow> same_request r (change r)"
    and "\<And>r. p r \<Longrightarrow> bp_request_identity r = i"
  shows "requests_kept t (snd (update_where p change t))"
proof -
  have row: "find_row bp_request_identity k (snd (update_where p change t))
      = map_option (\<lambda>r. if p r then change r else r) (find_row bp_request_identity k t)" for k
    by (rule keyed_update.row) (unfold_locales, rule assms)
  show ?thesis
    unfolding requests_kept_def
  proof (intro allI impI)
    fix k r
    assume r: "find_row bp_request_identity k t = Some r"
    have "same_request r (change r)" if "p r"
      using assms(2,3) that find_row_Some [OF r] r by auto
    then show "\<exists>r'. find_row bp_request_identity k (snd (update_where p change t)) = Some r' \<and> same_request r r'"
      by (auto simp: row r)
  qed
qed

lemma insert_occurrence_prefix: "prefix t (fold insert_occurrence cs t)"
proof (induction cs arbitrary: t)
  case (Cons c cs)
  have "prefix t (insert_occurrence c t)" by (simp add: insert_occurrence_def)
  then show ?case using Cons [of "insert_occurrence c t"] by (auto intro: prefix_order.trans)
qed simp

lemma insert_fields_kept: "records_kept s (snd (insert_recipe_fields r cs s))"
  using insert_occurrence_prefix [of "st_occurrences s" cs]
  by (auto simp: insert_recipe_fields_def transaction_def Let_def and_then_def ok_or_def records_kept_def
      split: sum.splits option.splits if_splits)

lemma insert_recipe_kept: "records_kept s (snd (insert_generator_processing_recipe p s))"
  by (auto simp: insert_generator_processing_recipe_def insert_fields_kept split: sum.splits option.splits)

lemma provenance_kept: "records_kept s (snd (record_acquisition_provenance plan i json s))"
  by (auto simp: record_acquisition_provenance_def transaction_def Let_def and_then_def ok_or_def
      records_kept_def split: sum.splits option.splits if_splits)

lemma insert_request_kept: "records_kept s (snd (insert_bambu_project_request now i json s))"
  by (auto simp: insert_bambu_project_request_def transaction_def Let_def and_then_def ok_or_def
      records_kept_def requests_kept_append split: sum.splits option.splits if_splits)

lemma record_failure_kept: "records_kept s (record_bambu_project_failure now i c f s)"
proof -
  have "requests_kept (st_requests s) (st_requests (record_bambu_project_failure now i c f s))"
    unfolding record_bambu_project_failure_def update_requests_def
    by simp (rule requests_kept_update [where i = i], auto simp: same_request_def bound_output_def)
  then show ?thesis by (simp add: records_kept_def record_bambu_project_failure_def update_requests_def)
qed

lemma bind_output_kept: "records_kept s (snd (bind_bambu_project_output now i json p snapshot s))"
proof -
  define bind where "bind = transaction (\<lambda>s.
       and_then (ok_or (find_request i s) RowNotFound) (\<lambda>r.
         if bp_request_json r \<noteq> json
           \<or> \<not> pred_option (\<lambda>h. h = pp_processing_hash p) (bp_processing_hash r)
           \<or> \<not> pred_option (\<lambda>h. h = snapshot) (bp_output_snapshot_identity r)
           \<or> (bp_processing_hash r = None) \<noteq> (bp_output_snapshot_identity r = None)
         then Err (ProtocolError ''immutable project recipe association conflict'')
         else Ok ((), update_requests (\<lambda>r. bp_request_identity r = i)
           (bind_request now (pp_processing_hash p) snapshot) s)))"
  have bind: "records_kept t (snd (bind t))" for t
  proof (cases "snd (bind t) = t")
    case False
    then obtain r where r: "find_row bp_request_identity i (st_requests t) = Some r"
      and bound: "pred_option (\<lambda>h. h = pp_processing_hash p) (bp_processing_hash r)"
        "pred_option (\<lambda>h. h = snapshot) (bp_output_snapshot_identity r)"
      and t: "snd (bind t) = update_requests (\<lambda>r. bp_request_identity r = i)
           (bind_request now (pp_processing_hash p) snapshot) t"
      by (auto simp: bind_def transaction_def and_then_def ok_or_def find_request_def
          split: option.splits sum.splits if_splits)
    have "same_request r (bind_request now (pp_processing_hash p) snapshot r)"
      using bound by (auto simp: same_request_def bind_request_def bound_output_def pred_option_def split: option.splits)
    then have "requests_kept (st_requests t) (st_requests (snd (bind t)))"
      unfolding t update_requests_def
      by simp (rule requests_kept_update [where i = i], auto simp: bind_request_def r)
    then show ?thesis by (simp add: records_kept_def t update_requests_def)
  qed simp
  show ?thesis
    unfolding bind_bambu_project_output_def bind_def [symmetric]
    using insert_recipe_kept [of s p] bind and_also_cases [of "insert_generator_processing_recipe p" "\<lambda>_. bind" s]
    by (auto intro: records_kept_trans)
qed

section \<open>What an operation does to the artifacts\<close>

text \<open>What never changes in the row of a generator artifact.\<close>

definition frozen :: "artifact_set \<Rightarrow> artifact_set" where
  "frozen r = r\<lparr>at_status := [], at_primary_object_key := None, at_updated_at := 0, at_superseded_at := None,
     at_superseded_by := None, at_supersession_reason := None\<rparr>"

definition set_files :: "string \<Rightarrow> artifact_file list \<Rightarrow> artifact_file list" where
  "set_files h fs = filter (\<lambda>f. fl_artifact_set_hash f = h) fs"

definition same_output :: "artifact_set \<Rightarrow> artifact_set \<Rightarrow> bool" where
  "same_output r x \<longleftrightarrow> at_source_hash r = at_source_hash x \<and> at_config_hash r = at_config_hash x
    \<and> at_options_hash r = at_options_hash x \<and> at_output_kind r = at_output_kind x"

text \<open>
  The moves of the sets and files; \<open>U\<close> holds the hashes whose status is set by the unguarded statements.
\<close>

inductive artifacts_move ::
  "string set \<Rightarrow> artifact_set list \<times> artifact_file list \<Rightarrow> artifact_set list \<times> artifact_file list \<Rightarrow> bool" for U where
  Keep: "artifacts_move U x x"
| Add: "artifacts_move U (t, fs) (t @ [r], fs')"
    if "at_artifact_set_hash r \<notin> at_artifact_set_hash ` set t" "at_status r = ''staged''"
      "\<And>h. h \<noteq> at_artifact_set_hash r \<Longrightarrow> set_files h fs' = set_files h fs"
| Replace: "artifacts_move U (t, fs) (map (\<lambda>x. if x = old then r else x) t, fs')"
    if "old \<in> set t" "at_generator_processing_hash old = None" "at_status r = ''staged''"
      "at_artifact_set_hash r = at_artifact_set_hash old"
      "\<And>h. h \<noteq> at_artifact_set_hash r \<Longrightarrow> set_files h fs' = set_files h fs"
| Withdraw: "artifacts_move U (t, fs) (snd (update_where p (advance now ''upload_failed'') t), fs)"
    if "\<And>r. p r \<Longrightarrow> at_status r \<noteq> ''superseded''"
| Publish: "artifacts_move U (t, fs)
      (snd (update_where (\<lambda>x. same_output r x \<and> at_status x = ''ready'' \<and> at_artifact_set_hash x \<noteq> at_artifact_set_hash r)
        (supersede now by' reason)
        (map (\<lambda>x. if x = r then advance now ''ready'' r else x) t)), fs)"
    if "r \<in> set t" "at_status r \<noteq> ''superseded''"
| Retire: "artifacts_move U (t, fs) (snd (update_where p (supersede now by' reason) t), fs)"
| Force: "artifacts_move U (t, fs) (snd (update_where (\<lambda>r. at_artifact_set_hash r = h) change t), fs)"
    if "h \<in> U" "\<And>r. frozen (change r) = frozen r"

definition artifacts :: "store \<Rightarrow> artifact_set list \<times> artifact_file list" where
  "artifacts s = (st_sets s, st_files s)"

lemma artifacts_same: "st_sets s' = st_sets s \<Longrightarrow> st_files s' = st_files s \<Longrightarrow> artifacts s' = artifacts s"
  by (simp add: artifacts_def)

lemma insert_fields_artifacts: "artifacts (snd (insert_recipe_fields r cs s)) = artifacts s"
  by (auto simp: insert_recipe_fields_def transaction_def Let_def and_then_def ok_or_def artifacts_def
      split: sum.splits option.splits if_splits)

lemma insert_recipe_artifacts: "artifacts (snd (insert_generator_processing_recipe p s)) = artifacts s"
  by (auto simp: insert_generator_processing_recipe_def insert_fields_artifacts split: sum.splits option.splits)

lemma insert_file_Ok: "insert_file s f = Ok t \<Longrightarrow> t = s\<lparr>st_files := st_files s @ [f]\<rparr>"
  unfolding insert_file_def by (auto split: if_splits)

lemma insert_files: "try_fold insert_file s files = Ok s' \<Longrightarrow> s' = s\<lparr>st_files := st_files s @ files\<rparr>"
proof (induction files arbitrary: s)
  case (Cons f files)
  then obtain t where t: "insert_file s f = Ok t" "try_fold insert_file t files = Ok s'"
    by (auto split: sum.splits)
  show ?case using Cons.IH [OF t(2)] insert_file_Ok [OF t(1)] by simp
qed simp

definition keys_distinct :: "store \<Rightarrow> bool" where
  "keys_distinct s \<longleftrightarrow> distinct (map at_artifact_set_hash (st_sets s))"

text \<open>An update that a condition on the key singles out rewrites one row.\<close>

lemma update_one:
  assumes "distinct (map key t)" and "r \<in> set t" and "p r" and "\<And>x. p x \<Longrightarrow> key x = key r"
  shows "snd (update_where p change t) = map (\<lambda>x. if x = r then change r else x) t"
proof -
  have "inj_on key (set t)" using assms(1) by (simp add: distinct_map)
  then have eq: "p x \<longleftrightarrow> x = r" if "x \<in> set t" for x
    using that assms(2,3) assms(4) [of x] inj_onD [of key "set t" x r] by blast
  show ?thesis
    unfolding update_where_def snd_conv
  proof (intro map_cong refl)
    fix x assume "x \<in> set t"
    then show "(if p x then change x else x) = (if x = r then change r else x)" using eq by simp
  qed
qed

lemma find_set_iff: "keys_distinct s \<Longrightarrow> find_set h s = Some r \<longleftrightarrow> r \<in> set (st_sets s) \<and> at_artifact_set_hash r = h"
  unfolding find_set_def keys_distinct_def by (rule find_row_iff)

lemma find_set_None: "find_set h s = None \<longleftrightarrow> h \<notin> at_artifact_set_hash ` set (st_sets s)"
  by (simp add: find_set_def find_row_None)

lemma upsert_move:
  assumes "keys_distinct s" and "upsert_set r s = Ok (n, s')" and "n \<noteq> 0" and "at_status r = ''staged''"
    and "\<And>h. h \<noteq> at_artifact_set_hash r \<Longrightarrow> set_files h fs = set_files h (st_files s)"
  shows "artifacts_move U (artifacts s) (st_sets s', fs) \<and> st_files s' = st_files s"
proof (cases "find_set (at_artifact_set_hash r) s")
  case None
  then show ?thesis using assms
    by (auto simp: upsert_set_def artifacts_def find_set_None intro!: Add split: if_splits)
next
  case (Some old)
  have old: "old \<in> set (st_sets s)" "at_artifact_set_hash old = at_artifact_set_hash r"
    using Some assms(1) by (simp_all add: find_set_iff)
  let ?p = "\<lambda>x. at_artifact_set_hash x = at_artifact_set_hash r
    \<and> at_generator_processing_hash x = None \<and> at_generator_processing_hash r = None"
  have n: "n = length (filter ?p (st_sets s))" and s': "s' = s\<lparr>st_sets := snd (update_where ?p (\<lambda>_. r) (st_sets s))\<rparr>"
    using assms(2) Some by (simp_all add: upsert_set_def update_sets_def update_where_def)
  obtain x where x: "x \<in> set (st_sets s)" "?p x" using n assms(3) by (auto simp: filter_empty_conv)
  then have "x = old" using old assms(1) by (auto simp: keys_distinct_def distinct_map inj_on_def)
  then have "snd (update_where ?p (\<lambda>_. r) (st_sets s)) = map (\<lambda>x. if x = old then r else x) (st_sets s)"
    using x old assms(1) by (intro update_one [where key = at_artifact_set_hash]) (auto simp: keys_distinct_def)
  then show ?thesis using x \<open>x = old\<close> assms(4,5) by (auto simp: s' artifacts_def intro!: Replace)
qed

lemma set_files_other:
  assumes "h \<noteq> k" and "list_all (\<lambda>f. fl_artifact_set_hash f = k) new"
  shows "set_files h (filter (\<lambda>f. fl_artifact_set_hash f \<noteq> k) fs @ new) = set_files h fs"
  using assms by (induction fs) (auto simp: set_files_def list_all_iff filter_empty_conv)

lemma stage_inner_move:
  assumes "keys_distinct s" and "list_all (\<lambda>f. fl_artifact_set_hash f = au_artifact_key a) files"
  shows "artifacts_move U (artifacts s) (artifacts (snd (stage_artifact_inner lib now a files s)))
    \<and> records_kept s (snd (stage_artifact_inner lib now a files s))"
proof -
  let ?s' = "snd (stage_artifact_inner lib now a files s)"
  show ?thesis
  proof (cases "?s' = s")
    case False
    then obtain m n t u where u: "upsert_set (new_set now a m) s = Ok (n, t)" "n \<noteq> 0"
      "try_fold insert_file (t\<lparr>st_files := filter (\<lambda>f. fl_artifact_set_hash f \<noteq> au_artifact_key a) (st_files t)\<rparr>) files
        = Ok u" "?s' = u"
      by (auto simp: stage_artifact_inner_def transaction_def and_then_def Let_def split: sum.splits if_splits prod.splits)
    have s': "?s' = t\<lparr>st_files := filter (\<lambda>f. fl_artifact_set_hash f \<noteq> au_artifact_key a) (st_files t) @ files\<rparr>"
      using insert_files [OF u(3)] u(4) by simp
    have key: "at_artifact_set_hash (new_set now a m) = au_artifact_key a" "at_status (new_set now a m) = ''staged''"
      by (simp_all add: new_set_def)
    have same: "st_recipes t = st_recipes s" "st_occurrences t = st_occurrences s" "st_provenance t = st_provenance s"
        "st_requests t = st_requests s" "st_files t = st_files s"
      using u(1) by (auto simp: upsert_set_def update_sets_def split: if_splits prod.splits)
    have "artifacts_move U (artifacts s) (st_sets t, st_files ?s')"
      using upsert_move [OF assms(1) u(1,2) key(2), of "st_files ?s'" U] set_files_other [OF _ assms(2)]
      by (simp add: s' same key(1))
    moreover have "records_kept s ?s'" by (rule records_kept_same) (simp_all add: s' same)
    ultimately show ?thesis by (simp add: artifacts_def s')
  qed (simp add: Keep)
qed

lemma sets_kept [simp]: "records_kept s (s\<lparr>st_sets := t\<rparr>)"
  by (rule records_kept_same) simp_all

lemma update_sets_kept: "records_kept s (snd (update_sets p change s))"
  by (rule records_kept_same) (simp_all add: snd_update_sets)

lemma update_sets_artifacts:
  "artifacts (snd (update_sets p change s)) = (snd (update_where p change (st_sets s)), st_files s)"
  by (simp add: artifacts_def snd_update_sets)

lemma load_Some:
  assumes "load_generator_artifact lib p kind format s = Ok (Some (r, f))" and "hash_for lib p kind format = Ok hash"
  shows "find_set hash s = Some r" and "at_status r \<in> {''staged'', ''upload_failed'', ''ready''}" and "unsuperseded r"
    and "at_generator_processing_hash r = Some (pp_processing_hash p)" and "at_output_kind r = kind"
    and "map stored_file (files_of hash s) = [f]"
  using assms by (auto simp: load_generator_artifact_def and_then_def Let_def record_matches_def
      split: sum.splits option.splits list.splits if_splits)

lemma insert_staged_move:
  assumes "insert_staged now p a f i hash metadata s = Ok t"
  shows "artifacts_move U (artifacts s) (artifacts t) \<and> records_kept s t"
proof (cases "find_set hash s")
  case None
  then have t: "t = s\<lparr>st_sets := st_sets s @ [staged_set now p a i hash metadata], st_files := st_files s @ [file_row hash f]\<rparr>"
    using assms by (auto simp: insert_staged_def dest!: insert_file_Ok split: if_splits)
  have "artifacts_move U (st_sets s, st_files s)
      (st_sets s @ [staged_set now p a i hash metadata], st_files s @ [file_row hash f])"
    using None by (intro Add) (auto simp: staged_set_def find_set_None set_files_def file_row_def)
  then show ?thesis by (simp add: artifacts_def t records_kept_same)
qed (use assms in \<open>simp add: insert_staged_def Keep\<close>)

lemma resume_Ok:
  assumes "stage_or_resume_generator_artifact lib now p a files s = (Ok x, s')"
  obtains f i hash metadata b s1 r where "files = [f]" "is_supported p" "staged_files_ok p a f"
    "insert_generator_processing_recipe p s = (Ok b, s1)"
    "identity_for lib p (ag_output_kind a) (ag_format a) = Ok i"
    "hash_for lib p (ag_output_kind a) (ag_format a) = Ok hash"
    "metadata_text lib (artifact_metadata_json (ag_model_slug a) (ag_producing_job_key a)
       (ag_parameter_schema_version a) (ag_config_values_json a)) = Ok metadata"
    "insert_staged now p a f i hash metadata s1 = Ok s'"
    "load_generator_artifact lib p (ag_output_kind a) (ag_format a) s' = Ok (Some (r, f))"
    "at_primary_object_key r = Some (ag_object_key a)" "at_metadata_json r = metadata"
    "x = \<lparr>xs_artifact_set_hash = hash, xs_status = at_status r, xs_updated_at = at_updated_at r\<rparr>"
proof -
  obtain f where files: "files = [f]" and ok: "is_supported p" "staged_files_ok p a f"
    using assms by (auto simp: stage_or_resume_generator_artifact_def refused_Ok split: list.splits if_splits)
  obtain b s1 i hash metadata where parts: "insert_generator_processing_recipe p s = (Ok b, s1)"
    "identity_for lib p (ag_output_kind a) (ag_format a) = Ok i"
    "hash_for lib p (ag_output_kind a) (ag_format a) = Ok hash"
    "metadata_text lib (artifact_metadata_json (ag_model_slug a) (ag_producing_job_key a)
       (ag_parameter_schema_version a) (ag_config_values_json a)) = Ok metadata"
    "resume_staged lib now p a f i hash metadata s1 = Ok (x, s')"
    using assms ok by (auto simp: stage_or_resume_generator_artifact_def files refused_Ok and_also_Ok transaction_Ok)
  from parts(5) obtain t loaded where t: "insert_staged now p a f i hash metadata s1 = Ok t"
    "load_generator_artifact lib p (ag_output_kind a) (ag_format a) t = Ok loaded"
    and rest: "and_then (ok_or loaded generator_artifact_conflict) (\<lambda>(r, stored).
      if at_primary_object_key r \<noteq> Some (ag_object_key a) \<or> at_metadata_json r \<noteq> metadata \<or> stored \<noteq> f
      then Err generator_artifact_conflict
      else Ok (\<lparr>xs_artifact_set_hash = hash, xs_status = at_status r, xs_updated_at = at_updated_at r\<rparr>, t)) = Ok (x, s')"
    unfolding resume_staged_def and_then_Ok by blast
  then obtain r where "loaded = Some (r, f)" "t = s'" "at_primary_object_key r = Some (ag_object_key a)"
    "at_metadata_json r = metadata"
    "x = \<lparr>xs_artifact_set_hash = hash, xs_status = at_status r, xs_updated_at = at_updated_at r\<rparr>"
    by (auto simp: and_then_Ok ok_or_def split: option.splits if_splits)
  with t files ok parts show thesis by (intro that) simp_all
qed

lemma resume_cases:
  "snd (stage_or_resume_generator_artifact lib now p a files s) \<in> {s, snd (insert_generator_processing_recipe p s)}
    \<or> (\<exists>f i hash metadata. insert_staged now p a f i hash metadata (snd (insert_generator_processing_recipe p s))
        = Ok (snd (stage_or_resume_generator_artifact lib now p a files s)))"
  by (auto simp: stage_or_resume_generator_artifact_def and_also_def refused_def transaction_def
      resume_staged_def and_then_Ok split: list.splits sum.splits prod.splits if_splits)

lemma stage_generator_cases:
  "snd (stage_generator_artifact lib now p a files s) \<in> {s, snd (insert_generator_processing_recipe p s)}
    \<or> (\<exists>u. snd (stage_generator_artifact lib now p a files s) = snd (stage_artifact_inner lib now u
          (map (file_row (au_artifact_key u)) files) (snd (insert_generator_processing_recipe p s))))"
proof (cases "\<exists>b i hash. is_supported p \<and> fst (insert_generator_processing_recipe p s) = Ok b
    \<and> identity_for lib p (ag_output_kind a) (ag_format a) = Ok i
    \<and> hash_for lib p (ag_output_kind a) (ag_format a) = Ok hash")
  case True
  then obtain b i hash where ok: "is_supported p" "fst (insert_generator_processing_recipe p s) = Ok b"
    "identity_for lib p (ag_output_kind a) (ag_format a) = Ok i"
    "hash_for lib p (ag_output_kind a) (ag_format a) = Ok hash" by blast
  define u where "u = generator_upsert a i hash (pp_processing_hash p)"
  have "au_artifact_key u = hash" by (simp add: u_def generator_upsert_def)
  then have "snd (stage_generator_artifact lib now p a files s) = snd (stage_artifact_inner lib now u
      (map (file_row (au_artifact_key u)) files) (snd (insert_generator_processing_recipe p s)))"
    using ok by (auto simp: stage_generator_artifact_def and_also_def refused_def u_def split: prod.splits sum.splits)
  then show ?thesis by blast
next
  case False
  then have "snd (stage_generator_artifact lib now p a files s) \<in> {s, snd (insert_generator_processing_recipe p s)}"
    by (auto simp: stage_generator_artifact_def and_also_def refused_def split: prod.splits sum.splits)
  then show ?thesis by blast
qed

lemma complete_Ok:
  assumes "complete_generator_artifact lib now p kind format key s = (Ok b, s')"
  obtains hash where "hash_for lib p kind format = Ok hash"
    "load_generator_artifact lib p kind format s = Ok None" "\<not> b" "s' = s"
  | hash r f where "hash_for lib p kind format = Ok hash"
    "load_generator_artifact lib p kind format s = Ok (Some (r, f))" "gf_object_key f = key" "b"
    "at_status r = ''ready''" "s' = s"
  | hash r f where "hash_for lib p kind format = Ok hash"
    "load_generator_artifact lib p kind format s = Ok (Some (r, f))" "gf_object_key f = key" "b"
    "at_status r \<noteq> ''ready''"
    "s' = snd (supersede_ready_artifacts_for_output now (at_source_hash r) (at_config_hash r)
        (at_options_hash r) kind hash (Some ''replaced'') (snd (update_sets (\<lambda>x. at_artifact_set_hash x = hash
          \<and> at_status x \<in> {''staged'', ''upload_failed''} \<and> unsuperseded x) (advance now ''ready'') s)))"
proof -
  obtain hash where hash: "hash_for lib p kind format = Ok hash"
    using assms by (auto simp: complete_generator_artifact_def split: sum.splits)
  obtain loaded where loaded: "load_generator_artifact lib p kind format s = Ok loaded"
    using assms by (auto simp: complete_generator_artifact_def hash transaction_Ok and_then_Ok)
  note step = assms [unfolded complete_generator_artifact_def hash loaded, simplified, unfolded transaction_Ok and_then_Ok]
  show thesis
  proof (cases loaded)
    case None
    then show thesis using that(1) [OF hash] loaded step by simp
  next
    case (Some rf)
    obtain r f where rf: "rf = (r, f)" by force
    show thesis
    proof (cases "at_status r = ''ready''")
      case True
      then show thesis using that(2) [OF hash, of r f] loaded step Some rf by (simp split: if_splits)
    next
      case False
      then show thesis using that(3) [OF hash, of r f] loaded step Some rf by (simp add: Let_def split: if_splits)
    qed
  qed
qed

lemma complete_Err: "complete_generator_artifact lib now p kind format key s = (Err e, s') \<Longrightarrow> s' = s"
  by (auto simp: complete_generator_artifact_def transaction_def split: sum.splits)

text \<open>Completing an artifact that is not ready makes it ready and supersedes the others of its output.\<close>

definition published :: "nat \<Rightarrow> artifact_set \<Rightarrow> store \<Rightarrow> store" where
  "published now r s = s\<lparr>st_sets := snd (update_where
     (\<lambda>x. same_output r x \<and> at_status x = ''ready'' \<and> at_artifact_set_hash x \<noteq> at_artifact_set_hash r)
     (supersede now (Some (at_artifact_set_hash r)) (Some ''replaced''))
     (map (\<lambda>x. if x = r then advance now ''ready'' r else x) (st_sets s)))\<rparr>"

lemma complete_published:
  assumes "keys_distinct s" and "hash_for lib p kind format = Ok hash"
    and "load_generator_artifact lib p kind format s = Ok (Some (r, f))" and "at_status r \<noteq> ''ready''"
  shows "snd (supersede_ready_artifacts_for_output now (at_source_hash r) (at_config_hash r)
        (at_options_hash r) kind hash (Some ''replaced'') (snd (update_sets (\<lambda>x. at_artifact_set_hash x = hash
          \<and> at_status x \<in> {''staged'', ''upload_failed''} \<and> unsuperseded x) (advance now ''ready'') s)))
    = published now r s"
proof -
  note r = load_Some [OF assms(3,2)]
  have set: "r \<in> set (st_sets s)" "at_artifact_set_hash r = hash" using r(1) assms(1) by (simp_all add: find_set_iff)
  have "snd (update_where (\<lambda>x. at_artifact_set_hash x = hash \<and> at_status x \<in> {''staged'', ''upload_failed''}
      \<and> unsuperseded x) (advance now ''ready'') (st_sets s)) = map (\<lambda>x. if x = r then advance now ''ready'' r else x) (st_sets s)"
    using r(2,3) set assms(1,4)
    by (subst update_one [where key = at_artifact_set_hash and r = r]) (auto simp: keys_distinct_def)
  then show ?thesis
    by (simp add: supersede_ready_artifacts_for_output_def snd_update_sets published_def same_output_def
        set(2) r(5) conj_ac eq_commute)
qed

lemma complete_move:
  assumes "keys_distinct s"
  shows "artifacts_move U (artifacts s) (artifacts (snd (complete_generator_artifact lib now p kind format key s)))
    \<and> records_kept s (snd (complete_generator_artifact lib now p kind format key s))"
proof (cases "complete_generator_artifact lib now p kind format key s")
  case (Pair res s')
  show ?thesis
  proof (cases res)
    case (Inl e)
    then show ?thesis using complete_Err [of lib now p kind format key s e s'] Pair by (simp add: Keep)
  next
    case (Inr b)
    have "complete_generator_artifact lib now p kind format key s = (Ok b, s')" using Pair Inr by simp
    then show ?thesis
    proof (cases rule: complete_Ok)
      case (3 hash r f)
      then have s': "s' = published now r s" using complete_published [OF assms 3(1,2,5)] by simp
      have "r \<in> set (st_sets s)" "at_status r \<noteq> ''superseded''"
        using load_Some [OF 3(2,1)] assms by (auto simp: find_set_iff)
      then have "artifacts_move U (artifacts s) (artifacts (published now r s))"
        by (auto simp: artifacts_def published_def intro!: Publish)
      then show ?thesis using Pair s' by (simp add: records_kept_same published_def)
    qed (simp_all add: Pair Keep)
  qed
qed

lemma resume_move:
  "artifacts_move U (artifacts s) (artifacts (snd (stage_or_resume_generator_artifact lib now p a files s)))
    \<and> records_kept s (snd (stage_or_resume_generator_artifact lib now p a files s))"
  using resume_cases [of lib now p a files s] insert_recipe_kept [of s p] insert_recipe_artifacts [of p s]
    insert_staged_move [of now p a _ _ _ _ "snd (insert_generator_processing_recipe p s)"]
  by (auto simp: Keep intro: records_kept_trans)

lemma stage_generator_move:
  assumes "keys_distinct s"
  shows "artifacts_move U (artifacts s) (artifacts (snd (stage_generator_artifact lib now p a files s)))
    \<and> records_kept s (snd (stage_generator_artifact lib now p a files s))"
proof -
  let ?s1 = "snd (insert_generator_processing_recipe p s)"
  have s1: "artifacts ?s1 = artifacts s" "records_kept s ?s1" by (rule insert_recipe_artifacts, rule insert_recipe_kept)
  then have "keys_distinct ?s1" using assms by (simp add: artifacts_def keys_distinct_def)
  then have "artifacts_move U (artifacts s) (artifacts (snd (stage_artifact_inner lib now u (map (file_row (au_artifact_key u)) files) ?s1)))
      \<and> records_kept s (snd (stage_artifact_inner lib now u (map (file_row (au_artifact_key u)) files) ?s1))" for u
    using stage_inner_move [of ?s1 u "map (file_row (au_artifact_key u)) files" U lib now] s1
    by (auto simp: list_all_iff file_row_def intro: records_kept_trans)
  then show ?thesis using stage_generator_cases [of lib now p a files s] s1 by (auto simp: Keep)
qed

lemma bind_output_artifacts: "artifacts (snd (bind_bambu_project_output now i json p snapshot s)) = artifacts s"
  using insert_recipe_artifacts [of p s]
  by (auto simp: bind_bambu_project_output_def and_also_def transaction_def and_then_def ok_or_def update_requests_def
      artifacts_def split: sum.splits prod.splits option.splits if_splits)

lemma request_artifacts:
  "artifacts (snd (record_acquisition_provenance plan i json s)) = artifacts s"
  "artifacts (snd (insert_bambu_project_request now i json s)) = artifacts s"
  "artifacts (record_bambu_project_failure now i c f s) = artifacts s"
  by (auto simp: record_acquisition_provenance_def insert_bambu_project_request_def record_bambu_project_failure_def
      update_requests_def transaction_def and_then_def ok_or_def Let_def artifacts_def
      split: sum.splits option.splits if_splits)

lemma frozen_parts:
  "frozen r = frozen r' \<Longrightarrow> at_artifact_set_hash r = at_artifact_set_hash r'
    \<and> at_generator_processing_hash r = at_generator_processing_hash r' \<and> same_output r r'"
  by (cases r; cases r') (simp add: frozen_def same_output_def)

lemma frozen_changes [simp]:
  "frozen (advance now st r) = frozen r" "frozen (supersede now by' reason r) = frozen r"
  by (simp_all add: frozen_def advance_def supersede_def)

lemma step_moves:
  assumes "keys_distinct s"
  shows "artifacts_move {h. unguarded h (snd x)} (artifacts s) (artifacts (artifact_step lib x s))
    \<and> records_kept s (artifact_step lib x s)"
proof (cases x)
  case (Pair now x')
  show ?thesis
  proof (cases x')
    case (StageArtifact a fs)
    have "list_all (\<lambda>f. fl_artifact_set_hash f = au_artifact_key a) (map (file_row (au_artifact_key a)) fs)"
      by (simp add: list_all_iff file_row_def)
    then show ?thesis using stage_inner_move [OF assms] Pair StageArtifact
      by (simp add: stage_artifact_def Keep)
  next
    case (MarkReady h key)
    then show ?thesis using Pair
      by (auto simp: mark_artifact_set_ready_def update_sets_kept snd_update_sets artifacts_def frozen_def intro!: Force)
  next
    case (TransitionStatus h key)
    then show ?thesis using Pair
      by (auto simp: transition_artifact_set_status_def update_sets_kept snd_update_sets artifacts_def frozen_def intro!: Force)
  next
    case (FailArtifact h)
    then show ?thesis using Pair
      by (auto simp: fail_generator_artifact_def update_sets_kept snd_update_sets artifacts_def intro!: Withdraw)
  next
    case (FailReady h u)
    then show ?thesis using Pair
      by (auto simp: fail_ready_generator_verification_def update_sets_kept snd_update_sets artifacts_def intro!: Withdraw)
  next
    case (SupersedeSet h u v)
    then show ?thesis using Pair
      by (auto simp: supersede_artifact_set_def update_sets_kept snd_update_sets artifacts_def intro!: Retire)
  next
    case (SupersedeReady a b c d e f)
    then show ?thesis using Pair
      by (auto simp: supersede_ready_artifacts_for_output_def update_sets_kept snd_update_sets artifacts_def intro!: Retire)
  qed (use Pair in \<open>simp_all add: Keep insert_recipe_artifacts insert_recipe_kept provenance_kept insert_request_kept
      record_failure_kept bind_output_kept bind_output_artifacts request_artifacts resume_move
      stage_generator_move assms complete_move\<close>)
qed

section \<open>How a generator artifact evolves\<close>

text \<open>
  A row either stays as it is, or its version grows, or it is superseded, which is final.
\<close>

definition evolved :: "artifact_set \<Rightarrow> artifact_set \<Rightarrow> bool" where
  "evolved r r' \<longleftrightarrow> r' = r \<or> (at_status r \<noteq> ''superseded'' \<and> at_updated_at r < at_updated_at r')
    \<or> at_status r' = ''superseded''"

definition is_generated :: "artifact_set \<Rightarrow> bool" where
  "is_generated r \<longleftrightarrow> at_generator_processing_hash r \<noteq> None"

lemma evolved_refl [simp]: "evolved r r"
  by (simp add: evolved_def)

lemma evolved_trans: "evolved r r' \<Longrightarrow> evolved r' r'' \<Longrightarrow> evolved r r''"
  by (auto simp: evolved_def)

lemma evolved_changes [simp]:
  "at_status r \<noteq> ''superseded'' \<Longrightarrow> evolved r (advance now st r)" "evolved r (supersede now by' reason r)"
  by (auto simp: evolved_def advance_def supersede_def)

lemma frozen_key: "frozen r' = frozen r \<Longrightarrow> at_artifact_set_hash r' = at_artifact_set_hash r"
  using frozen_parts by blast

lemma update_keys:
  "(\<And>r. at_artifact_set_hash (change r) = at_artifact_set_hash r) \<Longrightarrow>
    map at_artifact_set_hash (snd (update_where p change t)) = map at_artifact_set_hash t"
  by (rule keyed_update.keys) unfold_locales

lemma changed_keys [simp]:
  "at_artifact_set_hash (advance now st r) = at_artifact_set_hash r"
  "at_artifact_set_hash (supersede now by' reason r) = at_artifact_set_hash r"
  by (simp_all add: advance_def supersede_def)

lemma map_if_keys:
  "key r' = key r \<Longrightarrow> map key (map (\<lambda>x. if x = r then r' else x) t) = map key t"
  by (induction t) auto

lemma move_distinct:
  "artifacts_move U x y \<Longrightarrow> distinct (map at_artifact_set_hash (fst x)) \<Longrightarrow> distinct (map at_artifact_set_hash (fst y))"
proof (induction rule: artifacts_move.induct)
  case (Replace old t r fs' fs)
  have "map at_artifact_set_hash (map (\<lambda>x. if x = old then r else x) t) = map at_artifact_set_hash t"
    using Replace by (intro map_if_keys) simp
  then show ?case using Replace.prems by (simp only: fst_conv)
next
  case (Publish r t fs now by' reason)
  have "map at_artifact_set_hash (map (\<lambda>x. if x = r then advance now ''ready'' r else x) t) = map at_artifact_set_hash t"
    by (intro map_if_keys) simp
  then show ?case using Publish.prems by (simp only: fst_conv update_keys changed_keys)
next
  case (Force h change t fs)
  have "map at_artifact_set_hash (snd (update_where (\<lambda>r. at_artifact_set_hash r = h) change t)) = map at_artifact_set_hash t"
    using Force.hyps(2) by (intro update_keys frozen_key)
  then show ?case using Force.prems by (simp only: fst_conv)
qed (simp_all add: update_keys)

lemma update_member:
  "r \<in> set t \<Longrightarrow> (if p r then change r else r) \<in> set (snd (update_where p change t))"
  by (auto simp: set_update)

lemma updated_member:
  assumes "r \<in> set t" and "P r" and "p r \<Longrightarrow> P (change r)"
  shows "\<exists>r' \<in> set (snd (update_where p change t)). P r'"
  using update_member [OF assms(1), of p change] assms(2,3) by (cases "p r") auto

lemma move_member:
  assumes "artifacts_move U x y" and "r \<in> set (fst x)" and "is_generated r"
    and "distinct (map at_artifact_set_hash (fst x))"
  shows "\<exists>r' \<in> set (fst y). frozen r' = frozen r \<and> (at_artifact_set_hash r \<notin> U \<longrightarrow> evolved r r')"
  using assms
proof (induction rule: artifacts_move.induct)
  case (Replace old t r' fs' fs)
  then have "r \<noteq> old" by (auto simp: is_generated_def)
  then have "r \<in> set (map (\<lambda>x. if x = old then r' else x) t)" using Replace by force
  then show ?case by auto
next
  case (Withdraw p t fs now)
  then show ?case by (simp, intro updated_member) auto
next
  case (Publish r0 t fs now by' reason)
  let ?x = "if r = r0 then advance now ''ready'' r0 else r"
  let ?p = "\<lambda>x. same_output r0 x \<and> at_status x = ''ready'' \<and> at_artifact_set_hash x \<noteq> at_artifact_set_hash r0"
  let ?y = "if ?p ?x then supersede now by' reason ?x else ?x"
  have "?x \<in> set (map (\<lambda>x. if x = r0 then advance now ''ready'' r0 else x) t)"
    using Publish.prems(1) unfolding fst_conv set_map by (rule imageI)
  then have "?y \<in> set (snd (update_where ?p (supersede now by' reason) (map (\<lambda>x. if x = r0 then advance now ''ready'' r0 else x) t)))"
    by (rule update_member)
  moreover have "frozen ?y = frozen r" by simp
  moreover have "evolved r ?x" using Publish.hyps(2) by simp
  then have "evolved r ?y" using evolved_trans [OF _ evolved_changes(2), of r ?x] by (cases "?p ?x") simp_all
  ultimately show ?case unfolding fst_conv by blast
next
  case (Retire t fs p now by' reason)
  then show ?case by (simp, intro updated_member) auto
next
  case (Force h change t fs)
  have "\<exists>r' \<in> set (snd (update_where (\<lambda>r. at_artifact_set_hash r = h) change t)).
      frozen r' = frozen r \<and> (at_artifact_set_hash r \<notin> U \<longrightarrow> evolved r r')"
    by (rule updated_member) (use Force in auto)
  then show ?case by simp
qed auto

lemma move_files:
  assumes "artifacts_move U x y" and "r \<in> set (fst x)" and "is_generated r"
    and "distinct (map at_artifact_set_hash (fst x))"
  shows "set_files (at_artifact_set_hash r) (snd y) = set_files (at_artifact_set_hash r) (snd x)"
  using assms
proof (induction rule: artifacts_move.induct)
  case (Add r' t fs' fs)
  have "at_artifact_set_hash r \<in> at_artifact_set_hash ` set t" using Add by simp
  then have "at_artifact_set_hash r \<noteq> at_artifact_set_hash r'" using Add by metis
  then show ?case using Add by simp
next
  case (Replace old t r' fs' fs)
  then have "r \<noteq> old" by (auto simp: is_generated_def)
  have "inj_on at_artifact_set_hash (set t)" using Replace by (simp add: distinct_map)
  then have "at_artifact_set_hash r \<noteq> at_artifact_set_hash old"
    using \<open>r \<noteq> old\<close> Replace inj_onD [of at_artifact_set_hash "set t" r old] by auto
  then show ?case using Replace by simp
qed auto

text \<open>What a run keeps of the store; \<open>U\<close> holds the hashes the unguarded statements are applied to.\<close>

definition history :: "string set \<Rightarrow> store \<Rightarrow> store \<Rightarrow> bool" where
  "history U s s' \<longleftrightarrow> (keys_distinct s \<longrightarrow> records_kept s s' \<and> keys_distinct s' \<and>
    (\<forall>r \<in> set (st_sets s). is_generated r \<longrightarrow>
      (\<exists>r' \<in> set (st_sets s'). frozen r' = frozen r \<and> (at_artifact_set_hash r \<notin> U \<longrightarrow> evolved r r'))
      \<and> set_files (at_artifact_set_hash r) (st_files s') = set_files (at_artifact_set_hash r) (st_files s)))"

definition confined :: "string set \<Rightarrow> nat \<times> artifact_op \<Rightarrow> bool" where
  "confined U x \<longleftrightarrow> {h. unguarded h (snd x)} \<subseteq> U"

lemma history_refl: "history U s s"
  by (auto simp: history_def)

lemma history_trans:
  assumes "history U s t" and "history U t u"
  shows "history U s u"
proof -
  have "(\<exists>r' \<in> set (st_sets u). frozen r' = frozen r \<and> (at_artifact_set_hash r \<notin> U \<longrightarrow> evolved r r'))
      \<and> set_files (at_artifact_set_hash r) (st_files u) = set_files (at_artifact_set_hash r) (st_files s)"
    if s: "keys_distinct s" and r: "r \<in> set (st_sets s)" "is_generated r" for r
  proof -
    obtain r1 where r1: "r1 \<in> set (st_sets t)" "frozen r1 = frozen r" "at_artifact_set_hash r \<notin> U \<longrightarrow> evolved r r1"
      and f1: "set_files (at_artifact_set_hash r) (st_files t) = set_files (at_artifact_set_hash r) (st_files s)"
      and t: "keys_distinct t"
      using assms(1) s r unfolding history_def by blast
    have "is_generated r1" "at_artifact_set_hash r1 = at_artifact_set_hash r"
      using r(2) frozen_parts [OF r1(2)] by (simp_all add: is_generated_def)
    then obtain r2 where "r2 \<in> set (st_sets u)" "frozen r2 = frozen r1" "at_artifact_set_hash r \<notin> U \<longrightarrow> evolved r1 r2"
      and "set_files (at_artifact_set_hash r) (st_files u) = set_files (at_artifact_set_hash r) (st_files t)"
      using assms(2) t r1(1) unfolding history_def by metis
    then show ?thesis using r1 f1 evolved_trans by metis
  qed
  then show ?thesis using assms records_kept_trans unfolding history_def by blast
qed

lemma move_mono: "artifacts_move U x y \<Longrightarrow> U \<subseteq> V \<Longrightarrow> artifacts_move V x y"
  by (induction rule: artifacts_move.induct) (auto intro: artifacts_move.intros)

lemma step_history:
  assumes "confined U x"
  shows "history U s (artifact_step lib x s)"
proof (cases "keys_distinct s")
  case True
  let ?s' = "artifact_step lib x s"
  have move: "artifacts_move U (artifacts s) (artifacts ?s')" and kept: "records_kept s ?s'"
    using step_moves [OF True, of x lib] assms move_mono [of _ "artifacts s" "artifacts ?s'" U] unfolding confined_def by blast+
  have "distinct (map at_artifact_set_hash (fst (artifacts s)))" using True by (simp add: keys_distinct_def artifacts_def)
  then show ?thesis
    using move_distinct [OF move] move_member [OF move] move_files [OF move] kept
    by (simp add: history_def artifacts_def keys_distinct_def)
qed (simp add: history_def)

interpretation history: monotone_runs "artifact_step lib" "confined U" "history U" for lib U
  by unfold_locales (simp_all add: history_refl step_history, rule history_trans)

section \<open>The properties of a run\<close>

text \<open>The set of a hash is the one row of that hash.\<close>

lemma run_history:
  fixes lib :: libraries
  assumes "keys_distinct s" and "list_all (confined U) xs" and "find_set h s = Some r" and "is_generated r"
  defines "s' \<equiv> run_steps (artifact_step lib) xs s"
  shows "records_kept s s'" and "keys_distinct s'" and "files_of h s' = files_of h s"
    and "\<exists>r'. find_set h s' = Some r' \<and> frozen r' = frozen r \<and> (h \<notin> U \<longrightarrow> evolved r r')"
proof -
  have hist: "history U s s'" unfolding s'_def using assms(2) by (rule history.run_moves)
  then show kept: "records_kept s s'" and distinct: "keys_distinct s'" using assms(1) by (simp_all add: history_def)
  have r: "r \<in> set (st_sets s)" "at_artifact_set_hash r = h" using assms(1,3) by (simp_all add: find_set_iff)
  then obtain r' where r': "r' \<in> set (st_sets s')" "frozen r' = frozen r" "h \<notin> U \<longrightarrow> evolved r r'"
    and files: "set_files h (st_files s') = set_files h (st_files s)"
    using hist assms(1,4) unfolding history_def by blast
  show "files_of h s' = files_of h s" using files by (simp add: set_files_def files_of_def)
  show "\<exists>r'. find_set h s' = Some r' \<and> frozen r' = frozen r \<and> (h \<notin> U \<longrightarrow> evolved r r')"
    using r' r(2) frozen_key [OF r'(2)] distinct by (intro exI [of _ r']) (simp add: find_set_iff)
qed

lemma everything_confined: "list_all (confined UNIV) xs"
  by (simp add: list_all_iff confined_def)


text \<open>
  The time of the last update is a version. A check that saw a generator artifact ready and whose
  withdrawal arrives after any run of other operations (of which none sets the status of this artifact
  unguarded) withdraws it if and only if its row is still the one the check saw; then it is failed
  and its version has moved on, and otherwise nothing changes.
\<close>

lemma withdrawal_hits_observed_state:
  assumes "keys_distinct s" and "find_set h s = Some r" and "at_generator_processing_hash r \<noteq> None"
    and "at_status r = ''ready''" and "unsuperseded r" and "list_all (confined (- {h})) xs"
  shows "let s' = run_steps (artifact_step lib) xs s;
      (withdrawn, s'') = fail_ready_generator_verification now h (at_updated_at r) s' in
    (if find_set h s' = Some r
     then withdrawn \<and> find_set h s'' = Some (advance now ''upload_failed'' r)
     else \<not> withdrawn \<and> s'' = s')"
proof -
  let ?s' = "run_steps (artifact_step lib) xs s"
  note run = run_history [OF assms(1,6,2), of lib, unfolded is_generated_def, OF assms(3)]
  obtain r' where r': "find_set h ?s' = Some r'" "frozen r' = frozen r" "evolved r r'" using run(4) by auto
  let ?p = "\<lambda>x. at_artifact_set_hash x = h \<and> at_generator_processing_hash x \<noteq> None \<and> at_status x = ''ready''
    \<and> at_updated_at x = at_updated_at r \<and> unsuperseded x"
  have member: "r' \<in> set (st_sets ?s')" "at_artifact_set_hash r' = h" using r'(1) run(2) by (simp_all add: find_set_iff)
  have only: "?p x \<longleftrightarrow> x = r' \<and> r' = r" if "x \<in> set (st_sets ?s')" for x
  proof -
    have "x = r'" if "at_artifact_set_hash x = h"
      using \<open>x \<in> _\<close> that member run(2) by (auto simp: keys_distinct_def distinct_map inj_on_def)
    then show ?thesis using r'(3) assms(3-5) member(2) by (auto simp: evolved_def)
  qed
  show ?thesis
  proof (cases "r' = r")
    case True
    have keyed: "keyed_update at_artifact_set_hash (advance now ''upload_failed'')" by unfold_locales simp
    have row: "find_row at_artifact_set_hash h (st_sets ?s') = Some r" using r'(1) True by (simp add: find_set_def)
    have "fst (update_where ?p (advance now ''upload_failed'') (st_sets ?s')) = 1"
      using keyed_update.affected [OF keyed, of "st_sets ?s'" ?p h] run(2) row assms(3-5) member True
      by (simp add: keys_distinct_def)
    then obtain t where t: "update_where ?p (advance now ''upload_failed'') (st_sets ?s') = (1, t)"
      by (rule eq_fst_iff [THEN iffD1, OF sym, THEN exE])
    have "find_row at_artifact_set_hash h (snd (update_where ?p (advance now ''upload_failed'') (st_sets ?s')))
        = Some (advance now ''upload_failed'' r)"
      using keyed_update.row [OF keyed, of h ?p "st_sets ?s'"] row assms(3-5) member True by simp
    then show ?thesis using r'(1) True t
      by (simp add: fail_ready_generator_verification_def update_sets_def one_row_def find_set_def del: not_None_eq)
  next
    case False
    then have "\<forall>x \<in> set (st_sets ?s'). \<not> ?p x" using only by blast
    then have "update_where ?p (advance now ''upload_failed'') (st_sets ?s') = (0, st_sets ?s')" by (rule update_none)
    then show ?thesis using r'(1) False
      by (simp add: fail_ready_generator_verification_def update_sets_def one_row_def)
  qed
qed

section \<open>One ready artifact per output\<close>

definition one_ready :: "artifact_set list \<Rightarrow> bool" where
  "one_ready t \<longleftrightarrow> (\<forall>x \<in> set t. \<forall>y \<in> set t. at_status x = ''ready'' \<longrightarrow> at_status y = ''ready''
    \<longrightarrow> same_output x y \<longrightarrow> at_artifact_set_hash x = at_artifact_set_hash y)"

lemma same_output_trans:
  "same_output r x \<Longrightarrow> same_output x y \<Longrightarrow> same_output r y" "same_output x y \<Longrightarrow> same_output y x"
  by (simp_all add: same_output_def)

text \<open>Rows that are not ready, or were ready before, keep the invariant.\<close>

lemma one_ready_subset:
  "one_ready t \<Longrightarrow> (\<And>x. x \<in> set t' \<Longrightarrow> at_status x = ''ready'' \<Longrightarrow> x \<in> set t) \<Longrightarrow> one_ready t'"
  unfolding one_ready_def by blast

lemma advanced_output: "same_output r (advance now st r)"
  by (simp add: same_output_def advance_def)

lemma move_one_ready:
  "artifacts_move {} x y \<Longrightarrow> one_ready (fst x) \<Longrightarrow> one_ready (fst y)"
proof (induction rule: artifacts_move.induct)
  case (Add r t fs' fs)
  show ?case by (rule one_ready_subset [of t]) (use Add in auto)
next
  case (Replace old t r fs' fs)
  show ?case by (rule one_ready_subset [of t]) (use Replace in \<open>auto split: if_splits\<close>)
next
  case (Withdraw p t fs now)
  show ?case by (rule one_ready_subset [of t]) (use Withdraw in \<open>auto simp: set_update advance_def split: if_splits\<close>)
next
  case (Retire t fs p now by' reason)
  show ?case by (rule one_ready_subset [of t]) (use Retire in \<open>auto simp: set_update supersede_def split: if_splits\<close>)
next
  case (Publish r t fs now by' reason)
  let ?mid = "map (\<lambda>x. if x = r then advance now ''ready'' r else x) t"
  let ?p = "\<lambda>x. same_output r x \<and> at_status x = ''ready'' \<and> at_artifact_set_hash x \<noteq> at_artifact_set_hash r"
  let ?t = "snd (update_where ?p (supersede now by' reason) ?mid)"
  have ready: "x \<in> set ?mid \<and> \<not> ?p x" if mem: "x \<in> set ?t" and st: "at_status x = ''ready''" for x
  proof -
    obtain y where "y \<in> set ?mid" "x = (if ?p y then supersede now by' reason y else y)"
      using mem unfolding set_update by blast
    then show ?thesis using st by (auto simp: supersede_def split: if_splits)
  qed
  have "at_artifact_set_hash x = at_artifact_set_hash y"
    if xy: "x \<in> set ?t" "y \<in> set ?t" "at_status x = ''ready''" "at_status y = ''ready''" "same_output x y" for x y
  proof (cases "same_output r x")
    case True
    then have "same_output r y" using xy(5) same_output_trans by blast
    then show ?thesis using True ready [OF xy(1,3)] ready [OF xy(2,4)] xy(3,4) by auto
  next
    case False
    then have "\<not> same_output r y" using xy(5) same_output_trans by blast
    then have "x \<in> set t" "y \<in> set t"
      using False ready [OF xy(1,3)] ready [OF xy(2,4)] advanced_output by (auto split: if_splits)
    then show ?thesis using Publish.prems xy unfolding one_ready_def fst_conv by blast
  qed
  then show ?case unfolding one_ready_def fst_conv by blast
qed auto

interpretation artifact_output: invariant_runs "artifact_step lib" "confined {}"
    "\<lambda>s. keys_distinct s \<and> one_ready (st_sets s)" for lib
proof
  fix x s
  assume x: "confined {} x" and s: "keys_distinct s \<and> one_ready (st_sets s)"
  have move: "artifacts_move {} (artifacts s) (artifacts (artifact_step lib x s))"
    using step_moves [of s x lib] x s by (simp add: confined_def)
  then show "keys_distinct (artifact_step lib x s) \<and> one_ready (st_sets (artifact_step lib x s))"
    using move_one_ready [OF move] move_distinct [OF move] s by (simp add: artifacts_def keys_distinct_def)
qed

text \<open>
  C12: At most one artifact of an output is ready. Whatever the service does with generator artifacts,
  recipes and staged exports, in any order, two ready artifacts of the same source, configuration,
  options and output kind are the same artifact: completing one supersedes the others in the same
  transaction.
\<close>

theorem one_ready_artifact_per_output:
  assumes "keys_distinct s" and "one_ready (st_sets s)" and "list_all (confined {}) xs"
  shows "one_ready (st_sets (run_steps (artifact_step lib) xs s))"
  using artifact_output.run_inv [OF assms(3), of s lib] assms(1,2) by blast

end
