(* ===== verification/Artifact_Staging.thy ===== *)
theory Artifact_Staging
  imports Artifact_Runs Processing_Example
begin

text \<open>
  Staging an artifact twice is staging it once, and an artifact that nothing in the store conflicts
  with is staged and then published. Concrete stores witness the theorems on runs.
\<close>

section \<open>Inserting a recipe that is there\<close>

lemma collect_results_map:
  "collect_results f xs = Ok ys \<Longrightarrow> length ys = length xs \<and> list_all2 (\<lambda>x y. f x = Ok y) xs ys"
  by (induction xs arbitrary: ys) (auto simp: and_then_Ok)

lemma occurrence_row_eq:
  assumes "occurrence_row_of h c = Ok y" and "occurrence_matches row c" and "ow_processing_hash row = h"
  shows "row = y"
  using assms by (cases row; cases y) (auto simp: occurrence_row_of_def occurrence_columns_def and_then_def ensure_def occurrence_matches_def
      split: if_splits)

lemma rows_eq:
  assumes "list_all2 (\<lambda>c y. occurrence_row_of h c = Ok y) cs ys" and "length rows = length cs"
    and "list_all (\<lambda>(row, c). occurrence_matches row c) (zip rows cs)"
    and "\<And>row. row \<in> set rows \<Longrightarrow> ow_processing_hash row = h"
  shows "rows = ys"
proof (rule nth_equalityI)
  show "length rows = length ys" using assms(1,2) by (simp add: list_all2_lengthD)
  fix k assume k: "k < length rows"
  then have "occurrence_matches (rows ! k) (cs ! k)" using assms(2,3) by (auto simp: list_all_length)
  moreover have "occurrence_row_of h (cs ! k) = Ok (ys ! k)" using assms(1,2) k by (simp add: list_all2_conv_all_nth)
  ultimately show "rows ! k = ys ! k" using occurrence_row_eq assms(4) k by simp
qed

lemma set_occurrences_of: "set (occurrences_of h t) = {r \<in> set t. ow_processing_hash r = h}"
  by (auto simp: occurrences_of_def)

lemma insert_known_occurrences: "set cs \<subseteq> set t \<Longrightarrow> fold insert_occurrence cs t = t"
proof (induction cs)
  case (Cons c cs)
  then have "list_ex (occurrence_conflict c) t" by (auto simp: list_ex_iff occurrence_conflict_def)
  then show ?case using Cons by (simp add: insert_occurrence_def)
qed simp

lemma insert_verified_recipe:
  assumes "verify_persisted_generator_recipe p s = Ok ()"
    and "insert_generator_processing_recipe p s0 = (Ok b, s1)"
  shows "insert_generator_processing_recipe p s = (Ok False, s)"
proof -
  let ?h = "pp_processing_hash p"
  obtain ys i where ys: "collect_results (occurrence_row_of ?h) (pp_occurrences p) = Ok ys"
    and i: "im_input_set_identity (pr_input_manifest (pp_recipe p)) = Some i"
    using assms(2) by (auto simp: insert_generator_processing_recipe_def split: sum.splits option.splits)
  obtain row where row: "find_row rr_processing_hash ?h (st_recipes s) = Some row" "row = recipe_row_of p i"
    and rows: "length (occurrences_of ?h (st_occurrences s)) = length (pp_occurrences p)"
      "list_all (\<lambda>(row, c). occurrence_matches row c) (zip (occurrences_of ?h (st_occurrences s)) (pp_occurrences p))"
    using assms(1) i
    by (auto simp: verify_persisted_generator_recipe_def result_simps Let_def recipe_matches_def)
  have eq: "occurrences_of ?h (st_occurrences s) = ys"
    using collect_results_map [OF ys] rows by (intro rows_eq) (auto simp: set_occurrences_of)
  then have "fold insert_occurrence ys (st_occurrences s) = st_occurrences s"
    using set_occurrences_of [of ?h "st_occurrences s"] by (intro insert_known_occurrences) auto
  then show ?thesis
    using row ys i eq
    by (simp add: insert_generator_processing_recipe_def insert_recipe_fields_def transaction_def and_then_def
        ok_or_def recipe_row_of_def Let_def)
qed

lemma load_verified:
  assumes "load_generator_artifact lib p kind format s = Ok (Some rf)"
  shows "verify_persisted_generator_recipe p s = Ok ()"
  using assms by (auto simp: load_generator_artifact_def and_then_Ok split: option.splits if_splits)

section \<open>Staging again\<close>

text \<open>
  Retrying the staging of an artifact changes nothing. Once it has succeeded, the same call at any
  later time returns the same state and leaves the store as it is, and reconciliation finds the set of
  the returned hash, status and version with exactly the given file.
\<close>

lemma staging_resumes:
  assumes "stage_or_resume_generator_artifact lib now p a files s = (Ok x, s')"
  shows "stage_or_resume_generator_artifact lib later p a files s' = (Ok x, s')
    \<and> (\<exists>r f. files = [f] \<and> generator_artifact_for_reconciliation lib p (ag_output_kind a) (ag_format a) s'
          = (Ok (Some (r, f)), s')
        \<and> find_set (xs_artifact_set_hash x) s' = Some r \<and> at_status r = xs_status x \<and> at_updated_at r = xs_updated_at x)"
  using assms
proof (cases rule: resume_Ok)
  case (1 f i hash metadata b s1 r)
  note parts = 1
  have "insert_generator_processing_recipe p s' = (Ok False, s')"
    using insert_verified_recipe [OF load_verified [OF parts(9)] parts(4)] .
  moreover have set: "find_set hash s' = Some r" using load_Some(1) [OF parts(9,6)] .
  then have "resume_staged lib later p a f i hash metadata s' = Ok (x, s')"
    using parts by (simp add: resume_staged_def insert_staged_def and_then_def ok_or_def)
  ultimately have "stage_or_resume_generator_artifact lib later p a files s' = (Ok x, s')"
    using parts by (simp add: stage_or_resume_generator_artifact_def and_also_def refused_def transaction_def)
  then show ?thesis using parts set
    by (auto simp: generator_artifact_for_reconciliation_def transaction_def and_then_def)
qed
section \<open>Publishing a fresh artifact\<close>

definition fits_sqlite :: "occurrence \<Rightarrow> bool" where
  "fits_sqlite c \<longleftrightarrow> int (oc_occurrence_order c) \<le> I64_MAX \<and> uint (oc_content_byte_length c) \<le> I64_MAX"

text \<open>Nothing in the store is in the way of the recipe, the set and the file.\<close>

definition clear_for :: "prepared \<Rightarrow> string \<Rightarrow> generator_file \<Rightarrow> store \<Rightarrow> bool" where
  "clear_for p hash f s \<longleftrightarrow> find_row rr_processing_hash (pp_processing_hash p) (st_recipes s) = None
    \<and> list_all (\<lambda>r. ow_processing_hash r \<noteq> pp_processing_hash p
        \<and> ow_occurrence_identity r \<notin> oc_occurrence_identity ` set (pp_occurrences p)) (st_occurrences s)
    \<and> find_set hash s = None
    \<and> list_all (\<lambda>x. fl_artifact_set_hash x \<noteq> hash \<and> fl_object_key x \<noteq> gf_object_key f) (st_files s)"

lemma collect_rows:
  "list_all fits_sqlite cs \<Longrightarrow> collect_results (occurrence_row_of h) cs = Ok (map (occurrence_columns h) cs)"
  by (induction cs) (auto simp: occurrence_row_of_def fits_sqlite_def and_then_def ensure_def)

lemma insert_new_occurrences:
  "sorted_wrt (\<lambda>a b. \<not> occurrence_conflict b a) cs \<Longrightarrow> list_all (\<lambda>c. \<not> list_ex (occurrence_conflict c) t) cs
    \<Longrightarrow> fold insert_occurrence cs t = t @ cs"
proof (induction cs arbitrary: t)
  case (Cons c cs)
  have "fold insert_occurrence cs (t @ [c]) = (t @ [c]) @ cs"
    using Cons.prems by (intro Cons.IH) (auto simp: list_all_iff)
  then show ?case using Cons.prems by (simp add: insert_occurrence_def [of c t])
qed simp

definition separate_occurrences :: "occurrence list \<Rightarrow> bool" where
  "separate_occurrences cs \<longleftrightarrow> map oc_occurrence_order cs = [0..<length cs] \<and> distinct (map oc_object_identity cs)
    \<and> distinct (map oc_staged_path cs) \<and> distinct (map oc_occurrence_identity cs)"

lemma separate_columns:
  assumes "separate_occurrences cs"
  shows "sorted_wrt (\<lambda>a b. \<not> occurrence_conflict b a) (map (occurrence_columns h) cs)"
    and "sorted (map ow_occurrence_order (map (occurrence_columns h) cs))"
proof -
  have order: "oc_occurrence_order (cs ! k) = k" if "k < length cs" for k
  proof -
    have "map oc_occurrence_order cs ! k = [0..<length cs] ! k" using assms by (simp add: separate_occurrences_def)
    then show ?thesis using that by simp
  qed
  have apart: "key (cs ! a) \<noteq> key (cs ! b)" if "distinct (map key cs)" "a < b" "b < length cs" for key :: "occurrence \<Rightarrow> string" and a b
    using nth_eq_iff_index_eq [OF that(1), of a b] that(2,3) by simp
  show "sorted_wrt (\<lambda>a b. \<not> occurrence_conflict b a) (map (occurrence_columns h) cs)"
    using assms by (simp add: sorted_wrt_iff_nth_less occurrence_conflict_def occurrence_columns_def order apart
        separate_occurrences_def)
  show "sorted (map ow_occurrence_order (map (occurrence_columns h) cs))"
    by (simp add: sorted_iff_nth_mono occurrence_columns_def order)
qed

lemma fresh_recipe:
  assumes "separate_occurrences (pp_occurrences p)" and "list_all fits_sqlite (pp_occurrences p)"
    and "im_input_set_identity (pr_input_manifest (pp_recipe p)) = Some i" and "clear_for p hash f s"
  defines "s' \<equiv> s\<lparr>st_recipes := st_recipes s @ [recipe_row_of p i],
      st_occurrences := st_occurrences s @ map (occurrence_columns (pp_processing_hash p)) (pp_occurrences p)\<rparr>"
  shows "insert_generator_processing_recipe p s = (Ok True, s')" and "verify_persisted_generator_recipe p s' = Ok ()"
proof -
  let ?h = "pp_processing_hash p" and ?cs = "pp_occurrences p"
  let ?rows = "map (occurrence_columns ?h) ?cs"
  have none: "filter (\<lambda>r. ow_processing_hash r = ?h) (st_occurrences s) = []"
    using assms(4) by (auto simp: clear_for_def list_all_iff filter_empty_conv)
  have own: "filter (\<lambda>r. ow_processing_hash r = ?h) ?rows = ?rows" by (simp add: filter_id_conv occurrence_columns_def)
  have rows: "occurrences_of ?h (st_occurrences s @ ?rows) = ?rows"
    unfolding occurrences_of_def filter_append none own
    using separate_columns(2) [OF assms(1)] by (simp add: sorted_sort_id sort_key_id_if_sorted)
  have "fold insert_occurrence ?rows (st_occurrences s) = st_occurrences s @ ?rows"
  proof (rule insert_new_occurrences)
    show "sorted_wrt (\<lambda>a b. \<not> occurrence_conflict b a) ?rows" by (rule separate_columns [OF assms(1)])
    show "list_all (\<lambda>c. \<not> list_ex (occurrence_conflict c) (st_occurrences s)) ?rows"
      using assms(4) by (fastforce simp: list_all_iff list_ex_iff occurrence_conflict_def occurrence_columns_def clear_for_def)
  qed
  moreover have key: "rr_processing_hash (recipe_row_of p i) = ?h" by (simp add: recipe_row_of_def Let_def)
  moreover have new: "find_row rr_processing_hash ?h (st_recipes s @ [recipe_row_of p i]) = Some (recipe_row_of p i)"
    using assms(4) by (simp add: find_row_append clear_for_def key)
  ultimately show "insert_generator_processing_recipe p s = (Ok True, s')"
    using rows assms(3,4)
    by (simp add: insert_generator_processing_recipe_def collect_rows [OF assms(2)] insert_recipe_fields_def
        transaction_def and_then_def ok_or_def clear_for_def s'_def)
  have "list_all (\<lambda>(row, c). occurrence_matches row c) (zip ?rows ?cs)"
    by (simp add: zip_map1 zip_same_conv_map list_all_iff occurrence_matches_def occurrence_columns_def)
  then show "verify_persisted_generator_recipe p s' = Ok ()"
    using rows new assms(3)
    by (simp add: verify_persisted_generator_recipe_def s'_def result_simps recipe_matches_def Let_def)
qed

lemma published_ready:
  assumes "keys_distinct s" and "r \<in> set (st_sets s)"
  shows "find_set (at_artifact_set_hash r) (published later r s) = Some (advance later ''ready'' r)"
proof -
  let ?mid = "map (\<lambda>x. if x = r then advance later ''ready'' r else x) (st_sets s)"
  have "map at_artifact_set_hash ?mid = map at_artifact_set_hash (st_sets s)" by (rule map_if_keys) simp
  then have "keys_distinct (published later r s)"
    using assms(1) by (simp add: keys_distinct_def published_def update_keys del: map_map map_eq_conv)
  moreover have "advance later ''ready'' r \<in> set ?mid" using assms(2) by force
  from update_member [OF this, of "\<lambda>x. same_output r x \<and> at_status x = ''ready'' \<and> at_artifact_set_hash x \<noteq> at_artifact_set_hash r"
      "supersede later (Some (at_artifact_set_hash r)) (Some ''replaced'')"]
  have "advance later ''ready'' r \<in> set (st_sets (published later r s))" by (simp add: published_def)
  ultimately show ?thesis by (simp add: find_set_iff)
qed

lemma staged_and_completed:
  assumes "separate_occurrences (pp_occurrences p)" and "list_all fits_sqlite (pp_occurrences p)"
    and "im_input_set_identity (pr_input_manifest (pp_recipe p)) = Some i"
    and "keys_distinct s" and "clear_for p hash f s" and "is_supported p"
    and "staged_files_ok p a f" and "gf_object_key f \<noteq> []"
    and "identity_for lib p (ag_output_kind a) (ag_format a) = Ok d"
    and "hash_for lib p (ag_output_kind a) (ag_format a) = Ok hash"
    and "metadata_text lib (artifact_metadata_json (ag_model_slug a) (ag_producing_job_key a)
       (ag_parameter_schema_version a) (ag_config_values_json a)) = Ok metadata"
  shows "\<exists>s' s'' r. stage_or_resume_generator_artifact lib now p a [f] s
        = (Ok \<lparr>xs_artifact_set_hash = hash, xs_status = ''staged'', xs_updated_at = now\<rparr>, s')
      \<and> complete_generator_artifact lib later p (ag_output_kind a) (ag_format a) (gf_object_key f) s' = (Ok True, s'')
      \<and> find_set hash s'' = Some r \<and> at_status r = ''ready'' \<and> at_updated_at r = max later (now + 1)"
proof -
  define s1 where "s1 = s\<lparr>st_recipes := st_recipes s @ [recipe_row_of p i],
      st_occurrences := st_occurrences s @ map (occurrence_columns (pp_processing_hash p)) (pp_occurrences p)\<rparr>"
  note fresh = fresh_recipe [OF assms(1-3,5), folded s1_def]
  let ?r = "staged_set now p a d hash metadata"
  define s' where "s' = s1\<lparr>st_sets := st_sets s @ [?r], st_files := st_files s @ [file_row hash f]\<rparr>"
  have hash: "hash \<notin> at_artifact_set_hash ` set (st_sets s)" using assms(5) by (simp add: clear_for_def find_set_None)
  have s': "keys_distinct s'" using assms(4) hash by (simp add: keys_distinct_def s'_def staged_set_def)
  have set: "find_set hash s' = Some ?r" using s' by (simp add: find_set_iff) (simp add: s'_def staged_set_def)
  have insert: "insert_staged now p a f d hash metadata s1 = Ok s'"
  proof -
    have "recipe_exists (Some (pp_processing_hash p)) s1" using assms(5)
      by (simp add: recipe_exists_def s1_def find_row_append clear_for_def recipe_row_of_def Let_def)
    moreover have "insert_file (s1\<lparr>st_sets := st_sets s @ [?r]\<rparr>) (file_row hash f) = Ok s'"
      using assms(5) by (auto simp: insert_file_def clear_for_def s1_def s'_def file_row_def list_ex_iff list_all_iff)
    moreover have "find_set hash s1 = None" using assms(5) by (simp add: s1_def find_set_def clear_for_def)
    ultimately show ?thesis by (simp add: insert_staged_def s1_def)
  qed
  have files: "files_of hash s' = [file_row hash f]"
    using assms(5) by (auto simp: files_of_def s'_def s1_def clear_for_def list_all_iff filter_empty_conv file_row_def)
  have f: "stored_file (file_row hash f) = f" by (simp add: stored_file_def file_row_def)
  have verified: "verify_persisted_generator_recipe p s' = Ok ()"
    using fresh(2) by (simp add: verify_persisted_generator_recipe_def s'_def)
  have load: "load_generator_artifact lib p (ag_output_kind a) (ag_format a) s' = Ok (Some (?r, f))"
    using assms(6-10) set files verified
    by (simp add: load_generator_artifact_def and_then_def record_matches_def staged_set_def unsuperseded_def f
        staged_files_ok_def)
  have stage: "stage_or_resume_generator_artifact lib now p a [f] s
        = (Ok \<lparr>xs_artifact_set_hash = hash, xs_status = ''staged'', xs_updated_at = now\<rparr>, s')"
    using assms(6,7,9-11) fresh(1) insert load
    by (simp add: stage_or_resume_generator_artifact_def and_also_def refused_def transaction_def resume_staged_def
        and_then_def ok_or_def staged_set_def)
  have status: "at_status ?r = ''staged''" "at_updated_at ?r = now" by (simp_all add: staged_set_def)
  have complete: "complete_generator_artifact lib later p (ag_output_kind a) (ag_format a) (gf_object_key f) s'
      = (Ok True, published later ?r s')"
    using complete_published [OF s' assms(10) load, of later] assms(10) load status
    by (simp add: complete_generator_artifact_def transaction_def and_then_def Let_def)
  have "\<exists>r. find_set hash (published later ?r s') = Some r \<and> at_status r = ''ready'' \<and> at_updated_at r = max later (now + 1)"
    using published_ready [OF s', of ?r later] set s' status by (simp add: find_set_iff) (simp add: advance_def)
  then show ?thesis using stage complete by blast
qed

lemma prepared_input_set:
  assumes "prepare_generator_processing lib g c m settings expected i = Ok p"
  shows "\<exists>x. im_input_set_identity (pr_input_manifest (pp_recipe p)) = Some x"
proof -
  have p: "prepare_checked lib g c m (normalize_generator_settings_v2 settings) i = Ok p"
    using assms by (simp add: prepare_Ok)
  then have "\<exists>x. im_input_set_identity m = Some x" by (auto simp: prepare_checked_def Let_def result_simps)
  then show ?thesis by (simp add: prepare_checked_recipe(3) [OF p])
qed

lemma prepared_separate:
  assumes "prepare_generator_processing lib g c m settings expected i = Ok p"
    and "unambiguous (lb_jcs lib) (lb_sha lib) (occurrence_documents (pp_processing_hash p) (pp_occurrences p))"
  shows "separate_occurrences (pp_occurrences p)"
proof -
  note facts = occurrences_of_prepared [OF assms]
  have spec: "manifest_spec (lb_jcs lib) (lb_sha lib) m"
    using assms(1) by (simp add: prepare_Ok inputs_accepted_def manifest_valid)
  then have "distinct (map io_object_identity (im_objects m))"
    by (simp add: manifest_spec_def object_id_def comp_def cong: map_cong)
  moreover have "length (pp_occurrences p) = length (im_objects m)" using facts by (metis length_map)
  ultimately show ?thesis using facts by (simp add: separate_occurrences_def)
qed

text \<open>
  An artifact is published. For a recipe prepared from a valid manifest, supported by the deployment,
  with counters that fit the columns, on a store where nothing is in its way: staging succeeds, the
  artifact is staged with the version of the time; completing it later with its object key succeeds, and
  leaves it ready with a greater version.
\<close>

lemma fresh_artifact_published:
  assumes "prepare_generator_processing lib g c m settings expected i = Ok p"
    and "unambiguous (lb_jcs lib) (lb_sha lib) (occurrence_documents (pp_processing_hash p) (pp_occurrences p))"
    and "is_supported p" and "list_all fits_sqlite (pp_occurrences p)"
    and "hash_for lib p (ag_output_kind a) (ag_format a) = Ok hash"
    and "metadata_text lib (artifact_metadata_json (ag_model_slug a) (ag_producing_job_key a)
       (ag_parameter_schema_version a) (ag_config_values_json a)) = Ok metadata"
    and "staged_files_ok p a f" and "gf_object_key f \<noteq> []" and "keys_distinct s" and "clear_for p hash f s"
  shows "\<exists>s' s'' r. stage_or_resume_generator_artifact lib now p a [f] s
        = (Ok \<lparr>xs_artifact_set_hash = hash, xs_status = ''staged'', xs_updated_at = now\<rparr>, s')
      \<and> complete_generator_artifact lib later p (ag_output_kind a) (ag_format a) (gf_object_key f) s' = (Ok True, s'')
      \<and> find_set hash s'' = Some r \<and> at_status r = ''ready'' \<and> at_updated_at r = max later (now + 1)"
proof -
  obtain x where x: "im_input_set_identity (pr_input_manifest (pp_recipe p)) = Some x"
    using prepared_input_set [OF assms(1)] by blast
  obtain d where d: "identity_for lib p (ag_output_kind a) (ag_format a) = Ok d"
    using assms(5) by (auto simp: hash_for_def identity_for_def generator_artifact_set_hash_def map_err_def and_then_def
        split: sum.splits)
  show ?thesis
    using staged_and_completed [OF prepared_separate [OF assms(1,2)] assms(4) x assms(9,10,3,7,8) d assms(5,6)] .
qed

end
