(* ===== verification/Artifact_Example.thy ===== *)
theory Artifact_Example
  imports Artifact_Staging
begin

text \<open>
  An empty store and one with a ready generator artifact, at which the theorems on the artifact store
  are applied.
\<close>

definition empty_store :: store where
  "empty_store = \<lparr>st_recipes = [], st_occurrences = [], st_sets = [], st_files = [], st_requests = [],
     st_provenance = []\<rparr>"

definition example_stage :: artifact_stage where
  "example_stage = \<lparr>ag_model_slug = ''m'', ag_output_kind = ''o'', ag_format = ''3mf'', ag_object_key = ''k'',
     ag_content_type = ''model/3mf'', ag_byte_len = 5, ag_sha256 = replicate 64 CHR ''a'',
     ag_producing_job_key = None, ag_parameter_schema_version = 1, ag_config_values_json = []\<rparr>"

definition example_file :: generator_file where
  "example_file = \<lparr>gf_role = ''generated_project'', gf_logical_path = ''p.3mf'', gf_original_path = None,
     gf_object_key = ''k'', gf_content_type = ''model/3mf'', gf_byte_len = 5,
     gf_sha256 = replicate 64 CHR ''a'', gf_metadata_json = []\<rparr>"

definition example_hash :: string where
  "example_hash = hex_sha256 example_digest ''artifact-set-v2''"

lemma example_hash_for: "hash_for example_libraries example_prepared ''o'' ''3mf'' = Ok example_hash"
  by (simp add: hash_for_def generator_artifact_set_hash_def generator_artifact_set_identity_def
      generator_options_hash_def options_hash_def artifact_set_hash_def domain_hash and_then_def map_err_def example_hash_def)

lemma example_identity_for: "\<exists>d. identity_for example_libraries example_prepared ''o'' ''3mf'' = Ok d"
  by (simp add: identity_for_def generator_artifact_set_identity_def generator_options_hash_def options_hash_def
      domain_hash and_then_def map_err_def)

lemma example_staged_files: "staged_files_ok example_prepared example_stage example_file"
proof -
  have "output_of example_prepared = pi_output example_inputs"
    by (simp add: output_of_def example_prepared_def example_recipe_def example_blank_def invocation_of_def)
  then show ?thesis
    by (simp add: staged_files_ok_def generator_file_ok_def example_stage_def example_file_def example_inputs_def
        valid_generator_logical_path_def valid_generator_sha256_def is_control_def list_all_iff is_lower_hex_def)
qed

lemma example_supported_recipe: "is_supported example_prepared"
  by (simp add: is_supported_def example_prepared_def example_recipe_def)

lemma example_store_parts:
  "keys_distinct empty_store" "clear_for example_prepared example_hash example_file empty_store"
  "list_all fits_sqlite (pp_occurrences example_prepared)" "gf_object_key example_file \<noteq> []"
  by (simp_all add: keys_distinct_def empty_store_def clear_for_def find_row_def find_set_def fits_sqlite_def
      example_prepared_def example_occurrence_def I64_MAX_def example_file_def)

lemma example_metadata: "metadata_text example_libraries v = Ok []"
  by (simp add: metadata_text_def example_libraries_def map_err_def)

lemma example_unambiguous:
  "unambiguous (lb_jcs example_libraries) (lb_sha example_libraries)
    (occurrence_documents (pp_processing_hash example_prepared) (pp_occurrences example_prepared))"
  by (auto simp: unambiguous_def occurrence_documents_def example_prepared_def)

lemma example_stage_parts: "ag_output_kind example_stage = ''o''" "ag_format example_stage = ''3mf''"
  by (simp_all add: example_stage_def)

lemma example_staging:
  "\<exists>x s'. stage_or_resume_generator_artifact example_libraries 3 example_prepared example_stage [example_file] empty_store = (Ok x, s')"
proof -
  obtain i where i: "im_input_set_identity (pr_input_manifest (pp_recipe example_prepared)) = Some i"
    using prepared_input_set [OF example_prepare] by blast
  obtain d where d: "identity_for example_libraries example_prepared (ag_output_kind example_stage) (ag_format example_stage) = Ok d"
    using example_identity_for by (auto simp: example_stage_parts)
  have h: "hash_for example_libraries example_prepared (ag_output_kind example_stage) (ag_format example_stage) = Ok example_hash"
    by (simp add: example_stage_parts example_hash_for)
  show ?thesis
    using staged_and_completed [OF prepared_separate [OF example_prepare example_unambiguous] example_store_parts(3) i
      example_store_parts(1,2) example_supported_recipe example_staged_files example_store_parts(4) d h example_metadata]
    by blast
qed

section \<open>A ready artifact\<close>

definition ready_row :: artifact_set where
  "ready_row = \<lparr>at_artifact_set_hash = ''h'', at_source_hash = ''s'', at_config_hash = ''c'', at_options_hash = ''o'',
     at_request_hash = None, at_raw_payload_hash = None, at_postprocess_hash = Some ''p'',
     at_generator_processing_hash = Some ''p'', at_output_kind = ''o'', at_format = ''3mf'', at_status = ''ready'',
     at_primary_object_key = Some ''k'', at_metadata_json = [], at_created_at = 1, at_updated_at = 2,
     at_superseded_at = None, at_superseded_by = None, at_supersession_reason = None\<rparr>"

definition ready_store :: store where
  "ready_store = empty_store\<lparr>st_sets := [ready_row], st_files := [file_row ''h'' example_file]\<rparr>"

lemma ready_parts:
  "keys_distinct ready_store" "find_set ''h'' ready_store = Some ready_row" "one_ready (st_sets ready_store)"
  "at_generator_processing_hash ready_row \<noteq> None" "at_status ready_row = ''ready''" "unsuperseded ready_row"
  by (simp_all add: keys_distinct_def ready_store_def find_set_def find_row_def ready_row_def one_ready_def unsuperseded_def)


theorem one_ready_artifact_per_output_witness:
  "one_ready (st_sets (run_steps (artifact_step example_libraries)
     [(5, FailArtifact ''h''), (6, SupersedeReady ''s'' ''c'' ''o'' ''o'' ''other'' None)] ready_store))"
  by (rule one_ready_artifact_per_output [OF ready_parts(1,3)]) (simp add: confined_def)

end
