(* ===== verification/Http_Response.thy ===== *)
theory Http_Response
  imports Bounded_Json
begin

text \<open>
  Reading the response of the Onshape service (\<open>src/src/onshape_api.rs\<close>): status line, header block, media
  types and the three framings of a body, over a connection that delivers its bytes in fragments.

  A connection is the list of the fragments that reads return, in order, and how it ends. Reading at
  most \<open>n\<close> bytes gives at most the first fragment; an empty fragment is no read. The model keeps the
  panic of an index below zero as the error \<open>Underflow\<close>.
\<close>

section \<open>Connections\<close>

datatype stream_end = Closed | UnexpectedEof | ReadFailed | Stalled

datatype read_error = Refused api_failure | Underflow

definition transport :: "string \<Rightarrow> api_failure" where
  "transport name = api_failure_new TransportFailure name"

definition refuse :: "string \<Rightarrow> (read_error, 'a) result" where
  "refuse name = Err (Refused (operational name))"

definition break_off :: "string \<Rightarrow> (read_error, 'a) result" where
  "break_off name = Err (Refused (transport name))"

text \<open>Subtraction of \<open>usize\<close>.\<close>

definition minus_usize :: "nat \<Rightarrow> nat \<Rightarrow> (read_error, nat) result" where
  "minus_usize a b = (if b \<le> a then Ok (a - b) else Err Underflow)"

text \<open>What a read finds when no fragment is left: zero bytes, or the error it is mapped to.\<close>

definition at_end :: "stream_end \<Rightarrow> (read_error, unit) result" where
  "at_end e = (case e of
      Closed \<Rightarrow> Ok ()
    | Stalled \<Rightarrow> break_off ''read_idle_deadline''
    | _ \<Rightarrow> break_off ''response_read_failed'')"

fun timed_read :: "nat \<Rightarrow> string list \<Rightarrow> stream_end \<Rightarrow> (read_error, string \<times> string list) result" where
  "timed_read n [] e = and_then (at_end e) (\<lambda>_. Ok ([], []))"
| "timed_read n (f # fs) e = (if f = [] then timed_read n fs e else Ok (take n f, drop n f # fs))"

definition MAX_HEADER_BYTES :: nat where "MAX_HEADER_BYTES = 65536"

definition LF :: char where "LF = CHR 0x0A"
definition CRLF :: string where "CRLF = [CHR 0x0D, CHR 0x0A]"

text \<open>
  \<open>position(...).map(|index| index + 1).unwrap_or(len)\<close>: a fragment without a line feed is consumed whole.
\<close>

definition line_count :: "string \<Rightarrow> nat" where
  "line_count f = (if LF \<in> set f then length (takeWhile (\<lambda>c. c \<noteq> LF) f) + 1 else length f)"

fun read_line_from ::
  "nat \<Rightarrow> string \<Rightarrow> string list \<Rightarrow> stream_end \<Rightarrow> (read_error, string \<times> string list) result" where
  "read_line_from limit line [] e = and_then (at_end e) (\<lambda>_. break_off ''premature_eof'')"
| "read_line_from limit line (f # fs) e =
    (if f = [] then read_line_from limit line fs e
     else let count = line_count f in
       (case minus_usize limit (length line) of
          Err x \<Rightarrow> Err x
        | Ok room \<Rightarrow>
            if count > room then refuse ''http_header_byte_limit''
            else
              let line = line @ take count f
              in if f ! (count - 1) = LF
                 then (if ends_with CRLF line then Ok (line, drop count f # fs)
                       else break_off ''invalid_http_line_framing'')
                 else read_line_from limit line fs e))"

definition read_line :: "nat \<Rightarrow> string list \<Rightarrow> stream_end \<Rightarrow> (read_error, string \<times> string list) result" where
  "read_line limit fs e = read_line_from limit [] fs e"

section \<open>Bodies\<close>

text \<open>
  The loops read into a buffer of 8192 bytes. \<open>read_exact_body\<close> and \<open>collect_to_eof\<close> return the bytes
  collected so far followed by what they read.
\<close>

definition BUFFER :: nat where "BUFFER = 8192"

lemma timed_read_length:
  "timed_read n fs e = Ok (r, fs') \<Longrightarrow> length r \<le> n \<and> length (concat fs) = length r + length (concat fs')"
  by (induction n fs e rule: timed_read.induct) (auto simp: and_then_Ok split: if_splits)

function read_exact_body ::
  "nat \<Rightarrow> string \<Rightarrow> nat \<Rightarrow> string list \<Rightarrow> stream_end \<Rightarrow> (read_error, string \<times> string list) result" where
  "read_exact_body remaining bytes limit fs e =
    (if remaining = 0 then Ok (bytes, fs)
     else (case minus_usize limit (length bytes) of
        Err x \<Rightarrow> Err x
      | Ok room \<Rightarrow> (case timed_read (min (min remaining BUFFER) (room + 1)) fs e of
          Err x \<Rightarrow> Err x
        | Ok (read, fs') \<Rightarrow>
            if read = [] then break_off ''premature_eof''
            else if length read > room then refuse ''response_byte_limit''
            else read_exact_body (remaining - length read) (bytes @ read) limit fs' e)))"
  by pat_completeness auto
termination by (relation "measure (\<lambda>(remaining, _). remaining)") auto

declare read_exact_body.simps [simp del]

function collect_to_eof :: "string \<Rightarrow> nat \<Rightarrow> string list \<Rightarrow> stream_end \<Rightarrow> (read_error, string) result" where
  "collect_to_eof bytes limit fs e =
    (case minus_usize limit (length bytes) of
       Err x \<Rightarrow> Err x
     | Ok room \<Rightarrow> (case timed_read (min (room + 1) BUFFER) fs e of
         Err x \<Rightarrow> Err x
       | Ok (read, fs') \<Rightarrow>
           if read = [] then Ok bytes
           else if length read > room then refuse ''response_byte_limit''
           else collect_to_eof (bytes @ read) limit fs' e))"
  by pat_completeness auto
termination
  by (relation "measure (\<lambda>(_, _, fs, _). length (concat fs))") (auto dest!: timed_read_length)

declare collect_to_eof.simps [simp del]

text \<open>An unclean end of the TLS stream counts as the close that ends a complete frame.\<close>

definition require_completed_close :: "string list \<Rightarrow> stream_end \<Rightarrow> (read_error, unit) result" where
  "require_completed_close fs e =
    (if concat fs \<noteq> [] then refuse ''response_length_mismatch''
     else if e = UnexpectedEof then Ok () else at_end e)"

section \<open>Tokens\<close>

fun trim_ows :: "string \<Rightarrow> string" where
  "trim_ows [] = []"
| "trim_ows (c # s) = (if c = CHR '' '' \<or> c = CHR 0x09 then trim_ows s else c # s)"

definition consume :: "char \<Rightarrow> string \<Rightarrow> string option" where
  "consume x s = (case s of [] \<Rightarrow> None | c # cs \<Rightarrow> if c = x then Some cs else None)"

definition is_token_byte :: "char \<Rightarrow> bool" where
  "is_token_byte c \<longleftrightarrow> is_alphanumeric c \<or> c \<in> set ''!#$%&'' \<or> c = CHR 0x27 \<or> c \<in> set ''*+-.^_`|~''"

definition take_token :: "string \<Rightarrow> (string \<times> string) option" where
  "take_token s = (case takeWhile is_token_byte s of
      [] \<Rightarrow> None
    | t \<Rightarrow> Some (t, dropWhile is_token_byte s))"

definition QUOTE :: char where "QUOTE = CHR 0x22"
definition BACKSLASH :: char where "BACKSLASH = CHR 0x5C"

text \<open>Bytes that may stand in a quoted string, as they are or escaped.\<close>

definition is_quotable :: "char \<Rightarrow> bool" where
  "is_quotable c \<longleftrightarrow> c = CHR 0x09 \<or> (32 \<le> code c \<and> code c \<le> 126) \<or> 128 \<le> code c"

fun quoted_value :: "string \<Rightarrow> (string \<times> string) option" where
  "quoted_value [] = None"
| "quoted_value (c # s) =
    (if c = QUOTE then Some ([], s)
     else if c = BACKSLASH then (case s of
        [] \<Rightarrow> None
      | x # s' \<Rightarrow> if is_quotable x then map_option (apfst (Cons x)) (quoted_value s') else None)
     else if is_quotable c then map_option (apfst (Cons c)) (quoted_value s)
     else None)"

fun skip_quoted :: "string \<Rightarrow> string option" where
  "skip_quoted [] = None"
| "skip_quoted (c # s) =
    (if c = QUOTE then Some s
     else if c = BACKSLASH then (case s of
        [] \<Rightarrow> None
      | x # s' \<Rightarrow> if is_quotable x then skip_quoted s' else None)
     else if is_quotable c then skip_quoted s
     else None)"

lemma length_trim_ows: "length (trim_ows s) \<le> length s"
  by (induction s) auto

lemma length_consume: "consume x s = Some t \<Longrightarrow> length t < length s"
  by (auto simp: consume_def split: list.splits if_splits)

lemma length_take_token: "take_token s = Some (t, s') \<Longrightarrow> length s' < length s"
  by (cases s) (auto simp: take_token_def split: list.splits if_splits simp: length_dropWhile_le less_Suc_eq_le)

lemma length_skip_quoted: "skip_quoted s = Some t \<Longrightarrow> length t < length s"
  by (induction s rule: skip_quoted.induct) (auto split: if_splits list.splits)

lemma length_quoted_value: "quoted_value s = Some (v, t) \<Longrightarrow> length t < length s"
  by (induction s arbitrary: v rule: quoted_value.induct) (fastforce split: if_splits list.splits)+

lemma length_below_trim_ows: "length t < length (trim_ows s) \<Longrightarrow> length t < length s"
  using length_trim_ows [of s] by simp

text \<open>What a loop over the parameters of a header field consumes.\<close>

lemmas length_scanned =
  length_consume length_take_token length_skip_quoted length_quoted_value

section \<open>What a connection holds, whatever its fragments\<close>

text \<open>The specifications below read the concatenation of the fragments.\<close>

definition flat :: "(read_error, 'a \<times> string list) result \<Rightarrow> (read_error, 'a \<times> string) result" where
  "flat r = and_then r (\<lambda>(x, fs). Ok (x, concat fs))"

definition premature :: "stream_end \<Rightarrow> (read_error, 'a) result" where
  "premature e = and_then (at_end e) (\<lambda>_. break_off ''premature_eof'')"

definition line_spec :: "nat \<Rightarrow> string \<Rightarrow> string \<Rightarrow> stream_end \<Rightarrow> (read_error, string \<times> string) result" where
  "line_spec limit line s e =
    (let k = length (takeWhile (\<lambda>c. c \<noteq> LF) s) + 1 in
     if LF \<in> set s
     then if length line + k > limit then refuse ''http_header_byte_limit''
          else if ends_with CRLF (line @ take k s) then Ok (line @ take k s, drop k s)
          else break_off ''invalid_http_line_framing''
     else if length line + length s > limit then refuse ''http_header_byte_limit''
     else premature e)"

definition exact_spec ::
  "nat \<Rightarrow> string \<Rightarrow> nat \<Rightarrow> string \<Rightarrow> stream_end \<Rightarrow> (read_error, string \<times> string) result" where
  "exact_spec n bytes limit s e =
    (if length s < min n (limit - length bytes + 1) then premature e
     else if length bytes + n \<le> limit then Ok (bytes @ take n s, drop n s)
     else refuse ''response_byte_limit'')"

definition eof_spec :: "string \<Rightarrow> nat \<Rightarrow> string \<Rightarrow> stream_end \<Rightarrow> (read_error, string) result" where
  "eof_spec bytes limit s e =
    (if length bytes + length s > limit then refuse ''response_byte_limit''
     else and_then (at_end e) (\<lambda>_. Ok (bytes @ s)))"

lemmas answer_defs = flat_def premature_def and_then_def refuse_def break_off_def

lemma flat_simps [simp]:
  "flat (Ok (x, fs)) = Ok (x, concat fs)"
  "flat (Err err) = Err err"
  "flat (refuse a) = refuse a"
  "flat (break_off a) = break_off a"
  "flat (premature e) = premature e"
  "flat (and_then (at_end e) (\<lambda>_. break_off ''premature_eof'')) = premature e"
  by (auto simp: answer_defs split: sum.splits)

lemma minus_usize_ok [simp]: "b \<le> a \<Longrightarrow> minus_usize a b = Ok (a - b)"
  by (simp add: minus_usize_def)

lemma line_count_LF: "LF \<in> set f \<Longrightarrow> line_count f \<le> length f \<and> f ! (line_count f - 1) = LF"
  by (induction f) (auto simp: line_count_def)

lemma last_not_LF: "LF \<notin> set f \<Longrightarrow> f \<noteq> [] \<Longrightarrow> f ! (length f - 1) \<noteq> LF"
  by (cases f rule: rev_cases) auto

lemma line_spec_append:
  assumes "LF \<notin> set f"
  shows "line_spec limit line (f @ s) e = line_spec limit (line @ f) s e"
proof -
  have "takeWhile (\<lambda>c. c \<noteq> LF) (f @ s) = f @ takeWhile (\<lambda>c. c \<noteq> LF) s"
    using assms by (auto intro: takeWhile_append2)
  with assms show ?thesis by (simp add: line_spec_def Let_def ac_simps)
qed

lemma line_spec_full: "limit < length line \<Longrightarrow> line_spec limit line s e = refuse ''http_header_byte_limit''"
  by (simp add: line_spec_def Let_def)

lemma read_line_from_flat:
  "length line \<le> limit \<Longrightarrow> flat (read_line_from limit line fs e) = line_spec limit line (concat fs) e"
proof (induction limit line fs e rule: read_line_from.induct)
  case (1 limit line e)
  then show ?case by (simp add: line_spec_def)
next
  case (2 limit line f fs e)
  show ?case
  proof (cases "f = []")
    case True
    with 2 show ?thesis by simp
  next
    case ne: False
    show ?thesis
    proof (cases "LF \<in> set f")
      case True
      then have "takeWhile (\<lambda>c. c \<noteq> LF) (f @ concat fs) = takeWhile (\<lambda>c. c \<noteq> LF) f"
        by (simp add: takeWhile_append1)
      with True line_count_LF [OF True] ne "2.prems" show ?thesis
        by (auto simp: line_spec_def Let_def line_count_def)
    next
      case False
      have IH: "length (line @ f) \<le> limit \<Longrightarrow>
          flat (read_line_from limit (line @ f) fs e) = line_spec limit (line @ f) (concat fs) e"
        using 2 ne False last_not_LF [OF False ne] by (simp add: line_count_def)
      have "flat (read_line_from limit line (f # fs) e) =
          (if limit < length (line @ f) then refuse ''http_header_byte_limit''
           else flat (read_line_from limit (line @ f) fs e))"
        using False ne "2.prems" last_not_LF [OF False ne] by (auto simp: line_count_def Let_def)
      with IH False show ?thesis
        by (simp del: read_line_from.simps add: line_spec_append line_spec_full)
    qed
  qed
qed

lemma read_line_flat: "flat (read_line limit fs e) = line_spec limit [] (concat fs) e"
  by (simp add: read_line_def read_line_from_flat)

lemma timed_read_end: "concat fs = [] \<Longrightarrow> timed_read n fs e = and_then (at_end e) (\<lambda>_. Ok ([], []))"
  by (induction n fs e rule: timed_read.induct) auto

lemma timed_read_some:
  assumes "concat fs \<noteq> []" "0 < n"
  obtains k fs' where "timed_read n fs e = Ok (take k (concat fs), fs')" "0 < k" "k \<le> n"
    "k \<le> length (concat fs)" "concat fs' = drop k (concat fs)"
proof -
  have "\<exists>k fs'. timed_read n fs e = Ok (take k (concat fs), fs') \<and> 0 < k \<and> k \<le> n \<and>
      k \<le> length (concat fs) \<and> concat fs' = drop k (concat fs)"
    using assms
  proof (induction n fs e rule: timed_read.induct)
    case (2 n f fs e)
    show ?case
    proof (cases "f = []")
      case False
      with 2 show ?thesis by (intro exI [of _ "min n (length f)"] exI [of _ "drop n f # fs"]) (auto simp: min_def)
    qed (use 2 in simp)
  qed simp
  with that show ?thesis by blast
qed

lemma read_exact_body_flat:
  "length bytes \<le> limit \<Longrightarrow> flat (read_exact_body n bytes limit fs e) = exact_spec n bytes limit (concat fs) e"
proof (induction n arbitrary: bytes fs rule: less_induct)
  case (less n)
  let ?room = "limit - length bytes" let ?s = "concat fs"
  let ?n = "min (min n BUFFER) (?room + 1)"
  show ?case
  proof (cases "n = 0")
    case True
    with less.prems show ?thesis by (simp add: read_exact_body.simps exact_spec_def)
  next
    case n: False
    show ?thesis
    proof (cases "?s = []")
      case True
      with n less.prems show ?thesis
        by (simp add: read_exact_body.simps [of n] timed_read_end exact_spec_def premature_def and_then_def
            del: concat_eq_Nil_conv split: sum.splits)
    next
      case False
      have "0 < ?n" using n by (simp add: BUFFER_def)
      with False obtain k fs' where k: "timed_read ?n fs e = Ok (take k ?s, fs')" "0 < k" "k \<le> ?n"
        "k \<le> length ?s" "concat fs' = drop k ?s" by (rule timed_read_some)
      have unfold: "read_exact_body n bytes limit fs e =
          (if k > ?room then refuse ''response_byte_limit''
           else read_exact_body (n - k) (bytes @ take k ?s) limit fs' e)"
        using n less.prems k False by (subst read_exact_body.simps) (auto simp: min_absorb2)
      show ?thesis
      proof (cases "k > ?room")
        case True
        with unfold k less.prems show ?thesis by (auto simp: exact_spec_def)
      next
        case le: False
        with unfold k n less.prems less.IH [of "n - k" "bytes @ take k ?s" fs']
        have "flat (read_exact_body n bytes limit fs e) = exact_spec (n - k) (bytes @ take k ?s) limit (drop k ?s) e"
          by (simp add: min_absorb2)
        also have "\<dots> = exact_spec n bytes limit ?s e"
          using le k n less.prems
          by (auto simp: exact_spec_def min_absorb2 take_add [symmetric] simp del: length_concat)
        finally show ?thesis .
      qed
    qed
  qed
qed

lemma collect_to_eof_spec:
  "length bytes \<le> limit \<Longrightarrow> collect_to_eof bytes limit fs e = eof_spec bytes limit (concat fs) e"
proof (induction "length (concat fs)" arbitrary: bytes fs rule: less_induct)
  case less
  let ?room = "limit - length bytes" let ?s = "concat fs"
  let ?n = "min (?room + 1) BUFFER"
  show ?case
  proof (cases "?s = []")
    case True
    with less.prems show ?thesis
      by (simp add: collect_to_eof.simps [of bytes] timed_read_end eof_spec_def and_then_def
          del: concat_eq_Nil_conv split: sum.splits)
  next
    case False
    have "0 < ?n" by (simp add: BUFFER_def)
    with False obtain k fs' where k: "timed_read ?n fs e = Ok (take k ?s, fs')" "0 < k" "k \<le> ?n"
      "k \<le> length ?s" "concat fs' = drop k ?s" by (rule timed_read_some)
    have unfold: "collect_to_eof bytes limit fs e =
        (if k > ?room then refuse ''response_byte_limit''
         else collect_to_eof (bytes @ take k ?s) limit fs' e)"
      using less.prems k False by (subst collect_to_eof.simps) (auto simp: min_absorb2)
    show ?thesis
    proof (cases "k > ?room")
      case True
      with unfold k less.prems show ?thesis by (auto simp: eof_spec_def)
    next
      case le: False
      with unfold k less.prems less.hyps [of fs' "bytes @ take k ?s"]
      have "collect_to_eof bytes limit fs e = eof_spec (bytes @ take k ?s) limit (drop k ?s) e"
        by (simp add: min_absorb2)
      also have "\<dots> = eof_spec bytes limit ?s e"
        using le k less.prems by (simp add: eof_spec_def min_absorb2 del: length_concat)
      finally show ?thesis .
    qed
  qed
qed

text \<open>What a later reader sees depends on an earlier answer only through what is left of the connection.\<close>

lemma flat_cases:
  assumes "flat r = flat r'"
  obtains x fs fs' where "r = Ok (x, fs)" "r' = Ok (x, fs')" "concat fs = concat fs'"
  | err where "r = Err err" "r' = Err err"
  using assms by (cases r; cases r') (auto simp: flat_def and_then_def)

lemma flat_then:
  assumes "flat r = flat r'" "\<And>x fs fs'. r = Ok (x, fs) \<Longrightarrow> concat fs = concat fs' \<Longrightarrow> k x fs = k x fs'"
  shows "and_then r (\<lambda>(x, fs). k x fs) = and_then r' (\<lambda>(x, fs). k x fs)"
  using assms(1) by (cases rule: flat_cases) (auto simp: and_then_def assms(2))

lemma flat_flat_then:
  assumes "flat r = flat r'"
    "\<And>x fs fs'. r = Ok (x, fs) \<Longrightarrow> concat fs = concat fs' \<Longrightarrow> flat (k x fs) = flat (k x fs')"
  shows "flat (and_then r (\<lambda>(x, fs). k x fs)) = flat (and_then r' (\<lambda>(x, fs). k x fs))"
  using assms(1) by (cases rule: flat_cases) (auto simp: and_then_def assms(2))

lemma then_cong: "(\<And>x. r = Ok x \<Longrightarrow> k x = k' x) \<Longrightarrow> and_then r k = and_then r k'"
  by (cases r) (auto simp: and_then_def)

section \<open>Chunk extensions and media types\<close>

function valid_chunk_extensions :: "string \<Rightarrow> bool" where
  "valid_chunk_extensions s =
    (let s = trim_ows s in
     if s = [] then True
     else (case consume CHR '';'' s of
        None \<Rightarrow> False
      | Some s \<Rightarrow> (case take_token (trim_ows s) of
          None \<Rightarrow> False
        | Some (_, s) \<Rightarrow>
            let s = trim_ows s in
            (case consume CHR ''='' s of
               None \<Rightarrow> valid_chunk_extensions s
             | Some s \<Rightarrow>
                 let s = trim_ows s in
                 (case consume QUOTE s of
                    Some s \<Rightarrow> (case skip_quoted s of None \<Rightarrow> False | Some s \<Rightarrow> valid_chunk_extensions s)
                  | None \<Rightarrow> (case take_token s of
                       None \<Rightarrow> False
                     | Some (_, s) \<Rightarrow> valid_chunk_extensions s))))))"
  by pat_completeness auto
termination
  by (relation "measure length")
    (auto dest!: length_scanned dest!: length_below_trim_ows intro: le_less_trans [OF length_trim_ows])

declare valid_chunk_extensions.simps [simp del]

definition eq_ignore_ascii_case :: "string \<Rightarrow> string \<Rightarrow> bool" where
  "eq_ignore_ascii_case s t \<longleftrightarrow> to_lower s = to_lower t"

text \<open>The type and subtype that open a media type, up to case.\<close>

definition media_base :: "string \<Rightarrow> string \<Rightarrow> string option" where
  "media_base sub s = (case take_token (trim_ows s) of
      None \<Rightarrow> None
    | Some (base, s) \<Rightarrow>
        if \<not> eq_ignore_ascii_case base ''application'' then None
        else (case consume CHR ''/'' s of
          None \<Rightarrow> None
        | Some s \<Rightarrow> (case take_token s of
            None \<Rightarrow> None
          | Some (subtype, s) \<Rightarrow> if eq_ignore_ascii_case subtype sub then Some s else None)))"

definition valid_geometry_media_type :: "string \<Rightarrow> bool" where
  "valid_geometry_media_type s = (case media_base ''octet-stream'' s of
      None \<Rightarrow> False
    | Some s \<Rightarrow>
        let s = trim_ows s in
        if s = [] then True
        else (case consume CHR '';'' s of
          None \<Rightarrow> False
        | Some s \<Rightarrow> (case take_token (trim_ows s) of
            None \<Rightarrow> False
          | Some (parameter, s) \<Rightarrow>
              if \<not> eq_ignore_ascii_case parameter ''charset'' then False
              else (case consume CHR ''='' (trim_ows s) of
                None \<Rightarrow> False
              | Some s \<Rightarrow>
                  let s = trim_ows s;
                      quoted = consume QUOTE s
                  in (case take_token (case quoted of Some s \<Rightarrow> s | None \<Rightarrow> s) of
                        None \<Rightarrow> False
                      | Some (charset, s) \<Rightarrow>
                          if \<not> eq_ignore_ascii_case charset ''utf-8'' then False
                          else (case (if quoted = None then Some s else consume QUOTE s) of
                            None \<Rightarrow> False
                          | Some s \<Rightarrow> trim_ows s = []))))))"

text \<open>The loop over the parameters of a JSON media type.\<close>

function valid_json_parameters :: "string \<Rightarrow> bool" where
  "valid_json_parameters s =
    (let s = trim_ows s in
     if s = [] then True
     else (case consume CHR '';'' s of
        None \<Rightarrow> False
      | Some s \<Rightarrow> (case take_token (trim_ows s) of
          None \<Rightarrow> False
        | Some (name, s) \<Rightarrow> (case consume CHR ''='' (trim_ows s) of
            None \<Rightarrow> False
          | Some s \<Rightarrow>
              let s = trim_ows s in
              (case (case consume QUOTE s of Some s \<Rightarrow> quoted_value s | None \<Rightarrow> take_token s) of
                 None \<Rightarrow> False
               | Some (parameter, s) \<Rightarrow>
                   if eq_ignore_ascii_case name ''charset'' \<and> \<not> eq_ignore_ascii_case parameter ''utf-8''
                   then False
                   else valid_json_parameters s)))))"
  by pat_completeness auto
termination
  by (relation "measure length")
    (auto dest!: length_scanned dest!: length_below_trim_ows split: option.splits)

declare valid_json_parameters.simps [simp del]

definition valid_json_media_type :: "string \<Rightarrow> bool" where
  "valid_json_media_type s = (case media_base ''json'' s of
      None \<Rightarrow> False
    | Some s \<Rightarrow> valid_json_parameters s)"

end
