(* ===== verification/Http_Receive.thy ===== *)
theory Http_Receive
  imports Http_Response
begin

text \<open>
  Receiving a response of the Onshape service (\<open>receive\<close> of \<open>src/src/onshape_api.rs\<close> from its first
  read on): the status policy, the header block, the checks of the headers and the choice of the
  framing. The parser of header lines and the checks of the \<open>http\<close> crate are a parameter.
\<close>

section \<open>Header fields\<close>

text \<open>
  \<open>parse_response\<close> is httparse's answer for a whole head: the length it used and the raw fields, or
  \<open>None\<close> when it fails or wants more. \<open>header_name\<close> gives the normalized name.
\<close>

record header_library =
  parse_response :: "string \<Rightarrow> (nat \<times> (string \<times> string) list) option"
  header_name :: "string \<Rightarrow> string option"
  header_value :: "string \<Rightarrow> bool"
  header_text :: "string \<Rightarrow> bool"

type_synonym headers = "(string \<times> string) list"

definition get_all :: "string \<Rightarrow> headers \<Rightarrow> string list" where
  "get_all name hs = map snd (filter (\<lambda>h. fst h = name) hs)"

definition append_header ::
  "header_library \<Rightarrow> headers \<Rightarrow> string \<times> string \<Rightarrow> (read_error, headers) result" where
  "append_header lib hs raw =
    (case header_name lib (fst raw) of
       None \<Rightarrow> refuse ''invalid_http_headers''
     | Some name \<Rightarrow> if header_value lib (snd raw) then Ok (hs @ [(name, snd raw)])
                    else refuse ''invalid_http_headers'')"

definition parse_header_block :: "header_library \<Rightarrow> string \<Rightarrow> (read_error, headers) result" where
  "parse_header_block lib head =
    (case parse_response lib head of
       None \<Rightarrow> refuse ''invalid_http_headers''
     | Some (n, raw) \<Rightarrow> if n = length head then try_fold (append_header lib) [] raw
                        else refuse ''invalid_http_headers'')"

definition U64_LIMIT :: nat where "U64_LIMIT = 2 ^ 64"

definition content_length :: "header_library \<Rightarrow> headers \<Rightarrow> nat \<Rightarrow> (read_error, nat option) result" where
  "content_length lib hs limit =
    (case get_all ''content-length'' hs of
       [] \<Rightarrow> Ok None
     | [v] \<Rightarrow>
         if \<not> header_text lib v \<or> v = [] \<or> \<not> list_all is_digit v \<or> U64_LIMIT \<le> dec_value v
         then refuse ''invalid_content_length''
         else if dec_value v > limit then refuse ''response_byte_limit''
         else Ok (Some (dec_value v))
     | _ \<Rightarrow> refuse ''invalid_content_length'')"

definition validate_json_headers :: "headers \<Rightarrow> (read_error, unit) result" where
  "validate_json_headers hs =
    (if get_all ''content-encoding'' hs \<notin> {[], [''identity'']}
     then refuse ''unsupported_content_encoding''
     else (case get_all ''content-type'' hs of
        [v] \<Rightarrow> if valid_json_media_type v then Ok () else refuse ''invalid_content_type''
      | _ \<Rightarrow> refuse ''invalid_content_type''))"

definition validate_geometry_headers :: "header_library \<Rightarrow> headers \<Rightarrow> (read_error, string) result" where
  "validate_geometry_headers lib hs =
    (if (case get_all ''content-encoding'' hs of
           [] \<Rightarrow> False
         | [e] \<Rightarrow> \<not> eq_ignore_ascii_case e ''identity''
         | _ \<Rightarrow> True)
     then refuse ''unsupported_content_encoding''
     else (case get_all ''content-type'' hs of
        [v] \<Rightarrow> if valid_geometry_media_type v \<and> header_text lib v then Ok v
               else refuse ''invalid_content_type''
      | _ \<Rightarrow> refuse ''invalid_content_type''))"

section \<open>Status and head\<close>

datatype response_policy = SelectionJson | GeometryJson bool | GeometryBytes

text \<open>\<open>splitn(3, ' ')\<close>: the third part is not looked at.\<close>

definition status_from_line :: "string \<Rightarrow> (read_error, nat) result" where
  "status_from_line line =
    (case strip_suffix CRLF line of
       None \<Rightarrow> break_off ''invalid_http_status''
     | Some s \<Rightarrow>
         let parts = split_on CHR '' '' s;
             protocol = parts ! 0;
             status = (if length parts < 2 then [] else parts ! 1)
         in if protocol \<notin> {''HTTP/1.1'', ''HTTP/1.0''} \<or> length status \<noteq> 3 \<or> \<not> list_all is_digit status
              \<or> dec_value status < 100
            then break_off ''invalid_http_status''
            else Ok (dec_value status))"

definition accepted_status :: "response_policy \<Rightarrow> nat \<Rightarrow> bool" where
  "accepted_status policy status \<longleftrightarrow> status = 200 \<or> status = 201 \<and> policy = GeometryJson True"

definition status_failure :: "response_policy \<Rightarrow> nat \<Rightarrow> api_failure" where
  "status_failure policy status =
    api_failure_new
      (if status \<in> {401, 403} then AuthenticationFailure
       else if policy \<noteq> SelectionJson then OperationalHttpFailure
       else OperationalApiContractFailure)
      ''http_status''"

lemma line_spec_Ok:
  assumes "line_spec limit [] s e = Ok (line, rest)"
  shows "s = line @ rest \<and> line \<noteq> [] \<and> ends_with CRLF line \<and> length line \<le> limit"
  using assms by (auto simp: line_spec_def Let_def answer_defs split: if_splits sum.splits)

lemma read_line_splits:
  assumes "read_line limit fs e = Ok (line, fs')"
  shows "concat fs = line @ concat fs' \<and> line \<noteq> [] \<and> ends_with CRLF line \<and> length line \<le> limit"
  using line_spec_Ok [of limit "concat fs" e line "concat fs'"] assms by (simp flip: read_line_flat)

lemma exact_spec_Ok:
  assumes "exact_spec n bytes limit s e = Ok (bytes', rest)" "length bytes \<le> limit"
  shows "\<exists>chunk. bytes' = bytes @ chunk \<and> length chunk = n \<and> s = chunk @ rest \<and> length bytes' \<le> limit"
  using assms by (intro exI [of _ "take n s"])
    (auto simp: exact_spec_def answer_defs split: if_splits sum.splits)

lemma read_exact_body_splits:
  assumes "read_exact_body n bytes limit fs e = Ok (bytes', fs')" "length bytes \<le> limit"
  obtains chunk where "bytes' = bytes @ chunk" "length chunk = n" "concat fs = chunk @ concat fs'"
    "length bytes' \<le> limit"
proof -
  have "exact_spec n bytes limit (concat fs) e = Ok (bytes', concat fs')"
    using assms by (simp flip: read_exact_body_flat)
  with exact_spec_Ok [OF this assms(2)] that show ?thesis by blast
qed

lemma read_exact_body_length:
  assumes "read_exact_body n bytes limit fs e = Ok (bytes', fs')"
  shows "length (concat fs') \<le> length (concat fs)"
proof (cases "length bytes \<le> limit")
  case True
  with assms obtain chunk where "concat fs = chunk @ concat fs'" by (rule read_exact_body_splits)
  then show ?thesis by (simp del: length_concat)
next
  case False
  with assms show ?thesis
    by (subst (asm) read_exact_body.simps) (auto simp: minus_usize_def split: if_splits)
qed

lemma shrinking_reads:
  "read_line limit fs e = Ok (line, fs') \<Longrightarrow> length (concat fs') < length (concat fs)"
  by (drule read_line_splits) (simp del: length_concat)
text \<open>
  The loop that appends lines until an empty one, for the head of the response and for the trailers.
\<close>

lemma and_then_cong [fundef_cong]:
  "r = r' \<Longrightarrow> (\<And>a. r' = Ok a \<Longrightarrow> f a = f' a) \<Longrightarrow> and_then r f = and_then r' f'"
  by (cases r') (auto simp: and_then_def)

function head_lines ::
  "string \<Rightarrow> string list \<Rightarrow> stream_end \<Rightarrow> (read_error, string \<times> string list) result" where
  "head_lines head fs e =
    and_then (minus_usize MAX_HEADER_BYTES (length head)) (\<lambda>room.
    and_then (read_line room fs e) (\<lambda>(line, fs').
      if line = CRLF then Ok (head @ line, fs') else head_lines (head @ line) fs' e))"
  by pat_completeness auto
termination
  by (relation "measure (\<lambda>(_, fs, _). length (concat fs))") (auto dest: shrinking_reads)

declare head_lines.simps [simp del]

section \<open>Chunks\<close>

definition is_hexdigit :: "char \<Rightarrow> bool" where
  "is_hexdigit c \<longleftrightarrow> is_digit c \<or> 97 \<le> code c \<and> code c \<le> 102 \<or> 65 \<le> code c \<and> code c \<le> 70"

definition hex_digit_value :: "char \<Rightarrow> nat" where
  "hex_digit_value c =
    (if is_digit c then code c - 48
     else if 97 \<le> code c \<and> code c \<le> 102 then code c - 97 + 10
     else code c - 65 + 10)"

definition chunk_size :: "string \<Rightarrow> (read_error, nat) result" where
  "chunk_size digits =
    try_fold (\<lambda>n c. if n * 16 + hex_digit_value c < U64_LIMIT then Ok (n * 16 + hex_digit_value c)
                    else break_off ''invalid_chunk_framing'') 0 digits"

definition chunk_line :: "string \<Rightarrow> (read_error, nat) result" where
  "chunk_line line =
    and_then (minus_usize (length line) 2) (\<lambda>n.
      let line = take n line;
          digits = takeWhile is_hexdigit line
      in if digits = [] \<or> \<not> valid_chunk_extensions (drop (length digits) line)
         then break_off ''invalid_chunk_framing'' else chunk_size digits)"

definition TRAILER_HEAD :: string where "TRAILER_HEAD = ''HTTP/1.1 200 OK'' @ CRLF"

definition forbidden_trailers :: "string list" where
  "forbidden_trailers = [''content-length'', ''transfer-encoding'', ''content-type'', ''content-encoding'']"

definition read_trailers ::
  "header_library \<Rightarrow> string list \<Rightarrow> stream_end \<Rightarrow> (read_error, unit) result" where
  "read_trailers lib fs e =
    and_then (head_lines TRAILER_HEAD fs e) (\<lambda>(head, fs).
    and_then (map_err (\<lambda>_. Refused (transport ''invalid_chunk_trailers'')) (parse_header_block lib head)) (\<lambda>hs.
      if list_ex (\<lambda>name. get_all name hs \<noteq> []) forbidden_trailers then refuse ''invalid_response_trailers''
      else require_completed_close fs e))"

function collect_chunked ::
  "header_library \<Rightarrow> string \<Rightarrow> nat \<Rightarrow> string list \<Rightarrow> stream_end \<Rightarrow> (read_error, string) result" where
  "collect_chunked lib bytes limit fs e =
    and_then (read_line MAX_HEADER_BYTES fs e) (\<lambda>(line, fs').
    and_then (chunk_line line) (\<lambda>n.
      if n = 0 then and_then (read_trailers lib fs' e) (\<lambda>_. Ok bytes)
      else
        and_then (read_exact_body n bytes limit fs' e) (\<lambda>(bytes, fs).
        and_then (read_exact_body 2 [] 2 fs e) (\<lambda>(ending, fs).
          if ending \<noteq> CRLF then break_off ''invalid_chunk_framing''
          else collect_chunked lib bytes limit fs e))))"
  by pat_completeness auto
termination
  by (relation "measure (\<lambda>(_, _, _, fs, _). length (concat fs))")
    (auto dest!: shrinking_reads read_exact_body_length)

declare collect_chunked.simps [simp del]

section \<open>The response\<close>

record geometry_download =
  downloaded :: string
  transport_media :: string

definition transfer_chunked :: "headers \<Rightarrow> nat option \<Rightarrow> (read_error, bool) result" where
  "transfer_chunked hs declared =
    (case get_all ''transfer-encoding'' hs of
       [] \<Rightarrow> Ok False
     | [v] \<Rightarrow> if eq_ignore_ascii_case v ''chunked'' \<and> declared = None then Ok True
              else refuse ''invalid_transfer_encoding''
     | _ \<Rightarrow> refuse ''invalid_transfer_encoding'')"

definition read_body ::
  "header_library \<Rightarrow> bool \<Rightarrow> nat option \<Rightarrow> nat \<Rightarrow> string list \<Rightarrow> stream_end \<Rightarrow> (read_error, string) result" where
  "read_body lib chunked declared limit fs e =
    (if chunked then collect_chunked lib [] limit fs e
     else (case declared of
       Some n \<Rightarrow>
         and_then (read_exact_body n [] limit fs e) (\<lambda>(bytes, fs).
         and_then (require_completed_close fs e) (\<lambda>_. Ok bytes))
     | None \<Rightarrow> collect_to_eof [] limit fs e))"

definition read_answer ::
  "header_library \<Rightarrow> response_policy \<Rightarrow> nat \<Rightarrow> string \<Rightarrow> string list \<Rightarrow> stream_end
    \<Rightarrow> (read_error, geometry_download) result" where
  "read_answer lib policy limit head fs e =
    and_then (parse_header_block lib head) (\<lambda>hs.
    and_then (if policy = GeometryBytes then validate_geometry_headers lib hs
              else and_then (validate_json_headers hs) (\<lambda>_. Ok [])) (\<lambda>media.
    and_then (content_length lib hs limit) (\<lambda>declared.
    and_then (transfer_chunked hs declared) (\<lambda>chunked.
    and_then (read_body lib chunked declared limit fs e) (\<lambda>bytes.
      if bytes = [] \<and> policy = GeometryBytes then refuse ''empty_geometry_payload''
      else Ok \<lparr>downloaded = bytes, transport_media = media\<rparr>)))))"

definition receive ::
  "header_library \<Rightarrow> response_policy \<Rightarrow> nat \<Rightarrow> string list \<Rightarrow> stream_end \<Rightarrow> (read_error, geometry_download) result" where
  "receive lib policy limit fs e =
    and_then (read_line MAX_HEADER_BYTES fs e) (\<lambda>(first_line, fs).
    and_then (status_from_line first_line) (\<lambda>status.
      if \<not> accepted_status policy status then Err (Refused (status_failure policy status))
      else and_then (head_lines first_line fs e) (\<lambda>(head, fs). read_answer lib policy limit head fs e)))"
section \<open>Fragments do not matter\<close>

lemma read_line_unfragmented:
  "concat fs = concat gs \<Longrightarrow> flat (read_line limit fs e) = flat (read_line limit gs e)"
  by (simp add: read_line_flat)

lemma read_exact_body_unfragmented:
  "concat fs = concat gs \<Longrightarrow> length bytes \<le> limit \<Longrightarrow>
    flat (read_exact_body n bytes limit fs e) = flat (read_exact_body n bytes limit gs e)"
  by (simp add: read_exact_body_flat)

lemma head_lines_unfragmented:
  "concat fs = concat gs \<Longrightarrow> flat (head_lines head fs e) = flat (head_lines head gs e)"
proof (induction "length (concat fs)" arbitrary: head fs gs rule: less_induct)
  case less
  show ?case
  proof (cases "minus_usize MAX_HEADER_BYTES (length head)")
    case (Inl x)
    then show ?thesis by (simp add: head_lines.simps [of head fs] head_lines.simps [of head gs] and_then_def)
  next
    case (Inr room)
    let ?k = "\<lambda>(line, fs'). if line = CRLF then Ok (head @ line, fs') else head_lines (head @ line) fs' e"
    have "flat (and_then (read_line room fs e) ?k) = flat (and_then (read_line room gs e) ?k)"
    proof (rule flat_flat_then [OF read_line_unfragmented [OF less.prems]])
      fix line fs' gs'
      assume r: "read_line room fs e = Ok (line, fs')" and c: "concat fs' = concat gs'"
      note IH = less.hyps [OF shrinking_reads [OF r] c]
      show "flat (if line = CRLF then Ok (head @ line, fs') else head_lines (head @ line) fs' e) =
          flat (if line = CRLF then Ok (head @ line, gs') else head_lines (head @ line) gs' e)"
        using IH c by (cases "line = CRLF") simp_all
    qed
    then show ?thesis
      by (simp add: head_lines.simps [of head fs] head_lines.simps [of head gs] Inr and_then_def [of "Ok room"])
  qed
qed

lemma require_completed_close_unfragmented:
  "concat fs = concat gs \<Longrightarrow> require_completed_close fs e = require_completed_close gs e"
  unfolding require_completed_close_def by (simp only:)
lemma read_trailers_unfragmented: "concat fs = concat gs \<Longrightarrow> read_trailers lib fs e = read_trailers lib gs e"
  unfolding read_trailers_def
  by (intro flat_then head_lines_unfragmented then_cong if_cong require_completed_close_unfragmented) auto

lemma collect_chunked_unfragmented:
  "concat fs = concat gs \<Longrightarrow> length bytes \<le> limit \<Longrightarrow>
    collect_chunked lib bytes limit fs e = collect_chunked lib bytes limit gs e"
proof (induction "length (concat fs)" arbitrary: bytes fs gs rule: less_induct)
  case less
  show ?case
    unfolding collect_chunked.simps [of lib bytes limit fs] collect_chunked.simps [of lib bytes limit gs]
  proof (rule flat_then [OF read_line_unfragmented [OF less.prems(1)]], rule then_cong, rule if_cong [OF refl])
    fix line fs1 gs1 n
    assume line: "read_line MAX_HEADER_BYTES fs e = Ok (line, fs1)" and c1: "concat fs1 = concat gs1"
    show "and_then (read_trailers lib fs1 e) (\<lambda>_. Ok bytes) = and_then (read_trailers lib gs1 e) (\<lambda>_. Ok bytes)"
      unfolding read_trailers_unfragmented [OF c1] ..
    show "and_then (read_exact_body n bytes limit fs1 e) (\<lambda>(bytes, fs).
          and_then (read_exact_body 2 [] 2 fs e) (\<lambda>(ending, fs).
            if ending \<noteq> CRLF then break_off ''invalid_chunk_framing'' else collect_chunked lib bytes limit fs e)) =
        and_then (read_exact_body n bytes limit gs1 e) (\<lambda>(bytes, fs).
          and_then (read_exact_body 2 [] 2 fs e) (\<lambda>(ending, fs).
            if ending \<noteq> CRLF then break_off ''invalid_chunk_framing'' else collect_chunked lib bytes limit fs e))"
    proof (rule flat_then [OF read_exact_body_unfragmented [OF c1 less.prems(2)]],
        rule flat_then [OF read_exact_body_unfragmented], goal_cases)
      case (3 bytes' fs2 gs2 ending fs3 gs3)
      have len: "length bytes' \<le> limit"
        by (rule read_exact_body_splits [OF 3(1) less.prems(2)])
      have "length (concat fs3) < length (concat fs)"
        using shrinking_reads [OF line] read_exact_body_length [OF 3(1)] read_exact_body_length [OF 3(3)]
        by linarith
      from less.hyps [OF this 3(4) len] show ?case by (rule if_cong [OF refl refl])
    qed simp_all
  qed
qed

lemma read_body_unfragmented:
  "concat fs = concat gs \<Longrightarrow> read_body lib chunked declared limit fs e = read_body lib chunked declared limit gs e"
proof (cases chunked)
  case False
  assume c: "concat fs = concat gs"
  show ?thesis
  proof (cases declared)
    case None
    with False c show ?thesis by (simp add: read_body_def collect_to_eof_spec)
  next
    case (Some n)
    have "and_then (read_exact_body n [] limit fs e) (\<lambda>(bytes, fs).
        and_then (require_completed_close fs e) (\<lambda>_. Ok bytes)) =
      and_then (read_exact_body n [] limit gs e) (\<lambda>(bytes, fs).
        and_then (require_completed_close fs e) (\<lambda>_. Ok bytes))"
      by (rule flat_then [OF read_exact_body_unfragmented [OF c]], simp)
        (drule require_completed_close_unfragmented, erule arg_cong)
    with False Some show ?thesis by (simp add: read_body_def)
  qed
next
  case True
  assume "concat fs = concat gs"
  from collect_chunked_unfragmented [OF this] True show ?thesis by (simp add: read_body_def)
qed

lemma read_answer_unfragmented:
  assumes "concat fs = concat gs"
  shows "read_answer lib policy limit head fs e = read_answer lib policy limit head gs e"
  unfolding read_answer_def read_body_unfragmented [OF assms] ..

lemma receive_unfragmented:
  "concat fs = concat gs \<Longrightarrow> receive lib policy limit fs e = receive lib policy limit gs e"
  unfolding receive_def
  by (rule flat_then [OF read_line_unfragmented], assumption, rule then_cong, rule if_cong [OF refl refl],
      rule flat_then [OF head_lines_unfragmented], assumption, rule read_answer_unfragmented)
section \<open>No index below zero, no body above the limit\<close>

text \<open>An answer is in range when no subtraction of lengths went below zero.\<close>

definition in_range :: "(read_error, 'a) result \<Rightarrow> bool" where
  "in_range r \<longleftrightarrow> r \<noteq> Err Underflow"

lemma in_range_simps [simp]:
  "in_range (Ok x)" "in_range (refuse a)" "in_range (break_off a)" "in_range (at_end e)" "in_range (premature e)"
  "in_range (Err (Refused f))" "in_range (flat r) \<longleftrightarrow> in_range r"
  by (auto simp: in_range_def answer_defs at_end_def split: sum.splits stream_end.splits)

lemma in_range_then [intro]:
  "in_range r \<Longrightarrow> (\<And>a. r = Ok a \<Longrightarrow> in_range (f a)) \<Longrightarrow> in_range (and_then r f)"
  by (cases r) (auto simp: in_range_def and_then_def)

lemma read_line_in_range: "in_range (read_line limit fs e)"
proof -
  have "in_range (flat (read_line limit fs e))"
    unfolding read_line_flat line_spec_def by (simp add: Let_def)
  then show ?thesis by simp
qed

lemma read_exact_body_in_range: "length bytes \<le> limit \<Longrightarrow> in_range (read_exact_body n bytes limit fs e)"
proof -
  assume "length bytes \<le> limit"
  then have "in_range (flat (read_exact_body n bytes limit fs e))"
    unfolding read_exact_body_flat [OF \<open>length bytes \<le> limit\<close>] exact_spec_def by simp
  then show ?thesis by simp
qed

lemma head_lines_in_range: "length head \<le> MAX_HEADER_BYTES \<Longrightarrow> in_range (head_lines head fs e)"
proof (induction head fs e rule: head_lines.induct)
  case (1 head fs e)
  from 1(2) have room: "minus_usize MAX_HEADER_BYTES (length head) = Ok (MAX_HEADER_BYTES - length head)"
    by simp
  have rest: "in_range (head_lines (head @ line) fs' e)"
    if "read_line (MAX_HEADER_BYTES - length head) fs e = Ok (line, fs')" "line \<noteq> CRLF" for line fs'
  proof -
    have "length (head @ line) \<le> MAX_HEADER_BYTES"
      using read_line_splits [OF that(1)] 1(2) by auto
    with 1(1) [OF room that(1) refl that(2)] show ?thesis .
  qed
  show ?case
    unfolding head_lines.simps [of head] room
    by (auto intro!: in_range_then read_line_in_range rest)
qed

lemma try_fold_in_range: "(\<And>s x. in_range (f s x)) \<Longrightarrow> in_range (try_fold f s xs)"
proof (induction xs arbitrary: s)
  case (Cons x xs)
  then show ?case by (auto split: sum.splits simp: in_range_def)
qed simp

lemma parse_header_block_in_range: "in_range (parse_header_block lib head)"
  unfolding parse_header_block_def
  by (auto intro!: try_fold_in_range simp: append_header_def split: option.splits)

lemma chunk_line_in_range: "ends_with CRLF line \<Longrightarrow> in_range (chunk_line line)"
proof -
  assume "ends_with CRLF line"
  then have "2 \<le> length line" by (auto simp: ends_with_def starts_with_iff CRLF_def dest: arg_cong [of _ _ length])
  then show ?thesis
    unfolding chunk_line_def chunk_size_def by (auto intro!: in_range_then try_fold_in_range simp: Let_def)
qed

lemma require_completed_close_in_range: "in_range (require_completed_close fs e)"
  by (simp add: require_completed_close_def)

lemma read_trailers_in_range: "in_range (read_trailers lib fs e)"
proof -
  have "in_range (map_err (\<lambda>_. Refused f) r)" for f :: api_failure and r :: "(read_error, headers) result"
    by (cases r) (auto simp: map_err_def)
  then show ?thesis
    unfolding read_trailers_def
    by (auto intro!: in_range_then head_lines_in_range require_completed_close_in_range
        simp: TRAILER_HEAD_def CRLF_def MAX_HEADER_BYTES_def)
qed

text \<open>What an answer holds: no index below zero and, when it is a body, at most \<open>limit\<close> bytes.\<close>

definition fits :: "nat \<Rightarrow> (read_error, string) result \<Rightarrow> bool" where
  "fits limit r \<longleftrightarrow> in_range r \<and> (\<forall>b. r = Ok b \<longrightarrow> length b \<le> limit)"

lemma fits_then:
  "in_range r \<Longrightarrow> (\<And>a. r = Ok a \<Longrightarrow> fits limit (f a)) \<Longrightarrow> fits limit (and_then r f)"
  by (cases r) (auto simp: fits_def in_range_def and_then_def)

lemma fits_simps [simp]:
  "fits limit (Ok b) \<longleftrightarrow> length b \<le> limit" "fits limit (refuse a)" "fits limit (break_off a)"
  by (auto simp: fits_def) (auto simp: refuse_def break_off_def)

lemma collect_chunked_fits: "length bytes \<le> limit \<Longrightarrow> fits limit (collect_chunked lib bytes limit fs e)"
proof (induction lib bytes limit fs e rule: collect_chunked.induct)
  case (1 lib bytes limit fs e)
  show ?case
    unfolding collect_chunked.simps [of lib bytes]
  proof (rule fits_then [OF read_line_in_range], clarify)
    fix line fs1
    assume line: "read_line MAX_HEADER_BYTES fs e = Ok (line, fs1)"
    then have "in_range (chunk_line line)" by (intro chunk_line_in_range) (simp add: read_line_splits)
    then show "fits limit (and_then (chunk_line line) (\<lambda>n.
        if n = 0 then and_then (read_trailers lib fs1 e) (\<lambda>_. Ok bytes)
        else and_then (read_exact_body n bytes limit fs1 e) (\<lambda>(bytes, fs).
          and_then (read_exact_body 2 [] 2 fs e) (\<lambda>(ending, fs).
            if ending \<noteq> CRLF then break_off ''invalid_chunk_framing''
            else collect_chunked lib bytes limit fs e))))"
    proof (rule fits_then)
      fix n assume n: "chunk_line line = Ok n"
      note IH = "1.IH" [OF line refl n]
      show "fits limit (if n = 0 then and_then (read_trailers lib fs1 e) (\<lambda>_. Ok bytes)
          else and_then (read_exact_body n bytes limit fs1 e) (\<lambda>(bytes, fs).
            and_then (read_exact_body 2 [] 2 fs e) (\<lambda>(ending, fs).
              if ending \<noteq> CRLF then break_off ''invalid_chunk_framing''
              else collect_chunked lib bytes limit fs e)))"
        using 1(2)
        by (auto intro!: fits_then read_trailers_in_range read_exact_body_in_range IH
            elim: read_exact_body_splits)
    qed
  qed
qed

lemma read_body_fits: "fits limit (read_body lib chunked declared limit fs e)"
  unfolding read_body_def
  by (auto intro!: collect_chunked_fits fits_then read_exact_body_in_range require_completed_close_in_range
      elim: read_exact_body_splits split: option.splits simp: collect_to_eof_spec eof_spec_def)

lemma checks_in_range:
  "in_range (status_from_line line)" "in_range (validate_json_headers hs)"
  "in_range (validate_geometry_headers lib hs)" "in_range (content_length lib hs limit)"
  "in_range (transfer_chunked hs declared)"
  by (auto simp: status_from_line_def validate_json_headers_def validate_geometry_headers_def
      content_length_def transfer_chunked_def Let_def split: option.splits list.splits)

lemma receive_in_bounds:
  "in_range (receive lib policy limit fs e) \<and>
    (\<forall>d. receive lib policy limit fs e = Ok d \<longrightarrow> length (downloaded d) \<le> limit)"
proof
  have body: "in_range (read_body lib chunked declared limit fs e)" for chunked declared fs
    using read_body_fits by (simp add: fits_def)
  have "in_range (read_answer lib policy limit head fs e)" for head fs
    unfolding read_answer_def by (auto intro!: in_range_then body parse_header_block_in_range checks_in_range)
  then show "in_range (receive lib policy limit fs e)"
    unfolding receive_def
    by (auto intro!: in_range_then read_line_in_range checks_in_range head_lines_in_range dest: read_line_splits)
  show "\<forall>d. receive lib policy limit fs e = Ok d \<longrightarrow> length (downloaded d) \<le> limit"
    using read_body_fits [of limit lib]
    by (auto simp: receive_def read_answer_def result_simps fits_def refuse_def split: if_splits)
qed

end
