(* ===== verification/Http_Framing.thy ===== *)
theory Http_Framing
  imports Http_Receive
begin

text \<open>
  What the framing of a response guarantees: the answer depends on the bytes and not on how the
  connection cuts them, it stays within the limit, and a body sent in chunks is read back.
\<close>

section \<open>Writing chunks\<close>

definition hex_char :: "nat \<Rightarrow> char" where
  "hex_char d = (if d < 10 then digit_char d else char_of (87 + d))"

fun hex_str :: "nat \<Rightarrow> string" where
  "hex_str n = (if n < 16 then [hex_char n] else hex_str (n div 16) @ [hex_char (n mod 16)])"

declare hex_str.simps [simp del]

definition chunk_text :: "string \<times> string \<Rightarrow> string" where
  "chunk_text c = hex_str (length (snd c)) @ fst c @ CRLF @ snd c @ CRLF"

text \<open>A body sent in chunks: each with its extensions, then the last chunk and no trailer.\<close>

definition chunked_text :: "(string \<times> string) list \<Rightarrow> string" where
  "chunked_text cs = concat (map chunk_text cs) @ ''0'' @ CRLF @ CRLF"

lemma hex_char_digit: "d < 16 \<Longrightarrow> is_hexdigit (hex_char d) \<and> hex_digit_value (hex_char d) = d"
  using is_digit_char [of d] code_digit_char [of d]
  by (auto simp: hex_char_def is_hexdigit_def hex_digit_value_def is_digit_def)

lemma hex_str_digits: "list_all is_hexdigit (hex_str n) \<and> hex_str n \<noteq> []"
proof (induction n rule: hex_str.induct)
  case (1 n)
  then show ?case by (auto simp: hex_str.simps [of n] hex_char_digit)
qed

lemma hex_str_length: "n < 16 ^ Suc k \<Longrightarrow> length (hex_str n) \<le> Suc k"
proof (induction k arbitrary: n)
  case 0
  then show ?case by (simp add: hex_str.simps)
next
  case (Suc k)
  then have "n div 16 < 16 ^ Suc k" by (simp add: less_mult_imp_div_less)
  from Suc.IH [OF this] show ?case by (subst hex_str.simps) simp
qed

lemma chunk_size_hex: "n < U64_LIMIT \<Longrightarrow> chunk_size (hex_str n) = Ok n"
proof (induction n rule: hex_str.induct)
  case (1 n)
  show ?case
  proof (cases "n < 16")
    case True
    with 1 show ?thesis by (subst hex_str.simps) (simp add: chunk_size_def hex_char_digit)
  next
    case False
    with 1 have "chunk_size (hex_str (n div 16)) = Ok (n div 16)" by simp
    moreover have "n div 16 * 16 + n mod 16 = n" by simp
    ultimately show ?thesis
      using False 1(2) by (subst hex_str.simps) (simp add: chunk_size_def try_fold_append and_then_def hex_char_digit)
  qed
qed

lemma trim_ows_splits: "\<exists>u. s = u @ trim_ows s \<and> LF \<notin> set u"
proof (induction s)
  case (Cons c s)
  then obtain u where "s = u @ trim_ows s" "LF \<notin> set u" by blast
  then show ?case
    by (cases "c = CHR '' '' \<or> c = CHR 0x09") (auto simp: LF_def intro: exI [of _ "c # u"])
qed simp

lemma consume_splits: "consume x s = Some t \<Longrightarrow> s = x # t"
  by (auto simp: consume_def split: list.splits if_splits)

lemma take_token_splits: "take_token s = Some (w, t) \<Longrightarrow> s = w @ t \<and> LF \<notin> set w"
proof -
  assume a: "take_token s = Some (w, t)"
  have "\<not> is_token_byte LF" by (simp add: is_token_byte_def LF_def byte_class_defs)
  with a set_takeWhileD [of LF is_token_byte s] show ?thesis
    by (auto simp: take_token_def split: list.splits dest: sym)
qed

lemma skip_quoted_splits: "skip_quoted s = Some t \<Longrightarrow> LF \<in> set s \<longleftrightarrow> LF \<in> set t"
  by (induction s rule: skip_quoted.induct)
    (auto simp: LF_def QUOTE_def BACKSLASH_def is_quotable_def split: if_splits list.splits)
lemma LF_trim_ows: "LF \<in> set s \<longleftrightarrow> LF \<in> set (trim_ows s)"
proof -
  obtain u where u: "s = u @ trim_ows s" "LF \<notin> set u" using trim_ows_splits by blast
  have "LF \<in> set (u @ trim_ows s) \<longleftrightarrow> LF \<in> set (trim_ows s)" using u(2) by simp
  with u(1) show ?thesis by simp
qed

lemma LF_consume: "consume x s = Some t \<Longrightarrow> x \<noteq> LF \<Longrightarrow> LF \<in> set s \<longleftrightarrow> LF \<in> set t"
  by (auto dest: consume_splits)

lemma LF_take_token: "take_token s = Some (w, t) \<Longrightarrow> LF \<in> set s \<longleftrightarrow> LF \<in> set t"
  by (auto dest!: take_token_splits)

lemma LF_marks: "CHR '';'' \<noteq> LF" "CHR ''='' \<noteq> LF" "QUOTE \<noteq> LF"
  by (simp_all add: LF_def QUOTE_def)

lemmas LF_kept = LF_take_token LF_consume [OF _ LF_marks(1)] LF_consume [OF _ LF_marks(2)]
  LF_consume [OF _ LF_marks(3)] skip_quoted_splits

lemma valid_extensions_no_LF: "valid_chunk_extensions s \<Longrightarrow> LF \<notin> set s"
proof (induction s rule: valid_chunk_extensions.induct)
  case (1 s)
  let ?s = "trim_ows s"
  show ?case
  proof (cases "?s = []")
    case True
    then show ?thesis by (simp add: LF_trim_ows [of s])
  next
    case False
    note step = valid_chunk_extensions.simps [of s] 1(4) False Let_def
    obtain s1 where s1: "consume CHR '';'' ?s = Some s1" using step by (auto split: option.splits)
    obtain w s2 where s2: "take_token (trim_ows s1) = Some (w, s2)"
      using step s1 by (auto split: option.splits)
    note start = LF_trim_ows [of s] LF_kept(2) [OF s1] LF_trim_ows [of s1] LF_kept(1) [OF s2] LF_trim_ows [of s2]
    show ?thesis
    proof (cases "consume CHR ''='' (trim_ows s2)")
      case None
      with step s1 s2 1(1) [OF refl False s1 s2 refl refl None] start show ?thesis by simp
    next
      case s3: (Some s3)
      note start = start LF_kept(3) [OF s3] LF_trim_ows [of s3]
      show ?thesis
      proof (cases "consume QUOTE (trim_ows s3)")
        case s4: None
        obtain v s5 where s5: "take_token (trim_ows s3) = Some (v, s5)"
          using step s1 s2 s3 s4 by (auto split: option.splits)
        with step s1 s2 s3 s4 1(2) [OF refl False s1 s2 refl refl s3 refl s4 s5 refl] start LF_kept(1) [OF s5]
        show ?thesis by simp
      next
        case s4: (Some s4)
        obtain s5 where s5: "skip_quoted s4 = Some s5"
          using step s1 s2 s3 s4 by (auto split: option.splits)
        with step s1 s2 s3 s4 1(3) [OF refl False s1 s2 refl refl s3 refl s4 s5] start LF_kept(4) [OF s4]
          LF_kept(5) [OF s5]
        show ?thesis by simp
      qed
    qed
  qed
qed

section \<open>Reading chunks back\<close>

lemma read_line_written:
  assumes "concat fs = p @ CRLF @ rest" "LF \<notin> set p" "length p + 2 \<le> limit"
  obtains fs' where "read_line limit fs e = Ok (p @ CRLF, fs')" "concat fs' = rest"
proof -
  have "takeWhile (\<lambda>c. c \<noteq> LF) (p @ CRLF @ rest) = p @ [CHR 0x0D]"
    using assms(2) by (subst takeWhile_append2) (auto simp: CRLF_def LF_def)
  moreover have "ends_with CRLF (p @ CRLF)" by (simp add: ends_with_def)
  ultimately have "line_spec limit [] (concat fs) e = Ok (p @ CRLF, rest)"
    using assms by (simp add: line_spec_def Let_def) (auto simp: CRLF_def LF_def)
  then have "flat (read_line limit fs e) = Ok (p @ CRLF, rest)" by (simp add: read_line_flat)
  with that show ?thesis by (cases "read_line limit fs e") (auto simp: flat_def and_then_def)
qed

lemma read_exact_body_written:
  assumes "concat fs = p @ rest" "length bytes + length p \<le> limit"
  obtains fs' where "read_exact_body (length p) bytes limit fs e = Ok (bytes @ p, fs')" "concat fs' = rest"
proof -
  have "length bytes \<le> limit" using assms(2) by simp
  with assms have "flat (read_exact_body (length p) bytes limit fs e) = Ok (bytes @ p, rest)"
    by (simp add: read_exact_body_flat exact_spec_def)
  with that show ?thesis
    by (cases "read_exact_body (length p) bytes limit fs e") (auto simp: flat_def and_then_def)
qed

text \<open>A chunk that the reader takes: not empty, its length a \<open>usize\<close>, its extensions valid and short enough.\<close>

definition sendable :: "string \<times> string \<Rightarrow> bool" where
  "sendable c \<longleftrightarrow> snd c \<noteq> [] \<and> length (snd c) < U64_LIMIT \<and> valid_chunk_extensions (fst c)
    \<and> length (fst c) + 18 \<le> MAX_HEADER_BYTES"

lemma extensions_start:
  assumes "valid_chunk_extensions s"
  shows "takeWhile is_hexdigit s = []"
proof (cases s)
  case (Cons c t)
  have "c = CHR '' '' \<or> c = CHR 0x09 \<or> c = CHR '';''"
  proof (rule ccontr)
    assume n: "\<not> ?thesis"
    with Cons have "trim_ows s = s" by simp
    with assms n Cons show False by (subst (asm) valid_chunk_extensions.simps) (simp add: consume_def)
  qed
  with Cons show ?thesis by (auto simp: is_hexdigit_def is_digit_def)
qed simp

lemma hex_str_short: "n < U64_LIMIT \<Longrightarrow> length (hex_str n) \<le> 16"
  using hex_str_length [of n 15] by (simp add: U64_LIMIT_def)

lemma hex_str_no_LF: "LF \<notin> set (hex_str n)"
  using hex_str_digits [of n] by (auto simp: list_all_iff LF_def is_hexdigit_def is_digit_def dest!: bspec)

lemma chunk_line_written:
  assumes "valid_chunk_extensions ext" "n < U64_LIMIT"
  shows "chunk_line (hex_str n @ ext @ CRLF) = Ok n"
proof -
  have "takeWhile is_hexdigit (hex_str n @ ext) = hex_str n"
    using hex_str_digits [of n] extensions_start [OF assms(1)]
    by (subst takeWhile_append2) (auto simp: list_all_iff)
  with hex_str_digits [of n] assms show ?thesis
    by (simp add: chunk_line_def CRLF_def and_then_def chunk_size_hex)
qed

lemma collect_chunk_written:
  assumes c: "sendable c" "length bytes + length (snd c) \<le> limit" and fs: "concat fs = chunk_text c @ rest"
  obtains fs' where "collect_chunked lib bytes limit fs e = collect_chunked lib (bytes @ snd c) limit fs' e"
    "concat fs' = rest"
proof -
  let ?p = "hex_str (length (snd c)) @ fst c"
  have two: "length CRLF = 2" by (simp add: CRLF_def)
  from c(1) have valid: "valid_chunk_extensions (fst c)" "length (snd c) < U64_LIMIT"
    by (auto simp: sendable_def)
  have "LF \<notin> set ?p" using valid_extensions_no_LF [OF valid(1)] hex_str_no_LF by simp
  moreover have "length ?p + 2 \<le> MAX_HEADER_BYTES"
    using hex_str_short [OF valid(2)] c(1) by (simp add: sendable_def)
  moreover have "concat fs = ?p @ CRLF @ (snd c @ CRLF @ rest)" using fs by (simp add: chunk_text_def)
  ultimately obtain fs1 where 1: "read_line MAX_HEADER_BYTES fs e = Ok (?p @ CRLF, fs1)"
      "concat fs1 = snd c @ CRLF @ rest"
    by (rule_tac read_line_written [of fs ?p "snd c @ CRLF @ rest" MAX_HEADER_BYTES e])
  obtain fs2 where 2: "read_exact_body (length (snd c)) bytes limit fs1 e = Ok (bytes @ snd c, fs2)"
      "concat fs2 = CRLF @ rest"
    using 1(2) c(2) by (rule read_exact_body_written)
  obtain fs3 where 3: "read_exact_body 2 [] 2 fs2 e = Ok (CRLF, fs3)" "concat fs3 = rest"
    using read_exact_body_written [OF 2(2), of "[]" 2 e, unfolded two] by auto
  have "collect_chunked lib bytes limit fs e = collect_chunked lib (bytes @ snd c) limit fs3 e"
    using 1 2 3 c(1) chunk_line_written [OF valid]
    by (subst collect_chunked.simps) (simp add: and_then_def sendable_def)
  with 3(2) that show ?thesis by blast
qed

lemma collect_chunks_written:
  assumes "\<forall>c \<in> set cs. sendable c" "length bytes + length (concat (map snd cs)) \<le> limit"
    "concat fs = concat (map chunk_text cs) @ rest"
  obtains fs' where "collect_chunked lib bytes limit fs e = collect_chunked lib (bytes @ concat (map snd cs)) limit fs' e"
    "concat fs' = rest"
  using assms
proof (induction cs arbitrary: bytes fs thesis)
  case (Cons c cs)
  obtain fs1 where 1: "collect_chunked lib bytes limit fs e = collect_chunked lib (bytes @ snd c) limit fs1 e"
      "concat fs1 = concat (map chunk_text cs) @ rest"
    by (rule collect_chunk_written [of c bytes limit fs "concat (map chunk_text cs) @ rest" lib e])
      (use Cons.prems in simp_all)
  show ?case
    by (rule Cons.IH [of "bytes @ snd c" fs1]) (use Cons.prems 1 in simp_all)
qed simp

lemma read_trailers_none:
  assumes "concat fs = CRLF" "e \<in> {Closed, UnexpectedEof}"
    "parse_response lib (TRAILER_HEAD @ CRLF) = Some (length (TRAILER_HEAD @ CRLF), [])"
  shows "read_trailers lib fs e = Ok ()"
proof -
  have room: "minus_usize MAX_HEADER_BYTES (length TRAILER_HEAD) = Ok (MAX_HEADER_BYTES - 17)" "2 \<le> MAX_HEADER_BYTES - 17"
    by (simp_all add: TRAILER_HEAD_def CRLF_def MAX_HEADER_BYTES_def)
  obtain fs' where fs': "read_line (MAX_HEADER_BYTES - 17) fs e = Ok (CRLF, fs')" "concat fs' = []"
    using read_line_written [of fs "[]" "[]" "MAX_HEADER_BYTES - 17" e] assms(1) room(2) by auto
  have "head_lines TRAILER_HEAD fs e = Ok (TRAILER_HEAD @ CRLF, fs')"
    unfolding head_lines.simps [of TRAILER_HEAD] room fs' by (simp add: and_then_def fs')
  moreover have "parse_header_block lib (TRAILER_HEAD @ CRLF) = Ok []"
    using assms(3) by (simp add: parse_header_block_def)
  moreover have "require_completed_close fs' e = Ok ()"
    unfolding require_completed_close_def fs'(2) using assms(2) by (auto simp: at_end_def)
  ultimately show ?thesis
    by (simp add: read_trailers_def and_then_def map_err_def get_all_def forbidden_trailers_def)
qed

lemma collect_last_chunk:
  assumes "concat fs = ''0'' @ CRLF @ CRLF" "e \<in> {Closed, UnexpectedEof}"
    "parse_response lib (TRAILER_HEAD @ CRLF) = Some (length (TRAILER_HEAD @ CRLF), [])"
  shows "collect_chunked lib bytes limit fs e = Ok bytes"
proof -
  obtain fs' where "read_line MAX_HEADER_BYTES fs e = Ok (''0'' @ CRLF, fs')" "concat fs' = CRLF"
    using read_line_written [of fs "''0''" CRLF MAX_HEADER_BYTES e] assms(1)
    by (auto simp: LF_def MAX_HEADER_BYTES_def)
  moreover have "chunk_line (''0'' @ CRLF) = Ok 0"
    using chunk_line_written [of "[]" 0]
    by (simp add: hex_str.simps hex_char_def digit_char_eval U64_LIMIT_def valid_chunk_extensions.simps)
  ultimately show ?thesis
    using read_trailers_none [OF _ assms(2, 3)] by (subst collect_chunked.simps) (simp add: and_then_def)
qed

section \<open>Properties\<close>

text \<open>
  C20: the answer of \<open>receive\<close> depends on the bytes the service sent and on how the connection ended,
  not on how the bytes were cut into fragments: two connections with the same bytes and the same end
  give the same status, failure or body.
\<close>

theorem fragments_do_not_matter:
  assumes "concat fs = concat gs"
  shows "receive lib policy limit fs e = receive lib policy limit gs e"
  by (rule receive_unfragmented [OF assms])

definition example_library :: header_library where
  "example_library = \<lparr>parse_response = (\<lambda>head. Some (length head, [])), header_name = Some,
     header_value = (\<lambda>_. True), header_text = is_ascii\<rparr>"

theorem fragments_do_not_matter_witness:
  "receive example_library GeometryBytes 9 [''HTTP/1.1 4'', ''04'' @ CRLF, CRLF] Stalled =
    receive example_library GeometryBytes 9 [''HTTP/1.1 404'' @ CRLF @ CRLF] Stalled"
  by (rule fragments_do_not_matter) simp

text \<open>
  C21: no response makes an index of the reader go below zero (the subtractions of \<open>usize\<close> in the
  readers of lines, heads, chunks and bodies), and a body that is returned has at most \<open>limit\<close> bytes,
  whatever its framing.
\<close>

theorem receive_within_limit:
  "case receive lib policy limit fs e of
     Ok d \<Rightarrow> length (downloaded d) \<le> limit
   | Err failure \<Rightarrow> failure \<noteq> Underflow"
  using receive_in_bounds [of lib policy limit fs e]
  by (auto simp: in_range_def split: sum.splits)

text \<open>
  C22: a body written as chunks, with any valid chunk extensions, over any fragments, is read back
  whole, when it is within the limit and the connection ends after the last chunk (also without a
  clean TLS close); the parser of heads is only asked about the empty trailer.
\<close>

theorem chunked_body_roundtrip:
  assumes "\<forall>c \<in> set cs. sendable c" "length (concat (map snd cs)) \<le> limit"
    and "concat fs = chunked_text cs" "e \<in> {Closed, UnexpectedEof}"
    and "parse_response lib (TRAILER_HEAD @ CRLF) = Some (length (TRAILER_HEAD @ CRLF), [])"
  shows "collect_chunked lib [] limit fs e = Ok (concat (map snd cs))"
proof -
  obtain fs' where "collect_chunked lib [] limit fs e = collect_chunked lib (concat (map snd cs)) limit fs' e"
      "concat fs' = ''0'' @ CRLF @ CRLF"
    using collect_chunks_written [of cs "[]" limit fs "''0'' @ CRLF @ CRLF" lib e] assms
    by (auto simp: chunked_text_def)
  with collect_last_chunk [OF _ assms(4, 5)] show ?thesis by simp
qed

theorem chunked_body_roundtrip_witness:
  "collect_chunked example_library [] 20
      [chunk_text ('';a=b'', ''onshape'') @ ''7'', CRLF @ ''-export'' @ CRLF @ ''0'' @ CRLF, CRLF] UnexpectedEof =
    Ok ''onshape-export''"
proof -
  have "valid_chunk_extensions '';a=b''" "valid_chunk_extensions ''''" by code_simp+
  then have sendable: "\<forall>c \<in> set [('';a=b'', ''onshape''), ('''', ''-export'')]. sendable c"
    by (simp add: sendable_def U64_LIMIT_def MAX_HEADER_BYTES_def)
  have "hex_str 7 = ''7''" by (simp add: hex_str.simps hex_char_def digit_char_eval)
  then have bytes: "concat [chunk_text ('';a=b'', ''onshape'') @ ''7'', CRLF @ ''-export'' @ CRLF @ ''0'' @ CRLF, CRLF] =
      chunked_text [('';a=b'', ''onshape''), ('''', ''-export'')]"
    by (simp add: chunked_text_def chunk_text_def eval_nat_numeral)
  show ?thesis
    using chunked_body_roundtrip [OF sendable, of 20, OF _ bytes, of UnexpectedEof example_library]
    by (simp add: example_library_def)
qed

end
