(* ===== verification/Float64.thy ===== *)
theory Float64
  imports Annotation_Placements
begin

text \<open>
  The arithmetic of \<open>f64\<close> on bit patterns: IEEE 754 binary64 with rounding to the nearest, ties to
  even. A finite number is a sign, an integral significand and an exponent; the exact result of an
  operation is rounded once. What the sign of a zero can influence is only the sign of a zero.
\<close>

section \<open>Numbers\<close>

definition F64_INFINITY :: f64 where "F64_INFINITY = 0x7FF0000000000000"
definition F64_NAN :: f64 where "F64_NAN = 0x7FF8000000000000"

definition f64_negative :: "f64 \<Rightarrow> bool" where
  "f64_negative x \<longleftrightarrow> bit x 63"

definition f64_abs :: "f64 \<Rightarrow> f64" where
  "f64_abs x = x mod 2 ^ 63"

definition f64_neg :: "f64 \<Rightarrow> f64" where
  "f64_neg x = x + F64_NEG_ZERO"

definition f64_is_infinite :: "f64 \<Rightarrow> bool" where
  "f64_is_infinite x \<longleftrightarrow> f64_abs x = F64_INFINITY"

text \<open>The significand and the exponent of the last place of a finite number.\<close>

definition f64_significand :: "f64 \<Rightarrow> int" where
  "f64_significand x = uint (x mod 2 ^ 52) + (if f64_exponent x = 0 then 0 else 2 ^ 52)"

definition f64_quantum :: "f64 \<Rightarrow> int" where
  "f64_quantum x = (if f64_exponent x = 0 then -1074 else uint (f64_exponent x) - 1075)"

definition f64_signed :: "bool \<Rightarrow> f64 \<Rightarrow> f64" where
  "f64_signed negative x = (if negative then f64_neg x else x)"

section \<open>Rounding\<close>

function bit_length :: "int \<Rightarrow> int" where
  "bit_length n = (if n \<le> 0 then 0 else 1 + bit_length (n div 2))"
  by auto
termination by (relation "measure nat") auto

declare bit_length.simps [simp del]

definition half_even :: "int \<Rightarrow> nat \<Rightarrow> int" where
  "half_even n d = (let q = n div 2 ^ d; r = n mod 2 ^ d in
     if 2 * r > 2 ^ d \<or> 2 * r = 2 ^ d \<and> odd q then q + 1 else q)"

text \<open>
  The number next to \<open>n * 2 ^ e\<close>, for positive \<open>n\<close>. With 53 bits left above the last place \<open>t\<close>, the
  pattern is the significand above \<open>t + 1074\<close> in the exponent field: a carry out of the significand
  moves into the exponent, and out of the largest exponent into the infinity.
\<close>

definition f64_round :: "int \<Rightarrow> int \<Rightarrow> f64" where
  "f64_round n e =
    (if n = 0 then 0
     else let t = max (-1074) (e + bit_length n - 53);
              q = (if t \<le> e then n * 2 ^ nat (e - t) else half_even n (nat (t - e)));
              bits = (t + 1074) * 2 ^ 52 + q
          in if bits \<ge> 2047 * 2 ^ 52 then F64_INFINITY else of_int bits)"

section \<open>Operations\<close>

definition f64_mul :: "f64 \<Rightarrow> f64 \<Rightarrow> f64" where
  "f64_mul x y =
    (let negative = (f64_negative x \<noteq> f64_negative y) in
     if f64_is_nan x \<or> f64_is_nan y then F64_NAN
     else if f64_is_infinite x \<or> f64_is_infinite y
     then (if f64_is_zero x \<or> f64_is_zero y then F64_NAN else f64_signed negative F64_INFINITY)
     else f64_signed negative
       (f64_round (f64_significand x * f64_significand y) (f64_quantum x + f64_quantum y)))"

definition f64_aligned :: "int \<Rightarrow> f64 \<Rightarrow> int" where
  "f64_aligned e x = (if f64_negative x then - 1 else 1) * (f64_significand x * 2 ^ nat (f64_quantum x - e))"

definition f64_add :: "f64 \<Rightarrow> f64 \<Rightarrow> f64" where
  "f64_add x y =
    (if f64_is_nan x \<or> f64_is_nan y then F64_NAN
     else if f64_is_infinite x then (if f64_is_infinite y \<and> x \<noteq> y then F64_NAN else x)
     else if f64_is_infinite y then y
     else if f64_is_zero x \<and> f64_is_zero y then f64_signed (f64_negative x \<and> f64_negative y) 0
     else if f64_is_zero x then y
     else if f64_is_zero y then x
     else let e = min (f64_quantum x) (f64_quantum y); s = f64_aligned e x + f64_aligned e y in
       if s = 0 then 0 else f64_signed (s < 0) (f64_round \<bar>s\<bar> e))"

definition f64_sub :: "f64 \<Rightarrow> f64 \<Rightarrow> f64" where
  "f64_sub x y = f64_add x (f64_neg y)"

text \<open>\<open>Iterator::sum\<close> starts from the negative zero, the neutral element of the addition.\<close>

definition f64_sum :: "f64 list \<Rightarrow> f64" where
  "f64_sum xs = foldl f64_add F64_NEG_ZERO xs"

text \<open>The order of the patterns without their signs is the order of the numbers.\<close>

definition f64_order :: "f64 \<Rightarrow> int" where
  "f64_order x = (if f64_negative x then - 1 else 1) * uint (f64_abs x)"

definition f64_less :: "f64 \<Rightarrow> f64 \<Rightarrow> bool" where
  "f64_less x y \<longleftrightarrow> \<not> f64_is_nan x \<and> \<not> f64_is_nan y \<and> f64_order x < f64_order y"

definition f64_less_eq :: "f64 \<Rightarrow> f64 \<Rightarrow> bool" where
  "f64_less_eq x y \<longleftrightarrow> \<not> f64_is_nan x \<and> \<not> f64_is_nan y \<and> f64_order x \<le> f64_order y"

section \<open>The sign of a zero\<close>

text \<open>Two patterns that \<open>==\<close> would not tell apart, or that are the same.\<close>

definition same_number :: "f64 \<Rightarrow> f64 \<Rightarrow> bool" where
  "same_number x y \<longleftrightarrow> x = y \<or> f64_is_zero x \<and> f64_is_zero y"

lemma same_refl [simp]: "same_number x x"
  by (simp add: same_number_def)

lemma zero_facts:
  assumes "f64_is_zero x"
  shows "f64_significand x = 0" "\<not> f64_is_nan x" "\<not> f64_is_infinite x" "f64_abs x = 0" "f64_is_zero (f64_neg x)"
    "f64_quantum x = - 1074"
  using assms
  by (auto simp: f64_is_zero_def f64_significand_def f64_is_nan_def f64_is_infinite_def f64_abs_def f64_neg_def
      f64_quantum_def F64_INFINITY_def neg_zero_exponent) (simp_all add: F64_NEG_ZERO_def)

lemma zero_signed: "f64_is_zero (f64_signed s 0)"
  by (simp add: f64_signed_def f64_neg_def f64_is_zero_def)

lemma mul_comm: "f64_mul x y = f64_mul y x"
  by (cases "f64_negative x"; cases "f64_negative y"; auto simp: f64_mul_def Let_def ac_simps)

lemma mul_zero: "f64_is_zero x \<Longrightarrow> f64_mul x y = F64_NAN \<and> (f64_is_nan y \<or> f64_is_infinite y)
    \<or> f64_is_zero (f64_mul x y) \<and> \<not> (f64_is_nan y \<or> f64_is_infinite y)"
  by (simp add: f64_mul_def Let_def zero_facts f64_round_def zero_signed)

lemma same_mul_left: "same_number x x' \<Longrightarrow> same_number (f64_mul x y) (f64_mul x' y)"
  using mul_zero [of x y] mul_zero [of x' y] by (auto simp: same_number_def)

lemma same_mul: "\<lbrakk>same_number x x'; same_number y y'\<rbrakk> \<Longrightarrow> same_number (f64_mul x y) (f64_mul x' y')"
  using same_mul_left [of x x' y] same_mul_left [of y y' x']
  by (auto simp: same_number_def mul_comm [of x'])

lemma add_zero:
  assumes "f64_is_zero x" "f64_is_zero x'"
  shows "same_number (f64_add x y) (f64_add x' y)" "same_number (f64_add y x) (f64_add y x')"
  using assms by (auto simp: f64_add_def zero_facts same_number_def zero_signed)

lemma same_trans: "\<lbrakk>same_number x y; same_number y z\<rbrakk> \<Longrightarrow> same_number x z"
  by (auto simp: same_number_def)

lemma same_add: "\<lbrakk>same_number x x'; same_number y y'\<rbrakk> \<Longrightarrow> same_number (f64_add x y) (f64_add x' y')"
  by (rule same_trans [of _ "f64_add x' y"]) (auto simp: same_number_def [of x] same_number_def [of y] add_zero)

lemma same_neg: "same_number x y \<Longrightarrow> same_number (f64_neg x) (f64_neg y)"
  by (auto simp: same_number_def zero_facts)

lemma same_sub: "\<lbrakk>same_number x x'; same_number y y'\<rbrakk> \<Longrightarrow> same_number (f64_sub x y) (f64_sub x' y')"
  by (simp add: f64_sub_def same_add same_neg)

lemma same_sum: "list_all2 same_number xs ys \<Longrightarrow> same_number (f64_sum xs) (f64_sum ys)"
proof -
  have "list_all2 same_number xs ys \<Longrightarrow> same_number a b \<Longrightarrow> same_number (foldl f64_add a xs) (foldl f64_add b ys)" for a b
    by (induction xs arbitrary: ys a b) (auto simp: list_all2_Cons1 same_add)
  then show "list_all2 same_number xs ys \<Longrightarrow> same_number (f64_sum xs) (f64_sum ys)"
    by (simp add: f64_sum_def)
qed

lemma same_abs: "same_number x y \<Longrightarrow> f64_abs x = f64_abs y"
  by (auto simp: same_number_def zero_facts)

lemma same_finite: "same_number x y \<Longrightarrow> f64_is_finite x \<longleftrightarrow> f64_is_finite y"
  by (auto simp: same_number_def f64_is_zero_def f64_is_finite_def neg_zero_exponent)

lemma same_normalized: "same_number x (if f64_eq x 0 then 0 else x)"
  by (simp add: same_number_def eq_zero) (simp add: f64_is_zero_def)

section \<open>Rounding is exact where it can be\<close>

lemma bit_length_bounds: "n > 0 \<Longrightarrow> 0 < bit_length n \<and> 2 ^ nat (bit_length n - 1) \<le> n \<and> n < 2 ^ nat (bit_length n)"
proof (induction n rule: bit_length.induct)
  case (1 n)
  show ?case
  proof (cases "n = 1")
    case True
    then show ?thesis by (simp add: bit_length.simps [of 1] bit_length.simps [of 0])
  next
    case False
    with 1 have ih: "0 < bit_length (n div 2)" "2 ^ nat (bit_length (n div 2) - 1) \<le> n div 2"
        "n div 2 < 2 ^ nat (bit_length (n div 2))"
      by auto
    have p: "(2::int) ^ nat (1 + m - 1) = 2 * 2 ^ nat (m - 1)" "(2::int) ^ nat (1 + m) = 2 * 2 ^ nat m" if "0 < m" for m
    proof -
      have "nat (1 + m) = Suc (nat m)" "nat (1 + m - 1) = Suc (nat (m - 1))" using that by auto
      then show "(2::int) ^ nat (1 + m - 1) = 2 * 2 ^ nat (m - 1)" "(2::int) ^ nat (1 + m) = 2 * 2 ^ nat m"
        by simp_all
    qed
    have e: "bit_length n = 1 + bit_length (n div 2)"
      using 1(2) by (simp add: bit_length.simps [of n])
    have "2 * 2 ^ nat (bit_length (n div 2) - 1) \<le> n" "n < 2 * 2 ^ nat (bit_length (n div 2))"
      using ih(2,3) by linarith+
    then show ?thesis
      unfolding e p [OF ih(1)] using ih(1) by simp
  qed
qed

lemma lower_half: "\<lbrakk>0 \<le> u; u < 2 * n; u div n mod 2 = 0\<rbrakk> \<Longrightarrow> u < n" for u n :: int
  using int_div_pos_eq [of u n 1 "u - n"] by (cases "u < n") auto

lemma div_below:
  fixes u n m :: int
  assumes "0 < n" "u < m * n"
  shows "u div n < m"
proof (rule ccontr)
  assume "\<not> u div n < m"
  then have "m * n \<le> u div n * n" using assms(1) by simp
  also have "\<dots> \<le> u" using assms(1) div_mult_mod_eq [of u n] pos_mod_sign [of n u] by linarith
  finally show False using assms(2) by simp
qed

lemma nonnegative_fields:
  assumes "\<not> f64_negative x"
  shows "uint x = uint (f64_exponent x) * 2 ^ 52 + uint (x mod 2 ^ 52)" "uint (f64_exponent x) < 2048"
    "0 \<le> uint (x mod 2 ^ 52)" "uint (x mod 2 ^ 52) < 2 ^ 52"
proof -
  have "\<not> bit (uint x) 63"
    using assms by (simp add: f64_negative_def bit_uint_iff)
  then have "uint x div 2 ^ 63 mod 2 = 0"
    by (simp add: bit_iff_odd)
  moreover have "uint x < 2 ^ 64" using uint_bounded [of x] by simp
  ultimately have "uint x < 2 ^ 63"
    using lower_half [of "uint x" "2 ^ 63"] by simp
  moreover from this have "uint x div 2 ^ 52 mod 2048 = uint x div 2 ^ 52"
    using div_below [of "2 ^ 52" "uint x" 2048] by (simp add: pos_imp_zdiv_nonneg_iff)
  moreover have "uint (f64_exponent x) = uint x div 2 ^ 52 mod 2048"
    by (simp add: f64_exponent_def uint_mod uint_div drop_bit_eq_div)
  moreover have "uint (x mod 2 ^ 52) = uint x mod 2 ^ 52"
    by (simp add: uint_mod)
  ultimately show "uint x = uint (f64_exponent x) * 2 ^ 52 + uint (x mod 2 ^ 52)" "uint (f64_exponent x) < 2048"
      "0 \<le> uint (x mod 2 ^ 52)" "uint (x mod 2 ^ 52) < 2 ^ 52"
    by simp_all
qed

lemma bit_length_53: "2 ^ 52 \<le> n \<Longrightarrow> n < 2 ^ 53 \<Longrightarrow> bit_length n = 53"
  and bit_length_52: "0 < n \<Longrightarrow> n < 2 ^ 52 \<Longrightarrow> bit_length n \<le> 52"
proof -
  have up: "bit_length n \<le> int k" if "0 < n" "n < 2 ^ k" for k
  proof -
    have "(2::int) ^ nat (bit_length n - 1) < 2 ^ k"
      using bit_length_bounds [of n] that by linarith
    then show ?thesis by simp
  qed
  show "bit_length n = 53" if "2 ^ 52 \<le> n" "n < 2 ^ 53"
  proof -
    have "(2::int) ^ 52 < 2 ^ nat (bit_length n)"
      using bit_length_bounds [of n] that by simp
    then have "52 < nat (bit_length n)" by (rule power_less_imp_less_exp [rotated]) simp
    with up [of 53] that show ?thesis by simp
  qed
  show "0 < n \<Longrightarrow> n < 2 ^ 52 \<Longrightarrow> bit_length n \<le> 52" using up [of 52] by simp
qed

text \<open>A number that is there already is the result of rounding its own value.\<close>

lemma round_exact:
  assumes "f64_is_finite x" "\<not> f64_negative x"
  shows "f64_round (f64_significand x) (f64_quantum x) = x"
proof -
  note fields = nonnegative_fields [OF assms(2)]
  have e: "uint (f64_exponent x) \<noteq> 2047"
    using assms(1) by (simp add: f64_is_finite_def word_uint_eq_iff)
  have x: "of_int (uint x) = x" by simp
  show ?thesis
  proof (cases "f64_exponent x = 0")
    case True
    then have s: "f64_significand x = uint x" "f64_quantum x = - 1074" and "uint x < 2 ^ 52"
      using fields(1,4) by (simp_all add: f64_significand_def f64_quantum_def)
    show ?thesis
    proof (cases "x = 0")
      case True
      then show ?thesis unfolding s by (simp add: f64_round_def)
    next
      case False
      then have "0 < uint x" by (simp add: less_le word_uint_eq_iff)
      with bit_length_52 [of "uint x"] \<open>uint x < 2 ^ 52\<close> show ?thesis
        unfolding s by (simp add: f64_round_def Let_def max_def)
    qed
  next
    case False
    then have "0 < uint (f64_exponent x)" by (simp add: word_uint_eq_iff less_le)
    moreover have "bit_length (uint (x mod 2 ^ 52) + 2 ^ 52) = 53"
      using fields(3,4) by (intro bit_length_53) simp_all
    moreover have "uint (f64_exponent x) * 2 ^ 52 + uint (x mod 2 ^ 52) < 2047 * 2 ^ 52"
      using fields(2,4) e by simp
    moreover have "0 < 2 ^ 52 + uint (x mod 2 ^ 52)" by (rule add_pos_nonneg [OF _ fields(3)]) simp
    ultimately show ?thesis
      using False fields x
      by (simp add: f64_round_def f64_significand_def f64_quantum_def Let_def max_def algebra_simps)
  qed
qed

end
