(* ===== verification/Onshape_Requests.thy ===== *)
theory Onshape_Requests
  imports Http_Receive Cache_Identity
begin

text \<open>
  The requests of the strict Onshape client (\<open>src/src/onshape_api.rs\<close>): the trusted origin, the exact
  path of a resource, signed headers, deadlines, and the operations of the API with what their
  answers must say. The URL parser, the form encoding of a query, HMAC and base64 are parameters; a
  connection is what it delivers.
\<close>

section \<open>Origins and source values\<close>

definition PRODUCTION_ORIGIN :: string where "PRODUCTION_ORIGIN = ''https://cad.onshape.com''"
definition SMALL_RESPONSE_LIMIT :: nat where "SMALL_RESPONSE_LIMIT = 65536"
definition PARTS_RESPONSE_LIMIT :: nat where "PARTS_RESPONSE_LIMIT = 33554432"
definition ASSEMBLY_RESPONSE_LIMIT :: nat where "ASSEMBLY_RESPONSE_LIMIT = 16777216"
definition GEOMETRY_DOWNLOAD_LIMIT :: nat where "GEOMETRY_DOWNLOAD_LIMIT = 134217728"

definition bounded_visible_ascii :: "string \<Rightarrow> bool" where
  "bounded_visible_ascii s \<longleftrightarrow> s \<noteq> [] \<and> length s \<le> 4096 \<and> list_all is_graphic s"

definition is_sha256 :: "string \<Rightarrow> bool" where
  "is_sha256 s \<longleftrightarrow> length s = 64 \<and> list_all (\<lambda>c. is_digit c \<or> 97 \<le> code c \<and> code c \<le> 102) s"

definition required_ascii :: "jmap \<Rightarrow> string \<Rightarrow> (api_failure, string) result" where
  "required_ascii obj name =
    ok_or (filter_opt bounded_visible_ascii (Option.bind (member name obj) as_str))
      (operational ''invalid_required_source_value'')"

text \<open>What \<open>Url::parse\<close> finds.\<close>

record url_parts =
  scheme :: string
  url_host :: "string option"
  username :: string
  password :: "string option"
  url_query :: "string option"
  fragment :: "string option"
  url_port :: "nat option"
  known_port :: "nat option"
  url_origin :: string

definition has_userinfo :: "string \<Rightarrow> bool" where
  "has_userinfo base =
    (case dropWhile (\<lambda>c. c \<noteq> CHR '':'') base of
       [] \<Rightarrow> False
     | _ # remainder \<Rightarrow>
         CHR ''@'' \<in> set (takeWhile (\<lambda>c. c \<notin> set ''/?#'' \<and> c \<noteq> BACKSLASH)
           (dropWhile (\<lambda>c. c = CHR ''/'' \<or> c = BACKSLASH) remainder)))"

definition canonical_origin :: "(string \<Rightarrow> url_parts option) \<Rightarrow> string \<Rightarrow> (api_failure, string) result" where
  "canonical_origin parse base =
    (case parse base of
       None \<Rightarrow> Err (operational ''invalid_api_origin'')
     | Some u \<Rightarrow>
         if scheme u \<noteq> ''https'' \<or> url_host u = None \<or> username u \<noteq> [] \<or> password u \<noteq> None
           \<or> url_query u \<noteq> None \<or> fragment u \<noteq> None \<or> has_userinfo base
         then Err (operational ''invalid_api_origin'')
         else Ok (url_origin u))"

section \<open>Paths\<close>

definition hex_upper :: "nat \<Rightarrow> char" where
  "hex_upper d = ''0123456789ABCDEF'' ! d"

definition plain_byte :: "string \<Rightarrow> char \<Rightarrow> bool" where
  "plain_byte segment c \<longleftrightarrow>
    is_alphanumeric c \<or> c \<in> set ''-_~'' \<or> c = CHR ''.'' \<and> segment \<noteq> ''.'' \<and> segment \<noteq> ''..''"

definition encoded_byte :: "string \<Rightarrow> char \<Rightarrow> string" where
  "encoded_byte segment c =
    (if plain_byte segment c then [c]
     else [CHR ''%'', hex_upper (code c div 16), hex_upper (code c mod 16)])"

definition encoded_path :: "string list \<Rightarrow> string" where
  "encoded_path segments = concat (map (\<lambda>s. CHR ''/'' # concat (map (encoded_byte s) s)) segments)"

section \<open>Signatures\<close>

record signing =
  hmac :: "string \<Rightarrow> string \<Rightarrow> string option"
  base64 :: "string \<Rightarrow> string"
  header_str :: "string \<Rightarrow> bool"
  form_encode :: "(string \<times> string) list \<Rightarrow> string"

definition insert_header :: "string \<Rightarrow> string \<Rightarrow> headers \<Rightarrow> headers" where
  "insert_header name v hs = filter (\<lambda>h. fst h \<noteq> name) hs @ [(name, v)]"

definition NL :: string where "NL = [LF]"

definition signature_input :: "string \<Rightarrow> string \<Rightarrow> string \<Rightarrow> string \<Rightarrow> string \<Rightarrow> string" where
  "signature_input http_method nonce date path query =
    to_lower (http_method @ NL @ nonce @ NL @ date @ NL @ ''application/json'' @ NL @ path @ NL @ query @ NL)"

definition signed_headers ::
  "signing \<Rightarrow> string \<Rightarrow> string \<Rightarrow> string \<Rightarrow> string \<Rightarrow> string \<Rightarrow> string \<Rightarrow> string \<Rightarrow> headers option" where
  "signed_headers sg date nonce http_method path query access secret =
    (case hmac sg secret (signature_input http_method nonce date path query) of
       None \<Rightarrow> None
     | Some mac \<Rightarrow>
         let authorization = ''On '' @ access @ '':HmacSHA256:'' @ base64 sg mac
         in if header_str sg date \<and> header_str sg nonce \<and> header_str sg authorization
            then Some [(''date'', date), (''on-nonce'', nonce), (''content-type'', ''application/json''),
              (''authorization'', authorization)]
            else None)"

section \<open>The client\<close>

record onshape_api =
  has_tls :: bool
  api_origin :: string
  transport_origin :: url_parts
  access_key :: "string option"
  secret_key :: "string option"

text \<open>\<open>certificates\<close> is the outcome of building the TLS configuration.\<close>

definition onshape_api_new ::
  "(string \<Rightarrow> url_parts option) \<Rightarrow> (api_failure, unit) result \<Rightarrow> string \<Rightarrow> string option \<Rightarrow> string option
    \<Rightarrow> (api_failure, onshape_api) result" where
  "onshape_api_new parse certificates base access secret =
    and_then (canonical_origin parse base) (\<lambda>origin.
      if origin \<noteq> PRODUCTION_ORIGIN then Err (operational ''untrusted_api_origin'')
      else
        and_then (ok_or (parse origin) (operational ''invalid_api_origin'')) (\<lambda>u.
        and_then certificates (\<lambda>_.
          Ok \<lparr>has_tls = True, api_origin = origin, transport_origin = u,
              access_key = access, secret_key = secret\<rparr>)))"

text \<open>What becomes of a connection: it fails before or while sending, or delivers an answer.\<close>

datatype connection =
    ConnectFailed | TlsFailed | BadServerName | ConnectDeadline | WriteFailed
  | Answer "string list" stream_end

record api_request =
  ar_operation :: string
  ar_method :: string
  ar_segments :: "string list"
  ar_query :: "(string \<times> string) list"
  ar_body :: "json option"
  ar_limit :: nat
  ar_policy :: response_policy

record message =
  ms_method :: string
  ms_path :: string
  ms_query :: string
  ms_headers :: headers
  ms_body :: "string option"

definition request_text :: "message \<Rightarrow> string" where
  "request_text m =
    ms_method m @ '' '' @ ms_path m @ (if ms_query m = [] then [] else CHR ''?'' # ms_query m) @ '' HTTP/1.1'' @ CRLF
    @ concat (map (\<lambda>(name, v). name @ '': '' @ v @ CRLF) (ms_headers m)) @ CRLF
    @ (case ms_body m of None \<Rightarrow> [] | Some b \<Rightarrow> b)"

definition failed :: "api_failure \<Rightarrow> (read_error, 'a) result" where
  "failed f = Err (Refused f)"

text \<open>
  \<open>exchange\<close>, on the connection that sending a text opens. The last two headers and the host are
  added to those of the request.
\<close>

definition host_header :: "url_parts \<Rightarrow> string" where
  "host_header u = (case url_host u of Some host \<Rightarrow> host | None \<Rightarrow> []) @ (case url_port u of Some port \<Rightarrow> '':'' @ nat_str port | None \<Rightarrow> [])"

definition exchange_headers :: "url_parts \<Rightarrow> message \<Rightarrow> headers" where
  "exchange_headers u m =
    (let hs = insert_header ''connection'' ''close'' (insert_header ''host'' (host_header u) (ms_headers m))
     in case ms_body m of
          None \<Rightarrow> hs
        | Some b \<Rightarrow> insert_header ''content-length'' (nat_str (length b)) hs)"
definition connected :: "onshape_api \<Rightarrow> connection \<Rightarrow> (read_error, unit) result" where
  "connected api c =
    (if c = ConnectDeadline then break_off ''connect_deadline''
     else if c = ConnectFailed then break_off ''connection_failed''
     else if scheme (transport_origin api) \<noteq> ''https'' then refuse ''non_https_transport''
     else if \<not> has_tls api then refuse ''missing_tls_configuration''
     else if c = BadServerName then refuse ''invalid_tls_server_name''
     else if c = TlsFailed then break_off ''tls_connection_failed''
     else Ok ())"

definition exchange ::
  "header_library \<Rightarrow> signing \<Rightarrow> (string \<Rightarrow> connection) \<Rightarrow> onshape_api \<Rightarrow> message \<Rightarrow> nat \<Rightarrow> response_policy
    \<Rightarrow> (read_error, geometry_download) result" where
  "exchange lib sg net api m limit policy =
    (let u = transport_origin api in
     if url_host u = None then refuse ''invalid_api_host''
     else if known_port u = None then refuse ''invalid_api_port''
     else
       let c = net (request_text (m\<lparr>ms_headers := exchange_headers u m\<rparr>)) in
       and_then (connected api c) (\<lambda>_.
         if \<not> header_str sg (host_header u) then refuse ''invalid_host_header''
         else (case c of
             Answer fs e \<Rightarrow> receive lib policy limit fs e
           | _ \<Rightarrow> break_off ''request_write_failed'')))"

section \<open>Deadlines\<close>

text \<open>
  What the clock shows during a request, in seconds: when it starts, when it is ready to send and when
  the answer is there; \<open>timed_out\<close> when the answer was not there at the deadline.
\<close>

record timing =
  started :: nat
  ready :: nat
  timed_out :: bool
  ended :: nat

definition TOTAL_DEADLINE :: nat where "TOTAL_DEADLINE = 60"

definition deadline_of :: "timing \<Rightarrow> nat option \<Rightarrow> nat" where
  "deadline_of t given = (case given of
      None \<Rightarrow> started t + TOTAL_DEADLINE
    | Some d \<Rightarrow> min d (started t + TOTAL_DEADLINE))"

definition timeout_failure :: "timing \<Rightarrow> nat option \<Rightarrow> api_failure" where
  "timeout_failure t given =
    api_failure_new
      (case given of
         Some d \<Rightarrow> if d \<le> started t + TOTAL_DEADLINE then OperationalTimeoutFailure else TransportFailure
       | None \<Rightarrow> TransportFailure)
      ''operation_deadline''"

definition in_operation :: "string \<Rightarrow> (read_error, 'a) result \<Rightarrow> (read_error, 'a) result" where
  "in_operation op r =
    map_err (\<lambda>err. case err of Refused f \<Rightarrow> Refused (with_operation op f) | Underflow \<Rightarrow> Underflow) r"

definition request_headers :: "response_policy \<Rightarrow> headers \<Rightarrow> headers" where
  "request_headers policy hs =
    insert_header ''content-type'' ''application/json''
      (insert_header ''accept-encoding'' ''identity''
        (insert_header ''accept''
          (if policy = GeometryBytes then ''application/octet-stream'' else ''application/json'') hs))"

text \<open>
  The message for a request: its path is the encoded one, its query the form encoding; it is signed
  with the date and the nonce, and its body is canonical JSON.
\<close>

definition prepare ::
  "canonicalizer \<Rightarrow> signing \<Rightarrow> string \<Rightarrow> string \<Rightarrow> onshape_api \<Rightarrow> api_request \<Rightarrow> (read_error, message) result" where
  "prepare jcs sg date nonce api r =
    (case (access_key api, secret_key api) of
       (Some access, Some secret) \<Rightarrow>
         let path = encoded_path (ar_segments r);
             query = form_encode sg (ar_query r)
         in (case signed_headers sg date nonce (ar_method r) path query access secret of
               None \<Rightarrow> refuse ''request_signing_failed''
             | Some hs \<Rightarrow>
                 let m = \<lparr>ms_method = ar_method r, ms_path = path, ms_query = query,
                     ms_headers = request_headers (ar_policy r) hs, ms_body = None\<rparr>
                 in (case ar_body r of
                       None \<Rightarrow> Ok m
                     | Some b \<Rightarrow> and_then (map_err (\<lambda>_. Refused (operational ''invalid_request_body'')) (jcs b))
                         (\<lambda>bytes. Ok (m\<lparr>ms_body := Some bytes\<rparr>))))
     | _ \<Rightarrow> failed (api_failure_new AuthenticationFailure ''missing_credentials''))"

definition request_with_policy ::
  "header_library \<Rightarrow> canonicalizer \<Rightarrow> signing \<Rightarrow> (string \<Rightarrow> connection) \<Rightarrow> onshape_api \<Rightarrow> string \<Rightarrow> string
    \<Rightarrow> timing \<Rightarrow> nat option \<Rightarrow> api_request \<Rightarrow> (read_error, geometry_download) result" where
  "request_with_policy lib jcs sg net api date nonce t given r =
    in_operation (ar_operation r)
      (let deadline = deadline_of t given in
       if deadline \<le> started t then failed (api_failure_new OperationalTimeoutFailure ''acquisition_deadline'')
       else
         and_then (prepare jcs sg date nonce api r) (\<lambda>m.
           if deadline \<le> ready t \<or> timed_out t then failed (timeout_failure t given)
           else
             and_then (exchange lib sg net api m (ar_limit r) (ar_policy r)) (\<lambda>d.
               if deadline \<le> ended t then failed (timeout_failure t given) else Ok d)))"

section \<open>Operations\<close>

definition version_request :: "string \<Rightarrow> string \<Rightarrow> api_request" where
  "version_request document version =
    \<lparr>ar_operation = ''getVersion'', ar_method = ''GET'',
     ar_segments = [''api'', ''v16'', ''documents'', ''d'', document, ''versions'', version],
     ar_query = [(''parents'', ''false'')], ar_body = None, ar_limit = SMALL_RESPONSE_LIMIT,
     ar_policy = SelectionJson\<rparr>"

definition parts_request :: "string \<Rightarrow> string \<Rightarrow> string \<Rightarrow> string \<Rightarrow> api_request" where
  "parts_request document microversion element configuration =
    \<lparr>ar_operation = ''getPartsWMVE'', ar_method = ''GET'',
     ar_segments = [''api'', ''v16'', ''parts'', ''d'', document, ''m'', microversion, ''e'', element],
     ar_query = [(''configuration'', configuration), (''withThumbnails'', ''false''),
       (''includePropertyDefaults'', ''false''), (''includeFlatParts'', ''false'')],
     ar_body = None, ar_limit = PARTS_RESPONSE_LIMIT, ar_policy = SelectionJson\<rparr>"

definition assembly_request :: "string \<Rightarrow> string \<Rightarrow> string \<Rightarrow> string \<Rightarrow> api_request" where
  "assembly_request document microversion element configuration =
    \<lparr>ar_operation = ''getAssemblyDefinition'', ar_method = ''GET'',
     ar_segments = [''api'', ''v16'', ''assemblies'', ''d'', document, ''m'', microversion, ''e'', element],
     ar_query = [(''configuration'', configuration), (''includeMateFeatures'', ''false''),
       (''includeNonSolids'', ''false''), (''includeMateConnectors'', ''false''), (''excludeSuppressed'', ''false'')],
     ar_body = None, ar_limit = ASSEMBLY_RESPONSE_LIMIT, ar_policy = SelectionJson\<rparr>"

definition encode_request :: "string \<Rightarrow> string \<Rightarrow> string \<Rightarrow> json \<Rightarrow> api_request" where
  "encode_request document version element body =
    \<lparr>ar_operation = ''encodeConfigurationMap'', ar_method = ''POST'',
     ar_segments = [''api'', ''v16'', ''elements'', ''d'', document, ''e'', element, ''configurationencodings''],
     ar_query = [(''versionId'', version)], ar_body = Some body, ar_limit = SMALL_RESPONSE_LIMIT,
     ar_policy = SelectionJson\<rparr>"

definition geometry_create_segments :: "string \<Rightarrow> string \<Rightarrow> string \<Rightarrow> string list" where
  "geometry_create_segments document version element =
    [''api'', ''v16'', ''partstudios'', ''d'', document, ''v'', version, ''e'', element, ''translations'']"

definition geometry_create_path :: "string \<Rightarrow> string \<Rightarrow> string \<Rightarrow> string" where
  "geometry_create_path document version element = encoded_path (geometry_create_segments document version element)"

definition geometry_create_body :: "string \<Rightarrow> string \<Rightarrow> json" where
  "geometry_create_body configuration part = members
     [(''formatName'', Some (JStr ''3MF'')), (''storeInDocument'', Some (JBool False)),
      (''notifyUser'', Some (JBool False)), (''triggerAutoDownload'', Some (JBool False)),
      (''configuration'', Some (JStr configuration)), (''partIds'', Some (JStr part)),
      (''grouping'', Some (JBool True)), (''resolution'', Some (JStr ''fine''))]"

definition create_translation_request :: "string \<Rightarrow> string \<Rightarrow> string \<Rightarrow> string \<Rightarrow> string \<Rightarrow> api_request" where
  "create_translation_request document version element configuration part =
    \<lparr>ar_operation = ''createPartStudioTranslation'', ar_method = ''POST'',
     ar_segments = geometry_create_segments document version element, ar_query = [],
     ar_body = Some (geometry_create_body configuration part), ar_limit = SMALL_RESPONSE_LIMIT,
     ar_policy = GeometryJson True\<rparr>"

definition poll_translation_request :: "string \<Rightarrow> api_request" where
  "poll_translation_request ident =
    \<lparr>ar_operation = ''getTranslation'', ar_method = ''GET'',
     ar_segments = [''api'', ''v16'', ''translations'', ident], ar_query = [], ar_body = None,
     ar_limit = SMALL_RESPONSE_LIMIT, ar_policy = GeometryJson False\<rparr>"

definition download_request :: "string \<Rightarrow> string \<Rightarrow> api_request" where
  "download_request document ident =
    \<lparr>ar_operation = ''downloadExternalData'', ar_method = ''GET'',
     ar_segments = [''api'', ''v16'', ''documents'', ''d'', document, ''externaldata'', ident],
     ar_query = [], ar_body = None, ar_limit = GEOMETRY_DOWNLOAD_LIMIT, ar_policy = GeometryBytes\<rparr>"

text \<open>The answer to every operation but a download is a document in JSON, read within its limit.\<close>

type_synonym tokenizer = "string \<Rightarrow> event \<times> (string, unit) result"

definition json_answer ::
  "(f64 \<Rightarrow> string) \<Rightarrow> tokenizer \<Rightarrow> api_request \<Rightarrow> (read_error, geometry_download) result \<Rightarrow> (read_error, json) result"
where
  "json_answer show_f64 tokens r answer =
    and_then answer (\<lambda>d.
      in_operation (ar_operation r) (map_err Refused (parse_bounded_json show_f64 tokens (downloaded d) (ar_limit r))))"

definition version_of_answer :: "string \<Rightarrow> string \<Rightarrow> json \<Rightarrow> (api_failure, string) result" where
  "version_of_answer document version answer =
    map_err (with_operation ''getVersion'')
      (and_then (ok_or (as_object answer) (operational ''invalid_version'')) (\<lambda>obj.
       and_then (required_ascii obj ''documentId'') (\<lambda>document'.
       and_then (required_ascii obj ''id'') (\<lambda>version'.
       and_then (required_ascii obj ''microversion'') (\<lambda>microversion.
         if document' \<noteq> document \<or> version' \<noteq> version then Err (operational ''version_resource_mismatch'')
         else Ok microversion)))))"

definition resolve_version ::
  "(f64 \<Rightarrow> string) \<Rightarrow> tokenizer \<Rightarrow> (api_request \<Rightarrow> (read_error, geometry_download) result) \<Rightarrow> string \<Rightarrow> string
    \<Rightarrow> (read_error, string) result" where
  "resolve_version show_f64 tokens send document version =
    (let r = version_request document version in
     and_then (json_answer show_f64 tokens r (send r))
       (\<lambda>answer. map_err Refused (version_of_answer document version answer)))"

section \<open>Paths name the resource\<close>

text \<open>How a server reads a path: the segments between slashes, percent-decoded.\<close>

definition upper_hex_value :: "char \<Rightarrow> nat option" where
  "upper_hex_value c =
    (if is_digit c then Some (code c - 48)
     else if 65 \<le> code c \<and> code c \<le> 70 then Some (code c - 55) else None)"

fun decoded_segment :: "string \<Rightarrow> string option" where
  "decoded_segment [] = Some []"
| "decoded_segment (c # s) =
    (if c \<noteq> CHR ''%'' then map_option (Cons c) (decoded_segment s)
     else (case s of
       a # b # s' \<Rightarrow>
         (case (upper_hex_value a, upper_hex_value b, decoded_segment s') of
            (Some x, Some y, Some r) \<Rightarrow> Some (char_of (16 * x + y) # r)
          | _ \<Rightarrow> None)
     | _ \<Rightarrow> None))"

fun all_some :: "'a option list \<Rightarrow> 'a list option" where
  "all_some [] = Some []"
| "all_some (None # xs) = None"
| "all_some (Some x # xs) = map_option (Cons x) (all_some xs)"

definition path_segments :: "string \<Rightarrow> string list option" where
  "path_segments path = all_some (map decoded_segment (tl (split_on CHR ''/'' path)))"

text \<open>The bytes of an encoded segment: none of them ends a segment, a path, a line or a request target.\<close>

definition path_byte :: "char \<Rightarrow> bool" where
  "path_byte c \<longleftrightarrow> is_alphanumeric c \<or> c \<in> set ''-_~.%''"

definition encoded_segment :: "string \<Rightarrow> string" where
  "encoded_segment s = concat (map (encoded_byte s) s)"

lemma hex_upper_value: "d < 16 \<Longrightarrow> upper_hex_value (hex_upper d) = Some d"
proof -
  have "\<forall>d \<in> set [0..<16]. upper_hex_value (hex_upper d) = Some d" by code_simp
  then show "d < 16 \<Longrightarrow> ?thesis" by simp
qed

lemma hex_upper_byte: "d < 16 \<Longrightarrow> path_byte (hex_upper d)"
proof -
  have "\<forall>d \<in> set [0..<16]. path_byte (hex_upper d)" by code_simp
  then show "d < 16 \<Longrightarrow> ?thesis" by simp
qed

lemma hex_code: "16 * (code (c :: char) div 16) + code c mod 16 = (code c :: nat)" "code (c :: char) div 16 < (16 :: nat)"
proof -
  have "code c < (256 :: nat)" by simp
  then show "code (c :: char) div 16 < (16 :: nat)" by (simp add: less_mult_imp_div_less)
qed simp

lemma plain_not_percent: "plain_byte s c \<Longrightarrow> c \<noteq> CHR ''%''"
  by (auto simp: plain_byte_def byte_class_defs)

lemma decoded_encoded: "decoded_segment (concat (map (encoded_byte s) t)) = Some t"
  by (induction t) (auto simp: encoded_byte_def plain_not_percent hex_upper_value hex_code)

lemma encoded_segment_bytes: "list_all path_byte (encoded_segment s)"
  by (auto simp: encoded_segment_def list_all_iff encoded_byte_def hex_upper_byte hex_code)
    (auto simp: path_byte_def plain_byte_def byte_class_defs split: if_splits)

lemma dot_bytes: "plain_byte ''.'' CHR ''.'' = False" "plain_byte ''..'' CHR ''.'' = False"
  by (simp_all add: plain_byte_def byte_class_defs)

lemma encoded_segment_no_dots: "encoded_segment s \<noteq> ''.'' \<and> encoded_segment s \<noteq> ''..''"
proof -
  have decode: "decoded_segment (encoded_segment s) = Some s" for s
    by (simp add: encoded_segment_def decoded_encoded)
  have "decoded_segment ''.'' = Some ''.''" "decoded_segment ''..'' = Some ''..''" by simp_all
  moreover have "encoded_segment ''.'' \<noteq> ''.''" "encoded_segment ''..'' \<noteq> ''..''"
    by (simp_all add: encoded_segment_def encoded_byte_def dot_bytes)
  ultimately show ?thesis using decode [of s] by auto
qed

lemma encoded_path_segments: "encoded_path segs = concat (map (\<lambda>s. CHR ''/'' # encoded_segment s) segs)"
  by (simp add: encoded_path_def encoded_segment_def)

lemma no_slash: "CHR ''/'' \<notin> set (encoded_segment s)"
  using encoded_segment_bytes [of s] by (auto simp: list_all_iff path_byte_def byte_class_defs dest!: bspec)

lemma split_encoded: "split_on CHR ''/'' (encoded_segment s @ encoded_path segs) = map encoded_segment (s # segs)"
proof (induction segs arbitrary: s)
  case Nil
  then show ?case using no_slash [of s] by (simp add: encoded_path_def split_on_no_sep)
next
  case (Cons t segs)
  have "encoded_path (t # segs) = CHR ''/'' # (encoded_segment t @ encoded_path segs)"
    by (simp add: encoded_path_segments)
  with Cons [of t] no_slash [of s] show ?case by (simp add: split_on_append)
qed

lemma split_encoded_path: "split_on CHR ''/'' (encoded_path segs) = [] # map encoded_segment segs"
  using split_encoded [of "[]" segs] by (simp add: encoded_segment_def)

text \<open>
  C23: the path of a request names exactly the resource asked for, whatever bytes the identifiers
  hold: split at slashes and percent-decoded it gives back the segments, no segment of it is one of
  the dots that a URL normalization would remove, and no byte of it ends a segment, the path, the
  request target or the line it stands in.
\<close>

theorem request_path_names_resource:
  "path_segments (encoded_path segs) = Some segs
    \<and> list_all (\<lambda>s. s \<noteq> ''.'' \<and> s \<noteq> ''..'' \<and> list_all path_byte s) (split_on CHR ''/'' (encoded_path segs))"
proof
  have "all_some (map (decoded_segment \<circ> encoded_segment) segs) = Some segs"
    by (induction segs) (simp_all add: encoded_segment_def decoded_encoded)
  then show "path_segments (encoded_path segs) = Some segs"
    by (simp add: path_segments_def split_encoded_path)
  show "list_all (\<lambda>s. s \<noteq> ''.'' \<and> s \<noteq> ''..'' \<and> list_all path_byte s) (split_on CHR ''/'' (encoded_path segs))"
    using encoded_segment_no_dots encoded_segment_bytes
    by (simp add: split_encoded_path) (simp add: list_all_iff)
qed

end
