(* ===== verification/Configuration_Encoding.thy ===== *)
theory Configuration_Encoding
  imports Onshape_Requests Sql_Table
begin

text \<open>
  The encoding of a typed configuration by Onshape (\<open>src/src/configuration_encoding.rs\<close>) and the two
  tables that keep its evidence (\<open>src/src/db.rs\<close>): what a record must prove before its encoded id is
  used, the coordinator that encodes only when no record is there, the read-only lookup and the
  validation of a handoff.

  Serde's decoders, the reader of big integers, the canonical serializer and SHA-256 are parameters,
  and so are the two remote operations. Other processes may write to the tables while the coordinator
  waits for Onshape: \<open>meanwhile\<close> is what they do.
\<close>

section \<open>Handoff and context\<close>

definition CONTEXT_DOMAIN :: string where
  "CONTEXT_DOMAIN = ''onshape-export-configuration-encoding-context-v1''"

definition EVIDENCE_LIMIT :: nat where "EVIDENCE_LIMIT = 65536"

definition API_BASELINE_SHA256 :: string where
  "API_BASELINE_SHA256 = ''eadcea471568f8737f51fffe794dae51b72c35a700d4a7ac11c98fd345ef2eed''"

record encoding_handoff =
  eh_source_hash :: string
  eh_config_hash :: string
  eh_encoding_context_hash :: string
  eh_encoded_id :: string

definition validate_shape :: "encoding_handoff \<Rightarrow> (api_failure, unit) result" where
  "validate_shape h =
    ensure (is_sha256 (eh_source_hash h) \<and> is_sha256 (eh_config_hash h) \<and> is_sha256 (eh_encoding_context_hash h)
        \<and> bounded_visible_ascii (eh_encoded_id h))
      (api_failure_new InvalidSelection ''invalid_encoding_handoff'')"

record encoding_resolution =
  er_handoff :: encoding_handoff
  er_identity :: encoded_configuration

record encoding_context =
  ex_context_schema_version :: "32 word"
  ex_api_origin :: string
  ex_api_major_version :: "32 word"
  ex_open_api_sha256 :: string
  ex_operation_id :: string
  ex_method :: string
  ex_path_template :: string
  ex_document_id :: string
  ex_version_id :: string
  ex_resolved_microversion_id :: string
  ex_element_id :: string
  ex_element_kind :: string
  ex_link_document_id :: "string option"
  ex_query_version_id :: string
  ex_config_canonicalization_version :: "32 word"
  ex_parameter_schema_version :: "32 word"

definition encoding_context_json :: "encoding_context \<Rightarrow> json" where
  "encoding_context_json c = members
     [(''contextSchemaVersion'', Some (u32_json (ex_context_schema_version c))),
      (''apiOrigin'', Some (JStr (ex_api_origin c))),
      (''apiMajorVersion'', Some (u32_json (ex_api_major_version c))),
      (''openApiSha256'', Some (JStr (ex_open_api_sha256 c))),
      (''operationId'', Some (JStr (ex_operation_id c))),
      (''method'', Some (JStr (ex_method c))),
      (''pathTemplate'', Some (JStr (ex_path_template c))),
      (''documentId'', Some (JStr (ex_document_id c))),
      (''versionId'', Some (JStr (ex_version_id c))),
      (''resolvedMicroversionId'', Some (JStr (ex_resolved_microversion_id c))),
      (''elementId'', Some (JStr (ex_element_id c))),
      (''elementKind'', Some (JStr (ex_element_kind c))),
      (''linkDocumentId'', Some (nullable JStr (ex_link_document_id c))),
      (''query'', Some (members [(''versionId'', Some (JStr (ex_query_version_id c)))])),
      (''configCanonicalizationVersion'', Some (u32_json (ex_config_canonicalization_version c))),
      (''parameterSchemaVersion'', Some (u32_json (ex_parameter_schema_version c)))]"

definition encoding_failure :: "string \<Rightarrow> api_failure" where
  "encoding_failure name =
    with_operation ''encodingValidation'' (api_failure_new OperationalApiContractFailure name)"

text \<open>What the module uses of other crates.\<close>

record encoding_library =
  el_parse_url :: "string \<Rightarrow> url_parts option"
  el_jcs :: canonicalizer
  el_sha :: digest
  el_show_f64 :: "f64 \<Rightarrow> string"
  el_tokens :: tokenizer
  el_context :: "json \<Rightarrow> encoding_context option"
  el_typed :: "json \<Rightarrow> (string, canonical_value) btree option"
  el_big_int :: "string \<Rightarrow> int option"

definition read_evidence :: "encoding_library \<Rightarrow> string \<Rightarrow> (api_failure, json) result" where
  "read_evidence lib bytes = parse_bounded_json (el_show_f64 lib) (el_tokens lib) bytes EVIDENCE_LIMIT"

definition validate_encoding_source :: "resolved_source \<Rightarrow> (api_failure, unit) result" where
  "validate_encoding_source s =
    ensure (rs_link_document_id s = None
        \<and> list_all bounded_visible_ascii
            [rs_document_id s, rs_version_id s, rs_microversion_id s, rs_element_id s])
      (encoding_failure ''invalid_encoding_source'')"

definition encoding_context_of :: "encoding_library \<Rightarrow> string \<Rightarrow> resolved_source \<Rightarrow> (api_failure, encoding_context) result"
where
  "encoding_context_of lib origin s =
    and_then (validate_encoding_source s) (\<lambda>_.
    and_then (canonical_origin (el_parse_url lib) origin) (\<lambda>canonical.
      if canonical \<noteq> origin then Err (encoding_failure ''noncanonical_encoding_origin'')
      else Ok \<lparr>ex_context_schema_version = 1, ex_api_origin = origin, ex_api_major_version = 16,
        ex_open_api_sha256 = API_BASELINE_SHA256, ex_operation_id = ''encodeConfigurationMap'',
        ex_method = ''POST'', ex_path_template = ''/api/v16/elements/d/{did}/e/{eid}/configurationencodings'',
        ex_document_id = rs_document_id s, ex_version_id = rs_version_id s,
        ex_resolved_microversion_id = rs_microversion_id s, ex_element_id = rs_element_id s,
        ex_element_kind = element_kind_key (rs_element_kind s), ex_link_document_id = None,
        ex_query_version_id = rs_version_id s,
        ex_config_canonicalization_version = CANONICALIZATION_VERSION,
        ex_parameter_schema_version = SCHEMA_VERSION\<rparr>))"

definition hash_context :: "encoding_library \<Rightarrow> encoding_context \<Rightarrow> (string, string) result" where
  "hash_context lib c = hash_json (el_jcs lib) (el_sha lib) CONTEXT_DOMAIN (encoding_context_json c)"

definition context_hash :: "encoding_library \<Rightarrow> string \<Rightarrow> resolved_source \<Rightarrow> (api_failure, string) result" where
  "context_hash lib origin s =
    and_then (encoding_context_of lib origin s) (\<lambda>c.
      map_err (\<lambda>_. encoding_failure ''encoding_context_canonicalization_failed'') (hash_context lib c))"

definition canonical_string :: "encoding_library \<Rightarrow> json \<Rightarrow> (api_failure, string) result" where
  "canonical_string lib v =
    (case el_jcs lib v of
       Ok bytes \<Rightarrow> if valid_utf8 bytes then Ok bytes
                   else Err (encoding_failure ''encoding_evidence_canonicalization_failed'')
     | Err _ \<Rightarrow> Err (encoding_failure ''encoding_evidence_canonicalization_failed''))"

section \<open>Typed values\<close>

definition string_map_json :: "(string, string) btree \<Rightarrow> json" where
  "string_map_json m = JObj (map (\<lambda>(k, v). (k, JStr v)) m)"

definition encoding_request_body :: "(string, canonical_value) btree \<Rightarrow> json" where
  "encoding_request_body typed = members [(''parameters'', Some (JArr (map (\<lambda>(k, v).
     members [(''parameterId'', Some (JStr k)), (''parameterValue'', Some (JStr v))])
     (encoding_request_values typed))))]"

text \<open>The two decimal strings of a rational must be those of its reduced form.\<close>

definition validate_rational :: "encoding_library \<Rightarrow> string \<Rightarrow> string \<Rightarrow> (api_failure, unit) result" where
  "validate_rational lib numerator denominator =
    and_then (ok_or (el_big_int lib numerator) (encoding_failure ''invalid_encoding_rational'')) (\<lambda>n.
    and_then (ok_or (el_big_int lib denominator) (encoding_failure ''invalid_encoding_rational'')) (\<lambda>d.
      if d \<le> 0 then Err (encoding_failure ''invalid_encoding_rational'')
      else
        let (n', d') = quotient_of (Fract n d)
        in ensure (int_str n' = numerator \<and> int_str d' = denominator)
             (encoding_failure ''noncanonical_encoding_rational'')))"

fun validate_typed_value :: "encoding_library \<Rightarrow> canonical_value \<Rightarrow> (api_failure, unit) result" where
  "validate_typed_value lib (CNumber n d) = validate_rational lib n d"
| "validate_typed_value lib (CQuantity q n d u) =
    (if (q, u) \<in> {(Length, ''m''), (Angle, ''deg''), (Angle, ''rad'')} then validate_rational lib n d
     else Err (encoding_failure ''invalid_encoding_quantity_unit''))"
| "validate_typed_value lib _ = Ok ()"

definition validate_typed_values :: "encoding_library \<Rightarrow> (string, canonical_value) btree \<Rightarrow> (api_failure, unit) result"
where
  "validate_typed_values lib typed = each (\<lambda>_ v. validate_typed_value lib v) (map snd typed)"

record expected_encoding =
  ee_source_hash :: string
  ee_config_hash :: string
  ee_context_hash :: string
  ee_context :: encoding_context
  ee_request :: json

definition expected_of ::
  "encoding_library \<Rightarrow> string \<Rightarrow> resolved_source \<Rightarrow> (string, canonical_value) btree
    \<Rightarrow> (api_failure, expected_encoding) result" where
  "expected_of lib origin s typed =
    and_then (validate_typed_values lib typed) (\<lambda>_.
    and_then (canonical_string lib (typed_values_json typed)) (\<lambda>text.
    and_then (read_evidence lib text) (\<lambda>_.
    and_then (encoding_context_of lib origin s) (\<lambda>c.
    and_then (map_err (\<lambda>_. encoding_failure ''encoding_source_hash_failed'')
      (source_hash (el_jcs lib) (el_sha lib) s)) (\<lambda>sh.
    and_then (map_err (\<lambda>_. encoding_failure ''encoding_config_hash_failed'')
      (config_hash (el_jcs lib) (el_sha lib) sh SCHEMA_VERSION typed)) (\<lambda>ch.
    and_then (map_err (\<lambda>_. encoding_failure ''encoding_context_hash_failed'') (hash_context lib c)) (\<lambda>xh.
    let request = encoding_request_body typed in
    and_then (canonical_string lib request) (\<lambda>request_text.
    and_then (read_evidence lib request_text) (\<lambda>_.
      Ok \<lparr>ee_source_hash = sh, ee_config_hash = ch, ee_context_hash = xh, ee_context = c,
          ee_request = request\<rparr>)))))))))"

section \<open>Evidence\<close>

record encoding_record =
  rec_source_hash :: string
  rec_config_hash :: string
  rec_encoding_context_hash :: string
  rec_encoding_context_json :: string
  rec_encoded_id :: string
  rec_query_param :: string
  rec_request_json :: string
  rec_response_json :: string

definition response_encoding :: "json \<Rightarrow> bool \<Rightarrow> (api_failure, encoded_configuration) result" where
  "response_encoding response require_query =
    and_then (ok_or (as_object response) (encoding_failure ''invalid_encoding_response'')) (\<lambda>obj.
    and_then (ok_or (filter_opt bounded_visible_ascii (Option.bind (member ''encodedId'' obj) as_str))
      (encoding_failure ''invalid_encoding_encoded_id'')) (\<lambda>encoded_id.
      let query_param = filter_opt (\<lambda>v. v \<noteq> [] \<and> list_all is_graphic v)
            (Option.bind (member ''queryParam'' obj) as_str)
      in if require_query \<and> query_param = None then Err (encoding_failure ''invalid_encoding_query_param'')
         else Ok \<lparr>ec_encoded_id = encoded_id,
             ec_query_param = (case query_param of Some v \<Rightarrow> v | None \<Rightarrow> [])\<rparr>))"

definition handoff_of :: "expected_encoding \<Rightarrow> string \<Rightarrow> encoding_handoff" where
  "handoff_of x encoded_id =
    \<lparr>eh_source_hash = ee_source_hash x, eh_config_hash = ee_config_hash x,
     eh_encoding_context_hash = ee_context_hash x, eh_encoded_id = encoded_id\<rparr>"

definition validate_context_evidence ::
  "encoding_library \<Rightarrow> encoding_record \<Rightarrow> expected_encoding \<Rightarrow> (api_failure, unit) result" where
  "validate_context_evidence lib r x =
    and_then (read_evidence lib (rec_encoding_context_json r)) (\<lambda>stored.
    and_then (ok_or (el_context lib stored) (encoding_failure ''invalid_encoding_context'')) (\<lambda>decoded.
      let mismatch = Err (encoding_failure ''encoding_context_mismatch'') in
      if decoded \<noteq> ee_context x \<or> stored \<noteq> encoding_context_json (ee_context x) then mismatch
      else
        and_then (map_err (\<lambda>_. encoding_failure ''encoding_context_hash_failed'') (hash_context lib decoded)) (\<lambda>h.
          if h \<noteq> rec_encoding_context_hash r \<or> rec_source_hash r \<noteq> ee_source_hash x
            \<or> rec_config_hash r \<noteq> ee_config_hash x \<or> rec_encoding_context_hash r \<noteq> ee_context_hash x
          then mismatch else Ok ())))"

definition validate_record ::
  "encoding_library \<Rightarrow> encoding_record \<Rightarrow> expected_encoding \<Rightarrow> bool \<Rightarrow> (api_failure, encoding_resolution) result"
where
  "validate_record lib r x require_query =
    and_then (validate_context_evidence lib r x) (\<lambda>_.
    and_then (read_evidence lib (rec_request_json r)) (\<lambda>request.
      if request \<noteq> ee_request x then Err (encoding_failure ''encoding_request_mismatch'')
      else
        and_then (read_evidence lib (rec_response_json r)) (\<lambda>response.
        and_then (response_encoding response require_query) (\<lambda>identity.
          if rec_encoded_id r \<noteq> ec_encoded_id identity
            \<or> require_query \<and> rec_query_param r \<noteq> ec_query_param identity
          then Err (encoding_failure ''encoding_response_mismatch'')
          else Ok \<lparr>er_handoff = handoff_of x (ec_encoded_id identity), er_identity = identity\<rparr>))))"

section \<open>Tables\<close>

record selection_row =
  cs_source_hash :: string
  cs_config_hash :: string
  cs_values_json :: string
  cs_validation_json :: string

record encoding_tables =
  tb_encodings :: "encoding_record list"
  tb_selections :: "selection_row list"

definition encoding_key :: "encoding_record \<Rightarrow> string \<times> string \<times> string" where
  "encoding_key r = (rec_source_hash r, rec_config_hash r, rec_encoding_context_hash r)"

definition selection_key :: "selection_row \<Rightarrow> string \<times> string" where
  "selection_key s = (cs_source_hash s, cs_config_hash s)"

definition configuration_encoding :: "encoding_tables \<Rightarrow> string \<Rightarrow> string \<Rightarrow> string \<Rightarrow> encoding_record option" where
  "configuration_encoding db sh ch xh = find_row encoding_key (sh, ch, xh) (tb_encodings db)"

definition configuration_selection :: "encoding_tables \<Rightarrow> string \<Rightarrow> string \<Rightarrow> selection_row option" where
  "configuration_selection db sh ch = find_row selection_key (sh, ch) (tb_selections db)"

text \<open>\<open>INSERT ... ON CONFLICT(...) DO NOTHING\<close>, and whether a row was affected.\<close>

definition insert_if_absent :: "('r \<Rightarrow> 'k) \<Rightarrow> 'r \<Rightarrow> 'r list \<Rightarrow> bool \<times> 'r list" where
  "insert_if_absent key r t = (case find_row key (key r) t of
      Some _ \<Rightarrow> (False, t)
    | None \<Rightarrow> (True, t @ [r]))"

definition insert_configuration_selection_if_absent :: "selection_row \<Rightarrow> encoding_tables \<Rightarrow> encoding_tables" where
  "insert_configuration_selection_if_absent s db =
    db\<lparr>tb_selections := snd (insert_if_absent selection_key s (tb_selections db))\<rparr>"

definition insert_configuration_encoding_if_absent ::
  "encoding_record \<Rightarrow> encoding_tables \<Rightarrow> bool \<times> encoding_tables" where
  "insert_configuration_encoding_if_absent r db =
    (let (inserted, t) = insert_if_absent encoding_key r (tb_encodings db)
     in (inserted, db\<lparr>tb_encodings := t\<rparr>))"

definition stored_typed_values ::
  "encoding_library \<Rightarrow> string \<Rightarrow> string \<Rightarrow> encoding_tables \<Rightarrow> (api_failure, (string, canonical_value) btree) result"
where
  "stored_typed_values lib sh ch db =
    and_then (ok_or (configuration_selection db sh ch) (encoding_failure ''encoding_selection_missing'')) (\<lambda>s.
    and_then (read_evidence lib (cs_values_json s)) (\<lambda>raw.
    and_then (ok_or (el_typed lib raw) (encoding_failure ''invalid_encoding_typed_values'')) (\<lambda>typed.
      if typed_values_json typed \<noteq> raw then Err (encoding_failure ''invalid_encoding_typed_values'')
      else Ok typed)))"

definition selection_validation_json :: "(string, canonical_value) btree \<Rightarrow> json" where
  "selection_validation_json typed = members
     [(''parameterSchemaVersion'', Some (u32_json SCHEMA_VERSION)),
      (''requestValues'', Some (string_map_json (encoding_request_values typed)))]"

definition retain_typed_selection ::
  "encoding_library \<Rightarrow> expected_encoding \<Rightarrow> (string, canonical_value) btree \<Rightarrow> encoding_tables
    \<Rightarrow> (api_failure, unit) result \<times> encoding_tables" where
  "retain_typed_selection lib x typed db =
    (case and_then (canonical_string lib (typed_values_json typed)) (\<lambda>values.
          and_then (canonical_string lib (selection_validation_json typed)) (\<lambda>validation.
            Ok \<lparr>cs_source_hash = ee_source_hash x, cs_config_hash = ee_config_hash x,
              cs_values_json = values, cs_validation_json = validation\<rparr>)) of
       Err e \<Rightarrow> (Err e, db)
     | Ok row \<Rightarrow>
         let db = insert_configuration_selection_if_absent row db
         in (and_then (stored_typed_values lib (ee_source_hash x) (ee_config_hash x) db) (\<lambda>stored.
               if stored \<noteq> typed then Err (encoding_failure ''encoding_selection_evidence_conflict'') else Ok ()),
             db))"

section \<open>The coordinator\<close>

record remote =
  rm_origin :: string
  rm_version :: "string \<Rightarrow> string \<Rightarrow> (api_failure, string) result"
  rm_encode :: "string \<Rightarrow> string \<Rightarrow> string \<Rightarrow> json \<Rightarrow> (api_failure, json) result"

definition resolve_source ::
  "encoding_library \<Rightarrow> remote \<Rightarrow> onshape_source \<Rightarrow> (string, canonical_value) btree
    \<Rightarrow> (api_failure, resolved_source) result" where
  "resolve_source lib remote source typed =
    and_then (validate_typed_values lib typed) (\<lambda>_.
    and_then (canonical_string lib (typed_values_json typed)) (\<lambda>text.
    and_then (read_evidence lib text) (\<lambda>_.
      if src_link_document_id source \<noteq> None
        \<or> \<not> list_all bounded_visible_ascii [src_document_id source, src_version_id source, src_element_id source]
      then Err (encoding_failure ''invalid_encoding_source'')
      else
        and_then (rm_version remote (src_document_id source) (src_version_id source)) (\<lambda>microversion.
          Ok \<lparr>rs_document_id = src_document_id source, rs_version_id = src_version_id source,
              rs_microversion_id = microversion, rs_element_id = src_element_id source,
              rs_element_kind = src_element_kind source, rs_link_document_id = None\<rparr>))))"

text \<open>Evidence that is there is validated and used; a record that does not validate is never replaced.\<close>

definition use_record ::
  "encoding_library \<Rightarrow> encoding_record \<Rightarrow> expected_encoding \<Rightarrow> (string, canonical_value) btree \<Rightarrow> bool
    \<Rightarrow> encoding_tables \<Rightarrow> (api_failure, encoding_resolution) result \<times> encoding_tables" where
  "use_record lib r x typed require_query db =
    (case validate_record lib r x require_query of
       Err e \<Rightarrow> (Err e, db)
     | Ok validated \<Rightarrow>
         (case retain_typed_selection lib x typed db of
            (Err e, db) \<Rightarrow> (Err e, db)
          | (Ok _, db) \<Rightarrow> (Ok validated, db)))"

definition fresh_record ::
  "encoding_library \<Rightarrow> expected_encoding \<Rightarrow> bool \<Rightarrow> json \<Rightarrow> (api_failure, encoding_record) result" where
  "fresh_record lib x require_query response =
    and_then (canonical_string lib response) (\<lambda>response_text.
    and_then (canonical_string lib (encoding_context_json (ee_context x))) (\<lambda>context_text.
    and_then (response_encoding response require_query) (\<lambda>identity.
    and_then (canonical_string lib (ee_request x)) (\<lambda>request_text.
      Ok \<lparr>rec_source_hash = ee_source_hash x, rec_config_hash = ee_config_hash x,
          rec_encoding_context_hash = ee_context_hash x, rec_encoding_context_json = context_text,
          rec_encoded_id = ec_encoded_id identity, rec_query_param = ec_query_param identity,
          rec_request_json = request_text, rec_response_json = response_text\<rparr>))))"

text \<open>When another process was faster, its record decides, unless it says something else.\<close>

definition adopt_winner ::
  "encoding_library \<Rightarrow> expected_encoding \<Rightarrow> bool \<Rightarrow> encoding_resolution \<Rightarrow> encoding_tables
    \<Rightarrow> (api_failure, encoding_resolution) result" where
  "adopt_winner lib x require_query validated db =
    and_then (ok_or (configuration_encoding db (ee_source_hash x) (ee_config_hash x) (ee_context_hash x))
      (encoding_failure ''encoding_cache_conflict_missing'')) (\<lambda>winner.
    and_then (validate_record lib winner x require_query) (\<lambda>w.
      if eh_encoded_id (er_handoff w) \<noteq> eh_encoded_id (er_handoff validated)
        \<or> require_query \<and> ec_query_param (er_identity w) \<noteq> ec_query_param (er_identity validated)
      then Err (encoding_failure ''encoding_concurrent_evidence_conflict'')
      else Ok w))"

definition store_record ::
  "encoding_library \<Rightarrow> encoding_record \<Rightarrow> expected_encoding \<Rightarrow> (string, canonical_value) btree \<Rightarrow> bool
    \<Rightarrow> encoding_tables \<Rightarrow> (api_failure, encoding_resolution) result \<times> encoding_tables" where
  "store_record lib r x typed require_query db =
    (case use_record lib r x typed require_query db of
       (Err e, db) \<Rightarrow> (Err e, db)
     | (Ok validated, db) \<Rightarrow>
         let (inserted, db) = insert_configuration_encoding_if_absent r db
         in (if inserted then Ok validated else adopt_winner lib x require_query validated db, db))"

definition encode_and_store ::
  "encoding_library \<Rightarrow> remote \<Rightarrow> (encoding_tables \<Rightarrow> encoding_tables) \<Rightarrow> onshape_source \<Rightarrow> expected_encoding
    \<Rightarrow> (string, canonical_value) btree \<Rightarrow> bool \<Rightarrow> encoding_tables
    \<Rightarrow> (api_failure, encoding_resolution) result \<times> encoding_tables" where
  "encode_and_store lib remote meanwhile source x typed require_query db =
    (let answer = rm_encode remote (src_document_id source) (src_version_id source) (src_element_id source) (ee_request x);
         db = meanwhile db
     in (case and_then answer (fresh_record lib x require_query) of
           Err e \<Rightarrow> (Err e, db)
         | Ok r \<Rightarrow> store_record lib r x typed require_query db))"

definition resolve_inner ::
  "encoding_library \<Rightarrow> remote \<Rightarrow> (encoding_tables \<Rightarrow> encoding_tables) \<Rightarrow> onshape_source
    \<Rightarrow> (string, canonical_value) btree \<Rightarrow> (string \<times> string) option \<Rightarrow> bool \<Rightarrow> encoding_tables
    \<Rightarrow> (api_failure, encoding_resolution) result \<times> encoding_tables" where
  "resolve_inner lib remote meanwhile source typed bound require_query db =
    (case and_then (resolve_source lib remote source typed) (\<lambda>resolved.
          and_then (expected_of lib (rm_origin remote) resolved typed) (\<lambda>x.
            if bound \<notin> {None, Some (ee_source_hash x, ee_config_hash x)}
            then Err (encoding_failure ''encoding_coordinator_binding_mismatch'') else Ok x)) of
       Err e \<Rightarrow> (Err e, db)
     | Ok x \<Rightarrow>
         (case configuration_encoding db (ee_source_hash x) (ee_config_hash x) (ee_context_hash x) of
            Some r \<Rightarrow> use_record lib r x typed require_query db
          | None \<Rightarrow> encode_and_store lib remote meanwhile source x typed require_query db))"

definition resolve_encoding ::
  "encoding_library \<Rightarrow> remote \<Rightarrow> (encoding_tables \<Rightarrow> encoding_tables) \<Rightarrow> onshape_source
    \<Rightarrow> (string, canonical_value) btree \<Rightarrow> encoding_tables
    \<Rightarrow> (api_failure, encoding_handoff) result \<times> encoding_tables" where
  "resolve_encoding lib remote meanwhile source typed db =
    apfst (\<lambda>r. and_then r (\<lambda>x. Ok (er_handoff x))) (resolve_inner lib remote meanwhile source typed None False db)"

definition resolve_for_hashes ::
  "encoding_library \<Rightarrow> remote \<Rightarrow> (encoding_tables \<Rightarrow> encoding_tables) \<Rightarrow> onshape_source
    \<Rightarrow> (string, canonical_value) btree \<Rightarrow> string \<Rightarrow> string \<Rightarrow> encoding_tables
    \<Rightarrow> (api_failure, encoding_resolution) result \<times> encoding_tables" where
  "resolve_for_hashes lib remote meanwhile source typed sh ch db =
    resolve_inner lib remote meanwhile source typed (Some (sh, ch)) True db"

definition resolve_for_export ::
  "encoding_library \<Rightarrow> remote \<Rightarrow> (encoding_tables \<Rightarrow> encoding_tables) \<Rightarrow> onshape_source \<Rightarrow> resolved_source
    \<Rightarrow> (string, canonical_value) btree \<Rightarrow> string \<Rightarrow> string \<Rightarrow> encoding_tables
    \<Rightarrow> (api_failure, encoding_resolution) result \<times> encoding_tables" where
  "resolve_for_export lib remote meanwhile source resolved typed sh ch db =
    (if rs_document_id resolved \<noteq> src_document_id source \<or> rs_version_id resolved \<noteq> src_version_id source
       \<or> rs_element_id resolved \<noteq> src_element_id source
       \<or> element_kind_key (rs_element_kind resolved) \<noteq> element_kind_key (src_element_kind source)
       \<or> rs_link_document_id resolved \<noteq> src_link_document_id source
     then (Err (encoding_failure ''encoding_export_source_mismatch''), db)
     else (case expected_of lib (rm_origin remote) resolved typed of
         Err e \<Rightarrow> (Err e, db)
       | Ok x \<Rightarrow>
           if ee_source_hash x \<noteq> sh \<or> ee_config_hash x \<noteq> ch
           then (Err (encoding_failure ''encoding_export_binding_mismatch''), db)
           else (case configuration_encoding db sh ch (ee_context_hash x) of
               Some r \<Rightarrow> use_record lib r x typed True db
             | None \<Rightarrow> resolve_for_hashes lib remote meanwhile source typed sh ch db)))"

section \<open>Readers\<close>

definition lookup_encoding ::
  "encoding_library \<Rightarrow> string \<Rightarrow> resolved_source \<Rightarrow> string \<Rightarrow> string \<Rightarrow> encoding_tables
    \<Rightarrow> (api_failure, encoding_resolution option) result" where
  "lookup_encoding lib origin s sh ch db =
    and_then (if \<not> is_sha256 sh \<or> \<not> is_sha256 ch then Err (encoding_failure ''encoding_lookup_binding_mismatch'')
       else and_then (map_err (\<lambda>_. encoding_failure ''encoding_source_hash_failed'')
          (source_hash (el_jcs lib) (el_sha lib) s)) (\<lambda>h.
          if h \<noteq> sh then Err (encoding_failure ''encoding_lookup_binding_mismatch'') else Ok ())) (\<lambda>_.
    and_then (context_hash lib origin s) (\<lambda>xh.
      case configuration_encoding db sh ch xh of
        None \<Rightarrow> Ok None
      | Some r \<Rightarrow>
          and_then (stored_typed_values lib sh ch db) (\<lambda>typed.
          and_then (expected_of lib origin s typed) (\<lambda>x.
          and_then (validate_record lib r x True) (\<lambda>v. Ok (Some v))))))"

definition validate_handoff ::
  "encoding_library \<Rightarrow> string \<Rightarrow> resolved_source \<Rightarrow> encoding_handoff \<Rightarrow> encoding_tables
    \<Rightarrow> (api_failure, unit) result" where
  "validate_handoff lib origin s h db =
    and_then (validate_shape h) (\<lambda>_.
    and_then (stored_typed_values lib (eh_source_hash h) (eh_config_hash h) db) (\<lambda>typed.
    and_then (expected_of lib origin s typed) (\<lambda>x.
      if eh_source_hash h \<noteq> ee_source_hash x \<or> eh_config_hash h \<noteq> ee_config_hash x
        \<or> eh_encoding_context_hash h \<noteq> ee_context_hash x
      then Err (encoding_failure ''encoding_handoff_binding_mismatch'')
      else
        and_then (ok_or (configuration_encoding db (ee_source_hash x) (ee_config_hash x) (ee_context_hash x))
          (encoding_failure ''encoding_handoff_cache_missing'')) (\<lambda>r.
        and_then (validate_record lib r x False) (\<lambda>v.
          if er_handoff v \<noteq> h then Err (encoding_failure ''encoding_handoff_encoded_id_mismatch'') else Ok ())))))"

end
