(* ===== verification/Selection_Types.thy ===== *)
theory Selection_Types
  imports Float64 Configuration_Encoding
begin

text \<open>
  Selections of parts (\<open>src/src/onshape_selection.rs\<close>): the request with its check before any network
  traffic, the resolved plan with its identities, and the validation of a plan that was retained.
  An array \<open>[f64; 16]\<close> is a list; its arithmetic is that of \<open>Float64\<close>.
\<close>

section \<open>Requests\<close>

definition MAX_SELECTORS :: nat where "MAX_SELECTORS = 256"
definition MAX_RELATION_IDS :: nat where "MAX_RELATION_IDS = 16384"
definition MAX_PLAN_BYTES :: nat where "MAX_PLAN_BYTES = 8388608"
definition EPSILON :: f64 where "EPSILON = 0x3D719799812DEA11"

definition IDENTITY_PLACEMENT :: "f64 list" where
  "IDENTITY_PLACEMENT = [F64_ONE, 0, 0, 0, 0, F64_ONE, 0, 0, 0, 0, F64_ONE, 0, 0, 0, 0, F64_ONE]"

datatype selection_element_kind = PartStudioElement | AssemblyElement

fun catalog_kind :: "selection_element_kind \<Rightarrow> element_kind" where
  "catalog_kind PartStudioElement = PartStudio"
| "catalog_kind AssemblyElement = Assembly"

datatype selection_selector = Part string | Occurrence "string list"

record selection_request =
  sr_document_id :: string
  sr_version_id :: string
  sr_element_id :: string
  sr_element_kind :: selection_element_kind
  sr_configuration_encoding :: encoding_handoff
  sr_selectors :: "selection_selector list"

definition invalid_selection :: api_failure where
  "invalid_selection = api_failure_new InvalidSelection ''invalid_selection''"

definition malformed :: api_failure where
  "malformed = api_failure_new OperationalApiContractFailure ''malformed_source_projection''"

definition unavailable :: "nat \<Rightarrow> api_failure" where
  "unavailable position =
    with_position position (api_failure_new UnavailableSourceState ''unavailable_source_state'')"

fun valid_selector :: "selection_element_kind \<Rightarrow> selection_selector \<Rightarrow> bool" where
  "valid_selector PartStudioElement (Part part_id) = bounded_visible_ascii part_id"
| "valid_selector AssemblyElement (Occurrence path) = (length path = 1 \<and> bounded_visible_ascii (path ! 0))"
| "valid_selector _ _ = False"

definition preflight :: "selection_request \<Rightarrow> (api_failure, unit) result" where
  "preflight r =
    (let h = sr_configuration_encoding r in
     if \<not> list_all bounded_visible_ascii [sr_document_id r, sr_version_id r, sr_element_id r, eh_encoded_id h]
       \<or> \<not> list_all is_sha256 [eh_source_hash h, eh_config_hash h, eh_encoding_context_hash h]
       \<or> \<not> (1 \<le> length (sr_selectors r) \<and> length (sr_selectors r) \<le> MAX_SELECTORS)
     then Err invalid_selection
     else
       and_then (try_fold (\<lambda>seen (position, selector).
           if \<not> valid_selector (sr_element_kind r) selector \<or> selector \<in> seen
           then Err (with_position position invalid_selection) else Ok (insert selector seen))
         {} (enumerate 0 (sr_selectors r))) (\<lambda>_. Ok ()))"

text \<open>The derived deserializer of a request is the parameter \<open>decode\<close>.\<close>

definition request_from_json ::
  "(f64 \<Rightarrow> string) \<Rightarrow> tokenizer \<Rightarrow> (json \<Rightarrow> selection_request option) \<Rightarrow> string
    \<Rightarrow> (api_failure, selection_request) result" where
  "request_from_json show_f64 tokens decode bytes =
    and_then (map_err (\<lambda>_. invalid_selection) (parse_bounded_json show_f64 tokens bytes MAX_PLAN_BYTES)) (\<lambda>v.
    and_then (ok_or (decode v) invalid_selection) (\<lambda>r.
    and_then (preflight r) (\<lambda>_. Ok r)))"

section \<open>Plans\<close>

datatype part_studio_leaf_kind = PartStudioLeaf

record configured_leaf =
  cl_document_id :: string
  cl_document_microversion :: string
  cl_element_id :: string
  cl_element_kind :: part_studio_leaf_kind
  cl_configuration_identity :: string
  cl_part_id :: string

record selection_root =
  rt_document_id :: string
  rt_version_id :: string
  rt_document_microversion :: string
  rt_element_id :: string
  rt_element_kind :: selection_element_kind
  rt_configuration_identity :: string

record resolved_object =
  ro_plan_local_object_identity :: string
  ro_selector :: authoring_selector
  ro_configured_leaf :: configured_leaf
  ro_display_name :: string
  ro_annotation :: annotation
  ro_placement :: "f64 list"

record resolved_plan =
  pl_root :: selection_root
  pl_authoring_document_identity :: string
  pl_objects :: "resolved_object list"
  pl_plan_identity :: string

definition plan_leaf :: "string \<Rightarrow> string \<Rightarrow> string \<Rightarrow> string \<Rightarrow> string \<Rightarrow> configured_leaf" where
  "plan_leaf d m e c p = \<lparr>cl_document_id = d, cl_document_microversion = m, cl_element_id = e,
     cl_element_kind = PartStudioLeaf, cl_configuration_identity = c, cl_part_id = p\<rparr>"

definition part_selector :: "configured_leaf \<Rightarrow> authoring_selector" where
  "part_selector l = PartStudioPart (cl_document_id l) (cl_document_microversion l) (cl_element_id l)
     (cl_configuration_identity l) (cl_part_id l)"

definition plan_root :: "selection_request \<Rightarrow> string \<Rightarrow> string \<Rightarrow> selection_root" where
  "plan_root r mid configuration = \<lparr>rt_document_id = sr_document_id r, rt_version_id = sr_version_id r,
     rt_document_microversion = mid, rt_element_id = sr_element_id r, rt_element_kind = sr_element_kind r,
     rt_configuration_identity = configuration\<rparr>"

fun leaf_kind_key :: "part_studio_leaf_kind \<Rightarrow> string" where
  "leaf_kind_key PartStudioLeaf = ''part_studio''"

definition configured_leaf_json :: "configured_leaf \<Rightarrow> json" where
  "configured_leaf_json l = members
     [(''documentId'', Some (JStr (cl_document_id l))),
      (''documentMicroversion'', Some (JStr (cl_document_microversion l))),
      (''elementId'', Some (JStr (cl_element_id l))),
      (''elementKind'', Some (JStr (leaf_kind_key (cl_element_kind l)))),
      (''configurationIdentity'', Some (JStr (cl_configuration_identity l))),
      (''partId'', Some (JStr (cl_part_id l)))]"

definition selection_root_json :: "selection_root \<Rightarrow> json" where
  "selection_root_json r = members
     [(''documentId'', Some (JStr (rt_document_id r))),
      (''versionId'', Some (JStr (rt_version_id r))),
      (''documentMicroversion'', Some (JStr (rt_document_microversion r))),
      (''elementId'', Some (JStr (rt_element_id r))),
      (''elementKind'', Some (JStr (element_kind_key (catalog_kind (rt_element_kind r))))),
      (''configurationIdentity'', Some (JStr (rt_configuration_identity r)))]"

definition resolved_object_json :: "(f64 \<Rightarrow> string) \<Rightarrow> resolved_object \<Rightarrow> json" where
  "resolved_object_json show_f64 x = members
     [(''planLocalObjectIdentity'', Some (JStr (ro_plan_local_object_identity x))),
      (''selector'', Some (authoring_selector_json (ro_selector x))),
      (''configuredLeaf'', Some (configured_leaf_json (ro_configured_leaf x))),
      (''displayName'', Some (JStr (ro_display_name x))),
      (''annotation'', Some (annotation_json (ro_annotation x))),
      (''expectedNeutralPlacementMatrix'', Some (JArr (map (f64_json show_f64) (ro_placement x))))]"

section \<open>Placements\<close>

definition column_dot :: "f64 list \<Rightarrow> nat \<Rightarrow> nat \<Rightarrow> f64" where
  "column_dot m i j = f64_sum (map (\<lambda>k. f64_mul (m ! (4 * k + i)) (m ! (4 * k + j))) [0, 1, 2])"

definition minor :: "f64 list \<Rightarrow> nat \<Rightarrow> nat \<Rightarrow> nat \<Rightarrow> nat \<Rightarrow> f64" where
  "minor m a b c d = f64_sub (f64_mul (m ! a) (m ! b)) (f64_mul (m ! c) (m ! d))"

definition determinant :: "f64 list \<Rightarrow> f64" where
  "determinant m =
    f64_add (f64_sub (f64_mul (m ! 0) (minor m 5 10 6 9)) (f64_mul (m ! 1) (minor m 4 10 6 8)))
      (f64_mul (m ! 2) (minor m 4 9 5 8))"

text \<open>\<open>(value - expected).abs() > EPSILON\<close>, which a NaN does not satisfy.\<close>

definition off_by :: "f64 \<Rightarrow> f64 \<Rightarrow> bool" where
  "off_by v expected \<longleftrightarrow> f64_less EPSILON (f64_abs (f64_sub v expected))"

definition proper_rigid :: "f64 list \<Rightarrow> bool" where
  "proper_rigid m \<longleftrightarrow>
    list_all f64_is_finite m
    \<and> list_all (\<lambda>(v, expected). \<not> off_by v expected) (zip (drop 12 m) [0, 0, 0, F64_ONE])
    \<and> list_all (\<lambda>i. list_all (\<lambda>j. \<not> off_by (column_dot m i j) (if i = j then F64_ONE else 0)) [0, 1, 2]) [0, 1, 2]
    \<and> f64_less_eq (f64_abs (f64_sub (determinant m) F64_ONE)) EPSILON"

definition normalize_placement :: "f64 list \<Rightarrow> f64 list" where
  "normalize_placement m = map (\<lambda>x. if f64_eq x 0 then 0 else x) (take 12 m @ [0, 0, 0, F64_ONE])"

end
