(* ===== verification/Selection_Projection.thy ===== *)
theory Selection_Projection
  imports Selection_Types
begin

text \<open>
  The projection of the answers of Onshape (\<open>resolve_part_studio\<close>, \<open>resolve_assembly\<close> and
  \<open>resolve_carrier\<close> of \<open>src/src/onshape_selection.rs\<close>): what is selected, in phases that read every
  field of the phase before they classify the state of the source. A \<open>HashMap\<close> is a partial function,
  a \<open>HashSet\<close> a set; neither is iterated over.
\<close>

section \<open>Reading fields\<close>

definition positioned :: "nat \<Rightarrow> (api_failure, 'a) result \<Rightarrow> (api_failure, 'a) result" where
  "positioned p r = map_err (with_position p) r"

definition read_object :: "json \<Rightarrow> (api_failure, jmap) result" where
  "read_object v = ok_or (as_object v) malformed"

definition read_array :: "jmap \<Rightarrow> string \<Rightarrow> (api_failure, json list) result" where
  "read_array obj key = ok_or (Option.bind (member key obj) as_array) malformed"

definition read_string :: "jmap \<Rightarrow> string \<Rightarrow> (api_failure, string) result" where
  "read_string obj key = ok_or (Option.bind (member key obj) as_str) malformed"

definition source_string :: "jmap \<Rightarrow> string \<Rightarrow> (api_failure, string) result" where
  "source_string obj key =
    and_then (read_string obj key) (\<lambda>v. if bounded_visible_ascii v then Ok v else Err malformed)"

definition read_boolean :: "jmap \<Rightarrow> string \<Rightarrow> (api_failure, bool) result" where
  "read_boolean obj key = ok_or (Option.bind (member key obj) as_bool) malformed"

definition solid_state :: "jmap \<Rightarrow> (api_failure, bool) result" where
  "solid_state obj =
    and_then (source_string obj ''bodyType'') (\<lambda>body.
    and_then (read_boolean obj ''isFlattenedBody'') (\<lambda>flattened.
    and_then (read_boolean obj ''isMesh'') (\<lambda>mesh.
    and_then (read_string obj ''meshState'') (\<lambda>state.
      if state \<notin> {''NO_MESH'', ''MIXED'', ''ALL_MESH'', ''UNKNOWN''} then Err malformed
      else
        and_then (read_boolean obj ''isHidden'') (\<lambda>hidden.
          Ok (body = ''solid'' \<and> \<not> flattened \<and> \<not> mesh \<and> state = ''NO_MESH'' \<and> \<not> hidden))))))"

text \<open>An index of the rows of an answer, in which no key may occur twice.\<close>

definition index_row ::
  "(jmap \<Rightarrow> (api_failure, 'k) result) \<Rightarrow> ('k \<rightharpoonup> jmap) \<Rightarrow> json \<Rightarrow> (api_failure, 'k \<rightharpoonup> jmap) result" where
  "index_row key index row =
    and_then (read_object row) (\<lambda>obj.
    and_then (key obj) (\<lambda>k. if index k \<noteq> None then Err malformed else Ok (index(k \<mapsto> obj))))"

definition index_rows ::
  "(jmap \<Rightarrow> (api_failure, 'k) result) \<Rightarrow> json list \<Rightarrow> (api_failure, 'k \<rightharpoonup> jmap) result" where
  "index_rows key rows = try_fold (index_row key) Map.empty rows"

section \<open>Phases\<close>

text \<open>\<open>Iterator::position\<close>\<close>

fun position_of :: "('a \<Rightarrow> bool) \<Rightarrow> 'a list \<Rightarrow> nat option" where
  "position_of P [] = None"
| "position_of P (x # xs) = (if P x then Some 0 else map_option Suc (position_of P xs))"

definition none_at :: "('a \<Rightarrow> bool) \<Rightarrow> 'a list \<Rightarrow> (api_failure, unit) result" where
  "none_at P xs = (case position_of P xs of Some p \<Rightarrow> Err (unavailable p) | None \<Rightarrow> Ok ())"

text \<open>A phase reads every selected entry, then refuses the first whose state is not supported.\<close>

definition read_all :: "('a \<Rightarrow> (api_failure, 'b) result) \<Rightarrow> 'a list \<Rightarrow> (api_failure, 'b list) result" where
  "read_all f xs = collect_results (\<lambda>(p, x). positioned p (f x)) (enumerate 0 xs)"

definition phase ::
  "('a \<Rightarrow> (api_failure, 'b) result) \<Rightarrow> ('b \<Rightarrow> bool) \<Rightarrow> 'a list \<Rightarrow> (api_failure, 'b list) result" where
  "phase f supported xs =
    and_then (read_all f xs) (\<lambda>vs. and_then (none_at (\<lambda>v. \<not> supported v) vs) (\<lambda>_. Ok vs))"

section \<open>Part studios\<close>

record candidate =
  cd_leaf :: configured_leaf
  cd_selector :: authoring_selector
  cd_matrix :: "f64 list"
  cd_name :: string
  cd_description :: string

definition select_part ::
  "(string \<rightharpoonup> jmap) \<Rightarrow> nat \<times> selection_selector \<Rightarrow> (api_failure, jmap) result" where
  "select_part index = (\<lambda>(position, selector). case selector of
      Part part_id \<Rightarrow> ok_or (index part_id) (unavailable position)
    | Occurrence _ \<Rightarrow> Err invalid_selection)"

definition part_identity :: "selection_request \<Rightarrow> string \<Rightarrow> jmap \<Rightarrow> (api_failure, string) result" where
  "part_identity r mid obj =
    and_then (source_string obj ''elementId'') (\<lambda>e.
    and_then (source_string obj ''microversionId'') (\<lambda>m.
    and_then (source_string obj ''configurationId'') (\<lambda>c.
      if e \<noteq> sr_element_id r \<or> m \<noteq> mid then Err malformed else Ok c)))"

definition part_candidate ::
  "selection_request \<Rightarrow> string \<Rightarrow> nat \<times> jmap \<times> string \<Rightarrow> (api_failure, candidate) result" where
  "part_candidate r mid = (\<lambda>(position, obj, configuration).
    and_then (positioned position (read_string obj ''name'')) (\<lambda>name.
    and_then (positioned position (read_string obj ''description'')) (\<lambda>description.
    and_then (source_string obj ''partId'') (\<lambda>part_id.
      let l = plan_leaf (sr_document_id r) mid (sr_element_id r) configuration part_id in
      Ok \<lparr>cd_leaf = l, cd_selector = part_selector l, cd_matrix = IDENTITY_PLACEMENT,
          cd_name = name, cd_description = description\<rparr>))))"

definition resolve_part_studio ::
  "selection_request \<Rightarrow> string \<Rightarrow> json \<Rightarrow> (api_failure, selection_root \<times> candidate list) result" where
  "resolve_part_studio r mid response =
    and_then (ok_or (as_array response) malformed) (\<lambda>rows.
    and_then (index_rows (\<lambda>obj. source_string obj ''partId'') rows) (\<lambda>index.
    and_then (collect_results (select_part index) (enumerate 0 (sr_selectors r))) (\<lambda>selected.
    and_then (read_all (part_identity r mid) selected) (\<lambda>identities.
      if list_ex (\<lambda>c. c \<noteq> identities ! 0) identities then Err malformed
      else
        and_then (phase solid_state id selected) (\<lambda>_.
        and_then (collect_results (part_candidate r mid) (enumerate 0 (zip selected identities))) (\<lambda>candidates.
          Ok (plan_root r mid (identities ! 0), candidates)))))))"

section \<open>Relations of an assembly\<close>

definition occurrence_path :: "jmap \<Rightarrow> (api_failure, string list) result" where
  "occurrence_path obj =
    and_then (read_array obj ''path'') (\<lambda>values.
      if \<not> (1 \<le> length values \<and> length values \<le> 64) then Err malformed
      else collect_results (\<lambda>v. ok_or (filter_opt bounded_visible_ascii (as_str v)) malformed) values)"

text \<open>The identifiers found so far, with the number of times that one was found.\<close>

type_synonym found = "string set \<times> nat"

definition add_id :: "string \<Rightarrow> found \<Rightarrow> (api_failure, found) result" where
  "add_id i = (\<lambda>(ids, count).
    if \<not> bounded_visible_ascii i then Err malformed
    else if count + 1 > MAX_RELATION_IDS then Err malformed
    else Ok (insert i ids, count + 1))"

definition add_unique :: "string set \<times> found \<Rightarrow> json \<Rightarrow> (api_failure, string set \<times> found) result" where
  "add_unique = (\<lambda>(seen, found) v.
    and_then (ok_or (as_str v) malformed) (\<lambda>i.
      if i \<in> seen then Err malformed
      else and_then (add_id i found) (\<lambda>found. Ok (insert i seen, found))))"

definition add_child :: "string set \<times> found \<Rightarrow> json \<Rightarrow> (api_failure, string set \<times> found) result" where
  "add_child s v =
    and_then (read_object v) (\<lambda>child.
    and_then (read_array child ''instanceIds'') (\<lambda>ids.
    and_then (try_fold add_unique s ids) (\<lambda>(children, found).
      if member ''seedOccurrence'' child \<noteq> None
      then and_then (source_string child ''seedOccurrence'') (\<lambda>i.
        and_then (add_id i found) (\<lambda>found. Ok (children, found)))
      else Ok (children, found))))"

definition add_parametric :: "string set \<times> found \<Rightarrow> json \<Rightarrow> (api_failure, string set \<times> found) result" where
  "add_parametric = (\<lambda>(seen, found) v.
    and_then (read_object v) (\<lambda>relation.
    and_then (source_string relation ''id'') (\<lambda>i.
      if i \<in> seen then Err malformed
      else
        and_then (add_id i found) (\<lambda>found.
        and_then (read_array relation ''children'') (\<lambda>children.
        and_then (try_fold add_child ({}, found) children) (\<lambda>(_, found). Ok (insert i seen, found)))))))"

definition add_seed :: "string set \<times> found \<Rightarrow> string \<times> json \<Rightarrow> (api_failure, string set \<times> found) result" where
  "add_seed = (\<lambda>(generated, found) (seed, ids).
    and_then (add_id seed found) (\<lambda>found.
    and_then (ok_or (as_array ids) malformed) (\<lambda>ids.
      try_fold add_unique (generated, found) ids)))"

definition add_pattern :: "string set \<times> found \<Rightarrow> json \<Rightarrow> (api_failure, string set \<times> found) result" where
  "add_pattern = (\<lambda>(seen, found) v.
    and_then (read_object v) (\<lambda>relation.
    and_then (source_string relation ''id'') (\<lambda>i.
      if i \<in> seen then Err malformed
      else
        and_then (ok_or (member ''seedToPatternInstances'' relation) malformed) (\<lambda>v.
        and_then (read_object v) (\<lambda>seeds.
        and_then (try_fold add_seed ({}, found) seeds) (\<lambda>(_, found). Ok (insert i seen, found)))))))"

definition relation_ids :: "jmap \<Rightarrow> (api_failure, string set) result" where
  "relation_ids assembly =
    and_then (read_array assembly ''parametricInstances'') (\<lambda>relations.
    and_then (try_fold add_parametric ({}, {}, 0) relations) (\<lambda>(_, found).
    and_then (read_array assembly ''patterns'') (\<lambda>relations.
    and_then (try_fold add_pattern ({}, found) relations) (\<lambda>(_, ids, _). Ok ids))))"

section \<open>Assemblies\<close>

record carrier_key =
  ck_document_id :: string
  ck_microversion :: string
  ck_element_id :: string
  ck_configuration :: string

record carrier_group =
  cg_key :: carrier_key
  cg_positions :: "nat list"

record assembly_resolution =
  ar_root :: selection_root
  ar_candidates :: "candidate list"
  ar_carriers :: "carrier_group list"

definition projected_leaf :: "jmap \<Rightarrow> (api_failure, configured_leaf) result" where
  "projected_leaf obj =
    and_then (source_string obj ''documentId'') (\<lambda>d.
    and_then (source_string obj ''documentMicroversion'') (\<lambda>m.
    and_then (source_string obj ''elementId'') (\<lambda>e.
    and_then (source_string obj ''fullConfiguration'') (\<lambda>c.
    and_then (source_string obj ''partId'') (\<lambda>p. Ok (plan_leaf d m e c p))))))"

text \<open>\<open>Value::as_f64\<close>: integers are rounded; the text of a float is read back.\<close>

fun number_as_f64 :: "(string \<Rightarrow> f64) \<Rightarrow> jnum \<Rightarrow> f64" where
  "number_as_f64 read (PosInt n) = f64_round (uint n) 0"
| "number_as_f64 read (NegInt i) = f64_signed (i < 0) (f64_round \<bar>i\<bar> 0)"
| "number_as_f64 read (Float s) = read s"

fun as_f64 :: "(string \<Rightarrow> f64) \<Rightarrow> json \<Rightarrow> f64 option" where
  "as_f64 read (JNum n) = Some (number_as_f64 read n)"
| "as_f64 read _ = None"

definition project_transform :: "(string \<Rightarrow> f64) \<Rightarrow> jmap \<Rightarrow> (api_failure, f64 list) result" where
  "project_transform read obj =
    and_then (read_array obj ''transform'') (\<lambda>values.
      if length values \<noteq> 16 then Err malformed
      else collect_results (\<lambda>v. ok_or (filter_opt f64_is_finite (as_f64 read v)) malformed) values)"

definition select_occurrence ::
  "(string \<rightharpoonup> jmap) \<Rightarrow> (string list \<rightharpoonup> jmap) \<Rightarrow> nat \<times> selection_selector
    \<Rightarrow> (api_failure, (jmap \<times> jmap) option) result" where
  "select_occurrence instances occurrences = (\<lambda>(position, selector). case selector of
      Part _ \<Rightarrow> Err invalid_selection
    | Occurrence path \<Rightarrow> (case (instances (path ! 0), occurrences path) of
          (Some i, Some x) \<Rightarrow> Ok (Some (i, x))
        | (None, None) \<Rightarrow> Ok None
        | _ \<Rightarrow> Err (with_position position malformed)))"

definition deleted_state :: "jmap \<Rightarrow> (api_failure, bool) result" where
  "deleted_state i = (case member ''status'' i of
      None \<Rightarrow> Ok False
    | Some v \<Rightarrow> if v = JStr ''DeletedElement'' then Ok True else Err malformed)"

definition part_type :: "jmap \<Rightarrow> (api_failure, bool) result" where
  "part_type i =
    and_then (read_string i ''type'') (\<lambda>t.
      if t \<notin> {''Part'', ''Assembly'', ''Feature'', ''Unknown''} then Err malformed else Ok (t = ''Part''))"

definition solid_body :: "jmap \<Rightarrow> (api_failure, bool) result" where
  "solid_body obj =
    and_then (read_string obj ''bodyType'') (\<lambda>body.
      if body \<notin> {''solid'', ''sheet'', ''composite''} then Err malformed else Ok (body = ''solid''))"

definition carrier_key_of :: "configured_leaf \<Rightarrow> carrier_key" where
  "carrier_key_of l = \<lparr>ck_document_id = cl_document_id l, ck_microversion = cl_document_microversion l,
     ck_element_id = cl_element_id l, ck_configuration = cl_configuration_identity l\<rparr>"

text \<open>The carriers in the order of their first position, with the index of each key.\<close>

definition push_carrier ::
  "carrier_group list \<times> (carrier_key \<rightharpoonup> nat) \<Rightarrow> nat \<times> configured_leaf
    \<Rightarrow> carrier_group list \<times> (carrier_key \<rightharpoonup> nat)" where
  "push_carrier = (\<lambda>(carriers, index) (position, l).
    let key = carrier_key_of l;
        next_group = length carriers;
        g = (case index key of Some g \<Rightarrow> g | None \<Rightarrow> next_group);
        carriers = (if g = next_group then carriers @ [\<lparr>cg_key = key, cg_positions = []\<rparr>] else carriers)
    in (carriers[g := (carriers ! g)\<lparr>cg_positions := cg_positions (carriers ! g) @ [position]\<rparr>],
        index(key \<mapsto> g)))"

definition carriers_of :: "configured_leaf list \<Rightarrow> carrier_group list" where
  "carriers_of leaves = fst (foldl push_carrier ([], Map.empty) (enumerate 0 leaves))"

definition assembly_candidate ::
  "string \<Rightarrow> string \<Rightarrow> string \<Rightarrow> string \<Rightarrow> selection_selector \<times> configured_leaf \<times> f64 list
    \<Rightarrow> (api_failure, candidate) result" where
  "assembly_candidate d m e configuration = (\<lambda>(selector, l, matrix). case selector of
      Part _ \<Rightarrow> Err invalid_selection
    | Occurrence path \<Rightarrow> Ok \<lparr>cd_leaf = l, cd_selector = AssemblyOccurrence d m e configuration path,
        cd_matrix = normalize_placement matrix, cd_name = [], cd_description = []\<rparr>)"

text \<open>The associations of the selectors with their instance and occurrence, none of them excluded.\<close>

definition excluded :: "string set \<Rightarrow> selection_selector \<Rightarrow> bool" where
  "excluded exclusions s = (case s of Occurrence path \<Rightarrow> path ! 0 \<in> exclusions | Part _ \<Rightarrow> False)"

definition select_occurrences ::
  "selection_request \<Rightarrow> jmap \<Rightarrow> json list \<Rightarrow> json list \<Rightarrow> (api_failure, (jmap \<times> jmap) list) result" where
  "select_occurrences r assembly instances occurrences =
    and_then (index_rows (\<lambda>obj. source_string obj ''id'') instances) (\<lambda>instance_index.
    and_then (index_rows occurrence_path occurrences) (\<lambda>occurrence_index.
    and_then (relation_ids assembly) (\<lambda>exclusions.
    and_then (collect_results (select_occurrence instance_index occurrence_index)
      (enumerate 0 (sr_selectors r))) (\<lambda>selected.
    and_then (none_at (\<lambda>x. x = None) selected) (\<lambda>_.
    and_then (none_at (excluded exclusions) (sr_selectors r)) (\<lambda>_.
      Ok (map the selected)))))))"

text \<open>The phases over the selected instances and occurrences, up to their leaves and transforms.\<close>

definition project_selected ::
  "(string \<Rightarrow> f64) \<Rightarrow> string \<Rightarrow> string \<Rightarrow> (jmap \<times> jmap) list
    \<Rightarrow> (api_failure, configured_leaf list \<times> f64 list list) result" where
  "project_selected read d m selected =
    and_then (phase (deleted_state \<circ> fst) Not selected) (\<lambda>_.
    and_then (phase (part_type \<circ> fst) id selected) (\<lambda>_.
    and_then (phase ((\<lambda>i. read_boolean i ''suppressed'') \<circ> fst) Not selected) (\<lambda>_.
    and_then (phase ((\<lambda>x. read_boolean x ''hidden'') \<circ> snd) Not selected) (\<lambda>_.
    and_then (phase (projected_leaf \<circ> fst)
      (\<lambda>l. \<not> (cl_document_id l \<noteq> d \<or> cl_document_microversion l \<noteq> m)) selected) (\<lambda>leaves.
    and_then (phase (project_transform read \<circ> snd) proper_rigid selected) (\<lambda>matrices.
      Ok (leaves, matrices)))))))"

definition join_parts :: "json list \<Rightarrow> configured_leaf list \<Rightarrow> (api_failure, unit) result" where
  "join_parts parts leaves =
    and_then (index_rows projected_leaf parts) (\<lambda>index.
    and_then (collect_results (\<lambda>(p, l). ok_or (index l) (with_position p malformed)) (enumerate 0 leaves)) (\<lambda>joined.
    and_then (phase solid_body id joined) (\<lambda>_. Ok ())))"

definition resolve_assembly ::
  "(string \<Rightarrow> f64) \<Rightarrow> selection_request \<Rightarrow> string \<Rightarrow> json \<Rightarrow> (api_failure, assembly_resolution) result" where
  "resolve_assembly read r mid response =
    and_then (read_object response) (\<lambda>envelope.
    and_then (and_then (ok_or (member ''rootAssembly'' envelope) malformed) read_object) (\<lambda>assembly.
    and_then (source_string assembly ''documentId'') (\<lambda>d.
    and_then (source_string assembly ''documentMicroversion'') (\<lambda>m.
    and_then (source_string assembly ''elementId'') (\<lambda>e.
    and_then (source_string assembly ''fullConfiguration'') (\<lambda>configuration.
    and_then (read_array assembly ''instances'') (\<lambda>instances.
    and_then (read_array assembly ''occurrences'') (\<lambda>occurrences.
    and_then (read_array assembly ''parametricInstances'') (\<lambda>_.
    and_then (read_array assembly ''patterns'') (\<lambda>_.
    and_then (read_array envelope ''parts'') (\<lambda>parts.
      if d \<noteq> sr_document_id r \<or> m \<noteq> mid \<or> e \<noteq> sr_element_id r then Err malformed
      else
        and_then (select_occurrences r assembly instances occurrences) (\<lambda>selected.
        and_then (project_selected read d m selected) (\<lambda>(leaves, matrices).
        and_then (join_parts parts leaves) (\<lambda>_.
        and_then (collect_results (assembly_candidate d m e configuration)
          (zip (sr_selectors r) (zip leaves matrices))) (\<lambda>candidates.
          Ok \<lparr>ar_root = plan_root r mid configuration, ar_candidates = candidates,
              ar_carriers = carriers_of leaves\<rparr>)))))))))))))))"

section \<open>Carriers\<close>

definition carrier_row_key :: "jmap \<Rightarrow> (api_failure, string \<times> string \<times> string) result" where
  "carrier_row_key row =
    and_then (source_string row ''elementId'') (\<lambda>e.
    and_then (source_string row ''microversionId'') (\<lambda>m.
    and_then (source_string row ''partId'') (\<lambda>p. Ok (e, m, p))))"

definition join_carrier ::
  "(string \<times> string \<times> string \<rightharpoonup> jmap) \<Rightarrow> candidate list \<Rightarrow> nat \<Rightarrow> (api_failure, nat \<times> jmap) result" where
  "join_carrier index candidates p =
    (let l = cd_leaf (candidates ! p) in
     and_then (ok_or (index (cl_element_id l, cl_document_microversion l, cl_part_id l))
       (with_position p malformed)) (\<lambda>obj.
     and_then (positioned p (source_string obj ''configurationId'')) (\<lambda>_. Ok (p, obj))))"

definition carrier_metadata :: "nat \<times> jmap \<Rightarrow> (api_failure, nat \<times> string \<times> string) result" where
  "carrier_metadata = (\<lambda>(p, obj).
    and_then (positioned p (read_string obj ''name'')) (\<lambda>name.
    and_then (positioned p (read_string obj ''description'')) (\<lambda>description. Ok (p, name, description))))"

definition commit_metadata :: "candidate list \<Rightarrow> nat \<times> string \<times> string \<Rightarrow> candidate list" where
  "commit_metadata candidates = (\<lambda>(p, name, description).
    candidates[p := (candidates ! p)\<lparr>cd_name := name, cd_description := description\<rparr>])"

definition resolve_carrier ::
  "json \<Rightarrow> carrier_group \<Rightarrow> candidate list \<Rightarrow> (api_failure, candidate list) result" where
  "resolve_carrier response g candidates =
    and_then (ok_or (as_array response) malformed) (\<lambda>rows.
    and_then (index_rows carrier_row_key rows) (\<lambda>index.
    and_then (collect_results (join_carrier index candidates) (cg_positions g)) (\<lambda>joined.
    and_then (collect_results (\<lambda>(p, obj). positioned p (solid_state obj)) joined) (\<lambda>states.
    and_then (case position_of Not states of
        Some i \<Rightarrow> Err (unavailable (fst (joined ! i))) | None \<Rightarrow> Ok ()) (\<lambda>_.
    and_then (collect_results carrier_metadata joined) (\<lambda>metadata.
      Ok (foldl commit_metadata candidates metadata)))))))"

end
