(* ===== verification/Selection_Plan.thy ===== *)
theory Selection_Plan
  imports Selection_Projection
begin

text \<open>
  Plans: the identities of objects and plans, the construction of a plan from its candidates, the
  validation of a retained plan, and \<open>plan_selection\<close>, which asks Onshape (\<open>src/src/onshape_selection.rs\<close>).
\<close>

section \<open>Identities\<close>

text \<open>
  Other crates: those of the encoding, the writers of JSON, the decoder of annotations, and the
  pieces in which the canonical serializer hands a document to a writer, with whether it ends well.
\<close>

record selection_library =
  sl_encoding :: encoding_library
  sl_to_vec :: writer
  sl_decode :: annotation_decoder
  sl_pieces :: "json \<Rightarrow> string list \<times> bool"
  sl_read_f64 :: "string \<Rightarrow> f64"

abbreviation sl_jcs :: "selection_library \<Rightarrow> canonicalizer" where
  "sl_jcs lib \<equiv> el_jcs (sl_encoding lib)"

abbreviation sl_sha :: "selection_library \<Rightarrow> digest" where
  "sl_sha lib \<equiv> el_sha (sl_encoding lib)"

definition object_identity_json :: "authoring_selector \<Rightarrow> configured_leaf \<Rightarrow> json" where
  "object_identity_json s l = members
     [(''selector'', Some (authoring_selector_json s)), (''configuredLeaf'', Some (configured_leaf_json l))]"

definition plan_object_identity ::
  "selection_library \<Rightarrow> authoring_selector \<Rightarrow> configured_leaf \<Rightarrow> (string, string) result" where
  "plan_object_identity lib s l =
    hash_json (sl_jcs lib) (sl_sha lib) ''onshape-export-selection-plan-object-v1'' (object_identity_json s l)"

definition plan_envelope ::
  "(f64 \<Rightarrow> string) \<Rightarrow> selection_root \<Rightarrow> string \<Rightarrow> resolved_object list \<Rightarrow> json" where
  "plan_envelope show_f64 r document_identity objects = members
     [(''domain'', Some (JStr ''onshape-export-selection-plan-v1'')),
      (''payload'', Some (members
        [(''root'', Some (selection_root_json r)),
         (''authoringDocumentIdentity'', Some (JStr document_identity)),
         (''objects'', Some (JArr (map (resolved_object_json show_f64) objects)))]))]"

record bounded_hash =
  bh_digested :: string
  bh_count :: nat
  bh_overflow :: bool

text \<open>\<open>Write::write\<close>: the new state, with whether the write succeeded.\<close>

definition bounded_write :: "bounded_hash \<Rightarrow> string \<Rightarrow> (bounded_hash, bounded_hash) result" where
  "bounded_write h bytes =
    (if length bytes > MAX_PLAN_BYTES - bh_count h then Err (h\<lparr>bh_overflow := True\<rparr>)
     else Ok (h\<lparr>bh_digested := bh_digested h @ bytes, bh_count := bh_count h + length bytes\<rparr>))"

definition write_canonical :: "selection_library \<Rightarrow> json \<Rightarrow> (bounded_hash, bounded_hash) result" where
  "write_canonical lib v =
    and_then (try_fold bounded_write \<lparr>bh_digested = [], bh_count = 0, bh_overflow = False\<rparr> (fst (sl_pieces lib v)))
      (\<lambda>h. if snd (sl_pieces lib v) then Ok h else Err h)"

definition finish_hash :: "selection_library \<Rightarrow> bounded_hash \<Rightarrow> string" where
  "finish_hash lib h = hex_sha256 (sl_sha lib) (bh_digested h)"

definition configured_part :: "selection_library \<Rightarrow> api_failure \<Rightarrow> configured_leaf \<Rightarrow> (api_failure, string) result" where
  "configured_part lib failure l =
    and_then (map_err (\<lambda>_. failure) (sl_jcs lib (configured_leaf_json l))) (\<lambda>bytes.
      if valid_utf8 bytes then Ok bytes else Err failure)"

section \<open>Retained plans\<close>

definition retained_failure :: api_failure where
  "retained_failure = api_failure_new OperationalApiContractFailure ''invalid_retained_selection_plan''"

definition retained_root_ok :: "resolved_plan \<Rightarrow> bool" where
  "retained_root_ok p \<longleftrightarrow>
    1 \<le> length (pl_objects p) \<and> length (pl_objects p) \<le> MAX_SELECTORS
    \<and> list_all bounded_visible_ascii
        [rt_document_id (pl_root p), rt_version_id (pl_root p), rt_document_microversion (pl_root p),
         rt_element_id (pl_root p), rt_configuration_identity (pl_root p)]
    \<and> is_sha256 (pl_plan_identity p) \<and> is_sha256 (pl_authoring_document_identity p)"

definition retained_leaf_ok :: "selection_root \<Rightarrow> resolved_object \<Rightarrow> bool" where
  "retained_leaf_ok r x \<longleftrightarrow> (let l = ro_configured_leaf x; m = ro_placement x in
    list_all bounded_visible_ascii [cl_document_id l, cl_document_microversion l, cl_element_id l,
      cl_configuration_identity l, cl_part_id l]
    \<and> cl_document_id l = rt_document_id r \<and> cl_document_microversion l = rt_document_microversion r
    \<and> is_sha256 (ro_plan_local_object_identity x)
    \<and> proper_rigid m \<and> f64s_eq (drop 12 m) [0, 0, 0, F64_ONE]
    \<and> \<not> list_ex (\<lambda>v. f64_eq v 0 \<and> f64_negative v) m)"

fun retained_selector_ok :: "selection_element_kind \<Rightarrow> authoring_selector \<Rightarrow> selection_root \<Rightarrow> resolved_object \<Rightarrow> bool"
where
  "retained_selector_ok PartStudioElement (PartStudioPart d m e c p) r x =
    (cl_element_id (ro_configured_leaf x) = rt_element_id r
     \<and> cl_configuration_identity (ro_configured_leaf x) = rt_configuration_identity r
     \<and> ro_selector x = part_selector (ro_configured_leaf x)
     \<and> f64s_eq (ro_placement x) IDENTITY_PLACEMENT)"
| "retained_selector_ok AssemblyElement (AssemblyOccurrence d m e c path) r x =
    (d = rt_document_id r \<and> m = rt_document_microversion r \<and> e = rt_element_id r
     \<and> c = rt_configuration_identity r \<and> length path = 1 \<and> bounded_visible_ascii (path ! 0))"
| "retained_selector_ok _ _ r x = False"

definition retained_object ::
  "selection_library \<Rightarrow> selection_root \<Rightarrow> string set \<Rightarrow> resolved_object \<Rightarrow> (api_failure, string set) result" where
  "retained_object lib r seen x =
    and_then (checks [
      ensure (retained_leaf_ok r x \<and> ro_plan_local_object_identity x \<notin> seen) retained_failure,
      ensure (retained_selector_ok (rt_element_kind r) (ro_selector x) r x) retained_failure,
      and_then (map_err (\<lambda>_. retained_failure) (plan_object_identity lib (ro_selector x) (ro_configured_leaf x)))
        (\<lambda>identity. ensure (identity = ro_plan_local_object_identity x) retained_failure)])
      (\<lambda>_. Ok (insert (ro_plan_local_object_identity x) seen))"

definition plan_document :: "resolved_object list \<Rightarrow> authoring_document" where
  "plan_document objects = \<lparr>ad_schema_version = 1, ad_objects = map (\<lambda>x.
     \<lparr>ao_selector = ro_selector x, ao_display_name = ro_display_name x, ao_annotation = ro_annotation x\<rparr>) objects\<rparr>"

definition context_entry ::
  "selection_library \<Rightarrow> api_failure \<Rightarrow> nat \<times> authoring_selector \<times> configured_leaf
    \<Rightarrow> (api_failure, authoring_context_entry) result" where
  "context_entry lib failure = (\<lambda>(position, s, l).
    and_then (configured_part lib failure l) (\<lambda>part.
      Ok \<lparr>ce_selector = s, ce_plan_position = position, ce_configured_part_identity = part\<rparr>))"

definition validate_retained_plan :: "selection_library \<Rightarrow> resolved_plan \<Rightarrow> (api_failure, unit) result" where
  "validate_retained_plan lib p =
    (let document = plan_document (pl_objects p) in
     and_then (ensure (retained_root_ok p) retained_failure) (\<lambda>_.
     and_then (try_fold (retained_object lib (pl_root p)) {} (pl_objects p)) (\<lambda>_.
     and_then (collect_results (context_entry lib retained_failure)
       (enumerate 0 (map (\<lambda>x. (ro_selector x, ro_configured_leaf x)) (pl_objects p)))) (\<lambda>ctxt.
     and_then (map_err (\<lambda>_. retained_failure) (validate_authoring_context (sl_to_vec lib) (sl_jcs lib) document ctxt)) (\<lambda>_.
     and_then (map_err (\<lambda>_. retained_failure)
       (authoring_document_identity (sl_to_vec lib) (sl_jcs lib) (sl_sha lib) document)) (\<lambda>identity.
     and_then (ensure (identity = pl_authoring_document_identity p) retained_failure) (\<lambda>_.
     and_then (map_err (\<lambda>_. retained_failure) (write_canonical lib
       (plan_envelope (el_show_f64 (sl_encoding lib)) (pl_root p) (pl_authoring_document_identity p) (pl_objects p)))) (\<lambda>h.
       ensure (finish_hash lib h = pl_plan_identity p) retained_failure))))))))"

section \<open>Construction\<close>

definition annotation_failure :: "annotation_error \<Rightarrow> nat option \<Rightarrow> api_failure" where
  "annotation_failure error position =
    (let kind = (case error of Identity _ \<Rightarrow> OperationalApiContractFailure | _ \<Rightarrow> UnavailableSourceState);
         failure = with_operation ''authoringValidation'' (api_failure_new kind ''authoring_validation_failed'')
     in case position of Some p \<Rightarrow> with_position p failure | None \<Rightarrow> failure)"

definition key_positions :: "authoring_object list \<Rightarrow> (string \<rightharpoonup> nat list)" where
  "key_positions objects =
    foldl (\<lambda>keys (p, x). push_key (an_key (ao_annotation x)) p keys) Map.empty (enumerate 0 objects)"

definition bad_target :: "authoring_object list \<Rightarrow> nat \<Rightarrow> string \<Rightarrow> bool" where
  "bad_target objects p t = (case key_positions objects t of
      Some positions \<Rightarrow>
        if length positions = 1
        then positions ! 0 = p \<or> an_role (ao_annotation (objects ! (positions ! 0))) \<noteq> Printable
        else True
    | None \<Rightarrow> True)"

definition document_failure_position :: "authoring_document \<Rightarrow> nat option" where
  "document_failure_position d = find_map (\<lambda>(p, x).
     if list_ex (bad_target (ad_objects d) p) (an_targets (ao_annotation x)) then Some p else None)
     (enumerate 0 (ad_objects d))"

definition lower :: "nat option \<Rightarrow> nat \<Rightarrow> nat option" where
  "lower lowest first = Some (case lowest of None \<Rightarrow> first | Some old \<Rightarrow> min old first)"

definition conflict_step ::
  "authoring_object list \<Rightarrow> candidate list \<Rightarrow> (configured_leaf \<rightharpoonup> nat) \<times> (string \<rightharpoonup> nat) \<times> nat option
    \<Rightarrow> nat \<times> authoring_object \<times> candidate \<Rightarrow> (configured_leaf \<rightharpoonup> nat) \<times> (string \<rightharpoonup> nat) \<times> nat option" where
  "conflict_step objects candidates = (\<lambda>(by_leaf, by_key, lowest) (p, x, c).
    let (by_leaf, lowest) = (case by_leaf (cd_leaf c) of
          Some first \<Rightarrow> (by_leaf,
            if ao_display_name (objects ! first) \<noteq> ao_display_name x
              \<or> ao_annotation (objects ! first) \<noteq> ao_annotation x then lower lowest first else lowest)
        | None \<Rightarrow> (by_leaf(cd_leaf c \<mapsto> p), lowest))
    in (case an_key (ao_annotation x) of
          None \<Rightarrow> (by_leaf, by_key, lowest)
        | Some key \<Rightarrow> (case by_key key of
              Some first \<Rightarrow> (by_leaf, by_key,
                if cd_leaf (candidates ! first) \<noteq> cd_leaf c \<or> ao_annotation (objects ! first) \<noteq> ao_annotation x
                then lower lowest first else lowest)
            | None \<Rightarrow> (by_leaf, by_key(key \<mapsto> p), lowest))))"

definition context_failure_position :: "authoring_document \<Rightarrow> candidate list \<Rightarrow> nat option" where
  "context_failure_position d candidates =
    snd (snd (foldl (conflict_step (ad_objects d) candidates) (Map.empty, Map.empty, None)
      (enumerate 0 (zip (ad_objects d) candidates))))"

definition author_candidate ::
  "selection_library \<Rightarrow> nat \<times> candidate \<Rightarrow> (api_failure, authoring_object) result" where
  "author_candidate lib = (\<lambda>(p, c).
    map_err (\<lambda>e. annotation_failure e (Some p))
      (normalize_authoring_object (sl_decode lib) (cd_selector c) (cd_description c) (cd_name c)))"

definition plan_object ::
  "selection_library \<Rightarrow> candidate \<times> authoring_object \<Rightarrow> (api_failure, resolved_object) result" where
  "plan_object lib = (\<lambda>(c, x).
    and_then (map_err (\<lambda>_. malformed) (plan_object_identity lib (cd_selector c) (cd_leaf c))) (\<lambda>identity.
      Ok \<lparr>ro_plan_local_object_identity = identity, ro_selector = cd_selector c,
          ro_configured_leaf = cd_leaf c, ro_display_name = ao_display_name x,
          ro_annotation = ao_annotation x, ro_placement = normalize_placement (cd_matrix c)\<rparr>))"

definition construct_plan ::
  "selection_library \<Rightarrow> selection_root \<Rightarrow> candidate list \<Rightarrow> (api_failure, resolved_plan) result" where
  "construct_plan lib r candidates =
    and_then (collect_results (author_candidate lib) (enumerate 0 candidates)) (\<lambda>authored.
    let document = \<lparr>ad_schema_version = 1, ad_objects = authored\<rparr> in
    and_then (map_err (\<lambda>e. annotation_failure e (document_failure_position document))
      (validate_authoring_document (sl_to_vec lib) document)) (\<lambda>_.
    and_then (collect_results (context_entry lib malformed)
      (enumerate 0 (map (\<lambda>c. (cd_selector c, cd_leaf c)) candidates))) (\<lambda>ctxt.
    and_then (map_err (\<lambda>e. annotation_failure e (context_failure_position document candidates))
      (validate_authoring_context (sl_to_vec lib) (sl_jcs lib) document ctxt)) (\<lambda>_.
    and_then (map_err (\<lambda>_. malformed)
      (authoring_document_identity (sl_to_vec lib) (sl_jcs lib) (sl_sha lib) document)) (\<lambda>identity.
    and_then (collect_results (plan_object lib) (zip candidates authored)) (\<lambda>objects.
    and_then (map_err (\<lambda>h. if bh_overflow h then unavailable 0 else malformed)
      (write_canonical lib (plan_envelope (el_show_f64 (sl_encoding lib)) r identity objects))) (\<lambda>h.
      Ok \<lparr>pl_root = r, pl_authoring_document_identity = identity, pl_objects = objects,
          pl_plan_identity = finish_hash lib h\<rparr>)))))))"

section \<open>Planning\<close>

text \<open>What Onshape answers to the requests for a version, for parts and for an assembly.\<close>

record planning_remote =
  pr_origin :: string
  pr_version :: "string \<Rightarrow> string \<Rightarrow> (api_failure, string) result"
  pr_parts :: "string \<Rightarrow> string \<Rightarrow> string \<Rightarrow> string \<Rightarrow> (api_failure, json) result"
  pr_assembly :: "string \<Rightarrow> string \<Rightarrow> string \<Rightarrow> string \<Rightarrow> (api_failure, json) result"

definition position_if_missing :: "nat \<Rightarrow> api_failure \<Rightarrow> api_failure" where
  "position_if_missing p f = f\<lparr>af_diagnostics := map (\<lambda>d.
     if sd_selector_position d = None then d\<lparr>sd_selector_position := Some p\<rparr> else d) (af_diagnostics f)\<rparr>"

definition join_group ::
  "planning_remote \<Rightarrow> candidate list \<Rightarrow> carrier_group \<Rightarrow> (api_failure, candidate list) result" where
  "join_group remote candidates g =
    (let k = cg_key g; first = cg_positions g ! 0 in
     and_then (map_err (with_position first)
       (pr_parts remote (ck_document_id k) (ck_microversion k) (ck_element_id k) (ck_configuration k))) (\<lambda>response.
     map_err (\<lambda>e. with_operation ''getPartsWMVE'' (position_if_missing first e))
       (resolve_carrier response g candidates)))"

definition plan_candidates ::
  "selection_library \<Rightarrow> planning_remote \<Rightarrow> selection_request \<Rightarrow> string
    \<Rightarrow> (api_failure, selection_root \<times> candidate list) result" where
  "plan_candidates lib remote r mid =
    (let configuration = eh_encoded_id (sr_configuration_encoding r) in case sr_element_kind r of
       PartStudioElement \<Rightarrow>
         and_then (pr_parts remote (sr_document_id r) mid (sr_element_id r) configuration) (\<lambda>response.
           map_err (with_operation ''getPartsWMVE'') (resolve_part_studio r mid response))
     | AssemblyElement \<Rightarrow>
         and_then (pr_assembly remote (sr_document_id r) mid (sr_element_id r) configuration) (\<lambda>response.
         and_then (map_err (with_operation ''getAssemblyDefinition'')
           (resolve_assembly (sl_read_f64 lib) r mid response)) (\<lambda>assembly.
         and_then (try_fold (join_group remote) (ar_candidates assembly) (ar_carriers assembly)) (\<lambda>candidates.
           Ok (ar_root assembly, candidates)))))"

definition plan_selection ::
  "selection_library \<Rightarrow> planning_remote \<Rightarrow> encoding_tables \<Rightarrow> selection_request
    \<Rightarrow> (api_failure, resolved_plan) result" where
  "plan_selection lib remote db r =
    and_then (preflight r) (\<lambda>_.
    and_then (pr_version remote (sr_document_id r) (sr_version_id r)) (\<lambda>mid.
    let source = \<lparr>rs_document_id = sr_document_id r, rs_version_id = sr_version_id r,
      rs_microversion_id = mid, rs_element_id = sr_element_id r,
      rs_element_kind = catalog_kind (sr_element_kind r), rs_link_document_id = None\<rparr> in
    and_then (validate_handoff (sl_encoding lib) (pr_origin remote) source (sr_configuration_encoding r) db) (\<lambda>_.
    and_then (plan_candidates lib remote r mid) (\<lambda>(root_of_plan, candidates).
      construct_plan lib root_of_plan candidates))))"

end
