(* ===== verification/Selection_Gates.thy ===== *)
theory Selection_Gates
  imports Selection_Plan
begin

text \<open>
  What the projections let through: an index has each key once, a phase succeeds when every entry can
  be read and is supported, and what was selected is a visible solid part of the snapshot.
\<close>

section \<open>Phases and indexes\<close>

named_theorems projection_simps \<open>when a step of the projection succeeds\<close>

lemma positioned_Ok [projection_simps]: "positioned p r = Ok a \<longleftrightarrow> r = Ok a"
  by (simp add: positioned_def result_simps)

lemma read_object_Ok [projection_simps]: "read_object v = Ok obj \<longleftrightarrow> v = JObj obj"
  by (cases v) (auto simp: read_object_def ok_or_def)

lemma source_string_Ok [projection_simps]:
  "source_string obj key = Ok s \<longleftrightarrow> read_string obj key = Ok s \<and> bounded_visible_ascii s"
  by (auto simp: source_string_def result_simps)

lemma read_string_Ok [projection_simps]: "read_string obj key = Ok s \<longleftrightarrow> member key obj = Some (JStr s)"
  by (cases "member key obj"; cases "the (member key obj)") (auto simp: read_string_def ok_or_def)

lemma read_boolean_Ok [projection_simps]: "read_boolean obj key = Ok b \<longleftrightarrow> member key obj = Some (JBool b)"
  by (cases "member key obj"; cases "the (member key obj)") (auto simp: read_boolean_def ok_or_def)

lemma read_array_Ok [projection_simps]: "read_array obj key = Ok vs \<longleftrightarrow> member key obj = Some (JArr vs)"
  by (cases "member key obj"; cases "the (member key obj)") (auto simp: read_array_def ok_or_def)

lemma collect_enumerate:
  "collect_results (\<lambda>(p, x). g p x) (enumerate n xs) = Ok ys \<longleftrightarrow>
    length ys = length xs \<and> (\<forall>i < length xs. g (n + i) (xs ! i) = Ok (ys ! i))"
  by (auto simp: collect_results_Ok list_all2_conv_all_nth nth_enumerate_eq)

lemma read_all_Ok [projection_simps]: "read_all f xs = Ok ys \<longleftrightarrow> list_all2 (\<lambda>x y. f x = Ok y) xs ys"
  by (auto simp: read_all_def collect_enumerate projection_simps list_all2_conv_all_nth)

lemma position_of_None: "position_of P xs = None \<longleftrightarrow> list_all (\<lambda>x. \<not> P x) xs"
  by (induction xs) auto

lemma none_at_Ok [projection_simps]: "none_at P xs = Ok u \<longleftrightarrow> list_all (\<lambda>x. \<not> P x) xs"
  by (auto simp: none_at_def position_of_None split: option.splits) (auto simp flip: position_of_None)

lemma phase_Ok [projection_simps]:
  "phase f supported xs = Ok vs \<longleftrightarrow> list_all2 (\<lambda>x v. f x = Ok v \<and> supported v) xs vs"
  by (auto simp: phase_def result_simps projection_simps list_all2_conv_all_nth list_all_length)

text \<open>The rows of an index: each row is an object, and its key is the key of no other row.\<close>

lemma index_rows_Ok:
  assumes "index_rows key rows = Ok index"
  shows "index k = Some obj \<longleftrightarrow> (\<exists>row \<in> set rows. row = JObj obj \<and> key obj = Ok k)"
    and "\<forall>row \<in> set rows. \<exists>obj k. row = JObj obj \<and> key obj = Ok k"
proof -
  have step: "index_row key m row = Ok m' \<longleftrightarrow>
      (\<exists>obj k. row = JObj obj \<and> key obj = Ok k \<and> m k = None \<and> m' = m(k \<mapsto> obj))" for m m' row
    by (auto simp: index_row_def result_simps projection_simps)
  have "(\<forall>k obj. index k = Some obj \<longleftrightarrow>
      m k = Some obj \<or> (\<exists>row \<in> set rows. row = JObj obj \<and> key obj = Ok k))
      \<and> (\<forall>row \<in> set rows. \<exists>obj k. row = JObj obj \<and> key obj = Ok k \<and> m k = None)"
    if "try_fold (index_row key) m rows = Ok index" for m
    using that
  proof (induction rows arbitrary: m)
    case (Cons row rows)
    then obtain obj k where o: "row = JObj obj" "key obj = Ok k" "m k = None"
        "try_fold (index_row key) (m(k \<mapsto> obj)) rows = Ok index"
      by (auto simp: step split: sum.splits)
    show ?case using Cons.IH [OF o(4)] o(1-3) by (auto split: if_splits)
  qed simp
  from this [of Map.empty] assms
  show "index k = Some obj \<longleftrightarrow> (\<exists>row \<in> set rows. row = JObj obj \<and> key obj = Ok k)"
    and "\<forall>row \<in> set rows. \<exists>obj k. row = JObj obj \<and> key obj = Ok k"
    by (auto simp: index_rows_def)
qed

section \<open>Preflight\<close>

definition request_ok :: "selection_request \<Rightarrow> bool" where
  "request_ok r \<longleftrightarrow>
    list_all bounded_visible_ascii [sr_document_id r, sr_version_id r, sr_element_id r,
      eh_encoded_id (sr_configuration_encoding r)]
    \<and> list_all is_sha256 [eh_source_hash (sr_configuration_encoding r), eh_config_hash (sr_configuration_encoding r),
      eh_encoding_context_hash (sr_configuration_encoding r)]
    \<and> 1 \<le> length (sr_selectors r) \<and> length (sr_selectors r) \<le> 256
    \<and> list_all (valid_selector (sr_element_kind r)) (sr_selectors r) \<and> distinct (sr_selectors r)"

lemma preflight_Ok: "preflight r = Ok u \<longleftrightarrow> request_ok r"
proof -
  have "(if \<not> valid_selector k (snd x) \<or> snd x \<in> s then Err (with_position (fst x) invalid_selection)
      else Ok (insert (snd x) s)) = Ok s' \<longleftrightarrow> valid_selector k (snd x) \<and> snd x \<notin> s \<and> s' = insert (snd x) s"
    for k s s' and x :: "nat \<times> selection_selector"
    by auto
  then have "try_fold (\<lambda>seen (position, selector). if \<not> valid_selector k selector \<or> selector \<in> seen
        then Err (with_position position invalid_selection) else Ok (insert selector seen)) {} (enumerate 0 xs) = Ok s
      \<longleftrightarrow> (\<forall>x \<in> set (enumerate 0 xs). valid_selector k (snd x)) \<and> distinct (map snd (enumerate 0 xs))
        \<and> s = snd ` set (enumerate 0 xs)" for k s xs
    by (subst try_fold_seen [where k = snd and P = "\<lambda>x. valid_selector k (snd x)"]) (auto simp: case_prod_beta)
  moreover have "(\<forall>x \<in> set (enumerate 0 xs). P (snd x)) \<longleftrightarrow> list_all P xs" for P and xs :: "selection_selector list"
    by (metis list_all_iff map_snd_enumerate image_eqI imageE set_map)
  ultimately show ?thesis
    by (auto simp: preflight_def request_ok_def Let_def result_simps MAX_SELECTORS_def)
qed

section \<open>Placements\<close>

lemma same_off_by: "same_number v w \<Longrightarrow> off_by v e \<longleftrightarrow> off_by w e"
  unfolding off_by_def by (simp add: same_abs [OF same_sub [OF _ same_refl]])

lemma exact_last_row: "\<not> off_by 0 0" "\<not> off_by F64_ONE F64_ONE"
  by code_simp+

lemma unit_arithmetic:
  "f64_mul 0 0 = 0" "f64_mul 0 F64_ONE = 0" "f64_mul F64_ONE 0 = 0" "f64_mul F64_ONE F64_ONE = F64_ONE"
  "f64_add F64_NEG_ZERO 0 = 0" "f64_add F64_NEG_ZERO F64_ONE = F64_ONE"
  "f64_add 0 0 = 0" "f64_add 0 F64_ONE = F64_ONE" "f64_add F64_ONE 0 = F64_ONE"
  "f64_sub 0 0 = 0" "f64_sub F64_ONE 0 = F64_ONE" "f64_sub F64_ONE F64_ONE = 0"
  by code_simp+

lemma unit_finite: "f64_is_finite 0" "f64_is_finite F64_ONE" "f64_less_eq (f64_abs 0) EPSILON"
  by code_simp+

lemma normalize_placement_last_row:
  "length m = 16 \<Longrightarrow> length (normalize_placement m) = 16 \<and> drop 12 (normalize_placement m) = [0, 0, 0, F64_ONE]"
proof -
  have "\<not> f64_eq F64_ONE 0" by code_simp
  then show "length m = 16 \<Longrightarrow> ?thesis" by (simp add: normalize_placement_def drop_map)
qed

lemma normalize_placement_nth:
  assumes "length m = 16" "i < 12"
  shows "same_number (m ! i) (normalize_placement m ! i)"
proof -
  have "normalize_placement m ! i = (if f64_eq (m ! i) 0 then 0 else m ! i)"
    using assms by (simp add: normalize_placement_def nth_append)
  then show ?thesis by (simp only: same_normalized)
qed

lemma normalize_placement_idem:
  assumes "length m = 16"
  shows "normalize_placement (normalize_placement m) = normalize_placement m"
proof -
  have "\<not> f64_eq F64_ONE 0" by code_simp
  then show ?thesis using assms by (simp add: normalize_placement_def eq_zero f64_is_zero_def take_map)
qed

lemma same_mul_nth:
  "\<lbrakk>length m = 16; i < 12; j < 12\<rbrakk> \<Longrightarrow>
    same_number (f64_mul (m ! i) (m ! j)) (f64_mul (normalize_placement m ! i) (normalize_placement m ! j))"
  by (simp add: same_mul normalize_placement_nth)

lemma same_column_dot:
  "\<lbrakk>length m = 16; i < 3; j < 3\<rbrakk> \<Longrightarrow> same_number (column_dot m i j) (column_dot (normalize_placement m) i j)"
  unfolding column_dot_def by (intro same_sum) (simp add: same_mul_nth)

lemma same_determinant: "length m = 16 \<Longrightarrow> same_number (determinant m) (determinant (normalize_placement m))"
  unfolding determinant_def minor_def
  by (intro same_add same_sub same_mul normalize_placement_nth) simp_all

text \<open>Normalising a placement does not change what the rigidity test computes from its rotation.\<close>

lemma normalized_rigid:
  assumes "proper_rigid m" "length m = 16"
  shows "proper_rigid (normalize_placement m)"
proof -
  have "list_all f64_is_finite (take 12 m)"
    using assms(1) by (auto simp: proper_rigid_def list_all_iff dest: in_set_takeD)
  then have "list_all f64_is_finite (normalize_placement m)"
    by (auto simp: normalize_placement_def list_all_iff unit_finite)
  moreover have "off_by (column_dot (normalize_placement m) i j) e \<longleftrightarrow> off_by (column_dot m i j) e"
    if "i < 3" "j < 3" for i j e
    using same_off_by [OF same_column_dot [OF assms(2) that]] by simp
  moreover have "f64_abs (f64_sub (determinant (normalize_placement m)) F64_ONE)
      = f64_abs (f64_sub (determinant m) F64_ONE)"
    using same_abs [OF same_sub [OF same_determinant [OF assms(2)] same_refl]] by simp
  ultimately show ?thesis
    using assms normalize_placement_last_row [OF assms(2)] exact_last_row by (simp add: proper_rigid_def)
qed

lemma identity_placement_rigid:
  "proper_rigid IDENTITY_PLACEMENT" "length IDENTITY_PLACEMENT = 16"
  "normalize_placement IDENTITY_PLACEMENT = IDENTITY_PLACEMENT" "f64s_eq IDENTITY_PLACEMENT IDENTITY_PLACEMENT"
proof -
  show "proper_rigid IDENTITY_PLACEMENT"
    by (simp add: proper_rigid_def IDENTITY_PLACEMENT_def column_dot_def f64_sum_def determinant_def minor_def
        unit_arithmetic unit_finite exact_last_row)
qed code_simp+

section \<open>Candidates\<close>

text \<open>Which selector of a plan a selector of the request becomes.\<close>

fun names :: "selection_selector \<Rightarrow> authoring_selector \<Rightarrow> bool" where
  "names (Part part_id) (PartStudioPart d m e c p) \<longleftrightarrow> p = part_id"
| "names (Occurrence path) (AssemblyOccurrence d m e c path') \<longleftrightarrow> path' = path"
| "names _ _ \<longleftrightarrow> False"

fun root_selector :: "selection_root \<Rightarrow> configured_leaf \<Rightarrow> authoring_selector \<Rightarrow> bool" where
  "root_selector r l (PartStudioPart d m e c p) \<longleftrightarrow> rt_element_kind r = PartStudioElement
    \<and> PartStudioPart d m e c p = part_selector l \<and> cl_element_id l = rt_element_id r
    \<and> cl_configuration_identity l = rt_configuration_identity r"
| "root_selector r l (AssemblyOccurrence d m e c path) \<longleftrightarrow> rt_element_kind r = AssemblyElement
    \<and> d = rt_document_id r \<and> m = rt_document_microversion r \<and> e = rt_element_id r
    \<and> c = rt_configuration_identity r \<and> length path = 1 \<and> bounded_visible_ascii (path ! 0)"

definition leaf_fits :: "selection_root \<Rightarrow> configured_leaf \<Rightarrow> bool" where
  "leaf_fits r l \<longleftrightarrow> list_all bounded_visible_ascii [cl_document_id l, cl_document_microversion l, cl_element_id l,
      cl_configuration_identity l, cl_part_id l]
    \<and> cl_document_id l = rt_document_id r \<and> cl_document_microversion l = rt_document_microversion r"

definition candidate_fits :: "selection_root \<Rightarrow> candidate \<Rightarrow> bool" where
  "candidate_fits r c \<longleftrightarrow> leaf_fits r (cd_leaf c) \<and> root_selector r (cd_leaf c) (cd_selector c)
    \<and> proper_rigid (cd_matrix c) \<and> length (cd_matrix c) = 16
    \<and> (rt_element_kind r = PartStudioElement \<longrightarrow> cd_matrix c = IDENTITY_PLACEMENT)"

definition root_fits :: "selection_root \<Rightarrow> bool" where
  "root_fits r \<longleftrightarrow> list_all bounded_visible_ascii [rt_document_id r, rt_version_id r, rt_document_microversion r,
    rt_element_id r, rt_configuration_identity r]"

text \<open>A part of the answer that may be planned: a visible solid of the element at the microversion.\<close>

definition plannable_part :: "selection_request \<Rightarrow> string \<Rightarrow> string \<Rightarrow> json \<Rightarrow> string \<Rightarrow> bool" where
  "plannable_part r mid configuration row part_id \<longleftrightarrow> (case row of
      JObj obj \<Rightarrow> read_string obj ''partId'' = Ok part_id \<and> part_identity r mid obj = Ok configuration
        \<and> solid_state obj = Ok True
    | _ \<Rightarrow> False)"

definition part_candidate_of :: "selection_request \<Rightarrow> string \<Rightarrow> string \<Rightarrow> selection_selector \<Rightarrow> candidate \<Rightarrow> bool" where
  "part_candidate_of r mid configuration s c \<longleftrightarrow> (\<exists>part_id. s = Part part_id
    \<and> cd_leaf c = plan_leaf (sr_document_id r) mid (sr_element_id r) configuration part_id
    \<and> cd_selector c = part_selector (cd_leaf c) \<and> cd_matrix c = IDENTITY_PLACEMENT)"

lemma select_part_Ok: "select_part index (p, s) = Ok obj \<longleftrightarrow> (\<exists>part_id. s = Part part_id \<and> index part_id = Some obj)"
  by (cases s) (auto simp: select_part_def result_simps)

lemma part_candidate_Ok:
  "part_candidate r mid (p, obj, configuration) = Ok c \<longleftrightarrow>
    (\<exists>name description part_id. read_string obj ''name'' = Ok name \<and> read_string obj ''description'' = Ok description
      \<and> source_string obj ''partId'' = Ok part_id
      \<and> c = (let l = plan_leaf (sr_document_id r) mid (sr_element_id r) configuration part_id in
          \<lparr>cd_leaf = l, cd_selector = part_selector l, cd_matrix = IDENTITY_PLACEMENT,
            cd_name = name, cd_description = description\<rparr>))"
  by (auto simp: part_candidate_def result_simps positioned_Ok Let_def)

lemma resolve_part_studio_sound:
  assumes "resolve_part_studio r mid response = Ok (rt, cs)"
  obtains rows configuration where "response = JArr rows" "rt = plan_root r mid configuration"
    "list_all2 (part_candidate_of r mid configuration) (sr_selectors r) cs"
    "list_all2 (\<lambda>s c. \<exists>row \<in> set rows. plannable_part r mid configuration row (cl_part_id (cd_leaf c))) (sr_selectors r) cs"
proof -
  obtain rows index selected identities where rows: "as_array response = Some rows"
    and index: "index_rows (\<lambda>obj. source_string obj ''partId'') rows = Ok index"
    and selected: "collect_results (select_part index) (enumerate 0 (sr_selectors r)) = Ok selected"
    and identities: "read_all (part_identity r mid) selected = Ok identities"
    and same: "\<not> list_ex (\<lambda>c. c \<noteq> identities ! 0) identities"
    and solid: "\<exists>states. phase solid_state id selected = Ok states"
    and cs: "collect_results (part_candidate r mid) (enumerate 0 (zip selected identities)) = Ok cs"
    and rt: "rt = plan_root r mid (identities ! 0)"
    using assms by (auto simp: resolve_part_studio_def result_simps split: if_splits)
  have len: "length selected = length (sr_selectors r)" "length identities = length selected" "length cs = length selected"
    using selected identities cs unfolding collect_results_Ok read_all_Ok by (auto simp: list_all2_conv_all_nth)
  let ?c = "identities ! 0"
  have one: "part_candidate_of r mid ?c (sr_selectors r ! i) (cs ! i)
      \<and> (\<exists>row \<in> set rows. plannable_part r mid ?c row (cl_part_id (cd_leaf (cs ! i))))"
    if i: "i < length selected" for i
  proof -
    let ?obj = "selected ! i"
    obtain part_id where s: "sr_selectors r ! i = Part part_id" "index part_id = Some ?obj"
      using selected i by (auto simp: collect_results_Ok list_all2_conv_all_nth nth_enumerate_eq select_part_Ok)
    have row: "JObj ?obj \<in> set rows" "source_string ?obj ''partId'' = Ok part_id"
      using s(2) by (auto simp: index_rows_Ok(1) [OF index])
    have "identities ! i = ?c" using same i len by (auto simp: list_ex_length)
    then have "part_identity r mid ?obj = Ok ?c" "solid_state ?obj = Ok True"
      using identities solid i by (auto simp: projection_simps list_all2_conv_all_nth)
    moreover have "part_candidate r mid (i, ?obj, ?c) = Ok (cs ! i)"
      using cs i len \<open>identities ! i = ?c\<close>
      by (auto simp: collect_results_Ok list_all2_conv_all_nth nth_enumerate_eq)
    ultimately show ?thesis
      using row s(1) by (auto simp: part_candidate_Ok part_candidate_of_def plannable_part_def Let_def plan_leaf_def
          projection_simps intro!: bexI [of _ "JObj ?obj"])
  qed
  show thesis
  proof (rule that [of rows ?c])
    show "response = JArr rows" using rows by (cases response) auto
  qed (use one len rt in \<open>auto simp: list_all2_conv_all_nth\<close>)
qed

end
