(* ===== verification/Selection_Assembly.thy ===== *)
theory Selection_Assembly
  imports Selection_Gates
begin

text \<open>
  What is selected from an assembly: an active, visible, rigidly placed instance of a solid part of
  the same snapshot, which no pattern or parametric relation mentions, and whose carrier is asked for
  its name and description.
\<close>

section \<open>Relations\<close>

definition id_strings :: "json list \<Rightarrow> string list" where
  "id_strings vs = concat (map (\<lambda>v. case v of JStr s \<Rightarrow> [s] | _ \<Rightarrow> []) vs)"

definition array_member :: "string \<Rightarrow> jmap \<Rightarrow> json list" where
  "array_member key obj = (case member key obj of Some (JArr vs) \<Rightarrow> vs | _ \<Rightarrow> [])"

definition string_member :: "string \<Rightarrow> jmap \<Rightarrow> string list" where
  "string_member key obj = (case member key obj of Some (JStr s) \<Rightarrow> [s] | _ \<Rightarrow> [])"

fun object_of :: "json \<Rightarrow> jmap" where
  "object_of (JObj m) = m"
| "object_of _ = []"

fun array_of :: "json \<Rightarrow> json list" where
  "array_of (JArr vs) = vs"
| "array_of _ = []"

definition child_names :: "json \<Rightarrow> string list" where
  "child_names v =
    id_strings (array_member ''instanceIds'' (object_of v)) @ string_member ''seedOccurrence'' (object_of v)"

definition parametric_names :: "json \<Rightarrow> string list" where
  "parametric_names v = string_member ''id'' (object_of v)
    @ concat (map child_names (array_member ''children'' (object_of v)))"

definition seed_names :: "string \<times> json \<Rightarrow> string list" where
  "seed_names = (\<lambda>(seed, ids). seed # id_strings (array_of ids))"

definition pattern_names :: "json \<Rightarrow> string list" where
  "pattern_names v = (case member ''seedToPatternInstances'' (object_of v) of
     Some (JObj seeds) \<Rightarrow> concat (map seed_names seeds) | _ \<Rightarrow> [])"

text \<open>Every name that a relation of the assembly gives an instance.\<close>

definition relation_names :: "jmap \<Rightarrow> string list" where
  "relation_names assembly = concat (map parametric_names (array_member ''parametricInstances'' assembly))
    @ concat (map pattern_names (array_member ''patterns'' assembly))"

definition adds :: "string list \<Rightarrow> found \<Rightarrow> found \<Rightarrow> bool" where
  "adds l a b \<longleftrightarrow> fst b = fst a \<union> set l \<and> snd b = snd a + length l \<and> (snd a \<le> 16384 \<longrightarrow> snd b \<le> 16384)"

lemma adds_trans: "\<lbrakk>adds l a b; adds l' b c\<rbrakk> \<Longrightarrow> adds (l @ l') a c"
  by (auto simp: adds_def)

lemma add_id_adds: "add_id i a = Ok b \<Longrightarrow> adds [i] a b"
  by (cases a) (auto simp: add_id_def adds_def MAX_RELATION_IDS_def split: if_splits)

lemma fold_adds:
  assumes "\<And>s v s'. f s v = Ok s' \<Longrightarrow> adds (names_of v) (snd s) (snd s')"
    and "try_fold f s vs = Ok s'"
  shows "adds (concat (map names_of vs)) (snd s) (snd s')"
  using assms(2)
proof (induction vs arbitrary: s)
  case (Cons v vs)
  then obtain t where t: "f s v = Ok t" "try_fold f t vs = Ok s'" by (auto split: sum.splits)
  show ?case using adds_trans [OF assms(1) [OF t(1)] Cons.IH [OF t(2)]] by simp
qed (simp add: adds_def)

lemma add_unique_adds: "add_unique s v = Ok s' \<Longrightarrow> adds (id_strings [v]) (snd s) (snd s')"
  by (cases s; cases v) (auto simp: add_unique_def result_simps id_strings_def dest: add_id_adds split: if_splits)

lemma add_uniques_adds: "try_fold add_unique s vs = Ok s' \<Longrightarrow> adds (id_strings vs) (snd s) (snd s')"
  using fold_adds [of add_unique "\<lambda>v. id_strings [v]" s vs s'] add_unique_adds by (simp add: id_strings_def)

lemma add_child_adds:
  assumes "add_child s v = Ok s'"
  shows "adds (child_names v) (snd s) (snd s')"
proof -
  obtain child ids t where o: "v = JObj child" "member ''instanceIds'' child = Some (JArr ids)"
      "try_fold add_unique s ids = Ok t"
    and rest: "member ''seedOccurrence'' child = None \<and> s' = t \<or>
      (\<exists>i. member ''seedOccurrence'' child = Some (JStr i) \<and> add_id i (snd t) = Ok (snd s'))"
    using assms by (auto simp: add_child_def result_simps projection_simps split: if_splits prod.splits)
  show ?thesis
    using add_uniques_adds [OF o(3)] rest
    by (auto simp: child_names_def o array_member_def string_member_def
        intro!: adds_trans [OF add_uniques_adds [OF o(3)] add_id_adds])
qed

lemma add_parametric_adds:
  assumes "add_parametric s v = Ok s'"
  shows "adds (parametric_names v) (snd s) (snd s')"
proof -
  obtain relation i a children t where o: "v = JObj relation" "member ''id'' relation = Some (JStr i)"
      "add_id i (snd s) = Ok a" "member ''children'' relation = Some (JArr children)"
      "try_fold add_child ({}, a) children = Ok t" "snd s' = snd t"
    using assms by (cases s) (auto simp: add_parametric_def result_simps projection_simps split: if_splits prod.splits)
  show ?thesis
    using adds_trans [OF add_id_adds [OF o(3)]] fold_adds [OF add_child_adds o(5)]
    by (simp add: parametric_names_def o array_member_def string_member_def)
qed

lemma add_seed_adds:
  assumes "add_seed s sv = Ok s'"
  shows "adds (seed_names sv) (snd s) (snd s')"
proof -
  obtain a ids where o: "add_id (fst sv) (snd s) = Ok a" "as_array (snd sv) = Some ids"
      "try_fold add_unique (fst s, a) ids = Ok s'"
    using assms by (cases s; cases sv) (auto simp: add_seed_def result_simps)
  have "array_of (snd sv) = ids" using o(2) by (cases "snd sv") auto
  then show ?thesis
    using adds_trans [OF add_id_adds [OF o(1)]] add_uniques_adds [OF o(3)]
    by (simp add: seed_names_def case_prod_beta)
qed

lemma add_pattern_adds:
  assumes "add_pattern s v = Ok s'"
  shows "adds (pattern_names v) (snd s) (snd s')"
proof -
  obtain relation seeds t where o: "v = JObj relation"
      "member ''seedToPatternInstances'' relation = Some (JObj seeds)"
      "try_fold add_seed ({}, snd s) seeds = Ok t" "snd s' = snd t"
    using assms by (cases s) (auto simp: add_pattern_def result_simps projection_simps split: if_splits prod.splits)
  show ?thesis
    using fold_adds [OF add_seed_adds o(3)] by (simp add: pattern_names_def o)
qed

lemma relation_ids_Ok:
  assumes "relation_ids assembly = Ok ids"
  shows "ids = set (relation_names assembly)" "length (relation_names assembly) \<le> 16384"
proof -
  obtain rs s ps s' where o: "member ''parametricInstances'' assembly = Some (JArr rs)"
      "try_fold add_parametric ({}, {}, 0) rs = Ok s" "member ''patterns'' assembly = Some (JArr ps)"
      "try_fold add_pattern ({}, snd s) ps = Ok s'" "ids = fst (snd s')"
    using assms by (auto simp: relation_ids_def result_simps projection_simps split: prod.splits)
  have "adds (relation_names assembly) ({}, 0) (snd s')"
    using adds_trans [OF fold_adds [OF add_parametric_adds o(2)]] fold_adds [OF add_pattern_adds o(4)]
    by (simp add: relation_names_def o array_member_def)
  then show "ids = set (relation_names assembly)" "length (relation_names assembly) \<le> 16384"
    by (auto simp: adds_def o)
qed

section \<open>Occurrences\<close>

definition objects_of :: "json list \<Rightarrow> jmap list" where
  "objects_of rows = concat (map (\<lambda>v. case v of JObj m \<Rightarrow> [m] | _ \<Rightarrow> []) rows)"

lemma ball_list_update: "\<lbrakk>\<And>x. x \<in> set xs \<Longrightarrow> P x; P y\<rbrakk> \<Longrightarrow> \<forall>x \<in> set (xs[n := y]). P x"
  using set_update_subset_insert [of xs n y] by blast

lemma bex_list_update:
  assumes "n < length xs" "\<exists>x \<in> set xs. P x" "P (xs ! n) \<Longrightarrow> P y"
  shows "\<exists>x \<in> set (xs[n := y]). P x"
proof -
  obtain j where j: "j < length xs" "P (xs ! j)" using assms(2) by (auto simp: in_set_conv_nth)
  have "P (xs[n := y] ! j)" using j assms(1,3) by (cases "j = n") simp_all
  then show ?thesis using j(1) by (intro bexI [of _ "xs[n := y] ! j"]) simp_all
qed

lemma in_objects_of [simp]: "obj \<in> set (objects_of rows) \<longleftrightarrow> JObj obj \<in> set rows"
  by (auto simp: objects_of_def split: json.splits)

lemma list_ex_objects: "list_ex P (objects_of rows) \<longleftrightarrow> (\<exists>obj. JObj obj \<in> set rows \<and> P obj)"
  by (auto simp: list_ex_iff)

text \<open>
  An instance may be planned: it is there, of type part, neither deleted nor suppressed, and it is the
  given part of the document at the microversion. An occurrence may be: it is not hidden, and its
  transform is the given rigid one.
\<close>

definition plannable_instance :: "string \<Rightarrow> string \<Rightarrow> configured_leaf \<Rightarrow> jmap \<Rightarrow> bool" where
  "plannable_instance d m l i \<longleftrightarrow> member ''status'' i = None \<and> read_string i ''type'' = Ok ''Part''
    \<and> read_boolean i ''suppressed'' = Ok False \<and> projected_leaf i = Ok l
    \<and> cl_document_id l = d \<and> cl_document_microversion l = m"

definition plannable_occurrence :: "(string \<Rightarrow> f64) \<Rightarrow> f64 list \<Rightarrow> jmap \<Rightarrow> bool" where
  "plannable_occurrence read matrix x \<longleftrightarrow> read_boolean x ''hidden'' = Ok False
    \<and> project_transform read x = Ok matrix \<and> proper_rigid matrix"

definition plannable_path ::
  "(string \<Rightarrow> f64) \<Rightarrow> jmap \<Rightarrow> jmap \<Rightarrow> string \<Rightarrow> string \<Rightarrow> string list \<Rightarrow> configured_leaf \<Rightarrow> f64 list \<Rightarrow> bool" where
  "plannable_path read envelope assembly d m path l matrix \<longleftrightarrow>
    path ! 0 \<notin> set (relation_names assembly)
    \<and> list_ex (\<lambda>i. read_string i ''id'' = Ok (path ! 0) \<and> plannable_instance d m l i)
        (objects_of (array_member ''instances'' assembly))
    \<and> list_ex (\<lambda>x. occurrence_path x = Ok path \<and> plannable_occurrence read matrix x)
        (objects_of (array_member ''occurrences'' assembly))
    \<and> list_ex (\<lambda>part. projected_leaf part = Ok l \<and> read_string part ''bodyType'' = Ok ''solid'')
        (objects_of (array_member ''parts'' envelope))"

lemma deleted_state_Ok [projection_simps]: "deleted_state i = Ok False \<longleftrightarrow> member ''status'' i = None"
  by (auto simp: deleted_state_def split: option.splits)

lemma part_type_Ok [projection_simps]: "part_type i = Ok True \<longleftrightarrow> read_string i ''type'' = Ok ''Part''"
  by (auto simp: part_type_def result_simps)

lemma solid_body_Ok [projection_simps]: "solid_body i = Ok True \<longleftrightarrow> read_string i ''bodyType'' = Ok ''solid''"
  by (auto simp: solid_body_def result_simps)

lemma select_occurrences_sound:
  assumes "select_occurrences r assembly instances occurrences = Ok selected"
  shows "list_all2 (\<lambda>s (i, x). \<exists>path. s = Occurrence path \<and> path ! 0 \<notin> set (relation_names assembly)
      \<and> JObj i \<in> set instances \<and> read_string i ''id'' = Ok (path ! 0)
      \<and> JObj x \<in> set occurrences \<and> occurrence_path x = Ok path) (sr_selectors r) selected"
    and "length (relation_names assembly) \<le> 16384"
proof -
  obtain instance_index occurrence_index exclusions found where
    ii: "index_rows (\<lambda>obj. source_string obj ''id'') instances = Ok instance_index"
    and oi: "index_rows occurrence_path occurrences = Ok occurrence_index"
    and e: "relation_ids assembly = Ok exclusions"
    and found: "collect_results (select_occurrence instance_index occurrence_index)
        (enumerate 0 (sr_selectors r)) = Ok found"
    and some: "none_at (\<lambda>x. x = None) found = Ok ()"
    and out: "none_at (excluded exclusions) (sr_selectors r) = Ok ()" and selected: "selected = map the found"
    using assms by (auto simp: select_occurrences_def result_simps)
  have "\<exists>path. sr_selectors r ! n = Occurrence path \<and> path ! 0 \<notin> set (relation_names assembly)
      \<and> JObj (fst (the (found ! n))) \<in> set instances \<and> read_string (fst (the (found ! n))) ''id'' = Ok (path ! 0)
      \<and> JObj (snd (the (found ! n))) \<in> set occurrences \<and> occurrence_path (snd (the (found ! n))) = Ok path"
    if n: "n < length (sr_selectors r)" for n
  proof -
    have len: "length found = length (sr_selectors r)"
      using found by (auto simp: collect_results_Ok list_all2_conv_all_nth)
    obtain y where y: "found ! n = Some y" using some n len by (fastforce simp: projection_simps list_all_length)
    moreover have "select_occurrence instance_index occurrence_index (n, sr_selectors r ! n) = Ok (found ! n)"
      using found n by (auto simp: collect_results_Ok list_all2_conv_all_nth nth_enumerate_eq)
    ultimately obtain path where path: "sr_selectors r ! n = Occurrence path"
        "instance_index (path ! 0) = Some (fst y)" "occurrence_index path = Some (snd y)"
      by (auto simp: select_occurrence_def split: selection_selector.splits option.splits)
    have "\<not> excluded exclusions (sr_selectors r ! n)"
      using out n by (auto simp: projection_simps list_all_length)
    then have "path ! 0 \<notin> set (relation_names assembly)"
      by (simp add: excluded_def path relation_ids_Ok(1) [OF e])
    then show ?thesis
      using path(2,3) by (auto simp: path(1) y index_rows_Ok(1) [OF ii] index_rows_Ok(1) [OF oi] projection_simps)
  qed
  moreover have "length found = length (sr_selectors r)"
    using found by (auto simp: collect_results_Ok list_all2_conv_all_nth)
  ultimately show "list_all2 (\<lambda>s (i, x). \<exists>path. s = Occurrence path \<and> path ! 0 \<notin> set (relation_names assembly)
      \<and> JObj i \<in> set instances \<and> read_string i ''id'' = Ok (path ! 0)
      \<and> JObj x \<in> set occurrences \<and> occurrence_path x = Ok path) (sr_selectors r) selected"
    by (auto simp: selected list_all2_conv_all_nth case_prod_beta)
  show "length (relation_names assembly) \<le> 16384" by (rule relation_ids_Ok(2) [OF e])
qed

lemma project_selected_sound:
  assumes "project_selected read d m selected = Ok (leaves, matrices)"
  shows "length leaves = length selected" "length matrices = length selected"
    "\<forall>n < length selected. plannable_instance d m (leaves ! n) (fst (selected ! n))
      \<and> plannable_occurrence read (matrices ! n) (snd (selected ! n))"
  using assms
  by (auto simp: project_selected_def result_simps projection_simps list_all2_conv_all_nth
      plannable_instance_def plannable_occurrence_def)

lemma join_parts_sound:
  assumes "join_parts parts leaves = Ok u" and "l \<in> set leaves"
  shows "\<exists>part. JObj part \<in> set parts \<and> projected_leaf part = Ok l \<and> read_string part ''bodyType'' = Ok ''solid''"
proof -
  obtain index joined bodies where index: "index_rows projected_leaf parts = Ok index"
    and joined: "collect_results (\<lambda>(p, l). ok_or (index l) (with_position p malformed)) (enumerate 0 leaves) = Ok joined"
    and bodies: "phase solid_body id joined = Ok bodies"
    using assms(1) by (auto simp: join_parts_def result_simps)
  obtain n where n: "n < length leaves" "l = leaves ! n" using assms(2) by (auto simp: in_set_conv_nth)
  have "index l = Some (joined ! n)" "length joined = length leaves"
    using joined n by (auto simp: collect_enumerate ok_or_Ok)
  moreover have "read_string (joined ! n) ''bodyType'' = Ok ''solid''"
    using bodies n \<open>length joined = length leaves\<close>
    by (auto simp: phase_Ok list_all2_conv_all_nth solid_body_Ok)
  ultimately show ?thesis by (auto simp: index_rows_Ok(1) [OF index])
qed

text \<open>The candidate of an occurrence, before its carrier was asked.\<close>

definition occurrence_candidate_of ::
  "(string \<Rightarrow> f64) \<Rightarrow> jmap \<Rightarrow> jmap \<Rightarrow> selection_root \<Rightarrow> selection_selector \<Rightarrow> candidate \<Rightarrow> bool" where
  "occurrence_candidate_of read envelope assembly rt s c \<longleftrightarrow> (\<exists>path matrix. s = Occurrence path
    \<and> plannable_path read envelope assembly (rt_document_id rt) (rt_document_microversion rt) path (cd_leaf c) matrix
    \<and> cd_selector c = AssemblyOccurrence (rt_document_id rt) (rt_document_microversion rt) (rt_element_id rt)
        (rt_configuration_identity rt) path
    \<and> cd_matrix c = normalize_placement matrix)"

lemma assembly_candidate_Ok:
  "assembly_candidate d m e configuration (s, l, matrix) = Ok c \<longleftrightarrow> (\<exists>path. s = Occurrence path
    \<and> c = \<lparr>cd_leaf = l, cd_selector = AssemblyOccurrence d m e configuration path,
        cd_matrix = normalize_placement matrix, cd_name = [], cd_description = []\<rparr>)"
  by (cases s) (auto simp: assembly_candidate_def)

lemma resolve_assembly_sound:
  assumes "resolve_assembly read r mid response = Ok a"
  obtains envelope assembly configuration where "response = JObj envelope"
    "member ''rootAssembly'' envelope = Some (JObj assembly)" "length (relation_names assembly) \<le> 16384"
    "ar_root a = plan_root r mid configuration" "bounded_visible_ascii configuration" "bounded_visible_ascii mid"
    "list_all2 (occurrence_candidate_of read envelope assembly (ar_root a)) (sr_selectors r) (ar_candidates a)"
    "ar_carriers a = carriers_of (map cd_leaf (ar_candidates a))"
proof -
  obtain envelope assembly d m e configuration instances occurrences parts selected leaves matrices candidates where
    o: "response = JObj envelope" "member ''rootAssembly'' envelope = Some (JObj assembly)"
      "bounded_visible_ascii m" "bounded_visible_ascii configuration"
      "member ''instances'' assembly = Some (JArr instances)"
      "member ''occurrences'' assembly = Some (JArr occurrences)" "member ''parts'' envelope = Some (JArr parts)"
    and same: "d = sr_document_id r" "m = mid" "e = sr_element_id r"
    and selected: "select_occurrences r assembly instances occurrences = Ok selected"
    and projected: "project_selected read d m selected = Ok (leaves, matrices)"
    and joined: "join_parts parts leaves = Ok ()"
    and cs: "collect_results (assembly_candidate d m e configuration) (zip (sr_selectors r) (zip leaves matrices)) = Ok candidates"
    and a: "a = \<lparr>ar_root = plan_root r mid configuration, ar_candidates = candidates, ar_carriers = carriers_of leaves\<rparr>"
    using assms by (auto simp: resolve_assembly_def result_simps projection_simps split: if_splits)
  have len: "length selected = length (sr_selectors r)" "length leaves = length selected" "length matrices = length selected"
      "length candidates = length selected"
    using select_occurrences_sound(1) [OF selected] project_selected_sound(1,2) [OF projected] cs
    by (auto simp: collect_results_Ok list_all2_conv_all_nth)
  have one: "cd_leaf (candidates ! n) = leaves ! n
      \<and> occurrence_candidate_of read envelope assembly (ar_root a) (sr_selectors r ! n) (candidates ! n)"
    if n: "n < length selected" for n
  proof -
    obtain path where path: "sr_selectors r ! n = Occurrence path" "path ! 0 \<notin> set (relation_names assembly)"
        "JObj (fst (selected ! n)) \<in> set instances" "read_string (fst (selected ! n)) ''id'' = Ok (path ! 0)"
        "JObj (snd (selected ! n)) \<in> set occurrences" "occurrence_path (snd (selected ! n)) = Ok path"
      using select_occurrences_sound(1) [OF selected] n len by (auto simp: list_all2_conv_all_nth case_prod_beta)
    have ok: "plannable_instance d m (leaves ! n) (fst (selected ! n))"
        "plannable_occurrence read (matrices ! n) (snd (selected ! n))"
      using project_selected_sound(3) [OF projected] n by auto
    obtain part where part: "JObj part \<in> set parts" "projected_leaf part = Ok (leaves ! n)"
        "read_string part ''bodyType'' = Ok ''solid''"
      using join_parts_sound [OF joined, of "leaves ! n"] n len by auto
    have "plannable_path read envelope assembly d m path (leaves ! n) (matrices ! n)"
      unfolding plannable_path_def list_ex_objects
      using path(2-6) ok part by (simp add: array_member_def o) blast
    moreover have "assembly_candidate d m e configuration (Occurrence path, leaves ! n, matrices ! n) = Ok (candidates ! n)"
      using cs n len path(1) by (auto simp: collect_results_Ok list_all2_conv_all_nth)
    ultimately show ?thesis
      using path(1) same by (auto simp: assembly_candidate_Ok occurrence_candidate_of_def a plan_root_def)
  qed
  then have "map cd_leaf candidates = leaves" using len by (auto intro: nth_equalityI)
  then show thesis
    using one len o same select_occurrences_sound(2) [OF selected]
    by (intro that [of envelope assembly configuration]) (auto simp: list_all2_conv_all_nth a)
qed

section \<open>Carriers\<close>

text \<open>The groups partition the positions by the carriers of their leaves.\<close>

definition grouped :: "configured_leaf list \<Rightarrow> carrier_group list \<times> (carrier_key \<rightharpoonup> nat) \<Rightarrow> bool" where
  "grouped leaves s \<longleftrightarrow>
    (\<forall>k g. snd s k = Some g \<longrightarrow> g < length (fst s) \<and> cg_key (fst s ! g) = k)
    \<and> (\<forall>g \<in> set (fst s). cg_positions g \<noteq> [] \<and>
        (\<forall>p \<in> set (cg_positions g). p < length leaves \<and> carrier_key_of (leaves ! p) = cg_key g))
    \<and> (\<forall>p < length leaves. \<exists>g \<in> set (fst s). p \<in> set (cg_positions g))"

lemma grouped_push:
  assumes "grouped leaves s"
  shows "grouped (leaves @ [l]) (push_carrier s (length leaves, l))"
proof -
  obtain gs index where s: "s = (gs, index)" by (cases s)
  show ?thesis
  proof (cases "index (carrier_key_of l)")
    case None
    have "push_carrier s (length leaves, l) =
        (gs @ [\<lparr>cg_key = carrier_key_of l, cg_positions = [length leaves]\<rparr>], index(carrier_key_of l \<mapsto> length gs))"
      by (simp add: push_carrier_def s None Let_def list_update_append)
    then show ?thesis
      using assms by (auto simp: grouped_def s nth_append less_Suc_eq)
  next
    case (Some n)
    then have n: "n < length gs" "cg_key (gs ! n) = carrier_key_of l"
      using assms by (auto simp: grouped_def s)
    let ?g = "(gs ! n)\<lparr>cg_positions := cg_positions (gs ! n) @ [length leaves]\<rparr>"
    have "push_carrier s (length leaves, l) = (gs[n := ?g], index(carrier_key_of l \<mapsto> n))"
      using n by (simp add: push_carrier_def s Some Let_def)
    moreover have "grouped (leaves @ [l]) (gs[n := ?g], index(carrier_key_of l \<mapsto> n))"
      unfolding grouped_def
    proof (intro conjI)
      show "\<forall>k g. snd (gs[n := ?g], index(carrier_key_of l \<mapsto> n)) k = Some g \<longrightarrow>
          g < length (fst (gs[n := ?g], index(carrier_key_of l \<mapsto> n)))
          \<and> cg_key (fst (gs[n := ?g], index(carrier_key_of l \<mapsto> n)) ! g) = k"
        using assms n by (auto simp: grouped_def s nth_list_update)
      have old: "cg_positions g \<noteq> [] \<and> (\<forall>p \<in> set (cg_positions g).
          p < length (leaves @ [l]) \<and> carrier_key_of ((leaves @ [l]) ! p) = cg_key g)" if "g \<in> set gs" for g
        using assms that by (fastforce simp: grouped_def s nth_append)
      moreover have "cg_positions ?g \<noteq> [] \<and> (\<forall>p \<in> set (cg_positions ?g).
          p < length (leaves @ [l]) \<and> carrier_key_of ((leaves @ [l]) ! p) = cg_key ?g)"
        using old [of "gs ! n"] n by auto
      ultimately show "\<forall>g \<in> set (fst (gs[n := ?g], index(carrier_key_of l \<mapsto> n))). cg_positions g \<noteq> [] \<and>
          (\<forall>p \<in> set (cg_positions g). p < length (leaves @ [l]) \<and> carrier_key_of ((leaves @ [l]) ! p) = cg_key g)"
        unfolding fst_conv by (rule ball_list_update)
      have "\<exists>g \<in> set (gs[n := ?g]). p \<in> set (cg_positions g)" if "p < length leaves" for p
      proof -
        have "\<exists>g \<in> set gs. p \<in> set (cg_positions g)"
          using assms that unfolding grouped_def s fst_conv by blast
        then show ?thesis by (rule bex_list_update [OF n(1)]) simp
      qed
      moreover have "\<exists>g \<in> set (gs[n := ?g]). length leaves \<in> set (cg_positions g)"
        using n by (intro bexI [of _ ?g]) (auto simp: set_update_memI)
      ultimately show "\<forall>p < length (leaves @ [l]). \<exists>g \<in> set (fst (gs[n := ?g], index(carrier_key_of l \<mapsto> n))).
          p \<in> set (cg_positions g)"
        by (auto simp: less_Suc_eq)
    qed
    ultimately show ?thesis by simp
  qed
qed

lemma carriers_grouped: "grouped leaves (foldl push_carrier ([], Map.empty) (enumerate 0 leaves))"
proof (induction leaves rule: rev_induct)
  case Nil
  then show ?case by (simp add: grouped_def)
next
  case (snoc l leaves)
  then show ?case using grouped_push [OF snoc] by (simp add: enumerate_append_eq)
qed

lemma carriers_of_positions:
  assumes "g \<in> set (carriers_of leaves)"
  shows "cg_positions g \<noteq> []"
    and "p \<in> set (cg_positions g) \<Longrightarrow> p < length leaves \<and> carrier_key_of (leaves ! p) = cg_key g"
  using carriers_grouped [of leaves] assms unfolding grouped_def carriers_of_def by blast+

lemma carriers_of_cover: "p < length leaves \<Longrightarrow> \<exists>g \<in> set (carriers_of leaves). p \<in> set (cg_positions g)"
  using carriers_grouped [of leaves] unfolding grouped_def carriers_of_def by blast

section \<open>Names and descriptions\<close>

definition same_candidate :: "candidate \<Rightarrow> candidate \<Rightarrow> bool" where
  "same_candidate c c' \<longleftrightarrow> cd_leaf c' = cd_leaf c \<and> cd_selector c' = cd_selector c \<and> cd_matrix c' = cd_matrix c"

text \<open>The candidate has the name and description of a visible solid part in its carrier's answer.\<close>

definition carried :: "planning_remote \<Rightarrow> candidate \<Rightarrow> bool" where
  "carried remote c \<longleftrightarrow> (let l = cd_leaf c in
    case pr_parts remote (cl_document_id l) (cl_document_microversion l) (cl_element_id l) (cl_configuration_identity l) of
      Ok (JArr rows) \<Rightarrow> list_ex (\<lambda>obj.
          carrier_row_key obj = Ok (cl_element_id l, cl_document_microversion l, cl_part_id l)
          \<and> solid_state obj = Ok True \<and> read_string obj ''name'' = Ok (cd_name c)
          \<and> read_string obj ''description'' = Ok (cd_description c)) (objects_of rows)
    | _ \<Rightarrow> False)"

lemma commit_fold:
  assumes "\<forall>(p, n, d) \<in> set ms. p < length cs" "\<forall>(p, n, d) \<in> set ms. good p n d"
  shows "length (foldl commit_metadata cs ms) = length cs
    \<and> (\<forall>q < length cs. same_candidate (cs ! q) (foldl commit_metadata cs ms ! q)
      \<and> (if q \<in> fst ` set ms
         then good q (cd_name (foldl commit_metadata cs ms ! q)) (cd_description (foldl commit_metadata cs ms ! q))
         else foldl commit_metadata cs ms ! q = cs ! q))"
  using assms
proof (induction ms rule: rev_induct)
  case Nil
  then show ?case by (simp add: same_candidate_def)
next
  case (snoc m ms)
  obtain p n d where m: "m = (p, n, d)" by (cases m)
  let ?ds = "foldl commit_metadata cs ms"
  have step: "foldl commit_metadata cs (ms @ [m]) = ?ds[p := (?ds ! p)\<lparr>cd_name := n, cd_description := d\<rparr>]"
    by (simp add: m) (simp add: commit_metadata_def)
  have ih: "length ?ds = length cs" "\<And>q. q < length cs \<Longrightarrow> same_candidate (cs ! q) (?ds ! q)"
      "\<And>q. \<lbrakk>q < length cs; q \<in> fst ` set ms\<rbrakk> \<Longrightarrow> good q (cd_name (?ds ! q)) (cd_description (?ds ! q))"
      "\<And>q. \<lbrakk>q < length cs; q \<notin> fst ` set ms\<rbrakk> \<Longrightarrow> ?ds ! q = cs ! q"
    using snoc by auto
  have new: "p < length cs" "good p n d" using snoc.prems by (auto simp: m)
  show ?case
    unfolding step
  proof (intro conjI allI impI)
    show "length (?ds[p := (?ds ! p)\<lparr>cd_name := n, cd_description := d\<rparr>]) = length cs" using ih(1) by simp
  next
    fix q assume q: "q < length cs"
    show "same_candidate (cs ! q) (?ds[p := (?ds ! p)\<lparr>cd_name := n, cd_description := d\<rparr>] ! q)"
      using ih(1,2) q new(1) by (cases "q = p") (auto simp: same_candidate_def)
    show "if q \<in> fst ` set (ms @ [m])
        then good q (cd_name (?ds[p := (?ds ! p)\<lparr>cd_name := n, cd_description := d\<rparr>] ! q))
          (cd_description (?ds[p := (?ds ! p)\<lparr>cd_name := n, cd_description := d\<rparr>] ! q))
        else ?ds[p := (?ds ! p)\<lparr>cd_name := n, cd_description := d\<rparr>] ! q = cs ! q"
    proof (cases "q = p")
      case True
      then show ?thesis using ih(1) new by (simp add: m)
    next
      case False
      then show ?thesis using ih(3,4) [OF q] by (cases "q \<in> fst ` set ms") (simp_all add: m)
    qed
  qed
qed

lemma resolve_carrier_sound:
  assumes "resolve_carrier (JArr rows) g cs = Ok cs'" and "\<forall>p \<in> set (cg_positions g). p < length cs"
  shows "length cs' = length cs"
    and "q < length cs \<Longrightarrow> same_candidate (cs ! q) (cs' ! q)"
    and "\<lbrakk>q < length cs; q \<notin> set (cg_positions g)\<rbrakk> \<Longrightarrow> cs' ! q = cs ! q"
    and "\<lbrakk>q < length cs; q \<in> set (cg_positions g)\<rbrakk> \<Longrightarrow> \<exists>obj. JObj obj \<in> set rows \<and> solid_state obj = Ok True
      \<and> carrier_row_key obj = Ok (cl_element_id (cd_leaf (cs ! q)), cl_document_microversion (cd_leaf (cs ! q)),
          cl_part_id (cd_leaf (cs ! q)))
      \<and> read_string obj ''name'' = Ok (cd_name (cs' ! q))
      \<and> read_string obj ''description'' = Ok (cd_description (cs' ! q))"
proof -
  obtain index joined states ms where index: "index_rows carrier_row_key rows = Ok index"
    and joined: "collect_results (join_carrier index cs) (cg_positions g) = Ok joined"
    and states: "collect_results (\<lambda>(p, obj). positioned p (solid_state obj)) joined = Ok states"
    and all: "position_of Not states = None"
    and ms: "collect_results carrier_metadata joined = Ok ms" and cs': "cs' = foldl commit_metadata cs ms"
    using assms(1) by (auto simp: resolve_carrier_def result_simps split: option.splits)
  let ?key = "\<lambda>p. (cl_element_id (cd_leaf (cs ! p)), cl_document_microversion (cd_leaf (cs ! p)), cl_part_id (cd_leaf (cs ! p)))"
  let ?good = "\<lambda>p n d. \<exists>obj. JObj obj \<in> set rows \<and> solid_state obj = Ok True \<and> carrier_row_key obj = Ok (?key p)
      \<and> read_string obj ''name'' = Ok n \<and> read_string obj ''description'' = Ok d"
  have "fst m = cg_positions g ! i \<and> ?good (fst m) (fst (snd m)) (snd (snd m))"
    if i: "i < length (cg_positions g)" and m: "m = ms ! i" for i m
  proof -
    have j: "join_carrier index cs (cg_positions g ! i) = Ok (joined ! i)" "length joined = length (cg_positions g)"
      using joined i by (auto simp: collect_results_Ok list_all2_conv_all_nth)
    then obtain obj where obj: "joined ! i = (cg_positions g ! i, obj)" "JObj obj \<in> set rows"
        "carrier_row_key obj = Ok (?key (cg_positions g ! i))"
      by (cases "joined ! i") (auto simp: join_carrier_def Let_def result_simps index_rows_Ok(1) [OF index])
    moreover have "carrier_metadata (joined ! i) = Ok m" "solid_state (snd (joined ! i)) = Ok True"
      using ms states all i m j(2)
      by (auto simp: collect_results_Ok list_all2_conv_all_nth position_of_None list_all_length positioned_Ok case_prod_beta)
    ultimately show ?thesis
      by (auto simp: carrier_metadata_def result_simps positioned_Ok)
  qed
  note one = this
  have len: "length ms = length (cg_positions g)"
    using joined ms by (auto simp: collect_results_Ok list_all2_conv_all_nth)
  have positions: "map fst ms = cg_positions g"
    by (rule nth_equalityI) (simp_all add: len one)
  then have ps: "set (cg_positions g) = fst ` set ms" by (metis set_map)
  have "?good (fst m) (fst (snd m)) (snd (snd m))" if m: "m \<in> set ms" for m
  proof -
    obtain i where "i < length ms" "m = ms ! i" using m by (auto simp: in_set_conv_nth)
    with conjunct2 [OF one [of i m]] len show ?thesis by simp
  qed
  then have good: "\<forall>(p, n, d) \<in> set ms. ?good p n d" by (simp add: case_prod_beta)
  have small: "\<forall>(p, n, d) \<in> set ms. p < length cs" using assms(2) ps by (auto simp: case_prod_beta)
  from commit_fold [OF small good] ps
  show "length cs' = length cs"
    and "q < length cs \<Longrightarrow> same_candidate (cs ! q) (cs' ! q)"
    and "\<lbrakk>q < length cs; q \<notin> set (cg_positions g)\<rbrakk> \<Longrightarrow> cs' ! q = cs ! q"
    and "\<lbrakk>q < length cs; q \<in> set (cg_positions g)\<rbrakk> \<Longrightarrow> \<exists>obj. JObj obj \<in> set rows \<and> solid_state obj = Ok True
      \<and> carrier_row_key obj = Ok (?key q) \<and> read_string obj ''name'' = Ok (cd_name (cs' ! q))
      \<and> read_string obj ''description'' = Ok (cd_description (cs' ! q))"
    unfolding cs' ps by auto
qed

definition group_of :: "candidate list \<Rightarrow> carrier_group \<Rightarrow> bool" where
  "group_of cs g \<longleftrightarrow> (\<forall>p \<in> set (cg_positions g). p < length cs \<and> carrier_key_of (cd_leaf (cs ! p)) = cg_key g)"

lemma join_group_sound:
  assumes "join_group remote cs g = Ok cs'" and "group_of cs g"
  shows "length cs' = length cs"
    and "q < length cs \<Longrightarrow> same_candidate (cs ! q) (cs' ! q)"
    and "\<lbrakk>q < length cs; q \<notin> set (cg_positions g)\<rbrakk> \<Longrightarrow> cs' ! q = cs ! q"
    and "\<lbrakk>q < length cs; q \<in> set (cg_positions g)\<rbrakk> \<Longrightarrow> carried remote (cs' ! q)"
proof -
  let ?k = "cg_key g"
  obtain response where response: "pr_parts remote (ck_document_id ?k) (ck_microversion ?k) (ck_element_id ?k)
      (ck_configuration ?k) = Ok response" "resolve_carrier response g cs = Ok cs'"
    using assms(1) by (auto simp: join_group_def Let_def result_simps)
  then obtain rows where rows: "response = JArr rows"
    by (cases response) (auto simp: resolve_carrier_def and_then_def ok_or_def)
  have small: "\<forall>p \<in> set (cg_positions g). p < length cs" using assms(2) by (simp add: group_of_def)
  note sound = resolve_carrier_sound [OF response(2) [unfolded rows] small]
  show "length cs' = length cs" and same: "q < length cs \<Longrightarrow> same_candidate (cs ! q) (cs' ! q)"
    and "\<lbrakk>q < length cs; q \<notin> set (cg_positions g)\<rbrakk> \<Longrightarrow> cs' ! q = cs ! q"
    using sound(1-3) by auto
  assume q: "q < length cs" "q \<in> set (cg_positions g)"
  then have key: "carrier_key_of (cd_leaf (cs ! q)) = ?k" using assms(2) by (simp add: group_of_def)
  have leaf: "cd_leaf (cs' ! q) = cd_leaf (cs ! q)" using same [OF q(1)] by (simp add: same_candidate_def)
  show "carried remote (cs' ! q)"
    using sound(4) [OF q] response(1) rows
    by (simp add: carried_def Let_def list_ex_objects leaf carrier_key_of_def flip: key) blast
qed

lemma join_groups_sound:
  assumes "try_fold (join_group remote) cs gs = Ok cs'" and "\<forall>g \<in> set gs. group_of cs g"
  shows "length cs' = length cs
    \<and> (\<forall>q < length cs. same_candidate (cs ! q) (cs' ! q)
      \<and> ((\<exists>g \<in> set gs. q \<in> set (cg_positions g)) \<or> carried remote (cs ! q) \<longrightarrow> carried remote (cs' ! q)))"
  using assms
proof (induction gs arbitrary: cs)
  case Nil
  then show ?case by (simp add: same_candidate_def)
next
  case (Cons g gs)
  then obtain ds where ds: "join_group remote cs g = Ok ds" "try_fold (join_group remote) ds gs = Ok cs'"
    by (auto split: sum.splits)
  have g: "group_of cs g" using Cons.prems(2) by simp
  note one = join_group_sound [OF ds(1) g]
  have "\<forall>h \<in> set gs. group_of ds h"
    using Cons.prems(2) one(1,2) by (auto simp: group_of_def same_candidate_def)
  from Cons.IH [OF ds(2) this] one
  have "length cs' = length cs" and
    "\<forall>q < length cs. same_candidate (ds ! q) (cs' ! q)
      \<and> ((\<exists>g \<in> set gs. q \<in> set (cg_positions g)) \<or> carried remote (ds ! q) \<longrightarrow> carried remote (cs' ! q))"
    by auto
  moreover have "carried remote (ds ! q)" if "q < length cs" "q \<in> set (cg_positions g) \<or> carried remote (cs ! q)" for q
    using one(3,4) [of q] that by (cases "q \<in> set (cg_positions g)") auto
  ultimately show ?case
    using one(2) by (auto simp: same_candidate_def)
qed

end
