(* ===== verification/Encoding_Cache.thy ===== *)
theory Encoding_Cache
  imports Configuration_Encoding Parameter_Validation Protocol_Fields
begin

text \<open>
  What the evidence of an encoding guarantees: values that validation accepted can be encoded, the
  tables only grow, and the handoff that the coordinator returns is accepted by the planner afterwards.
\<close>

section \<open>Values that validation accepts\<close>

lemma bt_insert_subset: "set (bt_insert k v m) \<subseteq> insert (k, v) (set m)"
  by (induction k v m rule: bt_insert.induct) auto

lemma insert_all_subset: "set (bt.insert_all kvs m) \<subseteq> set kvs \<union> set m"
proof (induction kvs arbitrary: m)
  case (Cons kv kvs)
  have step: "bt.insert_all (kv # kvs) m = bt.insert_all kvs (bt_insert (fst kv) (snd kv) m)"
    by (simp add: bt.insert_all_def split: prod.splits)
  show ?case
    unfolding step using Cons [of "bt_insert (fst kv) (snd kv) m"] bt_insert_subset [of "fst kv" "snd kv" m] by auto
qed (simp add: bt.insert_all_def)

lemma rational_parts_valid:
  assumes "\<And>i. el_big_int lib (int_str i) = Some i"
  shows "validate_rational lib (fst (rational_parts v)) (snd (rational_parts v)) = Ok ()"
proof -
  obtain n d where q: "quotient_of v = (n, d)" by (cases "quotient_of v")
  have "0 < d" "Fract n d = v"
    using quotient_of_denom_pos [OF q] quotient_of_div [OF q] by (simp_all add: Fract_of_int_quotient)
  with q assms show ?thesis
    by (simp add: validate_rational_def rational_parts_def and_then_def ok_or_def result_simps)
qed

lemma contributed_value_valid:
  assumes "value_contribution p v = Ok (t, cv)" "\<And>i. el_big_int lib (int_str i) = Some i"
  shows "validate_typed_value lib cv = Ok ()"
  using value_contribution_conforms [OF assms(1)] rational_parts_valid [OF assms(2)]
  by (auto simp: conforms_def number_value_def split: parameter_kind.splits option.splits)

lemma entry_valid:
  assumes "(k, t, cv) \<in> set (submission_entries schema submitted allow_unknown)"
    "\<And>i. el_big_int lib (int_str i) = Some i"
  shows "validate_typed_value lib cv = Ok ()"
  using assms(1) contributed_value_valid [OF _ assms(2)]
  by (auto simp: submission_entries_def contributions_def List.map_filter_def unknown_entries_def contribution_Some
      split: sum.splits option.splits if_splits)

section \<open>What a record proves\<close>

lemma validate_record_Ok:
  "validate_record lib r x require_query = Ok v \<longleftrightarrow>
    validate_context_evidence lib r x = Ok () \<and> read_evidence lib (rec_request_json r) = Ok (ee_request x)
    \<and> (\<exists>response. read_evidence lib (rec_response_json r) = Ok response
        \<and> response_encoding response require_query = Ok (er_identity v))
    \<and> rec_encoded_id r = ec_encoded_id (er_identity v)
    \<and> (require_query \<longrightarrow> rec_query_param r = ec_query_param (er_identity v))
    \<and> er_handoff v = handoff_of x (ec_encoded_id (er_identity v))"
  by (cases v) (auto simp: validate_record_def result_simps split: if_splits)

lemma response_encoding_weaken:
  "response_encoding response require_query = Ok i \<Longrightarrow> response_encoding response False = Ok i"
  by (auto simp: response_encoding_def result_simps Let_def split: if_splits)

lemma response_encoded_id: "response_encoding response q = Ok i \<Longrightarrow> bounded_visible_ascii (ec_encoded_id i)"
  by (auto simp: response_encoding_def result_simps Let_def filter_opt_def split: option.splits if_splits)

text \<open>The weaker check, which planning uses, follows from the stronger one.\<close>

lemma validate_record_weaken:
  assumes "validate_record lib r x require_query = Ok v"
  shows "validate_record lib r x False = Ok v"
  using assms by (auto simp: validate_record_Ok dest: response_encoding_weaken)

lemma validated_handoff:
  assumes "validate_record lib r x require_query = Ok v"
  shows "er_handoff v = handoff_of x (eh_encoded_id (er_handoff v)) \<and> bounded_visible_ascii (eh_encoded_id (er_handoff v))"
proof -
  have "er_handoff v = handoff_of x (ec_encoded_id (er_identity v))" "\<exists>j q. response_encoding j q = Ok (er_identity v)"
    using assms by (auto simp: validate_record_Ok)
  then show ?thesis using response_encoded_id by (auto simp: handoff_of_def)
qed

section \<open>The tables only grow\<close>

definition rows_kept :: "encoding_tables \<Rightarrow> encoding_tables \<Rightarrow> bool" where
  "rows_kept db db' \<longleftrightarrow>
    take (length (tb_encodings db)) (tb_encodings db') = tb_encodings db
    \<and> take (length (tb_selections db)) (tb_selections db') = tb_selections db"

definition keys_unique :: "encoding_tables \<Rightarrow> bool" where
  "keys_unique db \<longleftrightarrow>
    distinct (map encoding_key (tb_encodings db)) \<and> distinct (map selection_key (tb_selections db))"

lemma take_prefix: "take (length xs) ys = xs \<longleftrightarrow> (\<exists>zs. ys = xs @ zs)"
  by (metis append_eq_conv_conj append_take_drop_id)

lemma rows_kept_iff: "rows_kept db db' \<longleftrightarrow>
    (\<exists>xs. tb_encodings db' = tb_encodings db @ xs) \<and> (\<exists>xs. tb_selections db' = tb_selections db @ xs)"
  by (simp add: rows_kept_def take_prefix)

lemma rows_kept_refl [simp]: "rows_kept db db"
  by (simp add: rows_kept_def)

lemma rows_kept_trans: "rows_kept a b \<Longrightarrow> rows_kept b c \<Longrightarrow> rows_kept a c"
  by (auto simp: rows_kept_iff)

lemma find_row_prefix: "find_row key k t = Some r \<Longrightarrow> find_row key k (t @ xs) = Some r"
  by (induction t) (auto simp: find_row_def split: if_splits)

lemma kept_encoding:
  "rows_kept db db' \<Longrightarrow> configuration_encoding db sh ch xh = Some r \<Longrightarrow> configuration_encoding db' sh ch xh = Some r"
  by (auto simp: rows_kept_iff configuration_encoding_def find_row_prefix)

lemma kept_typed_values:
  assumes "rows_kept db db'" "stored_typed_values lib sh ch db = Ok typed"
  shows "stored_typed_values lib sh ch db' = Ok typed"
proof -
  obtain s where s: "configuration_selection db sh ch = Some s"
    using assms(2) by (auto simp: stored_typed_values_def result_simps)
  then have "configuration_selection db' sh ch = Some s"
    using assms(1) by (auto simp: rows_kept_iff configuration_selection_def find_row_prefix)
  with assms(2) s show ?thesis by (simp add: stored_typed_values_def)
qed

lemma insert_if_absent_cases:
  obtains "insert_if_absent key r t = (True, t @ [r])" "key r \<notin> key ` set t"
  | x where "insert_if_absent key r t = (False, t)" "find_row key (key r) t = Some x"
  by (cases "find_row key (key r) t") (auto simp: insert_if_absent_def find_row_None)

text \<open>One statement of a writer keeps the rows that are there and the uniqueness of the keys.\<close>

definition grows :: "encoding_tables \<Rightarrow> encoding_tables \<Rightarrow> bool" where
  "grows db db' \<longleftrightarrow> rows_kept db db' \<and> (keys_unique db \<longrightarrow> keys_unique db')"

lemma grows_refl [simp]: "grows db db"
  by (simp add: grows_def)

lemma grows_trans: "grows a b \<Longrightarrow> grows b c \<Longrightarrow> grows a c"
  by (auto simp: grows_def intro: rows_kept_trans)

lemma insert_selection_grows: "grows db (insert_configuration_selection_if_absent s db)"
  by (rule insert_if_absent_cases [of selection_key s "tb_selections db"])
    (auto simp: insert_configuration_selection_if_absent_def grows_def rows_kept_def keys_unique_def)

lemma insert_encoding_grows: "grows db (snd (insert_configuration_encoding_if_absent r db))"
  by (rule insert_if_absent_cases [of encoding_key r "tb_encodings db"])
    (auto simp: insert_configuration_encoding_if_absent_def grows_def rows_kept_def keys_unique_def)

lemma retain_grows: "grows db (snd (retain_typed_selection lib x typed db))"
  by (auto simp: retain_typed_selection_def Let_def insert_selection_grows split: sum.splits)

lemma use_record_grows: "grows db (snd (use_record lib r x typed require_query db))"
  using retain_grows [of db lib x typed]
  by (auto simp: use_record_def split: sum.splits prod.splits)

lemma store_record_grows: "grows db (snd (store_record lib r x typed require_query db))"
  using use_record_grows [of db lib r x typed require_query]
    insert_encoding_grows [of "snd (use_record lib r x typed require_query db)" r]
  by (auto simp: store_record_def Let_def intro: grows_trans split: sum.splits prod.splits)

lemma encode_and_store_grows:
  assumes "\<And>db. grows db (meanwhile db)"
  shows "grows db (snd (encode_and_store lib remote meanwhile source x typed require_query db))"
  using assms [of db] store_record_grows [of "meanwhile db" lib _ x typed require_query]
  by (auto simp: encode_and_store_def Let_def intro: grows_trans split: sum.splits)

lemma resolve_inner_grows:
  assumes "\<And>db. grows db (meanwhile db)"
  shows "grows db (snd (resolve_inner lib remote meanwhile source typed bound require_query db))"
  using use_record_grows encode_and_store_grows [OF assms]
  by (auto simp: resolve_inner_def split: sum.splits option.splits)

lemma resolve_for_export_grows:
  assumes "\<And>db. grows db (meanwhile db)"
  shows "grows db (snd (resolve_for_export lib remote meanwhile source resolved typed sh ch db))"
  using use_record_grows resolve_inner_grows [OF assms]
  by (auto simp: resolve_for_export_def resolve_for_hashes_def split: sum.splits option.splits)

section \<open>What the coordinator leaves behind\<close>

text \<open>The record in the table validates and gives the handoff, and the typed values are kept beside it.\<close>

definition settled ::
  "encoding_library \<Rightarrow> expected_encoding \<Rightarrow> (string, canonical_value) btree \<Rightarrow> encoding_handoff
    \<Rightarrow> encoding_tables \<Rightarrow> bool" where
  "settled lib x typed h db \<longleftrightarrow>
    stored_typed_values lib (ee_source_hash x) (ee_config_hash x) db = Ok typed
    \<and> (\<exists>r v. configuration_encoding db (ee_source_hash x) (ee_config_hash x) (ee_context_hash x) = Some r
        \<and> validate_record lib r x False = Ok v \<and> er_handoff v = h)"

lemma settled_kept: "rows_kept db db' \<Longrightarrow> settled lib x typed h db \<Longrightarrow> settled lib x typed h db'"
  using kept_encoding kept_typed_values by (fastforce simp: settled_def)

lemma use_record_Ok:
  assumes "use_record lib r x typed require_query db = (Ok v, db')"
  shows "validate_record lib r x require_query = Ok v
    \<and> stored_typed_values lib (ee_source_hash x) (ee_config_hash x) db' = Ok typed
    \<and> tb_encodings db' = tb_encodings db"
  using assms
  by (auto simp: use_record_def retain_typed_selection_def insert_configuration_selection_if_absent_def
      Let_def result_simps split: sum.splits prod.splits if_splits)

lemma used_record_settled:
  assumes "use_record lib r x typed require_query db = (Ok v, db')"
    and "configuration_encoding db (ee_source_hash x) (ee_config_hash x) (ee_context_hash x) = Some r"
  shows "settled lib x typed (er_handoff v) db'"
  using use_record_Ok [OF assms(1)] assms(2) validate_record_weaken
  by (fastforce simp: settled_def configuration_encoding_def)

lemma adopted_winner:
  assumes "adopt_winner lib x require_query validated db = Ok v"
  obtains w where "configuration_encoding db (ee_source_hash x) (ee_config_hash x) (ee_context_hash x) = Some w"
    "validate_record lib w x require_query = Ok v"
  using assms by (auto simp: adopt_winner_def result_simps split: if_splits)

lemma stored_record_settled:
  assumes "store_record lib r x typed require_query db = (Ok v, db')"
    and key: "encoding_key r = (ee_source_hash x, ee_config_hash x, ee_context_hash x)"
  shows "settled lib x typed (er_handoff v) db'"
proof -
  obtain validated db1 where u: "use_record lib r x typed require_query db = (Ok validated, db1)"
    and i: "(if fst (insert_configuration_encoding_if_absent r db1) then Ok validated
        else adopt_winner lib x require_query validated db') = Ok v"
      "db' = snd (insert_configuration_encoding_if_absent r db1)"
    using assms(1) by (auto simp: store_record_def Let_def split: prod.splits sum.splits)
  have kept: "rows_kept db1 db'" using insert_encoding_grows [of db1 r] i(2) by (simp add: grows_def)
  have typed: "stored_typed_values lib (ee_source_hash x) (ee_config_hash x) db' = Ok typed"
    using use_record_Ok [OF u] kept kept_typed_values by blast
  show ?thesis
  proof (rule insert_if_absent_cases [of encoding_key r "tb_encodings db1"])
    assume ins: "insert_if_absent encoding_key r (tb_encodings db1) = (True, tb_encodings db1 @ [r])"
      "encoding_key r \<notin> encoding_key ` set (tb_encodings db1)"
    then have "v = validated" using i(1) by (simp add: insert_configuration_encoding_if_absent_def split: if_splits)
    moreover have "configuration_encoding db' (ee_source_hash x) (ee_config_hash x) (ee_context_hash x) = Some r"
      using ins i(2) key find_row_None [of encoding_key "encoding_key r" "tb_encodings db1"]
      by (simp add: insert_configuration_encoding_if_absent_def configuration_encoding_def find_row_append)
    ultimately show ?thesis
      using typed use_record_Ok [OF u] validate_record_weaken by (fastforce simp: settled_def)
  next
    fix y assume "insert_if_absent encoding_key r (tb_encodings db1) = (False, tb_encodings db1)"
    then have "adopt_winner lib x require_query validated db' = Ok v"
      using i(1) by (simp add: insert_configuration_encoding_if_absent_def split: if_splits)
    then show ?thesis
      by (rule adopted_winner) (use typed validate_record_weaken in \<open>fastforce simp: settled_def\<close>)
  qed
qed

lemma fresh_record_key:
  "fresh_record lib x q response = Ok r \<Longrightarrow>
    encoding_key r = (ee_source_hash x, ee_config_hash x, ee_context_hash x)"
  by (auto simp: fresh_record_def result_simps encoding_key_def)

lemma resolve_source_Ok:
  "resolve_source lib remote source typed = Ok s \<Longrightarrow>
    rm_version remote (src_document_id source) (src_version_id source) = Ok (rs_microversion_id s)
    \<and> s = \<lparr>rs_document_id = src_document_id source, rs_version_id = src_version_id source,
           rs_microversion_id = rs_microversion_id s, rs_element_id = src_element_id source,
           rs_element_kind = src_element_kind source, rs_link_document_id = None\<rparr>"
  by (auto simp: resolve_source_def result_simps split: if_splits)

lemma resolve_inner_settles:
  assumes "resolve_inner lib remote meanwhile source typed bound require_query db = (Ok v, db')"
  obtains s x where "resolve_source lib remote source typed = Ok s"
    "expected_of lib (rm_origin remote) s typed = Ok x" "settled lib x typed (er_handoff v) db'"
    "er_handoff v = handoff_of x (eh_encoded_id (er_handoff v))"
    "bounded_visible_ascii (eh_encoded_id (er_handoff v))"
proof -
  obtain s x where s: "resolve_source lib remote source typed = Ok s"
    and x: "expected_of lib (rm_origin remote) s typed = Ok x"
    and r: "(case configuration_encoding db (ee_source_hash x) (ee_config_hash x) (ee_context_hash x) of
        Some r \<Rightarrow> use_record lib r x typed require_query db
      | None \<Rightarrow> encode_and_store lib remote meanwhile source x typed require_query db) = (Ok v, db')"
    using assms by (auto simp: resolve_inner_def result_simps split: sum.splits if_splits)
  have settled: "settled lib x typed (er_handoff v) db'"
  proof (cases "configuration_encoding db (ee_source_hash x) (ee_config_hash x) (ee_context_hash x)")
    case None
    with r obtain rec db1 where "fresh_record lib x require_query
        (projr (rm_encode remote (src_document_id source) (src_version_id source) (src_element_id source) (ee_request x))) = Ok rec"
      "store_record lib rec x typed require_query db1 = (Ok v, db')"
      by (auto simp: encode_and_store_def Let_def result_simps split: sum.splits)
    with stored_record_settled fresh_record_key show ?thesis by blast
  next
    case (Some r1)
    with r used_record_settled show ?thesis by simp
  qed
  then obtain r1 v1 where "validate_record lib r1 x False = Ok v1" "er_handoff v1 = er_handoff v"
    by (auto simp: settled_def)
  with validated_handoff [of lib r1 x False v1] that [OF s x settled] show ?thesis by auto
qed

lemma hash_json_sha256:
  assumes "hash_json jcs sha domain payload = Ok h" "\<forall>bytes. length (sha bytes) = 32"
  shows "is_sha256 h"
  using assms hex_sha256_ok [of sha]
  by (auto simp: hash_json_def result_simps is_sha256_def is_lower_hex_def [abs_def] sha256_ok_def)

lemma expected_hashes:
  assumes "\<forall>bytes. length (el_sha lib bytes) = 32" "expected_of lib origin s typed = Ok x"
  shows "is_sha256 (ee_source_hash x) \<and> is_sha256 (ee_config_hash x) \<and> is_sha256 (ee_context_hash x)"
  using assms hash_json_sha256
  by (auto simp: expected_of_def result_simps Let_def source_hash_def config_hash_def hash_context_def)

section \<open>Properties\<close>

text \<open>
  What validation accepts can be encoded: every typed value of an accepted submission passes the
  checks of the encoding, its rationals being reduced and its units the canonical ones, for a reader
  of big integers that reads what is printed.
\<close>

lemma validated_values_encodable:
  assumes "validate_values schema submitted allow_unknown = Some (Ok vc)"
    and "\<forall>i. el_big_int lib (int_str i) = Some i"
  shows "validate_typed_values lib (vc_typed_values vc) = Ok ()"
proof -
  have "set (vc_typed_values vc) \<subseteq> set (entry_typed (submission_entries schema submitted allow_unknown))"
    using assms(1) insert_all_subset [of "entry_typed (submission_entries schema submitted allow_unknown)" "[]"]
    by (auto simp: validate_values_eq split: if_splits)
  moreover have "validate_typed_value lib cv = Ok ()"
    if "(k, cv) \<in> set (entry_typed (submission_entries schema submitted allow_unknown))" for k cv
    using that entry_valid assms(2) by (auto simp: entry_typed_def)
  ultimately show ?thesis by (auto simp: validate_typed_values_def each_from_all)
qed

text \<open>
  Resolving never rewrites evidence: when what other processes do meanwhile keeps the rows of
  both tables and the uniqueness of their keys, so does the coordinator, with either entry point,
  whether it succeeds or fails.
\<close>

lemma resolving_keeps_evidence:
  assumes "\<forall>db. grows db (meanwhile db)"
  shows "grows db (snd (resolve_inner lib remote meanwhile source typed bound require_query db))
    \<and> grows db (snd (resolve_for_export lib remote meanwhile source resolved typed sh ch db))"
  using resolve_inner_grows resolve_for_export_grows assms by simp
text \<open>
  C24: the handoff that resolution returns is accepted by planning: after \<open>resolve\<close> succeeded, with
  whatever happened while it waited, and after any later growth of the tables, \<open>validate_handoff\<close>
  accepts its handoff for the source at the microversion that Onshape reports, when the digest has 32
  bytes.
\<close>

theorem resolved_handoff_accepted:
  assumes "\<forall>bytes. length (el_sha lib bytes) = 32"
    and "resolve_encoding lib remote meanwhile source typed db = (Ok h, db')"
    and "rm_version remote (src_document_id source) (src_version_id source) = Ok microversion"
    and "rows_kept db' later"
  shows "validate_handoff lib (rm_origin remote)
    \<lparr>rs_document_id = src_document_id source, rs_version_id = src_version_id source,
     rs_microversion_id = microversion, rs_element_id = src_element_id source,
     rs_element_kind = src_element_kind source, rs_link_document_id = None\<rparr> h later = Ok ()"
proof -
  obtain v where v: "resolve_inner lib remote meanwhile source typed None False db = (Ok v, db')" "h = er_handoff v"
    using assms(2) by (auto simp: resolve_encoding_def apfst_def map_prod_def result_simps split: prod.splits)
  obtain s x where s: "resolve_source lib remote source typed = Ok s"
    and x: "expected_of lib (rm_origin remote) s typed = Ok x" and settled: "settled lib x typed h db'"
    and h: "h = handoff_of x (eh_encoded_id h)" "bounded_visible_ascii (eh_encoded_id h)"
    using resolve_inner_settles [OF v(1)] v(2) by metis
  have src: "s = \<lparr>rs_document_id = src_document_id source, rs_version_id = src_version_id source,
     rs_microversion_id = microversion, rs_element_id = src_element_id source,
     rs_element_kind = src_element_kind source, rs_link_document_id = None\<rparr>"
    using resolve_source_Ok [OF s] assms(3) by simp
  have keys: "eh_source_hash h = ee_source_hash x" "eh_config_hash h = ee_config_hash x"
      "eh_encoding_context_hash h = ee_context_hash x"
    by (subst h(1), simp add: handoff_of_def)+
  have "validate_shape h = Ok ()"
    using expected_hashes [OF assms(1) x] h(2) by (simp add: validate_shape_def ensure_Ok keys)
  then show ?thesis
    using settled_kept [OF assms(4) settled] x
    by (auto simp: validate_handoff_def settled_def keys and_then_def ok_or_def simp flip: src)
qed

end
