(* ===== verification/Selection_Retained.thy ===== *)
theory Selection_Retained
  imports Selection_Assembly Encoding_Cache
begin

text \<open>
  Planned selections: the plan answers the request, selector by selector, out of one snapshot; it
  passes the validation of retained plans; the bounded hash of a plan is the hash of its text.
\<close>

section \<open>Candidates of a plan\<close>

lemma part_identity_Ok:
  "part_identity r mid obj = Ok c \<longleftrightarrow> source_string obj ''elementId'' = Ok (sr_element_id r)
    \<and> source_string obj ''microversionId'' = Ok mid \<and> source_string obj ''configurationId'' = Ok c"
  by (auto simp: part_identity_def result_simps)

lemma projected_leaf_bounded:
  "projected_leaf obj = Ok l \<Longrightarrow> list_all bounded_visible_ascii [cl_document_id l, cl_document_microversion l,
    cl_element_id l, cl_configuration_identity l, cl_part_id l]"
  by (auto simp: projected_leaf_def result_simps projection_simps plan_leaf_def)

lemma project_transform_length: "project_transform read x = Ok m \<Longrightarrow> length m = 16"
  by (auto simp: project_transform_def result_simps projection_simps collect_results_Ok list_all2_conv_all_nth split: if_splits)

lemma valid_selectors_nth:
  "\<lbrakk>request_ok r; i < length (sr_selectors r)\<rbrakk> \<Longrightarrow> valid_selector (sr_element_kind r) (sr_selectors r ! i)"
  by (simp add: request_ok_def list_all_length)

lemma part_studio_fits:
  assumes ok: "request_ok r" and res: "resolve_part_studio r mid response = Ok (rt, cs)"
    and kind: "sr_element_kind r = PartStudioElement"
  shows "root_fits rt" "list_all (candidate_fits rt) cs"
    "list_all2 (\<lambda>s c. names s (cd_selector c)) (sr_selectors r) cs"
proof -
  obtain rows c where "response = JArr rows" and s: "rt = plan_root r mid c"
    "list_all2 (part_candidate_of r mid c) (sr_selectors r) cs"
    "list_all2 (\<lambda>s x. \<exists>row \<in> set rows. plannable_part r mid c row (cl_part_id (cd_leaf x))) (sr_selectors r) cs"
    by (rule resolve_part_studio_sound [OF res])
  have len: "length cs = length (sr_selectors r)" "0 < length (sr_selectors r)"
    using s(2) ok by (auto simp: request_ok_def dest: list_all2_lengthD)
  obtain row where "plannable_part r mid c row (cl_part_id (cd_leaf (cs ! 0)))"
    using s(3) len by (auto simp: list_all2_conv_all_nth)
  then have mid: "bounded_visible_ascii mid" "bounded_visible_ascii c"
    by (auto simp: plannable_part_def part_identity_Ok projection_simps split: json.splits)
  have r: "bounded_visible_ascii (sr_document_id r)" "bounded_visible_ascii (sr_version_id r)"
      "bounded_visible_ascii (sr_element_id r)"
    using ok by (simp_all add: request_ok_def)
  show "root_fits rt" by (simp add: root_fits_def s(1) plan_root_def mid r)
  have one: "candidate_fits rt (cs ! i) \<and> names (sr_selectors r ! i) (cd_selector (cs ! i))" if i: "i < length cs" for i
  proof -
    obtain part_id where p: "sr_selectors r ! i = Part part_id"
        "cd_leaf (cs ! i) = plan_leaf (sr_document_id r) mid (sr_element_id r) c part_id"
        "cd_selector (cs ! i) = part_selector (cd_leaf (cs ! i))" "cd_matrix (cs ! i) = IDENTITY_PLACEMENT"
      using s(2) i len by (auto simp: list_all2_conv_all_nth part_candidate_of_def)
    moreover have "bounded_visible_ascii part_id"
      using valid_selectors_nth [OF ok, of i] i len p(1) kind by simp
    ultimately show ?thesis
      by (simp add: candidate_fits_def leaf_fits_def s(1) plan_root_def plan_leaf_def part_selector_def mid r
          identity_placement_rigid kind)
  qed
  show "list_all (candidate_fits rt) cs" using one by (simp add: list_all_length)
  show "list_all2 (\<lambda>s c. names s (cd_selector c)) (sr_selectors r) cs"
    using one len by (auto simp: list_all2_conv_all_nth)
qed

lemma occurrence_fits:
  assumes "occurrence_candidate_of read envelope assembly rt s c"
    and "valid_selector AssemblyElement s" and "rt_element_kind rt = AssemblyElement"
  shows "candidate_fits rt c \<and> names s (cd_selector c)"
proof -
  obtain path matrix where o: "s = Occurrence path"
    "plannable_path read envelope assembly (rt_document_id rt) (rt_document_microversion rt) path (cd_leaf c) matrix"
    "cd_selector c = AssemblyOccurrence (rt_document_id rt) (rt_document_microversion rt) (rt_element_id rt)
      (rt_configuration_identity rt) path" "cd_matrix c = normalize_placement matrix"
    using assms(1) by (auto simp: occurrence_candidate_of_def)
  obtain i x where i: "plannable_instance (rt_document_id rt) (rt_document_microversion rt) (cd_leaf c) i"
    and x: "plannable_occurrence read matrix x"
    using o(2) by (auto simp: plannable_path_def list_ex_iff)
  have "leaf_fits rt (cd_leaf c)"
    using i projected_leaf_bounded [of i "cd_leaf c"] by (simp add: leaf_fits_def plannable_instance_def)
  moreover have "proper_rigid (cd_matrix c) \<and> length (cd_matrix c) = 16"
    using x project_transform_length [of read x matrix] normalized_rigid [of matrix]
      normalize_placement_last_row [of matrix]
    by (simp add: o(4) plannable_occurrence_def)
  ultimately show ?thesis
    using assms(2,3) by (simp add: candidate_fits_def o(1,3))
qed

lemma assembly_fits:
  assumes ok: "request_ok r" and kind: "sr_element_kind r = AssemblyElement"
    and res: "resolve_assembly read r mid response = Ok a"
    and joined: "try_fold (join_group remote) (ar_candidates a) (ar_carriers a) = Ok cs"
  obtains envelope assembly where "response = JObj envelope" "member ''rootAssembly'' envelope = Some (JObj assembly)"
    "root_fits (ar_root a)" "\<exists>c. ar_root a = plan_root r mid c" "list_all (candidate_fits (ar_root a)) cs"
    "list_all2 (\<lambda>s c. names s (cd_selector c)) (sr_selectors r) cs"
    "list_all2 (occurrence_candidate_of read envelope assembly (ar_root a)) (sr_selectors r) cs"
    "list_all (carried remote) cs"
proof -
  obtain envelope assembly c where a: "response = JObj envelope" "member ''rootAssembly'' envelope = Some (JObj assembly)"
    "length (relation_names assembly) \<le> 16384"
    "ar_root a = plan_root r mid c" "bounded_visible_ascii c" "bounded_visible_ascii mid"
    "list_all2 (occurrence_candidate_of read envelope assembly (ar_root a)) (sr_selectors r) (ar_candidates a)"
    "ar_carriers a = carriers_of (map cd_leaf (ar_candidates a))"
    by (rule resolve_assembly_sound [OF res])
  have "\<forall>g \<in> set (ar_carriers a). group_of (ar_candidates a) g"
    using carriers_of_positions [of _ "map cd_leaf (ar_candidates a)"] by (fastforce simp: group_of_def a(8))
  note j = join_groups_sound [OF joined this]
  have covered: "\<exists>g \<in> set (ar_carriers a). q \<in> set (cg_positions g)" if "q < length (ar_candidates a)" for q
    using carriers_of_cover [of q "map cd_leaf (ar_candidates a)"] that by (simp add: a(8))
  have len: "length cs = length (sr_selectors r)" "length (ar_candidates a) = length (sr_selectors r)"
    using j a(7) by (auto dest: list_all2_lengthD)
  have occ: "occurrence_candidate_of read envelope assembly (ar_root a) (sr_selectors r ! i) (cs ! i)" if "i < length cs" for i
    using a(7) j that len by (auto simp: list_all2_conv_all_nth occurrence_candidate_of_def same_candidate_def)
  have fits: "candidate_fits (ar_root a) (cs ! i) \<and> names (sr_selectors r ! i) (cd_selector (cs ! i))" if "i < length cs" for i
    using occurrence_fits [OF occ [OF that]] valid_selectors_nth [OF ok, of i] that len kind
    by (simp add: a(4) plan_root_def)
  show thesis
  proof (rule that [OF a(1,2)])
    show "root_fits (ar_root a)" using ok a(5,6) by (simp add: root_fits_def a(4) plan_root_def request_ok_def)
    show "list_all (carried remote) cs" using j covered len by (simp add: list_all_length)
  qed (use a(4) fits occ len in \<open>auto simp: list_all_length list_all2_conv_all_nth\<close>)
qed

lemma plan_candidates_fit:
  assumes ok: "request_ok r" and "plan_candidates lib remote r mid = Ok (rt, cs)"
  shows "root_fits rt" "list_all (candidate_fits rt) cs" "\<exists>c. rt = plan_root r mid c"
    "list_all2 (\<lambda>s c. names s (cd_selector c)) (sr_selectors r) cs"
proof -
  have "root_fits rt \<and> list_all (candidate_fits rt) cs \<and> (\<exists>c. rt = plan_root r mid c)
    \<and> list_all2 (\<lambda>s c. names s (cd_selector c)) (sr_selectors r) cs"
  proof (cases "sr_element_kind r")
    case PartStudioElement
    then obtain response where res: "resolve_part_studio r mid response = Ok (rt, cs)"
      using assms(2) by (auto simp: plan_candidates_def Let_def result_simps)
    obtain c where "rt = plan_root r mid c" by (rule resolve_part_studio_sound [OF res])
    with part_studio_fits [OF ok res PartStudioElement]
    show ?thesis by blast
  next
    case AssemblyElement
    then obtain response a where res: "resolve_assembly (sl_read_f64 lib) r mid response = Ok a"
      and j: "try_fold (join_group remote) (ar_candidates a) (ar_carriers a) = Ok cs" "rt = ar_root a"
      using assms(2) by (auto simp: plan_candidates_def Let_def result_simps)
    show ?thesis by (rule assembly_fits [OF ok AssemblyElement res j(1)]) (simp add: j(2))
  qed
  then show "root_fits rt" "list_all (candidate_fits rt) cs" "\<exists>c. rt = plan_root r mid c"
    "list_all2 (\<lambda>s c. names s (cd_selector c)) (sr_selectors r) cs" by auto
qed

section \<open>The bounded hash\<close>

text \<open>Within the bound the pieces are digested one after the other; past it the writer overflows.\<close>

lemma bounded_write_fits:
  "bh_count h + length (concat pieces) \<le> MAX_PLAN_BYTES \<Longrightarrow> try_fold bounded_write h pieces =
    Ok (h\<lparr>bh_digested := bh_digested h @ concat pieces, bh_count := bh_count h + length (concat pieces)\<rparr>)"
proof (induction pieces arbitrary: h)
  case (Cons x xs)
  from Cons.prems show ?case
    using Cons.IH [of "h\<lparr>bh_digested := bh_digested h @ x, bh_count := bh_count h + length x\<rparr>"]
    by (simp add: bounded_write_def algebra_simps del: length_concat)
qed simp

lemma bounded_write_overflows:
  "\<lbrakk>bh_count h \<le> MAX_PLAN_BYTES; MAX_PLAN_BYTES < bh_count h + length (concat pieces)\<rbrakk> \<Longrightarrow>
    \<exists>e. try_fold bounded_write h pieces = Err e \<and> bh_overflow e"
proof (induction pieces arbitrary: h)
  case (Cons x xs)
  show ?case
  proof (cases "length x > MAX_PLAN_BYTES - bh_count h")
    case True
    then show ?thesis by (simp add: bounded_write_def)
  next
    case False
    with Cons.prems show ?thesis
      using Cons.IH [of "h\<lparr>bh_digested := bh_digested h @ x, bh_count := bh_count h + length x\<rparr>"]
      by (simp add: bounded_write_def algebra_simps del: length_concat)
  qed
qed simp

lemma write_canonical_fits:
  "length (concat (fst (sl_pieces lib v))) \<le> MAX_PLAN_BYTES \<Longrightarrow> write_canonical lib v =
    (let bytes = concat (fst (sl_pieces lib v)); h = \<lparr>bh_digested = bytes, bh_count = length bytes, bh_overflow = False\<rparr>
     in if snd (sl_pieces lib v) then Ok h else Err h)"
  using bounded_write_fits [of "\<lparr>bh_digested = [], bh_count = 0, bh_overflow = False\<rparr>" "fst (sl_pieces lib v)"]
  by (simp add: write_canonical_def Let_def and_then_def del: length_concat)

text \<open>
  The hash of a plan is computed piece by piece within a bound. It is the hash of the whole
  canonical text when that has at most 8388608 bytes and the serializer ends well, and the writer
  reports an overflow exactly when the text is longer, however the serializer cuts it.
\<close>

lemma bounded_hash_of_text:
  "case write_canonical lib v of
     Ok h \<Rightarrow> finish_hash lib h = hex_sha256 (sl_sha lib) (concat (fst (sl_pieces lib v)))
       \<and> length (concat (fst (sl_pieces lib v))) \<le> 8388608 \<and> snd (sl_pieces lib v)
   | Err h \<Rightarrow> bh_overflow h = (length (concat (fst (sl_pieces lib v))) > 8388608)
       \<and> (bh_overflow h \<or> \<not> snd (sl_pieces lib v))"
proof (cases "length (concat (fst (sl_pieces lib v))) > MAX_PLAN_BYTES")
  case True
  then show ?thesis
    using bounded_write_overflows [of "\<lparr>bh_digested = [], bh_count = 0, bh_overflow = False\<rparr>" "fst (sl_pieces lib v)"]
    by (auto simp: write_canonical_def and_then_def MAX_PLAN_BYTES_def simp del: length_concat)
next
  case False
  then show ?thesis
    using write_canonical_fits [of lib v]
    by (simp add: Let_def finish_hash_def MAX_PLAN_BYTES_def del: length_concat split: if_splits)
qed

section \<open>Construction\<close>

definition planned_from :: "selection_library \<Rightarrow> candidate \<Rightarrow> resolved_object \<Rightarrow> bool" where
  "planned_from lib c x \<longleftrightarrow> ro_selector x = cd_selector c \<and> ro_configured_leaf x = cd_leaf c
    \<and> ro_placement x = normalize_placement (cd_matrix c)
    \<and> plan_object_identity lib (cd_selector c) (cd_leaf c) = Ok (ro_plan_local_object_identity x)
    \<and> normalize_authoring_object (sl_decode lib) (cd_selector c) (cd_description c) (cd_name c) =
      Ok \<lparr>ao_selector = cd_selector c, ao_display_name = ro_display_name x, ao_annotation = ro_annotation x\<rparr>"

lemma normalized_selector:
  "normalize_authoring_object decode s description name = Ok x \<Longrightarrow> ao_selector x = s"
  by (auto simp: normalize_authoring_object_def Let_def result_simps)

lemma plan_object_planned:
  assumes "normalize_authoring_object (sl_decode lib) (cd_selector c) (cd_description c) (cd_name c) = Ok x"
    and "plan_object lib (c, x) = Ok y"
  shows "planned_from lib c y \<and> x = \<lparr>ao_selector = ro_selector y, ao_display_name = ro_display_name y,
      ao_annotation = ro_annotation y\<rparr>"
  using assms normalized_selector [OF assms(1)]
  by (cases x) (auto simp: plan_object_def planned_from_def result_simps)

lemma context_entry_Ok: "context_entry lib f x = Ok y \<longleftrightarrow> context_entry lib g x = Ok y"
  by (auto simp: context_entry_def configured_part_def result_simps split: prod.splits if_splits)

lemma construct_plan_Ok:
  assumes "construct_plan lib r cs = Ok p"
  shows "pl_root p = r" "list_all2 (planned_from lib) cs (pl_objects p)"
    and "\<exists>ctxt. collect_results (context_entry lib retained_failure)
        (enumerate 0 (map (\<lambda>x. (ro_selector x, ro_configured_leaf x)) (pl_objects p))) = Ok ctxt
      \<and> validate_authoring_context (sl_to_vec lib) (sl_jcs lib) (plan_document (pl_objects p)) ctxt = Ok ()"
    and "validate_authoring_document (sl_to_vec lib) (plan_document (pl_objects p)) = Ok ()"
    and "authoring_document_identity (sl_to_vec lib) (sl_jcs lib) (sl_sha lib) (plan_document (pl_objects p))
      = Ok (pl_authoring_document_identity p)"
    and "\<exists>h. write_canonical lib (plan_envelope (el_show_f64 (sl_encoding lib)) (pl_root p)
      (pl_authoring_document_identity p) (pl_objects p)) = Ok h \<and> pl_plan_identity p = finish_hash lib h"
proof -
  obtain authored ctxt identity objects h where
    authored: "collect_results (author_candidate lib) (enumerate 0 cs) = Ok authored"
    and valid: "validate_authoring_document (sl_to_vec lib) \<lparr>ad_schema_version = 1, ad_objects = authored\<rparr> = Ok ()"
    and ctxt: "collect_results (context_entry lib malformed)
        (enumerate 0 (map (\<lambda>c. (cd_selector c, cd_leaf c)) cs)) = Ok ctxt"
      "validate_authoring_context (sl_to_vec lib) (sl_jcs lib) \<lparr>ad_schema_version = 1, ad_objects = authored\<rparr> ctxt = Ok ()"
    and identity: "authoring_document_identity (sl_to_vec lib) (sl_jcs lib) (sl_sha lib)
        \<lparr>ad_schema_version = 1, ad_objects = authored\<rparr> = Ok identity"
    and objects: "collect_results (plan_object lib) (zip cs authored) = Ok objects"
    and h: "write_canonical lib (plan_envelope (el_show_f64 (sl_encoding lib)) r identity objects) = Ok h"
    and p: "p = \<lparr>pl_root = r, pl_authoring_document_identity = identity, pl_objects = objects,
        pl_plan_identity = finish_hash lib h\<rparr>"
    using assms by (auto simp: construct_plan_def Let_def result_simps)
  have len: "length authored = length cs" "length objects = length cs"
    using authored objects by (auto simp: collect_results_Ok list_all2_conv_all_nth)
  have one: "planned_from lib (cs ! i) (objects ! i)
      \<and> authored ! i = \<lparr>ao_selector = ro_selector (objects ! i), ao_display_name = ro_display_name (objects ! i),
          ao_annotation = ro_annotation (objects ! i)\<rparr>" if i: "i < length cs" for i
  proof -
    have n: "normalize_authoring_object (sl_decode lib) (cd_selector (cs ! i)) (cd_description (cs ! i)) (cd_name (cs ! i))
        = Ok (authored ! i)"
      using authored i len
      by (auto simp: collect_results_Ok list_all2_conv_all_nth nth_enumerate_eq author_candidate_def map_err_Ok)
    moreover have "plan_object lib (cs ! i, authored ! i) = Ok (objects ! i)"
      using objects i len by (auto simp: collect_results_Ok list_all2_conv_all_nth)
    ultimately show ?thesis by (intro plan_object_planned)
  qed
  show "pl_root p = r" by (simp add: p)
  show "list_all2 (planned_from lib) cs (pl_objects p)" using one len by (simp add: p list_all2_conv_all_nth)
  have document: "plan_document (pl_objects p) = \<lparr>ad_schema_version = 1, ad_objects = authored\<rparr>"
    using one len by (auto simp: plan_document_def p intro: nth_equalityI)
  have "map (\<lambda>x. (ro_selector x, ro_configured_leaf x)) (pl_objects p) = map (\<lambda>c. (cd_selector c, cd_leaf c)) cs"
    using one len by (auto simp: p planned_from_def intro!: nth_equalityI)
  moreover have "collect_results (context_entry lib retained_failure) xs = Ok ctxt \<longleftrightarrow>
      collect_results (context_entry lib malformed) xs = Ok ctxt" for xs
    by (simp add: collect_results_Ok context_entry_Ok [of lib retained_failure _ _ malformed])
  ultimately show "\<exists>ctxt. collect_results (context_entry lib retained_failure)
        (enumerate 0 (map (\<lambda>x. (ro_selector x, ro_configured_leaf x)) (pl_objects p))) = Ok ctxt
      \<and> validate_authoring_context (sl_to_vec lib) (sl_jcs lib) (plan_document (pl_objects p)) ctxt = Ok ()"
    using ctxt document by auto
  show "validate_authoring_document (sl_to_vec lib) (plan_document (pl_objects p)) = Ok ()" using valid document by simp
  show "authoring_document_identity (sl_to_vec lib) (sl_jcs lib) (sl_sha lib) (plan_document (pl_objects p))
      = Ok (pl_authoring_document_identity p)" using identity document by (simp add: p)
  show "\<exists>h. write_canonical lib (plan_envelope (el_show_f64 (sl_encoding lib)) (pl_root p)
      (pl_authoring_document_identity p) (pl_objects p)) = Ok h \<and> pl_plan_identity p = finish_hash lib h"
    using h by (simp add: p)
qed

section \<open>Retained plans\<close>

lemma authoring_selector_json_inj: "authoring_selector_json s = authoring_selector_json t \<longleftrightarrow> s = t"
proof
  assume eq: "authoring_selector_json s = authoring_selector_json t"
  have strings: "map JStr xs = map JStr ys \<longleftrightarrow> xs = ys" for xs ys :: "string list"
    by (rule inj_map_eq_map) (simp add: inj_def)
  have "field ''kind'' (authoring_selector_json s) = field ''kind'' (authoring_selector_json t)"
    by (simp only: eq)
  then have "(case s of PartStudioPart _ _ _ _ _ \<Rightarrow> True | _ \<Rightarrow> False) = (case t of PartStudioPart _ _ _ _ _ \<Rightarrow> True | _ \<Rightarrow> False)"
    by (cases s; cases t) (simp_all add: field_members selector_members_def)
  then show "s = t"
    using eq strings by (cases s; cases t) (auto simp: selector_members_def dest!: members_inj)
qed simp

lemma object_identity_json_inj:
  "object_identity_json s l = object_identity_json t k \<Longrightarrow> s = t"
  by (auto simp: object_identity_json_def authoring_selector_json_inj dest!: members_inj)

definition object_documents :: "resolved_plan \<Rightarrow> json set" where
  "object_documents p = (\<lambda>x. hash_preimage ''onshape-export-selection-plan-object-v1''
     (object_identity_json (ro_selector x) (ro_configured_leaf x))) ` set (pl_objects p)"

lemma retained_objects_Ok:
  "try_fold (retained_object lib r) {} xs = Ok seen \<longleftrightarrow>
    (\<forall>x \<in> set xs. retained_leaf_ok r x \<and> retained_selector_ok (rt_element_kind r) (ro_selector x) r x
      \<and> plan_object_identity lib (ro_selector x) (ro_configured_leaf x) = Ok (ro_plan_local_object_identity x))
    \<and> distinct (map ro_plan_local_object_identity xs) \<and> seen = ro_plan_local_object_identity ` set xs"
  by (subst try_fold_seen [where k = ro_plan_local_object_identity and P = "\<lambda>x. retained_leaf_ok r x
      \<and> retained_selector_ok (rt_element_kind r) (ro_selector x) r x
      \<and> plan_object_identity lib (ro_selector x) (ro_configured_leaf x) = Ok (ro_plan_local_object_identity x)"])
    (auto simp: retained_object_def result_simps)

lemma validate_retained_plan_Ok:
  "validate_retained_plan lib p = Ok u \<longleftrightarrow> retained_root_ok p
    \<and> (\<exists>seen. try_fold (retained_object lib (pl_root p)) {} (pl_objects p) = Ok seen)
    \<and> (\<exists>ctxt. collect_results (context_entry lib retained_failure)
        (enumerate 0 (map (\<lambda>x. (ro_selector x, ro_configured_leaf x)) (pl_objects p))) = Ok ctxt
      \<and> validate_authoring_context (sl_to_vec lib) (sl_jcs lib) (plan_document (pl_objects p)) ctxt = Ok ())
    \<and> authoring_document_identity (sl_to_vec lib) (sl_jcs lib) (sl_sha lib) (plan_document (pl_objects p))
      = Ok (pl_authoring_document_identity p)
    \<and> (\<exists>h. write_canonical lib (plan_envelope (el_show_f64 (sl_encoding lib)) (pl_root p)
        (pl_authoring_document_identity p) (pl_objects p)) = Ok h \<and> pl_plan_identity p = finish_hash lib h)"
  by (auto simp: validate_retained_plan_def Let_def result_simps)

lemma no_negative_zero: "\<not> list_ex (\<lambda>v. f64_eq v 0 \<and> f64_negative v) (normalize_placement m)"
proof -
  have "\<not> f64_negative 0" "\<not> f64_eq F64_ONE 0" by code_simp+
  then show ?thesis by (auto simp: normalize_placement_def list_ex_iff)
qed

lemma candidate_retained:
  assumes "candidate_fits r c" and "planned_from lib c x" and sha: "\<forall>bytes. length (sl_sha lib bytes) = 32"
  shows "retained_leaf_ok r x \<and> retained_selector_ok (rt_element_kind r) (ro_selector x) r x"
proof -
  have p: "ro_selector x = cd_selector c" "ro_configured_leaf x = cd_leaf c"
      "ro_placement x = normalize_placement (cd_matrix c)"
      "plan_object_identity lib (cd_selector c) (cd_leaf c) = Ok (ro_plan_local_object_identity x)"
    using assms(2) by (auto simp: planned_from_def)
  have c: "leaf_fits r (cd_leaf c)" "root_selector r (cd_leaf c) (cd_selector c)" "proper_rigid (cd_matrix c)"
      "length (cd_matrix c) = 16" "rt_element_kind r = PartStudioElement \<Longrightarrow> cd_matrix c = IDENTITY_PLACEMENT"
    using assms(1) by (auto simp: candidate_fits_def)
  have "is_sha256 (ro_plan_local_object_identity x)"
    using p(4) hash_json_sha256 [OF _ sha] by (auto simp: plan_object_identity_def)
  moreover have "f64s_eq [0, 0, 0, F64_ONE] [0, 0, 0, F64_ONE]" by code_simp
  ultimately have "retained_leaf_ok r x"
    using c(1) normalized_rigid [OF c(3,4)] normalize_placement_last_row [OF c(4)] no_negative_zero
    by (auto simp: retained_leaf_ok_def p leaf_fits_def Let_def)
  moreover have "retained_selector_ok (rt_element_kind r) (cd_selector c) r x"
    using c(2,5) identity_placement_rigid(3,4)
    by (cases "cd_selector c") (auto simp: p part_selector_def)
  ultimately show ?thesis by (simp add: p)
qed

lemma distinct_identities:
  assumes "list_all2 (planned_from lib) cs (pl_objects p)" and "distinct (map ro_selector (pl_objects p))"
    and "unambiguous (sl_jcs lib) (sl_sha lib) (object_documents p)"
  shows "distinct (map ro_plan_local_object_identity (pl_objects p))"
proof -
  have id: "plan_object_identity lib (ro_selector x) (ro_configured_leaf x) = Ok (ro_plan_local_object_identity x)"
    if "x \<in> set (pl_objects p)" for x
    using assms(1) that by (auto simp: list_all2_conv_all_nth in_set_conv_nth planned_from_def)
  have "ro_selector x = ro_selector y"
    if x: "x \<in> set (pl_objects p)" and y: "y \<in> set (pl_objects p)"
      and eq: "ro_plan_local_object_identity x = ro_plan_local_object_identity y" for x y
  proof -
    let ?d = "''onshape-export-selection-plan-object-v1''"
    have "unambiguous (sl_jcs lib) (sl_sha lib)
      {hash_preimage ?d (object_identity_json (ro_selector x) (ro_configured_leaf x)),
       hash_preimage ?d (object_identity_json (ro_selector y) (ro_configured_leaf y))}"
      by (rule unambiguous_mono [OF assms(3)]) (use x y in \<open>auto simp: object_documents_def\<close>)
    from hash_json_binds [OF this] id [OF x] id [OF y] eq show ?thesis
      by (auto simp: plan_object_identity_def dest!: object_identity_json_inj)
  qed
  with assms(2) show ?thesis unfolding distinct_map inj_on_def by blast
qed

lemma retained_root:
  assumes "request_ok r" "root_fits (pl_root p)" "length (pl_objects p) = length (sr_selectors r)"
    and "authoring_document_identity to_vec jcs (sl_sha lib) d = Ok (pl_authoring_document_identity p)"
    and "pl_plan_identity p = finish_hash lib h" and sha: "\<forall>bytes. length (sl_sha lib bytes) = 32"
  shows "retained_root_ok p"
proof -
  have "is_sha256 (pl_authoring_document_identity p)"
    using assms(4) hash_json_sha256 [OF _ sha]
    by (auto simp: authoring_document_identity_def annotation_hash_def result_simps)
  moreover have "is_sha256 (pl_plan_identity p)"
    using hash_json_sha256 [of "\<lambda>_. Ok (bh_digested h)" "sl_sha lib"] sha
    by (simp add: assms(5) finish_hash_def hash_json_def and_then_def)
  ultimately show ?thesis
    using assms(1-3) by (simp add: retained_root_ok_def root_fits_def request_ok_def MAX_SELECTORS_def)
qed

lemma plan_selection_Ok:
  assumes "plan_selection lib remote db r = Ok p"
  obtains mid cs where "request_ok r" "pr_version remote (sr_document_id r) (sr_version_id r) = Ok mid"
    "plan_candidates lib remote r mid = Ok (pl_root p, cs)" "construct_plan lib (pl_root p) cs = Ok p"
proof -
  obtain mid rt cs where o: "request_ok r" "pr_version remote (sr_document_id r) (sr_version_id r) = Ok mid"
    "plan_candidates lib remote r mid = Ok (rt, cs)" "construct_plan lib rt cs = Ok p"
    using assms by (auto simp: plan_selection_def Let_def result_simps preflight_Ok)
  moreover have "pl_root p = rt" by (rule construct_plan_Ok(1) [OF o(4)])
  ultimately show thesis by (intro that) simp_all
qed

lemma constructed_retained:
  assumes "plan_selection lib remote db r = Ok p"
    and "\<forall>bytes. length (sl_sha lib bytes) = 32"
    and "unambiguous (sl_jcs lib) (sl_sha lib) (object_documents p)"
  shows "validate_retained_plan lib p = Ok ()"
proof -
  obtain mid cs where ok: "request_ok r" and "pr_version remote (sr_document_id r) (sr_version_id r) = Ok mid"
    and candidates: "plan_candidates lib remote r mid = Ok (pl_root p, cs)"
    and built: "construct_plan lib (pl_root p) cs = Ok p"
    by (rule plan_selection_Ok [OF assms(1)])
  note fit = plan_candidates_fit [OF ok candidates]
  note built = construct_plan_Ok [OF built]
  have "distinct (map ro_selector (pl_objects p))"
    using built(4) by (simp add: document_Ok plan_document_def comp_def)
  note distinct = distinct_identities [OF built(2) this assms(3)]
  have len: "length (pl_objects p) = length (sr_selectors r)"
    using list_all2_lengthD [OF built(2)] list_all2_lengthD [OF fit(4)] by simp
  obtain h where h: "pl_plan_identity p = finish_hash lib h" using built(6) by blast
  have root: "retained_root_ok p"
    by (rule retained_root [OF ok fit(1) len built(5) h assms(2)])
  have "\<exists>seen. try_fold (retained_object lib (pl_root p)) {} (pl_objects p) = Ok seen"
    using candidate_retained [OF _ _ assms(2)] built(2) fit(2) distinct
    by (fastforce simp: retained_objects_Ok list_all2_conv_all_nth list_all_length in_set_conv_nth planned_from_def)
  with root built(3,5,6) show ?thesis by (simp add: validate_retained_plan_Ok)
qed

text \<open>
  C25: a plan that was constructed passes the validation of retained plans, when the digest has 32 bytes
  and does not collide on the identity documents of the plan's objects: the root and the leaves are
  bounded source values of one snapshot, placements are rigid and without negative zeros, and all three
  identities are those that validation computes again.
\<close>

theorem planned_selection_retained:
  assumes "plan_selection lib remote db r = Ok p"
    and "\<forall>bytes. length (sl_sha lib bytes) = 32"
    and "unambiguous (sl_jcs lib) (sl_sha lib) (object_documents p)"
  shows "validate_retained_plan lib p = Ok ()"
  using assms by (rule constructed_retained)

section \<open>Plans and their sources\<close>

text \<open>
  What an answer of Onshape must say for a candidate to come from it: in a part studio the row of the
  part, a visible solid of the element at the microversion; in an assembly the active instance and
  visible occurrence of the path, outside every relation, and the solid part in its carrier.
\<close>

definition in_part_studio :: "planning_remote \<Rightarrow> selection_request \<Rightarrow> selection_root \<Rightarrow> selection_selector \<Rightarrow> candidate \<Rightarrow> bool" where
  "in_part_studio remote r rt s c \<longleftrightarrow>
    part_candidate_of r (rt_document_microversion rt) (rt_configuration_identity rt) s c
    \<and> (case pr_parts remote (sr_document_id r) (rt_document_microversion rt) (sr_element_id r)
          (eh_encoded_id (sr_configuration_encoding r)) of
        Ok (JArr rows) \<Rightarrow> list_ex (\<lambda>row. plannable_part r (rt_document_microversion rt)
          (rt_configuration_identity rt) row (cl_part_id (cd_leaf c))) rows
      | _ \<Rightarrow> False)"

definition in_assembly ::
  "selection_library \<Rightarrow> planning_remote \<Rightarrow> selection_request \<Rightarrow> selection_root \<Rightarrow> selection_selector \<Rightarrow> candidate \<Rightarrow> bool" where
  "in_assembly lib remote r rt s c \<longleftrightarrow> carried remote c
    \<and> (case pr_assembly remote (sr_document_id r) (rt_document_microversion rt) (sr_element_id r)
          (eh_encoded_id (sr_configuration_encoding r)) of
        Ok (JObj envelope) \<Rightarrow> (case member ''rootAssembly'' envelope of
            Some (JObj assembly) \<Rightarrow> occurrence_candidate_of (sl_read_f64 lib) envelope assembly rt s c
          | _ \<Rightarrow> False)
      | _ \<Rightarrow> False)"

definition in_source ::
  "selection_library \<Rightarrow> planning_remote \<Rightarrow> selection_request \<Rightarrow> selection_root \<Rightarrow> selection_selector \<Rightarrow> candidate \<Rightarrow> bool" where
  "in_source lib remote r rt s c = (case sr_element_kind r of
     PartStudioElement \<Rightarrow> in_part_studio remote r rt s c | AssemblyElement \<Rightarrow> in_assembly lib remote r rt s c)"

lemma plan_candidates_sources:
  assumes ok: "request_ok r" and "plan_candidates lib remote r mid = Ok (rt, cs)"
  shows "list_all2 (in_source lib remote r rt) (sr_selectors r) cs"
proof (cases "sr_element_kind r")
  case PartStudioElement
  then obtain response where response: "pr_parts remote (sr_document_id r) mid (sr_element_id r)
      (eh_encoded_id (sr_configuration_encoding r)) = Ok response"
    and res: "resolve_part_studio r mid response = Ok (rt, cs)"
    using assms(2) by (auto simp: plan_candidates_def Let_def result_simps)
  obtain rows c where s: "response = JArr rows" "rt = plan_root r mid c"
    "list_all2 (part_candidate_of r mid c) (sr_selectors r) cs"
    "list_all2 (\<lambda>s x. \<exists>row \<in> set rows. plannable_part r mid c row (cl_part_id (cd_leaf x))) (sr_selectors r) cs"
    by (rule resolve_part_studio_sound [OF res])
  then show ?thesis
    using response
    by (simp add: in_source_def PartStudioElement in_part_studio_def plan_root_def list_all2_conv_all_nth list_ex_iff)
next
  case AssemblyElement
  then obtain response a where response: "pr_assembly remote (sr_document_id r) mid (sr_element_id r)
      (eh_encoded_id (sr_configuration_encoding r)) = Ok response"
    and res: "resolve_assembly (sl_read_f64 lib) r mid response = Ok a"
    and j: "try_fold (join_group remote) (ar_candidates a) (ar_carriers a) = Ok cs" "rt = ar_root a"
    using assms(2) by (auto simp: plan_candidates_def Let_def result_simps)
  obtain envelope assembly where s: "response = JObj envelope" "member ''rootAssembly'' envelope = Some (JObj assembly)"
    "root_fits (ar_root a)" "\<exists>c. ar_root a = plan_root r mid c" "list_all (candidate_fits (ar_root a)) cs"
    "list_all2 (\<lambda>s c. names s (cd_selector c)) (sr_selectors r) cs"
    "list_all2 (occurrence_candidate_of (sl_read_f64 lib) envelope assembly (ar_root a)) (sr_selectors r) cs"
    "list_all (carried remote) cs"
    by (rule assembly_fits [OF ok AssemblyElement res j(1)])
  have "rt_document_microversion (ar_root a) = mid" using s(4) by (auto simp: plan_root_def)
  then show ?thesis
    using response s(1,2,7,8)
    by (simp add: in_source_def AssemblyElement in_assembly_def j(2) list_all2_conv_all_nth list_all_length)
qed

text \<open>
  C26: a plan answers its request: its root is the requested element at the microversion that the
  version resolved to, there is one object per selector, in the order of the request and with that
  selector, and every leaf lies in the document and microversion of the root.
\<close>

theorem plan_answers_request:
  assumes "plan_selection lib remote db r = Ok p"
  shows "pr_version remote (sr_document_id r) (sr_version_id r) = Ok (rt_document_microversion (pl_root p))
    \<and> pl_root p = plan_root r (rt_document_microversion (pl_root p)) (rt_configuration_identity (pl_root p))
    \<and> list_all2 (\<lambda>s x. names s (ro_selector x)) (sr_selectors r) (pl_objects p)
    \<and> list_all (\<lambda>x. leaf_fits (pl_root p) (ro_configured_leaf x)) (pl_objects p)"
proof -
  obtain mid cs where o: "request_ok r" "pr_version remote (sr_document_id r) (sr_version_id r) = Ok mid"
    "plan_candidates lib remote r mid = Ok (pl_root p, cs)" "construct_plan lib (pl_root p) cs = Ok p"
    by (rule plan_selection_Ok [OF assms])
  obtain c where root: "pl_root p = plan_root r mid c" using plan_candidates_fit(3) [OF o(1,3)] by blast
  note planned = construct_plan_Ok(2) [OF o(4)]
  have "list_all2 (\<lambda>s x. names s (ro_selector x)) (sr_selectors r) (pl_objects p)"
    using plan_candidates_fit(4) [OF o(1,3)] planned by (auto simp: list_all2_conv_all_nth planned_from_def)
  moreover have "list_all (\<lambda>x. leaf_fits (pl_root p) (ro_configured_leaf x)) (pl_objects p)"
    using plan_candidates_fit(2) [OF o(1,3)] planned
    by (auto simp: list_all2_conv_all_nth list_all_length planned_from_def candidate_fits_def)
  ultimately show ?thesis using o(2) by (simp add: root) (simp add: plan_root_def)
qed


end
