(* ===== verification/Geometry_Provenance.thy ===== *)
theory Geometry_Provenance
  imports Selection_Retained Artifact_Store
begin

text \<open>
  The provenance of acquisitions (\<open>src/src/onshape_geometry.rs\<close>): the closed record that ties a plan to
  the encoding and the request values it was planned with, its identity and validation, the immutable
  association of a plan with its record in the database, and the lookup by serialized input. The derived
  deserializers and the pieces of the canonical serializer are parameters.
\<close>

section \<open>Records\<close>

definition RECORD_LIMIT :: nat where "RECORD_LIMIT = 16777216"

definition CONTRACT :: string where "CONTRACT = ''onshape-export-configured-leaf-geometry-request-v1''"

definition PROVENANCE_DOMAIN :: string where "PROVENANCE_DOMAIN = ''onshape-export-acquisition-provenance-v1''"

definition provenance_failure :: "string \<Rightarrow> api_failure" where
  "provenance_failure name =
    with_operation ''acquisitionProvenance'' (api_failure_new OperationalApiContractFailure name)"

definition invalid_acquisition :: api_failure where
  "invalid_acquisition = api_failure_new InvalidSelection ''invalid_acquisition_handoff''"

definition acquisition_timeout :: api_failure where
  "acquisition_timeout = api_failure_new OperationalTimeoutFailure ''acquisition_deadline''"

datatype representation = PartStudioOriginalEncoding | AssemblyLeafFullConfiguration

record provenance_binding =
  pb_position :: nat
  pb_plan_local_object_identity :: string
  pb_selector :: authoring_selector
  pb_configured_leaf :: configured_leaf
  pb_representation :: representation
  pb_configuration_request_value :: string

record provenance_payload =
  pv_provenance_schema_version :: "32 word"
  pv_request_contract :: string
  pv_configuration_encoding :: encoding_handoff
  pv_encoding_context :: encoding_context
  pv_plan :: resolved_plan
  pv_bindings :: "provenance_binding list"

text \<open>A record is the payload with its identity; \<open>payload()\<close> forgets the identity.\<close>

record provenance_record = provenance_payload +
  pv_provenance_identity :: string

record provenance_lookup =
  lk_provenance_schema_version :: "32 word"
  lk_plan_identity :: string
  lk_provenance_identity :: string
  lk_plan :: "resolved_plan option"
  lk_record :: "provenance_record option"

fun representation_key :: "representation \<Rightarrow> string" where
  "representation_key PartStudioOriginalEncoding = ''part_studio_original_encoding_v1''"
| "representation_key AssemblyLeafFullConfiguration = ''assembly_leaf_full_configuration_v1''"

definition encoding_handoff_json :: "encoding_handoff \<Rightarrow> json" where
  "encoding_handoff_json h = members
     [(''sourceHash'', Some (JStr (eh_source_hash h))), (''configHash'', Some (JStr (eh_config_hash h))),
      (''encodingContextHash'', Some (JStr (eh_encoding_context_hash h))),
      (''encodedId'', Some (JStr (eh_encoded_id h)))]"

definition resolved_plan_json :: "(f64 \<Rightarrow> string) \<Rightarrow> resolved_plan \<Rightarrow> json" where
  "resolved_plan_json show_f64 p = members
     [(''root'', Some (selection_root_json (pl_root p))),
      (''authoringDocumentIdentity'', Some (JStr (pl_authoring_document_identity p))),
      (''objects'', Some (JArr (map (resolved_object_json show_f64) (pl_objects p)))),
      (''planIdentity'', Some (JStr (pl_plan_identity p)))]"

definition provenance_binding_json :: "provenance_binding \<Rightarrow> json" where
  "provenance_binding_json b = members
     [(''position'', Some (JNum (PosInt (of_nat (pb_position b))))),
      (''planLocalObjectIdentity'', Some (JStr (pb_plan_local_object_identity b))),
      (''selector'', Some (authoring_selector_json (pb_selector b))),
      (''configuredLeaf'', Some (configured_leaf_json (pb_configured_leaf b))),
      (''representation'', Some (JStr (representation_key (pb_representation b)))),
      (''configurationRequestValue'', Some (JStr (pb_configuration_request_value b)))]"

definition payload_members ::
  "(f64 \<Rightarrow> string) \<Rightarrow> ('a) provenance_payload_scheme \<Rightarrow> (string \<times> json option) list" where
  "payload_members show_f64 r =
     [(''provenanceSchemaVersion'', Some (u32_json (pv_provenance_schema_version r))),
      (''requestContract'', Some (JStr (pv_request_contract r))),
      (''configurationEncoding'', Some (encoding_handoff_json (pv_configuration_encoding r))),
      (''encodingContext'', Some (encoding_context_json (pv_encoding_context r))),
      (''plan'', Some (resolved_plan_json show_f64 (pv_plan r))),
      (''bindings'', Some (JArr (map provenance_binding_json (pv_bindings r))))]"

definition provenance_record_json :: "(f64 \<Rightarrow> string) \<Rightarrow> provenance_record \<Rightarrow> json" where
  "provenance_record_json show_f64 r =
    members (payload_members show_f64 r @ [(''provenanceIdentity'', Some (JStr (pv_provenance_identity r)))])"

definition provenance_envelope :: "(f64 \<Rightarrow> string) \<Rightarrow> provenance_record \<Rightarrow> json" where
  "provenance_envelope show_f64 r = members
     [(''domain'', Some (JStr PROVENANCE_DOMAIN)), (''payload'', Some (members (payload_members show_f64 r)))]"

definition provenance_lookup_json :: "(f64 \<Rightarrow> string) \<Rightarrow> provenance_lookup \<Rightarrow> json" where
  "provenance_lookup_json show_f64 l = members
     [(''provenanceSchemaVersion'', Some (u32_json (lk_provenance_schema_version l))),
      (''planIdentity'', Some (JStr (lk_plan_identity l))),
      (''provenanceIdentity'', Some (JStr (lk_provenance_identity l))),
      (''plan'', map_option (resolved_plan_json show_f64) (lk_plan l)),
      (''record'', map_option (provenance_record_json show_f64) (lk_record l))]"

section \<open>Canonical texts\<close>

record provenance_library =
  al_selection :: selection_library
  al_record :: "json \<Rightarrow> provenance_record option"
  al_lookup :: "json \<Rightarrow> provenance_lookup option"

abbreviation al_encoding :: "provenance_library \<Rightarrow> encoding_library" where
  "al_encoding lib \<equiv> sl_encoding (al_selection lib)"

abbreviation al_show :: "provenance_library \<Rightarrow> f64 \<Rightarrow> string" where
  "al_show lib \<equiv> el_show_f64 (al_encoding lib)"

text \<open>\<open>Write::write\<close> of \<open>BoundedBytes\<close>.\<close>

definition bounded_bytes_write :: "string \<Rightarrow> string \<Rightarrow> (unit, string) result" where
  "bounded_bytes_write written bytes =
    (if length bytes > RECORD_LIMIT - length written then Err () else Ok (written @ bytes))"

definition read_record_text :: "provenance_library \<Rightarrow> string \<Rightarrow> (api_failure, json) result" where
  "read_record_text lib bytes = parse_bounded_json (al_show lib) (el_tokens (al_encoding lib)) bytes RECORD_LIMIT"

definition bounded_canonical :: "provenance_library \<Rightarrow> json \<Rightarrow> (api_failure, string) result" where
  "bounded_canonical lib v =
    and_then (map_err (\<lambda>_. provenance_failure ''provenance_canonicalization'')
      (and_then (try_fold bounded_bytes_write [] (fst (sl_pieces (al_selection lib) v)))
        (\<lambda>bytes. if snd (sl_pieces (al_selection lib) v) then Ok bytes else Err ()))) (\<lambda>bytes.
    and_then (map_err (\<lambda>_. provenance_failure ''provenance_structure'') (read_record_text lib bytes)) (\<lambda>_.
      Ok bytes))"

definition record_text :: "provenance_library \<Rightarrow> provenance_record \<Rightarrow> (api_failure, string) result" where
  "record_text lib r = bounded_canonical lib (provenance_record_json (al_show lib) r)"

definition record_identity :: "provenance_library \<Rightarrow> provenance_record \<Rightarrow> (api_failure, string) result" where
  "record_identity lib r =
    and_then (bounded_canonical lib (provenance_envelope (al_show lib) r))
      (\<lambda>bytes. Ok (hex_sha256 (sl_sha (al_selection lib)) bytes))"

definition plan_source :: "resolved_plan \<Rightarrow> resolved_source" where
  "plan_source p = \<lparr>rs_document_id = rt_document_id (pl_root p), rs_version_id = rt_version_id (pl_root p),
     rs_microversion_id = rt_document_microversion (pl_root p), rs_element_id = rt_element_id (pl_root p),
     rs_element_kind = catalog_kind (rt_element_kind (pl_root p)), rs_link_document_id = None\<rparr>"

text \<open>The derived \<open>PartialEq\<close> of plans compares placements as numbers.\<close>

definition resolved_object_eq :: "resolved_object \<Rightarrow> resolved_object \<Rightarrow> bool" where
  "resolved_object_eq x y \<longleftrightarrow>
    ro_plan_local_object_identity x = ro_plan_local_object_identity y \<and> ro_selector x = ro_selector y
    \<and> ro_configured_leaf x = ro_configured_leaf y \<and> ro_display_name x = ro_display_name y
    \<and> ro_annotation x = ro_annotation y \<and> f64s_eq (ro_placement x) (ro_placement y)"

definition resolved_plan_eq :: "resolved_plan \<Rightarrow> resolved_plan \<Rightarrow> bool" where
  "resolved_plan_eq p q \<longleftrightarrow>
    pl_root p = pl_root q \<and> pl_authoring_document_identity p = pl_authoring_document_identity q
    \<and> list_all2 resolved_object_eq (pl_objects p) (pl_objects q) \<and> pl_plan_identity p = pl_plan_identity q"

section \<open>Validation of a record\<close>

text \<open>The request value of an object: the encoding of the request, or the configuration of its leaf.\<close>

definition binding_value :: "encoding_handoff \<Rightarrow> selection_element_kind \<Rightarrow> resolved_object \<Rightarrow> representation \<times> string" where
  "binding_value h kind x = (case kind of
     PartStudioElement \<Rightarrow> (PartStudioOriginalEncoding, eh_encoded_id h)
   | AssemblyElement \<Rightarrow> (AssemblyLeafFullConfiguration, cl_configuration_identity (ro_configured_leaf x)))"

definition planned_binding :: "encoding_handoff \<Rightarrow> selection_element_kind \<Rightarrow> nat \<times> resolved_object \<Rightarrow> provenance_binding" where
  "planned_binding h kind = (\<lambda>(position, x).
    let (representation, request_value) = binding_value h kind x
    in \<lparr>pb_position = position, pb_plan_local_object_identity = ro_plan_local_object_identity x,
        pb_selector = ro_selector x, pb_configured_leaf = ro_configured_leaf x,
        pb_representation = representation, pb_configuration_request_value = request_value\<rparr>)"

definition binding_check ::
  "provenance_record \<Rightarrow> nat \<Rightarrow> provenance_binding \<times> resolved_object \<Rightarrow> (api_failure, unit) result" where
  "binding_check r position = (\<lambda>(b, x).
    let (representation, request_value) =
          binding_value (pv_configuration_encoding r) (rt_element_kind (pl_root (pv_plan r))) x
    in if pb_position b \<noteq> position \<or> pb_plan_local_object_identity b \<noteq> ro_plan_local_object_identity x
         \<or> pb_selector b \<noteq> ro_selector x \<or> pb_configured_leaf b \<noteq> ro_configured_leaf x
         \<or> pb_representation b \<noteq> representation \<or> pb_configuration_request_value b \<noteq> request_value
       then Err (with_position position (provenance_failure ''provenance_binding_mismatch'')) else Ok ())"

text \<open>The state is the tables of the encodings; \<open>origin\<close> is that of the client.\<close>

definition validate_provenance ::
  "provenance_library \<Rightarrow> string \<Rightarrow> encoding_tables \<Rightarrow> provenance_record \<Rightarrow> (api_failure, unit) result" where
  "validate_provenance lib origin db r =
    and_then (validate_retained_plan (al_selection lib) (pv_plan r)) (\<lambda>_.
    and_then (if pv_provenance_schema_version r \<noteq> 1 \<or> pv_request_contract r \<noteq> CONTRACT
        \<or> \<not> is_sha256 (pv_provenance_identity r)
      then Err (provenance_failure ''provenance_record_identity'')
      else and_then (record_identity lib r) (\<lambda>identity.
        if identity \<noteq> pv_provenance_identity r \<or> length (pv_bindings r) \<noteq> length (pl_objects (pv_plan r))
        then Err (provenance_failure ''provenance_record_identity'') else Ok ())) (\<lambda>_.
    and_then (encoding_context_of (al_encoding lib) origin (plan_source (pv_plan r))) (\<lambda>expected.
      if pv_encoding_context r \<noteq> expected then Err (provenance_failure ''provenance_context_mismatch'')
      else
        and_then (map_err (\<lambda>_. provenance_failure ''provenance_handoff_mismatch'')
          (validate_handoff (al_encoding lib) origin (plan_source (pv_plan r)) (pv_configuration_encoding r) db)) (\<lambda>_.
        each (binding_check r) (zip (pv_bindings r) (pl_objects (pv_plan r)))))))"

section \<open>The association of a plan with its record\<close>

text \<open>The association is a row of the store of artifacts, beside the tables of the encodings.\<close>

record acquisition_tables =
  tq_encodings :: encoding_tables
  tq_store :: store

definition read_association ::
  "provenance_library \<Rightarrow> string \<Rightarrow> string \<Rightarrow> string \<Rightarrow> acquisition_tables \<Rightarrow> (api_failure, provenance_record) result"
where
  "read_association lib origin plan_identity provenance_identity db =
    and_then (ok_or (acquisition_provenance plan_identity (tq_store db))
      (provenance_failure ''provenance_association_missing'')) (\<lambda>(stored_identity, text).
    and_then (map_err (\<lambda>_. provenance_failure ''provenance_record_json'') (read_record_text lib text)) (\<lambda>v.
    and_then (ok_or (al_record lib v) (provenance_failure ''provenance_record_shape'')) (\<lambda>r.
    and_then (if pl_plan_identity (pv_plan r) \<noteq> plan_identity \<or> pv_provenance_identity r \<noteq> provenance_identity
        \<or> stored_identity \<noteq> provenance_identity
      then Err (provenance_failure ''provenance_association_mismatch'')
      else and_then (record_text lib r) (\<lambda>canonical.
        if canonical \<noteq> text then Err (provenance_failure ''provenance_association_mismatch'') else Ok ())) (\<lambda>_.
    and_then (validate_provenance lib origin (tq_encodings db) r) (\<lambda>_. Ok r)))))"

section \<open>Planning for an acquisition\<close>

fun selector_requested :: "authoring_selector \<Rightarrow> selection_selector \<Rightarrow> bool" where
  "selector_requested (PartStudioPart d m e c part_id) (Part selected) = (part_id = selected)"
| "selector_requested (AssemblyOccurrence d m e c path) (Occurrence selected) = (path = selected)"
| "selector_requested _ _ = False"

definition answers_invocation :: "selection_request \<Rightarrow> resolved_plan \<Rightarrow> bool" where
  "answers_invocation r p \<longleftrightarrow>
    rt_document_id (pl_root p) = sr_document_id r \<and> rt_version_id (pl_root p) = sr_version_id r
    \<and> rt_element_id (pl_root p) = sr_element_id r \<and> rt_element_kind (pl_root p) = sr_element_kind r
    \<and> length (pl_objects p) = length (sr_selectors r)
    \<and> list_all (\<lambda>(x, s). selector_requested (ro_selector x) s) (zip (pl_objects p) (sr_selectors r))"

text \<open>The context that was stored with the encoding of the request.\<close>

definition original_context ::
  "provenance_library \<Rightarrow> encoding_tables \<Rightarrow> encoding_handoff \<Rightarrow> (api_failure, encoding_context) result" where
  "original_context lib db h =
    and_then (ok_or (configuration_encoding db (eh_source_hash h) (eh_config_hash h) (eh_encoding_context_hash h))
      (provenance_failure ''provenance_encoding_missing'')) (\<lambda>cached.
    and_then (parse_bounded_json (al_show lib) (el_tokens (al_encoding lib)) (rec_encoding_context_json cached)
      SMALL_RESPONSE_LIMIT) (\<lambda>v.
    and_then (ok_or (el_context (al_encoding lib) v) (provenance_failure ''provenance_encoding_context'')) (\<lambda>c.
      if encoding_context_json c \<noteq> v then Err (provenance_failure ''provenance_encoding_context'') else Ok c)))"

definition planned_record ::
  "encoding_handoff \<Rightarrow> encoding_context \<Rightarrow> resolved_plan \<Rightarrow> provenance_record" where
  "planned_record h c p =
    \<lparr>pv_provenance_schema_version = 1, pv_request_contract = CONTRACT, pv_configuration_encoding = h,
     pv_encoding_context = c, pv_plan = p,
     pv_bindings = map (planned_binding h (rt_element_kind (pl_root p))) (enumerate 0 (pl_objects p)),
     pv_provenance_identity = []\<rparr>"

text \<open>Up to the transaction nothing is written; \<open>meanwhile\<close> is what other writers do before it.\<close>

definition prepare_record ::
  "provenance_library \<Rightarrow> planning_remote \<Rightarrow> selection_request \<Rightarrow> encoding_tables
    \<Rightarrow> (api_failure, provenance_record \<times> string) result" where
  "prepare_record lib remote r db =
    and_then (preflight r) (\<lambda>_.
    and_then (original_context lib db (sr_configuration_encoding r)) (\<lambda>c.
    and_then (plan_selection (al_selection lib) remote db r) (\<lambda>p.
      if \<not> answers_invocation r p then Err (provenance_failure ''provenance_invocation_mismatch'')
      else
        let draft = planned_record (sr_configuration_encoding r) c p in
        and_then (record_identity lib draft) (\<lambda>identity.
        let record = draft\<lparr>pv_provenance_identity := identity\<rparr> in
        and_then (validate_provenance lib (pr_origin remote) db record) (\<lambda>_.
        and_then (record_text lib record) (\<lambda>text.
          if valid_utf8 text then Ok (record, text) else Err (provenance_failure ''provenance_utf8'')))))))"

definition record_planning_invocation ::
  "provenance_library \<Rightarrow> planning_remote \<Rightarrow> (acquisition_tables \<Rightarrow> acquisition_tables) \<Rightarrow> selection_request
    \<Rightarrow> acquisition_tables \<Rightarrow> (api_failure, provenance_record) result \<times> acquisition_tables" where
  "record_planning_invocation lib remote meanwhile r db =
    (case prepare_record lib remote r (tq_encodings db) of
       Err e \<Rightarrow> (Err e, db)
     | Ok (record, text) \<Rightarrow>
         let db = meanwhile db;
             (recorded, stored) = record_acquisition_provenance (pl_plan_identity (pv_plan record))
               (pv_provenance_identity record) text (tq_store db);
             db = db\<lparr>tq_store := stored\<rparr>
         in (and_then (map_err (\<lambda>_. provenance_failure ''provenance_recording_failed'') recorded) (\<lambda>_.
               read_association lib (pr_origin remote) (pl_plan_identity (pv_plan record))
                 (pv_provenance_identity record) db), db))"

definition selection_kind :: "element_kind \<Rightarrow> selection_element_kind" where
  "selection_kind k = (case k of PartStudio \<Rightarrow> PartStudioElement | Assembly \<Rightarrow> AssemblyElement)"

definition preflight_handoff :: encoding_handoff where
  "preflight_handoff = \<lparr>eh_source_hash = replicate 64 (CHR ''0''), eh_config_hash = replicate 64 (CHR ''0''),
     eh_encoding_context_hash = replicate 64 (CHR ''0''), eh_encoded_id = ''preflight''\<rparr>"

definition plan_for_acquisition ::
  "provenance_library \<Rightarrow> remote \<Rightarrow> planning_remote \<Rightarrow> (encoding_tables \<Rightarrow> encoding_tables)
    \<Rightarrow> (acquisition_tables \<Rightarrow> acquisition_tables) \<Rightarrow> onshape_source \<Rightarrow> (string, canonical_value) btree
    \<Rightarrow> selection_selector list \<Rightarrow> acquisition_tables \<Rightarrow> (api_failure, provenance_record) result \<times> acquisition_tables"
where
  "plan_for_acquisition lib encoder planner encoding_writers writers source typed selectors db =
    (let request = \<lparr>sr_document_id = src_document_id source, sr_version_id = src_version_id source,
           sr_element_id = src_element_id source, sr_element_kind = selection_kind (src_element_kind source),
           sr_configuration_encoding = preflight_handoff, sr_selectors = selectors\<rparr>
     in case and_then (preflight request) (\<lambda>_.
          if src_link_document_id source \<noteq> None then Err invalid_acquisition else Ok ()) of
          Err e \<Rightarrow> (Err e, db)
        | Ok _ \<Rightarrow>
            (case resolve_encoding (al_encoding lib) encoder encoding_writers source typed (tq_encodings db) of
               (Err e, encodings) \<Rightarrow> (Err e, db\<lparr>tq_encodings := encodings\<rparr>)
             | (Ok h, encodings) \<Rightarrow>
                 record_planning_invocation lib planner writers (request\<lparr>sr_configuration_encoding := h\<rparr>)
                   (db\<lparr>tq_encodings := encodings\<rparr>)))"

section \<open>Lookup\<close>

definition lookup_of :: "provenance_record \<Rightarrow> provenance_lookup" where
  "lookup_of r = \<lparr>lk_provenance_schema_version = 1, lk_plan_identity = pl_plan_identity (pv_plan r),
     lk_provenance_identity = pv_provenance_identity r, lk_plan = None, lk_record = None\<rparr>"

definition lookup_text :: "provenance_library \<Rightarrow> provenance_lookup \<Rightarrow> (api_failure, string) result" where
  "lookup_text lib l = bounded_canonical lib (provenance_lookup_json (al_show lib) l)"

definition lookup_request :: "provenance_library \<Rightarrow> provenance_record \<Rightarrow> (api_failure, string) result" where
  "lookup_request lib r = lookup_text lib (lookup_of r)"

definition decode_lookup :: "provenance_library \<Rightarrow> string \<Rightarrow> (api_failure, provenance_lookup) result" where
  "decode_lookup lib bytes =
    and_then (map_err (\<lambda>_. invalid_acquisition) (read_record_text lib bytes)) (\<lambda>v.
    and_then (ok_or (al_lookup lib v) invalid_acquisition) (\<lambda>l.
      if lk_provenance_schema_version l \<noteq> 1 \<or> \<not> is_sha256 (lk_plan_identity l)
        \<or> \<not> is_sha256 (lk_provenance_identity l)
        \<or> field ''plan'' v = Some JNull \<or> field ''record'' v = Some JNull
      then Err invalid_acquisition
      else
        and_then (map_err (\<lambda>_. invalid_acquisition) (sl_jcs (al_selection lib) v)) (\<lambda>canonical.
        and_then (lookup_text lib l) (\<lambda>closed.
          if canonical \<noteq> closed then Err invalid_acquisition else Ok l))))"

definition supplied_differs :: "provenance_library \<Rightarrow> provenance_lookup \<Rightarrow> provenance_record \<Rightarrow> bool" where
  "supplied_differs lib l trusted \<longleftrightarrow>
    (case lk_plan l of None \<Rightarrow> False | Some p \<Rightarrow> \<not> resolved_plan_eq p (pv_plan trusted))
    \<or> (case lk_record l of None \<Rightarrow> False | Some r \<Rightarrow>
        (case record_text lib r of Err _ \<Rightarrow> None | Ok t \<Rightarrow> Some t)
          \<noteq> (case record_text lib trusted of Err _ \<Rightarrow> None | Ok t \<Rightarrow> Some t))"

definition lookup_acquisition_plan ::
  "provenance_library \<Rightarrow> string \<Rightarrow> string \<Rightarrow> acquisition_tables \<Rightarrow> (api_failure, provenance_record) result" where
  "lookup_acquisition_plan lib origin bytes db =
    and_then (decode_lookup lib bytes) (\<lambda>l.
    and_then (read_association lib origin (lk_plan_identity l) (lk_provenance_identity l) db) (\<lambda>trusted.
    and_then (if_some (lk_plan l) (validate_retained_plan (al_selection lib))) (\<lambda>_.
    and_then (if_some (lk_record l) (validate_provenance lib origin (tq_encodings db))) (\<lambda>_.
      if supplied_differs lib l trusted then Err (provenance_failure ''provenance_supplied_pair_mismatch'')
      else Ok trusted))))"

end
