(* ===== verification/Geometry_Acquisition.thy ===== *)
theory Geometry_Acquisition
  imports Geometry_Provenance
begin

text \<open>
  The acquisition of geometry (\<open>src/src/onshape_geometry.rs\<close>): one translation per distinct configured
  leaf, polled within bounds of number and time, its download retained with the evidence of the requests,
  and the check of the handoff by its consumer. The world outside (clock, connections, the directory of
  retained files) is a record of operations on a state \<open>'w\<close>; a step that need not return is in \<open>option\<close>.
\<close>

section \<open>Steps in a world\<close>

text \<open>Times are in milliseconds. A request with a deadline of its own is given it; one under
  \<open>timeout_at\<close> has no answer (\<open>None\<close>) at its deadline.\<close>

datatype retention = Retained nat | NotCreated | NotWritten | NotFlushed | TaskLost | RetentionLate

record 'w world =
  w_now :: "'w \<Rightarrow> nat \<times> 'w"
  w_sleep_until :: "nat \<Rightarrow> 'w \<Rightarrow> 'w"
  w_send :: "nat \<Rightarrow> api_request \<Rightarrow> 'w \<Rightarrow> (api_failure, geometry_download) result \<times> 'w"
  w_send_within :: "nat \<Rightarrow> api_request \<Rightarrow> 'w \<Rightarrow> (api_failure, geometry_download) result option \<times> 'w"
  w_retain :: "nat \<Rightarrow> string \<Rightarrow> 'w \<Rightarrow> retention \<times> 'w"

type_synonym ('w, 'a) step = "'w \<Rightarrow> ((api_failure, 'a) result \<times> 'w) option"

definition give :: "(api_failure, 'a) result \<Rightarrow> ('w, 'a) step" where
  "give r w = Some (r, w)"

definition chain :: "('w, 'a) step \<Rightarrow> ('a \<Rightarrow> ('w, 'b) step) \<Rightarrow> ('w, 'b) step" where
  "chain m f w = (case m w of
     None \<Rightarrow> None
   | Some (Err e, w) \<Rightarrow> Some (Err e, w)
   | Some (Ok a, w) \<Rightarrow> f a w)"

definition failing_with :: "(api_failure \<Rightarrow> api_failure) \<Rightarrow> ('w, 'a) step \<Rightarrow> ('w, 'a) step" where
  "failing_with g m w = map_option (apfst (map_err g)) (m w)"

fun each_step :: "('s \<Rightarrow> 'a \<Rightarrow> ('w, 's) step) \<Rightarrow> 's \<Rightarrow> 'a list \<Rightarrow> ('w, 's) step" where
  "each_step f s [] = give (Ok s)"
| "each_step f s (x # xs) = chain (f s x) (\<lambda>s. each_step f s xs)"

definition read_clock :: "'w world \<Rightarrow> ('w, nat) step" where
  "read_clock env w = (let (t, w) = w_now env w in Some (Ok t, w))"

definition ensure_time :: "'w world \<Rightarrow> nat \<Rightarrow> ('w, unit) step" where
  "ensure_time env deadline =
    chain (read_clock env) (\<lambda>t. give (if deadline \<le> t then Err acquisition_timeout else Ok ()))"

definition sleeping_until :: "'w world \<Rightarrow> nat \<Rightarrow> ('w, unit) step" where
  "sleeping_until env t w = Some (Ok (), w_sleep_until env t w)"

definition send_for_json :: "provenance_library \<Rightarrow> 'w world \<Rightarrow> nat \<Rightarrow> api_request \<Rightarrow> ('w, json) step" where
  "send_for_json lib env deadline r w =
    (let (answer, w) = w_send env deadline r w
     in Some (and_then answer (\<lambda>d. map_err (with_operation (ar_operation r))
          (parse_bounded_json (al_show lib) (el_tokens (al_encoding lib)) (downloaded d) (ar_limit r))), w))"

text \<open>\<open>timeout_at\<close> around \<open>resolve_version\<close>.\<close>

definition version_within :: "provenance_library \<Rightarrow> 'w world \<Rightarrow> nat \<Rightarrow> string \<Rightarrow> string \<Rightarrow> ('w, string) step" where
  "version_within lib env deadline document version w =
    (let r = version_request document version; (answer, w) = w_send_within env deadline r w
     in Some (case answer of
          None \<Rightarrow> Err acquisition_timeout
        | Some answer \<Rightarrow>
            and_then answer (\<lambda>d.
            and_then (map_err (with_operation (ar_operation r))
              (parse_bounded_json (al_show lib) (el_tokens (al_encoding lib)) (downloaded d) (ar_limit r)))
              (version_of_answer document version)), w))"

section \<open>Retained payloads and evidence\<close>

text \<open>A retained file is known by the number of its reference (\<open>Arc::ptr_eq\<close>).\<close>

record retained_payload =
  rp_storage_reference :: nat
  rp_byte_length :: nat
  rp_sha256 :: string

text \<open>\<open>copy_to\<close>: \<open>held\<close> is what the file behind the reference holds, if it can be read.\<close>

definition copy_to :: "string option \<Rightarrow> retained_payload \<Rightarrow> string \<Rightarrow> (api_failure, unit) result \<times> string" where
  "copy_to held p output = (case held of
     None \<Rightarrow> (Err (provenance_failure ''retention_read''), output)
   | Some bytes \<Rightarrow>
       (if length bytes \<noteq> rp_byte_length p then Err (provenance_failure ''retention_length'') else Ok (),
        output @ bytes))"

record acquisition_evidence =
  ae_request_contract :: string
  ae_representation :: representation
  ae_configuration_request_value :: string
  ae_document_id :: string
  ae_version_id :: string
  ae_configured_leaf :: configured_leaf
  ae_create_request_path :: string
  ae_create_request_query :: "(string, string) btree"
  ae_create_request_body :: json
  ae_create_translation_id :: string
  ae_terminal_translation_id :: string
  ae_external_data_id :: string
  ae_download_document_id :: string
  ae_transport_media :: string
  ae_byte_length :: nat
  ae_sha256 :: string

record payload_binding =
  ob_position :: nat
  ob_plan_local_object_identity :: string
  ob_configured_leaf :: configured_leaf
  ob_retained_payload :: retained_payload
  ob_acquisition_evidence :: acquisition_evidence

record acquired_geometry =
  ag_plan :: resolved_plan
  ag_provenance_identity :: string
  ag_bindings :: "payload_binding list"
  ag_retention_proof :: "(nat \<times> string) list"

definition acquisition_evidence_json :: "acquisition_evidence \<Rightarrow> json" where
  "acquisition_evidence_json e = members
     [(''requestContract'', Some (JStr (ae_request_contract e))),
      (''representation'', Some (JStr (representation_key (ae_representation e)))),
      (''configurationRequestValue'', Some (JStr (ae_configuration_request_value e))),
      (''documentId'', Some (JStr (ae_document_id e))),
      (''versionId'', Some (JStr (ae_version_id e))),
      (''configuredLeaf'', Some (configured_leaf_json (ae_configured_leaf e))),
      (''createRequestPath'', Some (JStr (ae_create_request_path e))),
      (''createRequestQuery'', Some (string_map_json (ae_create_request_query e))),
      (''createRequestBody'', Some (ae_create_request_body e)),
      (''createTranslationId'', Some (JStr (ae_create_translation_id e))),
      (''terminalTranslationId'', Some (JStr (ae_terminal_translation_id e))),
      (''externalDataId'', Some (JStr (ae_external_data_id e))),
      (''downloadDocumentId'', Some (JStr (ae_download_document_id e))),
      (''transportMedia'', Some (JStr (ae_transport_media e))),
      (''byteLength'', Some (JNum (PosInt (of_nat (ae_byte_length e))))),
      (''sha256'', Some (JStr (ae_sha256 e)))]"

definition acquisition_evidence_identity ::
  "provenance_library \<Rightarrow> acquisition_evidence \<Rightarrow> (api_failure, string) result" where
  "acquisition_evidence_identity lib e =
    map_err (\<lambda>_. provenance_failure ''acquisition_evidence_identity'')
      (hash_json (sl_jcs (al_selection lib)) (sl_sha (al_selection lib))
        ''onshape-export-geometry-acquisition-evidence-v1'' (acquisition_evidence_json e))"

definition evidence_agrees :: "provenance_record \<Rightarrow> payload_binding \<Rightarrow> provenance_binding \<Rightarrow> bool" where
  "evidence_agrees r b planned \<longleftrightarrow>
    (let e = ob_acquisition_evidence b; rt = pl_root (pv_plan r) in
     ob_position b = pb_position planned
     \<and> ob_plan_local_object_identity b = pb_plan_local_object_identity planned
     \<and> ob_configured_leaf b = pb_configured_leaf planned
     \<and> ae_configured_leaf e = pb_configured_leaf planned
     \<and> ae_configuration_request_value e = pb_configuration_request_value planned
     \<and> ae_representation e = pb_representation planned
     \<and> ae_request_contract e = pv_request_contract r
     \<and> ae_document_id e = rt_document_id rt
     \<and> ae_version_id e = rt_version_id rt
     \<and> ae_download_document_id e = rt_document_id rt
     \<and> ae_create_translation_id e = ae_terminal_translation_id e
     \<and> bounded_visible_ascii (ae_external_data_id e)
     \<and> bounded_visible_ascii (ae_create_translation_id e)
     \<and> ae_create_request_path e =
         geometry_create_path (ae_document_id e) (ae_version_id e) (cl_element_id (ob_configured_leaf b))
     \<and> ae_create_request_query e = []
     \<and> ae_create_request_body e =
         geometry_create_body (pb_configuration_request_value planned) (cl_part_id (pb_configured_leaf planned))
     \<and> ae_byte_length e = rp_byte_length (ob_retained_payload b)
     \<and> ae_sha256 e = rp_sha256 (ob_retained_payload b)
     \<and> ae_byte_length e \<noteq> 0
     \<and> ae_byte_length e \<le> 134217728
     \<and> is_sha256 (ae_sha256 e))"

definition validate_acquired :: "provenance_record \<Rightarrow> payload_binding list \<Rightarrow> (api_failure, unit) result" where
  "validate_acquired r bs =
    (if length bs \<noteq> length (pv_bindings r) then Err (provenance_failure ''acquisition_handoff_cardinality'')
     else each (\<lambda>_ (b, planned). ensure (evidence_agrees r b planned)
         (with_position (pb_position planned) (provenance_failure ''acquisition_handoff_mismatch'')))
       (zip bs (pv_bindings r)))"

text \<open>The consumer's check of a handoff, without any access to the outside.\<close>

definition validate_acquisition_handoff ::
  "provenance_library \<Rightarrow> provenance_record \<Rightarrow> acquired_geometry \<Rightarrow> (api_failure, unit) result" where
  "validate_acquisition_handoff lib trusted g =
    and_then (validate_retained_plan (al_selection lib) (ag_plan g)) (\<lambda>_.
      if \<not> resolved_plan_eq (ag_plan g) (pv_plan trusted)
        \<or> ag_provenance_identity g \<noteq> pv_provenance_identity trusted
        \<or> length (ag_retention_proof g) \<noteq> length (ag_bindings g)
      then Err (provenance_failure ''acquisition_handoff_proof'')
      else
        and_then (validate_acquired trusted (ag_bindings g)) (\<lambda>_.
          each (\<lambda>_ (b, storage, identity).
              if storage \<noteq> rp_storage_reference (ob_retained_payload b)
              then Err (with_position (ob_position b) (provenance_failure ''acquisition_handoff_proof''))
              else and_then (acquisition_evidence_identity lib (ob_acquisition_evidence b)) (\<lambda>expected.
                ensure (identity = expected)
                  (with_position (ob_position b) (provenance_failure ''acquisition_handoff_proof''))))
            (zip (ag_bindings g) (ag_retention_proof g))))"

section \<open>Translations\<close>

record acquisition_timing =
  tm_plan :: nat
  tm_leaf :: nat
  tm_translation :: nat
  tm_poll_intervals :: "nat list"
  tm_max_polls :: nat

definition default_timing :: acquisition_timing where
  "default_timing = \<lparr>tm_plan = 900000, tm_leaf = 660000, tm_translation = 600000,
     tm_poll_intervals = map (\<lambda>s. s * 1000) [2, 4, 8, 15, 30], tm_max_polls = 32\<rparr>"

definition translation ::
  "json \<Rightarrow> resolved_plan \<Rightarrow> configured_leaf \<Rightarrow> string option \<Rightarrow> (api_failure, string \<times> string) result" where
  "translation v p leaf expected_id =
    and_then (ok_or (as_object v) (provenance_failure ''translation_shape'')) (\<lambda>obj.
    and_then (required_ascii obj ''id'') (\<lambda>ident.
    and_then (required_ascii obj ''requestState'') (\<lambda>state.
    and_then (ensure (expected_id \<in> {None, Some ident} \<and> state \<in> {''ACTIVE'', ''DONE'', ''FAILED''})
      (provenance_failure ''translation_identity_state'')) (\<lambda>_.
    and_then (each (\<lambda>_ (name, expected).
        if member name obj = None then Ok ()
        else and_then (required_ascii obj name) (\<lambda>found.
          ensure (found = expected) (provenance_failure ''translation_source_echo'')))
      [(''documentId'', rt_document_id (pl_root p)), (''requestElementId'', cl_element_id leaf),
       (''versionId'', rt_version_id (pl_root p)), (''resultDocumentId'', rt_document_id (pl_root p))]) (\<lambda>_.
      Ok (ident, state))))))"

definition terminal_external_data :: "json \<Rightarrow> (api_failure, string) result" where
  "terminal_external_data v =
    and_then (ok_or (as_object v) (provenance_failure ''translation_shape'')) (\<lambda>obj.
    and_then (ok_or (filter_opt (\<lambda>ids. length ids = 1) (Option.bind (member ''resultExternalDataIds'' obj) as_array))
      (provenance_failure ''translation_result_cardinality'')) (\<lambda>results.
    and_then (ok_or (filter_opt bounded_visible_ascii (as_str (results ! 0)))
      (provenance_failure ''translation_result_id'')) (\<lambda>ident.
      if (case member ''resultElementIds'' obj of
            None \<Rightarrow> False
          | Some elements \<Rightarrow> elements \<noteq> JNull \<and> as_array elements \<noteq> Some [])
      then Err (provenance_failure ''translation_result_elements'') else Ok ident)))"

text \<open>One pass through the body of the polling loop: wait, ask, and read the state.\<close>

definition poll_once ::
  "provenance_library \<Rightarrow> 'w world \<Rightarrow> acquisition_timing \<Rightarrow> resolved_plan \<Rightarrow> configured_leaf \<Rightarrow> string \<Rightarrow> nat \<Rightarrow> nat
    \<Rightarrow> ('w, json \<times> string) step" where
  "poll_once lib env timing p leaf create_id deadline polls =
    chain (ensure_time env deadline) (\<lambda>_.
    chain (read_clock env) (\<lambda>t.
    chain (sleeping_until env (min (t + tm_poll_intervals timing ! min polls 4) deadline)) (\<lambda>_.
    chain (ensure_time env deadline) (\<lambda>_.
    chain (send_for_json lib env deadline (poll_translation_request create_id)) (\<lambda>v.
    chain (ensure_time env deadline) (\<lambda>_.
    chain (give (translation v p leaf (Some create_id))) (\<lambda>(_, next_state).
      give (Ok (v, next_state)))))))))"

text \<open>The loop itself, which nothing but its own counter ends when Onshape never settles.\<close>

partial_function (option) poll_loop ::
  "(nat \<Rightarrow> ('w, json \<times> string) step) \<Rightarrow> nat \<Rightarrow> nat \<Rightarrow> string \<Rightarrow> json \<Rightarrow> ('w, json) step" where
  "poll_loop poll_at max_polls polls state v w =
    (if state = ''FAILED''
     then Some (Err (api_failure_new OperationalTranslationFailure ''translation_failed''), w)
     else if state = ''DONE'' then Some (Ok v, w)
     else if max_polls \<le> polls then Some (Err acquisition_timeout, w)
     else (case poll_at polls w of
         None \<Rightarrow> None
       | Some (Err e, w) \<Rightarrow> Some (Err e, w)
       | Some (Ok (v, state), w) \<Rightarrow> poll_loop poll_at max_polls (Suc polls) state v w))"

section \<open>One leaf\<close>

definition retention_result :: "retention \<Rightarrow> (api_failure, nat) result" where
  "retention_result x = (case x of
     Retained storage \<Rightarrow> Ok storage
   | NotCreated \<Rightarrow> Err (provenance_failure ''retention_create'')
   | NotWritten \<Rightarrow> Err (provenance_failure ''retention_write'')
   | NotFlushed \<Rightarrow> Err (provenance_failure ''retention_flush'')
   | TaskLost \<Rightarrow> Err (provenance_failure ''retention_task'')
   | RetentionLate \<Rightarrow> Err acquisition_timeout)"

definition retaining :: "'w world \<Rightarrow> nat \<Rightarrow> string \<Rightarrow> ('w, nat) step" where
  "retaining env deadline bytes w = (let (x, w) = w_retain env deadline bytes w in Some (retention_result x, w))"

definition downloading :: "'w world \<Rightarrow> nat \<Rightarrow> string \<Rightarrow> string \<Rightarrow> ('w, geometry_download) step" where
  "downloading env deadline document ident w = Some (w_send env deadline (download_request document ident) w)"

definition create_request :: "resolved_plan \<Rightarrow> provenance_binding \<Rightarrow> api_request" where
  "create_request p b =
    create_translation_request (rt_document_id (pl_root p)) (rt_version_id (pl_root p))
      (cl_element_id (pb_configured_leaf b)) (pb_configuration_request_value b) (cl_part_id (pb_configured_leaf b))"

definition evidence_of ::
  "resolved_plan \<Rightarrow> provenance_binding \<Rightarrow> string \<Rightarrow> string \<Rightarrow> geometry_download \<Rightarrow> string \<Rightarrow> acquisition_evidence" where
  "evidence_of p b create_id external_data_id d sha =
    \<lparr>ae_request_contract = CONTRACT, ae_representation = pb_representation b,
     ae_configuration_request_value = pb_configuration_request_value b,
     ae_document_id = rt_document_id (pl_root p), ae_version_id = rt_version_id (pl_root p),
     ae_configured_leaf = pb_configured_leaf b,
     ae_create_request_path = geometry_create_path (rt_document_id (pl_root p)) (rt_version_id (pl_root p))
       (cl_element_id (pb_configured_leaf b)),
     ae_create_request_query = [],
     ae_create_request_body = geometry_create_body (pb_configuration_request_value b) (cl_part_id (pb_configured_leaf b)),
     ae_create_translation_id = create_id, ae_terminal_translation_id = create_id,
     ae_external_data_id = external_data_id, ae_download_document_id = rt_document_id (pl_root p),
     ae_transport_media = transport_media d, ae_byte_length = length (downloaded d), ae_sha256 = sha\<rparr>"

text \<open>Once the translation is done: download its only result, hash it and retain it.\<close>

definition retain_result ::
  "provenance_library \<Rightarrow> 'w world \<Rightarrow> resolved_plan \<Rightarrow> provenance_binding \<Rightarrow> nat \<Rightarrow> string \<Rightarrow> json
    \<Rightarrow> ('w, retained_payload \<times> acquisition_evidence) step" where
  "retain_result lib env p b deadline create_id v =
    chain (give (terminal_external_data v)) (\<lambda>external_data_id.
    chain (ensure_time env deadline) (\<lambda>_.
    chain (downloading env deadline (rt_document_id (pl_root p)) external_data_id) (\<lambda>d.
    chain (ensure_time env deadline) (\<lambda>_.
    let sha = hex_sha256 (sl_sha (al_selection lib)) (downloaded d) in
    chain (ensure_time env deadline) (\<lambda>_.
    chain (retaining env deadline (downloaded d)) (\<lambda>storage.
    chain (ensure_time env deadline) (\<lambda>_.
    chain (ensure_time env deadline) (\<lambda>_.
      give (Ok (\<lparr>rp_storage_reference = storage, rp_byte_length = length (downloaded d), rp_sha256 = sha\<rparr>,
        evidence_of p b create_id external_data_id d sha))))))))))"

definition acquire_leaf ::
  "provenance_library \<Rightarrow> 'w world \<Rightarrow> acquisition_timing \<Rightarrow> resolved_plan \<Rightarrow> provenance_binding \<Rightarrow> nat
    \<Rightarrow> ('w, retained_payload \<times> acquisition_evidence) step" where
  "acquire_leaf lib env timing p b plan_deadline =
    chain (read_clock env) (\<lambda>started.
    let translation_deadline = min (started + tm_translation timing) plan_deadline;
        leaf_deadline = min (started + tm_leaf timing) plan_deadline;
        leaf = pb_configured_leaf b in
    chain (ensure_time env translation_deadline) (\<lambda>_.
    chain (send_for_json lib env translation_deadline (create_request p b)) (\<lambda>v.
    chain (ensure_time env translation_deadline) (\<lambda>_.
    chain (give (translation v p leaf None)) (\<lambda>(create_id, state).
    chain (poll_loop (poll_once lib env timing p leaf create_id translation_deadline) (tm_max_polls timing) 0 state v) (\<lambda>v.
      retain_result lib env p b leaf_deadline create_id v))))))"

section \<open>The acquisition of a plan\<close>

type_synonym acquired_leaves = "configured_leaf \<rightharpoonup> retained_payload \<times> acquisition_evidence"

definition acquire_binding ::
  "provenance_library \<Rightarrow> 'w world \<Rightarrow> acquisition_timing \<Rightarrow> resolved_plan \<Rightarrow> nat
    \<Rightarrow> acquired_leaves \<times> payload_binding list \<Rightarrow> provenance_binding
    \<Rightarrow> ('w, acquired_leaves \<times> payload_binding list) step" where
  "acquire_binding lib env timing p deadline = (\<lambda>(acquired, bs) b.
    chain (ensure_time env deadline) (\<lambda>_.
    chain (if acquired (pb_configured_leaf b) \<noteq> None then give (Ok acquired)
       else chain (failing_with (with_position (pb_position b)) (acquire_leaf lib env timing p b deadline)) (\<lambda>x.
         give (Ok (acquired(pb_configured_leaf b \<mapsto> x))))) (\<lambda>acquired.
    chain (give (ok_or (acquired (pb_configured_leaf b)) (provenance_failure ''acquisition_binding_missing''))) (\<lambda>(payload, e).
      give (if ae_configuration_request_value e \<noteq> pb_configuration_request_value b
          \<or> ae_representation e \<noteq> pb_representation b
        then Err (provenance_failure ''acquisition_reuse_conflict'')
        else Ok (acquired, bs @ [\<lparr>ob_position = pb_position b,
          ob_plan_local_object_identity = pb_plan_local_object_identity b,
          ob_configured_leaf = pb_configured_leaf b, ob_retained_payload = payload,
          ob_acquisition_evidence = e\<rparr>]))))))"

definition snapshot_matches :: "resolved_plan \<Rightarrow> string \<Rightarrow> bool" where
  "snapshot_matches p microversion \<longleftrightarrow>
    microversion = rt_document_microversion (pl_root p)
    \<and> list_all (\<lambda>x. cl_document_id (ro_configured_leaf x) = rt_document_id (pl_root p)
        \<and> cl_document_microversion (ro_configured_leaf x) = microversion) (pl_objects p)"

definition retention_proof ::
  "provenance_library \<Rightarrow> payload_binding list \<Rightarrow> (api_failure, (nat \<times> string) list) result" where
  "retention_proof lib = collect_results (\<lambda>b.
    and_then (acquisition_evidence_identity lib (ob_acquisition_evidence b)) (\<lambda>identity.
      Ok (rp_storage_reference (ob_retained_payload b), identity)))"

definition acquire_record ::
  "provenance_library \<Rightarrow> 'w world \<Rightarrow> acquisition_timing \<Rightarrow> provenance_record \<Rightarrow> ('w, acquired_geometry) step" where
  "acquire_record lib env timing r =
    chain (read_clock env) (\<lambda>start.
    let deadline = start + tm_plan timing; p = pv_plan r in
    chain (ensure_time env deadline) (\<lambda>_.
    chain (version_within lib env deadline (rt_document_id (pl_root p)) (rt_version_id (pl_root p))) (\<lambda>microversion.
    chain (ensure_time env deadline) (\<lambda>_.
    chain (give (ensure (snapshot_matches p microversion)
      (api_failure_new UnavailableSourceState ''acquisition_snapshot_mismatch''))) (\<lambda>_.
    chain (each_step (acquire_binding lib env timing p deadline) (Map.empty, []) (pv_bindings r)) (\<lambda>(_, bs).
    chain (ensure_time env deadline) (\<lambda>_.
    chain (give (validate_acquired r bs)) (\<lambda>_.
    chain (give (retention_proof lib bs)) (\<lambda>proofs.
    chain (ensure_time env deadline) (\<lambda>_.
      give (Ok \<lparr>ag_plan = p, ag_provenance_identity = pv_provenance_identity r, ag_bindings = bs,
        ag_retention_proof = proofs\<rparr>)))))))))))"

text \<open>\<open>acquire_geometry\<close> reads the association again and compares it with the handle.\<close>

definition acquire_with_timing ::
  "provenance_library \<Rightarrow> string \<Rightarrow> 'w world \<Rightarrow> acquisition_timing \<Rightarrow> provenance_record \<Rightarrow> acquisition_tables
    \<Rightarrow> ('w, acquired_geometry) step" where
  "acquire_with_timing lib origin env timing trusted db =
    chain (give (
      and_then (read_association lib origin (pl_plan_identity (pv_plan trusted)) (pv_provenance_identity trusted) db) (\<lambda>checked.
      and_then (record_text lib checked) (\<lambda>checked_text.
      and_then (record_text lib trusted) (\<lambda>trusted_text.
        if checked_text \<noteq> trusted_text then Err (provenance_failure ''provenance_handle_mismatch'')
        else Ok checked))))) (\<lambda>checked.
      acquire_record lib env timing checked)"

definition acquire_geometry ::
  "provenance_library \<Rightarrow> string \<Rightarrow> 'w world \<Rightarrow> provenance_record \<Rightarrow> acquisition_tables \<Rightarrow> ('w, acquired_geometry) step"
where
  "acquire_geometry lib origin env trusted db = acquire_with_timing lib origin env default_timing trusted db"

end
