(* ===== verification/Geometry_Requests.thy ===== *)
theory Geometry_Requests
  imports Geometry_Acquisition
begin

text \<open>
  What an acquisition asks of Onshape: it returns in every world, after a bounded number of requests, and
  exports every distinct configured leaf once. The requests are read off a log that is kept beside the
  world; \<open>sends\<close> is a step's postcondition on its result and its requests.
\<close>

section \<open>Steps that return, and what they send\<close>

type_synonym request_log = "(nat \<times> api_request) list"

definition logged :: "'w world \<Rightarrow> ('w \<times> request_log) world" where
  "logged env =
    \<lparr>w_now = (\<lambda>(w, l). let (t, w) = w_now env w in (t, w, l)),
     w_sleep_until = (\<lambda>t (w, l). (w_sleep_until env t w, l)),
     w_send = (\<lambda>d r (w, l). let (a, w) = w_send env d r w in (a, w, l @ [(d, r)])),
     w_send_within = (\<lambda>d r (w, l). let (a, w) = w_send_within env d r w in (a, w, l @ [(d, r)])),
     w_retain = (\<lambda>d bytes (w, l). let (x, w) = w_retain env d bytes w in (x, w, l))\<rparr>"

definition returns :: "('w, 'a) step \<Rightarrow> bool" where
  "returns m \<longleftrightarrow> (\<forall>w. \<exists>r w'. m w = Some (r, w'))"

definition sends :: "('w \<times> request_log, 'a) step \<Rightarrow> ((api_failure, 'a) result \<Rightarrow> request_log \<Rightarrow> bool) \<Rightarrow> bool" where
  "sends m P \<longleftrightarrow> (\<forall>w l. \<exists>r w' new. m (w, l) = Some (r, w', l @ new) \<and> P r new)"

named_theorems step_simps \<open>when a step succeeds\<close>

lemma chain_Ok [step_simps]:
  "chain m f w = Some (Ok b, w') \<longleftrightarrow> (\<exists>a w1. m w = Some (Ok a, w1) \<and> f a w1 = Some (Ok b, w'))"
  by (auto simp: chain_def split: option.splits prod.splits sum.splits)

lemma give_Some [step_simps]: "give r w = Some (x, w') \<longleftrightarrow> r = x \<and> w' = w"
  by (auto simp: give_def)

lemma failing_with_Ok [step_simps]: "failing_with g m w = Some (Ok a, w') \<longleftrightarrow> m w = Some (Ok a, w')"
  by (auto simp: failing_with_def map_err_Ok)

lemma returns_chain [intro]: "returns m \<Longrightarrow> (\<And>a. returns (f a)) \<Longrightarrow> returns (chain m f)"
proof -
  assume m: "returns m" and f: "\<And>a. returns (f a)"
  show "returns (chain m f)"
    unfolding returns_def
  proof
    fix w
    obtain r w1 where "m w = Some (r, w1)" using m unfolding returns_def by blast
    then show "\<exists>r w'. chain m f w = Some (r, w')"
      using f unfolding returns_def chain_def by (cases r) auto
  qed
qed

lemma returns_give [intro]: "returns (give r)"
  by (simp add: returns_def give_def)

lemma returns_failing_with [intro]: "returns m \<Longrightarrow> returns (failing_with g m)"
  unfolding returns_def failing_with_def by (metis option.simps(9) apfst_conv)

lemma returns_each_step [intro]: "(\<And>s x. returns (f s x)) \<Longrightarrow> returns (each_step f s xs)"
  by (induction xs arbitrary: s) auto

lemma sends_give: "P r [] \<Longrightarrow> sends (give r) P"
  by (simp add: sends_def give_def)

lemma sendsE:
  assumes "sends m P"
  obtains r w' new where "m (w, l) = Some (r, w', l @ new)" "P r new"
  using assms unfolding sends_def by blast

lemma sends_mono: "sends m P \<Longrightarrow> (\<And>r new. P r new \<Longrightarrow> Q r new) \<Longrightarrow> sends m Q"
  unfolding sends_def by metis

lemma sends_chain:
  assumes m: "sends m P" and f: "\<And>a new. P (Ok a) new \<Longrightarrow> sends (f a) (Q a)"
    and err: "\<And>e new. P (Err e) new \<Longrightarrow> R (Err e) new"
    and ok: "\<And>a r old new. P (Ok a) old \<Longrightarrow> Q a r new \<Longrightarrow> R r (old @ new)"
  shows "sends (chain m f) R"
  unfolding sends_def
proof (intro allI)
  fix w l
  obtain r w1 old where s: "m (w, l) = Some (r, w1, l @ old)" "P r old" using m unfolding sends_def by blast
  show "\<exists>r w' new. chain m f (w, l) = Some (r, w', l @ new) \<and> R r new"
  proof (cases r)
    case (Inl e)
    then show ?thesis using s err by (simp add: chain_def)
  next
    case (Inr a)
    then obtain r' w' new where "f a (w1, l @ old) = Some (r', w', (l @ old) @ new)" "Q a r' new"
      using f s(2) unfolding sends_def by metis
    then show ?thesis using s Inr ok by (simp add: chain_def)
  qed
qed

text \<open>A first step without requests.\<close>

lemma sends_after:
  assumes "sends m (\<lambda>r new. new = [])" "\<And>a. sends (f a) R" "\<And>e. R (Err e) []"
  shows "sends (chain m f) R"
  by (rule sends_chain [OF assms(1), where Q = "\<lambda>_. R"]) (use assms in auto)

lemma sends_failing_with:
  assumes "sends m P" "\<And>r new. P r new \<Longrightarrow> Q (map_err g r) new"
  shows "sends (failing_with g m) Q"
proof -
  have "\<exists>r w' new. failing_with g m (w, l) = Some (r, w', l @ new) \<and> Q r new" for w l
  proof -
    obtain r w' new where "m (w, l) = Some (r, w', l @ new)" "P r new" using assms(1) unfolding sends_def by blast
    then show ?thesis using assms(2) by (simp add: failing_with_def)
  qed
  then show ?thesis by (simp add: sends_def)
qed

section \<open>The primitive steps\<close>

lemma primitive_steps_return [intro]:
  "returns (read_clock env)" "returns (sleeping_until env t)" "returns (send_for_json lib env d r)"
  "returns (version_within lib env d document version)" "returns (retaining env d bytes)"
  "returns (downloading env d document ident)"
  by (auto simp: returns_def read_clock_def sleeping_until_def send_for_json_def version_within_def retaining_def
      downloading_def Let_def split: prod.splits)

lemma ensure_time_returns [intro]: "returns (ensure_time env d)"
  unfolding ensure_time_def by blast

lemma quiet_steps:
  "sends (read_clock (logged env)) (\<lambda>r new. new = [])"
  "sends (sleeping_until (logged env) t) (\<lambda>r new. new = [])"
  "sends (retaining (logged env) d bytes) (\<lambda>r new. new = [])"
  by (auto simp: sends_def logged_def read_clock_def sleeping_until_def retaining_def Let_def split: prod.splits)

lemma ensure_time_quiet: "sends (ensure_time (logged env) d) (\<lambda>r new. new = [])"
  unfolding ensure_time_def by (rule sends_after [OF quiet_steps(1)]) (auto intro: sends_give)

lemma sending_steps:
  "sends (send_for_json lib (logged env) d r) (\<lambda>_ new. map snd new = [r])"
  "sends (version_within lib (logged env) d document version) (\<lambda>_ new. map snd new = [version_request document version])"
  "sends (downloading (logged env) d document ident) (\<lambda>_ new. map snd new = [download_request document ident])"
  by (auto simp: sends_def logged_def send_for_json_def version_within_def downloading_def Let_def split: prod.splits)

lemmas quiet = ensure_time_quiet quiet_steps

section \<open>Polling\<close>

lemma poll_once_returns [intro]: "returns (poll_once lib env timing p leaf create_id d polls)"
  unfolding poll_once_def
  by (intro returns_chain returns_give ensure_time_returns primitive_steps_return) (auto split: prod.splits)

lemma poll_once_sends:
  "sends (poll_once lib (logged env) timing p leaf create_id d polls)
    (\<lambda>r new. map snd new \<in> {[], [poll_translation_request create_id]}
      \<and> (is_ok r \<longrightarrow> map snd new = [poll_translation_request create_id]))"
  (is "sends _ ?P")
proof -
  have asked: "sends (chain (send_for_json lib (logged env) d (poll_translation_request create_id)) (\<lambda>v.
      chain (ensure_time (logged env) d) (\<lambda>_.
      chain (give (translation v p leaf (Some create_id))) (\<lambda>(_, next_state). give (Ok (v, next_state)))))) ?P"
    by (rule sends_chain [OF sending_steps(1), where Q = "\<lambda>_ r new. new = []"])
      (auto intro!: sends_after [OF quiet(1)] sends_after [OF sends_give] sends_give)
  show ?thesis
    unfolding poll_once_def
    by (intro sends_after [OF quiet(1)] sends_after [OF quiet(2)] sends_after [OF quiet(3)] asked)
      (auto simp: is_ok_def)
qed

lemma poll_loop_returns:
  assumes "\<And>k. returns (poll_at k)"
  shows "returns (poll_loop poll_at max_polls polls state v)"
proof (induction "max_polls - polls" arbitrary: polls state v rule: less_induct)
  case less
  show ?case
    unfolding returns_def
  proof
    fix w
    obtain r w' where one: "poll_at polls w = Some (r, w')" using assms unfolding returns_def by blast
    have "\<exists>r w''. poll_loop poll_at max_polls (Suc polls) s v w' = Some (r, w'')" if "\<not> max_polls \<le> polls" for s v
      using less [of "Suc polls" s v] that unfolding returns_def by auto
    then show "\<exists>r w'. poll_loop poll_at max_polls polls state v w = Some (r, w')"
      using one by (subst poll_loop.simps) (auto split: sum.splits prod.splits)
  qed
qed

lemma poll_loop_sends:
  assumes "\<And>k. sends (poll_at k) (\<lambda>r new. map snd new \<in> {[], [q]} \<and> (is_ok r \<longrightarrow> map snd new = [q]))"
  shows "sends (poll_loop poll_at max_polls polls state v) (\<lambda>_ new. \<exists>n \<le> max_polls - polls. map snd new = replicate n q)"
proof (induction "max_polls - polls" arbitrary: polls state v rule: less_induct)
  case less
  show ?case
    unfolding sends_def
  proof (intro allI)
    fix w l
    show "\<exists>r w' new. poll_loop poll_at max_polls polls state v (w, l) = Some (r, w', l @ new)
        \<and> (\<exists>n \<le> max_polls - polls. map snd new = replicate n q)"
    proof (cases "state = ''FAILED'' \<or> state = ''DONE'' \<or> max_polls \<le> polls")
      case True
      then show ?thesis by (subst poll_loop.simps) auto
    next
      case False
      obtain r w1 old where one: "poll_at polls (w, l) = Some (r, w1, l @ old)"
        and sent: "map snd old \<in> {[], [q]} \<and> (is_ok r \<longrightarrow> map snd old = [q])"
        by (rule sendsE [OF assms])
      show ?thesis
      proof (cases r)
        case (Inl e)
        then have "poll_loop poll_at max_polls polls state v (w, l) = Some (Err e, w1, l @ old)"
          using False one by (subst poll_loop.simps) simp
        moreover have "\<exists>n \<le> max_polls - polls. map snd old = replicate n q"
          using sent False by (auto intro: exI [of _ 0] exI [of _ "Suc 0"])
        ultimately show ?thesis by blast
      next
        case (Inr vs)
        obtain v1 s1 where vs: "vs = (v1, s1)" by (cases vs)
        have "sends (poll_loop poll_at max_polls (Suc polls) s1 v1)
            (\<lambda>_ new. \<exists>n \<le> max_polls - Suc polls. map snd new = replicate n q)"
          by (rule less) (use False in auto)
        then obtain r' w' new n where rec: "poll_loop poll_at max_polls (Suc polls) s1 v1 (w1, l @ old) = Some (r', w', (l @ old) @ new)"
          "n \<le> max_polls - Suc polls" "map snd new = replicate n q"
          by (elim sendsE [where w = w1 and l = "l @ old"]) auto
        have "poll_loop poll_at max_polls polls state v (w, l) = Some (r', w', l @ (old @ new))"
          using False one Inr vs rec(1) by (subst poll_loop.simps) simp
        moreover have "map snd (old @ new) = replicate (Suc n) q" using sent Inr rec(3) by (simp add: is_ok_def)
        moreover have "Suc n \<le> max_polls - polls" using rec(2) False by linarith
        ultimately show ?thesis by blast
      qed
    qed
  qed
qed

section \<open>One leaf\<close>

lemma retain_result_returns [intro]: "returns (retain_result lib env p b d create_id v)"
  unfolding retain_result_def Let_def by (intro returns_chain returns_give ensure_time_returns primitive_steps_return)

lemma acquire_leaf_returns [intro]: "returns (acquire_leaf lib env timing p b d)"
  unfolding acquire_leaf_def Let_def
  by (intro returns_chain returns_give ensure_time_returns primitive_steps_return)
    (auto intro!: returns_chain poll_loop_returns split: prod.splits)

text \<open>
  What a leaf asks: its export, the translation that was created any number of times within the bound,
  and the one result of the translation.
\<close>

definition leaf_requests :: "resolved_plan \<Rightarrow> provenance_binding \<Rightarrow> nat \<Rightarrow> acquisition_evidence \<Rightarrow> api_request list" where
  "leaf_requests p b n e =
    create_request p b # replicate n (poll_translation_request (ae_create_translation_id e))
    @ [download_request (rt_document_id (pl_root p)) (ae_external_data_id e)]"

lemma retain_result_sends:
  "sends (retain_result lib (logged env) p b d create_id v) (\<lambda>r new. length new \<le> 1
    \<and> (\<forall>payload e. r = Ok (payload, e) \<longrightarrow> ae_create_translation_id e = create_id
        \<and> map snd new = [download_request (rt_document_id (pl_root p)) (ae_external_data_id e)]))"
  (is "sends _ ?R")
proof -
  have fetched: "sends (chain (downloading (logged env) d (rt_document_id (pl_root p)) ext) (\<lambda>x.
      chain (ensure_time (logged env) d) (\<lambda>_. chain (ensure_time (logged env) d) (\<lambda>_.
      chain (retaining (logged env) d (downloaded x)) (\<lambda>storage.
      chain (ensure_time (logged env) d) (\<lambda>_. chain (ensure_time (logged env) d) (\<lambda>_.
        give (Ok (payload x storage, evidence_of p b create_id ext x (sha x)))))))))) ?R" for ext payload sha
    by (rule sends_chain [OF sending_steps(3), where Q = "\<lambda>a r new. new = []
        \<and> (\<forall>payload e. r = Ok (payload, e) \<longrightarrow> ae_create_translation_id e = create_id \<and> ae_external_data_id e = ext)"])
      (auto intro!: sends_after [OF quiet(1)] sends_after [OF quiet(4)] sends_give simp: evidence_of_def
        dest: arg_cong [where f = length])
  show ?thesis
    unfolding retain_result_def Let_def
    by (intro sends_after [OF sends_give] sends_after [OF quiet(1)] fetched) auto
qed

lemma acquire_leaf_sends:
  "sends (acquire_leaf lib (logged env) timing p b plan_deadline) (\<lambda>r new. length new \<le> tm_max_polls timing + 2
    \<and> (\<forall>payload e. r = Ok (payload, e) \<longrightarrow> (\<exists>n \<le> tm_max_polls timing. map snd new = leaf_requests p b n e)))"
  (is "sends _ ?R")
proof -
  let ?N = "tm_max_polls timing"
  let ?tail = "\<lambda>create_id r new. length new \<le> ?N + 1 \<and> (\<forall>payload e. r = Ok (payload, e) \<longrightarrow>
      (\<exists>n \<le> ?N. map snd new = replicate n (poll_translation_request (ae_create_translation_id e))
        @ [download_request (rt_document_id (pl_root p)) (ae_external_data_id e)]))"
  have polled: "sends (chain (poll_loop (poll_once lib (logged env) timing p leaf create_id dl) ?N 0 state v)
      (retain_result lib (logged env) p b ld create_id)) (?tail create_id)" for dl ld create_id state v leaf
  proof (rule sends_chain [OF poll_loop_sends [OF poll_once_sends] retain_result_sends])
    fix e :: api_failure and new :: request_log
    assume "\<exists>n \<le> ?N - 0. map snd new = replicate n (poll_translation_request create_id)"
    then have "length new \<le> ?N" by (metis diff_zero length_map length_replicate)
    then show "?tail create_id (Err e) new" by simp
  next
    fix a r and old new :: request_log
    assume "\<exists>n \<le> ?N - 0. map snd old = replicate n (poll_translation_request create_id)"
    then obtain n where n: "n \<le> ?N" "map snd old = replicate n (poll_translation_request create_id)" by auto
    then have "length old = n" by (metis length_map length_replicate)
    moreover assume "length new \<le> 1 \<and> (\<forall>payload e. r = Ok (payload, e) \<longrightarrow> ae_create_translation_id e = create_id
        \<and> map snd new = [download_request (rt_document_id (pl_root p)) (ae_external_data_id e)])"
    ultimately show "?tail create_id r (old @ new)" using n by auto
  qed
  have sent: "sends (chain (send_for_json lib (logged env) dl (create_request p b)) (\<lambda>v.
      chain (ensure_time (logged env) dl) (\<lambda>_.
      chain (give (translation v p leaf None)) (\<lambda>(create_id, state).
      chain (poll_loop (poll_once lib (logged env) timing p leaf create_id dl) ?N 0 state v) (\<lambda>v.
        retain_result lib (logged env) p b ld create_id v))))) ?R" for dl ld leaf
  proof (rule sends_chain [OF sending_steps(1), where Q = "\<lambda>_ r new. \<exists>create_id. ?tail create_id r new"])
    fix v
    show "sends (chain (ensure_time (logged env) dl) (\<lambda>_. chain (give (translation v p leaf None)) (\<lambda>(create_id, state).
        chain (poll_loop (poll_once lib (logged env) timing p leaf create_id dl) ?N 0 state v) (\<lambda>v.
          retain_result lib (logged env) p b ld create_id v)))) (\<lambda>r new. \<exists>create_id. ?tail create_id r new)"
      by (intro sends_after [OF quiet(1)] sends_after [OF sends_give])
        (auto intro: sends_mono [OF polled] split: prod.splits)
  qed (auto simp: leaf_requests_def dest: arg_cong [where f = length])
  show ?thesis
    unfolding acquire_leaf_def Let_def
    by (intro sends_after [OF quiet(2)] sends_after [OF quiet(1)] sent) auto
qed

section \<open>All leaves of a record\<close>

text \<open>The bindings that acquire: the first one of every leaf that is not there yet.\<close>

fun first_uses :: "configured_leaf set \<Rightarrow> provenance_binding list \<Rightarrow> provenance_binding list" where
  "first_uses seen [] = []"
| "first_uses seen (b # bs) =
    (if pb_configured_leaf b \<in> seen then first_uses seen bs
     else b # first_uses (insert (pb_configured_leaf b) seen) bs)"

lemma first_uses_length: "length (first_uses seen bs) \<le> length bs"
  by (induction bs arbitrary: seen) (auto intro: le_SucI)

lemma first_uses_distinct:
  "distinct (map pb_configured_leaf (first_uses seen bs))
    \<and> set (map pb_configured_leaf (first_uses seen bs)) = pb_configured_leaf ` set bs - seen"
  by (induction bs arbitrary: seen) auto

text \<open>\<open>uses\<close> lists the acquiring bindings with the number of their polls and their evidence.\<close>

definition use_requests :: "resolved_plan \<Rightarrow> (provenance_binding \<times> nat \<times> acquisition_evidence) list \<Rightarrow> api_request list" where
  "use_requests p uses = concat (map (\<lambda>(b, n, e). leaf_requests p b n e) uses)"

definition evidence_in :: "acquired_leaves \<Rightarrow> provenance_binding \<Rightarrow> acquisition_evidence \<Rightarrow> bool" where
  "evidence_in acquired b e \<longleftrightarrow> map_option snd (acquired (pb_configured_leaf b)) = Some e"

definition loop_requests ::
  "nat \<Rightarrow> resolved_plan \<Rightarrow> provenance_binding list \<Rightarrow> acquired_leaves \<Rightarrow> api_request list \<Rightarrow> bool" where
  "loop_requests max_polls p fresh acquired requests \<longleftrightarrow>
    (\<exists>uses. requests = use_requests p uses \<and> map fst uses = fresh
      \<and> (\<forall>(b, n, e) \<in> set uses. n \<le> max_polls \<and> evidence_in acquired b e))"

lemma acquire_binding_sends:
  "sends (acquire_binding lib (logged env) timing p d (acquired, bs) b) (\<lambda>r new.
    length new \<le> (tm_max_polls timing + 2) * length (first_uses (dom acquired) [b])
    \<and> (\<forall>acquired' bs'. r = Ok (acquired', bs') \<longrightarrow>
        dom acquired' = insert (pb_configured_leaf b) (dom acquired) \<and> acquired \<subseteq>\<^sub>m acquired'
        \<and> loop_requests (tm_max_polls timing) p (first_uses (dom acquired) [b]) acquired' (map snd new)))"
  (is "sends _ ?R")
proof -
  let ?N = "tm_max_polls timing" and ?leaf = "pb_configured_leaf b"
  let ?get = "\<lambda>r new. length new \<le> (?N + 2) * length (first_uses (dom acquired) [b])
    \<and> (\<forall>acquired'. r = Ok acquired' \<longrightarrow> dom acquired' = insert ?leaf (dom acquired) \<and> acquired \<subseteq>\<^sub>m acquired'
        \<and> loop_requests ?N p (first_uses (dom acquired) [b]) acquired' (map snd new))"
  have "sends (if acquired ?leaf \<noteq> None then give (Ok acquired)
      else chain (failing_with (with_position (pb_position b)) (acquire_leaf lib (logged env) timing p b d)) (\<lambda>x.
        give (Ok (acquired(?leaf \<mapsto> x))))) ?get"
  proof (cases "acquired ?leaf = None")
    case True
    then have fresh: "first_uses (dom acquired) [b] = [b]" by auto
    have "sends (chain (failing_with (with_position (pb_position b)) (acquire_leaf lib (logged env) timing p b d)) (\<lambda>x.
        give (Ok (acquired(?leaf \<mapsto> x))))) ?get"
    proof (rule sends_chain [where Q = "\<lambda>a r new. r = Ok (acquired(?leaf \<mapsto> a)) \<and> new = []"])
      show "sends (failing_with (with_position (pb_position b)) (acquire_leaf lib (logged env) timing p b d)) (\<lambda>r new.
          length new \<le> ?N + 2 \<and> (\<forall>payload e. r = Ok (payload, e) \<longrightarrow> (\<exists>n \<le> ?N. map snd new = leaf_requests p b n e)))"
        by (rule sends_failing_with [OF acquire_leaf_sends]) (auto simp: map_err_Ok)
    next
      fix a :: "retained_payload \<times> acquisition_evidence" and r and old new :: request_log
      assume old: "length old \<le> ?N + 2 \<and> (\<forall>payload e. Ok a = Ok (payload, e) \<longrightarrow>
            (\<exists>n \<le> ?N. map snd old = leaf_requests p b n e))"
        and r: "r = Ok (acquired(?leaf \<mapsto> a)) \<and> new = []"
      obtain payload e where a: "a = (payload, e)" by (cases a)
      then obtain n where n: "n \<le> ?N" "map snd old = leaf_requests p b n e" using old by auto
      have "loop_requests ?N p [b] (acquired(?leaf \<mapsto> a)) (map snd old)"
        unfolding loop_requests_def
        by (rule exI [of _ "[(b, n, e)]"]) (simp add: n use_requests_def evidence_in_def a)
      then show "?get r (old @ new)"
        using old r True unfolding fresh by (auto simp: map_le_def)
    qed (use True in \<open>auto intro: sends_give\<close>)
    then show ?thesis using True by simp
  next
    case False
    then have "first_uses (dom acquired) [b] = []" by auto
    moreover have "insert ?leaf (dom acquired) = dom acquired" using False by auto
    ultimately show ?thesis
      using False by (auto intro!: sends_give simp: loop_requests_def use_requests_def)
  qed
  note got = this
  show ?thesis
    unfolding acquire_binding_def prod.case
  proof (intro sends_after [OF quiet(1)] sends_chain [OF got])
    fix acquired'
    show "sends (chain (give (ok_or (acquired' ?leaf) (provenance_failure ''acquisition_binding_missing''))) (\<lambda>(payload, e).
      give (if ae_configuration_request_value e \<noteq> pb_configuration_request_value b
          \<or> ae_representation e \<noteq> pb_representation b
        then Err (provenance_failure ''acquisition_reuse_conflict'')
        else Ok (acquired', bs @ [\<lparr>ob_position = pb_position b,
          ob_plan_local_object_identity = pb_plan_local_object_identity b,
          ob_configured_leaf = pb_configured_leaf b, ob_retained_payload = payload,
          ob_acquisition_evidence = e\<rparr>])))) (\<lambda>r new. new = [] \<and> (\<forall>x bs'. r = Ok (x, bs') \<longrightarrow> x = acquired'))"
      by (intro sends_after [OF sends_give]) (auto intro!: sends_give split: prod.splits)
  qed (simp_all del: first_uses.simps, blast)
qed

lemma use_requests_append: "use_requests p (us @ vs) = use_requests p us @ use_requests p vs"
  by (simp add: use_requests_def)

lemma loop_requests_append:
  assumes "loop_requests n p fresh acquired requests" "acquired \<subseteq>\<^sub>m acquired'"
    and "loop_requests n p fresh' acquired' requests'"
  shows "loop_requests n p (fresh @ fresh') acquired' (requests @ requests')"
proof -
  obtain us vs where us: "requests = use_requests p us" "map fst us = fresh"
      "\<forall>(b, k, e) \<in> set us. k \<le> n \<and> evidence_in acquired b e"
    and vs: "requests' = use_requests p vs" "map fst vs = fresh'"
      "\<forall>(b, k, e) \<in> set vs. k \<le> n \<and> evidence_in acquired' b e"
    using assms(1,3) unfolding loop_requests_def by auto
  have "evidence_in acquired' b e" if "evidence_in acquired b e" for b e
    using that assms(2) by (auto simp: evidence_in_def map_le_def dom_def)
  with us vs show ?thesis
    unfolding loop_requests_def by (intro exI [of _ "us @ vs"]) (auto simp: use_requests_append)
qed

lemma acquire_all_sends:
  "sends (each_step (acquire_binding lib (logged env) timing p d) (acquired, bs) xs) (\<lambda>r new.
    length new \<le> (tm_max_polls timing + 2) * length (first_uses (dom acquired) xs)
    \<and> (\<forall>acquired' bs'. r = Ok (acquired', bs') \<longrightarrow> acquired \<subseteq>\<^sub>m acquired'
        \<and> loop_requests (tm_max_polls timing) p (first_uses (dom acquired) xs) acquired' (map snd new)))"
proof (induction xs arbitrary: acquired bs)
  case Nil
  then show ?case by (auto intro!: sends_give simp: loop_requests_def use_requests_def)
next
  case (Cons x xs)
  let ?N = "tm_max_polls timing"
  let ?Q = "\<lambda>a r new. length new \<le> (?N + 2) * length (first_uses (insert (pb_configured_leaf x) (dom acquired)) xs)
    \<and> (\<forall>acquired' bs'. r = Ok (acquired', bs') \<longrightarrow> fst a \<subseteq>\<^sub>m acquired'
        \<and> loop_requests ?N p (first_uses (insert (pb_configured_leaf x) (dom acquired)) xs) acquired' (map snd new))"
  have split: "first_uses (dom acquired) (x # xs) =
      first_uses (dom acquired) [x] @ first_uses (insert (pb_configured_leaf x) (dom acquired)) xs"
    by (auto simp: insert_absorb)
  show ?case
    unfolding each_step.simps
  proof (rule sends_chain [OF acquire_binding_sends, where Q = ?Q])
    fix a :: "acquired_leaves \<times> payload_binding list" and new :: request_log
    assume a: "length new \<le> (?N + 2) * length (first_uses (dom acquired) [x])
      \<and> (\<forall>acquired' bs'. Ok a = Ok (acquired', bs') \<longrightarrow>
        dom acquired' = insert (pb_configured_leaf x) (dom acquired) \<and> acquired \<subseteq>\<^sub>m acquired'
        \<and> loop_requests ?N p (first_uses (dom acquired) [x]) acquired' (map snd new))"
    obtain m bs' where ab: "a = (m, bs')" by (cases a)
    then have "dom m = insert (pb_configured_leaf x) (dom acquired)" using a by simp
    then show "sends (each_step (acquire_binding lib (logged env) timing p d) a xs) (?Q a)"
      using Cons.IH [of m bs'] by (simp add: ab)
  next
    fix e and new :: request_log
    assume "length new \<le> (?N + 2) * length (first_uses (dom acquired) [x]) \<and> (\<forall>acquired' bs'.
        (Err e :: (api_failure, acquired_leaves \<times> payload_binding list) result) = Ok (acquired', bs') \<longrightarrow>
        dom acquired' = insert (pb_configured_leaf x) (dom acquired) \<and> acquired \<subseteq>\<^sub>m acquired'
        \<and> loop_requests ?N p (first_uses (dom acquired) [x]) acquired' (map snd new))"
    then show "length new \<le> (?N + 2) * length (first_uses (dom acquired) (x # xs)) \<and> (\<forall>acquired' bs'.
        (Err e :: (api_failure, acquired_leaves \<times> payload_binding list) result) = Ok (acquired', bs') \<longrightarrow>
        acquired \<subseteq>\<^sub>m acquired' \<and> loop_requests ?N p (first_uses (dom acquired) (x # xs)) acquired' (map snd new))"
      unfolding split by (simp only: length_append add_mult_distrib2) auto
  next
    fix a r and old new :: request_log
    assume a: "length old \<le> (?N + 2) * length (first_uses (dom acquired) [x])
      \<and> (\<forall>acquired' bs'. Ok a = Ok (acquired', bs') \<longrightarrow>
        dom acquired' = insert (pb_configured_leaf x) (dom acquired) \<and> acquired \<subseteq>\<^sub>m acquired'
        \<and> loop_requests ?N p (first_uses (dom acquired) [x]) acquired' (map snd old))"
      and r: "?Q a r new"
    obtain m bs' where ab: "a = (m, bs')" by (cases a)
    have "length (old @ new) \<le> (?N + 2) * length (first_uses (dom acquired) (x # xs))"
      unfolding split using a r by (simp only: length_append add_mult_distrib2) (rule add_mono, simp_all)
    moreover have "acquired \<subseteq>\<^sub>m acquired' \<and> loop_requests ?N p (first_uses (dom acquired) (x # xs)) acquired' (map snd (old @ new))"
      if "r = Ok (acquired', bs'')" for acquired' bs''
      unfolding split map_append
      using that a r ab by (intro conjI loop_requests_append [of _ _ _ m]) (auto intro: map_le_trans)
    ultimately show "length (old @ new) \<le> (?N + 2) * length (first_uses (dom acquired) (x # xs)) \<and> (\<forall>acquired' bs'.
        r = Ok (acquired', bs') \<longrightarrow> acquired \<subseteq>\<^sub>m acquired'
        \<and> loop_requests ?N p (first_uses (dom acquired) (x # xs)) acquired' (map snd (old @ new)))"
      by blast
  qed
qed

section \<open>The acquisition\<close>

text \<open>The requests of an acquisition that succeeds: the version, then every distinct leaf once.\<close>

definition acquisition_requests ::
  "nat \<Rightarrow> provenance_record \<Rightarrow> acquired_geometry \<Rightarrow> api_request list \<Rightarrow> bool" where
  "acquisition_requests max_polls r g requests \<longleftrightarrow>
    (\<exists>acquired uses. requests = version_request (rt_document_id (pl_root (pv_plan r))) (rt_version_id (pl_root (pv_plan r)))
        # use_requests (pv_plan r) uses
      \<and> map fst uses = first_uses {} (pv_bindings r)
      \<and> (\<forall>(b, n, e) \<in> set uses. n \<le> max_polls \<and> evidence_in acquired b e)
      \<and> list_all (\<lambda>b. map_option snd (acquired (ob_configured_leaf b)) = Some (ob_acquisition_evidence b)) (ag_bindings g))"

lemma acquire_binding_evidence:
  assumes "acquire_binding lib env timing p d (acquired, bs) b w = Some (Ok (acquired', bs'), w')"
  shows "acquired \<subseteq>\<^sub>m acquired' \<and> (\<exists>x. bs' = bs @ [x] \<and>
    map_option snd (acquired' (ob_configured_leaf x)) = Some (ob_acquisition_evidence x))"
  using assms
  by (auto simp: acquire_binding_def step_simps ok_or_def map_le_def split: prod.splits if_splits option.splits)

lemma acquire_all_evidence:
  assumes "each_step (acquire_binding lib env timing p d) (acquired, bs) xs w = Some (Ok (acquired', bs'), w')"
    and "list_all (\<lambda>b. map_option snd (acquired (ob_configured_leaf b)) = Some (ob_acquisition_evidence b)) bs"
  shows "list_all (\<lambda>b. map_option snd (acquired' (ob_configured_leaf b)) = Some (ob_acquisition_evidence b)) bs'"
  using assms
proof (induction xs arbitrary: acquired bs w)
  case Nil
  then show ?case by (simp add: step_simps)
next
  case (Cons x xs)
  then obtain m bs1 w1 where one: "acquire_binding lib env timing p d (acquired, bs) x w = Some (Ok (m, bs1), w1)"
    and rest: "each_step (acquire_binding lib env timing p d) (m, bs1) xs w1 = Some (Ok (acquired', bs'), w')"
    by (auto simp: step_simps)
  have kept: "map_option snd (m k) = Some e" if "map_option snd (acquired k) = Some e" for k e
    using acquire_binding_evidence [OF one] that by (auto simp: map_le_def dom_def)
  show ?case
    by (rule Cons.IH [OF rest]) (use acquire_binding_evidence [OF one] Cons.prems(2) kept in \<open>auto simp: list_all_iff\<close>)
qed

lemma acquire_record_returns: "returns (acquire_record lib env timing r)"
  unfolding acquire_record_def Let_def acquire_binding_def
  by (intro returns_chain returns_give ensure_time_returns primitive_steps_return)
    (auto intro!: returns_chain returns_each_step returns_failing_with split: prod.splits)

lemma acquire_record_sends:
  "sends (acquire_record lib (logged env) timing r) (\<lambda>ans new.
    length new \<le> 1 + (tm_max_polls timing + 2) * length (pv_bindings r)
    \<and> (\<forall>g. ans = Ok g \<longrightarrow> acquisition_requests (tm_max_polls timing) r g (map snd new)))"
  (is "sends _ ?R")
proof -
  let ?N = "tm_max_polls timing" and ?p = "pv_plan r"
  let ?loop = "each_step (acquire_binding lib (logged env) timing ?p dl) (Map.empty, []) (pv_bindings r)"
  let ?tail = "\<lambda>ans new. length new \<le> (?N + 2) * length (pv_bindings r)
    \<and> (\<forall>g. ans = Ok g \<longrightarrow> acquisition_requests ?N r g
        (version_request (rt_document_id (pl_root ?p)) (rt_version_id (pl_root ?p)) # map snd new))"
  have looped: "sends (each_step (acquire_binding lib (logged env) timing ?p dl) (Map.empty, []) (pv_bindings r)) (\<lambda>ans new.
      length new \<le> (?N + 2) * length (pv_bindings r)
      \<and> (\<forall>acquired bs. ans = Ok (acquired, bs) \<longrightarrow> loop_requests ?N ?p (first_uses {} (pv_bindings r)) acquired (map snd new)
          \<and> list_all (\<lambda>b. map_option snd (acquired (ob_configured_leaf b)) = Some (ob_acquisition_evidence b)) bs))" for dl
    unfolding sends_def
  proof (intro allI)
    fix w l
    obtain ans w' new where s: "each_step (acquire_binding lib (logged env) timing ?p dl) (Map.empty, []) (pv_bindings r) (w, l)
        = Some (ans, w', l @ new)"
      and n: "length new \<le> (?N + 2) * length (first_uses {} (pv_bindings r))
        \<and> (\<forall>acquired' bs'. ans = Ok (acquired', bs') \<longrightarrow> Map.empty \<subseteq>\<^sub>m acquired'
          \<and> loop_requests ?N ?p (first_uses {} (pv_bindings r)) acquired' (map snd new))"
      using acquire_all_sends [of lib env timing ?p dl Map.empty "[]" "pv_bindings r"]
      unfolding sends_def dom_empty by meson
    have "length new \<le> (?N + 2) * length (pv_bindings r)"
      using n first_uses_length [of "{}" "pv_bindings r"] by (meson le_trans mult_le_mono2)
    moreover have "list_all (\<lambda>b. map_option snd (acquired (ob_configured_leaf b)) = Some (ob_acquisition_evidence b)) bs"
      if "ans = Ok (acquired, bs)" for acquired bs
      using acquire_all_evidence [of lib "logged env" timing ?p dl Map.empty "[]"] s that by simp
    ultimately show "\<exists>ans w' new. each_step (acquire_binding lib (logged env) timing ?p dl) (Map.empty, []) (pv_bindings r) (w, l)
          = Some (ans, w', l @ new)
        \<and> length new \<le> (?N + 2) * length (pv_bindings r)
        \<and> (\<forall>acquired bs. ans = Ok (acquired, bs) \<longrightarrow> loop_requests ?N ?p (first_uses {} (pv_bindings r)) acquired (map snd new)
          \<and> list_all (\<lambda>b. map_option snd (acquired (ob_configured_leaf b)) = Some (ob_acquisition_evidence b)) bs)"
      using s n by auto
  qed
  have gathered: "sends (chain (each_step (acquire_binding lib (logged env) timing ?p dl) (Map.empty, []) (pv_bindings r)) (\<lambda>(_, bs).
      chain (ensure_time (logged env) dl) (\<lambda>_.
      chain (give (validate_acquired r bs)) (\<lambda>_.
      chain (give (retention_proof lib bs)) (\<lambda>proofs.
      chain (ensure_time (logged env) dl) (\<lambda>_.
        give (Ok \<lparr>ag_plan = ?p, ag_provenance_identity = pv_provenance_identity r, ag_bindings = bs,
          ag_retention_proof = proofs\<rparr>))))))) ?tail" for dl
    by (rule sends_chain [OF looped, where Q = "\<lambda>a ans new. new = [] \<and> (\<forall>g. ans = Ok g \<longrightarrow> ag_bindings g = snd a)"])
      (auto intro!: sends_after [OF quiet(1)] sends_after [OF sends_give] sends_give split: prod.splits
        simp: acquisition_requests_def loop_requests_def, blast)
  have versioned: "sends (chain (version_within lib (logged env) dl (rt_document_id (pl_root ?p)) (rt_version_id (pl_root ?p))) (\<lambda>microversion.
      chain (ensure_time (logged env) dl) (\<lambda>_.
      chain (give (ensure (snapshot_matches ?p microversion)
        (api_failure_new UnavailableSourceState ''acquisition_snapshot_mismatch''))) (\<lambda>_.
      chain (each_step (acquire_binding lib (logged env) timing ?p dl) (Map.empty, []) (pv_bindings r)) (\<lambda>(_, bs).
      chain (ensure_time (logged env) dl) (\<lambda>_.
      chain (give (validate_acquired r bs)) (\<lambda>_.
      chain (give (retention_proof lib bs)) (\<lambda>proofs.
      chain (ensure_time (logged env) dl) (\<lambda>_.
        give (Ok \<lparr>ag_plan = ?p, ag_provenance_identity = pv_provenance_identity r, ag_bindings = bs,
          ag_retention_proof = proofs\<rparr>)))))))))) ?R" for dl
    by (rule sends_chain [OF sending_steps(2), where Q = "\<lambda>_. ?tail"],
      intro sends_after [OF quiet(1)] sends_after [OF sends_give] gathered) (auto dest: arg_cong [where f = length])
  show ?thesis
    unfolding acquire_record_def Let_def
    by (intro sends_after [OF quiet(2)] sends_after [OF quiet(1)] versioned) auto
qed

section \<open>Bounds\<close>

lemma validated_bindings:
  assumes "validate_provenance lib origin db r = Ok ()"
  shows "length (pv_bindings r) = length (pl_objects (pv_plan r)) \<and> length (pv_bindings r) \<le> MAX_SELECTORS"
  using assms by (auto simp: validate_provenance_def result_simps validate_retained_plan_Ok retained_root_ok_def split: if_splits)

lemma read_association_Ok:
  "read_association lib origin pid vid db = Ok r \<longleftrightarrow>
    (\<exists>text v. acquisition_provenance pid (tq_store db) = Some (vid, text) \<and> read_record_text lib text = Ok v
      \<and> al_record lib v = Some r \<and> pl_plan_identity (pv_plan r) = pid
      \<and> pv_provenance_identity r = vid \<and> record_text lib r = Ok text
      \<and> validate_provenance lib origin (tq_encodings db) r = Ok ())"
  by (auto simp: read_association_def result_simps split: prod.splits if_splits)

lemma sends_give_chain:
  assumes "\<And>a. r = Ok a \<Longrightarrow> sends (f a) R" "\<And>e. R (Err e) []"
  shows "sends (chain (give r) f) R"
  by (rule sends_chain [OF sends_give [of "\<lambda>x new. x = r \<and> new = []"], where Q = "\<lambda>_. R"]) (use assms in auto)

text \<open>
  C29: an acquisition always returns, whatever the clock shows and however Onshape answers, and has then
  sent at most 8705 requests: one for the version and, for each of at most 256 objects, the export, 32
  polls and the download. The polling loop has no other guard than its counter.
\<close>

theorem acquisition_returns:
  "(\<exists>ans w'. acquire_geometry lib origin env trusted db w = Some (ans, w'))
    \<and> (\<exists>ans w' sent. acquire_geometry lib origin (logged env) trusted db (w, []) = Some (ans, w', sent)
        \<and> length sent \<le> 8705)"
proof
  have "returns (acquire_geometry lib origin env trusted db)"
    unfolding acquire_geometry_def acquire_with_timing_def
    by (intro returns_chain returns_give acquire_record_returns)
  then show "\<exists>ans w'. acquire_geometry lib origin env trusted db w = Some (ans, w')"
    unfolding returns_def by blast
  have "sends (acquire_geometry lib origin (logged env) trusted db) (\<lambda>_ new. length new \<le> 8705)"
    unfolding acquire_geometry_def acquire_with_timing_def
  proof (rule sends_give_chain)
    fix r
    assume "and_then (read_association lib origin (pl_plan_identity (pv_plan trusted)) (pv_provenance_identity trusted) db)
        (\<lambda>checked. and_then (record_text lib checked) (\<lambda>checked_text.
          and_then (record_text lib trusted) (\<lambda>trusted_text.
            if checked_text \<noteq> trusted_text then Err (provenance_failure ''provenance_handle_mismatch'')
            else Ok checked))) = Ok r"
    then have "validate_provenance lib origin (tq_encodings db) r = Ok ()"
      by (auto simp: result_simps read_association_Ok split: if_splits)
    then have "length (pv_bindings r) \<le> 256" using validated_bindings [of lib origin "tq_encodings db" r] by (simp add: MAX_SELECTORS_def)
    then have "1 + (tm_max_polls default_timing + 2) * length (pv_bindings r) \<le> 8705"
      by (simp add: default_timing_def)
    then show "sends (acquire_record lib (logged env) default_timing r) (\<lambda>_ new. length new \<le> 8705)"
      by (intro sends_mono [OF acquire_record_sends]) linarith
  qed simp
  then show "\<exists>ans w' sent. acquire_geometry lib origin (logged env) trusted db (w, []) = Some (ans, w', sent)
      \<and> length sent \<le> 8705"
    unfolding sends_def by (metis append_Nil)
qed

text \<open>
  C30: an acquisition that succeeds asked Onshape for the version of the plan and then, for every distinct
  configured leaf once and in the order of its first object, for one translation, for at most 32 polls of
  that translation and for its one result; the evidence of every object is that of its leaf's requests.
\<close>

theorem leaves_exported_once:
  assumes "acquire_geometry lib origin (logged env) trusted db (w, []) = Some (Ok g, w', sent)"
  shows "\<exists>r. read_association lib origin (pl_plan_identity (pv_plan trusted)) (pv_provenance_identity trusted) db = Ok r
    \<and> distinct (map pb_configured_leaf (first_uses {} (pv_bindings r)))
    \<and> pb_configured_leaf ` set (first_uses {} (pv_bindings r)) = pb_configured_leaf ` set (pv_bindings r)
    \<and> acquisition_requests 32 r g (map snd sent)"
proof -
  obtain r where r: "read_association lib origin (pl_plan_identity (pv_plan trusted)) (pv_provenance_identity trusted) db = Ok r"
    and run: "acquire_record lib (logged env) default_timing r (w, []) = Some (Ok g, w', sent)"
    using assms unfolding acquire_geometry_def acquire_with_timing_def step_simps
    by (auto simp: result_simps split: if_splits)
  have "acquisition_requests 32 r g (map snd sent)"
    by (rule sendsE [OF acquire_record_sends [of lib env default_timing r], of w "[]"])
      (use run in \<open>simp add: default_timing_def\<close>)
  with r first_uses_distinct [of "{}" "pv_bindings r"] show ?thesis by auto
qed

end
