(* ===== verification/Geometry_Handoff.thy ===== *)
theory Geometry_Handoff
  imports Geometry_Requests
begin

text \<open>
  Handoffs of acquisitions: what was recorded is found by its lookup and by nothing else, the evidence that
  is gathered fits every object it is reused for, and the consumer accepts what an acquisition returns.
\<close>

section \<open>Associations and their growth\<close>

definition provenance_kept :: "acquisition_tables \<Rightarrow> acquisition_tables \<Rightarrow> bool" where
  "provenance_kept db db' \<longleftrightarrow> rows_kept (tq_encodings db) (tq_encodings db')
    \<and> take (length (st_provenance (tq_store db))) (st_provenance (tq_store db')) = st_provenance (tq_store db)"

lemma kept_association:
  "provenance_kept db db' \<Longrightarrow> acquisition_provenance pid (tq_store db) = Some x
    \<Longrightarrow> acquisition_provenance pid (tq_store db') = Some x"
  by (auto simp: provenance_kept_def take_prefix acquisition_provenance_def find_provenance_def find_row_prefix)

lemma kept_handoff:
  assumes "rows_kept db db'" "validate_handoff lib origin s h db = Ok ()"
  shows "validate_handoff lib origin s h db' = Ok ()"
  using assms(2) kept_typed_values [OF assms(1)] kept_encoding [OF assms(1)]
  by (fastforce simp: validate_handoff_def result_simps split: if_splits)

lemma kept_validation:
  assumes "rows_kept db db'" "validate_provenance lib origin db r = Ok ()"
  shows "validate_provenance lib origin db' r = Ok ()"
proof -
  from assms(2) have "validate_handoff (al_encoding lib) origin (plan_source (pv_plan r)) (pv_configuration_encoding r) db = Ok ()"
    by (auto simp: validate_provenance_def result_simps split: if_splits)
  from kept_handoff [OF assms(1) this] assms(2) show ?thesis
    by (auto simp: validate_provenance_def result_simps split: if_splits)
qed

lemma kept_read_association:
  "\<lbrakk>provenance_kept db db'; read_association lib origin pid vid db = Ok r\<rbrakk>
    \<Longrightarrow> read_association lib origin pid vid db' = Ok r"
  unfolding read_association_Ok using kept_association kept_validation
  by (metis provenance_kept_def)

section \<open>Recorded plans\<close>

lemma recorded_association:
  assumes "plan_for_acquisition lib encoder planner encoding_writers writers source typed selectors db = (Ok r, db')"
  shows "read_association lib (pr_origin planner) (pl_plan_identity (pv_plan r)) (pv_provenance_identity r) db' = Ok r"
proof -
  obtain pid vid where "read_association lib (pr_origin planner) pid vid db' = Ok r"
    using assms
    by (auto simp: plan_for_acquisition_def record_planning_invocation_def Let_def and_then_Ok split: sum.splits prod.splits)
  then show ?thesis by (auto simp: read_association_Ok)
qed

text \<open>The parser and the deserializer read a lookup as it was written.\<close>

definition reads_lookup :: "provenance_library \<Rightarrow> provenance_lookup \<Rightarrow> string \<Rightarrow> bool" where
  "reads_lookup lib l bytes \<longleftrightarrow>
    read_record_text lib bytes = Ok (provenance_lookup_json (al_show lib) l)
    \<and> al_lookup lib (provenance_lookup_json (al_show lib) l) = Some l
    \<and> sl_jcs (al_selection lib) (provenance_lookup_json (al_show lib) l) = Ok bytes"

lemma lookup_members:
  "field ''plan'' (provenance_lookup_json show_f64 (lookup_of r)) = None"
  "field ''record'' (provenance_lookup_json show_f64 (lookup_of r)) = None"
  by (simp_all add: provenance_lookup_json_def lookup_of_def field_members)

lemma validated_identities:
  assumes "validate_provenance lib origin db r = Ok ()"
  shows "is_sha256 (pl_plan_identity (pv_plan r))" "is_sha256 (pv_provenance_identity r)"
    "validate_retained_plan (al_selection lib) (pv_plan r) = Ok ()" "pv_request_contract r = CONTRACT"
  using assms
  by (auto simp: validate_provenance_def result_simps validate_retained_plan_Ok retained_root_ok_def split: if_splits)

text \<open>
  C28: what planning recorded is found again, at any later time and in any later process, by the lookup
  request that its handle writes, and is the same record; a parser and a deserializer that read a lookup
  as it was written are enough.
\<close>

theorem recorded_plan_found:
  assumes "plan_for_acquisition lib encoder planner encoding_writers writers source typed selectors db = (Ok r, db')"
    and "provenance_kept db' later"
    and "lookup_request lib r = Ok bytes" and "reads_lookup lib (lookup_of r) bytes"
  shows "lookup_acquisition_plan lib (pr_origin planner) bytes later = Ok r"
proof -
  note found = recorded_association [OF assms(1)]
  have valid: "validate_provenance lib (pr_origin planner) (tq_encodings db') r = Ok ()"
    using found by (auto simp: read_association_Ok)
  have "decode_lookup lib bytes = Ok (lookup_of r)"
    using assms(3,4) validated_identities(1,2) [OF valid] lookup_members [of "al_show lib" r]
    by (simp add: decode_lookup_def result_simps reads_lookup_def lookup_request_def and_then_def map_err_def ok_or_def)
      (simp add: lookup_of_def)
  moreover have "read_association lib (pr_origin planner) (lk_plan_identity (lookup_of r))
      (lk_provenance_identity (lookup_of r)) later = Ok r"
    using kept_read_association [OF assms(2) found] by (simp add: lookup_of_def)
  ultimately show ?thesis
    by (simp add: lookup_acquisition_plan_def and_then_def supplied_differs_def if_some_def) (simp add: lookup_of_def)
qed

text \<open>
  No serialized input creates or repairs anything: a lookup that succeeds names a row of the
  database whose text is the canonical text of the record that is returned; that record is valid, and a
  plan or record in the input is the recorded one.
\<close>

lemma lookup_finds_only_recorded:
  assumes "lookup_acquisition_plan lib origin bytes db = Ok r"
  shows "\<exists>l text. decode_lookup lib bytes = Ok l
    \<and> acquisition_provenance (lk_plan_identity l) (tq_store db) = Some (lk_provenance_identity l, text)
    \<and> record_text lib r = Ok text \<and> record_identity lib r = Ok (lk_provenance_identity l)
    \<and> pl_plan_identity (pv_plan r) = lk_plan_identity l
    \<and> validate_provenance lib origin (tq_encodings db) r = Ok ()
    \<and> (\<forall>p. lk_plan l = Some p \<longrightarrow> resolved_plan_eq p (pv_plan r))
    \<and> (\<forall>s. lk_record l = Some s \<longrightarrow> record_text lib s = Ok text)"
proof -
  obtain l where l: "decode_lookup lib bytes = Ok l"
      "read_association lib origin (lk_plan_identity l) (lk_provenance_identity l) db = Ok r"
      "\<not> supplied_differs lib l r"
    using assms by (auto simp: lookup_acquisition_plan_def result_simps split: if_splits)
  obtain t where t: "acquisition_provenance (lk_plan_identity l) (tq_store db) = Some (lk_provenance_identity l, t)"
      "record_text lib r = Ok t" "pl_plan_identity (pv_plan r) = lk_plan_identity l"
      "pv_provenance_identity r = lk_provenance_identity l"
      "validate_provenance lib origin (tq_encodings db) r = Ok ()"
    using l(2) by (auto simp: read_association_Ok)
  have "record_identity lib r = Ok (lk_provenance_identity l)"
    using t(4,5) by (auto simp: validate_provenance_def result_simps split: if_splits)
  with l t show ?thesis
    by (intro exI [of _ l] exI [of _ t])
      (auto simp: supplied_differs_def split: option.splits sum.splits)
qed

section \<open>Evidence\<close>

text \<open>Bindings with one leaf ask for the same representation and value.\<close>

definition leaf_determines :: "provenance_binding list \<Rightarrow> bool" where
  "leaf_determines bs \<longleftrightarrow> (\<forall>b \<in> set bs. \<forall>c \<in> set bs. pb_configured_leaf b = pb_configured_leaf c \<longrightarrow>
    pb_representation b = pb_representation c \<and> pb_configuration_request_value b = pb_configuration_request_value c)"

lemma validated_binding:
  assumes "validate_provenance lib origin db r = Ok ()" "b \<in> set (pv_bindings r)"
  obtains x where "pb_configured_leaf b = ro_configured_leaf x"
    "(pb_representation b, pb_configuration_request_value b) =
      binding_value (pv_configuration_encoding r) (rt_element_kind (pl_root (pv_plan r))) x"
proof -
  obtain i where i: "i < length (pv_bindings r)" "b = pv_bindings r ! i" using assms(2) by (auto simp: in_set_conv_nth)
  have "length (pv_bindings r) = length (pl_objects (pv_plan r))" using validated_bindings [OF assms(1)] by simp
  moreover have "each (binding_check r) (zip (pv_bindings r) (pl_objects (pv_plan r))) = Ok ()"
    using assms(1) by (auto simp: validate_provenance_def result_simps split: if_splits)
  ultimately have "binding_check r i (b, pl_objects (pv_plan r) ! i) = Ok ()"
    using i by (simp add: each_from_Ok)
  then show thesis
    by (intro that [of "pl_objects (pv_plan r) ! i"]) (auto simp: binding_check_def split: if_splits prod.splits)
qed

lemma validated_leaf_determines:
  assumes "validate_provenance lib origin db r = Ok ()"
  shows "leaf_determines (pv_bindings r)"
proof -
  let ?f = "binding_value (pv_configuration_encoding r) (rt_element_kind (pl_root (pv_plan r)))"
  have "(pb_representation b, pb_configuration_request_value b) = (pb_representation c, pb_configuration_request_value c)"
    if b: "b \<in> set (pv_bindings r)" and c: "c \<in> set (pv_bindings r)" and leaf: "pb_configured_leaf b = pb_configured_leaf c" for b c
  proof -
    obtain x where x: "pb_configured_leaf b = ro_configured_leaf x"
        "(pb_representation b, pb_configuration_request_value b) = ?f x"
      by (rule validated_binding [OF assms b])
    obtain y where y: "pb_configured_leaf c = ro_configured_leaf y"
        "(pb_representation c, pb_configuration_request_value c) = ?f y"
      by (rule validated_binding [OF assms c])
    show ?thesis
      unfolding x(2) y(2) using x(1) y(1) leaf by (auto simp: binding_value_def split: selection_element_kind.splits)
  qed
  then show ?thesis unfolding leaf_determines_def prod.inject by blast
qed

text \<open>What the client promises of a download (\<open>receive_within_limit\<close> and the refusal of empty payloads).\<close>

definition sound_downloads :: "'w world \<Rightarrow> bool" where
  "sound_downloads env \<longleftrightarrow> (\<forall>deadline document ident w d w'.
    w_send env deadline (download_request document ident) w = (Ok d, w') \<longrightarrow>
    downloaded d \<noteq> [] \<and> length (downloaded d) \<le> GEOMETRY_DOWNLOAD_LIMIT)"

text \<open>The evidence of a leaf is that of a binding of the leaf, and fits the payload that was retained.\<close>

definition acquired_for :: "provenance_library \<Rightarrow> resolved_plan \<Rightarrow> provenance_binding \<Rightarrow> retained_payload \<times> acquisition_evidence \<Rightarrow> bool" where
  "acquired_for lib p b = (\<lambda>(payload, e). \<exists>create_id ext d sha.
    e = evidence_of p b create_id ext d sha \<and> bounded_visible_ascii create_id \<and> bounded_visible_ascii ext
    \<and> 0 < length (downloaded d) \<and> length (downloaded d) \<le> 134217728 \<and> is_sha256 sha
    \<and> rp_byte_length payload = length (downloaded d) \<and> rp_sha256 payload = sha)"

lemma required_ascii_bounded: "required_ascii obj name = Ok s \<Longrightarrow> bounded_visible_ascii s"
  by (auto simp: required_ascii_def result_simps filter_opt_def split: option.splits if_splits)

lemma translation_bounded: "translation v p leaf expected = Ok (ident, state) \<Longrightarrow> bounded_visible_ascii ident"
  by (auto simp: translation_def result_simps dest: required_ascii_bounded)

lemma external_data_bounded: "terminal_external_data v = Ok ident \<Longrightarrow> bounded_visible_ascii ident"
  by (auto simp: terminal_external_data_def result_simps filter_opt_def split: option.splits if_splits)

lemma hex_sha256_shape: "\<forall>bytes. length (sha bytes) = 32 \<Longrightarrow> is_sha256 (hex_sha256 sha bytes)"
  using hash_json_sha256 [of "\<lambda>_. Ok bytes" sha] by (simp add: hash_json_def and_then_def)

lemma acquire_leaf_evidence:
  assumes "acquire_leaf lib env timing p b d w = Some (Ok x, w')"
    and "sound_downloads env" and "\<forall>bytes. length (sl_sha (al_selection lib) bytes) = 32"
  shows "acquired_for lib p b x"
proof -
  obtain v create_id state ld v' w1 where t: "translation v p (pb_configured_leaf b) None = Ok (create_id, state)"
    and r: "retain_result lib env p b ld create_id v' w1 = Some (Ok x, w')"
    using assms(1) unfolding acquire_leaf_def Let_def step_simps by (auto simp: step_simps)
  obtain ext dl storage w2 w3 where s: "terminal_external_data v' = Ok ext"
      "w_send env ld (download_request (rt_document_id (pl_root p)) ext) w2 = (Ok dl, w3)"
      "x = (\<lparr>rp_storage_reference = storage, rp_byte_length = length (downloaded dl),
        rp_sha256 = hex_sha256 (sl_sha (al_selection lib)) (downloaded dl)\<rparr>,
        evidence_of p b create_id ext dl (hex_sha256 (sl_sha (al_selection lib)) (downloaded dl)))"
    using r unfolding retain_result_def Let_def step_simps by (auto simp: step_simps downloading_def)
  have "downloaded dl \<noteq> []" "length (downloaded dl) \<le> 134217728"
    using assms(2) s(2) unfolding sound_downloads_def GEOMETRY_DOWNLOAD_LIMIT_def by blast+
  then show ?thesis
    using s translation_bounded [OF t] external_data_bounded [OF s(1)] hex_sha256_shape [OF assms(3)]
    by (auto simp: acquired_for_def)
qed

lemma acquired_for_same_leaf:
  assumes "acquired_for lib p b x" "leaf_determines bs" "b \<in> set bs" "c \<in> set bs"
    and "pb_configured_leaf b = pb_configured_leaf c"
  shows "acquired_for lib p c x"
proof -
  have "pb_representation b = pb_representation c" "pb_configuration_request_value b = pb_configuration_request_value c"
    using assms(2-5) unfolding leaf_determines_def by blast+
  then have "evidence_of p b = evidence_of p c"
    using assms(5) by (intro ext) (simp add: evidence_of_def)
  with assms(1) show ?thesis by (simp add: acquired_for_def)
qed

lemma acquired_for_request:
  "acquired_for lib p b (payload, e) \<Longrightarrow> ae_configuration_request_value e = pb_configuration_request_value b
    \<and> ae_representation e = pb_representation b"
  by (auto simp: acquired_for_def evidence_of_def)

lemma acquired_for_agrees:
  assumes "acquired_for lib (pv_plan r) b (payload, e)" "pv_request_contract r = CONTRACT"
  shows "evidence_agrees r \<lparr>ob_position = pb_position b,
      ob_plan_local_object_identity = pb_plan_local_object_identity b,
      ob_configured_leaf = pb_configured_leaf b, ob_retained_payload = payload,
      ob_acquisition_evidence = e\<rparr> b"
  using assms by (auto simp: acquired_for_def evidence_agrees_def evidence_of_def Let_def)

definition leaves_served :: "provenance_library \<Rightarrow> resolved_plan \<Rightarrow> provenance_binding list \<Rightarrow> acquired_leaves \<Rightarrow> bool" where
  "leaves_served lib p bs acquired \<longleftrightarrow>
    (\<forall>leaf x. acquired leaf = Some x \<longrightarrow> (\<exists>b \<in> set bs. pb_configured_leaf b = leaf \<and> acquired_for lib p b x))"

lemma served_for:
  "\<lbrakk>leaves_served lib p bs acquired; leaf_determines bs; b \<in> set bs; acquired (pb_configured_leaf b) = Some x\<rbrakk>
    \<Longrightarrow> acquired_for lib p b x"
  unfolding leaves_served_def using acquired_for_same_leaf by metis

lemma acquire_binding_fits:
  assumes run: "acquire_binding lib env timing (pv_plan r) d (acquired, bs) b w = Some (Ok (acquired', bs'), w')"
    and served: "leaves_served lib (pv_plan r) all acquired" and b: "b \<in> set all" and det: "leaf_determines all"
    and env: "sound_downloads env" "\<forall>bytes. length (sl_sha (al_selection lib) bytes) = 32"
    and r: "pv_request_contract r = CONTRACT"
  shows "leaves_served lib (pv_plan r) all acquired' \<and> (\<exists>x. bs' = bs @ [x] \<and> evidence_agrees r x b)"
proof -
  let ?pay = "\<lambda>acquired (payload, e). give (if ae_configuration_request_value e \<noteq> pb_configuration_request_value b
          \<or> ae_representation e \<noteq> pb_representation b
        then Err (provenance_failure ''acquisition_reuse_conflict'')
        else Ok (acquired, bs @ [\<lparr>ob_position = pb_position b,
          ob_plan_local_object_identity = pb_plan_local_object_identity b,
          ob_configured_leaf = pb_configured_leaf b, ob_retained_payload = payload,
          ob_acquisition_evidence = e\<rparr>]))"
  obtain w1 w2 m payload e where got: "(if acquired (pb_configured_leaf b) \<noteq> None then give (Ok acquired)
       else chain (failing_with (with_position (pb_position b)) (acquire_leaf lib env timing (pv_plan r) b d)) (\<lambda>x.
         give (Ok (acquired(pb_configured_leaf b \<mapsto> x))))) w1 = Some (Ok m, w2)"
    and x: "ok_or (m (pb_configured_leaf b)) (provenance_failure ''acquisition_binding_missing'') = Ok (payload, e)"
    and out: "?pay m (payload, e) w2 = Some (Ok (acquired', bs'), w')"
    using run unfolding acquire_binding_def prod.case by (elim chain_Ok [THEN iffD1, elim_format] exE conjE) (auto simp: give_Some)
  then have same: "m = acquired'" and x: "acquired' (pb_configured_leaf b) = Some (payload, e)"
    and out: "bs' = bs @ [\<lparr>ob_position = pb_position b, ob_plan_local_object_identity = pb_plan_local_object_identity b,
      ob_configured_leaf = pb_configured_leaf b, ob_retained_payload = payload, ob_acquisition_evidence = e\<rparr>]"
    using x by (auto simp: give_Some ok_or_Ok split: if_splits)
  note got = got [unfolded same]
  have served': "leaves_served lib (pv_plan r) all acquired'"
  proof (cases "acquired (pb_configured_leaf b) = None")
    case True
    then obtain y where "acquire_leaf lib env timing (pv_plan r) b d w1 = Some (Ok y, w2)"
        and "acquired' = acquired(pb_configured_leaf b \<mapsto> y)"
      using got by (auto simp: step_simps)
    moreover from this(1) have "acquired_for lib (pv_plan r) b y" by (rule acquire_leaf_evidence [OF _ env])
    ultimately show ?thesis using served b by (auto simp: leaves_served_def)
  next
    case False
    then show ?thesis using got served by (simp add: step_simps)
  qed
  moreover have "acquired_for lib (pv_plan r) b (payload, e)"
    by (rule served_for [OF served' det b x])
  ultimately show ?thesis using out acquired_for_agrees [OF _ r] by auto
qed

lemma acquire_all_fit:
  assumes "each_step (acquire_binding lib env timing (pv_plan r) d) (acquired, bs) xs w = Some (Ok (acquired', bs'), w')"
    and "leaves_served lib (pv_plan r) all acquired" "set xs \<subseteq> set all" "leaf_determines all"
    and "sound_downloads env" "\<forall>bytes. length (sl_sha (al_selection lib) bytes) = 32"
    and "pv_request_contract r = CONTRACT" "list_all2 (evidence_agrees r) bs ys"
  shows "leaves_served lib (pv_plan r) all acquired' \<and> list_all2 (evidence_agrees r) bs' (ys @ xs)"
  using assms
proof (induction xs arbitrary: acquired bs ys w)
  case Nil
  then show ?case by (simp add: step_simps)
next
  case (Cons x xs)
  obtain m bs1 w1 where one: "acquire_binding lib env timing (pv_plan r) d (acquired, bs) x w = Some (Ok (m, bs1), w1)"
    and rest: "each_step (acquire_binding lib env timing (pv_plan r) d) (m, bs1) xs w1 = Some (Ok (acquired', bs'), w')"
    using Cons.prems(1) by (auto simp: step_simps)
  have "x \<in> set all" using Cons.prems(3) by simp
  from acquire_binding_fits [OF one Cons.prems(2) this Cons.prems(4-7)] obtain y where
    "leaves_served lib (pv_plan r) all m" "bs1 = bs @ [y]" "evidence_agrees r y x" by auto
  then show ?case
    using Cons.IH [OF rest, of "ys @ [x]"] Cons.prems(3-8) by (simp add: list_all2_appendI)
qed

text \<open>
  What is acquired for a leaf fits every object that uses the leaf, also the later ones: the evidence
  gathered so far passes the consumer's comparison with its bindings, and an object whose leaf was
  acquired before asks for the same representation and value, so that reuse never conflicts. The record
  must be a valid one, downloads within their limit and the digest of 32 bytes.
\<close>

lemma reused_evidence_fits:
  assumes "validate_provenance lib origin db r = Ok ()"
    and "sound_downloads env" "\<forall>bytes. length (sl_sha (al_selection lib) bytes) = 32"
    and "pv_bindings r = before @ after"
    and "each_step (acquire_binding lib env timing (pv_plan r) d) (Map.empty, []) before w = Some (Ok (acquired, bs), w')"
  shows "list_all2 (evidence_agrees r) bs before
    \<and> (\<forall>b \<in> set after. \<forall>payload e. acquired (pb_configured_leaf b) = Some (payload, e) \<longrightarrow>
        ae_configuration_request_value e = pb_configuration_request_value b \<and> ae_representation e = pb_representation b)"
proof -
  note det = validated_leaf_determines [OF assms(1)]
  have fit: "leaves_served lib (pv_plan r) (pv_bindings r) acquired" "list_all2 (evidence_agrees r) bs before"
    using acquire_all_fit [OF assms(5), where all = "pv_bindings r" and ys = "[]"] assms(2-4) det
      validated_identities(4) [OF assms(1)] by (auto simp: leaves_served_def)
  have "acquired_for lib (pv_plan r) b (payload, e)"
    if "b \<in> set after" "acquired (pb_configured_leaf b) = Some (payload, e)" for b payload e
    by (rule served_for [OF fit(1) det]) (use that assms(4) in auto)
  with fit(2) show ?thesis using acquired_for_request by blast
qed

section \<open>The consumer\<close>

lemma f64s_eq_self: "list_all f64_is_finite m \<Longrightarrow> f64s_eq m m"
  by (auto simp: f64s_eq_def list_all_iff list_all2_same f64_eq_def f64_is_nan_def f64_is_finite_def)

lemma retained_plan_eq_self:
  assumes "validate_retained_plan lib p = Ok ()"
  shows "resolved_plan_eq p p"
proof -
  obtain seen where "try_fold (retained_object lib (pl_root p)) {} (pl_objects p) = Ok seen"
    using assms by (auto simp: validate_retained_plan_Ok)
  then have "list_all f64_is_finite (ro_placement x)" if "x \<in> set (pl_objects p)" for x
    using that by (auto simp: retained_objects_Ok retained_leaf_ok_def proper_rigid_def Let_def)
  then show ?thesis
    by (auto simp: resolved_plan_eq_def list_all2_same resolved_object_eq_def f64s_eq_self)
qed

lemma retention_proof_checked:
  assumes "retention_proof lib bs = Ok proofs"
  shows "length proofs = length bs \<and> each (\<lambda>_ (b, storage, identity).
      if storage \<noteq> rp_storage_reference (ob_retained_payload b)
      then Err (with_position (ob_position b) (provenance_failure ''acquisition_handoff_proof''))
      else and_then (acquisition_evidence_identity lib (ob_acquisition_evidence b)) (\<lambda>expected.
        ensure (identity = expected)
          (with_position (ob_position b) (provenance_failure ''acquisition_handoff_proof''))))
      (zip bs proofs) = Ok ()"
  using assms
  by (auto simp: retention_proof_def collect_results_Ok list_all2_conv_all_nth each_from_Ok result_simps split: prod.splits)

text \<open>
  C31: the consumer accepts what an acquisition returns: for a handle that was read from the database and
  an acquisition at any later time, in any world, the handoff passes its check against the handle; its
  objects are those of the plan, in order.
\<close>

theorem acquired_handoff_accepted:
  assumes "read_association lib origin pid vid db = Ok trusted"
    and "provenance_kept db later"
    and "acquire_geometry lib origin env trusted later w = Some (Ok g, w')"
  shows "validate_acquisition_handoff lib trusted g = Ok ()
    \<and> map ob_configured_leaf (ag_bindings g) = map pb_configured_leaf (pv_bindings trusted)"
proof -
  have ids: "pl_plan_identity (pv_plan trusted) = pid" "pv_provenance_identity trusted = vid"
    using assms(1) by (auto simp: read_association_Ok)
  have "read_association lib origin pid vid later = Ok trusted"
    by (rule kept_read_association [OF assms(2,1)])
  then have "acquire_record lib env default_timing trusted w = Some (Ok g, w')"
    using assms(3) unfolding acquire_geometry_def acquire_with_timing_def step_simps
    by (auto simp: result_simps ids split: if_splits)
  then have g: "ag_plan g = pv_plan trusted" "ag_provenance_identity g = pv_provenance_identity trusted"
      "validate_acquired trusted (ag_bindings g) = Ok ()"
      "retention_proof lib (ag_bindings g) = Ok (ag_retention_proof g)"
    unfolding acquire_record_def Let_def step_simps by (auto simp: step_simps split: prod.splits)
  have retained: "validate_retained_plan (al_selection lib) (pv_plan trusted) = Ok ()"
    using assms(1) validated_identities(3) by (auto simp: read_association_Ok)
  have "map ob_configured_leaf (ag_bindings g) = map pb_configured_leaf (pv_bindings trusted)"
    using g(3)
    by (auto simp: validate_acquired_def each_from_Ok result_simps evidence_agrees_def Let_def
        split: if_splits intro!: nth_equalityI)
  moreover have "validate_acquisition_handoff lib trusted g = Ok ()"
    using retention_proof_checked [OF g(4)] g retained retained_plan_eq_self [OF retained]
    by (simp add: validate_acquisition_handoff_def and_then_def)
  ultimately show ?thesis by simp
qed

end
