(* ===== verification/Encoding_Example.thy ===== *)
theory Encoding_Example
  imports Encoding_Cache
begin

text \<open>A source, a configuration and answers of Onshape at which the theorems on encodings are applied.\<close>

definition example_typed :: "(string, canonical_value) btree" where
  "example_typed = [(''a'', CQuantity Length ''1'' ''2'' ''m''), (''b'', CBoolean True)]"

definition example_request :: json where
  "example_request = encoding_request_body example_typed"

definition example_resolved :: resolved_source where
  "example_resolved = \<lparr>rs_document_id = ''d'', rs_version_id = ''v'', rs_microversion_id = ''m'',
     rs_element_id = ''e'', rs_element_kind = Assembly, rs_link_document_id = None\<rparr>"

definition example_encoding_context :: encoding_context where
  "example_encoding_context = \<lparr>ex_context_schema_version = 1, ex_api_origin = PRODUCTION_ORIGIN, ex_api_major_version = 16,
     ex_open_api_sha256 = API_BASELINE_SHA256, ex_operation_id = ''encodeConfigurationMap'',
     ex_method = ''POST'', ex_path_template = ''/api/v16/elements/d/{did}/e/{eid}/configurationencodings'',
     ex_document_id = ''d'', ex_version_id = ''v'', ex_resolved_microversion_id = ''m'', ex_element_id = ''e'',
     ex_element_kind = ''assembly'', ex_link_document_id = None, ex_query_version_id = ''v'',
     ex_config_canonicalization_version = CANONICALIZATION_VERSION, ex_parameter_schema_version = SCHEMA_VERSION\<rparr>"

definition example_answer :: json where
  "example_answer = JObj [(''encodedId'', JStr ''id'')]"

text \<open>The tokens of a document without fractions.\<close>

fun event_of :: "json \<Rightarrow> event" where
  "event_of JNull = Unit"
| "event_of (JBool b) = Boolean b"
| "event_of (JNum (PosInt n)) = Unsigned n"
| "event_of (JNum _) = Unit"
| "event_of (JStr s) = Text s"
| "event_of (JArr vs) = Sequence (map event_of vs)"
| "event_of (JObj m) = Object (map (\<lambda>(k, v). (k, event_of v)) m)"

text \<open>Answers to the requests of an acquisition, and the lookup of its provenance.\<close>

definition example_hex :: string where
  "example_hex = concat (replicate 32 ''68'')"

definition example_lookup_document :: json where
  "example_lookup_document = JObj [(''planIdentity'', JStr example_hex), (''provenanceIdentity'', JStr example_hex),
     (''provenanceSchemaVersion'', JNum (PosInt 1))]"

definition example_version_answer :: json where
  "example_version_answer = JObj [(''documentId'', JStr ''d''), (''id'', JStr ''v''), (''microversion'', JStr ''m'')]"

definition example_active :: json where
  "example_active = JObj [(''id'', JStr ''t''), (''requestState'', JStr ''ACTIVE'')]"

definition example_done :: json where
  "example_done = JObj [(''documentId'', JStr ''d''), (''id'', JStr ''t''), (''requestState'', JStr ''DONE''),
     (''resultExternalDataIds'', JArr [JStr ''x''])]"

text \<open>Each document is written as one or two letters.\<close>

definition example_documents :: "(string \<times> json) list" where
  "example_documents = [(''t'', typed_values_json example_typed), (''r'', example_request),
     (''c'', encoding_context_json example_encoding_context), (''a'', example_answer), (''xy'', example_lookup_document),
     (''v'', example_version_answer), (''j'', example_active), (''k'', example_done)]"

definition example_encoding_library :: encoding_library where
  "example_encoding_library = \<lparr>
     el_parse_url = (\<lambda>s. Some \<lparr>scheme = ''https'', url_host = Some ''cad.onshape.com'', username = [], password = None,
       url_query = None, fragment = None, url_port = None, known_port = Some 443, url_origin = s\<rparr>),
     el_jcs = (\<lambda>v. Ok (case find (\<lambda>d. snd d = v) example_documents of Some d \<Rightarrow> fst d | None \<Rightarrow> ''x'')),
     el_sha = (\<lambda>_. replicate 32 CHR ''h''),
     el_show_f64 = (\<lambda>_. ''0.0''),
     el_tokens = (\<lambda>s. (case map_of example_documents s of Some v \<Rightarrow> event_of v | None \<Rightarrow> Unit, Ok ())),
     el_context = (\<lambda>_. Some example_encoding_context),
     el_typed = (\<lambda>_. Some example_typed),
     el_big_int = (\<lambda>s. if s = ''1'' then Some 1 else if s = ''2'' then Some 2 else None)\<rparr>"

definition example_remote :: remote where
  "example_remote = \<lparr>rm_origin = PRODUCTION_ORIGIN, rm_version = (\<lambda>_ _. Ok ''m''),
     rm_encode = (\<lambda>_ _ _ _. Ok example_answer)\<rparr>"

definition example_onshape_source :: onshape_source where
  "example_onshape_source = \<lparr>src_document_id = ''d'', src_version_id = ''v'', src_element_id = ''e'',
     src_element_kind = Assembly, src_link_document_id = None\<rparr>"

definition no_rows :: encoding_tables where
  "no_rows = \<lparr>tb_encodings = [], tb_selections = []\<rparr>"

text \<open>The documents written out.\<close>

lemma example_typed_document: "typed_values_json example_typed = JObj [
    (''a'', JObj [(''denominator'', JStr ''2''), (''dimension'', JStr ''length''), (''kind'', JStr ''quantity''),
       (''numerator'', JStr ''1''), (''unit'', JStr ''m'')]),
    (''b'', JObj [(''kind'', JStr ''boolean''), (''value'', JBool True)])]"
  by code_simp

lemma example_request_document: "example_request = JObj [(''parameters'', JArr [
    JObj [(''parameterId'', JStr ''a''), (''parameterValue'', JStr ''(1/2) m'')],
    JObj [(''parameterId'', JStr ''b''), (''parameterValue'', JStr ''true'')]])]"
  by code_simp

lemma example_context_document: "encoding_context_json example_encoding_context = JObj [
    (''apiMajorVersion'', JNum (PosInt 16)), (''apiOrigin'', JStr PRODUCTION_ORIGIN),
    (''configCanonicalizationVersion'', JNum (PosInt 2)), (''contextSchemaVersion'', JNum (PosInt 1)),
    (''documentId'', JStr ''d''), (''elementId'', JStr ''e''), (''elementKind'', JStr ''assembly''),
    (''linkDocumentId'', JNull), (''method'', JStr ''POST''), (''openApiSha256'', JStr API_BASELINE_SHA256),
    (''operationId'', JStr ''encodeConfigurationMap''), (''parameterSchemaVersion'', JNum (PosInt 4)),
    (''pathTemplate'', JStr ''/api/v16/elements/d/{did}/e/{eid}/configurationencodings''),
    (''query'', JObj [(''versionId'', JStr ''v'')]), (''resolvedMicroversionId'', JStr ''m''), (''versionId'', JStr ''v'')]"
  by code_simp

text \<open>A document without fractions, with its members in order and within the bounds, is read back.\<close>

fun tidy :: "nat \<Rightarrow> json \<Rightarrow> bool" where
  "tidy depth (JNum n) = (case n of PosInt _ \<Rightarrow> True | _ \<Rightarrow> False)"
| "tidy depth (JArr vs) = (depth < 32 \<and> length vs \<le> 4096 \<and> list_all (tidy (Suc depth)) vs)"
| "tidy depth (JObj m) = (depth < 32 \<and> length m \<le> 256 \<and> bt_inv m \<and> list_all (\<lambda>(_, v). tidy (Suc depth) v) m)"
| "tidy depth _ = True"

lemma insert_all_sorted:
  assumes "bt_inv m"
  shows "bt.insert_all m [] = m"
proof (rule bt_ext [OF bt.inv_insert_all [OF bt_inv_Nil] assms])
  show "map_of (bt.insert_all m []) = map_of m"
    using bt.get_insert_all_distinct [OF bt_inv_Nil bt_inv_distinct [OF assms]] by (auto simp: fun_eq_iff split: option.splits)
qed

lemma tidy_event:
  "tidy depth v \<Longrightarrow> unambiguous_event (event_of v) \<and> within_bounds depth (event_of v) \<and> lenient p (event_of v) = v"
proof (induction depth v rule: tidy.induct)
  case (1 depth n)
  then show ?case by (cases n) auto
next
  case (2 depth vs)
  then show ?case by (auto simp: list_all_iff intro: map_idI)
next
  case (3 depth m)
  have "map (\<lambda>(k, e). (k, lenient p e)) (map (\<lambda>(k, v). (k, event_of v)) m) = m"
    using 3 by (auto simp: list_all_iff intro!: map_idI)
  moreover have "distinct (map fst m)" using 3 by (auto intro: bt_inv_distinct)
  ultimately show ?case
    using 3 insert_all_sorted [of m] by (auto simp: list_all_iff comp_def case_prod_unfold)
qed auto

lemma read_tidy:
  assumes "tidy 0 v" "members_of (event_of v) \<le> 262144" "length bytes \<le> limit" "valid_utf8 bytes"
    "tokens bytes = (event_of v, Ok ())"
  shows "parse_bounded_json p tokens bytes limit = Ok v"
proof -
  have "bounded_value p 0 0 (event_of v) = Some (v, members_of (event_of v))"
    using bounded_reader(1) [of 0 p 0 "event_of v" v] tidy_event [OF assms(1)] assms(2) by simp
  with assms show ?thesis by (simp add: parse_bounded_json_def is_ok_def)
qed

lemma example_tidy:
  "tidy 0 (typed_values_json example_typed)" "tidy 0 example_request"
  "tidy 0 (encoding_context_json example_encoding_context)" "tidy 0 example_answer"
  unfolding example_typed_document example_request_document example_context_document
  by code_simp+

lemma example_members:
  "members_of (event_of (typed_values_json example_typed)) \<le> 262144"
  "members_of (event_of example_request) \<le> 262144"
  "members_of (event_of (encoding_context_json example_encoding_context)) \<le> 262144"
  "members_of (event_of example_answer) \<le> 262144"
  unfolding example_typed_document example_request_document example_context_document example_answer_def
  by simp_all

section \<open>Resolving it\<close>

lemma example_distinct:
  "typed_values_json example_typed \<noteq> example_request"
  "typed_values_json example_typed \<noteq> encoding_context_json example_encoding_context"
  "example_request \<noteq> encoding_context_json example_encoding_context"
  "typed_values_json example_typed \<noteq> example_answer" "example_request \<noteq> example_answer"
  "encoding_context_json example_encoding_context \<noteq> example_answer"
  unfolding example_typed_document example_request_document example_context_document example_answer_def
  by simp_all

lemma example_jcs:
  "el_jcs example_encoding_library (typed_values_json example_typed) = Ok ''t''"
  "el_jcs example_encoding_library example_request = Ok ''r''"
  "el_jcs example_encoding_library (encoding_context_json example_encoding_context) = Ok ''c''"
  "el_jcs example_encoding_library example_answer = Ok ''a''"
  using example_distinct by (simp_all add: example_encoding_library_def example_documents_def)

lemma example_canonical:
  "canonical_string example_encoding_library (typed_values_json example_typed) = Ok ''t''"
  "canonical_string example_encoding_library example_request = Ok ''r''"
  "canonical_string example_encoding_library (encoding_context_json example_encoding_context) = Ok ''c''"
  "canonical_string example_encoding_library example_answer = Ok ''a''"
  by (simp_all add: canonical_string_def example_jcs)

lemma example_read:
  "read_evidence example_encoding_library ''t'' = Ok (typed_values_json example_typed)"
  "read_evidence example_encoding_library ''r'' = Ok example_request"
  "read_evidence example_encoding_library ''c'' = Ok (encoding_context_json example_encoding_context)"
  "read_evidence example_encoding_library ''a'' = Ok example_answer"
  unfolding read_evidence_def
  by (rule read_tidy [OF example_tidy(1) example_members(1)], simp_all add: EVIDENCE_LIMIT_def
        example_encoding_library_def example_documents_def)
    (rule read_tidy [OF example_tidy(2) example_members(2)]
      read_tidy [OF example_tidy(3) example_members(3)] read_tidy [OF example_tidy(4) example_members(4)],
      simp_all add: example_documents_def)+

lemma example_hash: "hash_json (el_jcs example_encoding_library) (el_sha example_encoding_library) domain payload =
    Ok (hex_sha256 (el_sha example_encoding_library) ''x'')"
  by (simp add: hash_json_def example_encoding_library_def and_then_def hex_sha256_def)

lemma example_typed_valid: "validate_typed_values example_encoding_library example_typed = Ok ()"
  by code_simp

lemma example_source_context:
  "encoding_context_of example_encoding_library PRODUCTION_ORIGIN example_resolved = Ok example_encoding_context"
  by code_simp

definition example_expected :: expected_encoding where
  "example_expected = (let h = hex_sha256 (el_sha example_encoding_library) ''x'' in
     \<lparr>ee_source_hash = h, ee_config_hash = h, ee_context_hash = h, ee_context = example_encoding_context,
      ee_request = example_request\<rparr>)"

lemma example_expected_of:
  "expected_of example_encoding_library PRODUCTION_ORIGIN example_resolved example_typed = Ok example_expected"
  by (simp add: expected_of_def example_typed_valid example_canonical example_read example_source_context
      source_hash_def config_hash_def hash_context_def example_hash and_then_def map_err_def Let_def
      example_expected_def flip: example_request_def)

lemma example_source_resolved:
  "resolve_source example_encoding_library example_remote example_onshape_source example_typed = Ok example_resolved"
proof -
  have "list_all bounded_visible_ascii [''d'', ''v'', ''e'']" by code_simp
  then show ?thesis
    by (simp add: resolve_source_def example_typed_valid example_canonical example_read and_then_def
        example_remote_def example_onshape_source_def example_resolved_def)
qed

definition example_record :: encoding_record where
  "example_record = \<lparr>rec_source_hash = ee_source_hash example_expected, rec_config_hash = ee_config_hash example_expected,
     rec_encoding_context_hash = ee_context_hash example_expected, rec_encoding_context_json = ''c'',
     rec_encoded_id = ''id'', rec_query_param = [], rec_request_json = ''r'', rec_response_json = ''a''\<rparr>"

definition example_handoff :: encoding_handoff where
  "example_handoff = handoff_of example_expected ''id''"

definition example_resolution :: encoding_resolution where
  "example_resolution = \<lparr>er_handoff = example_handoff, er_identity = \<lparr>ec_encoded_id = ''id'', ec_query_param = []\<rparr>\<rparr>"

lemma example_response: "response_encoding example_answer False = Ok (er_identity example_resolution)"
  by code_simp

lemma example_expected_parts:
  "ee_context example_expected = example_encoding_context" "ee_request example_expected = example_request"
  by (simp_all add: example_expected_def Let_def)

lemma example_fresh: "fresh_record example_encoding_library example_expected False example_answer = Ok example_record"
  by (simp add: fresh_record_def example_canonical example_response example_expected_parts and_then_def
      example_record_def example_resolution_def)

lemma example_context_hash:
  "hash_context example_encoding_library example_encoding_context = Ok (ee_context_hash example_expected)"
  by (simp add: hash_context_def example_hash example_expected_def Let_def)

lemma example_validated:
  "validate_record example_encoding_library example_record example_expected False = Ok example_resolution"
proof -
  have "el_context example_encoding_library j = Some example_encoding_context" for j
    by (simp add: example_encoding_library_def)
  then have "validate_context_evidence example_encoding_library example_record example_expected = Ok ()"
    by (simp add: validate_context_evidence_def example_record_def example_read example_expected_parts
        example_context_hash and_then_def ok_or_def map_err_def)
  then show ?thesis
    by (simp add: validate_record_Ok example_response)
      (simp add: example_record_def example_read example_expected_parts example_response example_resolution_def example_handoff_def)
qed

definition example_validation :: string where
  "example_validation = projr (canonical_string example_encoding_library (selection_validation_json example_typed))"

definition example_selection :: selection_row where
  "example_selection = \<lparr>cs_source_hash = ee_source_hash example_expected, cs_config_hash = ee_config_hash example_expected,
     cs_values_json = ''t'', cs_validation_json = example_validation\<rparr>"

lemma example_validation_text:
  "canonical_string example_encoding_library (selection_validation_json example_typed) = Ok example_validation"
  by (simp add: example_validation_def canonical_string_def example_encoding_library_def example_documents_def)

definition example_rows :: encoding_tables where
  "example_rows = \<lparr>tb_encodings = [example_record], tb_selections = [example_selection]\<rparr>"

lemma example_used:
  "use_record example_encoding_library example_record example_expected example_typed False no_rows =
    (Ok example_resolution, \<lparr>tb_encodings = [], tb_selections = [example_selection]\<rparr>)"
proof -
  have "el_typed example_encoding_library j = Some example_typed" for j
    by (simp add: example_encoding_library_def)
  then show ?thesis
    by (simp add: use_record_def example_validated retain_typed_selection_def example_canonical
        example_validation_text and_then_def
        insert_configuration_selection_if_absent_def insert_if_absent_def no_rows_def find_row_def
        stored_typed_values_def configuration_selection_def selection_key_def ok_or_def example_read Let_def
        example_selection_def)
qed

lemma example_resolve_inner:
  "resolve_inner example_encoding_library example_remote id example_onshape_source example_typed None False no_rows
    = (Ok example_resolution, example_rows)"
proof -
  have "rm_origin example_remote = PRODUCTION_ORIGIN" "rm_encode example_remote d v e j = Ok example_answer" for d v e j
    by (simp_all add: example_remote_def)
  then show ?thesis
    by (simp add: resolve_inner_def example_source_resolved example_expected_of and_then_def encode_and_store_def
        configuration_encoding_def no_rows_def find_row_def example_fresh store_record_def Let_def
        example_used [unfolded no_rows_def] insert_configuration_encoding_if_absent_def insert_if_absent_def example_rows_def)
qed

section \<open>Witnesses\<close>

theorem resolved_handoff_accepted_witness:
  "validate_handoff example_encoding_library PRODUCTION_ORIGIN example_resolved example_handoff example_rows = Ok ()"
proof -
  have sha: "\<forall>b. length (el_sha example_encoding_library b) = 32" by (simp add: example_encoding_library_def)
  have r: "resolve_encoding example_encoding_library example_remote id example_onshape_source example_typed no_rows
      = (Ok example_handoff, example_rows)"
    by (simp add: resolve_encoding_def example_resolve_inner and_then_def example_resolution_def)
  show ?thesis
    using resolved_handoff_accepted [OF sha r, of "''m''" example_rows]
    by (simp add: example_remote_def example_onshape_source_def example_resolved_def)
qed

text \<open>A reader of big integers.\<close>

definition decimal_big_int :: "string \<Rightarrow> int option" where
  "decimal_big_int s = (case strip_prefix ''-'' s of
      Some t \<Rightarrow> Some (- int (dec_value t))
    | None \<Rightarrow> Some (int (dec_value s)))"

lemma decimal_big_int_printed: "decimal_big_int (int_str i) = Some i"
proof (cases "i < 0")
  case False
  have "strip_prefix ''-'' (nat_str (nat i)) = None"
    using nat_str_digits [of "nat i"] by (cases "nat_str (nat i)") (auto simp: is_digit_def)
  with False show ?thesis by (simp add: decimal_big_int_def int_str_def)
qed (simp add: decimal_big_int_def int_str_def)

end
