(* ===== verification/Selection_Example.thy ===== *)
theory Selection_Example
  imports Selection_Retained Encoding_Example
begin

text \<open>An assembly with one instance of a part, at which the theorems on plans are applied.\<close>

section \<open>The request and the answers\<close>

definition example_selection_request :: selection_request where
  "example_selection_request = \<lparr>sr_document_id = ''d'', sr_version_id = ''v'', sr_element_id = ''e'',
     sr_element_kind = AssemblyElement, sr_configuration_encoding = example_handoff,
     sr_selectors = [Occurrence [''i'']]\<rparr>"

definition example_leaf_members :: "(string \<times> json) list" where
  "example_leaf_members = [(''documentId'', JStr ''d''), (''documentMicroversion'', JStr ''m''),
     (''elementId'', JStr ''s''), (''fullConfiguration'', JStr ''c''), (''partId'', JStr ''p'')]"

definition example_instance :: jmap where
  "example_instance = example_leaf_members @
     [(''id'', JStr ''i''), (''suppressed'', JBool False), (''type'', JStr ''Part'')]"

definition example_occurrence :: jmap where
  "example_occurrence = [(''hidden'', JBool False), (''path'', JArr [JStr ''i'']),
     (''transform'', JArr (map (\<lambda>n. JNum (PosInt n)) [1, 0, 0, 0, 0, 1, 0, 0, 0, 0, 1, 0, 0, 0, 0, 1]))]"

definition example_pattern :: json where
  "example_pattern = JObj [(''id'', JStr ''q''), (''seedToPatternInstances'', JObj [(''j'', JArr [JStr ''k''])])]"

definition example_assembly :: jmap where
  "example_assembly = [(''documentId'', JStr ''d''), (''documentMicroversion'', JStr ''m''), (''elementId'', JStr ''e''),
     (''fullConfiguration'', JStr ''f''), (''instances'', JArr [JObj example_instance]),
     (''occurrences'', JArr [JObj example_occurrence]), (''parametricInstances'', JArr []),
     (''patterns'', JArr [example_pattern])]"

definition example_part :: jmap where
  "example_part = (''bodyType'', JStr ''solid'') # example_leaf_members"

definition example_envelope :: json where
  "example_envelope = JObj [(''parts'', JArr [JObj example_part]), (''rootAssembly'', JObj example_assembly)]"

definition example_row :: jmap where
  "example_row = [(''bodyType'', JStr ''solid''), (''configurationId'', JStr ''c''), (''description'', JStr []),
     (''elementId'', JStr ''s''), (''isFlattenedBody'', JBool False), (''isHidden'', JBool False),
     (''isMesh'', JBool False), (''meshState'', JStr ''NO_MESH''), (''microversionId'', JStr ''m''),
     (''name'', JStr ''Body''), (''partId'', JStr ''p'')]"

definition example_planning_remote :: planning_remote where
  "example_planning_remote = \<lparr>pr_origin = PRODUCTION_ORIGIN, pr_version = (\<lambda>_ _. Ok ''m''),
     pr_parts = (\<lambda>_ _ _ _. Ok (JArr [JObj example_row])), pr_assembly = (\<lambda>_ _ _ _. Ok example_envelope)\<rparr>"

definition example_selection_library :: selection_library where
  "example_selection_library = \<lparr>sl_encoding = example_encoding_library, sl_to_vec = (\<lambda>_. Ok ''x''),
     sl_decode = (\<lambda>_. Err []), sl_pieces = (\<lambda>_. ([''x'', ''y''], True)), sl_read_f64 = (\<lambda>_. 0)\<rparr>"

definition example_leaf :: configured_leaf where
  "example_leaf = plan_leaf ''d'' ''m'' ''s'' ''c'' ''p''"

definition example_candidate :: candidate where
  "example_candidate = \<lparr>cd_leaf = example_leaf, cd_selector = AssemblyOccurrence ''d'' ''m'' ''e'' ''f'' [''i''],
     cd_matrix = IDENTITY_PLACEMENT, cd_name = ''Body'', cd_description = []\<rparr>"

section \<open>Planning it\<close>

lemma example_handoff_accepted:
  "validate_handoff example_encoding_library PRODUCTION_ORIGIN example_resolved example_handoff example_rows = Ok ()"
proof -
  have shape: "validate_shape example_handoff = Ok ()" by code_simp
  have stored: "stored_typed_values example_encoding_library (eh_source_hash example_handoff)
      (eh_config_hash example_handoff) example_rows = Ok example_typed"
    using example_read(1)
    by (simp add: stored_typed_values_def configuration_selection_def example_rows_def find_row_def selection_key_def
        example_selection_def example_handoff_def handoff_of_def and_then_def ok_or_def map_err_def)
      (simp add: example_encoding_library_def)
  have found: "configuration_encoding example_rows (ee_source_hash example_expected) (ee_config_hash example_expected)
      (ee_context_hash example_expected) = Some example_record"
    by (simp add: configuration_encoding_def example_rows_def find_row_def encoding_key_def example_record_def)
  show ?thesis
    by (simp add: validate_handoff_def shape stored example_expected_of and_then_def found example_validated ok_or_def
        example_resolution_def) (simp add: example_handoff_def handoff_of_def)
qed

lemma example_preflight: "preflight example_selection_request = Ok ()"
  unfolding preflight_Ok by code_simp

lemma example_selected:
  "select_occurrences example_selection_request example_assembly [JObj example_instance] [JObj example_occurrence]
    = Ok [(example_instance, example_occurrence)]"
  by code_simp

lemma example_transform: "project_transform (\<lambda>_. 0) example_occurrence = Ok IDENTITY_PLACEMENT"
  by code_simp

lemma example_states:
  "deleted_state example_instance = Ok False" "part_type example_instance = Ok True"
  "read_boolean example_instance ''suppressed'' = Ok False" "read_boolean example_occurrence ''hidden'' = Ok False"
  "projected_leaf example_instance = Ok example_leaf"
  by code_simp+

lemma example_projected:
  "project_selected (\<lambda>_. 0) ''d'' ''m'' [(example_instance, example_occurrence)] = Ok ([example_leaf], [IDENTITY_PLACEMENT])"
  by (simp add: project_selected_def phase_def read_all_def none_at_def positioned_def map_err_def and_then_def
      example_states example_transform identity_placement_rigid(1)) (simp add: example_leaf_def plan_leaf_def)

lemma example_joined: "join_parts [JObj example_part] [example_leaf] = Ok ()"
  by code_simp

lemma example_group: "join_group example_planning_remote [example_candidate\<lparr>cd_name := []\<rparr>] g = Ok [example_candidate]"
  if "g = \<lparr>cg_key = carrier_key_of example_leaf, cg_positions = [0]\<rparr>"
  unfolding that by code_simp

lemma example_resolved_assembly:
  "resolve_assembly (\<lambda>_. 0) example_selection_request ''m'' example_envelope = Ok
    \<lparr>ar_root = plan_root example_selection_request ''m'' ''f'', ar_candidates = [example_candidate\<lparr>cd_name := []\<rparr>],
     ar_carriers = [\<lparr>cg_key = carrier_key_of example_leaf, cg_positions = [0]\<rparr>]\<rparr>"
proof -
  have m: "and_then (ok_or (member ''rootAssembly'' (object_of example_envelope)) malformed) read_object = Ok example_assembly"
      "read_array (object_of example_envelope) ''parts'' = Ok [JObj example_part]"
      "read_array example_assembly ''instances'' = Ok [JObj example_instance]"
      "read_array example_assembly ''occurrences'' = Ok [JObj example_occurrence]"
      "source_string example_assembly ''documentId'' = Ok ''d''"
      "source_string example_assembly ''documentMicroversion'' = Ok ''m''"
      "source_string example_assembly ''elementId'' = Ok ''e''"
      "source_string example_assembly ''fullConfiguration'' = Ok ''f''"
      "read_array example_assembly ''parametricInstances'' = Ok []"
      "read_array example_assembly ''patterns'' = Ok [example_pattern]"
    by code_simp+
  have c: "carriers_of [example_leaf] = [\<lparr>cg_key = carrier_key_of example_leaf, cg_positions = [0]\<rparr>]"
    by code_simp
  have r: "sr_document_id example_selection_request = ''d''" "sr_element_id example_selection_request = ''e''"
      "sr_selectors example_selection_request = [Occurrence [''i'']]"
    by (simp_all add: example_selection_request_def)
  have e: "read_object example_envelope = Ok (object_of example_envelope)"
    by (simp add: example_envelope_def read_object_def ok_or_def)
  have b: "and_then (Ok x) f = f x" for x :: 'x and f :: "'x \<Rightarrow> (api_failure, 'y) result"
    by (simp add: and_then_def)
  show ?thesis
    unfolding resolve_assembly_def e m b
    by (simp add: b r example_selected example_projected example_joined c assembly_candidate_def
        identity_placement_rigid(3) example_candidate_def)
qed

lemma example_candidates:
  "plan_candidates example_selection_library example_planning_remote example_selection_request ''m'' =
    Ok (plan_root example_selection_request ''m'' ''f'', [example_candidate])"
proof -
  have "sl_read_f64 example_selection_library = (\<lambda>_. 0)" "sr_element_kind example_selection_request = AssemblyElement"
      "pr_assembly example_planning_remote d m e c = Ok example_envelope" for d m e c
    by (simp_all add: example_selection_library_def example_selection_request_def example_planning_remote_def)
  then show ?thesis
    by (simp add: plan_candidates_def Let_def and_then_def example_resolved_assembly map_err_def example_group)
qed

definition example_identity :: string where
  "example_identity = hex_sha256 (el_sha example_encoding_library) ''x''"

definition example_object :: resolved_object where
  "example_object = \<lparr>ro_plan_local_object_identity = example_identity,
     ro_selector = AssemblyOccurrence ''d'' ''m'' ''e'' ''f'' [''i''], ro_configured_leaf = example_leaf,
     ro_display_name = ''Body'', ro_annotation = \<lparr>an_role = Printable, an_key = None, an_targets = []\<rparr>,
     ro_placement = IDENTITY_PLACEMENT\<rparr>"

definition example_plan :: resolved_plan where
  "example_plan = \<lparr>pl_root = plan_root example_selection_request ''m'' ''f'',
     pl_authoring_document_identity = example_identity, pl_objects = [example_object],
     pl_plan_identity = hex_sha256 (el_sha example_encoding_library) ''xy''\<rparr>"

lemma example_authored:
  "author_candidate example_selection_library (0, example_candidate) = Ok \<lparr>ao_selector = cd_selector example_candidate,
    ao_display_name = ''Body'', ao_annotation = \<lparr>an_role = Printable, an_key = None, an_targets = []\<rparr>\<rparr>"
proof -
  have d: "filter (starts_with DESCRIPTION_MARKER_PREFIX) (split_on (CHR 0x0A) []) = []" by code_simp
  have n: "rfind NAME_MARKER_PREFIX ''Body'' = None" "display_name_ok ''Body''" "selector_ok (cd_selector example_candidate)"
    by code_simp+
  have c: "cd_name example_candidate = ''Body''" "cd_description example_candidate = []"
    by (simp_all add: example_candidate_def)
  have "parse_carriers dec [] ''Body'' = Ok \<lparr>pc_display_name = ''Body'',
      pc_annotation = \<lparr>an_role = Printable, an_key = None, an_targets = []\<rparr>\<rparr>" for dec
  proof -
    have "parse_description_annotation dec [] = Ok None"
      unfolding parse_description_annotation_def d by (simp add: demand_def ensure_def and_then_def)
    moreover have "parse_name_annotation ''Body'' = Ok (''Body'', None)"
      unfolding parse_name_annotation_def n(1) validate_display_name_def
      using n(2) by (simp add: demand_def ensure_def and_then_def)
    ultimately show ?thesis by (simp add: parse_carriers_def and_then_def)
  qed
  moreover have "annotation_ok 64 \<lparr>an_role = Printable, an_key = None, an_targets = []\<rparr>"
    by (simp add: annotation_ok_def)
  moreover have "validate_authoring_object x i = Ok ()"
    if "selector_ok (ao_selector x)" "display_name_ok (ao_display_name x)" "annotation_ok 64 (ao_annotation x)" for x i
    using that by (simp add: annotation_simps)
  ultimately show ?thesis
    by (simp add: author_candidate_def normalize_authoring_object_def c and_then_def Let_def n map_err_def)
qed

lemma example_document_valid:
  "validate_authoring_document (\<lambda>_. Ok ''x'') \<lparr>ad_schema_version = 1, ad_objects = [\<lparr>ao_selector = cd_selector example_candidate,
    ao_display_name = ''Body'', ao_annotation = \<lparr>an_role = Printable, an_key = None, an_targets = []\<rparr>\<rparr>]\<rparr> = Ok ()"
proof -
  have "object_ok \<lparr>ao_selector = cd_selector example_candidate, ao_display_name = ''Body'',
      ao_annotation = \<lparr>an_role = Printable, an_key = None, an_targets = []\<rparr>\<rparr>"
  proof -
    have "selector_ok (cd_selector example_candidate)" "display_name_ok ''Body''" by code_simp+
    then show ?thesis by (simp add: object_ok_iff annotation_ok_def)
  qed
  then show ?thesis by (simp add: document_Ok within_size_def linked_def)
qed

lemma example_constructed:
  "construct_plan example_selection_library (plan_root example_selection_request ''m'' ''f'') [example_candidate] = Ok example_plan"
proof -
  let ?x = "\<lparr>ao_selector = cd_selector example_candidate, ao_display_name = ''Body'',
      ao_annotation = \<lparr>an_role = Printable, an_key = None, an_targets = []\<rparr>\<rparr>"
  let ?d = "\<lparr>ad_schema_version = 1, ad_objects = [?x]\<rparr>"
  have lib: "sl_to_vec example_selection_library = (\<lambda>_. Ok ''x'')"
      "sl_encoding example_selection_library = example_encoding_library"
      "fst (sl_pieces example_selection_library v) = [''x'', ''y'']" "snd (sl_pieces example_selection_library v)" for v
    by (simp_all add: example_selection_library_def)
  have "valid_utf8 ''t''" "valid_utf8 ''r''" "valid_utf8 ''c''" "valid_utf8 ''a''" "valid_utf8 ''x''" "valid_utf8 ''xy''"
      "valid_utf8 ''v''" "valid_utf8 ''j''" "valid_utf8 ''k''" by code_simp+
  then have jcs: "\<exists>b. el_jcs example_encoding_library v = Ok b \<and> valid_utf8 b \<and> b \<noteq> []" for v
    by (simp add: example_encoding_library_def example_documents_def del: valid_utf8.simps)
  then obtain b where b: "el_jcs example_encoding_library (configured_leaf_json example_leaf) = Ok b" "valid_utf8 b" "b \<noteq> []" by blast
  obtain a where a: "el_jcs example_encoding_library (annotation_json (ao_annotation ?x)) = Ok a" using jcs by blast
  have "context_entry example_selection_library malformed (0, cd_selector example_candidate, example_leaf) =
      Ok \<lparr>ce_selector = cd_selector example_candidate, ce_plan_position = 0, ce_configured_part_identity = b\<rparr>"
    by (simp add: context_entry_def configured_part_def lib b and_then_def map_err_def del: valid_utf8.simps)
  moreover have "validate_authoring_context (\<lambda>_. Ok ''x'') (el_jcs example_encoding_library) ?d
      [\<lparr>ce_selector = cd_selector example_candidate, ce_plan_position = 0, ce_configured_part_identity = b\<rparr>] = Ok ()"
    using a b(3) by (simp add: validate_authoring_context_def example_document_valid and_then_def demand_def ensure_def
        index_context_entry_def checks.simps canonical_annotation_def map_err_def Let_def each_from.simps)
  moreover have "authoring_document_identity (\<lambda>_. Ok ''x'') (el_jcs example_encoding_library) (el_sha example_encoding_library) ?d
      = Ok example_identity"
    by (simp add: authoring_document_identity_def example_document_valid annotation_hash_def example_hash and_then_def
        map_err_def example_identity_def)
  moreover have "plan_object example_selection_library (example_candidate, ?x) = Ok example_object"
    by (simp add: plan_object_def plan_object_identity_def lib example_hash and_then_def map_err_def example_object_def
        example_identity_def example_candidate_def identity_placement_rigid(3))
  moreover have "write_canonical example_selection_library v = Ok \<lparr>bh_digested = ''xy'', bh_count = 2, bh_overflow = False\<rparr>" for v
    using write_canonical_fits [of example_selection_library v] lib by (simp add: MAX_PLAN_BYTES_def Let_def)
  moreover have "cd_leaf example_candidate = example_leaf" by (simp add: example_candidate_def)
  ultimately show ?thesis
    by (simp add: construct_plan_def example_authored and_then_def Let_def lib example_document_valid map_err_def
        example_plan_def finish_hash_def)
qed

lemma example_planned:
  "plan_selection example_selection_library example_planning_remote example_rows example_selection_request = Ok example_plan"
proof -
  have "sl_encoding example_selection_library = example_encoding_library" "pr_origin example_planning_remote = PRODUCTION_ORIGIN"
      "pr_version example_planning_remote d v = Ok ''m''" for d v
    by (simp_all add: example_selection_library_def example_planning_remote_def)
  moreover have "\<lparr>rs_document_id = sr_document_id example_selection_request, rs_version_id = sr_version_id example_selection_request,
      rs_microversion_id = ''m'', rs_element_id = sr_element_id example_selection_request,
      rs_element_kind = catalog_kind (sr_element_kind example_selection_request), rs_link_document_id = None\<rparr> = example_resolved"
    "sr_configuration_encoding example_selection_request = example_handoff"
    by (simp_all add: example_selection_request_def example_resolved_def)
  ultimately show ?thesis
    by (simp add: plan_selection_def example_preflight and_then_def Let_def example_handoff_accepted example_candidates
        example_constructed)
qed

section \<open>Witnesses\<close>

theorem planned_selection_retained_witness:
  "validate_retained_plan example_selection_library example_plan = Ok ()"
proof -
  have "\<forall>bytes. length (sl_sha example_selection_library bytes) = 32"
    by (simp add: example_selection_library_def example_encoding_library_def)
  moreover have "unambiguous (sl_jcs example_selection_library) (sl_sha example_selection_library)
      (object_documents example_plan)"
    by (auto simp: unambiguous_def object_documents_def example_plan_def)
  ultimately show ?thesis by (rule planned_selection_retained [OF example_planned])
qed

theorem plan_answers_request_witness:
  "list_all2 (\<lambda>s x. names s (ro_selector x)) [Occurrence [''i'']] (pl_objects example_plan)"
  using plan_answers_request [OF example_planned] by (simp add: example_selection_request_def)


end
