(* ===== verification/Geometry_Example.thy ===== *)
theory Geometry_Example
  imports Geometry_Handoff Selection_Example
begin

text \<open>The plan of \<open>Selection_Example\<close> recorded, looked up and acquired, with one poll of its translation.\<close>

section \<open>The record\<close>

definition example_provenance :: provenance_record where
  "example_provenance = (planned_record example_handoff example_encoding_context example_plan)
     \<lparr>pv_provenance_identity := example_hex\<rparr>"

definition example_provenance_library :: provenance_library where
  "example_provenance_library = \<lparr>al_selection = example_selection_library,
     al_record = (\<lambda>_. Some example_provenance), al_lookup = (\<lambda>_. Some (lookup_of example_provenance))\<rparr>"

definition example_empty_store :: store where
  "example_empty_store = \<lparr>st_recipes = [], st_occurrences = [], st_sets = [], st_files = [], st_requests = [],
     st_provenance = []\<rparr>"

definition example_acquisition_rows :: acquisition_tables where
  "example_acquisition_rows = \<lparr>tq_encodings = example_rows, tq_store = example_empty_store\<lparr>st_provenance :=
     [\<lparr>av_plan_identity = example_hex, av_provenance_identity = example_hex, av_record_json = ''xy''\<rparr>]\<rparr>\<rparr>"

lemma example_libraries:
  "al_selection example_provenance_library = example_selection_library"
  "sl_encoding example_selection_library = example_encoding_library"
  "al_record example_provenance_library v = Some example_provenance"
  "al_lookup example_provenance_library v = Some (lookup_of example_provenance)"
  "sl_pieces example_selection_library v = ([''x'', ''y''], True)"
  by (simp_all add: example_provenance_library_def example_selection_library_def)

lemma example_hex_identity: "hex_sha256 (el_sha example_encoding_library) bytes = example_hex"
proof -
  have "hex_byte (CHR ''h'') = ''68''" by code_simp
  then show ?thesis
    by (simp add: hex_sha256_def example_encoding_library_def example_hex_def map_replicate_const)
qed

lemma example_hex_shape: "is_sha256 example_hex"
  by code_simp

lemma example_evidence_identities:
  "pl_plan_identity example_plan = example_hex" "pl_plan_identity (pv_plan example_provenance) = example_hex"
  "pv_provenance_identity example_provenance = example_hex" "pv_plan example_provenance = example_plan"
  by (simp_all add: example_plan_def example_provenance_def planned_record_def example_hex_identity)

lemma example_texts:
  "parse_bounded_json p (el_tokens example_encoding_library) ''xy'' RECORD_LIMIT = Ok example_lookup_document"
  "parse_bounded_json p (el_tokens example_encoding_library) ''c'' SMALL_RESPONSE_LIMIT =
    Ok (encoding_context_json example_encoding_context)"
  "parse_bounded_json p (el_tokens example_encoding_library) ''v'' SMALL_RESPONSE_LIMIT = Ok example_version_answer"
  "parse_bounded_json p (el_tokens example_encoding_library) ''j'' SMALL_RESPONSE_LIMIT = Ok example_active"
  "parse_bounded_json p (el_tokens example_encoding_library) ''k'' SMALL_RESPONSE_LIMIT = Ok example_done"
proof -
  have read: "parse_bounded_json p (el_tokens example_encoding_library) bytes limit = Ok v"
    if "tidy 0 v" "members_of (event_of v) \<le> 262144" "length bytes \<le> limit" "valid_utf8 bytes"
      "map_of example_documents bytes = Some v" for bytes v limit
    by (rule read_tidy) (use that in \<open>simp_all add: example_encoding_library_def\<close>)
  have t: "tidy 0 example_lookup_document" "tidy 0 example_version_answer" "tidy 0 example_active" "tidy 0 example_done"
    by code_simp+
  have m: "members_of (event_of example_lookup_document) \<le> 262144" "members_of (event_of example_version_answer) \<le> 262144"
      "members_of (event_of example_active) \<le> 262144" "members_of (event_of example_done) \<le> 262144"
    by (simp_all add: example_lookup_document_def example_version_answer_def example_active_def example_done_def)
  have u: "valid_utf8 ''xy''" "valid_utf8 ''c''" "valid_utf8 ''v''" "valid_utf8 ''j''" "valid_utf8 ''k''" by code_simp+
  show "parse_bounded_json p (el_tokens example_encoding_library) ''xy'' RECORD_LIMIT = Ok example_lookup_document"
    by (rule read [OF t(1) m(1) _ u(1)]) (simp_all add: RECORD_LIMIT_def example_documents_def)
  show "parse_bounded_json p (el_tokens example_encoding_library) ''c'' SMALL_RESPONSE_LIMIT =
      Ok (encoding_context_json example_encoding_context)"
    by (rule read [OF example_tidy(3) example_members(3) _ u(2)]) (simp_all add: SMALL_RESPONSE_LIMIT_def example_documents_def)
  show "parse_bounded_json p (el_tokens example_encoding_library) ''v'' SMALL_RESPONSE_LIMIT = Ok example_version_answer"
    by (rule read [OF t(2) m(2) _ u(3)]) (simp_all add: SMALL_RESPONSE_LIMIT_def example_documents_def)
  show "parse_bounded_json p (el_tokens example_encoding_library) ''j'' SMALL_RESPONSE_LIMIT = Ok example_active"
    by (rule read [OF t(3) m(3) _ u(4)]) (simp_all add: SMALL_RESPONSE_LIMIT_def example_documents_def)
  show "parse_bounded_json p (el_tokens example_encoding_library) ''k'' SMALL_RESPONSE_LIMIT = Ok example_done"
    by (rule read [OF t(4) m(4) _ u(5)]) (simp_all add: SMALL_RESPONSE_LIMIT_def example_documents_def)
qed

lemma example_bounded: "bounded_canonical example_provenance_library v = Ok ''xy''"
  by (simp add: bounded_canonical_def example_libraries bounded_bytes_write_def RECORD_LIMIT_def and_then_def map_err_def
      read_record_text_def example_texts [unfolded RECORD_LIMIT_def])

lemma example_record_texts:
  "record_text example_provenance_library r = Ok ''xy''" "record_identity example_provenance_library r = Ok example_hex"
  "lookup_request example_provenance_library r = Ok ''xy''"
  by (simp_all add: record_text_def record_identity_def lookup_request_def lookup_text_def example_bounded and_then_def
      example_libraries example_hex_identity)

lemma example_retained: "validate_retained_plan example_selection_library example_plan = Ok ()"
  by (rule constructed_retained [OF example_planned])
    (auto simp: example_selection_library_def example_encoding_library_def unambiguous_def object_documents_def example_plan_def)

lemma example_source_of_plan: "plan_source example_plan = example_resolved"
  by (simp add: plan_source_def example_plan_def plan_root_def example_selection_request_def example_resolved_def)

definition example_binding :: provenance_binding where
  "example_binding = \<lparr>pb_position = 0, pb_plan_local_object_identity = example_identity,
     pb_selector = AssemblyOccurrence ''d'' ''m'' ''e'' ''f'' [''i''], pb_configured_leaf = example_leaf,
     pb_representation = AssemblyLeafFullConfiguration, pb_configuration_request_value = ''c''\<rparr>"

lemma example_bindings: "pv_bindings example_provenance = [example_binding]"
  by (simp add: example_provenance_def planned_record_def example_plan_def planned_binding_def binding_value_def
      plan_root_def example_selection_request_def example_object_def example_binding_def example_leaf_def plan_leaf_def)

lemma example_provenance_valid:
  "validate_provenance example_provenance_library PRODUCTION_ORIGIN example_rows example_provenance = Ok ()"
proof -
  have parts: "pv_provenance_schema_version example_provenance = 1" "pv_request_contract example_provenance = CONTRACT"
      "pv_encoding_context example_provenance = example_encoding_context"
      "pv_configuration_encoding example_provenance = example_handoff"
    by (simp_all add: example_provenance_def planned_record_def)
  have objects: "pl_objects example_plan = [example_object]" "rt_element_kind (pl_root example_plan) = AssemblyElement"
    by (simp_all add: example_plan_def plan_root_def example_selection_request_def)
  have "binding_check example_provenance 0 (example_binding, example_object) = Ok ()"
    by (simp add: binding_check_def example_evidence_identities objects binding_value_def)
      (simp add: example_binding_def example_object_def example_leaf_def plan_leaf_def)
  then show ?thesis
    by (simp add: validate_provenance_def example_libraries example_retained and_then_def parts example_hex_shape
        example_evidence_identities example_record_texts example_bindings objects example_source_of_plan example_source_context
        example_handoff_accepted map_err_def each_from.simps)
qed

lemma example_association:
  "read_association example_provenance_library PRODUCTION_ORIGIN example_hex example_hex example_acquisition_rows
    = Ok example_provenance"
proof -
  have "acquisition_provenance example_hex (tq_store example_acquisition_rows) = Some (example_hex, ''xy'')"
      "tq_encodings example_acquisition_rows = example_rows"
    by (simp_all add: acquisition_provenance_def example_acquisition_rows_def find_provenance_def find_row_def)
  then show ?thesis
    by (simp add: read_association_Ok example_record_texts example_provenance_valid example_evidence_identities example_libraries
        read_record_text_def example_texts)
qed

section \<open>The world\<close>

text \<open>The clock stands still; the first state of a translation is active, the next is done.\<close>

definition example_reply :: "api_request \<Rightarrow> geometry_download" where
  "example_reply r = \<lparr>downloaded =
       (if ar_operation r = ''getVersion'' then ''v''
        else if ar_operation r = ''createPartStudioTranslation'' then ''j''
        else if ar_operation r = ''getTranslation'' then ''k'' else ''3mf''),
     transport_media = ''model/3mf''\<rparr>"

definition example_world :: "unit world" where
  "example_world = \<lparr>w_now = (\<lambda>w. (0, w)), w_sleep_until = (\<lambda>_ w. w), w_send = (\<lambda>_ r w. (Ok (example_reply r), w)),
     w_send_within = (\<lambda>_ r w. (Some (Ok (example_reply r)), w)), w_retain = (\<lambda>_ _ w. (Retained 7, w))\<rparr>"

definition example_evidence :: acquisition_evidence where
  "example_evidence = evidence_of example_plan example_binding ''t'' ''x''
     \<lparr>downloaded = ''3mf'', transport_media = ''model/3mf''\<rparr> example_hex"

definition example_payload :: payload_binding where
  "example_payload = \<lparr>ob_position = 0, ob_plan_local_object_identity = example_identity,
     ob_configured_leaf = example_leaf,
     ob_retained_payload = \<lparr>rp_storage_reference = 7, rp_byte_length = 3, rp_sha256 = example_hex\<rparr>,
     ob_acquisition_evidence = example_evidence\<rparr>"

definition example_geometry :: acquired_geometry where
  "example_geometry = \<lparr>ag_plan = example_plan, ag_provenance_identity = example_hex, ag_bindings = [example_payload],
     ag_retention_proof = [(7, example_hex)]\<rparr>"

definition example_sent :: request_log where
  "example_sent = [(900000, version_request ''d'' ''v''), (600000, create_request example_plan example_binding),
     (600000, poll_translation_request ''t''), (660000, download_request ''d'' ''x'')]"

lemma example_times:
  "ensure_time (logged example_world) (900000 + t) (u, l) = Some (Ok (), u, l)"
  "ensure_time (logged example_world) 600000 (u, l) = Some (Ok (), u, l)"
  "ensure_time (logged example_world) 660000 (u, l) = Some (Ok (), u, l)"
  "ensure_time (logged example_world) 900000 (u, l) = Some (Ok (), u, l)"
  "read_clock (logged example_world) (u, l) = Some (Ok 0, u, l)"
  "sleeping_until (logged example_world) t (u, l) = Some (Ok (), u, l)"
  by (simp_all add: ensure_time_def read_clock_def sleeping_until_def chain_def logged_def example_world_def give_def)

lemma example_asked:
  "version_within example_provenance_library (logged example_world) d ''d'' ''v'' (u, l) =
    Some (Ok ''m'', u, l @ [(d, version_request ''d'' ''v'')])"
  "send_for_json example_provenance_library (logged example_world) d (create_request example_plan example_binding) (u, l) =
    Some (Ok example_active, u, l @ [(d, create_request example_plan example_binding)])"
  "send_for_json example_provenance_library (logged example_world) d (poll_translation_request ident) (u, l) =
    Some (Ok example_done, u, l @ [(d, poll_translation_request ident)])"
  "downloading (logged example_world) d document ident (u, l) =
    Some (Ok \<lparr>downloaded = ''3mf'', transport_media = ''model/3mf''\<rparr>, u, l @ [(d, download_request document ident)])"
proof -
  have v: "version_of_answer ''d'' ''v'' example_version_answer = Ok ''m''" by code_simp
  have r: "ar_operation (create_request p b) = ''createPartStudioTranslation''"
      "ar_limit (create_request p b) = SMALL_RESPONSE_LIMIT" for p b
    by (simp_all add: create_request_def create_translation_request_def)
  have q: "ar_operation (poll_translation_request i) = ''getTranslation''"
      "ar_limit (poll_translation_request i) = SMALL_RESPONSE_LIMIT"
      "ar_operation (download_request d' i) = ''downloadExternalData''"
      "ar_operation (version_request d' i) = ''getVersion''" "ar_limit (version_request d' i) = SMALL_RESPONSE_LIMIT"
    for i d' by (simp_all add: poll_translation_request_def download_request_def version_request_def)
  show "version_within example_provenance_library (logged example_world) d ''d'' ''v'' (u, l) =
      Some (Ok ''m'', u, l @ [(d, version_request ''d'' ''v'')])"
    by (simp add: version_within_def logged_def example_world_def example_reply_def q example_libraries example_texts
        and_then_def map_err_def v)
  show "send_for_json example_provenance_library (logged example_world) d (create_request example_plan example_binding) (u, l) =
      Some (Ok example_active, u, l @ [(d, create_request example_plan example_binding)])"
    by (simp add: send_for_json_def logged_def example_world_def example_reply_def r example_libraries example_texts
        and_then_def map_err_def)
  show "send_for_json example_provenance_library (logged example_world) d (poll_translation_request ident) (u, l) =
      Some (Ok example_done, u, l @ [(d, poll_translation_request ident)])"
    by (simp add: send_for_json_def logged_def example_world_def example_reply_def q example_libraries example_texts
        and_then_def map_err_def)
  show "downloading (logged example_world) d document ident (u, l) =
      Some (Ok \<lparr>downloaded = ''3mf'', transport_media = ''model/3mf''\<rparr>, u, l @ [(d, download_request document ident)])"
    by (simp add: downloading_def logged_def example_world_def example_reply_def q)
qed

lemma example_translations:
  "translation example_active example_plan example_leaf None = Ok (''t'', ''ACTIVE'')"
  "translation example_done example_plan example_leaf (Some ''t'') = Ok (''t'', ''DONE'')"
  "terminal_external_data example_done = Ok ''x''"
proof -
  have p: "rt_document_id (pl_root example_plan) = ''d''" "rt_version_id (pl_root example_plan) = ''v''"
    by (simp_all add: example_plan_def plan_root_def example_selection_request_def)
  have a: "required_ascii [(''id'', JStr ''t''), (''requestState'', JStr ''ACTIVE'')] ''id'' = Ok ''t''"
      "required_ascii [(''id'', JStr ''t''), (''requestState'', JStr ''ACTIVE'')] ''requestState'' = Ok ''ACTIVE''"
    by code_simp+
  show "translation example_active example_plan example_leaf None = Ok (''t'', ''ACTIVE'')"
    by (simp add: translation_def example_active_def ok_or_def and_then_def a ensure_def each_from.simps member_def)
  let ?m = "[(''documentId'', JStr ''d''), (''id'', JStr ''t''), (''requestState'', JStr ''DONE''),
     (''resultExternalDataIds'', JArr [JStr ''x''])]"
  have d: "required_ascii ?m ''id'' = Ok ''t''" "required_ascii ?m ''requestState'' = Ok ''DONE''"
      "required_ascii ?m ''documentId'' = Ok ''d''"
    by code_simp+
  show "translation example_done example_plan example_leaf (Some ''t'') = Ok (''t'', ''DONE'')"
    by (simp add: translation_def example_done_def ok_or_def and_then_def d ensure_def each_from.simps member_def p)
  show "terminal_external_data example_done = Ok ''x''" by code_simp
qed

lemma example_polled:
  "poll_loop (poll_once example_provenance_library (logged example_world) default_timing example_plan example_leaf ''t'' 600000)
    32 0 ''ACTIVE'' example_active (u, l) = Some (Ok example_done, u, l @ [(600000, poll_translation_request ''t'')])"
  by (subst poll_loop.simps, subst poll_loop.simps)
    (simp add: poll_once_def chain_def example_times example_asked example_translations give_def)

lemma example_leaf_acquired:
  "acquire_leaf example_provenance_library (logged example_world) default_timing example_plan example_binding 900000 (u, l) =
    Some (Ok (ob_retained_payload example_payload, example_evidence), u, l @ tl example_sent)"
proof -
  have t: "tm_translation default_timing = 600000" "tm_leaf default_timing = 660000" "tm_max_polls default_timing = 32"
    by (simp_all add: default_timing_def)
  have b: "pb_configured_leaf example_binding = example_leaf" "rt_document_id (pl_root example_plan) = ''d''"
    by (simp_all add: example_binding_def example_plan_def plan_root_def example_selection_request_def)
  have k: "retaining (logged example_world) d bytes (u, l) = Some (Ok 7, u, l)" for d bytes u l
    by (simp add: retaining_def retention_result_def logged_def example_world_def)
  show ?thesis
    by (simp add: acquire_leaf_def Let_def chain_def example_times t example_asked b give_def example_translations
        example_polled retain_result_def k example_libraries example_hex_identity example_payload_def example_evidence_def
        example_sent_def)
qed

lemma example_evidence_agrees: "evidence_agrees example_provenance example_payload example_binding"
proof -
  have "pv_request_contract example_provenance = CONTRACT" by (simp add: example_provenance_def planned_record_def)
  moreover have "bounded_visible_ascii ''t''" "bounded_visible_ascii ''x''" by code_simp+
  moreover have "ob_position example_payload = pb_position example_binding"
      "ob_plan_local_object_identity example_payload = pb_plan_local_object_identity example_binding"
      "ob_configured_leaf example_payload = pb_configured_leaf example_binding"
    by (simp_all add: example_payload_def example_binding_def)
  ultimately show ?thesis
    by (simp add: evidence_agrees_def Let_def example_evidence_identities example_hex_shape)
      (simp add: example_payload_def example_evidence_def evidence_of_def example_hex_shape)
qed

lemma example_record_acquired:
  "acquire_record example_provenance_library (logged example_world) default_timing example_provenance ((), []) =
    Some (Ok example_geometry, (), example_sent)"
proof -
  have p: "rt_document_id (pl_root example_plan) = ''d''" "rt_version_id (pl_root example_plan) = ''v''"
      "rt_document_microversion (pl_root example_plan) = ''m''" "pl_objects example_plan = [example_object]"
    by (simp_all add: example_plan_def plan_root_def example_selection_request_def)
  have t: "tm_plan default_timing = 900000" by (simp add: default_timing_def)
  have s: "snapshot_matches example_plan ''m''"
    by (simp add: snapshot_matches_def p example_object_def example_leaf_def plan_leaf_def)
  have e: "ae_configuration_request_value example_evidence = pb_configuration_request_value example_binding"
      "ae_representation example_evidence = pb_representation example_binding"
    by (simp_all add: example_evidence_def evidence_of_def)
  have v: "validate_acquired example_provenance [example_payload] = Ok ()"
    by (simp add: validate_acquired_def example_bindings each_from.simps ensure_def example_evidence_agrees)
  have r: "retention_proof example_provenance_library [example_payload] = Ok [(7, example_hex)]"
    by (simp add: retention_proof_def acquisition_evidence_identity_def example_libraries example_hash and_then_def
        map_err_def example_hex_identity) (simp add: example_payload_def)
  have b: "acquire_binding example_provenance_library (logged example_world) default_timing example_plan 900000
      (Map.empty, []) example_binding (u, l) =
    Some (Ok ([example_leaf \<mapsto> (ob_retained_payload example_payload, example_evidence)], [example_payload]), u, l @ tl example_sent)" for u l
  proof -
    have "pb_configured_leaf example_binding = example_leaf" by (simp add: example_binding_def)
    then show ?thesis
      by (simp add: acquire_binding_def chain_def example_times give_def failing_with_def example_leaf_acquired map_err_def
          ok_or_def e) (simp add: example_payload_def example_binding_def)
  qed
  show ?thesis
    by (simp add: acquire_record_def Let_def chain_def example_times t p example_evidence_identities example_asked give_def ensure_def s
        example_bindings b v r) (simp add: example_geometry_def example_sent_def)
qed

lemma example_acquired:
  "acquire_geometry example_provenance_library PRODUCTION_ORIGIN (logged example_world) example_provenance
    example_acquisition_rows ((), []) = Some (Ok example_geometry, (), example_sent)"
  by (simp add: acquire_geometry_def acquire_with_timing_def chain_def give_def example_evidence_identities example_association
      and_then_def example_record_texts example_record_acquired)

section \<open>Witnesses\<close>

theorem leaves_exported_once_witness:
  "acquisition_requests 32 example_provenance example_geometry (map snd example_sent)"
  using leaves_exported_once [OF example_acquired] by (simp add: example_evidence_identities example_association)

theorem acquired_handoff_accepted_witness:
  "validate_acquisition_handoff example_provenance_library example_provenance example_geometry = Ok ()"
proof -
  have "provenance_kept example_acquisition_rows example_acquisition_rows" by (simp add: provenance_kept_def)
  from acquired_handoff_accepted [OF example_association this example_acquired] show ?thesis by simp
qed

lemma example_lookup_written:
  "provenance_lookup_json show_f64 (lookup_of example_provenance) = example_lookup_document"
  by (simp add: provenance_lookup_json_def lookup_of_def example_evidence_identities) code_simp

lemma example_reads_lookup: "reads_lookup example_provenance_library (lookup_of example_provenance) ''xy''"
proof -
  have "typed_values_json example_typed \<noteq> example_lookup_document" "example_request \<noteq> example_lookup_document"
      "encoding_context_json example_encoding_context \<noteq> example_lookup_document" "example_answer \<noteq> example_lookup_document"
    unfolding example_typed_document example_request_document example_context_document example_answer_def
      example_lookup_document_def by simp_all
  then have "el_jcs example_encoding_library example_lookup_document = Ok ''xy''"
    by (simp add: example_encoding_library_def example_documents_def)
  then show ?thesis
    by (simp add: reads_lookup_def example_lookup_written read_record_text_def example_libraries example_texts)
qed

lemma example_prepared:
  "prepare_record example_provenance_library example_planning_remote example_selection_request example_rows =
    Ok (example_provenance, ''xy'')"
proof -
  have "configuration_encoding example_rows (eh_source_hash example_handoff) (eh_config_hash example_handoff)
      (eh_encoding_context_hash example_handoff) = Some example_record"
    by (simp add: configuration_encoding_def example_rows_def find_row_def encoding_key_def example_record_def
        example_handoff_def handoff_of_def)
  moreover have "rec_encoding_context_json example_record = ''c''" by (simp add: example_record_def)
  moreover have "el_context example_encoding_library v = Some example_encoding_context" for v
    by (simp add: example_encoding_library_def)
  ultimately have "original_context example_provenance_library example_rows example_handoff = Ok example_encoding_context"
    by (simp add: original_context_def and_then_def ok_or_def example_libraries example_texts)
  moreover have "sr_configuration_encoding example_selection_request = example_handoff"
    by (simp add: example_selection_request_def)
  moreover have "answers_invocation example_selection_request example_plan"
    by (simp add: answers_invocation_def example_plan_def plan_root_def example_selection_request_def example_object_def)
  moreover have "pr_origin example_planning_remote = PRODUCTION_ORIGIN" by (simp add: example_planning_remote_def)
  moreover have "valid_utf8 ''xy''" by code_simp
  ultimately show ?thesis
    by (simp add: prepare_record_def example_preflight and_then_def example_libraries example_planned Let_def
        example_record_texts del: valid_utf8.simps)
      (simp add: example_provenance_valid flip: example_provenance_def)
qed

lemma example_plan_recorded:
  "plan_for_acquisition example_provenance_library example_remote example_planning_remote id id example_onshape_source
    example_typed [Occurrence [''i'']] \<lparr>tq_encodings = no_rows, tq_store = example_empty_store\<rparr> = (Ok example_provenance, example_acquisition_rows)"
proof -
  let ?r = "\<lparr>sr_document_id = ''d'', sr_version_id = ''v'', sr_element_id = ''e'', sr_element_kind = AssemblyElement,
     sr_configuration_encoding = preflight_handoff, sr_selectors = [Occurrence [''i'']]\<rparr>"
  have "preflight ?r = Ok ()" unfolding preflight_Ok by code_simp
  moreover have "resolve_encoding example_encoding_library example_remote id example_onshape_source example_typed no_rows =
      (Ok example_handoff, example_rows)"
    by (simp add: resolve_encoding_def example_resolve_inner and_then_def example_resolution_def)
  moreover have "?r\<lparr>sr_configuration_encoding := example_handoff\<rparr> = example_selection_request"
    by (simp add: example_selection_request_def)
  moreover have "record_acquisition_provenance example_hex example_hex ''xy'' example_empty_store
      = (Ok (), tq_store example_acquisition_rows)"
    by (simp add: record_acquisition_provenance_def transaction_def find_provenance_def find_row_def and_then_def ok_or_def
        example_acquisition_rows_def example_empty_store_def)
  moreover have "\<lparr>tq_encodings = example_rows, tq_store = tq_store example_acquisition_rows\<rparr> = example_acquisition_rows"
    by (simp add: example_acquisition_rows_def)
  moreover have "pr_origin example_planning_remote = PRODUCTION_ORIGIN" by (simp add: example_planning_remote_def)
  moreover have "src_document_id example_onshape_source = ''d''" "src_version_id example_onshape_source = ''v''"
      "src_element_id example_onshape_source = ''e''" "src_element_kind example_onshape_source = Assembly"
      "src_link_document_id example_onshape_source = None"
    by (simp_all add: example_onshape_source_def)
  ultimately show ?thesis
    by (simp add: plan_for_acquisition_def and_then_def map_err_def example_libraries Let_def
        selection_kind_def record_planning_invocation_def example_prepared example_evidence_identities example_association)
qed

theorem recorded_plan_found_witness:
  "lookup_acquisition_plan example_provenance_library PRODUCTION_ORIGIN ''xy'' example_acquisition_rows = Ok example_provenance"
proof -
  have "provenance_kept example_acquisition_rows example_acquisition_rows" by (simp add: provenance_kept_def)
  from recorded_plan_found [OF example_plan_recorded this example_record_texts(3) example_reads_lookup] show ?thesis
    by (simp add: example_planning_remote_def)
qed

lemma example_looked_up:
  "lookup_acquisition_plan example_provenance_library PRODUCTION_ORIGIN ''xy'' example_acquisition_rows = Ok example_provenance"
proof -
  have l: "lookup_of example_provenance = \<lparr>lk_provenance_schema_version = 1, lk_plan_identity = example_hex,
      lk_provenance_identity = example_hex, lk_plan = None, lk_record = None\<rparr>"
    by (simp add: lookup_of_def example_evidence_identities)
  have "field ''plan'' example_lookup_document = None" "field ''record'' example_lookup_document = None"
    by (simp_all add: example_lookup_document_def field_def member_def)
  then have "decode_lookup example_provenance_library ''xy'' = Ok (lookup_of example_provenance)"
    using example_reads_lookup example_lookup_written
    by (simp add: decode_lookup_def reads_lookup_def and_then_def map_err_def ok_or_def l example_hex_shape lookup_text_def
        example_bounded)
  then show ?thesis
    by (simp add: lookup_acquisition_plan_def and_then_def l example_association if_some_def supplied_differs_def)
qed

end
