(* ===== verification/Catalog_Documents.thy ===== *)
theory Catalog_Documents
  imports Selection_Retained
begin

text \<open>
  The catalog (\<open>src/src/catalog.rs\<close>): its documents, the validation of all models together, and loading
  with references to model files. Reading a file, its directory and the derived deserializers are
  parameters; a \<open>HashMap\<close> is the list of its entries in the order in which it is walked.
\<close>

section \<open>Documents\<close>

definition CATALOG_SCHEMA_VERSION :: "32 word" where "CATALOG_SCHEMA_VERSION = 1"
definition CATALOG_ENTRY_VERSION :: "32 word" where "CATALOG_ENTRY_VERSION = 1"

record parameter_preset =
  ps_slug :: string
  ps_name :: string
  ps_values :: "(string \<times> string) list"

datatype preview_resolution = PreviewCoarse | PreviewMedium | PreviewFine
datatype mesh_resolution = MeshCoarse | MeshMedium | MeshFine
datatype stl_mode = StlBinary | StlText
datatype step_version_string = Ap242
datatype download_format = Step | Stl | ThreeMf
datatype preview_format = Glb
datatype parameter_source = OnshapeParameters

fun preview_resolution_str :: "preview_resolution \<Rightarrow> string" where
  "preview_resolution_str PreviewCoarse = ''COARSE''"
| "preview_resolution_str PreviewMedium = ''MEDIUM''"
| "preview_resolution_str PreviewFine = ''FINE''"

fun mesh_resolution_str :: "mesh_resolution \<Rightarrow> string" where
  "mesh_resolution_str MeshCoarse = ''coarse''"
| "mesh_resolution_str MeshMedium = ''medium''"
| "mesh_resolution_str MeshFine = ''fine''"

fun stl_mode_str :: "stl_mode \<Rightarrow> string" where
  "stl_mode_str StlBinary = ''BINARY''"
| "stl_mode_str StlText = ''TEXT''"

fun step_version_str :: "step_version_string \<Rightarrow> string" where
  "step_version_str Ap242 = ''AP242''"

definition from_slug :: "string \<Rightarrow> download_format option" where
  "from_slug s =
    (if s = ''step'' then Some Step else if s = ''stl'' then Some Stl else if s = ''3mf'' then Some ThreeMf else None)"

fun format_slug :: "download_format \<Rightarrow> string" where
  "format_slug Step = ''step''" | "format_slug Stl = ''stl''" | "format_slug ThreeMf = ''3mf''"

fun format_label :: "download_format \<Rightarrow> string" where
  "format_label Step = ''STEP''" | "format_label Stl = ''STL''" | "format_label ThreeMf = ''3MF''"

fun format_extension :: "download_format \<Rightarrow> string" where
  "format_extension Step = ''step''" | "format_extension Stl = ''stl''" | "format_extension ThreeMf = ''3mf''"

fun format_content_type :: "download_format \<Rightarrow> string" where
  "format_content_type Step = ''model/step''"
| "format_content_type Stl = ''model/stl''"
| "format_content_type ThreeMf = ''model/3mf''"

record stl_download_options =
  so_resolution :: mesh_resolution
  so_stl_mode :: stl_mode

record three_mf_download_options =
  to_resolution :: mesh_resolution

record download_options =
  do_step_version_string :: step_version_string
  do_stl :: stl_download_options
  do_three_mf :: three_mf_download_options

record preview_options =
  po_resolution :: preview_resolution

record bambu_project_config =
  bp_selectors :: "selection_selector list"

record export_config =
  xc_downloads :: "download_format list"
  xc_preview :: preview_format
  xc_preview_options :: preview_options
  xc_download_options :: download_options
  xc_bambu_project :: "bambu_project_config option"

record parameter_policy =
  pp_source :: parameter_source
  pp_allow_unknown :: bool
  pp_auto_refresh :: bool

record model =
  md_catalog_schema_version :: "32 word"
  md_entry_version :: "32 word"
  md_slug :: string
  md_name :: string
  md_description :: string
  md_published :: bool
  md_tags :: "string list"
  md_thumbnail :: "string option"
  md_onshape :: onshape_source
  md_exports :: export_config
  md_parameter_policy :: parameter_policy
  md_parameter_presets :: "parameter_preset list"
  md_parameter_overrides :: "(string \<times> parameter_override) list"

record catalog =
  ca_catalog_schema_version :: "32 word"
  ca_models :: "model list"

record index_model =
  ix_slug :: string
  ix_name :: "string option"
  ix_description :: "string option"
  ix_model_path :: "string option"

datatype model_reference = Inline model | Reference index_model

record catalog_file =
  cf_catalog_schema_version :: "32 word"
  cf_models :: "model_reference list"

definition u32_str :: "32 word \<Rightarrow> string" where
  "u32_str v = nat_str (unat v)"

section \<open>Validation\<close>

definition is_path_slug :: "string \<Rightarrow> bool" where
  "is_path_slug s \<longleftrightarrow> s \<noteq> [] \<and> list_all (\<lambda>c. is_lower c \<or> is_digit c \<or> c = CHR ''-'') s
    \<and> \<not> starts_with ''-'' s \<and> \<not> ends_with ''-'' s \<and> \<not> contains ''--'' s"

definition ensure_unique :: "'a list \<Rightarrow> string \<Rightarrow> (string, unit) result" where
  "ensure_unique xs message =
    and_then (try_fold (\<lambda>seen x. if x \<in> seen then Err message else Ok (insert x seen)) {} xs) (\<lambda>_. Ok ())"

definition catalog_handoff :: encoding_handoff where
  "catalog_handoff = \<lparr>eh_source_hash = replicate 64 (CHR ''0''), eh_config_hash = replicate 64 (CHR ''0''),
     eh_encoding_context_hash = replicate 64 (CHR ''0''), eh_encoded_id = ''catalog_preflight''\<rparr>"

definition bambu_request :: "model \<Rightarrow> selection_selector list \<Rightarrow> selection_request" where
  "bambu_request m selectors =
    (let s = md_onshape m in
     \<lparr>sr_document_id = src_document_id s, sr_version_id = src_version_id s, sr_element_id = src_element_id s,
      sr_element_kind = (case src_element_kind s of PartStudio \<Rightarrow> PartStudioElement | Assembly \<Rightarrow> AssemblyElement),
      sr_configuration_encoding = catalog_handoff, sr_selectors = selectors\<rparr>)"

definition validate_preset :: "string \<Rightarrow> string set \<Rightarrow> parameter_preset \<Rightarrow> (string, string set) result" where
  "validate_preset slug seen p =
    and_then (checks [
      ensure (ps_slug p \<noteq> []) (''parameter preset slug cannot be empty for '' @ slug),
      ensure (is_path_slug (ps_slug p)) (''parameter preset slug must use lowercase letters, numbers, and hyphens for ''
        @ slug @ '': '' @ ps_slug p),
      ensure (ps_slug p \<noteq> ''default'') (''parameter preset slug cannot be 'default' for '' @ slug),
      ensure (\<not> starts_with ''--'' (ps_slug p)) (''parameter preset slug cannot start with '--' for '' @ slug),
      ensure (ps_slug p \<notin> seen) (''duplicate parameter preset slug for '' @ slug @ '': '' @ ps_slug p),
      ensure (ps_name p \<noteq> []) (''parameter preset name cannot be empty for '' @ slug @ '':'' @ ps_slug p)])
      (\<lambda>_. Ok (insert (ps_slug p) seen))"

definition OVERRIDE_WIDGETS :: "string list" where
  "OVERRIDE_WIDGETS = [''number'', ''range'', ''text'', ''textarea'']"

definition validate_override :: "string \<Rightarrow> string \<times> parameter_override \<Rightarrow> (string, unit) result" where
  "validate_override slug = (\<lambda>(parameter_id, ov). checks [
     ensure (parameter_id \<noteq> []) (''parameter override id cannot be empty for '' @ slug),
     if_some (ov_label ov) (\<lambda>label. ensure (label \<noteq> [])
       (''parameter override label cannot be empty for '' @ slug @ '':'' @ parameter_id)),
     if_some (ov_precision ov) (\<lambda>precision. ensure (precision \<le> 12)
       (''parameter override precision cannot exceed 12 for '' @ slug @ '':'' @ parameter_id)),
     if_some (ov_widget ov) (\<lambda>widget. ensure (widget \<in> set OVERRIDE_WIDGETS)
       (''unsupported parameter override widget for '' @ slug @ '':'' @ parameter_id @ '': '' @ widget))])"

text \<open>The checks of one model, up to its slug, its source and what follows.\<close>

definition model_head :: "string set \<Rightarrow> model \<Rightarrow> (string, unit) result" where
  "model_head slugs m = (let slug = md_slug m in checks [
     ensure (md_catalog_schema_version m = CATALOG_SCHEMA_VERSION)
       (''unsupported catalog model schema version for '' @ slug @ '': '' @ u32_str (md_catalog_schema_version m)),
     ensure (md_entry_version m > 0) (''catalog model entry version must be greater than zero for '' @ slug),
     ensure (slug \<noteq> []) ''catalog model slug cannot be empty'',
     ensure (is_path_slug slug) (''catalog model slug must use lowercase letters, numbers, and hyphens: '' @ slug),
     ensure (slug \<notin> slugs) (''duplicate catalog model slug: '' @ slug),
     ensure (md_name m \<noteq> []) (''catalog model name cannot be empty for '' @ slug),
     ensure (md_description m \<noteq> []) (''catalog model description cannot be empty for '' @ slug),
     each (\<lambda>_ tag. ensure (is_path_slug tag)
       (''catalog model tags must use lowercase letters, numbers, and hyphens for '' @ slug @ '': '' @ tag)) (md_tags m),
     if_some (md_thumbnail m) (\<lambda>t. ensure (trim t \<noteq> []) (''catalog model thumbnail cannot be empty for '' @ slug)),
     ensure (src_document_id (md_onshape m) \<noteq> []) (''document id cannot be empty for '' @ slug),
     ensure (src_version_id (md_onshape m) \<noteq> []) (''version id cannot be empty for '' @ slug),
     ensure (src_element_id (md_onshape m) \<noteq> []) (''element id cannot be empty for '' @ slug),
     if_some (src_link_document_id (md_onshape m)) (\<lambda>l. ensure (l \<noteq> [])
       (''link document id cannot be empty for '' @ slug))])"

definition model_source :: "(string \<rightharpoonup> string) \<Rightarrow> model \<Rightarrow> (string, unit) result" where
  "model_source sources m = (case sources (identity_key (md_onshape m)) of
     None \<Rightarrow> Ok ()
   | Some existing \<Rightarrow> Err (''duplicate catalog source identity for '' @ existing @ '' and '' @ md_slug m @ '': ''
       @ identity_key (md_onshape m)))"

definition model_rest :: "model \<Rightarrow> (string, unit) result" where
  "model_rest m = (let slug = md_slug m; x = md_exports m in checks [
     ensure (xc_downloads x \<noteq> []) (''at least one download format is required for '' @ slug),
     ensure_unique (xc_downloads x) (''duplicate download format for '' @ slug),
     if_some (xc_bambu_project x) (\<lambda>project.
       map_err (\<lambda>_. ''invalid Bambu project selection for '' @ slug) (preflight (bambu_request m (bp_selectors project)))),
     and_then (try_fold (validate_preset slug) {} (md_parameter_presets m)) (\<lambda>_. Ok ()),
     each (\<lambda>_. validate_override slug) (md_parameter_overrides m)])"

definition validate_model ::
  "string set \<times> (string \<rightharpoonup> string) \<Rightarrow> model \<Rightarrow> (string, string set \<times> (string \<rightharpoonup> string)) result" where
  "validate_model = (\<lambda>(slugs, sources) m.
    and_then (checks [model_head slugs m, model_source sources m, model_rest m]) (\<lambda>_.
      Ok (insert (md_slug m) slugs, sources(identity_key (md_onshape m) \<mapsto> md_slug m))))"

definition validate_catalog :: "catalog \<Rightarrow> (string, unit) result" where
  "validate_catalog c =
    and_then (ensure (ca_catalog_schema_version c = CATALOG_SCHEMA_VERSION)
      (''unsupported catalog schema version: '' @ u32_str (ca_catalog_schema_version c))) (\<lambda>_.
    and_then (try_fold validate_model ({}, Map.empty) (ca_models c)) (\<lambda>_. Ok ()))"

section \<open>Loading\<close>

text \<open>What \<open>load\<close> uses of the file system and of the deserializers.\<close>

record catalog_library =
  cl_read :: "string \<Rightarrow> (string, string) result"
  cl_join :: "string \<Rightarrow> string \<Rightarrow> string"
  cl_parent :: "string \<Rightarrow> string option"
  cl_file :: "string \<Rightarrow> (string, catalog_file) result"
  cl_model :: "string \<Rightarrow> (string, model) result"

definition from_models :: "model list \<Rightarrow> (string, catalog) result" where
  "from_models models =
    (let c = \<lparr>ca_catalog_schema_version = CATALOG_SCHEMA_VERSION, ca_models = models\<rparr>
     in and_then (validate_catalog c) (\<lambda>_. Ok c))"

definition load_index_model :: "catalog_library \<Rightarrow> string \<Rightarrow> index_model \<Rightarrow> (string, model) result" where
  "load_index_model lib base ix =
    (let model_path = (case ix_model_path ix of Some p \<Rightarrow> p | None \<Rightarrow> ''models/'' @ ix_slug ix @ ''.json'');
         path = cl_join lib base model_path
     in and_then (ensure (is_path_slug (ix_slug ix))
          (''catalog index model slug must use lowercase letters, numbers, and hyphens: '' @ ix_slug ix)) (\<lambda>_.
        and_then (map_err (\<lambda>_. ''loading catalog model '' @ path) (cl_read lib path)) (\<lambda>contents.
        and_then (map_err (\<lambda>_. ''parsing catalog model '' @ path) (cl_model lib contents)) (\<lambda>m.
        and_then (checks [
          ensure (md_slug m = ix_slug ix)
            (''catalog index slug '' @ ix_slug ix @ '' does not match model file slug '' @ md_slug m),
          if_some (ix_name ix) (\<lambda>name. ensure (md_name m = name)
            (''catalog index name does not match model file for '' @ md_slug m)),
          if_some (ix_description ix) (\<lambda>description. ensure (md_description m = description)
            (''catalog index description does not match model file for '' @ md_slug m))]) (\<lambda>_.
          Ok m)))))"

fun load_model :: "catalog_library \<Rightarrow> string \<Rightarrow> model_reference \<Rightarrow> (string, model) result" where
  "load_model lib base (Inline m) = Ok m"
| "load_model lib base (Reference ix) = load_index_model lib base ix"

definition load_catalog :: "catalog_library \<Rightarrow> string \<Rightarrow> (string, catalog) result" where
  "load_catalog lib path =
    and_then (cl_read lib path) (\<lambda>contents.
    and_then (cl_file lib contents) (\<lambda>f.
    and_then (ensure (cf_catalog_schema_version f = CATALOG_SCHEMA_VERSION)
      (''unsupported catalog schema version: '' @ u32_str (cf_catalog_schema_version f))) (\<lambda>_.
    and_then (collect_results (load_model lib (case cl_parent lib path of Some p \<Rightarrow> p | None \<Rightarrow> [])) (cf_models f))
      from_models)))"

definition find_model :: "catalog \<Rightarrow> string \<Rightarrow> model option" where
  "find_model c slug = find (\<lambda>m. md_slug m = slug) (ca_models c)"

section \<open>Slugs\<close>

lemma ends_with_one: "ends_with [d] s \<longleftrightarrow> s \<noteq> [] \<and> last s = d"
  by (cases s rule: rev_cases) (auto simp: ends_with_def starts_with_def)

lemma starts_with_one: "starts_with [d] s \<longleftrightarrow> s \<noteq> [] \<and> hd s = d"
  by (cases s) (auto simp: starts_with_def)

lemma first_word_empty: "hd (split_on d s) = [] \<longleftrightarrow> s = [] \<or> starts_with [d] s"
  by (cases s) (auto simp: starts_with_one split: list.splits)

lemma empty_word: "[] \<in> set (tl (split_on d s)) \<longleftrightarrow> ends_with [d] s \<or> contains [d, d] s"
proof (induction s)
  case Nil
  then show ?case by (simp add: ends_with_one)
next
  case (Cons c s)
  show ?case
  proof (cases "c = d")
    case True
    obtain w ws where "split_on d s = w # ws" by (cases "split_on d s") auto
    then have "[] \<in> set (split_on d s) \<longleftrightarrow> hd (split_on d s) = [] \<or> [] \<in> set (tl (split_on d s))"
      by auto
    then have "[] \<in> set (tl (split_on d (c # s))) \<longleftrightarrow> s = [] \<or> starts_with [d] s \<or> ends_with [d] s \<or> contains [d, d] s"
      using True Cons by (auto simp: first_word_empty)
    then show ?thesis using True by (cases s) (auto simp: ends_with_one starts_with_def)
  next
    case False
    then have "tl (split_on d (c # s)) = tl (split_on d s)" by (simp split: list.splits)
    then show ?thesis using Cons False by (cases s) (auto simp: ends_with_one starts_with_def)
  qed
qed

text \<open>A slug is words of lowercase letters and digits between single hyphens.\<close>

lemma is_path_slug_words:
  "is_path_slug s \<longleftrightarrow> list_all (\<lambda>w. w \<noteq> [] \<and> list_all (\<lambda>c. is_lower c \<or> is_digit c) w) (split_on CHR ''-'' s)"
proof -
  obtain w ws where "split_on CHR ''-'' s = w # ws" by (cases "split_on CHR ''-'' s") auto
  then have "[] \<notin> set (split_on CHR ''-'' s) \<longleftrightarrow> hd (split_on CHR ''-'' s) \<noteq> [] \<and> [] \<notin> set (tl (split_on CHR ''-'' s))"
    by auto
  then have empty: "[] \<notin> set (split_on CHR ''-'' s) \<longleftrightarrow>
      s \<noteq> [] \<and> \<not> starts_with ''-'' s \<and> \<not> ends_with ''-'' s \<and> \<not> contains ''--'' s"
    by (simp add: first_word_empty empty_word)
  have bytes: "list_all (\<lambda>c. is_lower c \<or> is_digit c \<or> c = CHR ''-'') s \<longleftrightarrow>
      list_all (list_all (\<lambda>c. is_lower c \<or> is_digit c)) (split_on CHR ''-'' s)"
    by (induction s) (auto split: list.splits)
  show ?thesis
    unfolding is_path_slug_def bytes using empty by (auto simp: list_all_iff)
qed

section \<open>Valid catalogs\<close>

lemma ensure_unique_Ok: "ensure_unique xs message = Ok u \<longleftrightarrow> distinct xs"
  unfolding ensure_unique_def and_then_Ok
  by (subst try_fold_seen [where k = id and P = "\<lambda>_. True"]) auto

lemma presets_Ok:
  "try_fold (validate_preset slug) {} ps = Ok s \<longleftrightarrow>
    (\<forall>p \<in> set ps. is_path_slug (ps_slug p) \<and> ps_slug p \<noteq> ''default'' \<and> ps_name p \<noteq> [])
    \<and> distinct (map ps_slug ps) \<and> s = ps_slug ` set ps"
proof -
  have "\<not> starts_with ''--'' w" if "is_path_slug w" for w
    using that by (auto simp: is_path_slug_def contains_iff starts_with_iff)
  then show ?thesis
    by (subst try_fold_seen [where k = ps_slug
          and P = "\<lambda>p. is_path_slug (ps_slug p) \<and> ps_slug p \<noteq> ''default'' \<and> ps_name p \<noteq> []"])
      (auto simp: validate_preset_def result_simps is_path_slug_def)
qed

text \<open>What a model must be by itself.\<close>

definition override_ok :: "string \<times> parameter_override \<Rightarrow> bool" where
  "override_ok = (\<lambda>(parameter_id, ov). parameter_id \<noteq> [] \<and> ov_label ov \<noteq> Some []
     \<and> (case ov_precision ov of None \<Rightarrow> True | Some precision \<Rightarrow> precision \<le> 12)
     \<and> (case ov_widget ov of None \<Rightarrow> True | Some widget \<Rightarrow> widget \<in> set OVERRIDE_WIDGETS))"

definition model_ok :: "model \<Rightarrow> bool" where
  "model_ok m \<longleftrightarrow> (let s = md_onshape m; x = md_exports m in
    md_catalog_schema_version m = CATALOG_SCHEMA_VERSION \<and> md_entry_version m > 0 \<and> is_path_slug (md_slug m)
    \<and> md_name m \<noteq> [] \<and> md_description m \<noteq> [] \<and> list_all is_path_slug (md_tags m)
    \<and> (case md_thumbnail m of None \<Rightarrow> True | Some t \<Rightarrow> trim t \<noteq> [])
    \<and> src_document_id s \<noteq> [] \<and> src_version_id s \<noteq> [] \<and> src_element_id s \<noteq> [] \<and> src_link_document_id s \<noteq> Some []
    \<and> xc_downloads x \<noteq> [] \<and> distinct (xc_downloads x)
    \<and> (case xc_bambu_project x of None \<Rightarrow> True
       | Some project \<Rightarrow> preflight (bambu_request m (bp_selectors project)) = Ok ())
    \<and> list_all (\<lambda>p. is_path_slug (ps_slug p) \<and> ps_slug p \<noteq> ''default'' \<and> ps_name p \<noteq> []) (md_parameter_presets m)
    \<and> distinct (map ps_slug (md_parameter_presets m)) \<and> list_all override_ok (md_parameter_overrides m))"

lemma each_ensure: "each_from i (\<lambda>_ x. ensure (P x) (g x)) xs = Ok u \<longleftrightarrow> list_all P xs"
  by (simp add: each_from_Ok ensure_Ok list_all_length)

lemma is_path_slug_nonempty: "is_path_slug s \<Longrightarrow> s \<noteq> []"
  by (simp add: is_path_slug_def)

lemma validate_override_Ok: "validate_override slug x = Ok u \<longleftrightarrow> override_ok x"
  by (auto simp: validate_override_def override_ok_def result_simps split: prod.splits option.splits)

lemma each_override: "each_from i (\<lambda>_. validate_override slug) xs = Ok u \<longleftrightarrow> list_all override_ok xs"
  by (simp add: each_from_Ok list_all_length validate_override_Ok)

lemma validate_model_Ok:
  "validate_model (slugs, sources) m = Ok s \<longleftrightarrow> model_ok m \<and> md_slug m \<notin> slugs
    \<and> sources (identity_key (md_onshape m)) = None
    \<and> s = (insert (md_slug m) slugs, sources(identity_key (md_onshape m) \<mapsto> md_slug m))"
proof -
  have head: "model_head slugs m = Ok () \<and> model_source sources m = Ok () \<and> model_rest m = Ok () \<longleftrightarrow>
      model_ok m \<and> md_slug m \<notin> slugs \<and> sources (identity_key (md_onshape m)) = None"
  proof -
    have "model_source sources m = Ok () \<longleftrightarrow> sources (identity_key (md_onshape m)) = None"
      by (simp add: model_source_def split: option.splits)
    moreover have "model_head slugs m = Ok () \<longleftrightarrow>
        md_catalog_schema_version m = CATALOG_SCHEMA_VERSION \<and> md_entry_version m > 0 \<and> is_path_slug (md_slug m)
        \<and> md_slug m \<notin> slugs \<and> md_name m \<noteq> [] \<and> md_description m \<noteq> [] \<and> list_all is_path_slug (md_tags m)
        \<and> (case md_thumbnail m of None \<Rightarrow> True | Some t \<Rightarrow> trim t \<noteq> [])
        \<and> src_document_id (md_onshape m) \<noteq> [] \<and> src_version_id (md_onshape m) \<noteq> []
        \<and> src_element_id (md_onshape m) \<noteq> [] \<and> src_link_document_id (md_onshape m) \<noteq> Some []"
      by (auto simp: model_head_def Let_def checks_Ok ensure_Ok if_some_Ok each_ensure dest: is_path_slug_nonempty
          split: option.splits)
    moreover have "model_rest m = Ok () \<longleftrightarrow> xc_downloads (md_exports m) \<noteq> [] \<and> distinct (xc_downloads (md_exports m))
        \<and> (case xc_bambu_project (md_exports m) of None \<Rightarrow> True
           | Some project \<Rightarrow> preflight (bambu_request m (bp_selectors project)) = Ok ())
        \<and> list_all (\<lambda>p. is_path_slug (ps_slug p) \<and> ps_slug p \<noteq> ''default'' \<and> ps_name p \<noteq> []) (md_parameter_presets m)
        \<and> distinct (map ps_slug (md_parameter_presets m)) \<and> list_all override_ok (md_parameter_overrides m)"
      unfolding model_rest_def Let_def
      by (auto simp: checks_Ok ensure_Ok if_some_Ok map_err_Ok and_then_Ok ensure_unique_Ok presets_Ok each_override
          list_all_iff split: option.splits)
    ultimately show ?thesis by (auto simp: model_ok_def Let_def)
  qed
  have "validate_model (slugs, sources) m = Ok s \<longleftrightarrow>
      (model_head slugs m = Ok () \<and> model_source sources m = Ok () \<and> model_rest m = Ok ())
      \<and> s = (insert (md_slug m) slugs, sources(identity_key (md_onshape m) \<mapsto> md_slug m))"
    by (auto simp: validate_model_def and_then_Ok checks_Ok)
  then show ?thesis unfolding head by blast
qed

lemma new_names: "(\<forall>x \<in> set xs. f x \<notin> insert a A) \<longleftrightarrow> a \<notin> f ` set xs \<and> (\<forall>x \<in> set xs. f x \<notin> A)"
  by blast

lemma new_keys:
  "(\<forall>x \<in> set xs. (B(a \<mapsto> v)) (g x) = None) \<longleftrightarrow> a \<notin> g ` set xs \<and> (\<forall>x \<in> set xs. B (g x) = None)"
  by (auto simp: fun_upd_def)

lemma validate_models_Ok:
  "(\<exists>s. try_fold validate_model (slugs, sources) ms = Ok s) \<longleftrightarrow>
    list_all model_ok ms \<and> distinct (map md_slug ms) \<and> (\<forall>m \<in> set ms. md_slug m \<notin> slugs)
    \<and> distinct (map (\<lambda>m. identity_key (md_onshape m)) ms)
    \<and> (\<forall>m \<in> set ms. sources (identity_key (md_onshape m)) = None)"
proof (induction ms arbitrary: slugs sources)
  case Nil
  then show ?case by simp
next
  case (Cons m ms)
  let ?next = "(insert (md_slug m) slugs, sources(identity_key (md_onshape m) \<mapsto> md_slug m))"
  have one: "(\<exists>s. try_fold validate_model (slugs, sources) (m # ms) = Ok s) \<longleftrightarrow>
      (model_ok m \<and> md_slug m \<notin> slugs \<and> sources (identity_key (md_onshape m)) = None)
      \<and> (\<exists>s. try_fold validate_model ?next ms = Ok s)"
  proof (cases "validate_model (slugs, sources) m")
    case (Inl e)
    then show ?thesis using validate_model_Ok [of slugs sources m ?next] by auto
  next
    case (Inr t)
    then show ?thesis using validate_model_Ok [of slugs sources m t] by simp
  qed
  have two: "(\<exists>s. try_fold validate_model ?next ms = Ok s) \<longleftrightarrow>
      list_all model_ok ms \<and> distinct (map md_slug ms) \<and> (\<forall>x \<in> set ms. md_slug x \<notin> insert (md_slug m) slugs)
      \<and> distinct (map (\<lambda>m. identity_key (md_onshape m)) ms)
      \<and> (\<forall>x \<in> set ms. (sources(identity_key (md_onshape m) \<mapsto> md_slug m)) (identity_key (md_onshape x)) = None)"
    by (rule Cons.IH)
  show ?case
    unfolding one two new_names new_keys list.set list.map distinct.simps list.pred_inject ball_simps set_map by argo
qed

text \<open>
  C32: a catalog is accepted exactly when its version is the supported one, every model is acceptable by
  itself, and no two models share a slug or a source identity.
\<close>

theorem validate_catalog_iff:
  "validate_catalog c = Ok () \<longleftrightarrow>
    ca_catalog_schema_version c = CATALOG_SCHEMA_VERSION \<and> list_all model_ok (ca_models c)
    \<and> distinct (map md_slug (ca_models c)) \<and> distinct (map (\<lambda>m. identity_key (md_onshape m)) (ca_models c))"
  using validate_models_Ok [of "{}" Map.empty "ca_models c"]
  by (simp add: validate_catalog_def and_then_Ok ensure_Ok)

section \<open>Loaded catalogs\<close>

text \<open>The model that an entry of the catalog file stands for.\<close>

fun entry_model :: "catalog_library \<Rightarrow> string \<Rightarrow> model_reference \<Rightarrow> model \<Rightarrow> bool" where
  "entry_model lib base (Inline x) m = (m = x)"
| "entry_model lib base (Reference ix) m = (md_slug m = ix_slug ix
     \<and> ix_name ix \<in> {None, Some (md_name m)} \<and> ix_description ix \<in> {None, Some (md_description m)}
     \<and> and_then (cl_read lib (cl_join lib base
         (case ix_model_path ix of Some p \<Rightarrow> p | None \<Rightarrow> ''models/'' @ md_slug m @ ''.json''))) (cl_model lib) = Ok m)"

lemma load_model_entry: "load_model lib base x = Ok m \<Longrightarrow> entry_model lib base x m"
  by (cases x) (auto simp: load_index_model_def Let_def and_then_Ok checks_Ok ensure_Ok map_err_Ok if_some_def split: option.splits)

lemma distinct_find:
  "distinct (map key xs) \<Longrightarrow> find (\<lambda>x. key x = k) xs = Some x \<longleftrightarrow> x \<in> set xs \<and> key x = k"
  by (induction xs) (auto simp: rev_image_eqI)

text \<open>
  A catalog that loads holds one model per entry of its file, in order: the inline model, or the model
  of the file that the entry names or implies, with the slug, name and description of the entry. Every
  model is found by its slug, and a slug finds nothing else.
\<close>

lemma loaded_catalog_finds:
  assumes "load_catalog lib path = Ok c"
  shows "\<exists>f. and_then (cl_read lib path) (cl_file lib) = Ok f
    \<and> list_all2 (entry_model lib (case cl_parent lib path of Some p \<Rightarrow> p | None \<Rightarrow> [])) (cf_models f) (ca_models c)
    \<and> validate_catalog c = Ok ()
    \<and> (\<forall>slug m. find_model c slug = Some m \<longleftrightarrow> m \<in> set (ca_models c) \<and> md_slug m = slug)"
proof -
  let ?base = "case cl_parent lib path of Some p \<Rightarrow> p | None \<Rightarrow> []"
  obtain f ms where f: "and_then (cl_read lib path) (cl_file lib) = Ok f"
    and ms: "collect_results (load_model lib ?base) (cf_models f) = Ok ms" and c: "from_models ms = Ok c"
    using assms by (auto simp: load_catalog_def result_simps)
  have c: "ca_models c = ms" "validate_catalog c = Ok ()"
    using c by (auto simp: from_models_def Let_def result_simps)
  have "list_all2 (entry_model lib ?base) (cf_models f) (ca_models c)"
    using ms load_model_entry unfolding c collect_results_Ok by (auto elim: list_all2_mono)
  moreover have "distinct (map md_slug (ca_models c))"
    using c(2) validate_models_Ok [of "{}" Map.empty "ca_models c"] by (simp add: validate_catalog_def and_then_Ok)
  ultimately show ?thesis
    using f c(2) distinct_find [of md_slug "ca_models c"] by (auto simp: find_model_def)
qed

section \<open>Example\<close>

definition example_model :: model where
  "example_model = \<lparr>md_catalog_schema_version = 1, md_entry_version = 2, md_slug = ''box-1'', md_name = ''Box'',
     md_description = ''A box'', md_published = True, md_tags = [''storage''], md_thumbnail = Some ''b.png'',
     md_onshape = \<lparr>src_document_id = ''d'', src_version_id = ''v'', src_element_id = ''e'',
       src_element_kind = PartStudio, src_link_document_id = None\<rparr>,
     md_exports = \<lparr>xc_downloads = [Step, Stl], xc_preview = Glb, xc_preview_options = \<lparr>po_resolution = PreviewFine\<rparr>,
       xc_download_options = \<lparr>do_step_version_string = Ap242,
         do_stl = \<lparr>so_resolution = MeshFine, so_stl_mode = StlBinary\<rparr>, do_three_mf = \<lparr>to_resolution = MeshFine\<rparr>\<rparr>,
       xc_bambu_project = Some \<lparr>bp_selectors = [Part ''p'', Part ''q'']\<rparr>\<rparr>,
     md_parameter_policy = \<lparr>pp_source = OnshapeParameters, pp_allow_unknown = False, pp_auto_refresh = True\<rparr>,
     md_parameter_presets = [\<lparr>ps_slug = ''large'', ps_name = ''Large'', ps_values = []\<rparr>],
     md_parameter_overrides = []\<rparr>"

definition example_catalog_library :: catalog_library where
  "example_catalog_library = \<lparr>cl_read = Ok, cl_join = (\<lambda>base p. base @ CHR ''/'' # p), cl_parent = (\<lambda>_. Some ''data''),
     cl_file = (\<lambda>_. Ok \<lparr>cf_catalog_schema_version = 1, cf_models =
       [Reference \<lparr>ix_slug = ''box-1'', ix_name = Some ''Box'', ix_description = None, ix_model_path = None\<rparr>]\<rparr>),
     cl_model = (\<lambda>contents. if contents = ''data/models/box-1.json'' then Ok example_model else Err ''missing'')\<rparr>"

lemma example_catalog_loads:
  "load_catalog example_catalog_library ''data/catalog.json'' =
    Ok \<lparr>ca_catalog_schema_version = 1, ca_models = [example_model]\<rparr>"
proof -
  have slugs: "is_path_slug ''box-1''" "is_path_slug ''storage''" "is_path_slug ''large''" by code_simp+
  have "trim ''b.png'' \<noteq> []" by code_simp
  moreover have "preflight (bambu_request example_model [Part ''p'', Part ''q'']) = Ok ()"
    unfolding preflight_Ok by code_simp
  ultimately have "model_ok example_model"
    using slugs by (simp add: model_ok_def example_model_def CATALOG_SCHEMA_VERSION_def)
  then have "validate_catalog \<lparr>ca_catalog_schema_version = CATALOG_SCHEMA_VERSION, ca_models = [example_model]\<rparr> = Ok ()"
    using validate_models_Ok [of "{}" Map.empty "[example_model]"]
    by (simp add: validate_catalog_def and_then_Ok ensure_Ok)
  then have "from_models [example_model] = Ok \<lparr>ca_catalog_schema_version = 1, ca_models = [example_model]\<rparr>"
    by (simp add: from_models_def and_then_def CATALOG_SCHEMA_VERSION_def)
  moreover have "md_slug example_model = ''box-1''" "md_name example_model = ''Box''"
    by (simp_all add: example_model_def)
  ultimately show ?thesis
    using slugs(1)
    by (simp add: load_catalog_def example_catalog_library_def and_then_def ensure_def CATALOG_SCHEMA_VERSION_def
        load_index_model_def map_err_def checks.simps if_some_def)
qed

end
