(* ===== verification/Export_Requests.thy ===== *)
theory Export_Requests
  imports Catalog_Documents Onshape_Requests
begin

text \<open>
  The pure part of the export client (\<open>src/src/onshape.rs\<close>): the requests that start an export with
  the identity under which they are cached, the documents that Onshape answers with, and the file
  name of a download. Text is UTF-8; a value of a header is text when all its bytes are visible.
\<close>

section \<open>Requests\<close>

definition API_SPEC_VERSION :: "string option" where "API_SPEC_VERSION = None"
definition PREVIEW_GLTF_DEFAULTS_POLICY_VERSION :: string where
  "PREVIEW_GLTF_DEFAULTS_POLICY_VERSION = ''preview-gltf-defaults-v2''"
definition PREVIEW_GLTF_REQUEST_BUILDER_VERSION :: string where
  "PREVIEW_GLTF_REQUEST_BUILDER_VERSION = ''preview-gltf-request-v1''"
definition STEP_EXPORT_DEFAULTS_POLICY_VERSION :: string where
  "STEP_EXPORT_DEFAULTS_POLICY_VERSION = ''step-export-defaults-v2''"
definition STEP_EXPORT_REQUEST_BUILDER_VERSION :: string where
  "STEP_EXPORT_REQUEST_BUILDER_VERSION = ''step-export-request-v2''"
definition TRANSLATION_EXPORT_DEFAULTS_POLICY_VERSION :: string where
  "TRANSLATION_EXPORT_DEFAULTS_POLICY_VERSION = ''translation-export-defaults-v3''"
definition TRANSLATION_EXPORT_REQUEST_BUILDER_VERSION :: string where
  "TRANSLATION_EXPORT_REQUEST_BUILDER_VERSION = ''translation-export-request-v3''"

record export_request =
  cx_operation :: string
  cx_method :: string
  cx_path :: string
  cx_identity :: request_identity

record onshape_client =
  oc_base_url :: url_parts
  oc_access_key :: "string option"
  oc_secret_key :: "string option"

definition document_id :: "export_request \<Rightarrow> (string, string) result" where
  "document_id r = ok_or (Option.bind (field ''did'' (rq_path_params (cx_identity r))) as_str)
     ''canonical export request did not include document id''"

definition element_collection :: "onshape_source \<Rightarrow> string" where
  "element_collection s = (case src_element_kind s of PartStudio \<Rightarrow> ''partstudios'' | Assembly \<Rightarrow> ''assemblies'')"

definition element_path :: "onshape_source \<Rightarrow> string \<Rightarrow> string" where
  "element_path s tail = ''/api/'' @ element_collection s @ ''/d/'' @ src_document_id s @ ''/v/'' @ src_version_id s
     @ ''/e/'' @ src_element_id s @ tail"

definition export_path_params :: "string \<Rightarrow> onshape_source \<Rightarrow> json" where
  "export_path_params collection s = members [(''collection'', Some (JStr collection)),
     (''did'', Some (JStr (src_document_id s))), (''vid'', Some (JStr (src_version_id s))),
     (''eid'', Some (JStr (src_element_id s)))]"

definition api_host_class :: "url_parts \<Rightarrow> string" where
  "api_host_class u = (case url_host u of Some host \<Rightarrow> host | None \<Rightarrow> [])"

definition gltf_export_body :: "string \<Rightarrow> preview_options \<Rightarrow> json" where
  "gltf_export_body configuration options = members
     [(''advancedParams'', Some (members [(''configuration'', Some (JStr configuration))])),
      (''meshParams'', Some (members [(''resolution'', Some (JStr (preview_resolution_str (po_resolution options))))])),
      (''grouping'', Some (JBool True)), (''storeInDocument'', Some (JBool False)),
      (''notifyUser'', Some (JBool False)), (''triggerAutoDownload'', Some (JBool False))]"

definition build_preview_glb_export_request ::
  "onshape_client \<Rightarrow> onshape_source \<Rightarrow> encoded_configuration \<Rightarrow> preview_options \<Rightarrow> export_request" where
  "build_preview_glb_export_request c s configuration options =
    (let operation = ''create-'' @ element_kind_key (src_element_kind s) @ ''-gltf-export'' in
     \<lparr>cx_operation = operation, cx_method = ''POST'', cx_path = element_path s ''/export/gltf'',
      cx_identity = \<lparr>rq_api_host_class = api_host_class (oc_base_url c), rq_api_spec_version = API_SPEC_VERSION,
        rq_operation = operation, rq_method = ''POST'',
        rq_path_template = ''/api/{collection}/d/{did}/v/{vid}/e/{eid}/export/gltf'',
        rq_path_params = export_path_params (element_collection s) s, rq_query = JObj [],
        rq_body = gltf_export_body (ec_encoded_id configuration) options,
        rq_encoded_configuration = Some configuration,
        rq_defaults_policy_version = PREVIEW_GLTF_DEFAULTS_POLICY_VERSION,
        rq_request_builder_version = PREVIEW_GLTF_REQUEST_BUILDER_VERSION\<rparr>\<rparr>)"

definition step_export_body :: "string \<Rightarrow> download_options \<Rightarrow> json" where
  "step_export_body configuration options = members
     [(''advancedParams'', Some (members [(''configuration'', Some (JStr configuration))])),
      (''stepVersionString'', Some (JStr (step_version_str (do_step_version_string options)))),
      (''grouping'', Some (JBool True)), (''storeInDocument'', Some (JBool False)),
      (''notifyUser'', Some (JBool False)), (''triggerAutoDownload'', Some (JBool False))]"

definition build_step_export_request ::
  "onshape_client \<Rightarrow> onshape_source \<Rightarrow> encoded_configuration \<Rightarrow> download_options \<Rightarrow> export_request" where
  "build_step_export_request c s configuration options =
     \<lparr>cx_operation = ''create-step-export'', cx_method = ''POST'', cx_path = element_path s ''/export/step'',
      cx_identity = \<lparr>rq_api_host_class = api_host_class (oc_base_url c), rq_api_spec_version = API_SPEC_VERSION,
        rq_operation = ''create-step-export'', rq_method = ''POST'',
        rq_path_template = ''/api/{collection}/d/{did}/v/{vid}/e/{eid}/export/step'',
        rq_path_params = export_path_params (element_collection s) s, rq_query = JObj [],
        rq_body = step_export_body (ec_encoded_id configuration) options,
        rq_encoded_configuration = Some configuration,
        rq_defaults_policy_version = STEP_EXPORT_DEFAULTS_POLICY_VERSION,
        rq_request_builder_version = STEP_EXPORT_REQUEST_BUILDER_VERSION\<rparr>\<rparr>"

definition insert_member :: "string \<Rightarrow> json \<Rightarrow> json \<Rightarrow> json" where
  "insert_member k v object = (case object of JObj m \<Rightarrow> JObj (bt_insert k v m) | _ \<Rightarrow> object)"

definition translation_export_body :: "download_format \<Rightarrow> string \<Rightarrow> string \<Rightarrow> download_options \<Rightarrow> json" where
  "translation_export_body format label configuration options =
    (let body = members [(''formatName'', Some (JStr label)), (''storeInDocument'', Some (JBool False)),
       (''notifyUser'', Some (JBool False)), (''triggerAutoDownload'', Some (JBool False)),
       (''configuration'', Some (JStr configuration)), (''grouping'', Some (JBool True))]
     in case format of
          Step \<Rightarrow> body
        | Stl \<Rightarrow> insert_member ''stlMode'' (JStr (stl_mode_str (so_stl_mode (do_stl options))))
            (insert_member ''resolution'' (JStr (mesh_resolution_str (so_resolution (do_stl options)))) body)
        | ThreeMf \<Rightarrow> insert_member ''resolution'' (JStr (mesh_resolution_str (to_resolution (do_three_mf options)))) body)"

definition build_translation_export_request ::
  "onshape_client \<Rightarrow> onshape_source \<Rightarrow> encoded_configuration \<Rightarrow> download_format \<Rightarrow> download_options \<Rightarrow> export_request"
where
  "build_translation_export_request c s configuration format options =
    (let operation = ''create-'' @ format_slug format @ ''-translation'' in
     \<lparr>cx_operation = operation, cx_method = ''POST'', cx_path = element_path s ''/translations'',
      cx_identity = \<lparr>rq_api_host_class = api_host_class (oc_base_url c), rq_api_spec_version = API_SPEC_VERSION,
        rq_operation = operation, rq_method = ''POST'',
        rq_path_template = ''/api/{collection}/d/{did}/v/{vid}/e/{eid}/translations'',
        rq_path_params = export_path_params (element_collection s) s, rq_query = JObj [],
        rq_body = translation_export_body format (format_label format) (ec_encoded_id configuration) options,
        rq_encoded_configuration = Some configuration,
        rq_defaults_policy_version = TRANSLATION_EXPORT_DEFAULTS_POLICY_VERSION,
        rq_request_builder_version = TRANSLATION_EXPORT_REQUEST_BUILDER_VERSION\<rparr>\<rparr>)"

definition build_download_export_request ::
  "onshape_client \<Rightarrow> onshape_source \<Rightarrow> encoded_configuration \<Rightarrow> download_format \<Rightarrow> download_options \<Rightarrow> export_request"
where
  "build_download_export_request c s configuration format options =
    (case format of
       Step \<Rightarrow> build_step_export_request c s configuration options
     | _ \<Rightarrow> build_translation_export_request c s configuration format options)"

section \<open>Answers\<close>

record started_translation =
  sn_translation_id :: string
  sn_state :: string
  sn_response_json :: string

record polled_translation =
  pn_state :: string
  pn_final_response_json :: string
  pn_poll_state_json :: string
  pn_result_external_data_ids :: "string list"
  pn_result_element_ids :: "string list"
  pn_failure_reason :: "string option"

record external_data =
  ed_bytes :: string
  ed_content_type :: "string option"
  ed_response_headers_json :: string
  ed_original_filename :: "string option"
  ed_filename_source :: "string option"
  ed_etag :: "string option"

definition single_external_data_id :: "polled_translation \<Rightarrow> (string, string) result" where
  "single_external_data_id p = (case pn_result_external_data_ids p of
     [i] \<Rightarrow> Ok i
   | [] \<Rightarrow> Err ''Onshape translation completed without external data''
   | ids \<Rightarrow> Err (''Onshape translation returned '' @ nat_str (length ids) @ '' downloadable results; expected exactly one''))"

text \<open>The first of the named members that is a string; \<open>first_string\<close> of \<open>onshape.rs\<close>.\<close>

definition first_string_member :: "json \<Rightarrow> string list \<Rightarrow> string option" where
  "first_string_member v keys =
    Option.bind (as_object v) (\<lambda>m. find_map as_str (List.map_filter (\<lambda>name. member name m) keys))"

definition array_strings :: "json \<Rightarrow> string \<Rightarrow> string list" where
  "array_strings v name = (case Option.bind (field name v) as_array of
     None \<Rightarrow> []
   | Some vs \<Rightarrow> List.map_filter as_str vs)"

definition parse_started_translation ::
  "(json \<Rightarrow> string) \<Rightarrow> json \<Rightarrow> string \<Rightarrow> (string, started_translation) result" where
  "parse_started_translation print response operation =
    and_then (ok_or (first_string_member response [''id'', ''translationId''])
      (''Onshape '' @ operation @ '' response did not include a translation id'')) (\<lambda>id.
    Ok \<lparr>sn_translation_id = id,
        sn_state = (case first_string_member response [''requestState'', ''state''] of Some s \<Rightarrow> s | None \<Rightarrow> ''ACTIVE''),
        sn_response_json = print response\<rparr>)"

definition parse_polled_translation :: "(json \<Rightarrow> string) \<Rightarrow> json \<Rightarrow> (string, polled_translation) result" where
  "parse_polled_translation print response =
    and_then (ok_or (first_string_member response [''requestState'', ''state''])
      ''Onshape translation poll response did not include a state'') (\<lambda>st.
    Ok \<lparr>pn_state = st, pn_final_response_json = print response, pn_poll_state_json = print response,
        pn_result_external_data_ids = array_strings response ''resultExternalDataIds'',
        pn_result_element_ids = array_strings response ''resultElementIds'',
        pn_failure_reason = first_string_member response
          [''failureReason'', ''failureMessage'', ''message'', ''errorMessage'']\<rparr>)"

section \<open>File names\<close>

definition visible_byte :: "char \<Rightarrow> bool" where
  "visible_byte c \<longleftrightarrow> 32 \<le> code c \<and> code c < 127 \<or> code c = 9"

text \<open>\<open>HeaderValue::to_str\<close>, and the first value under a name.\<close>

definition to_str :: "string \<Rightarrow> string option" where
  "to_str v = (if list_all visible_byte v then Some v else None)"

definition get_header :: "string \<Rightarrow> headers \<Rightarrow> string option" where
  "get_header name hs = map_of hs name"

fun split_once :: "string \<Rightarrow> string \<Rightarrow> (string \<times> string) option" where
  "split_once p [] = (if p = [] then Some ([], []) else None)"
| "split_once p (c # s) = (case strip_prefix p (c # s) of
     Some rest \<Rightarrow> Some ([], rest)
   | None \<Rightarrow> map_option (apfst (Cons c)) (split_once p s))"

fun split_header_parameters :: "string \<Rightarrow> bool \<Rightarrow> bool \<Rightarrow> string \<Rightarrow> string list" where
  "split_header_parameters current quoted escaped [] = [trim current]"
| "split_header_parameters current quoted escaped (c # s) =
    (if escaped then split_header_parameters (current @ [c]) quoted False s
     else if c = BACKSLASH \<and> quoted then split_header_parameters (current @ [c]) quoted True s
     else if c = QUOTE then split_header_parameters (current @ [c]) (\<not> quoted) False s
     else if c = CHR '';'' \<and> \<not> quoted then trim current # split_header_parameters [] quoted False s
     else split_header_parameters (current @ [c]) quoted False s)"

fun unescape :: "bool \<Rightarrow> string \<Rightarrow> string" where
  "unescape escaped [] = []"
| "unescape escaped (c # s) =
    (if escaped then c # unescape False s
     else if c = BACKSLASH then unescape True s
     else c # unescape False s)"

definition unquote_header_value :: "string \<Rightarrow> string" where
  "unquote_header_value v =
    (if 2 \<le> length v \<and> starts_with [QUOTE] v \<and> ends_with [QUOTE] v then unescape False (butlast (tl v)) else v)"

definition content_disposition_parameters :: "string \<Rightarrow> (string \<times> string) list" where
  "content_disposition_parameters v =
    List.map_filter (\<lambda>part. map_option (\<lambda>(name, v). (trim name, unquote_header_value (trim v)))
      (split_once ''='' (trim part))) (drop 1 (split_header_parameters [] False False v))"

definition named_parameter :: "string \<Rightarrow> string \<Rightarrow> string option" where
  "named_parameter key v = find_map (\<lambda>(name, v). if eq_ignore_ascii_case name key \<and> v \<noteq> [] then Some v else None)
     (content_disposition_parameters v)"

definition content_disposition_filename :: "string \<Rightarrow> string option" where
  "content_disposition_filename v = named_parameter ''filename'' v"

definition hex_nibble :: "char \<Rightarrow> nat option" where
  "hex_nibble c =
    (if is_digit c then Some (code c - 48)
     else if 97 \<le> code c \<and> code c \<le> 102 then Some (code c - 97 + 10)
     else if 65 \<le> code c \<and> code c \<le> 70 then Some (code c - 65 + 10)
     else None)"

text \<open>The loop of \<open>percent_decode\<close>: an escape needs two more bytes, any other byte stands for itself.\<close>

fun percent_bytes :: "string \<Rightarrow> string option" where
  "percent_bytes (c # h # l # s) =
    (if c = CHR ''%''
     then Option.bind (hex_nibble h) (\<lambda>high. Option.bind (hex_nibble l) (\<lambda>low.
       map_option (Cons (char_of (16 * high + low))) (percent_bytes s)))
     else map_option (Cons c) (percent_bytes (h # l # s)))"
| "percent_bytes s = Some s"

definition percent_decode :: "string \<Rightarrow> string option" where
  "percent_decode v = filter_opt valid_utf8 (percent_bytes v)"

definition APOSTROPHES :: string where "APOSTROPHES = [CHR 0x27, CHR 0x27]"

definition decode_rfc8187_filename :: "string \<Rightarrow> string option" where
  "decode_rfc8187_filename v = Option.bind (split_once APOSTROPHES v) (\<lambda>(charset, rest).
     if \<not> eq_ignore_ascii_case charset ''UTF-8'' then None else percent_decode rest)"

definition content_disposition_filename_star :: "string \<Rightarrow> string option" where
  "content_disposition_filename_star v = Option.bind (named_parameter ''filename*'' v) decode_rfc8187_filename"

definition download_filename :: "headers \<Rightarrow> string option \<times> string option" where
  "download_filename hs = (case Option.bind (get_header ''content-disposition'' hs) to_str of
     None \<Rightarrow> (None, None)
   | Some v \<Rightarrow> (case content_disposition_filename_star v of
       Some name \<Rightarrow> (Some name, Some ''content-disposition-filename*'')
     | None \<Rightarrow> (case content_disposition_filename v of
         Some name \<Rightarrow> (Some name, Some ''content-disposition'')
       | None \<Rightarrow> (None, None))))"

definition header_map_json :: "(json \<Rightarrow> string) \<Rightarrow> headers \<Rightarrow> string" where
  "header_map_json print hs = print (JObj (foldl (\<lambda>m name.
     bt_insert name (JArr (map JStr (List.map_filter to_str (get_all name hs)))) m) [] (map fst hs)))"

section \<open>What the identity of a request says\<close>

lemma field_insert_member:
  assumes "distinct (map fst kvs)"
  shows "field k (insert_member k' v (members kvs)) = (if k = k' then Some v else field k (members kvs))"
proof -
  have "bt_inv (bt.insert_all (present kvs) [])" by (rule bt.inv_insert_all) simp
  then show ?thesis
    by (simp add: insert_member_def members_present field_def member_def map_of_bt_insert)
qed

lemma field_insert_members:
  assumes "distinct (map fst kvs)"
  shows "field k (insert_member k1 v1 (insert_member k2 v2 (members kvs))) =
    (if k = k1 then Some v1 else if k = k2 then Some v2 else field k (members kvs))"
proof -
  have "bt_inv (bt.insert_all (present kvs) [])" by (rule bt.inv_insert_all) simp
  then have "bt_inv (bt_insert k2 v2 (bt.insert_all (present kvs) []))" by (rule bt_inv_insert)
  then show ?thesis
    using field_insert_member [OF assms, of k k2 v2]
    by (simp add: insert_member_def members_present field_def member_def map_of_bt_insert)
qed

lemma preview_resolution_str_inj: "preview_resolution_str a = preview_resolution_str b \<longleftrightarrow> a = b"
  by (cases a; cases b) simp_all

lemma mesh_resolution_str_inj: "mesh_resolution_str a = mesh_resolution_str b \<longleftrightarrow> a = b"
  by (cases a; cases b) simp_all

lemma stl_mode_str_inj: "stl_mode_str a = stl_mode_str b \<longleftrightarrow> a = b"
  by (cases a; cases b) simp_all

text \<open>What an export is asked for; of the options of a download only those of its format are sent.\<close>

datatype export_target = Preview preview_options | Download download_format download_options

fun build_export :: "onshape_client \<Rightarrow> onshape_source \<Rightarrow> encoded_configuration \<Rightarrow> export_target \<Rightarrow> export_request" where
  "build_export c s e (Preview options) = build_preview_glb_export_request c s e options"
| "build_export c s e (Download format options) = build_download_export_request c s e format options"

fun same_output :: "export_target \<Rightarrow> export_target \<Rightarrow> bool" where
  "same_output (Preview a) (Preview b) = (po_resolution a = po_resolution b)"
| "same_output (Download f a) (Download g b) = (f = g \<and> (case f of
     Step \<Rightarrow> True
   | Stl \<Rightarrow> so_resolution (do_stl a) = so_resolution (do_stl b) \<and> so_stl_mode (do_stl a) = so_stl_mode (do_stl b)
   | ThreeMf \<Rightarrow> to_resolution (do_three_mf a) = to_resolution (do_three_mf b)))"
| "same_output _ _ = False"

definition same_export ::
  "onshape_client \<times> onshape_source \<times> encoded_configuration \<times> export_target
    \<Rightarrow> onshape_client \<times> onshape_source \<times> encoded_configuration \<times> export_target \<Rightarrow> bool" where
  "same_export = (\<lambda>(c, s, e, t) (c', s', e', t'). api_host_class (oc_base_url c) = api_host_class (oc_base_url c')
     \<and> src_element_kind s = src_element_kind s' \<and> src_document_id s = src_document_id s'
     \<and> src_version_id s = src_version_id s' \<and> src_element_id s = src_element_id s' \<and> e = e' \<and> same_output t t')"

lemma element_collection_inj:
  "element_collection s = element_collection s' \<longleftrightarrow> src_element_kind s = src_element_kind s'"
  by (cases "src_element_kind s"; cases "src_element_kind s'") (simp_all add: element_collection_def)

lemma export_path_params_inj:
  "export_path_params (element_collection s) s = export_path_params (element_collection s') s' \<longleftrightarrow>
    src_element_kind s = src_element_kind s' \<and> src_document_id s = src_document_id s'
    \<and> src_version_id s = src_version_id s' \<and> src_element_id s = src_element_id s'"
  unfolding export_path_params_def element_collection_inj [symmetric]
  by (auto dest!: members_inj)

lemma gltf_body_inj:
  "gltf_export_body a o1 = gltf_export_body b o2 \<Longrightarrow> a = b \<and> po_resolution o1 = po_resolution o2"
  by (auto simp: gltf_export_body_def preview_resolution_str_inj dest!: members_inj)

lemma step_version_one: "step_version_str v = ''AP242''"
  by (cases v) simp

lemma translation_field:
  "field k (translation_export_body f l c options) =
    (if k = ''stlMode'' \<and> f = Stl then Some (JStr (stl_mode_str (so_stl_mode (do_stl options))))
     else if k = ''resolution'' \<and> f = Stl then Some (JStr (mesh_resolution_str (so_resolution (do_stl options))))
     else if k = ''resolution'' \<and> f = ThreeMf then Some (JStr (mesh_resolution_str (to_resolution (do_three_mf options))))
     else field k (members [(''formatName'', Some (JStr l)), (''storeInDocument'', Some (JBool False)),
       (''notifyUser'', Some (JBool False)), (''triggerAutoDownload'', Some (JBool False)),
       (''configuration'', Some (JStr c)), (''grouping'', Some (JBool True))]))"
  by (cases f) (simp_all add: translation_export_body_def Let_def field_insert_member field_insert_members)

lemma translation_body_inj:
  assumes "translation_export_body f l a o1 = translation_export_body f l b o2" "f \<noteq> Step"
  shows "same_output (Download f o1) (Download f o2)"
  using assms(2) arg_cong [OF assms(1), of "field ''stlMode''"] arg_cong [OF assms(1), of "field ''resolution''"]
  by (cases f) (simp_all add: translation_field stl_mode_str_inj mesh_resolution_str_inj)

lemma translation_body_cong:
  assumes "same_output (Download f o1) (Download f o2)"
  shows "translation_export_body f l a o1 = translation_export_body f l a o2"
  using assms by (cases f) (simp_all add: translation_export_body_def)

lemma request_identity_inj:
  "request_identity_json i = request_identity_json i' \<longleftrightarrow> i = i'"
proof
  have c: "encoded_configuration_json a = encoded_configuration_json b \<Longrightarrow> a = b" for a b
    by (cases a; cases b) (auto simp: encoded_configuration_json_def dest!: members_inj)
  have n: "encoded_configuration_json a \<noteq> JNull" for a
    by (simp add: encoded_configuration_json_def members_def)
  assume "request_identity_json i = request_identity_json i'"
  then show "i = i'"
    by (cases i; cases i') (auto simp: request_identity_json_def nullable_inj [OF c n] dest!: members_inj)
qed simp

lemma preview_identity_inj:
  "cx_identity (build_preview_glb_export_request c s e a) = cx_identity (build_preview_glb_export_request c' s' e' b) \<longleftrightarrow>
    same_export (c, s, e, Preview a) (c', s', e', Preview b)"
  by (auto simp: build_preview_glb_export_request_def Let_def same_export_def export_path_params_inj
      dest!: gltf_body_inj) (simp add: gltf_export_body_def)

lemma step_identity_inj:
  "cx_identity (build_step_export_request c s e a) = cx_identity (build_step_export_request c' s' e' b) \<longleftrightarrow>
    same_export (c, s, e, Download Step a) (c', s', e', Download Step b)"
  by (auto simp: build_step_export_request_def same_export_def export_path_params_inj step_export_body_def step_version_one)

lemma translation_identity_inj:
  assumes "f \<noteq> Step" "g \<noteq> Step"
  shows "cx_identity (build_translation_export_request c s e f a) = cx_identity (build_translation_export_request c' s' e' g b) \<longleftrightarrow>
    same_export (c, s, e, Download f a) (c', s', e', Download g b)"
proof -
  have "''create-'' @ format_slug f @ ''-translation'' = ''create-'' @ format_slug g @ ''-translation'' \<longleftrightarrow> f = g"
    by (cases f; cases g) simp_all
  then show ?thesis
    using assms translation_body_cong [of f a b] translation_body_inj [of f "format_label f" _ a _ b]
    by (auto simp: build_translation_export_request_def Let_def same_export_def export_path_params_inj)
qed

lemma identity_templates:
  "rq_path_template (cx_identity (build_export c s e t)) = (case t of
     Preview _ \<Rightarrow> ''/api/{collection}/d/{did}/v/{vid}/e/{eid}/export/gltf''
   | Download Step _ \<Rightarrow> ''/api/{collection}/d/{did}/v/{vid}/e/{eid}/export/step''
   | Download _ _ \<Rightarrow> ''/api/{collection}/d/{did}/v/{vid}/e/{eid}/translations'')"
  by (auto simp: build_preview_glb_export_request_def Let_def build_download_export_request_def
      build_step_export_request_def build_translation_export_request_def
      split: export_target.splits download_format.splits)

lemma download_translation [simp]:
  "f \<noteq> Step \<Longrightarrow> build_download_export_request c s e f a = build_translation_export_request c s e f a"
  by (cases f) (simp_all add: build_download_export_request_def)

lemma download_step [simp]: "build_download_export_request c s e Step a = build_step_export_request c s e a"
  by (simp add: build_download_export_request_def)

lemma identity_iff:
  "cx_identity (build_export c s e t) = cx_identity (build_export c' s' e' t') \<longleftrightarrow>
    same_export (c, s, e, t) (c', s', e', t')"
proof (cases "(\<exists>a b. t = Preview a \<and> t' = Preview b) \<or> (\<exists>a b. t = Download Step a \<and> t' = Download Step b)
    \<or> (\<exists>f g a b. f \<noteq> Step \<and> g \<noteq> Step \<and> t = Download f a \<and> t' = Download g b)")
  case True
  then show ?thesis
    by (auto simp: preview_identity_inj step_identity_inj translation_identity_inj)
next
  case False
  then have "rq_path_template (cx_identity (build_export c s e t)) \<noteq> rq_path_template (cx_identity (build_export c' s' e' t'))"
    unfolding identity_templates by (auto split: export_target.splits download_format.splits)
  moreover have "\<not> same_output t t'"
    using False by (cases t; cases t') auto
  ultimately show ?thesis by (auto simp: same_export_def)
qed

text \<open>Around its identity, a request repeats the operation and the method and spells out the path.\<close>

fun path_tail :: "export_target \<Rightarrow> string" where
  "path_tail (Preview _) = ''/export/gltf''"
| "path_tail (Download f _) = (if f = Step then ''/export/step'' else ''/translations'')"

lemma around_identity:
  "cx_operation (build_export c s e t) = rq_operation (cx_identity (build_export c s e t))
    \<and> cx_method (build_export c s e t) = rq_method (cx_identity (build_export c s e t))
    \<and> cx_path (build_export c s e t) = element_path s (path_tail t)"
proof (cases t)
  case (Preview options)
  then show ?thesis by (simp add: build_preview_glb_export_request_def Let_def)
next
  case (Download f options)
  then show ?thesis
    by (cases "f = Step") (simp_all add: build_step_export_request_def build_translation_export_request_def Let_def)
qed

lemma same_request:
  assumes "same_export (c, s, e, t) (c', s', e', t')"
  shows "build_export c s e t = build_export c' s' e' t'"
proof -
  have "cx_identity (build_export c s e t) = cx_identity (build_export c' s' e' t')"
    using assms by (simp only: identity_iff)
  moreover have "element_path s = element_path s'"
    using assms by (simp add: same_export_def element_path_def element_collection_def fun_eq_iff)
  moreover have "path_tail t = path_tail t'"
    using assms by (cases t; cases t') (simp_all add: same_export_def)
  ultimately show ?thesis
    using around_identity [of c s e t] around_identity [of c' s' e' t'] by (simp add: export_request.equality)
qed
text \<open>
  C33: the hash under which the answer to an export is cached identifies the whole request, its path and
  body included: two exports share it exactly when they ask the same host for the same element of the same
  version, in the same configuration, in the same output with the same options of that output.
\<close>

theorem export_hash_identifies_request:
  assumes "unambiguous jcs sha {hash_preimage ''request-v2'' (request_identity_json (cx_identity (build_export c s e t))),
      hash_preimage ''request-v2'' (request_identity_json (cx_identity (build_export c' s' e' t')))}"
    and "request_hash jcs sha (cx_identity (build_export c s e t)) = Ok h"
  shows "(request_hash jcs sha (cx_identity (build_export c' s' e' t')) = Ok h \<longleftrightarrow>
      build_export c' s' e' t' = build_export c s e t)
    \<and> (build_export c' s' e' t' = build_export c s e t \<longleftrightarrow> same_export (c', s', e', t') (c, s, e, t))"
proof -
  have "request_hash jcs sha (cx_identity (build_export c' s' e' t')) = Ok h \<longleftrightarrow>
      cx_identity (build_export c' s' e' t') = cx_identity (build_export c s e t)"
    using hash_json_binds [OF assms(1) assms(2) [unfolded request_hash_def]]
    by (simp add: request_hash_def request_identity_inj)
  then show ?thesis
    using same_request [of c' s' e' t' c s e t] identity_iff [of c' s' e' t' c s e t] by metis
qed

section \<open>File names read back\<close>

text \<open>A quoted string with its escapes, and an extended value in percent encoding.\<close>

definition quoted_byte :: "char \<Rightarrow> string" where
  "quoted_byte c = (if c = QUOTE \<or> c = BACKSLASH then [BACKSLASH, c] else [c])"

definition quoted_text :: "string \<Rightarrow> string" where
  "quoted_text s = QUOTE # concat (map quoted_byte s) @ [QUOTE]"

definition rfc8187_byte :: "char \<Rightarrow> string" where
  "rfc8187_byte c = (if is_alphanumeric c then [c] else [CHR ''%'', hex_upper (code c div 16), hex_upper (code c mod 16)])"

definition rfc8187_text :: "string \<Rightarrow> string" where
  "rfc8187_text s = ''UTF-8'' @ APOSTROPHES @ concat (map rfc8187_byte s)"

definition content_disposition :: "string \<Rightarrow> string option \<Rightarrow> string" where
  "content_disposition fallback name = ''attachment; filename='' @ quoted_text fallback @
     (case name of None \<Rightarrow> [] | Some n \<Rightarrow> ''; filename*='' @ rfc8187_text n)"

lemma trim_leading_blank: "trim (CHR '' '' # s) = trim s"
proof -
  have "trim_start (CHR '' '' # s) = trim_start s" by (subst trim_start.simps) simp
  then show ?thesis by (simp add: trim_def)
qed

lemma split_once_byte: "d \<notin> set w \<Longrightarrow> split_once [d] (w @ d # s) = Some (w, s)"
  by (induction w) auto

lemma split_plain:
  "QUOTE \<notin> set w \<Longrightarrow> CHR '';'' \<notin> set w \<Longrightarrow>
    split_header_parameters current False False (w @ s) = split_header_parameters (current @ w) False False s"
  by (induction w arbitrary: current) auto

lemma split_escaped:
  "split_header_parameters current True False (concat (map quoted_byte w) @ s) =
    split_header_parameters (current @ concat (map quoted_byte w)) True False s"
  by (induction w arbitrary: current) (auto simp: quoted_byte_def QUOTE_def BACKSLASH_def)

lemma split_quoted:
  "split_header_parameters current False False (quoted_text w @ s) =
    split_header_parameters (current @ quoted_text w) False False s"
  by (simp add: quoted_text_def split_escaped QUOTE_def BACKSLASH_def)

lemma unescape_quoted: "unescape False (concat (map quoted_byte w)) = w"
  by (induction w) (auto simp: quoted_byte_def)

lemma unquote_quoted: "unquote_header_value (quoted_text w) = w"
  by (simp add: unquote_header_value_def quoted_text_def ends_with_one starts_with_one unescape_quoted)

lemma hex_nibble_upper: "d < 16 \<Longrightarrow> hex_nibble (hex_upper d) = Some d \<and> is_graphic (hex_upper d)
    \<and> hex_upper d \<noteq> QUOTE \<and> hex_upper d \<noteq> CHR '';''"
proof -
  have "\<forall>d \<in> set [0..<16]. hex_nibble (hex_upper d) = Some d \<and> is_graphic (hex_upper d)
      \<and> hex_upper d \<noteq> QUOTE \<and> hex_upper d \<noteq> CHR '';''" by code_simp
  then show "d < 16 \<Longrightarrow> ?thesis" by simp
qed

lemma percent_bytes_plain:
  "c \<noteq> CHR ''%'' \<Longrightarrow> percent_bytes (c # s) = map_option (Cons c) (percent_bytes s)"
  by (cases s; cases "tl s") auto

lemma percent_bytes_rfc8187: "percent_bytes (concat (map rfc8187_byte s)) = Some s"
proof (induction s)
  case (Cons c s)
  have "char_of (16 * (code c div 16) + code c mod 16) = c" by simp
  moreover have "code c div 16 < 16" "code c mod 16 < 16" by (simp_all add: less_mult_imp_div_less)
  moreover have "is_alphanumeric c \<Longrightarrow> c \<noteq> CHR ''%''" by (auto simp: byte_class_defs)
  ultimately show ?case
    using Cons by (simp add: rfc8187_byte_def percent_bytes_plain hex_nibble_upper)
qed simp

lemma rfc8187_bytes:
  assumes "b \<in> set (rfc8187_byte c)"
  shows "is_graphic b \<and> b \<noteq> QUOTE \<and> b \<noteq> CHR '';''"
proof -
  have "code c div 16 < 16" "code c mod 16 < 16" by (simp_all add: less_mult_imp_div_less)
  then show ?thesis
    using assms hex_nibble_upper
    by (auto simp: rfc8187_byte_def alphanumeric_graphic split: if_splits)
      (auto simp: byte_class_defs QUOTE_def)
qed

lemma rfc8187_text_bytes: "b \<in> set (rfc8187_text n) \<Longrightarrow> is_graphic b \<and> b \<noteq> QUOTE \<and> b \<noteq> CHR '';''"
  using rfc8187_bytes by (auto simp: rfc8187_text_def APOSTROPHES_def is_graphic_def QUOTE_def)

lemma decode_rfc8187:
  "valid_utf8 n \<Longrightarrow> decode_rfc8187_filename (rfc8187_text n) = Some n"
  by (simp add: decode_rfc8187_filename_def rfc8187_text_def APOSTROPHES_def eq_ignore_ascii_case_def
      percent_decode_def percent_bytes_rfc8187 filter_opt_def)

lemma trim_named:
  assumes "v \<noteq> []" "is_graphic (last v)"
  shows "trim ('' filename='' @ v) = ''filename='' @ v" "trim ('' filename*='' @ v) = ''filename*='' @ v"
  using assms by (simp_all add: trim_leading_blank, auto intro!: trim_graphic_ends simp: is_graphic_def)

lemma quoted_text_ends: "quoted_text f \<noteq> [] \<and> is_graphic (hd (quoted_text f)) \<and> is_graphic (last (quoted_text f))"
  by (simp add: quoted_text_def is_graphic_def QUOTE_def)

lemma rfc8187_text_graphic: "rfc8187_text n \<noteq> [] \<and> list_all is_graphic (rfc8187_text n)"
  using rfc8187_text_bytes [of _ n] by (auto simp: list_all_iff) (simp add: rfc8187_text_def)

lemma split_disposition:
  "drop 1 (split_header_parameters [] False False (content_disposition f name)) =
    (''filename='' @ quoted_text f) # (case name of None \<Rightarrow> [] | Some n \<Rightarrow> [''filename*='' @ rfc8187_text n])"
proof -
  let ?tail = "case name of None \<Rightarrow> [] | Some n \<Rightarrow> ''; filename*='' @ rfc8187_text n"
  have first: "split_header_parameters [] False False (content_disposition f name) =
      trim ''attachment'' # split_header_parameters [] False False ('' filename='' @ (quoted_text f @ ?tail))"
    using split_plain [of "''attachment''" "[]" "CHR '';'' # '' filename='' @ quoted_text f @ ?tail"]
    by (simp add: content_disposition_def QUOTE_def)
  have second: "split_header_parameters [] False False ('' filename='' @ (quoted_text f @ ?tail)) =
      split_header_parameters ('' filename='' @ quoted_text f) False False ?tail"
    using split_plain [of "'' filename=''" "[]" "quoted_text f @ ?tail"] split_quoted [of "'' filename=''" f ?tail]
    by (simp add: QUOTE_def)
  have third: "split_header_parameters ('' filename='' @ quoted_text f) False False ?tail =
      trim ('' filename='' @ quoted_text f) #
        (case name of None \<Rightarrow> [] | Some n \<Rightarrow> [trim ('' filename*='' @ rfc8187_text n)])"
  proof (cases name)
    case None
    then show ?thesis by simp
  next
    case (Some n)
    have "split_header_parameters [] False False (('' filename*='' @ rfc8187_text n) @ []) =
        [trim ('' filename*='' @ rfc8187_text n)]"
      using rfc8187_text_bytes [of _ n]
      by (subst split_plain) (auto simp: QUOTE_def)
    then show ?thesis using Some by (simp add: QUOTE_def)
  qed
  have q: "trim ('' filename='' @ quoted_text f) = ''filename='' @ quoted_text f"
    using quoted_text_ends [of f] by (intro trim_named) auto
  have r: "trim ('' filename*='' @ rfc8187_text n) = ''filename*='' @ rfc8187_text n" for n
    using rfc8187_text_graphic [of n] by (intro trim_named) (auto simp: list_all_iff)
  show ?thesis
    unfolding first second third q r by (simp only: drop_Suc_Cons drop_0 One_nat_def)
qed

lemma split_once_named:
  "split_once ''='' (''filename='' @ v) = Some (''filename'', v)"
  "split_once ''='' (''filename*='' @ v) = Some (''filename*'', v)"
  using split_once_byte [of "CHR ''=''" "''filename''" v] split_once_byte [of "CHR ''=''" "''filename*''" v] by simp_all

lemma trim_part:
  assumes "v \<noteq> []" "is_graphic (last v)"
  shows "trim (''filename='' @ v) = ''filename='' @ v" "trim (''filename*='' @ v) = ''filename*='' @ v"
  using assms trim_named [OF assms] by (simp_all add: trim_leading_blank)

lemma unquote_rfc8187: "unquote_header_value (rfc8187_text n) = rfc8187_text n"
  by (simp add: unquote_header_value_def starts_with_one rfc8187_text_def QUOTE_def)

lemma quoted_parameter:
  "map_option (\<lambda>(name, v). (trim name, unquote_header_value (trim v)))
    (split_once ''='' (trim (''filename='' @ quoted_text f))) = Some (''filename'', f)"
proof -
  have part: "trim (''filename='' @ quoted_text f) = ''filename='' @ quoted_text f" "trim (quoted_text f) = quoted_text f"
    using quoted_text_ends [of f] by (intro trim_part trim_graphic_ends; simp)+
  have "trim ''filename'' = ''filename''" by (rule trim_graphic) (simp add: is_graphic_def)
  then show ?thesis
    unfolding part split_once_named by (simp only: option.map prod.case part unquote_quoted)
qed

lemma extended_parameter:
  "map_option (\<lambda>(name, v). (trim name, unquote_header_value (trim v)))
    (split_once ''='' (trim (''filename*='' @ rfc8187_text n))) = Some (''filename*'', rfc8187_text n)"
proof -
  have part: "trim (''filename*='' @ rfc8187_text n) = ''filename*='' @ rfc8187_text n"
    using rfc8187_text_graphic [of n] by (intro trim_part) (auto simp: list_all_iff)
  have v: "trim (rfc8187_text n) = rfc8187_text n"
    using rfc8187_text_graphic [of n] by (simp add: trim_graphic)
  have "trim ''filename*'' = ''filename*''" by (rule trim_graphic) (simp add: is_graphic_def)
  then show ?thesis
    unfolding part split_once_named by (simp only: option.map prod.case v unquote_rfc8187)
qed

lemma disposition_parameters:
  "content_disposition_parameters (content_disposition f name) =
    (''filename'', f) # (case name of None \<Rightarrow> [] | Some n \<Rightarrow> [(''filename*'', rfc8187_text n)])"
  unfolding content_disposition_parameters_def split_disposition
  by (cases name) (simp_all only: List.map_filter_simps quoted_parameter extended_parameter option.case)
text \<open>
  C34: the file name of a download is read back: the name in the extended parameter, whatever UTF-8 text it
  is, and otherwise the quoted name, whatever visible text it is, semicolons, quotes and backslashes
  included. What the quoted fallback holds never hides the extended name.
\<close>

theorem download_filename_roundtrip:
  assumes "fallback \<noteq> []" "list_all visible_byte fallback"
    and "\<And>n. name = Some n \<Longrightarrow> n \<noteq> [] \<and> valid_utf8 n"
    and "get_header ''content-disposition'' hs = Some (content_disposition fallback name)"
  shows "download_filename hs = (case name of
      Some n \<Rightarrow> (Some n, Some ''content-disposition-filename*'')
    | None \<Rightarrow> (Some fallback, Some ''content-disposition''))"
proof -
  have "list_all visible_byte (quoted_text fallback)"
    using assms(2) by (auto simp: list_all_iff quoted_text_def quoted_byte_def visible_byte_def QUOTE_def BACKSLASH_def
        split: if_splits)
  moreover have "visible_byte b" if "is_graphic b" for b
    using that by (simp add: visible_byte_def is_graphic_def)
  then have "list_all visible_byte (rfc8187_text n)" for n
    using rfc8187_text_bytes [of _ n] by (simp add: list_all_iff)
  ultimately have "list_all visible_byte (content_disposition fallback name)"
    by (auto simp: content_disposition_def visible_byte_def split: option.split)
  then have value_text: "Option.bind (get_header ''content-disposition'' hs) to_str = Some (content_disposition fallback name)"
    using assms(4) by (simp add: to_str_def)
  show ?thesis
  proof (cases name)
    case None
    then show ?thesis
      using assms(1) value_text
      by (simp add: download_filename_def content_disposition_filename_star_def content_disposition_filename_def
          named_parameter_def disposition_parameters eq_ignore_ascii_case_def to_lower_def byte_class_defs)
  next
    case (Some n)
    then show ?thesis
      using assms(3) [OF Some] value_text rfc8187_text_graphic [of n]
      by (simp add: download_filename_def content_disposition_filename_star_def named_parameter_def
          disposition_parameters eq_ignore_ascii_case_def to_lower_def byte_class_defs decode_rfc8187)
  qed
qed

end
