(* ===== verification/Export_Client.thy ===== *)
theory Export_Client
  imports Export_Requests Http_Framing
begin

text \<open>
  The export client at work (\<open>src/src/onshape.rs\<close>): signed requests, the answers that are read from
  them, and the polling of a translation. What answers is a record of operations on a state \<open>'w\<close>; with
  it goes the counter of the nonces, which wraps. Errors are their messages; a panic is the error that
  begins with \<open>panicked\<close>.
\<close>

section \<open>Steps\<close>

type_synonym ('s, 'a) action = "'s \<Rightarrow> (string, 'a) result \<times> 's"

definition answer_with :: "(string, 'a) result \<Rightarrow> ('s, 'a) action" where
  "answer_with r s = (r, s)"

definition and_next :: "('s, 'a) action \<Rightarrow> ('a \<Rightarrow> ('s, 'b) action) \<Rightarrow> ('s, 'b) action" where
  "and_next m f s = (case m s of (Err e, s) \<Rightarrow> (Err e, s) | (Ok a, s) \<Rightarrow> f a s)"

lemma and_next_Ok: "and_next m f s = (Ok b, t) \<longleftrightarrow> (\<exists>a u. m s = (Ok a, u) \<and> f a u = (Ok b, t))"
  by (auto simp: and_next_def split: prod.splits sum.splits)

lemma answer_with_eq: "answer_with r s = (r', t) \<longleftrightarrow> r = r' \<and> s = t"
  by (auto simp: answer_with_def)

section \<open>The world\<close>

record http_message =
  hm_method :: string
  hm_path :: string
  hm_query :: string
  hm_headers :: headers
  hm_body :: "string option"

text \<open>
  An answer: its status with the text that displays it, the URL it came from, its headers and its body,
  whose reading can fail.
\<close>

record http_answer =
  an_status :: nat
  an_status_text :: string
  an_url :: string
  an_headers :: headers
  an_body :: "(string, string) result"

record 'w remote =
  rm_date :: "'w \<Rightarrow> string"
  rm_nanos :: "'w \<Rightarrow> nat"
  rm_millis :: "'w \<Rightarrow> nat"
  rm_send :: "http_message \<Rightarrow> 'w \<Rightarrow> (string, http_answer) result \<times> 'w"
  rm_sleep :: "nat \<Rightarrow> 'w \<Rightarrow> 'w"

record 'w process =
  pc_nonces :: "64 word"
  pc_world :: 'w

text \<open>\<open>Url::set_path\<close> followed by \<open>path\<close>, \<open>Method::from_bytes\<close>, \<open>serde_json\<close>, and what \<open>signed_headers\<close> uses.\<close>

record export_library =
  xl_set_path :: "string \<Rightarrow> string"
  xl_method_ok :: "string \<Rightarrow> bool"
  xl_parse :: "string \<Rightarrow> (string, json) result"
  xl_print :: "json \<Rightarrow> string"
  xl_signing :: signing

definition onshape_client_new ::
  "(string \<Rightarrow> url_parts option) \<Rightarrow> (api_failure \<Rightarrow> string) \<Rightarrow> (string, unit) result \<Rightarrow> string
    \<Rightarrow> string option \<Rightarrow> string option \<Rightarrow> (string, onshape_client) result" where
  "onshape_client_new parse display builder base access secret =
    and_then (map_err display (canonical_origin parse base)) (\<lambda>origin.
    and_then (ensure (origin = PRODUCTION_ORIGIN) ''configured Onshape origin is not trusted'') (\<lambda>_.
    and_then (ok_or (parse origin) ''canonical Onshape origin could not be parsed'') (\<lambda>u.
    and_then builder (\<lambda>_.
      Ok \<lparr>oc_base_url = u, oc_access_key = access, oc_secret_key = secret\<rparr>))))"

definition has_credentials :: "onshape_client \<Rightarrow> bool" where
  "has_credentials c \<longleftrightarrow> oc_access_key c \<noteq> None \<and> oc_secret_key c \<noteq> None"

definition require_credentials :: "onshape_client \<Rightarrow> (string, unit) result" where
  "require_credentials c = ensure (has_credentials c) ''Onshape credentials are not configured''"

section \<open>Requests\<close>

definition nonce :: "nat \<Rightarrow> 64 word \<Rightarrow> string" where
  "nonce nanos counter = hex_str nanos @ hex_str (unat counter)"

definition signed_json_headers ::
  "export_library \<Rightarrow> 'w remote \<Rightarrow> onshape_client \<Rightarrow> string \<Rightarrow> string \<Rightarrow> string \<Rightarrow> ('w process, headers) action" where
  "signed_json_headers lib rm c http_method path query p = (case (oc_access_key c, oc_secret_key c) of
     (Some access, Some secret) \<Rightarrow>
       (let w = pc_world p; counter = pc_nonces p
        in (ok_or (signed_headers (xl_signing lib) (rm_date rm w) (nonce (rm_nanos rm w) counter) http_method path query access secret)
              ''invalid signed headers'',
            p\<lparr>pc_nonces := counter + 1\<rparr>))
   | _ \<Rightarrow> (Err ''panicked: checked credentials'', p))"

definition send_message :: "'w remote \<Rightarrow> http_message \<Rightarrow> ('w process, http_answer) action" where
  "send_message rm m p = (let (r, w) = rm_send rm m (pc_world p) in (r, p\<lparr>pc_world := w\<rparr>))"

definition onshape_response :: "http_answer \<Rightarrow> (string, http_answer) result" where
  "onshape_response a =
    (if 200 \<le> an_status a \<and> an_status a < 300 then Ok a
     else Err (''Onshape request failed: '' @ an_status_text a @ '' '' @ an_url a @ '': '' @
       (case an_body a of
          Ok body \<Rightarrow> body
        | Err e \<Rightarrow> ''<failed to read Onshape error response body: '' @ e @ ''>'')))"

definition json_body :: "export_library \<Rightarrow> http_answer \<Rightarrow> (string, json) result" where
  "json_body lib a = and_then (an_body a) (xl_parse lib)"

text \<open>One signed exchange: the headers, the request with what it accepts, and a successful answer.\<close>

definition signed_exchange ::
  "export_library \<Rightarrow> 'w remote \<Rightarrow> onshape_client \<Rightarrow> string \<Rightarrow> string \<Rightarrow> string \<Rightarrow> string \<Rightarrow> string option
    \<Rightarrow> ('w process, http_answer) action" where
  "signed_exchange lib rm c http_method path query media body =
    and_next (signed_json_headers lib rm c http_method path query) (\<lambda>hs.
    and_next (send_message rm \<lparr>hm_method = http_method, hm_path = path, hm_query = query,
        hm_headers = insert_header ''accept'' media hs, hm_body = body\<rparr>) (\<lambda>a.
    answer_with (onshape_response a)))"

definition signed_json ::
  "export_library \<Rightarrow> 'w remote \<Rightarrow> onshape_client \<Rightarrow> string \<Rightarrow> string \<Rightarrow> string \<Rightarrow> string option
    \<Rightarrow> ('w process, json) action" where
  "signed_json lib rm c http_method path query body =
    and_next (signed_exchange lib rm c http_method path query ''application/json'' body) (\<lambda>a. answer_with (json_body lib a))"

definition fetch_configuration ::
  "export_library \<Rightarrow> 'w remote \<Rightarrow> onshape_client \<Rightarrow> onshape_source \<Rightarrow> ('w process, json) action" where
  "fetch_configuration lib rm c s =
    and_next (answer_with (require_credentials c)) (\<lambda>_.
    signed_json lib rm c ''GET'' (xl_set_path lib (''/api/elements/d/'' @ src_document_id s @ ''/v/'' @ src_version_id s
      @ ''/e/'' @ src_element_id s @ ''/configuration'')) [] None)"

definition resolve_version_microversion ::
  "export_library \<Rightarrow> 'w remote \<Rightarrow> onshape_client \<Rightarrow> onshape_source \<Rightarrow> ('w process, resolved_source) action" where
  "resolve_version_microversion lib rm c s =
    and_next (answer_with (require_credentials c)) (\<lambda>_.
    and_next (signed_json lib rm c ''GET''
        (xl_set_path lib (''/api/documents/d/'' @ src_document_id s @ ''/versions/'' @ src_version_id s))
        (case src_link_document_id s of
           None \<Rightarrow> []
         | Some l \<Rightarrow> form_encode (xl_signing lib) [(''linkDocumentId'', l)]) None) (\<lambda>response.
    answer_with (and_then (ok_or (first_string_member response [''microversion'', ''microversionId''])
        (''Onshape version response did not include a microversion id: '' @ xl_print lib response)) (\<lambda>m.
      Ok \<lparr>rs_document_id = src_document_id s, rs_version_id = src_version_id s, rs_microversion_id = m,
          rs_element_id = src_element_id s, rs_element_kind = src_element_kind s,
          rs_link_document_id = src_link_document_id s\<rparr>))))"

definition query_pairs :: "json \<Rightarrow> (string \<times> string) list" where
  "query_pairs query = List.map_filter (\<lambda>(k, v). map_option (Pair k) (as_str v))
     (case as_object query of Some m \<Rightarrow> m | None \<Rightarrow> [])"

definition start_export_request ::
  "export_library \<Rightarrow> 'w remote \<Rightarrow> onshape_client \<Rightarrow> export_request \<Rightarrow> ('w process, started_translation) action" where
  "start_export_request lib rm c r =
    and_next (answer_with (require_credentials c)) (\<lambda>_.
    and_next (answer_with (ensure (xl_method_ok lib (cx_method r)) ''invalid HTTP method'')) (\<lambda>_.
    let pairs = query_pairs (rq_query (cx_identity r)) in
    and_next (signed_json lib rm c (cx_method r) (xl_set_path lib (cx_path r))
        (if pairs = [] then [] else form_encode (xl_signing lib) pairs)
        (Some (xl_print lib (rq_body (cx_identity r))))) (\<lambda>response.
    answer_with (parse_started_translation (xl_print lib) response (cx_operation r)))))"

section \<open>Polling and downloading\<close>

definition POLL_DELAYS :: "nat list" where
  "POLL_DELAYS = [2, 4, 8, 15, 30, 30, 30, 30]"

definition sleeping :: "'w remote \<Rightarrow> nat \<Rightarrow> ('w process, unit) action" where
  "sleeping rm seconds p = (Ok (), p\<lparr>pc_world := rm_sleep rm seconds (pc_world p)\<rparr>)"

fun poll_with_delays ::
  "export_library \<Rightarrow> 'w remote \<Rightarrow> onshape_client \<Rightarrow> string \<Rightarrow> string \<Rightarrow> nat list
    \<Rightarrow> ('w process, polled_translation) action" where
  "poll_with_delays lib rm c document translation_id [] =
    answer_with (Err (''Onshape translation timed out for document '' @ document))"
| "poll_with_delays lib rm c document translation_id (delay # delays) =
    and_next (signed_json lib rm c ''GET'' (xl_set_path lib (''/api/translations/'' @ translation_id)) [] None) (\<lambda>response.
    and_next (answer_with (parse_polled_translation (xl_print lib) response)) (\<lambda>polled.
    if pn_state polled = ''DONE'' \<or> pn_state polled = ''FAILED'' then answer_with (Ok polled)
    else and_next (sleeping rm delay) (\<lambda>_. poll_with_delays lib rm c document translation_id delays)))"

definition poll_translation ::
  "export_library \<Rightarrow> 'w remote \<Rightarrow> onshape_client \<Rightarrow> string \<Rightarrow> string \<Rightarrow> ('w process, polled_translation) action" where
  "poll_translation lib rm c document translation_id = poll_with_delays lib rm c document translation_id POLL_DELAYS"

definition download_external_data ::
  "export_library \<Rightarrow> 'w remote \<Rightarrow> onshape_client \<Rightarrow> string \<Rightarrow> string \<Rightarrow> ('w process, external_data) action" where
  "download_external_data lib rm c document external_data_id =
    and_next (signed_exchange lib rm c ''GET''
        (xl_set_path lib (''/api/documents/d/'' @ document @ ''/externaldata/'' @ external_data_id)) [] ''*/*'' None) (\<lambda>a.
    let hs = an_headers a; (filename, source) = download_filename hs in
    and_next (answer_with (an_body a)) (\<lambda>bytes.
    answer_with (Ok \<lparr>ed_bytes = bytes, ed_content_type = Option.bind (get_header ''content-type'' hs) to_str,
      ed_response_headers_json = header_map_json (xl_print lib) hs, ed_original_filename = filename,
      ed_filename_source = source, ed_etag = Option.bind (get_header ''etag'' hs) to_str\<rparr>)))"

section \<open>Nonces\<close>

lemma hex_str_lower: "16 ^ k \<le> n \<Longrightarrow> Suc k \<le> length (hex_str n)"
proof (induction k arbitrary: n)
  case 0
  then show ?case by (subst hex_str.simps) simp
next
  case (Suc k)
  then have "16 ^ k \<le> n div 16" "16 \<le> n"
    by (simp_all add: less_eq_div_iff_mult_less_eq mult.commute) (metis Suc.prems le_trans mult_le_mono2 one_le_numeral one_le_power mult.right_neutral power_Suc)
  then show ?case using Suc.IH [of "n div 16"] by (subst hex_str.simps) simp
qed

lemma hex_str_inj: "\<lbrakk>m < U64_LIMIT; n < U64_LIMIT; hex_str m = hex_str n\<rbrakk> \<Longrightarrow> m = n"
  by (metis chunk_size_hex sum.inject(2))

text \<open>
  Nonces are apart while the clock shows times of one length in hexadecimal, which it does between the
  years 2006 and 2554: no counter value is used twice before it wraps.
\<close>

lemma nonces_differ:
  assumes "16 ^ 15 \<le> t" "t < 16 ^ 16" "16 ^ 15 \<le> t'" "t' < 16 ^ 16" "nonce t c = nonce t' c'"
  shows "t = t' \<and> c = c'"
proof -
  have len: "length (hex_str t) = 16" "length (hex_str t') = 16"
    using hex_str_length [of t 15] hex_str_length [of t' 15] hex_str_lower [of 15 t] hex_str_lower [of 15 t'] assms
    by simp_all
  then have "hex_str t = hex_str t' \<and> hex_str (unat c) = hex_str (unat c')"
    using assms(5) by (simp add: nonce_def)
  moreover have "unat x < U64_LIMIT" for x :: "64 word"
    using unsigned_less [of x, where ?'a = nat] by (simp add: U64_LIMIT_def)
  moreover have "t < U64_LIMIT" "t' < U64_LIMIT" using assms by (simp_all add: U64_LIMIT_def)
  ultimately have "t = t'" "unat c = unat c'" using hex_str_inj by blast+
  then show ?thesis by (simp add: word_unat_eq_iff)
qed

end
