(* ===== verification/Staged_Exports.thy ===== *)
theory Staged_Exports
  imports Export_Client Sql_Table
begin

text \<open>
  A staged export (\<open>execute_staged_export_request\<close> of \<open>src/src/main.rs\<close>): the payload of a request is
  found where an earlier run left it, downloaded from a finished translation, awaited from an unfinished
  one, or translated anew. The tables \<open>translations\<close>, \<open>raw_payloads\<close> and \<open>raw_payload_sources\<close> of
  \<open>src/src/db.rs\<close> and the object store are part of the state; every step leaves what it has done behind
  also when a later step fails.
\<close>

section \<open>Tables\<close>

record translation_row =
  tr_translation_id :: string
  tr_request_hash :: string
  tr_state :: string
  tr_start_response_json :: "string option"
  tr_final_response_json :: "string option"
  tr_poll_state_json :: "string option"
  tr_result_external_data_ids_json :: "string option"
  tr_result_element_ids_json :: "string option"
  tr_response_hash :: "string option"
  tr_failure_reason :: "string option"
  tr_created_at :: nat
  tr_updated_at :: nat

record raw_payload =
  rw_raw_payload_hash :: string
  rw_object_key :: string
  rw_content_type :: "string option"
  rw_byte_len :: int
  rw_headers_json :: string
  rw_original_filename :: "string option"
  rw_filename_source :: "string option"
  rw_detected_kind :: string
  rw_zip_manifest_json :: "string option"

record payload_source =
  sx_request_hash :: string
  sx_translation_id :: "string option"
  sx_external_data_id :: "string option"
  sx_result_index :: "int option"
  sx_response_headers_json :: string
  sx_etag :: "string option"
  sx_raw_payload_hash :: string

text \<open>\<open>ORDER BY updated_at DESC, created_at DESC, translation_id DESC LIMIT 1\<close>\<close>

definition newer :: "translation_row \<Rightarrow> translation_row \<Rightarrow> bool" where
  "newer a b \<longleftrightarrow> tr_updated_at b < tr_updated_at a \<or> tr_updated_at b = tr_updated_at a \<and>
    (tr_created_at b < tr_created_at a \<or> tr_created_at b = tr_created_at a \<and> tr_translation_id b < tr_translation_id a)"

fun newest :: "translation_row list \<Rightarrow> translation_row option" where
  "newest [] = None"
| "newest (r # rs) = (case newest rs of
     None \<Rightarrow> Some r
   | Some x \<Rightarrow> if newer x r then Some x else Some r)"

definition latest_translation_for_request :: "string \<Rightarrow> translation_row list \<Rightarrow> translation_row option" where
  "latest_translation_for_request rh t = newest (filter (\<lambda>r. tr_request_hash r = rh) t)"

definition completed :: "string \<Rightarrow> translation_row \<Rightarrow> bool" where
  "completed rh r \<longleftrightarrow> tr_request_hash r = rh \<and> tr_state r = ''DONE'' \<and> tr_final_response_json r \<noteq> None"

definition latest_completed_translation_for_request :: "string \<Rightarrow> translation_row list \<Rightarrow> translation_row option" where
  "latest_completed_translation_for_request rh t = newest (filter (completed rh) t)"

definition restarted_row :: "nat \<Rightarrow> string \<Rightarrow> string \<Rightarrow> string \<Rightarrow> translation_row \<Rightarrow> translation_row" where
  "restarted_row now rh st start r = r\<lparr>tr_request_hash := rh, tr_state := st,
     tr_start_response_json := Some start, tr_updated_at := now\<rparr>"

definition insert_translation_start ::
  "nat \<Rightarrow> string \<Rightarrow> string \<Rightarrow> string \<Rightarrow> string \<Rightarrow> translation_row list \<Rightarrow> translation_row list" where
  "insert_translation_start now i rh st start t =
    (if find_row tr_translation_id i t = None
     then t @ [\<lparr>tr_translation_id = i, tr_request_hash = rh, tr_state = st, tr_start_response_json = Some start,
       tr_final_response_json = None, tr_poll_state_json = None, tr_result_external_data_ids_json = None,
       tr_result_element_ids_json = None, tr_response_hash = None, tr_failure_reason = None,
       tr_created_at = now, tr_updated_at = now\<rparr>]
     else snd (update_where (\<lambda>r. tr_translation_id r = i) (restarted_row now rh st start) t))"

interpretation restarted: keyed_update tr_translation_id "restarted_row now rh st start" for now rh st start
  by unfold_locales (simp add: restarted_row_def)

definition final_row :: "nat \<Rightarrow> polled_translation \<Rightarrow> string \<Rightarrow> string \<Rightarrow> string \<Rightarrow> translation_row \<Rightarrow> translation_row" where
  "final_row now polled ids elements hash r = r\<lparr>tr_state := pn_state polled,
     tr_final_response_json := Some (pn_final_response_json polled),
     tr_poll_state_json := Some (pn_poll_state_json polled), tr_result_external_data_ids_json := Some ids,
     tr_result_element_ids_json := Some elements, tr_response_hash := Some hash,
     tr_failure_reason := pn_failure_reason polled, tr_updated_at := now\<rparr>"

interpretation finished_translation: keyed_update tr_translation_id "final_row now polled ids elements hash"
  for now polled ids elements hash
  by unfold_locales (simp add: final_row_def)

definition update_translation_final ::
  "nat \<Rightarrow> string \<Rightarrow> polled_translation \<Rightarrow> string \<Rightarrow> string \<Rightarrow> string \<Rightarrow> translation_row list \<Rightarrow> bool \<times> translation_row list"
where
  "update_translation_final now i polled ids elements hash t =
    one_row (update_where (\<lambda>r. tr_translation_id r = i) (final_row now polled ids elements hash) t)"
definition raw_payload_row :: "string \<Rightarrow> raw_payload list \<Rightarrow> raw_payload option" where
  "raw_payload_row hash t = find_row rw_raw_payload_hash hash t"

text \<open>The object key is UNIQUE too, and a second row with it is refused.\<close>

definition insert_raw_payload_if_absent :: "raw_payload \<Rightarrow> raw_payload list \<Rightarrow> (string, raw_payload list) result" where
  "insert_raw_payload_if_absent r t =
    (if raw_payload_row (rw_raw_payload_hash r) t \<noteq> None then Ok t
     else if find_row rw_object_key (rw_object_key r) t \<noteq> None then Err ''UNIQUE constraint failed: raw_payloads.object_key''
     else Ok (t @ [r]))"

definition ifnull :: "'a option \<Rightarrow> 'a \<Rightarrow> 'a" where
  "ifnull x d = (case x of Some a \<Rightarrow> a | None \<Rightarrow> d)"

definition source_key :: "payload_source \<Rightarrow> string \<times> string \<times> string \<times> int" where
  "source_key r = (sx_request_hash r, ifnull (sx_translation_id r) [], ifnull (sx_external_data_id r) [],
     ifnull (sx_result_index r) (-1))"

definition link_raw_payload_source :: "payload_source \<Rightarrow> payload_source list \<Rightarrow> bool \<times> payload_source list" where
  "link_raw_payload_source r t =
    (if find_row source_key (source_key r) t = None then (True, t @ [r]) else (False, t))"

definition raw_payload_hash_for_source ::
  "string \<Rightarrow> string option \<Rightarrow> string option \<Rightarrow> int option \<Rightarrow> payload_source list \<Rightarrow> string option" where
  "raw_payload_hash_for_source rh translation external index t = map_option sx_raw_payload_hash
     (find_row source_key (rh, ifnull translation [], ifnull external [], ifnull index (-1)) t)"

section \<open>The state\<close>

record 'w export_state =
  xs_translations :: "translation_row list"
  xs_payloads :: "raw_payload list"
  xs_sources :: "payload_source list"
  xs_objects :: "string \<rightharpoonup> string"
  xs_process :: "'w process"

text \<open>
  What becomes of a write to the object store: it is done and answered, not done, or done but its answer
  is lost. A read is answered or fails on the way.
\<close>

datatype put_outcome = Stored | NotStored string | AnswerLost string

text \<open>An archive is what \<open>by_index\<close> gives for each of its entries; an entry declares its size, and its data may not be read.\<close>

record zip_entry =
  ze_name :: "(string, string) result"
  ze_is_dir :: bool
  ze_size :: nat
  ze_data :: "(string, string) result"

type_synonym zip_archive = "(string, zip_entry) result list"

record 'w export_env =
  ev_library :: export_library
  ev_remote :: "'w remote"
  ev_client :: onshape_client
  ev_jcs :: canonicalizer
  ev_sha :: digest
  ev_put :: "string \<Rightarrow> string \<Rightarrow> string \<Rightarrow> string option \<Rightarrow> string option \<Rightarrow> 'w \<Rightarrow> put_outcome \<times> 'w"
  ev_get :: "string \<Rightarrow> 'w \<Rightarrow> (string, unit) result \<times> 'w"
  ev_zip :: "string \<Rightarrow> (string, zip_archive) result"

definition on_process :: "('w process, 'a) action \<Rightarrow> ('w export_state, 'a) action" where
  "on_process m s = (let (r, p) = m (xs_process s) in (r, s\<lparr>xs_process := p\<rparr>))"

definition now_of :: "'w export_env \<Rightarrow> 'w export_state \<Rightarrow> nat" where
  "now_of env s = rm_millis (ev_remote env) (pc_world (xs_process s))"

definition put_bytes_with_headers ::
  "'w export_env \<Rightarrow> string \<Rightarrow> string \<Rightarrow> string \<Rightarrow> string option \<Rightarrow> string option \<Rightarrow> ('w export_state, unit) action" where
  "put_bytes_with_headers env key bytes content_type disposition cache_control s =
    (let (outcome, w) = ev_put env key bytes content_type disposition cache_control (pc_world (xs_process s));
         s = s\<lparr>xs_process := (xs_process s)\<lparr>pc_world := w\<rparr>\<rparr>;
         stored = s\<lparr>xs_objects := (xs_objects s)(key \<mapsto> bytes)\<rparr>
     in case outcome of
          Stored \<Rightarrow> (Ok (), stored)
        | NotStored e \<Rightarrow> (Err e, s)
        | AnswerLost e \<Rightarrow> (Err e, stored))"

definition put_bytes :: "'w export_env \<Rightarrow> string \<Rightarrow> string \<Rightarrow> string \<Rightarrow> ('w export_state, unit) action" where
  "put_bytes env key bytes content_type = put_bytes_with_headers env key bytes content_type None None"

definition get_bytes :: "'w export_env \<Rightarrow> string \<Rightarrow> ('w export_state, string) action" where
  "get_bytes env key s =
    (let (outcome, w) = ev_get env key (pc_world (xs_process s))
     in (and_then outcome (\<lambda>_. ok_or (xs_objects s key) ''NoSuchKey''),
         s\<lparr>xs_process := (xs_process s)\<lparr>pc_world := w\<rparr>\<rparr>))"

section \<open>Payloads\<close>

definition raw_payload_object_key :: "string \<Rightarrow> string" where
  "raw_payload_object_key hash = ''onshape/raw/v2/'' @ take (min (length hash) 2) hash @ ''/'' @ hash @ ''/payload.bin''"

definition ZIP_MAGIC :: string where "ZIP_MAGIC = ''PK'' @ [CHR 0x03, CHR 0x04]"

definition validate_gltf_json :: "export_library \<Rightarrow> string \<Rightarrow> (string, unit) result" where
  "validate_gltf_json lib bytes = and_then (xl_parse lib bytes) (\<lambda>v.
     ensure (Option.bind (Option.bind (field ''asset'' v) (field ''version'')) as_str \<noteq> None)
       ''glTF JSON did not include asset.version'')"

definition detect_raw_payload_kind :: "export_library \<Rightarrow> string \<Rightarrow> string" where
  "detect_raw_payload_kind lib bytes =
    (if starts_with ZIP_MAGIC bytes then ''zip''
     else if starts_with ''glTF'' bytes then ''glb''
     else if is_ok (validate_gltf_json lib bytes) then ''gltf_json''
     else ''binary'')"

definition safe_zip_asset_name :: "string \<Rightarrow> (string, string) result" where
  "safe_zip_asset_name name =
    (let parts = split_on CHR ''/'' name in
     and_then (checks [
       ensure (BACKSLASH \<notin> set name) (''ZIP asset path contains a backslash: '' @ name),
       ensure (\<not> starts_with ''/'' name) (''ZIP asset path is absolute: '' @ name),
       ensure (parts \<noteq> []) ''ZIP asset path is empty'',
       each (\<lambda>_ part. checks [
         ensure (part \<noteq> [] \<and> part \<noteq> ''.'' \<and> part \<noteq> ''..'') (''ZIP asset path is not safe: '' @ name),
         ensure (list_all (\<lambda>c. \<not> is_control c) (chars part)) (''ZIP asset path contains control characters: '' @ name)]) parts])
       (\<lambda>_. Ok (join_with CHR ''/'' parts)))"

text \<open>\<open>RawZipEntry\<close>\<close>

definition raw_zip_entry_json :: "string \<Rightarrow> nat \<Rightarrow> json" where
  "raw_zip_entry_json path len = members [(''path'', Some (JStr path)), (''byteLen'', Some (JNum (PosInt (of_nat len))))]"

definition zip_inventory_json :: "'w export_env \<Rightarrow> string \<Rightarrow> (string, string option) result" where
  "zip_inventory_json env bytes =
    (if \<not> starts_with ZIP_MAGIC bytes then Ok None
     else and_then (ev_zip env bytes) (\<lambda>entries.
       and_then (collect_results (\<lambda>opened. and_then opened (\<lambda>e.
           if ze_is_dir e then Ok [] else and_then (and_then (ze_name e) safe_zip_asset_name) (\<lambda>path.
             Ok [raw_zip_entry_json path (ze_size e)]))) entries) (\<lambda>vs.
       Ok (Some (xl_print (ev_library env) (JArr (concat vs)))))))"

definition link_source :: "payload_source \<Rightarrow> 'w export_state \<Rightarrow> bool \<times> 'w export_state" where
  "link_source r s = (let (fresh, t) = link_raw_payload_source r (xs_sources s) in (fresh, s\<lparr>xs_sources := t\<rparr>))"

definition insert_payload :: "raw_payload \<Rightarrow> ('w export_state, unit) action" where
  "insert_payload r s = (case insert_raw_payload_if_absent r (xs_payloads s) of
     Err e \<Rightarrow> (Err e, s)
   | Ok t \<Rightarrow> (Ok (), s\<lparr>xs_payloads := t\<rparr>))"

definition record_source ::
  "string \<Rightarrow> string \<Rightarrow> string \<Rightarrow> external_data \<Rightarrow> string \<Rightarrow> ('w export_state, string) action" where
  "record_source rh translation external d hash s =
    (let (fresh, s) = link_source \<lparr>sx_request_hash = rh, sx_translation_id = Some translation,
           sx_external_data_id = Some external, sx_result_index = Some 0,
           sx_response_headers_json = ed_response_headers_json d, sx_etag = ed_etag d,
           sx_raw_payload_hash = hash\<rparr> s
     in (and_then (ensure (fresh \<or> raw_payload_hash_for_source rh (Some translation) (Some external) (Some 0)
             (xs_sources s) = Some hash) ''raw payload source mapping already exists with a different payload hash'')
           (\<lambda>_. Ok hash), s))"

definition persist_downloaded_raw_payload ::
  "'w export_env \<Rightarrow> string \<Rightarrow> string \<Rightarrow> string \<Rightarrow> external_data \<Rightarrow> ('w export_state, string) action" where
  "persist_downloaded_raw_payload env rh translation external d =
    (let hash = hex_sha256 (ev_sha env) (ed_bytes d); key = raw_payload_object_key hash in
     and_next (answer_with (map_err (append ''inspecting raw payload ZIP inventory: '') (zip_inventory_json env (ed_bytes d)))) (\<lambda>inventory.
     and_next (put_bytes env key (ed_bytes d) (ifnull (ed_content_type d) ''application/octet-stream'')) (\<lambda>_.
     and_next (insert_payload \<lparr>rw_raw_payload_hash = hash, rw_object_key = key, rw_content_type = ed_content_type d,
         rw_byte_len = int (length (ed_bytes d)), rw_headers_json = ed_response_headers_json d,
         rw_original_filename = ed_original_filename d, rw_filename_source = ed_filename_source d,
         rw_detected_kind = detect_raw_payload_kind (ev_library env) (ed_bytes d),
         rw_zip_manifest_json = inventory\<rparr>) (\<lambda>_.
     record_source rh translation external d hash))))"
definition existing_raw_payload_for_source ::
  "string \<Rightarrow> string \<Rightarrow> string \<Rightarrow> 'w export_state \<Rightarrow> (string, string option) result" where
  "existing_raw_payload_for_source rh translation external s =
    (case raw_payload_hash_for_source rh (Some translation) (Some external) (Some 0) (xs_sources s) of
       None \<Rightarrow> Ok None
     | Some hash \<Rightarrow> and_then (ensure (raw_payload_row hash (xs_payloads s) \<noteq> None)
         (''raw payload source mapping points to missing payload record '' @ hash)) (\<lambda>_. Ok (Some hash)))"

definition verify_raw_payload_bytes :: "digest \<Rightarrow> string \<Rightarrow> string \<Rightarrow> (string, unit) result" where
  "verify_raw_payload_bytes sha hash bytes = ensure (hex_sha256 sha bytes = hash)
     (''raw payload bytes sha256 mismatch: expected '' @ hash @ '', got '' @ hex_sha256 sha bytes)"

definition load_persisted_raw_payload ::
  "'w export_env \<Rightarrow> string \<Rightarrow> ('w export_state, raw_payload \<times> string) action" where
  "load_persisted_raw_payload env hash s =
    and_next (answer_with (ok_or (raw_payload_row hash (xs_payloads s)) (''missing raw payload record for '' @ hash))) (\<lambda>r.
    and_next (get_bytes env (rw_object_key r)) (\<lambda>bytes.
    answer_with (and_then (verify_raw_payload_bytes (ev_sha env) hash bytes) (\<lambda>_. Ok (r, bytes))))) s"

section \<open>Translations\<close>

definition parse_json_string_vec :: "export_library \<Rightarrow> string \<Rightarrow> (string, string list) result" where
  "parse_json_string_vec lib text_json = and_then (xl_parse lib text_json) (\<lambda>v.
     ok_or (Option.bind (as_array v) (\<lambda>vs. those (map as_str vs))) ''invalid type, expected a sequence of strings'')"

definition persisted_result_external_data_id :: "export_library \<Rightarrow> translation_row \<Rightarrow> (string, string) result" where
  "persisted_result_external_data_id lib t =
    and_then (parse_json_string_vec lib (ifnull (tr_result_external_data_ids_json t) ''[]'')) (\<lambda>ids. case ids of
      [i] \<Rightarrow> Ok i
    | [] \<Rightarrow> Err (''persisted Onshape translation '' @ tr_translation_id t @ '' completed without external data'')
    | _ \<Rightarrow> Err (''persisted Onshape translation '' @ tr_translation_id t @ '' returned '' @ nat_str (length ids) @
        '' downloadable results; expected exactly one''))"

definition translation_response_hash ::
  "'w export_env \<Rightarrow> string \<Rightarrow> string \<Rightarrow> string \<Rightarrow> string \<Rightarrow> (string, string) result" where
  "translation_response_hash env translation start final poll_state =
    and_then (xl_parse (ev_library env) start) (\<lambda>start.
    and_then (xl_parse (ev_library env) final) (\<lambda>final.
    and_then (xl_parse (ev_library env) poll_state) (\<lambda>poll_state.
      response_hash (ev_jcs env) (ev_sha env) \<lparr>rp_translation_id = translation, rp_start_response = start,
        rp_final_response = final, rp_poll_state = poll_state, rp_response_shape_version = RESPONSE_SHAPE_VERSION\<rparr>)))"

text \<open>What both callers do with the outcome of a poll: record it, and find the one result of a success.\<close>

definition record_final ::
  "'w export_env \<Rightarrow> string \<Rightarrow> polled_translation \<Rightarrow> string \<Rightarrow> ('w export_state, unit) action" where
  "record_final env translation polled hash s =
    (let print_ids = (\<lambda>ids. xl_print (ev_library env) (JArr (map JStr ids)));
         (_, t) = update_translation_final (now_of env s) translation polled
           (print_ids (pn_result_external_data_ids polled)) (print_ids (pn_result_element_ids polled)) hash
           (xs_translations s)
     in (Ok (), s\<lparr>xs_translations := t\<rparr>))"

definition settle_translation ::
  "'w export_env \<Rightarrow> string \<Rightarrow> string \<Rightarrow> polled_translation \<Rightarrow> ('w export_state, string) action" where
  "settle_translation env translation start polled =
    and_next (answer_with (translation_response_hash env translation start (pn_final_response_json polled)
        (pn_poll_state_json polled))) (\<lambda>hash.
    and_next (record_final env translation polled hash) (\<lambda>_.
    answer_with (and_then (ensure (pn_state polled = ''DONE'') (''Onshape translation '' @ translation @ '' failed: '' @
        ifnull (pn_failure_reason polled) (pn_final_response_json polled))) (\<lambda>_.
      single_external_data_id polled))))"
definition download_and_persist ::
  "'w export_env \<Rightarrow> string \<Rightarrow> export_request \<Rightarrow> string \<Rightarrow> string \<Rightarrow> ('w export_state, string) action" where
  "download_and_persist env rh r translation external =
    and_next (answer_with (document_id r)) (\<lambda>did.
    and_next (on_process (download_external_data (ev_library env) (ev_remote env) (ev_client env) did external)) (\<lambda>d.
    persist_downloaded_raw_payload env rh translation external d))"

definition existing_or_download ::
  "'w export_env \<Rightarrow> string \<Rightarrow> export_request \<Rightarrow> string \<Rightarrow> string \<Rightarrow> ('w export_state, string) action" where
  "existing_or_download env rh r translation external s =
    and_next (answer_with (existing_raw_payload_for_source rh translation external s)) (\<lambda>found. case found of
      Some hash \<Rightarrow> answer_with (Ok hash)
    | None \<Rightarrow> download_and_persist env rh r translation external) s"

definition poll_and_settle ::
  "'w export_env \<Rightarrow> export_request \<Rightarrow> string \<Rightarrow> string \<Rightarrow> ('w export_state, string) action" where
  "poll_and_settle env r translation start =
    and_next (answer_with (document_id r)) (\<lambda>did.
    and_next (on_process (poll_translation (ev_library env) (ev_remote env) (ev_client env) did translation)) (\<lambda>polled.
    settle_translation env translation start polled))"

definition record_start :: "'w export_env \<Rightarrow> string \<Rightarrow> started_translation \<Rightarrow> ('w export_state, unit) action" where
  "record_start env rh begun s = (Ok (), s\<lparr>xs_translations := insert_translation_start (now_of env s)
     (sn_translation_id begun) rh (sn_state begun) (sn_response_json begun) (xs_translations s)\<rparr>)"

definition start_and_download_translation ::
  "'w export_env \<Rightarrow> string \<Rightarrow> export_request \<Rightarrow> ('w export_state, string) action" where
  "start_and_download_translation env rh r =
    and_next (on_process (start_export_request (ev_library env) (ev_remote env) (ev_client env) r)) (\<lambda>begun.
    and_next (record_start env rh begun) (\<lambda>_.
    and_next (poll_and_settle env r (sn_translation_id begun) (sn_response_json begun)) (\<lambda>external.
    download_and_persist env rh r (sn_translation_id begun) external)))"

definition resume_translation ::
  "'w export_env \<Rightarrow> string \<Rightarrow> export_request \<Rightarrow> translation_row \<Rightarrow> ('w export_state, string) action" where
  "resume_translation env rh r t =
    and_next (poll_and_settle env r (tr_translation_id t) (ifnull (tr_start_response_json t) ''{}'')) (\<lambda>external.
    existing_or_download env rh r (tr_translation_id t) external)"

definition download_translation_result ::
  "'w export_env \<Rightarrow> string \<Rightarrow> export_request \<Rightarrow> translation_row \<Rightarrow> ('w export_state, string) action" where
  "download_translation_result env rh r t =
    and_next (answer_with (ensure (tr_state t = ''DONE'') (''persisted Onshape translation '' @ tr_translation_id t @
        '' is not resumable: '' @ tr_state t @ (case tr_failure_reason t of Some reason \<Rightarrow> '': '' @ reason | None \<Rightarrow> [])))) (\<lambda>_.
    and_next (answer_with (persisted_result_external_data_id (ev_library env) t)) (\<lambda>external.
    existing_or_download env rh r (tr_translation_id t) external))"

definition persisted_payload_of_result ::
  "'w export_env \<Rightarrow> string \<Rightarrow> translation_row \<Rightarrow> 'w export_state \<Rightarrow> (string, string option) result" where
  "persisted_payload_of_result env rh t s =
    and_then (persisted_result_external_data_id (ev_library env) t) (\<lambda>external.
    existing_raw_payload_for_source rh (tr_translation_id t) external s)"

definition execute_staged_export_request ::
  "'w export_env \<Rightarrow> string \<Rightarrow> export_request \<Rightarrow> ('w export_state, string) action" where
  "execute_staged_export_request env rh r s =
    (case latest_completed_translation_for_request rh (xs_translations s) of
       Some t \<Rightarrow> and_next (answer_with (persisted_payload_of_result env rh t s)) (\<lambda>found. case found of
           Some hash \<Rightarrow> answer_with (Ok hash)
         | None \<Rightarrow> download_translation_result env rh r t) s
     | None \<Rightarrow> (case latest_translation_for_request rh (xs_translations s) of
         Some t \<Rightarrow> if tr_final_response_json t \<noteq> None then start_and_download_translation env rh r s
           else resume_translation env rh r t s
       | None \<Rightarrow> start_and_download_translation env rh r s))"

end
