(* ===== verification/Payload_Artifacts.thy ===== *)
theory Payload_Artifacts
  imports Staged_Exports
begin

text \<open>
  What a raw payload becomes (\<open>src/src/main.rs\<close>): a preview out of a GLB, a glTF document or an archive
  with one of them, and a download whose file is the payload, the one STEP file of an archive, or the
  archive itself. The reader of ZIP archives is a parameter; of an error the outermost message is kept,
  the one that its display shows.
\<close>

section \<open>Archives\<close>

definition ALLOW_PARTIAL_MULTI_GLTF_PREVIEW_FALLBACK :: bool where
  "ALLOW_PARTIAL_MULTI_GLTF_PREVIEW_FALLBACK = False"

type_synonym zip_reader = "string \<Rightarrow> (string, zip_archive) result"

definition by_index :: "zip_archive \<Rightarrow> nat \<Rightarrow> (string, zip_entry) result" where
  "by_index archive i = (if i < length archive then archive ! i else Err ''specified file not found in archive'')"

text \<open>\<open>Vec::with_capacity\<close> of the declared size, which panics above \<open>isize::MAX\<close>, then \<open>read_to_end\<close>.\<close>

definition read_entry_data :: "zip_entry \<Rightarrow> (string, string) result" where
  "read_entry_data e = and_then (ensure (int (ze_size e) \<le> I64_MAX) ''panicked: capacity overflow'') (\<lambda>_. ze_data e)"

definition read_zip_entry :: "zip_archive \<Rightarrow> nat \<Rightarrow> (string, string) result" where
  "read_zip_entry archive i = and_then (by_index archive i) read_entry_data"

definition zip_entry_safe_name :: "zip_archive \<Rightarrow> nat \<Rightarrow> (string, string) result" where
  "zip_entry_safe_name archive i = and_then (by_index archive i) (\<lambda>e. and_then (ze_name e) safe_zip_asset_name)"

text \<open>The loops over the indices of an archive: a directory is passed over, any other entry gives what \<open>f\<close> says.\<close>

definition each_file :: "(zip_entry \<Rightarrow> nat \<Rightarrow> (string, 'a list) result) \<Rightarrow> zip_archive \<Rightarrow> (string, 'a list) result" where
  "each_file f archive = and_then (collect_results (\<lambda>i. and_then (by_index archive i) (\<lambda>e.
     if ze_is_dir e then Ok [] else f e i)) [0..<length archive]) (\<lambda>xs. Ok (concat xs))"

definition zip_entry_indices_with_extension :: "zip_archive \<Rightarrow> string \<Rightarrow> (string, nat list) result" where
  "zip_entry_indices_with_extension archive extension = each_file (\<lambda>e i. and_then (ze_name e) (\<lambda>name.
     Ok (if ends_with (''.'' @ extension) (to_lower name) then [i] else []))) archive"

definition zip_file_entry_indices :: "zip_archive \<Rightarrow> (string, nat list) result" where
  "zip_file_entry_indices archive = each_file (\<lambda>e i. and_then (and_then (ze_name e) safe_zip_asset_name) (\<lambda>_. Ok [i])) archive"

fun largest_from :: "zip_archive \<Rightarrow> (nat \<times> nat) option \<Rightarrow> nat list \<Rightarrow> (string, (nat \<times> nat) option) result" where
  "largest_from archive largest [] = Ok largest"
| "largest_from archive largest (i # is) = and_then (by_index archive i) (\<lambda>e.
     largest_from archive (case largest of
       Some (_, n) \<Rightarrow> if ze_size e > n then Some (i, ze_size e) else largest
     | None \<Rightarrow> Some (i, ze_size e)) is)"

definition largest_zip_entry :: "zip_archive \<Rightarrow> nat list \<Rightarrow> (string, nat option) result" where
  "largest_zip_entry archive is = and_then (largest_from archive None is) (\<lambda>largest. Ok (map_option fst largest))"

section \<open>Previews\<close>

record preview_asset =
  sd_role :: string
  sd_logical_path :: string
  sd_original_path :: "string option"
  sd_content_type :: string
  sd_bytes :: string

record preview_artifact =
  vw_logical_path :: string
  vw_original_path :: "string option"
  vw_content_type :: string
  vw_bytes :: string
  vw_sidecars :: "preview_asset list"

definition le_number :: "string \<Rightarrow> nat" where
  "le_number bytes = foldr (\<lambda>c n. code c + 256 * n) bytes 0"

definition validate_glb :: "string \<Rightarrow> (string, unit) result" where
  "validate_glb bytes = (let version = le_number (take 4 (drop 4 bytes)); declared = le_number (take 4 (drop 8 bytes)) in checks [
     ensure (12 \<le> length bytes) ''GLB data is shorter than its header'',
     ensure (take 4 bytes = ''glTF'') ''GLB data has an invalid magic header'',
     ensure (version = 2) (''unsupported GLB version: '' @ nat_str version),
     ensure (declared = length bytes) (''GLB declared length '' @ nat_str declared @ '' does not match '' @
       nat_str (length bytes) @ '' bytes'')])"

definition preview_asset_content_type :: "string \<Rightarrow> string" where
  "preview_asset_content_type name = (let lower = to_lower name in
     if ends_with ''.gltf'' lower then ''model/gltf+json''
     else if ends_with ''.bin'' lower then ''application/octet-stream''
     else if ends_with ''.png'' lower then ''image/png''
     else if ends_with ''.jpg'' lower \<or> ends_with ''.jpeg'' lower then ''image/jpeg''
     else if ends_with ''.webp'' lower then ''image/webp''
     else ''application/octet-stream'')"

text \<open>
  \<open>Path::components\<close> of the standard library, without the root: empty segments are skipped, and so is
  \<open>.\<close> except at the start of a relative path. The parent drops the last one.
\<close>

definition path_components :: "string \<Rightarrow> string list" where
  "path_components path = (case filter (\<lambda>s. s \<noteq> []) (split_on CHR ''/'' path) of
     [] \<Rightarrow> []
   | s # ss \<Rightarrow> (if s = ''.'' \<and> starts_with ''/'' path then [] else [s]) @ filter (\<lambda>s. s \<noteq> ''.'') ss)"

definition parent_names :: "string \<Rightarrow> string list" where
  "parent_names path = filter (\<lambda>s. s \<noteq> ''.'' \<and> s \<noteq> ''..'') (butlast (path_components path))"

definition normalize_gltf_reference_uri :: "string \<Rightarrow> string \<Rightarrow> (string, string) result" where
  "normalize_gltf_reference_uri primary_name uri = (let parts = split_on CHR ''/'' uri in
     and_then (checks [
       ensure (uri \<noteq> []) ''URI is empty'',
       ensure (uri = trim uri) ''URI must not have surrounding whitespace'',
       ensure (\<not> starts_with ''data:'' (to_lower uri)) ''data URI sidecars are not supported'',
       ensure (\<not> contains ''://'' uri) ''external URI sidecars are not supported'',
       ensure (\<not> starts_with ''/'' uri \<and> \<not> starts_with [BACKSLASH] uri) ''absolute sidecar paths are not supported'',
       ensure (BACKSLASH \<notin> set uri) ''backslash sidecar paths are not supported'',
       ensure (CHR ''?'' \<notin> set uri \<and> CHR ''#'' \<notin> set uri) ''URI query and fragment components are not supported'',
       each (\<lambda>_ part. checks [
         ensure (part \<noteq> []) ''URI contains an empty path segment'',
         ensure (part \<noteq> ''.'' \<and> part \<noteq> ''..'') ''URI contains an unsafe path segment'',
         ensure (list_all (\<lambda>c. \<not> is_control c) (chars part)) ''URI contains control characters'']) parts])
       (\<lambda>_. Ok (join_with CHR ''/'' (parent_names primary_name @ parts))))"

text \<open>The URIs of \<open>buffers\<close> and \<open>images\<close>, as a set; entries without a text \<open>uri\<close> are passed over.\<close>

definition collect_gltf_uri_references ::
  "string \<Rightarrow> json option \<Rightarrow> string \<Rightarrow> string list \<Rightarrow> (string, string list) result" where
  "collect_gltf_uri_references primary_name values kind assets = (case Option.bind values as_array of
     None \<Rightarrow> Ok assets
   | Some vs \<Rightarrow> try_fold (\<lambda>assets v. case Option.bind (field ''uri'' v) as_str of
         None \<Rightarrow> Ok assets
       | Some uri \<Rightarrow> and_then (map_err (\<lambda>_. ''glTF '' @ kind @ '' URI is unsupported: '' @ uri)
           (normalize_gltf_reference_uri primary_name uri)) (\<lambda>normalized. Ok (List.insert normalized assets))) assets vs)"

definition referenced_gltf_sidecar_assets :: "export_library \<Rightarrow> string \<Rightarrow> string \<Rightarrow> (string, string list) result" where
  "referenced_gltf_sidecar_assets lib primary_name bytes =
    and_then (xl_parse lib bytes) (\<lambda>v.
    and_then (ensure (Option.bind (Option.bind (field ''asset'' v) (field ''version'')) as_str \<noteq> None)
      ''glTF JSON did not include asset.version'') (\<lambda>_.
    and_then (collect_gltf_uri_references primary_name (field ''buffers'' v) ''buffer'' []) (\<lambda>assets.
    collect_gltf_uri_references primary_name (field ''images'' v) ''image'' assets)))"

definition zip_sidecar :: "zip_archive \<Rightarrow> nat \<Rightarrow> (string, preview_asset list) result" where
  "zip_sidecar archive i = and_then (by_index archive i) (\<lambda>e.
     if ze_is_dir e then Ok []
     else and_then (and_then (ze_name e) safe_zip_asset_name) (\<lambda>name.
       and_then (read_entry_data e) (\<lambda>bytes.
       Ok [\<lparr>sd_role = ''sidecar'', sd_logical_path = name, sd_original_path = Some name,
         sd_content_type = preview_asset_content_type name, sd_bytes = bytes\<rparr>])))"

text \<open>
  The set of references is iterated in an order that is not specified; which missing one is named is
  taken to be the first that was collected.
\<close>

definition preview_artifact_from_gltf_zip :: "export_library \<Rightarrow> zip_archive \<Rightarrow> (string, preview_artifact) result" where
  "preview_artifact_from_gltf_zip lib archive =
    and_then (zip_entry_indices_with_extension archive ''gltf'') (\<lambda>gltf_entries.
    and_then (case gltf_entries of
        [] \<Rightarrow> Err ''Onshape preview ZIP contained neither a GLB nor a glTF preview file''
      | [i] \<Rightarrow> Ok i
      | is \<Rightarrow> if ALLOW_PARTIAL_MULTI_GLTF_PREVIEW_FALLBACK
          then and_then (largest_zip_entry archive is) (\<lambda>i. ok_or i ''panicked: indices are non-empty'')
          else Err ''Onshape preview ZIP contained multiple glTF files; grouped preview export did not produce a single viewer asset'') (\<lambda>primary.
    and_then (zip_entry_safe_name archive primary) (\<lambda>primary_name.
    and_then (read_zip_entry archive primary) (\<lambda>primary_bytes.
    and_then (map_err (\<lambda>_. ''validating zipped glTF preview JSON'')
      (referenced_gltf_sidecar_assets lib primary_name primary_bytes)) (\<lambda>referenced.
    and_then (collect_results (zip_sidecar archive) (filter (\<lambda>i. i \<noteq> primary) [0..<length archive])) (\<lambda>found.
    let sidecars = concat found in
    and_then (each (\<lambda>_ asset. ensure (asset \<in> sd_logical_path ` set sidecars)
      (''glTF preview ZIP is missing referenced sidecar asset: '' @ asset)) referenced) (\<lambda>_.
    Ok \<lparr>vw_logical_path = primary_name, vw_original_path = Some primary_name, vw_content_type = ''model/gltf+json'',
      vw_bytes = primary_bytes, vw_sidecars = sidecars\<rparr>)))))))"

definition preview_artifact_from_zip :: "export_library \<Rightarrow> zip_reader \<Rightarrow> string \<Rightarrow> (string, preview_artifact) result" where
  "preview_artifact_from_zip lib zip_new bytes =
    and_then (zip_new bytes) (\<lambda>archive.
    and_then (zip_entry_indices_with_extension archive ''glb'') (\<lambda>glb_entries. case glb_entries of
      [i] \<Rightarrow> and_then (read_zip_entry archive i) (\<lambda>bytes.
        and_then (map_err (\<lambda>_. ''validating zipped GLB preview export'') (validate_glb bytes)) (\<lambda>_.
        and_then (zip_entry_safe_name archive i) (\<lambda>name.
        Ok \<lparr>vw_logical_path = ''preview.glb'', vw_original_path = Some name, vw_content_type = ''model/gltf-binary'',
          vw_bytes = bytes, vw_sidecars = []\<rparr>)))
    | [] \<Rightarrow> preview_artifact_from_gltf_zip lib archive
    | _ \<Rightarrow> Err ''Onshape preview ZIP contained multiple GLB files; expected exactly one GLB preview artifact''))"

definition preview_artifact_from_onshape_bytes ::
  "export_library \<Rightarrow> zip_reader \<Rightarrow> string \<Rightarrow> (string, preview_artifact) result" where
  "preview_artifact_from_onshape_bytes lib zip_new bytes =
    (if starts_with ''glTF'' bytes
     then and_then (map_err (\<lambda>_. ''validating direct GLB preview export'') (validate_glb bytes)) (\<lambda>_.
       Ok \<lparr>vw_logical_path = ''preview.glb'', vw_original_path = None, vw_content_type = ''model/gltf-binary'',
         vw_bytes = bytes, vw_sidecars = []\<rparr>)
     else if starts_with ZIP_MAGIC bytes then preview_artifact_from_zip lib zip_new bytes
     else and_then (map_err (\<lambda>_. ''validating direct glTF preview export'') (validate_gltf_json lib bytes)) (\<lambda>_.
       Ok \<lparr>vw_logical_path = ''preview.gltf'', vw_original_path = None, vw_content_type = ''model/gltf+json'',
         vw_bytes = bytes, vw_sidecars = []\<rparr>))"

section \<open>Downloads\<close>

text \<open>A character outside the set becomes one dash, however many bytes it has.\<close>

definition safe_filename_stem :: "string \<Rightarrow> string" where
  "safe_filename_stem v = map (\<lambda>c. if (97 \<le> c \<and> c \<le> 122) \<or> (65 \<le> c \<and> c \<le> 90) \<or> (48 \<le> c \<and> c \<le> 57) \<or> c = 45 \<or> c = 95
     then char_of c else CHR ''-'') (chars v)"

definition model_download_filename :: "model \<Rightarrow> download_format \<Rightarrow> string" where
  "model_download_filename m format =
    safe_filename_stem (md_slug m) @ ''-'' @ format_slug format @ ''.'' @ format_extension format"

definition download_package_filename :: "model \<Rightarrow> download_format \<Rightarrow> string" where
  "download_package_filename m format = safe_filename_stem (md_slug m) @ ''-'' @ format_slug format @ ''.zip''"

record download_artifact =
  dl_logical_path :: string
  dl_original_path :: "string option"
  dl_content_type :: string
  dl_bytes :: string

definition step_artifact_from_onshape_bytes :: "zip_reader \<Rightarrow> model \<Rightarrow> string \<Rightarrow> (string, download_artifact) result" where
  "step_artifact_from_onshape_bytes zip_new m bytes =
    (let name = model_download_filename m Step; package = download_package_filename m Step in
     if \<not> starts_with ZIP_MAGIC bytes
     then Ok \<lparr>dl_logical_path = name, dl_original_path = Some name, dl_content_type = format_content_type Step, dl_bytes = bytes\<rparr>
     else and_then (map_err (\<lambda>_. ''reading zipped STEP download payload'') (zip_new bytes)) (\<lambda>archive.
       and_then (zip_file_entry_indices archive) (\<lambda>file_entries.
       and_then (zip_entry_indices_with_extension archive ''step'') (\<lambda>step_entries.
       if length file_entries = 1 \<and> length step_entries = 1
       then and_then (zip_entry_safe_name archive (hd step_entries)) (\<lambda>original.
         and_then (read_zip_entry archive (hd step_entries)) (\<lambda>data.
         Ok \<lparr>dl_logical_path = name, dl_original_path = Some original, dl_content_type = format_content_type Step,
           dl_bytes = data\<rparr>))
       else Ok \<lparr>dl_logical_path = package, dl_original_path = Some package, dl_content_type = ''application/zip'',
         dl_bytes = bytes\<rparr>))))"

definition download_artifact_from_onshape_bytes ::
  "zip_reader \<Rightarrow> model \<Rightarrow> download_format \<Rightarrow> string \<Rightarrow> (string, download_artifact) result" where
  "download_artifact_from_onshape_bytes zip_new m format bytes =
    (if format = Step then step_artifact_from_onshape_bytes zip_new m bytes
     else let name = model_download_filename m format in
       Ok \<lparr>dl_logical_path = name, dl_original_path = Some name, dl_content_type = format_content_type format,
         dl_bytes = bytes\<rparr>)"

section \<open>What an accepted preview contains\<close>

text \<open>A path that is its own safe name: relative, with \<open>/\<close> between segments that name something.\<close>

definition safe_path :: "string \<Rightarrow> bool" where
  "safe_path path \<longleftrightarrow> safe_zip_asset_name path = Ok path"

lemma safe_name_Ok: "safe_zip_asset_name name = Ok path \<longleftrightarrow> path = name \<and> safe_path name"
  by (auto simp: safe_path_def safe_zip_asset_name_def Let_def and_then_Ok)

lemma zip_entry_safe_name_Ok:
  "zip_entry_safe_name archive i = Ok name \<longleftrightarrow>
    (\<exists>e. by_index archive i = Ok e \<and> ze_name e = Ok name \<and> safe_path name)"
  by (auto simp: zip_entry_safe_name_def and_then_Ok safe_name_Ok)

lemma read_zip_entry_Ok:
  "read_zip_entry archive i = Ok bytes \<Longrightarrow> \<exists>e. by_index archive i = Ok e \<and> ze_data e = Ok bytes"
  by (auto simp: read_zip_entry_def read_entry_data_def and_then_Ok)

lemma zip_sidecar_Ok:
  "zip_sidecar archive i = Ok found \<Longrightarrow> \<exists>e. by_index archive i = Ok e \<and>
    (if ze_is_dir e then found = []
     else \<exists>sd. found = [sd] \<and> ze_name e = Ok (sd_logical_path sd) \<and> ze_data e = Ok (sd_bytes sd)
       \<and> safe_path (sd_logical_path sd))"
  by (auto simp: zip_sidecar_def read_entry_data_def and_then_Ok safe_name_Ok split: if_splits)

lemma collect_results_each:
  assumes "collect_results f xs = Ok ys"
  shows "\<And>x. x \<in> set xs \<Longrightarrow> \<exists>y \<in> set ys. f x = Ok y" and "\<And>y. y \<in> set ys \<Longrightarrow> \<exists>x \<in> set xs. f x = Ok y"
proof -
  have all: "list_all2 (\<lambda>x y. f x = Ok y) xs ys" using assms by (simp add: collect_results_Ok)
  show "\<And>x. x \<in> set xs \<Longrightarrow> \<exists>y \<in> set ys. f x = Ok y" using all by (induction rule: list_all2_induct) auto
  show "\<And>y. y \<in> set ys \<Longrightarrow> \<exists>x \<in> set xs. f x = Ok y" using all by (induction rule: list_all2_induct) auto
qed

text \<open>The URIs that a glTF document refers to.\<close>

definition uris_of :: "json option \<Rightarrow> string set" where
  "uris_of values = (case Option.bind values as_array of
     None \<Rightarrow> {}
   | Some vs \<Rightarrow> {uri. \<exists>v \<in> set vs. Option.bind (field ''uri'' v) as_str = Some uri})"

definition gltf_uris :: "json \<Rightarrow> string set" where
  "gltf_uris v = uris_of (field ''buffers'' v) \<union> uris_of (field ''images'' v)"

lemma collect_gltf_fold:
  assumes "try_fold (\<lambda>assets v. case Option.bind (field ''uri'' v) as_str of
         None \<Rightarrow> Ok assets
       | Some uri \<Rightarrow> and_then (map_err (m uri) (f uri)) (\<lambda>normalized. Ok (List.insert normalized assets))) assets vs = Ok found"
  shows "set assets \<subseteq> set found
    \<and> (\<forall>v \<in> set vs. \<forall>uri. Option.bind (field ''uri'' v) as_str = Some uri \<longrightarrow> (\<exists>q \<in> set found. f uri = Ok q))"
  using assms
proof (induction vs arbitrary: assets)
  case (Cons v vs)
  show ?case
  proof (cases "Option.bind (field ''uri'' v) as_str")
    case None
    then show ?thesis using Cons.IH [of assets] Cons.prems by simp
  next
    case (Some uri)
    then obtain q where q: "f uri = Ok q" using Cons.prems by (cases "f uri") (auto simp: and_then_def map_err_def)
    then show ?thesis
      using Cons.IH [of "List.insert q assets"] Cons.prems Some by (auto simp: and_then_def map_err_def)
  qed
qed simp

lemma collect_gltf_Ok:
  assumes "collect_gltf_uri_references primary values kind assets = Ok found"
  shows "set assets \<subseteq> set found
    \<and> (\<forall>uri \<in> uris_of values. \<exists>q \<in> set found. normalize_gltf_reference_uri primary uri = Ok q)"
proof (cases "Option.bind values as_array")
  case None
  then show ?thesis using assms by (simp add: collect_gltf_uri_references_def uris_of_def)
next
  case (Some vs)
  then show ?thesis
    using collect_gltf_fold [OF assms [unfolded collect_gltf_uri_references_def Some option.case]]
    by (auto simp: uris_of_def)
qed

lemma referenced_Ok:
  assumes "referenced_gltf_sidecar_assets lib primary bytes = Ok found"
  shows "validate_gltf_json lib bytes = Ok () \<and> (\<exists>v. xl_parse lib bytes = Ok v
    \<and> (\<forall>uri \<in> gltf_uris v. \<exists>q \<in> set found. normalize_gltf_reference_uri primary uri = Ok q))"
proof -
  obtain v assets where "xl_parse lib bytes = Ok v"
    "Option.bind (Option.bind (field ''asset'' v) (field ''version'')) as_str \<noteq> None"
    "collect_gltf_uri_references primary (field ''buffers'' v) ''buffer'' [] = Ok assets"
    "collect_gltf_uri_references primary (field ''images'' v) ''image'' assets = Ok found"
    using assms by (auto simp: referenced_gltf_sidecar_assets_def and_then_Ok ensure_Ok)
  then show ?thesis
    using collect_gltf_Ok [of primary "field ''buffers'' v"] collect_gltf_Ok [of primary "field ''images'' v"]
    unfolding validate_gltf_json_def gltf_uris_def by (simp add: and_then_def ensure_Ok) blast
qed

text \<open>
  A glTF preview out of an archive has every file of it, under its own name, and every buffer and image
  that its document refers to.
\<close>

definition complete_archive :: "export_library \<Rightarrow> zip_archive \<Rightarrow> preview_artifact \<Rightarrow> bool" where
  "complete_archive lib archive a \<longleftrightarrow>
    (\<forall>e. Ok e \<in> set archive \<longrightarrow> \<not> ze_is_dir e \<longrightarrow>
      ze_name e = Ok (vw_logical_path a) \<and> ze_data e = Ok (vw_bytes a)
      \<or> (\<exists>sd \<in> set (vw_sidecars a). ze_name e = Ok (sd_logical_path sd) \<and> ze_data e = Ok (sd_bytes sd)))
    \<and> (\<exists>v. xl_parse lib (vw_bytes a) = Ok v \<and> (\<forall>uri \<in> gltf_uris v. \<exists>sd \<in> set (vw_sidecars a).
        normalize_gltf_reference_uri (vw_logical_path a) uri = Ok (sd_logical_path sd)))"

lemma gltf_zip_complete:
  assumes "preview_artifact_from_gltf_zip lib archive = Ok a"
  shows "vw_content_type a = ''model/gltf+json'' \<and> validate_gltf_json lib (vw_bytes a) = Ok ()
    \<and> safe_path (vw_logical_path a) \<and> (\<forall>sd \<in> set (vw_sidecars a). safe_path (sd_logical_path sd))
    \<and> complete_archive lib archive a"
proof -
  obtain primary name bytes referenced found where
    primary: "zip_entry_safe_name archive primary = Ok name" "read_zip_entry archive primary = Ok bytes"
    and refs: "referenced_gltf_sidecar_assets lib name bytes = Ok referenced"
    and found: "collect_results (zip_sidecar archive) (filter (\<lambda>i. i \<noteq> primary) [0..<length archive]) = Ok found"
    and there: "set referenced \<subseteq> sd_logical_path ` set (concat found)"
    and a: "a = \<lparr>vw_logical_path = name, vw_original_path = Some name, vw_content_type = ''model/gltf+json'',
      vw_bytes = bytes, vw_sidecars = concat found\<rparr>"
    using assms unfolding preview_artifact_from_gltf_zip_def Let_def and_then_Ok map_err_Ok each_ensure list_all_iff
      sum.inject subset_iff [symmetric] by blast
  note all = collect_results_each  note all = collect_results_each [OF found(1)]
  have safe: "safe_path (sd_logical_path sd)" if sd: "sd \<in> set (vw_sidecars a)" for sd
  proof -
    obtain sds where sds: "sds \<in> set found" "sd \<in> set sds" using sd by (auto simp: a)
    then obtain i where "zip_sidecar archive i = Ok sds" using all(2) [OF sds(1)] by blast
    then show ?thesis using zip_sidecar_Ok [of archive i sds] sds(2) by (auto split: if_splits)
  qed
  have every_file: "ze_name e = Ok (vw_logical_path a) \<and> ze_data e = Ok (vw_bytes a)
      \<or> (\<exists>sd \<in> set (vw_sidecars a). ze_name e = Ok (sd_logical_path sd) \<and> ze_data e = Ok (sd_bytes sd))"
    if e: "Ok e \<in> set archive" "\<not> ze_is_dir e" for e
  proof -
    obtain i where i: "i < length archive" "by_index archive i = Ok e"
      using e(1) by (auto simp: in_set_conv_nth by_index_def)
    show ?thesis
    proof (cases "i = primary")
      case True
      then show ?thesis using i primary by (auto simp: a zip_entry_safe_name_Ok dest: read_zip_entry_Ok)
    next
      case False
      then obtain sds where sds: "sds \<in> set found" "zip_sidecar archive i = Ok sds" using all(1) [of i] i by auto
      then obtain sd where "sds = [sd]" "ze_name e = Ok (sd_logical_path sd)" "ze_data e = Ok (sd_bytes sd)"
        using zip_sidecar_Ok [of archive i sds] i e(2) by auto
      with sds(1) show ?thesis by (auto simp: a intro!: bexI [of _ "[sd]"])
    qed
  qed
  have "\<exists>sd \<in> set (vw_sidecars a). normalize_gltf_reference_uri (vw_logical_path a) uri = Ok (sd_logical_path sd)"
    if "xl_parse lib (vw_bytes a) = Ok v" "uri \<in> gltf_uris v" for v uri
    using referenced_Ok [OF refs] that there unfolding a by fastforce
  then show ?thesis
    using a referenced_Ok [OF refs] primary(1) safe every_file unfolding complete_archive_def
    by (auto simp: zip_entry_safe_name_Ok)
qed

lemma zip_preview:
  assumes "preview_artifact_from_zip lib zip_new bytes = Ok a"
  obtains archive where "zip_new bytes = Ok archive" "preview_artifact_from_gltf_zip lib archive = Ok a"
  | "vw_logical_path a = ''preview.glb''" "vw_content_type a = ''model/gltf-binary''" "validate_glb (vw_bytes a) = Ok ()"
    "vw_sidecars a = []"
proof -
  obtain archive entries where archive: "zip_new bytes = Ok archive"
    and entries: "zip_entry_indices_with_extension archive ''glb'' = Ok entries"
    using assms by (auto simp: preview_artifact_from_zip_def and_then_Ok)
  note a = assms [unfolded preview_artifact_from_zip_def archive and_then_def entries sum.case]
  consider "entries = []" | i where "entries = [i]" | i j js where "entries = i # j # js"
    by (metis list.exhaust)
  then show thesis
  proof cases
    case 2
    then show thesis
      using a that(2) by (auto simp: map_err_def split: sum.splits)
  qed (use a archive that(1) in auto)
qed


end
