(* ===== verification/Export_Publication.thy ===== *)
theory Export_Publication
  imports Payload_Artifacts Artifact_Store
begin

text \<open>
  The publication of an export (\<open>refresh_preview\<close> and \<open>refresh_download\<close> of \<open>src/src/main.rs\<close>): the request
  is recorded, executed, its payload processed, and the files of the artifact staged, stored, checked and
  marked ready, whereupon the artifacts they replace are superseded. The state is that of a staged export
  with the tables \<open>export_requests\<close> and \<open>postprocess_runs\<close> and the store of artifacts. What is done stays
  done when a later step fails. The resolution of the encoding of a configuration has its own tables and
  its own theory; here it is an argument.
\<close>

section \<open>The state\<close>

record export_request_row =
  xq_request_hash :: string
  xq_source_hash :: string
  xq_config_hash :: string
  xq_options_hash :: string
  xq_output_kind :: string
  xq_format :: string
  xq_endpoint :: string
  xq_method :: string
  xq_path :: string
  xq_request_json :: string
  xq_defaults_policy_version :: string
  xq_request_builder_version :: string
  xq_status :: string

record postprocess_run =
  pz_postprocess_hash :: string
  pz_raw_payload_hash :: string
  pz_processor_name :: string
  pz_processor_version :: string
  pz_policy_json :: string
  pz_status :: string
  pz_log_json :: string
  pz_derived_files_json :: string
  pz_created_at :: nat
  pz_updated_at :: nat

record 'w publication =
  pb_export :: "'w export_state"
  pb_requests :: "export_request_row list"
  pb_runs :: "postprocess_run list"
  pb_store :: store

text \<open>
  What HEAD answers for a key may depend on the object that is stored there: a length, when the answer has
  one, and a content type.
\<close>

record 'w publisher =
  pu_env :: "'w export_env"
  pu_libraries :: libraries
  pu_head :: "string \<Rightarrow> string option \<Rightarrow> 'w \<Rightarrow> (string, int option \<times> string option) result \<times> 'w"
  pu_sql_text :: "sql_error \<Rightarrow> string"

definition on_export :: "('w export_state, 'a) action \<Rightarrow> ('w publication, 'a) action" where
  "on_export m s = (let (r, x) = m (pb_export s) in (r, s\<lparr>pb_export := x\<rparr>))"

definition on_store :: "(store \<Rightarrow> 'a \<times> store) \<Rightarrow> ('w publication, 'a) action" where
  "on_store f s = (let (a, t) = f (pb_store s) in (Ok a, s\<lparr>pb_store := t\<rparr>))"

definition clock :: "'w publisher \<Rightarrow> 'w publication \<Rightarrow> nat" where
  "clock p s = now_of (pu_env p) (pb_export s)"

text \<open>\<open>ON CONFLICT DO NOTHING\<close> on the primary keys.\<close>

definition insert_export_request_if_absent :: "export_request_row \<Rightarrow> export_request_row list \<Rightarrow> bool \<times> export_request_row list" where
  "insert_export_request_if_absent r t =
    (if find_row xq_request_hash (xq_request_hash r) t = None then (True, t @ [r]) else (False, t))"

definition insert_postprocess_run_if_absent :: "postprocess_run \<Rightarrow> postprocess_run list \<Rightarrow> bool \<times> postprocess_run list" where
  "insert_postprocess_run_if_absent r t =
    (if find_row pz_postprocess_hash (pz_postprocess_hash r) t = None then (True, t @ [r]) else (False, t))"

definition settled_run :: "nat \<Rightarrow> string \<Rightarrow> string \<Rightarrow> string \<Rightarrow> postprocess_run \<Rightarrow> postprocess_run" where
  "settled_run now status entries derived r = r\<lparr>pz_status := status, pz_log_json := entries, pz_derived_files_json := derived,
     pz_updated_at := now\<rparr>"

interpretation settled_run: keyed_update pz_postprocess_hash "settled_run now status entries derived" for now status entries derived
  by unfold_locales (simp add: settled_run_def)

definition transition_postprocess_run_status ::
  "nat \<Rightarrow> string \<Rightarrow> string \<Rightarrow> string \<Rightarrow> string \<Rightarrow> postprocess_run list \<Rightarrow> bool \<times> postprocess_run list" where
  "transition_postprocess_run_status now hash status entries derived t =
    one_row (update_where (\<lambda>r. pz_postprocess_hash r = hash) (settled_run now status entries derived) t)"

section \<open>Preparing the request\<close>

definition export_options_hash :: "'w publisher \<Rightarrow> string \<Rightarrow> string \<Rightarrow> json \<Rightarrow> (string, string) result" where
  "export_options_hash p format version options = map_err (\<lambda>_. ''panicked: export options serialize'')
     (options_hash (ev_jcs (pu_env p)) (ev_sha (pu_env p)) format version options)"

definition preview_options_hash :: "'w publisher \<Rightarrow> model \<Rightarrow> (string, string) result" where
  "preview_options_hash p m = export_options_hash p ''glb'' ''mesh-grouped-v3'' (members
     [(''resolution'', Some (JStr (preview_resolution_str (po_resolution (xc_preview_options (md_exports m))))))])"

definition download_options_hash :: "'w publisher \<Rightarrow> model \<Rightarrow> download_format \<Rightarrow> (string, string) result" where
  "download_options_hash p m format = (let options = xc_download_options (md_exports m) in case format of
     Step \<Rightarrow> export_options_hash p (format_slug format) ''step-grouped-v2'' (members
       [(''stepVersionString'', Some (JStr (step_version_str (do_step_version_string options)))), (''grouping'', Some (JBool True))])
   | Stl \<Rightarrow> export_options_hash p (format_slug format) ''stl-mesh-grouped-v2'' (members
       [(''resolution'', Some (JStr (mesh_resolution_str (so_resolution (do_stl options))))),
        (''stlMode'', Some (JStr (stl_mode_str (so_stl_mode (do_stl options))))), (''grouping'', Some (JBool True))])
   | ThreeMf \<Rightarrow> export_options_hash p (format_slug format) ''3mf-mesh-grouped-v2'' (members
       [(''resolution'', Some (JStr (mesh_resolution_str (to_resolution (do_three_mf options))))), (''grouping'', Some (JBool True))]))"

record prepared_export =
  px_options_hash :: string
  px_request_hash :: string
  px_request :: export_request

definition persist_export_request ::
  "'w publisher \<Rightarrow> string \<Rightarrow> string \<Rightarrow> string \<Rightarrow> string \<Rightarrow> string \<Rightarrow> export_request \<Rightarrow> ('w publication, string) action" where
  "persist_export_request p source config options kind format r s =
    and_next (answer_with (request_hash (ev_jcs (pu_env p)) (ev_sha (pu_env p)) (cx_identity r))) (\<lambda>hash s.
      let (_, t) = insert_export_request_if_absent \<lparr>xq_request_hash = hash, xq_source_hash = source,
        xq_config_hash = config, xq_options_hash = options, xq_output_kind = kind, xq_format = format,
        xq_endpoint = cx_operation r, xq_method = cx_method r, xq_path = cx_path r,
        xq_request_json = xl_print (ev_library (pu_env p)) (request_identity_json (cx_identity r)),
        xq_defaults_policy_version = rq_defaults_policy_version (cx_identity r),
        xq_request_builder_version = rq_request_builder_version (cx_identity r), xq_status = ''staged''\<rparr> (pb_requests s)
      in (Ok hash, s\<lparr>pb_requests := t\<rparr>)) s"

definition prepare_preview_export ::
  "'w publisher \<Rightarrow> ('w publication, encoded_configuration) action \<Rightarrow> model \<Rightarrow> string \<Rightarrow> string
    \<Rightarrow> ('w publication, prepared_export) action" where
  "prepare_preview_export p encoding_of m source config =
    and_next encoding_of (\<lambda>configuration.
    and_next (answer_with (preview_options_hash p m)) (\<lambda>options.
    let r = build_preview_glb_export_request (ev_client (pu_env p)) (md_onshape m) configuration (xc_preview_options (md_exports m)) in
    and_next (persist_export_request p source config options ''preview'' ''glb'' r) (\<lambda>hash.
    answer_with (Ok \<lparr>px_options_hash = options, px_request_hash = hash, px_request = r\<rparr>))))"

definition prepare_download_export ::
  "'w publisher \<Rightarrow> ('w publication, encoded_configuration) action \<Rightarrow> model \<Rightarrow> string \<Rightarrow> string \<Rightarrow> download_format
    \<Rightarrow> ('w publication, prepared_export) action" where
  "prepare_download_export p encoding_of m source config format =
    and_next encoding_of (\<lambda>configuration.
    and_next (answer_with (download_options_hash p m format)) (\<lambda>options.
    let r = build_download_export_request (ev_client (pu_env p)) (md_onshape m) configuration format (xc_download_options (md_exports m)) in
    and_next (persist_export_request p source config options ''download'' (format_slug format) r) (\<lambda>hash.
    answer_with (Ok \<lparr>px_options_hash = options, px_request_hash = hash, px_request = r\<rparr>))))"

section \<open>Processing the payload\<close>

definition PREVIEW_POSTPROCESSOR_NAME :: string where "PREVIEW_POSTPROCESSOR_NAME = ''preview_extract''"
definition PREVIEW_POSTPROCESSOR_VERSION :: string where "PREVIEW_POSTPROCESSOR_VERSION = ''2''"
definition DOWNLOAD_POSTPROCESSOR_NAME :: string where "DOWNLOAD_POSTPROCESSOR_NAME = ''download_realize''"
definition DOWNLOAD_POSTPROCESSOR_VERSION :: string where "DOWNLOAD_POSTPROCESSOR_VERSION = ''2''"

definition preview_policy :: json where
  "preview_policy = members [
     (''acceptedInputShapes'', Some (JArr (map JStr [''direct_glb'', ''direct_gltf_json'', ''zip_single_glb'', ''zip_single_gltf_asset_set'']))),
     (''allowPartialMultiGltfPreviewFallback'', Some (JBool ALLOW_PARTIAL_MULTI_GLTF_PREVIEW_FALLBACK))]"

definition download_policy :: "download_format \<Rightarrow> json" where
  "download_policy format = members [
     (''strategy'', Some (JStr (if format = Step then ''step_zip_detection'' else ''identity''))),
     (''format'', Some (JStr (format_slug format))), (''contentType'', Some (JStr (format_content_type format))),
     (''acceptedInputShapes'', Some (JArr (map JStr (case format of
        Step \<Rightarrow> [''direct_step'', ''zip_single_step'', ''zip_step_package'']
      | _ \<Rightarrow> [''requested_format_bytes'']))))]"

text \<open>\<open>PostprocessLogEntry\<close>, alone in its log\<close>

definition log_json :: "'w publisher \<Rightarrow> string \<Rightarrow> string \<Rightarrow> string" where
  "log_json p level message = xl_print (ev_library (pu_env p))
     (JArr [members [(''level'', Some (JStr level)), (''message'', Some (JStr message))]])"

definition derived_file_json ::
  "'w publisher \<Rightarrow> string \<Rightarrow> string \<Rightarrow> string option \<Rightarrow> string option \<Rightarrow> string \<Rightarrow> string \<Rightarrow> json" where
  "derived_file_json p role path original object_key content_type bytes = members [
     (''role'', Some (JStr role)), (''logicalPath'', Some (JStr path)), (''originalPath'', Some (nullable JStr original)),
     (''objectKey'', map_option JStr object_key), (''contentType'', Some (JStr content_type)),
     (''byteLen'', Some (JNum (PosInt (of_nat (length bytes))))),
     (''sha256'', Some (JStr (hex_sha256 (ev_sha (pu_env p)) bytes)))]"

definition preview_artifact_derived_files :: "'w publisher \<Rightarrow> preview_artifact \<Rightarrow> json list" where
  "preview_artifact_derived_files p a =
     derived_file_json p ''viewer_entry'' (vw_logical_path a) (vw_original_path a) None (vw_content_type a) (vw_bytes a)
     # map (\<lambda>sd. derived_file_json p (sd_role sd) (sd_logical_path sd) (sd_original_path sd) None (sd_content_type sd) (sd_bytes sd))
         (vw_sidecars a)"

definition stage_run :: "'w publisher \<Rightarrow> string \<Rightarrow> string \<Rightarrow> string \<Rightarrow> string \<Rightarrow> json \<Rightarrow> ('w publication, unit) action" where
  "stage_run p hash raw name version policy s =
    (let now = clock p s; (_, t) = insert_postprocess_run_if_absent \<lparr>pz_postprocess_hash = hash, pz_raw_payload_hash = raw,
       pz_processor_name = name, pz_processor_version = version, pz_policy_json = xl_print (ev_library (pu_env p)) policy,
       pz_status = ''staged'', pz_log_json = ''[]'', pz_derived_files_json = ''[]'', pz_created_at = now,
       pz_updated_at = now\<rparr> (pb_runs s)
     in (Ok (), s\<lparr>pb_runs := t\<rparr>))"

definition settle_run :: "'w publisher \<Rightarrow> string \<Rightarrow> string \<Rightarrow> string \<Rightarrow> string \<Rightarrow> ('w publication, unit) action" where
  "settle_run p hash status entries derived s =
    (Ok (), s\<lparr>pb_runs := snd (transition_postprocess_run_status (clock p s) hash status entries derived (pb_runs s))\<rparr>)"

text \<open>
  What both processors do: the run is recorded under the hash of payload, processor and policy, the
  payload is loaded and turned into an artifact by \<open>realize\<close>, and the run ends ready or failed.
\<close>

definition postprocess ::
  "'w publisher \<Rightarrow> string \<Rightarrow> string \<Rightarrow> json \<Rightarrow> (string \<Rightarrow> (string, 'a) result) \<Rightarrow> ('a \<Rightarrow> json list) \<Rightarrow> string \<Rightarrow> string
    \<Rightarrow> ('w publication, string \<times> 'a) action" where
  "postprocess p name version policy realize derived message raw =
    and_next (answer_with (postprocess_hash (ev_jcs (pu_env p)) (ev_sha (pu_env p)) \<lparr>pp_raw_payload_hash = raw,
      pp_processor_name = name, pp_processor_version = version, pp_policy = policy\<rparr>)) (\<lambda>hash.
    and_next (stage_run p hash raw name version policy) (\<lambda>_.
    and_next (on_export (load_persisted_raw_payload (pu_env p) raw)) (\<lambda>(_, bytes). case realize bytes of
        Ok a \<Rightarrow> and_next (settle_run p hash ''ready'' (log_json p ''info'' message)
            (xl_print (ev_library (pu_env p)) (JArr (derived a)))) (\<lambda>_. answer_with (Ok (hash, a)))
      | Err e \<Rightarrow> and_next (settle_run p hash ''failed'' (log_json p ''error'' e) ''[]'') (\<lambda>_. answer_with (Err e)))))"

definition postprocess_preview_artifact :: "'w publisher \<Rightarrow> string \<Rightarrow> ('w publication, string \<times> preview_artifact) action" where
  "postprocess_preview_artifact p = postprocess p PREVIEW_POSTPROCESSOR_NAME PREVIEW_POSTPROCESSOR_VERSION preview_policy
     (preview_artifact_from_onshape_bytes (ev_library (pu_env p)) (ev_zip (pu_env p))) (preview_artifact_derived_files p)
     ''preview post-processing completed''"

definition postprocess_download_artifact ::
  "'w publisher \<Rightarrow> model \<Rightarrow> download_format \<Rightarrow> string \<Rightarrow> ('w publication, string \<times> download_artifact) action" where
  "postprocess_download_artifact p m format = postprocess p DOWNLOAD_POSTPROCESSOR_NAME DOWNLOAD_POSTPROCESSOR_VERSION
     (download_policy format) (download_artifact_from_onshape_bytes (ev_zip (pu_env p)) m format)
     (\<lambda>a. [derived_file_json p ''download'' (dl_logical_path a) (dl_original_path a) None (dl_content_type a) (dl_bytes a)])
     ''download post-processing completed''"

section \<open>Storing and checking a file\<close>

definition STRICT_UPLOAD_VERIFICATION :: bool where "STRICT_UPLOAD_VERIFICATION = False"

definition head_object :: "'w publisher \<Rightarrow> string \<Rightarrow> ('w export_state, int \<times> string option) action" where
  "head_object p key s =
    (let (r, w) = pu_head p key (xs_objects s key) (pc_world (xs_process s))
     in (and_then r (\<lambda>(len, content_type). and_then (ok_or len (''missing content_length in HEAD response for key: '' @ key))
            (\<lambda>len. Ok (len, content_type))),
         s\<lparr>xs_process := (xs_process s)\<lparr>pc_world := w\<rparr>\<rparr>))"

definition verify_uploaded_object_metadata :: "int \<times> string option \<Rightarrow> string \<Rightarrow> string \<Rightarrow> int \<Rightarrow> (string, unit) result" where
  "verify_uploaded_object_metadata metadata key content_type len = checks [
     ensure (fst metadata = len) (''uploaded object length mismatch for '' @ key @ '': expected '' @ int_str len @ '', got '' @ int_str (fst metadata)),
     if_some (snd metadata) (\<lambda>got. ensure (got = content_type) (''uploaded object content type mismatch for '' @ key @ '': expected '' @
       content_type @ '', got '' @ got))]"

definition verify_uploaded_object :: "'w publisher \<Rightarrow> string \<Rightarrow> string \<Rightarrow> int \<Rightarrow> ('w export_state, unit) action" where
  "verify_uploaded_object p key content_type len = and_next (head_object p key) (\<lambda>metadata.
     answer_with (verify_uploaded_object_metadata metadata key content_type len))"

definition verify_uploaded_object_bytes :: "digest \<Rightarrow> string \<Rightarrow> string \<Rightarrow> int \<Rightarrow> string \<Rightarrow> (string, unit) result" where
  "verify_uploaded_object_bytes sha bytes key len expected = checks [
     ensure (int (length bytes) = len) (''uploaded object read-back length mismatch for '' @ key @ '': expected '' @ int_str len @
       '', got '' @ nat_str (length bytes)),
     ensure (hex_sha256 sha bytes = expected) (''uploaded object read-back sha256 mismatch for '' @ key @ '': expected '' @ expected @
       '', got '' @ hex_sha256 sha bytes)]"

definition verify_uploaded_object_read_back :: "'w publisher \<Rightarrow> string \<Rightarrow> int \<Rightarrow> string \<Rightarrow> ('w export_state, unit) action" where
  "verify_uploaded_object_read_back p key len expected = and_next (get_bytes (pu_env p) key) (\<lambda>bytes.
     answer_with (verify_uploaded_object_bytes (ev_sha (pu_env p)) bytes key len expected))"

definition verify_uploaded_artifact :: "'w publisher \<Rightarrow> string \<Rightarrow> string \<Rightarrow> int \<Rightarrow> string \<Rightarrow> ('w export_state, unit) action" where
  "verify_uploaded_artifact p key content_type len expected = and_next (verify_uploaded_object p key content_type len) (\<lambda>_.
     if STRICT_UPLOAD_VERIFICATION then verify_uploaded_object_read_back p key len expected else answer_with (Ok ()))"

section \<open>Publishing an artifact\<close>

text \<open>The checks of an upload that was answered; the keys of the rows say what is stored.\<close>

definition upload_file :: "'w publisher \<Rightarrow> string option \<Rightarrow> string option \<Rightarrow> artifact_file \<Rightarrow> string \<Rightarrow> ('w export_state, unit) action" where
  "upload_file p disposition cache_control f bytes =
    and_next (put_bytes_with_headers (pu_env p) (fl_object_key f) bytes (fl_content_type f) disposition cache_control) (\<lambda>_.
    verify_uploaded_artifact p (fl_object_key f) (fl_content_type f) (fl_byte_len f) (fl_sha256 f))"

fun upload_files :: "(artifact_file \<Rightarrow> string \<Rightarrow> ('w export_state, unit) action) \<Rightarrow> (artifact_file \<times> string) list
    \<Rightarrow> ('w export_state, unit) action" where
  "upload_files upload [] = answer_with (Ok ())"
| "upload_files upload ((f, bytes) # rest) = and_next (upload f bytes) (\<lambda>_. upload_files upload rest)"

definition stage_for_upload :: "'w publisher \<Rightarrow> artifact_upsert \<Rightarrow> artifact_file list \<Rightarrow> ('w publication, unit) action" where
  "stage_for_upload p a files s =
    (let (r, t) = stage_artifact (pu_libraries p) (clock p s) a files (pb_store s)
     in (map_err (pu_sql_text p) r, s\<lparr>pb_store := t\<rparr>))"

definition mark_artifact_upload_failed :: "'w publisher \<Rightarrow> string \<Rightarrow> ('w publication, bool) action" where
  "mark_artifact_upload_failed p artifact_key s =
    on_store (transition_artifact_set_status (clock p s) artifact_key ''upload_failed'') s"

definition make_ready :: "'w publisher \<Rightarrow> artifact_upsert \<Rightarrow> ('w publication, string) action" where
  "make_ready p a =
    and_next (\<lambda>s. on_store (mark_artifact_set_ready (clock p s) (au_artifact_key a) (au_object_key a)) s) (\<lambda>_.
    and_next (\<lambda>s. on_store (supersede_ready_artifacts_for_output (clock p s) (au_source_hash a) (au_config_hash a)
      (au_options_hash a) (au_output_kind a) (au_artifact_key a) (Some ''replaced'')) s) (\<lambda>_.
    answer_with (Ok (au_object_key a))))"

definition publish ::
  "'w publisher \<Rightarrow> artifact_upsert \<Rightarrow> artifact_file list \<Rightarrow> ('w export_state, unit) action \<Rightarrow> ('w publication, string) action" where
  "publish p a files upload = and_next (stage_for_upload p a files) (\<lambda>_ s. case on_export upload s of
      (Ok _, s) \<Rightarrow> make_ready p a s
    | (Err e, s) \<Rightarrow> and_next (mark_artifact_upload_failed p (au_artifact_key a)) (\<lambda>_. answer_with (Err e)) s)"

text \<open>Both artifact keys; the output of a download is its format.\<close>

definition export_artifact_key ::
  "'w publisher \<Rightarrow> string \<Rightarrow> string \<Rightarrow> string \<Rightarrow> string \<Rightarrow> string \<Rightarrow> string \<Rightarrow> string \<Rightarrow> string \<Rightarrow> (string, string) result" where
  "export_artifact_key p kind format source config options rh raw post =
    artifact_set_hash (ev_jcs (pu_env p)) (ev_sha (pu_env p))
      \<lparr>as_artifact_set_schema_version = ARTIFACT_SET_SCHEMA_VERSION, as_output_kind = kind, as_format = format,
       as_source_hash = source, as_config_hash = config, as_options_hash = options, as_request_hash = Some rh,
       as_raw_payload_hash = Some raw, as_postprocess_hash = post, as_generator_processing_hash = None\<rparr>"

definition preview_artifact_key ::
  "'w publisher \<Rightarrow> string \<Rightarrow> string \<Rightarrow> string \<Rightarrow> string \<Rightarrow> string \<Rightarrow> string \<Rightarrow> string \<Rightarrow> (string, string) result" where
  "preview_artifact_key p source config options format = export_artifact_key p ''preview_glb'' format source config options"

definition download_artifact_key ::
  "'w publisher \<Rightarrow> string \<Rightarrow> string \<Rightarrow> string \<Rightarrow> string \<Rightarrow> string \<Rightarrow> string \<Rightarrow> string \<Rightarrow> (string, string) result" where
  "download_artifact_key p source config options format = export_artifact_key p format format source config options"

definition preview_asset_object_key :: "string \<Rightarrow> string \<Rightarrow> string" where
  "preview_asset_object_key hash asset_name = ''previews/v2/'' @ hash @ ''/'' @ asset_name"

definition download_object_key :: "string \<Rightarrow> string \<Rightarrow> string" where
  "download_object_key hash filename = ''artifacts/v2/'' @ hash @ ''/'' @ filename"

text \<open>\<open>config_values_json\<close>: the entries of the map in the order of their keys.\<close>

definition canonical_values :: "(string \<times> string) list \<Rightarrow> json" where
  "canonical_values values = JObj (fold (\<lambda>(k, v). bt_insert k (JStr v)) values [])"

definition config_values_json :: "'w publisher \<Rightarrow> (string \<times> string) list \<Rightarrow> string" where
  "config_values_json p values = xl_print (ev_library (pu_env p)) (canonical_values values)"

definition export_file :: "'w publisher \<Rightarrow> string \<Rightarrow> string \<Rightarrow> string \<Rightarrow> string option \<Rightarrow> string \<Rightarrow> string \<Rightarrow> string \<Rightarrow> artifact_file" where
  "export_file p hash role path original object_key content_type bytes =
    \<lparr>fl_artifact_set_hash = hash, fl_role = role, fl_logical_path = path, fl_original_path = original,
     fl_object_key = object_key, fl_content_type = content_type, fl_byte_len = int (length bytes),
     fl_sha256 = hex_sha256 (ev_sha (pu_env p)) bytes, fl_metadata_json = ''{}''\<rparr>"

definition export_upsert ::
  "'w publisher \<Rightarrow> model \<Rightarrow> string \<Rightarrow> string \<Rightarrow> string \<Rightarrow> string \<Rightarrow> (string \<times> string) list \<Rightarrow> string option
    \<Rightarrow> prepared_export \<Rightarrow> string \<Rightarrow> string \<Rightarrow> artifact_file \<Rightarrow> artifact_upsert" where
  "export_upsert p m source config kind format values job prepared raw post f =
    \<lparr>au_artifact_key = fl_artifact_set_hash f, au_model_slug = md_slug m, au_config_hash = config, au_output_kind = kind,
     au_format = format, au_object_key = fl_object_key f, au_content_type = fl_content_type f,
     au_byte_len = fl_byte_len f, au_sha256 = fl_sha256 f, au_producing_job_key = job, au_source_hash = source,
     au_options_hash = px_options_hash prepared, au_request_hash = Some (px_request_hash prepared),
     au_raw_payload_hash = Some raw, au_postprocess_hash = Some post, au_generator_processing_hash = None,
     au_parameter_schema_version = uint SCHEMA_VERSION, au_config_values_json = config_values_json p values\<rparr>"

definition preview_files :: "'w publisher \<Rightarrow> string \<Rightarrow> preview_artifact \<Rightarrow> (artifact_file \<times> string) list" where
  "preview_files p hash a =
    (export_file p hash ''viewer_entry'' (vw_logical_path a) (vw_original_path a)
       (preview_asset_object_key hash (vw_logical_path a)) (vw_content_type a) (vw_bytes a), vw_bytes a)
    # map (\<lambda>sd. (export_file p hash (sd_role sd) (sd_logical_path sd) (sd_original_path sd)
       (preview_asset_object_key hash (sd_logical_path sd)) (sd_content_type sd) (sd_bytes sd), sd_bytes sd)) (vw_sidecars a)"

section \<open>The two refreshes\<close>

definition expected_request :: "string \<Rightarrow> string option \<Rightarrow> prepared_export \<Rightarrow> (string, unit) result" where
  "expected_request what expected prepared = if_some expected (\<lambda>h. ensure (px_request_hash prepared = h)
     (''queued '' @ what @ '' request hash no longer matches the canonical export request''))"

definition refresh_preview ::
  "'w publisher \<Rightarrow> ('w process, encoded_configuration) action \<Rightarrow> model \<Rightarrow> string \<Rightarrow> (string \<times> string) list \<Rightarrow> string
    \<Rightarrow> prepared_export option \<Rightarrow> string option \<Rightarrow> string option \<Rightarrow> ('w publication, string) action" where
  "refresh_preview p encoding_of m source values config prepared job expected =
    and_next (case prepared of
        Some prepared \<Rightarrow> answer_with (Ok prepared)
      | None \<Rightarrow> prepare_preview_export p (on_export (on_process encoding_of)) m source config) (\<lambda>prepared.
    and_next (answer_with (expected_request ''preview'' expected prepared)) (\<lambda>_.
    and_next (on_export (execute_staged_export_request (pu_env p) (px_request_hash prepared) (px_request prepared))) (\<lambda>raw.
    and_next (postprocess_preview_artifact p raw) (\<lambda>(post, a).
    let format = (if vw_content_type a = ''model/gltf-binary'' then ''glb'' else ''gltf'') in
    and_next (answer_with (preview_artifact_key p source config (px_options_hash prepared) format
        (px_request_hash prepared) raw post)) (\<lambda>hash.
    let files = preview_files p hash a in
    publish p (export_upsert p m source config ''preview_glb'' format values job prepared raw post (fst (hd files)))
      (map fst files) (upload_files (upload_file p None None) files))))))"

definition refresh_download ::
  "'w publisher \<Rightarrow> ('w process, encoded_configuration) action \<Rightarrow> model \<Rightarrow> string \<Rightarrow> (string \<times> string) list \<Rightarrow> string
    \<Rightarrow> download_format \<Rightarrow> prepared_export option \<Rightarrow> string option \<Rightarrow> string option \<Rightarrow> ('w publication, string) action" where
  "refresh_download p encoding_of m source values config format prepared job expected =
    and_next (case prepared of
        Some prepared \<Rightarrow> answer_with (Ok prepared)
      | None \<Rightarrow> prepare_download_export p (on_export (on_process encoding_of)) m source config format) (\<lambda>prepared.
    and_next (answer_with (expected_request ''download'' expected prepared)) (\<lambda>_.
    and_next (on_export (execute_staged_export_request (pu_env p) (px_request_hash prepared) (px_request prepared))) (\<lambda>raw.
    and_next (postprocess_download_artifact p m format raw) (\<lambda>(post, a).
    and_next (answer_with (download_artifact_key p source config (px_options_hash prepared) (format_slug format)
        (px_request_hash prepared) raw post)) (\<lambda>hash.
    let f = export_file p hash ''download'' (dl_logical_path a) (dl_original_path a)
      (download_object_key hash (dl_logical_path a)) (dl_content_type a) (dl_bytes a) in
    publish p (export_upsert p m source config (format_slug format) (format_slug format) values job prepared raw post f) [f]
      (upload_files (upload_file p (Some (''attachment; filename='' @ QUOTE # dl_logical_path a @ [QUOTE]))
        (Some ''public, max-age=31536000, immutable'')) [(f, dl_bytes a)]))))))"

end
