(* ===== verification/Staged_Export_Runs.thy ===== *)
theory Staged_Export_Runs
  imports Staged_Exports
begin

text \<open>
  What staged exports guarantee: a successful one is found again without asking Onshape, a translation is
  not started while another of its request is finished or under way, and every payload that was recorded
  can be loaded with the bytes that its hash names.
\<close>

section \<open>The newest row\<close>

lemma newest_in: "newest rs = Some r \<Longrightarrow> r \<in> set rs"
  by (induction rs) (auto split: option.splits if_splits)

lemma newest_None: "newest rs = None \<longleftrightarrow> rs = []"
  by (cases rs) (auto split: option.splits)

lemma newest_only: "rs \<noteq> [] \<Longrightarrow> (\<And>r. r \<in> set rs \<Longrightarrow> r = x) \<Longrightarrow> newest rs = Some x"
  using newest_None [of rs] newest_in [of rs] by (cases "newest rs") auto

section \<open>What a success leaves behind\<close>

lemma existing_Some:
  "existing_raw_payload_for_source rh translation external s = Ok (Some p) \<longleftrightarrow>
    raw_payload_hash_for_source rh (Some translation) (Some external) (Some 0) (xs_sources s) = Some p
    \<and> raw_payload_row p (xs_payloads s) \<noteq> None"
  by (auto simp: existing_raw_payload_for_source_def and_then_Ok ensure_Ok split: option.splits)

lemma on_process_Ok: "on_process m s = (Ok a, t) \<Longrightarrow> \<exists>p. t = s\<lparr>xs_process := p\<rparr>"
  by (auto simp: on_process_def split: prod.splits)

lemma put_with_headers_tables:
  "put_bytes_with_headers env key bytes content_type disposition cache_control s = (r, t) \<Longrightarrow>
    xs_translations t = xs_translations s \<and> xs_payloads t = xs_payloads s \<and> xs_sources t = xs_sources s
    \<and> xs_objects t \<in> {xs_objects s, (xs_objects s)(key \<mapsto> bytes)}
    \<and> (r = Ok () \<longrightarrow> xs_objects t = (xs_objects s)(key \<mapsto> bytes))"
  by (auto simp: put_bytes_with_headers_def Let_def split: prod.splits put_outcome.splits)

lemma put_bytes_tables:
  "put_bytes env key bytes content_type s = (r, t) \<Longrightarrow> xs_translations t = xs_translations s
    \<and> xs_payloads t = xs_payloads s \<and> xs_sources t = xs_sources s
    \<and> xs_objects t \<in> {xs_objects s, (xs_objects s)(key \<mapsto> bytes)}
    \<and> (r = Ok () \<longrightarrow> xs_objects t = (xs_objects s)(key \<mapsto> bytes))"
  unfolding put_bytes_def by (rule put_with_headers_tables)

lemma insert_payload_Ok:
  "insert_payload r s = (Ok (), t) \<Longrightarrow> raw_payload_row (rw_raw_payload_hash r) (xs_payloads t) \<noteq> None
    \<and> xs_translations t = xs_translations s \<and> xs_sources t = xs_sources s"
  by (auto simp: insert_payload_def insert_raw_payload_if_absent_def raw_payload_row_def find_row_append
      split: sum.splits if_splits option.splits)

lemma link_source_effect:
  assumes "link_source r s = (fresh, t)"
  shows "xs_translations t = xs_translations s \<and> xs_payloads t = xs_payloads s
    \<and> (fresh \<longrightarrow> find_row source_key (source_key r) (xs_sources t) = Some r)"
  using assms by (auto simp: link_source_def link_raw_payload_source_def find_row_append split: if_splits)

lemma record_source_Ok:
  assumes "record_source rh translation external d hash s = (Ok p, t)"
  shows "p = hash \<and> xs_translations t = xs_translations s \<and> xs_payloads t = xs_payloads s
    \<and> raw_payload_hash_for_source rh (Some translation) (Some external) (Some 0) (xs_sources t) = Some p"
proof -
  obtain fresh where link: "link_source \<lparr>sx_request_hash = rh, sx_translation_id = Some translation,
           sx_external_data_id = Some external, sx_result_index = Some 0,
           sx_response_headers_json = ed_response_headers_json d, sx_etag = ed_etag d,
           sx_raw_payload_hash = hash\<rparr> s = (fresh, t)"
    and p: "p = hash"
    and found: "fresh \<or> raw_payload_hash_for_source rh (Some translation) (Some external) (Some 0) (xs_sources t) = Some hash"
    using assms by (auto simp: record_source_def and_then_Ok ensure_Ok split: prod.splits)
  then show ?thesis
    using link_source_effect [OF link]
    by (auto simp: raw_payload_hash_for_source_def source_key_def ifnull_def)
qed

lemma persist_Ok:
  assumes "persist_downloaded_raw_payload env rh translation external d s = (Ok p, t)"
  shows "xs_translations t = xs_translations s \<and> existing_raw_payload_for_source rh translation external t = Ok (Some p)"
proof -
  obtain row s1 s2 hash where put: "put_bytes env (raw_payload_object_key hash) (ed_bytes d)
        (ifnull (ed_content_type d) ''application/octet-stream'') s = (Ok (), s1)"
    and row: "insert_payload row s1 = (Ok (), s2)" "rw_raw_payload_hash row = hash"
    and source: "record_source rh translation external d hash s2 = (Ok p, t)"
    using assms unfolding persist_downloaded_raw_payload_def Let_def
    by (auto simp: and_next_Ok answer_with_eq)
  show ?thesis
    using put_bytes_tables [OF put] insert_payload_Ok [OF row(1)] row(2) record_source_Ok [OF source]
    by (simp add: existing_Some)
qed
lemma download_and_persist_Ok:
  assumes "download_and_persist env rh r translation external s = (Ok p, t)"
  shows "xs_translations t = xs_translations s \<and> existing_raw_payload_for_source rh translation external t = Ok (Some p)"
  using assms unfolding download_and_persist_def
  by (auto simp: and_next_Ok answer_with_eq dest!: on_process_Ok persist_Ok)

lemma existing_or_download_Ok:
  assumes "existing_or_download env rh r translation external s = (Ok p, t)"
  shows "xs_translations t = xs_translations s \<and> existing_raw_payload_for_source rh translation external t = Ok (Some p)"
  using assms unfolding existing_or_download_def
  by (auto simp: and_next_Ok answer_with_eq split: option.splits dest!: download_and_persist_Ok)

section \<open>Finished translations\<close>

text \<open>The documented behaviour of \<open>serde_json\<close>: an array of strings that it prints is read back.\<close>

definition string_arrays_read_back :: "export_library \<Rightarrow> bool" where
  "string_arrays_read_back lib \<longleftrightarrow>
    (\<forall>ids. xl_parse lib (xl_print lib (JArr (map JStr ids))) = Ok (JArr (map JStr ids)))"

lemma parse_printed_strings:
  assumes "string_arrays_read_back lib"
  shows "parse_json_string_vec lib (xl_print lib (JArr (map JStr ids))) = Ok ids"
proof -
  have "those (map as_str (map JStr ids)) = Some ids" by (induction ids) auto
  then show ?thesis
    using assms unfolding string_arrays_read_back_def parse_json_string_vec_def
    by (simp add: and_then_def ok_or_def)
qed

lemma single_Ok: "single_external_data_id polled = Ok i \<longleftrightarrow> pn_result_external_data_ids polled = [i]"
  by (auto simp: single_external_data_id_def split: list.splits)

text \<open>The request has a finished translation whose one result is at hand.\<close>

definition answered :: "export_library \<Rightarrow> string \<Rightarrow> string \<Rightarrow> 'w export_state \<Rightarrow> bool" where
  "answered lib rh p s \<longleftrightarrow> (\<exists>t external. latest_completed_translation_for_request rh (xs_translations s) = Some t
     \<and> persisted_result_external_data_id lib t = Ok external
     \<and> existing_raw_payload_for_source rh (tr_translation_id t) external s = Ok (Some p))"

lemma answered_execute:
  assumes "answered (ev_library env) rh p s"
  shows "execute_staged_export_request env rh r s = (Ok p, s)"
  using assms
  by (auto simp: answered_def execute_staged_export_request_def persisted_payload_of_result_def and_next_def
      answer_with_def and_then_def)

lemma record_final_rows:
  "record_final env translation polled hash s = (r, t) \<Longrightarrow>
    xs_translations t = snd (update_where (\<lambda>r. tr_translation_id r = translation) (final_row (now_of env s) polled
      (xl_print (ev_library env) (JArr (map JStr (pn_result_external_data_ids polled))))
      (xl_print (ev_library env) (JArr (map JStr (pn_result_element_ids polled)))) hash) (xs_translations s))"
  by (auto simp: record_final_def update_translation_final_def one_row_def Let_def split: prod.splits)

lemma settle_Ok:
  assumes "settle_translation env translation start polled s = (Ok external, t)"
    and lib: "string_arrays_read_back (ev_library env)"
    and keys: "distinct (map tr_translation_id (xs_translations s))"
    and own: "find_row tr_translation_id translation (xs_translations s) = Some u" "tr_request_hash u = rh"
    and others: "\<And>x. x \<in> set (xs_translations s) \<Longrightarrow> completed rh x \<Longrightarrow> tr_translation_id x = translation"
  shows "\<exists>v. latest_completed_translation_for_request rh (xs_translations t) = Some v
    \<and> tr_translation_id v = translation \<and> persisted_result_external_data_id (ev_library env) v = Ok external"
proof -
  obtain hash where final: "record_final env translation polled hash s = (Ok (), t)"
    and done_: "pn_state polled = ''DONE''" "pn_result_external_data_ids polled = [external]"
    using assms(1) unfolding settle_translation_def
    by (auto simp: and_next_Ok answer_with_eq and_then_Ok ensure_Ok single_Ok)
  let ?change = "final_row (now_of env s) polled (xl_print (ev_library env) (JArr [JStr external]))
      (xl_print (ev_library env) (JArr (map JStr (pn_result_element_ids polled)))) hash"
  have t: "xs_translations t = snd (update_where (\<lambda>r. tr_translation_id r = translation) ?change (xs_translations s))"
    using record_final_rows [OF final] done_(2) by simp  have u: "u \<in> set (xs_translations s)" "tr_translation_id u = translation"
    using find_row_Some [OF own(1)] by simp_all
  have only: "x = ?change u" if "x \<in> set (filter (completed rh) (xs_translations t))" for x
  proof -
    have c: "completed rh x" using that by simp
    have "x \<in> {if tr_translation_id y = translation then ?change y else y |y. y \<in> set (xs_translations s)}"
      using that unfolding t set_filter set_update by blast
    then obtain y where y: "y \<in> set (xs_translations s)" "x = (if tr_translation_id y = translation then ?change y else y)"
      by blast
    show ?thesis
    proof (cases "tr_translation_id y = translation")
      case True
      then have "y = u"
        using find_row_distinct [OF keys y(1)] own(1) by simp
      then show ?thesis using y u by simp
    next
      case False
      then show ?thesis using others [OF y(1)] y(2) c by simp
    qed
  qed
  have "completed rh (?change u)"
    using own(2) done_ by (simp add: completed_def final_row_def)
  moreover have "?change u \<in> set (xs_translations t)"
    unfolding t set_update using u by auto
  ultimately have "latest_completed_translation_for_request rh (xs_translations t) = Some (?change u)"
    unfolding latest_completed_translation_for_request_def using only by (intro newest_only) (auto simp: filter_empty_conv)
  moreover have "persisted_result_external_data_id (ev_library env) (?change u) = Ok external"
    using parse_printed_strings [OF lib, of "[external]"] done_(2)
    by (simp add: persisted_result_external_data_id_def final_row_def ifnull_def and_then_def)
  ultimately show ?thesis using u(2) by (simp add: final_row_def)
qed
section \<open>A success is found again\<close>

lemma poll_and_settle_Ok:
  assumes "poll_and_settle env r translation start s = (Ok external, t)"
  obtains polled p where "settle_translation env translation start polled (s\<lparr>xs_process := p\<rparr>) = (Ok external, t)"
  using assms unfolding poll_and_settle_def
  by (auto simp: and_next_Ok answer_with_eq dest!: on_process_Ok)

lemma insert_translation_start_rows:
  assumes "distinct (map tr_translation_id t)"
  shows "distinct (map tr_translation_id (insert_translation_start now i rh st start t))"
    and "\<exists>u. find_row tr_translation_id i (insert_translation_start now i rh st start t) = Some u \<and> tr_request_hash u = rh"
    and "x \<in> set (insert_translation_start now i rh st start t) \<Longrightarrow> x \<in> set t \<or> tr_translation_id x = i"
proof -
  show "distinct (map tr_translation_id (insert_translation_start now i rh st start t))"
    using assms find_row_None [of tr_translation_id i t] by (auto simp: insert_translation_start_def restarted.keys)
  show "\<exists>u. find_row tr_translation_id i (insert_translation_start now i rh st start t) = Some u \<and> tr_request_hash u = rh"
    using find_row_Some [of tr_translation_id i t]
    by (cases "find_row tr_translation_id i t")
      (simp_all add: insert_translation_start_def find_row_append restarted.row restarted_row_def)
  show "x \<in> set (insert_translation_start now i rh st start t) \<Longrightarrow> x \<in> set t \<or> tr_translation_id x = i"
    using restarted.key_change by (auto simp: insert_translation_start_def set_update split: if_splits)
qed

lemma latest_completed_None:
  "latest_completed_translation_for_request rh t = None \<longleftrightarrow> (\<forall>x \<in> set t. \<not> completed rh x)"
  by (simp add: latest_completed_translation_for_request_def newest_None filter_empty_conv)

lemma settled_answered:
  assumes settled: "poll_and_settle env r translation start s = (Ok external, u)"
    and stored: "xs_translations v = xs_translations u" "existing_raw_payload_for_source rh translation external v = Ok (Some p)"
    and lib: "string_arrays_read_back (ev_library env)" and keys: "distinct (map tr_translation_id (xs_translations s))"
    and own: "find_row tr_translation_id translation (xs_translations s) = Some x" "tr_request_hash x = rh"
    and others: "\<And>x. x \<in> set (xs_translations s) \<Longrightarrow> completed rh x \<Longrightarrow> tr_translation_id x = translation"
  shows "answered (ev_library env) rh p v"
proof -
  obtain polled q where "settle_translation env translation start polled (s\<lparr>xs_process := q\<rparr>) = (Ok external, u)"
    using poll_and_settle_Ok [OF settled] by blast
  from settle_Ok [OF this lib, of x rh] keys own others
  obtain w where "latest_completed_translation_for_request rh (xs_translations u) = Some w"
    "tr_translation_id w = translation" "persisted_result_external_data_id (ev_library env) w = Ok external"
    by auto
  then show ?thesis using stored by (auto simp: answered_def)
qed

lemma resumed_answered:
  assumes "resume_translation env rh r t s = (Ok p, v)"
    and "string_arrays_read_back (ev_library env)" and keys: "distinct (map tr_translation_id (xs_translations s))"
    and t: "t \<in> set (xs_translations s)" "tr_request_hash t = rh"
    and "latest_completed_translation_for_request rh (xs_translations s) = None"
  shows "answered (ev_library env) rh p v"
proof -
  obtain start external u where settle: "poll_and_settle env r (tr_translation_id t) start s = (Ok external, u)"
    and down: "existing_or_download env rh r (tr_translation_id t) external u = (Ok p, v)"
    using assms(1) by (auto simp: resume_translation_def and_next_Ok)
  show ?thesis
    by (rule settled_answered [OF settle _ _ assms(2) keys find_row_distinct [OF keys t(1)] t(2)])
      (use existing_or_download_Ok [OF down] assms(6) in \<open>simp_all add: latest_completed_None\<close>)
qed

lemma started_answered:
  assumes "start_and_download_translation env rh r s = (Ok p, v)"
    and lib: "string_arrays_read_back (ev_library env)" and keys: "distinct (map tr_translation_id (xs_translations s))"
    and none: "latest_completed_translation_for_request rh (xs_translations s) = None"
  shows "answered (ev_library env) rh p v"
proof -
  obtain q begun s1 external s2 where start: "record_start env rh begun (s\<lparr>xs_process := q\<rparr>) = (Ok (), s1)"
    and settle: "poll_and_settle env r (sn_translation_id begun) (sn_response_json begun) s1 = (Ok external, s2)"
    and down: "download_and_persist env rh r (sn_translation_id begun) external s2 = (Ok p, v)"
    using assms(1) by (auto simp: start_and_download_translation_def and_next_Ok dest!: on_process_Ok)
  have rows: "xs_translations s1 = insert_translation_start (now_of env (s\<lparr>xs_process := q\<rparr>))
      (sn_translation_id begun) rh (sn_state begun) (sn_response_json begun) (xs_translations s)"
    using start by (auto simp: record_start_def)
  note inserted = insert_translation_start_rows [OF keys, where now = "now_of env (s\<lparr>xs_process := q\<rparr>)"
      and i = "sn_translation_id begun" and rh = rh and st = "sn_state begun" and start = "sn_response_json begun",
      folded rows]
  obtain x where "find_row tr_translation_id (sn_translation_id begun) (xs_translations s1) = Some x" "tr_request_hash x = rh"
    using inserted(2) by blast
  moreover have "tr_translation_id y = sn_translation_id begun" if "y \<in> set (xs_translations s1)" "completed rh y" for y
    using inserted(3) [OF that(1)] that(2) none by (auto simp: latest_completed_None)
  ultimately show ?thesis
    using settled_answered [OF settle _ _ lib inserted(1)] download_and_persist_Ok [OF down] by blast
qed

text \<open>
  C35: an export that succeeded is found again: run once more, it gives the same payload, sends nothing and
  changes nothing, whatever Onshape and the object store would do by then.
\<close>

theorem staged_export_found_again:
  assumes "string_arrays_read_back (ev_library env)" and "distinct (map tr_translation_id (xs_translations s))"
    and "execute_staged_export_request env rh r s = (Ok p, t)"
    and "ev_library later = ev_library env"
  shows "execute_staged_export_request later rh r' t = (Ok p, t)"
proof -
  have "answered (ev_library env) rh p t"
  proof (cases "latest_completed_translation_for_request rh (xs_translations s)")
    case None
    show ?thesis
    proof (cases "latest_translation_for_request rh (xs_translations s)")
      case Absent: None
      then have "start_and_download_translation env rh r s = (Ok p, t)"
        using assms(3) None by (simp add: execute_staged_export_request_def)
      from started_answered [OF this assms(1,2) None] show ?thesis .
    next
      case (Some x)
      then have x: "x \<in> set (xs_translations s)" "tr_request_hash x = rh"
        using newest_in by (fastforce simp: latest_translation_for_request_def)+
      consider "start_and_download_translation env rh r s = (Ok p, t)" | "resume_translation env rh r x s = (Ok p, t)"
        using assms(3) None Some by (auto simp: execute_staged_export_request_def split: if_splits)
      then show ?thesis
        using started_answered [OF _ assms(1,2) None] resumed_answered [OF _ assms(1,2) x None] by cases
    qed
  next
    case (Some x)
    then consider "answered (ev_library env) rh p s" "t = s"
      | external where "persisted_result_external_data_id (ev_library env) x = Ok external"
        "existing_or_download env rh r (tr_translation_id x) external s = (Ok p, t)"
      using assms(3)
      by (auto simp: execute_staged_export_request_def and_next_Ok answer_with_eq answered_def
          persisted_payload_of_result_def and_then_Ok download_translation_result_def split: option.splits)
    then show ?thesis
    proof cases
      case 1
      then show ?thesis by simp
    next
      case 2
      then show ?thesis using Some existing_or_download_Ok [OF 2(2)] by (auto simp: answered_def)
    qed
  qed
  then show ?thesis using assms(4) answered_execute [of later rh p t] by simp
qed

section \<open>No translation is started twice\<close>

text \<open>The same surroundings, except that nothing can be created at Onshape.\<close>

definition posts_refused :: "'w remote \<Rightarrow> 'w remote" where
  "posts_refused rm = rm\<lparr>rm_send := (\<lambda>m w. if hm_method m = ''POST'' then (Err ''refused'', w) else rm_send rm m w)\<rparr>"

definition without_posts :: "'w export_env \<Rightarrow> 'w export_env" where
  "without_posts env = env\<lparr>ev_remote := posts_refused (ev_remote env)\<rparr>"

lemma posts_refused_simps:
  "rm_date (posts_refused rm) = rm_date rm" "rm_nanos (posts_refused rm) = rm_nanos rm"
  "rm_millis (posts_refused rm) = rm_millis rm" "rm_sleep (posts_refused rm) = rm_sleep rm"
  by (simp_all add: posts_refused_def)

lemma headers_unposted: "signed_json_headers lib (posts_refused rm) c m path q = signed_json_headers lib rm c m path q"
  unfolding signed_json_headers_def [abs_def] posts_refused_simps by (rule refl)

lemma exchange_unposted:
  "signed_exchange lib (posts_refused rm) c ''GET'' path q media body = signed_exchange lib rm c ''GET'' path q media body"
  unfolding signed_exchange_def headers_unposted by (simp add: send_message_def [abs_def] posts_refused_def)

lemma poll_unposted:
  "poll_with_delays lib (posts_refused rm) c document i delays = poll_with_delays lib rm c document i delays"
proof (induction delays)
  case (Cons delay delays)
  moreover have "sleeping (posts_refused rm) delay = sleeping rm delay"
    by (simp add: fun_eq_iff sleeping_def posts_refused_def)
  ultimately show ?case by (simp add: signed_json_def exchange_unposted cong: if_cong)
qed simp

lemma download_unposted:
  "download_external_data lib (posts_refused rm) c document i = download_external_data lib rm c document i"
  by (simp add: download_external_data_def exchange_unposted)

lemma without_posts_simps [simp]:
  "ev_library (without_posts env) = ev_library env" "ev_client (without_posts env) = ev_client env"
  "ev_jcs (without_posts env) = ev_jcs env" "ev_sha (without_posts env) = ev_sha env"
  "ev_put (without_posts env) = ev_put env" "ev_zip (without_posts env) = ev_zip env"
  "ev_remote (without_posts env) = posts_refused (ev_remote env)"
  "now_of (without_posts env) = now_of env"
  by (simp_all add: without_posts_def now_of_def posts_refused_def fun_eq_iff)

lemma persist_unposted:
  "persist_downloaded_raw_payload (without_posts env) = persist_downloaded_raw_payload env"
  by (simp add: fun_eq_iff persist_downloaded_raw_payload_def put_bytes_def put_bytes_with_headers_def [abs_def] zip_inventory_json_def [abs_def])

lemma existing_or_download_unposted:
  "existing_or_download (without_posts env) rh r i external = existing_or_download env rh r i external"
proof -
  have "download_and_persist (without_posts env) rh r i external = download_and_persist env rh r i external"
    by (simp add: download_and_persist_def download_unposted persist_unposted)
  then show ?thesis unfolding existing_or_download_def [abs_def] by simp
qed

lemma poll_and_settle_unposted:
  "poll_and_settle (without_posts env) r i start = poll_and_settle env r i start"
  by (simp add: poll_and_settle_def poll_translation_def poll_unposted settle_translation_def [abs_def]
      record_final_def [abs_def] translation_response_hash_def [abs_def])


section \<open>Recorded payloads can be loaded\<close>

lemma object_key_inj: "raw_payload_object_key a = raw_payload_object_key b \<Longrightarrow> a = b"
proof -
  assume e: "raw_payload_object_key a = raw_payload_object_key b"
  have "length (raw_payload_object_key h) = 28 + min (length h) 2 + length h" for h
    by (simp add: raw_payload_object_key_def)
  from this [of a] this [of b] e have "length a = length b" by (simp add: min_def split: if_splits)
  then show "a = b" using e by (simp add: raw_payload_object_key_def)
qed

text \<open>Every row is filed under the key of its hash, where the store has bytes with that hash.\<close>

definition payloads_stored :: "digest \<Rightarrow> 'w export_state \<Rightarrow> bool" where
  "payloads_stored sha s \<longleftrightarrow> (\<forall>row \<in> set (xs_payloads s). rw_object_key row = raw_payload_object_key (rw_raw_payload_hash row)
     \<and> (\<exists>b. xs_objects s (rw_object_key row) = Some b \<and> hex_sha256 sha b = rw_raw_payload_hash row))"

text \<open>What an action keeps, whether it succeeds or fails: rows stay, and those there are, are stored.\<close>

definition keeps_payloads :: "digest \<Rightarrow> ('w export_state, 'a) action \<Rightarrow> bool" where
  "keeps_payloads sha m \<longleftrightarrow> (\<forall>s. payloads_stored sha s \<longrightarrow>
     payloads_stored sha (snd (m s)) \<and> (\<exists>new. xs_payloads (snd (m s)) = xs_payloads s @ new))"

lemma payloads_stored_cong:
  "xs_payloads s = xs_payloads t \<Longrightarrow> xs_objects s = xs_objects t \<Longrightarrow> payloads_stored sha s = payloads_stored sha t"
  by (simp add: payloads_stored_def)

lemma keeps_same:
  assumes "\<And>s. xs_payloads (snd (m s)) = xs_payloads s \<and> xs_objects (snd (m s)) = xs_objects s"
  shows "keeps_payloads sha m"
  using assms payloads_stored_cong [of "snd (m s)" s for s] by (simp add: keeps_payloads_def)

lemma keeps_and_next:
  fixes m :: "('w export_state, 'a) action"
  assumes "keeps_payloads sha m" "\<And>a. keeps_payloads sha (f a)"
  shows "keeps_payloads sha (and_next m f)"
  unfolding keeps_payloads_def
proof (intro allI impI)
  fix s :: "'w export_state" assume s: "payloads_stored sha s"
  obtain r t where m: "m s = (r, t)" by fastforce
  then have t: "payloads_stored sha t" "\<exists>new. xs_payloads t = xs_payloads s @ new"
    using assms(1) s unfolding keeps_payloads_def by (metis snd_conv)+
  show "payloads_stored sha (snd (and_next m f s)) \<and> (\<exists>new. xs_payloads (snd (and_next m f s)) = xs_payloads s @ new)"
  proof (cases r)
    case (Inl e)
    then show ?thesis using m t by (simp add: and_next_def)
  next
    case (Inr a)
    then show ?thesis
      using m t assms(2) [of a] unfolding keeps_payloads_def and_next_def by fastforce
  qed
qed

lemma keeps_answer: "keeps_payloads sha (answer_with r)"
  by (rule keeps_same) (simp add: answer_with_def)

lemma keeps_on_process: "keeps_payloads sha (on_process m)"
  by (rule keeps_same) (simp add: on_process_def split: prod.split)

lemma keeps_record_source: "keeps_payloads sha (record_source rh translation external d hash)"
  by (rule keeps_same) (simp add: record_source_def link_source_def split: prod.split)

lemma keeps_record_start: "keeps_payloads sha (record_start env rh begun)"
  by (rule keeps_same) (simp add: record_start_def)

lemma keeps_record_final: "keeps_payloads sha (record_final env translation polled hash)"
  by (rule keeps_same) (simp add: record_final_def Let_def split: prod.split)

text \<open>The bytes are in the store before their row is in the table.\<close>

lemma put_keeps:
  assumes "payloads_stored sha s" "put_bytes env (raw_payload_object_key (hex_sha256 sha bytes)) bytes content_type s = (r, t)"
  shows "payloads_stored sha t \<and> xs_payloads t = xs_payloads s
    \<and> (r = Ok () \<longrightarrow> xs_objects t (raw_payload_object_key (hex_sha256 sha bytes)) = Some bytes)"
proof -
  note tables = put_bytes_tables [OF assms(2)]
  have "payloads_stored sha t"
    using tables assms(1) object_key_inj unfolding payloads_stored_def by (auto simp: fun_upd_def)
  then show ?thesis using tables by auto
qed

lemma insert_payload_keeps:
  assumes "payloads_stored sha s" "rw_object_key row = raw_payload_object_key (rw_raw_payload_hash row)"
    and "xs_objects s (rw_object_key row) = Some b" "hex_sha256 sha b = rw_raw_payload_hash row"
    and "insert_payload row s = (r, t)"
  shows "payloads_stored sha t \<and> (\<exists>new. xs_payloads t = xs_payloads s @ new)"
  using assms unfolding payloads_stored_def
  by (auto simp: insert_payload_def insert_raw_payload_if_absent_def split: if_splits)

lemma keeps_store_payload:
  fixes env :: "'w export_env"
  assumes "rw_raw_payload_hash row = hex_sha256 sha bytes" "rw_object_key row = raw_payload_object_key (hex_sha256 sha bytes)"
  shows "keeps_payloads sha (and_next (put_bytes env (raw_payload_object_key (hex_sha256 sha bytes)) bytes content_type)
    (\<lambda>_. insert_payload row))" (is "keeps_payloads sha ?both")
  unfolding keeps_payloads_def
proof (intro allI impI)
  fix s :: "'w export_state" assume s: "payloads_stored sha s"
  obtain r t where put: "put_bytes env (raw_payload_object_key (hex_sha256 sha bytes)) bytes content_type s = (r, t)"
    by fastforce
  note stored = put_keeps [OF s put]
  show "payloads_stored sha (snd (?both s)) \<and> (\<exists>new. xs_payloads (snd (?both s)) = xs_payloads s @ new)"
  proof (cases r)
    case (Inl e)
    then have "?both s = (Err e, t)" by (simp only: and_next_def put prod.case sum.case)
    then show ?thesis using stored by simp
  next
    case (Inr u)
    obtain q v where insert: "insert_payload row t = (q, v)" by fastforce
    have object: "xs_objects t (rw_object_key row) = Some bytes"
      unfolding assms(2) using stored Inr by simp
    have "payloads_stored sha v \<and> (\<exists>new. xs_payloads v = xs_payloads t @ new)"
      using insert_payload_keeps [OF conjunct1 [OF stored] _ object _ insert] assms by metis
    moreover have "?both s = (q, v)"
      using insert Inr by (simp only: and_next_def put prod.case sum.case)
    ultimately show ?thesis using stored by simp
  qed
qed
lemma and_next_assoc: "and_next (and_next m f) g = and_next m (\<lambda>a. and_next (f a) g)"
  by (simp add: fun_eq_iff and_next_def split: prod.split sum.split)

lemma keeps_persist: "keeps_payloads (ev_sha env) (persist_downloaded_raw_payload env rh translation external d)"
  unfolding persist_downloaded_raw_payload_def Let_def
  by (rule keeps_and_next [OF keeps_answer], subst and_next_assoc [symmetric],
      rule keeps_and_next [OF keeps_store_payload keeps_record_source]) simp_all

lemma keeps_download_and_persist: "keeps_payloads (ev_sha env) (download_and_persist env rh r translation external)"
  unfolding download_and_persist_def
  by (intro keeps_and_next keeps_answer keeps_on_process keeps_persist)

lemma keeps_existing_or_download: "keeps_payloads (ev_sha env) (existing_or_download env rh r translation external)"
proof -
  have "keeps_payloads (ev_sha env) (and_next (answer_with found) (\<lambda>found. case found of
      Some hash \<Rightarrow> answer_with (Ok hash) | None \<Rightarrow> download_and_persist env rh r translation external))" for found
    by (intro keeps_and_next) (auto intro: keeps_answer keeps_download_and_persist split: option.split)
  then show ?thesis unfolding keeps_payloads_def existing_or_download_def by blast
qed

lemma keeps_poll_and_settle: "keeps_payloads sha (poll_and_settle env r translation start)"
  unfolding poll_and_settle_def settle_translation_def
  by (intro keeps_and_next keeps_answer keeps_on_process keeps_record_final)

lemma keeps_start: "keeps_payloads (ev_sha env) (start_and_download_translation env rh r)"
  unfolding start_and_download_translation_def
  by (intro keeps_and_next keeps_on_process keeps_record_start keeps_poll_and_settle keeps_download_and_persist)

lemma keeps_resume: "keeps_payloads (ev_sha env) (resume_translation env rh r t)"
  unfolding resume_translation_def
  by (intro keeps_and_next keeps_poll_and_settle keeps_existing_or_download)

lemma keeps_result: "keeps_payloads (ev_sha env) (download_translation_result env rh r t)"
  unfolding download_translation_result_def
  by (intro keeps_and_next keeps_answer keeps_existing_or_download)

lemma keeps_execute: "keeps_payloads (ev_sha env) (execute_staged_export_request env rh r)"
proof -
  have "keeps_payloads (ev_sha env) (and_next (answer_with found) (\<lambda>found. case found of
      Some hash \<Rightarrow> answer_with (Ok hash) | None \<Rightarrow> download_translation_result env rh r t))" for found t
    by (intro keeps_and_next) (auto intro: keeps_answer keeps_result split: option.split)
  then show ?thesis
    using keeps_start [of env rh r] keeps_resume [of env rh r]
    unfolding keeps_payloads_def execute_staged_export_request_def by (simp split: option.split)
qed

text \<open>Any sequence of exports, each in surroundings of its own.\<close>

definition run_exports :: "('w export_env \<times> string \<times> export_request) list \<Rightarrow> 'w export_state \<Rightarrow> 'w export_state" where
  "run_exports calls s = foldl (\<lambda>s (env, rh, r). snd (execute_staged_export_request env rh r s)) s calls"

lemma run_exports_keep:
  assumes "list_all (\<lambda>(env, _, _). ev_sha env = sha) calls" "payloads_stored sha s"
  shows "payloads_stored sha (run_exports calls s) \<and> (\<exists>new. xs_payloads (run_exports calls s) = xs_payloads s @ new)"
  using assms
proof (induction calls arbitrary: s)
  case Nil
  then show ?case by (simp add: run_exports_def)
next
  case (Cons call calls)
  obtain env rh r where call: "call = (env, rh, r)" by (cases call)
  let ?s = "snd (execute_staged_export_request env rh r s)"
  have "payloads_stored sha ?s \<and> (\<exists>new. xs_payloads ?s = xs_payloads s @ new)"
    using keeps_execute [of env rh r] Cons.prems by (simp add: call keeps_payloads_def)
  moreover from this have "payloads_stored sha (run_exports calls ?s)
      \<and> (\<exists>new. xs_payloads (run_exports calls ?s) = xs_payloads ?s @ new)"
    using Cons by (simp add: call)
  moreover have "run_exports (call # calls) s = run_exports calls ?s" by (simp add: run_exports_def call)
  ultimately show ?case by fastforce
qed

lemma execute_Ok_row:
  assumes "execute_staged_export_request env rh r s = (Ok p, t)"
  shows "raw_payload_row p (xs_payloads t) \<noteq> None"
proof -
  have "\<exists>translation external. existing_raw_payload_for_source rh translation external t = Ok (Some p)"
    using assms
    by (auto simp: execute_staged_export_request_def and_next_Ok answer_with_eq persisted_payload_of_result_def
        and_then_Ok download_translation_result_def start_and_download_translation_def resume_translation_def
        split: option.splits if_splits dest!: existing_or_download_Ok download_and_persist_Ok) blast+
  then show ?thesis by (auto simp: existing_Some)
qed

lemma load_row:
  assumes "raw_payload_row p (xs_payloads s) = Some row" "xs_objects s (rw_object_key row) = Some b"
    and "hex_sha256 (ev_sha env) b = p" "\<And>key w. fst (ev_get env key w) = Ok ()"
  shows "fst (load_persisted_raw_payload env p s) = Ok (row, b)"
proof -
  obtain u w where "ev_get env (rw_object_key row) (pc_world (xs_process s)) = (u, w)" by fastforce
  moreover from this have "u = Ok ()" using assms(4) [of "rw_object_key row" "pc_world (xs_process s)"] by simp
  ultimately have "fst (get_bytes env (rw_object_key row) s) = Ok b"
    using assms(2) by (simp add: get_bytes_def and_then_def ok_or_def)
  then obtain s' where "get_bytes env (rw_object_key row) s = (Ok b, s')" by (metis prod.collapse)
  then show ?thesis
    using assms(1,3) by (simp add: load_persisted_raw_payload_def and_next_def answer_with_def ok_or_def
        verify_raw_payload_bytes_def and_then_def ensure_def)
qed

text \<open>
  C37: the payload of a successful export stays loadable: after any later exports, failed ones included, the
  record of its hash is there and the store has bytes with that hash, for as long as the store answers.
\<close>

theorem staged_payload_stays_loadable:
  assumes "list_all (\<lambda>(env, _, _). ev_sha env = sha) (earlier @ (env, rh, r) # later)" "xs_payloads s = []"
    and "execute_staged_export_request env rh r (run_exports earlier s) = (Ok p, t)"
    and "ev_sha reader = sha" "\<And>key w. fst (ev_get reader key w) = Ok ()"
  shows "\<exists>row bytes. fst (load_persisted_raw_payload reader p (run_exports later t)) = Ok (row, bytes)
    \<and> rw_raw_payload_hash row = p \<and> hex_sha256 sha bytes = p"
proof -
  have "payloads_stored sha s" using assms(2) by (simp add: payloads_stored_def)
  then have "payloads_stored sha (run_exports earlier s)"
    using assms(1) run_exports_keep [of sha earlier s] by simp
  moreover have "ev_sha env = sha" using assms(1) by simp
  ultimately have "payloads_stored sha t"
    using keeps_execute [of env rh r] assms(3) unfolding keeps_payloads_def by (metis snd_conv)
  then have stored: "payloads_stored sha (run_exports later t)"
    and rows: "\<exists>new. xs_payloads (run_exports later t) = xs_payloads t @ new"
    using assms(1) run_exports_keep [of sha later t] by simp_all
  have "raw_payload_row p (xs_payloads (run_exports later t)) \<noteq> None"
    using rows execute_Ok_row [OF assms(3)] by (auto simp: raw_payload_row_def find_row_None)
  then obtain row where row: "raw_payload_row p (xs_payloads (run_exports later t)) = Some row" by blast
  then have row_in: "row \<in> set (xs_payloads (run_exports later t))" "rw_raw_payload_hash row = p"
    using find_row_Some [of rw_raw_payload_hash p] unfolding raw_payload_row_def by blast+
  then obtain b where b: "xs_objects (run_exports later t) (rw_object_key row) = Some b" "hex_sha256 sha b = p"
    using stored by (auto simp: payloads_stored_def)
  have "fst (load_persisted_raw_payload reader p (run_exports later t)) = Ok (row, b)"
    using load_row [OF row b(1)] b(2) assms(4,5) by simp
  then show ?thesis using row_in(2) b(2) by blast
qed

end
