(* ===== verification/Export_Publication_Runs.thy ===== *)
theory Export_Publication_Runs
  imports Export_Publication Staged_Export_Runs Artifact_Runs
begin

text \<open>
  What the publication of an export guarantees: when it succeeds, the object store has the bytes of every
  file of the artifact and no older artifact of the output is ready; when it fails, no artifact has become
  ready and at most the one that was being made again has lost its standing.
\<close>

section \<open>Staging\<close>

text \<open>The files of a set after its staging are those that were given, and no two rows share an object.\<close>

lemma insert_files_keys:
  "try_fold insert_file s files = Ok s' \<Longrightarrow> distinct (map fl_object_key files)
    \<and> (\<forall>f \<in> set files. fl_object_key f \<notin> fl_object_key ` set (st_files s))"
proof (induction files arbitrary: s)
  case (Cons f files)
  then obtain t where t: "insert_file s f = Ok t" "try_fold insert_file t files = Ok s'" by (auto split: sum.splits)
  then have "fl_object_key f \<notin> fl_object_key ` set (st_files s)"
    by (auto simp: insert_file_def list_ex_iff split: if_splits)
  then show ?case using Cons.IH [OF t(2)] insert_file_Ok [OF t(1)] by auto
qed simp

lemma find_replaced:
  assumes "find_row key k t = Some x" "p x" "key r = k" "\<And>y. p y \<Longrightarrow> key y = k"
  shows "find_row key k (snd (update_where p (\<lambda>_. r) t)) = Some r"
  using assms(1) by (induction t) (use assms(2-4) in \<open>auto simp: find_row_def update_where_def split: if_splits\<close>)

lemma upsert_own:
  assumes "upsert_set r s = Ok (n, v)" "n \<noteq> 0" "keys_distinct s"
  defines "k \<equiv> at_artifact_set_hash r"
  shows "find_set k v = Some r" and "st_files v = st_files s"
    and "\<forall>x \<in> set (st_sets s). x \<in> set (st_sets v) \<or> at_artifact_set_hash x = k"
    and "\<forall>x \<in> set (st_sets v). x \<in> set (st_sets s) \<or> x = r"
proof -
  have all: "find_set k v = Some r \<and> st_files v = st_files s
    \<and> (\<forall>x \<in> set (st_sets s). x \<in> set (st_sets v) \<or> at_artifact_set_hash x = k)
    \<and> (\<forall>x \<in> set (st_sets v). x \<in> set (st_sets s) \<or> x = r)"
  proof (cases "find_set k s")
    case None
    then show ?thesis
      using assms(1) by (auto simp: k_def upsert_set_def find_set_def find_row_append split: if_splits)
  next
    case (Some x)
    let ?p = "\<lambda>x. at_artifact_set_hash x = k \<and> at_generator_processing_hash x = None \<and> at_generator_processing_hash r = None"
    have v: "n = length (filter ?p (st_sets s))" "v = s\<lparr>st_sets := snd (update_where ?p (\<lambda>_. r) (st_sets s))\<rparr>"
      using assms(1) Some by (auto simp: k_def upsert_set_def update_sets_def update_where_def)
    have "filter ?p (st_sets s) \<noteq> []" using v(1) assms(2) by simp
    then obtain y where y: "y \<in> set (st_sets s)" "?p y" by (auto simp: filter_empty_conv)
    then have "find_set k s = Some y" by (intro iffD2 [OF find_set_iff [OF assms(3)]]) blast
    then have "find_row at_artifact_set_hash k (st_sets s) = Some y" by (simp add: find_set_def)
    then have "find_row at_artifact_set_hash k (snd (update_where ?p (\<lambda>_. r) (st_sets s))) = Some r"
      by (rule find_replaced) (use y(2) in \<open>simp_all add: k_def\<close>)
    moreover have "st_sets v = snd (update_where ?p (\<lambda>_. r) (st_sets s))" "st_files v = st_files s" by (simp_all add: v(2))
    moreover from calculation have "find_set k v = Some r" by (simp add: find_set_def)
    ultimately show ?thesis by (auto simp: set_update)
  qed
  show "find_set k v = Some r" "st_files v = st_files s"
    "\<forall>x \<in> set (st_sets s). x \<in> set (st_sets v) \<or> at_artifact_set_hash x = k"
    "\<forall>x \<in> set (st_sets v). x \<in> set (st_sets s) \<or> x = r" using all by blast+
qed

lemma stage_artifact_cases:
  assumes "stage_artifact lib now a files s = (r, t)" and keys: "keys_distinct s"
    and own: "\<forall>f \<in> set files. fl_artifact_set_hash f = au_artifact_key a"
  shows "case r of Err e \<Rightarrow> t = s
    | Ok u \<Rightarrow> \<exists>metadata. find_set (au_artifact_key a) t = Some (new_set now a metadata)
        \<and> files_of (au_artifact_key a) t = files \<and> distinct (map fl_object_key files)
        \<and> (\<forall>x \<in> set (st_sets s). x \<in> set (st_sets t) \<or> at_artifact_set_hash x = au_artifact_key a)
        \<and> (\<forall>x \<in> set (st_sets t). x \<in> set (st_sets s) \<or> x = new_set now a metadata)
        \<and> (\<forall>h. h \<noteq> au_artifact_key a \<longrightarrow> files_of h t = files_of h s)"
proof (cases r)
  case (Inl e)
  then show ?thesis using assms(1)
    by (auto simp: stage_artifact_def refused_def stage_artifact_inner_def transaction_def split: if_splits sum.splits prod.splits)
next
  case (Inr u)
  let ?k = "au_artifact_key a"
  obtain metadata n v where none: "au_generator_processing_hash a = None"
    and v: "upsert_set (new_set now a metadata) s = Ok (n, v)" "n \<noteq> 0"
    and t: "try_fold insert_file (v\<lparr>st_files := filter (\<lambda>f. fl_artifact_set_hash f \<noteq> ?k) (st_files v)\<rparr>) files = Ok t"
    using assms(1) Inr by (auto simp: stage_artifact_def refused_def stage_artifact_inner_def transaction_def and_then_Ok Let_def
        and_then_def split: if_splits sum.splits prod.splits)
  let ?r = "new_set now a metadata"
  have key: "at_artifact_set_hash ?r = ?k" by (simp add: new_set_def)
  note sets = upsert_own [OF v keys, unfolded key]
  have t': "t = v\<lparr>st_files := filter (\<lambda>f. fl_artifact_set_hash f \<noteq> ?k) (st_files s) @ files\<rparr>"
    using insert_files [OF t] sets(2) by simp
  have "files_of ?k t = files" "\<forall>h. h \<noteq> ?k \<longrightarrow> files_of h t = files_of h s"
    using own by (auto simp: t' files_of_def filter_empty_conv intro!: filter_cong)
  then show ?thesis using Inr sets insert_files_keys [OF t] by (auto simp: t' find_set_def)
qed

section \<open>Uploading\<close>

lemma on_export_eq:
  "on_export m s = (r, t) \<longleftrightarrow> (\<exists>x. m (pb_export s) = (r, x) \<and> t = s\<lparr>pb_export := x\<rparr>)"
  by (auto simp: on_export_def split: prod.splits)

lemma verify_keeps_objects:
  "verify_uploaded_artifact p key content_type len expected s = (r, t) \<Longrightarrow> xs_objects t = xs_objects s"
  by (auto simp: verify_uploaded_artifact_def STRICT_UPLOAD_VERIFICATION_def verify_uploaded_object_def head_object_def
      and_next_def answer_with_def split: prod.splits sum.splits)

lemma upload_file_Ok:
  "upload_file p disposition cache_control f bytes s = (Ok u, t) \<Longrightarrow> xs_objects t = (xs_objects s)(fl_object_key f \<mapsto> bytes)"
  by (auto simp: upload_file_def and_next_Ok dest!: put_with_headers_tables verify_keeps_objects)

text \<open>Files with keys of their own do not overwrite each other.\<close>

lemma upload_files_Ok:
  assumes "upload_files (upload_file p disposition cache_control) files s = (Ok u, t)"
    and "distinct (map (\<lambda>x. fl_object_key (fst x)) files)"
  shows "(\<forall>(f, bytes) \<in> set files. xs_objects t (fl_object_key f) = Some bytes)
    \<and> (\<forall>k. k \<notin> (\<lambda>x. fl_object_key (fst x)) ` set files \<longrightarrow> xs_objects t k = xs_objects s k)"
  using assms
proof (induction files arbitrary: s)
  case Nil
  then show ?case by (auto simp: answer_with_def)
next
  case (Cons x files)
  obtain f bytes where x: "x = (f, bytes)" by fastforce
  obtain v where "upload_file p disposition cache_control f bytes s = (Ok (), v)"
    and rest: "upload_files (upload_file p disposition cache_control) files v = (Ok u, t)"
    using Cons.prems(1) by (auto simp: x and_next_Ok)
  then have v: "xs_objects v = (xs_objects s)(fl_object_key f \<mapsto> bytes)" by (auto dest: upload_file_Ok)
  have "fl_object_key f \<notin> (\<lambda>x. fl_object_key (fst x)) ` set files" "distinct (map (\<lambda>x. fl_object_key (fst x)) files)"
    using Cons.prems(2) by (auto simp: x)
  then show ?case using Cons.IH [OF rest] by (auto simp: x v)
qed

section \<open>Making ready\<close>

interpretation readied: keyed_update at_artifact_set_hash
  "\<lambda>r. r\<lparr>at_status := ''ready'', at_primary_object_key := Some primary, at_updated_at := now\<rparr>" for primary now
  by unfold_locales simp

interpretation replaced: keyed_update at_artifact_set_hash "supersede now by' reason" for now by' reason
  by unfold_locales (simp add: supersede_def)

text \<open>
  A published artifact: its set is ready under the key, no other set of its output is, and every file has
  its bytes in the object store.
\<close>

definition files_stored :: "digest \<Rightarrow> string \<Rightarrow> 'w publication \<Rightarrow> bool" where
  "files_stored sha hash s \<longleftrightarrow> (\<forall>f \<in> set (files_of hash (pb_store s)). \<exists>bytes.
     xs_objects (pb_export s) (fl_object_key f) = Some bytes \<and> fl_byte_len f = int (length bytes)
     \<and> fl_sha256 f = hex_sha256 sha bytes)"

definition published_as :: "digest \<Rightarrow> string \<Rightarrow> string \<Rightarrow> string \<Rightarrow> string \<Rightarrow> 'w publication \<Rightarrow> bool" where
  "published_as sha source config kind key s \<longleftrightarrow> (\<exists>hash r. find_set hash (pb_store s) = Some r \<and> at_status r = ''ready''
      \<and> unsuperseded r \<and> at_primary_object_key r = Some key \<and> at_source_hash r = source \<and> at_config_hash r = config
      \<and> at_output_kind r = kind
      \<and> (\<forall>x \<in> set (st_sets (pb_store s)). at_status x = ''ready'' \<longrightarrow> same_output r x \<longrightarrow> at_artifact_set_hash x = hash)
      \<and> key \<in> fl_object_key ` set (files_of hash (pb_store s)) \<and> files_stored sha hash s)"

text \<open>
  What a failure leaves: no set became ready, the sets of every other hash are as they were, and so are
  their files.
\<close>

definition only_touched :: "string \<Rightarrow> store \<Rightarrow> store \<Rightarrow> bool" where
  "only_touched hash s t \<longleftrightarrow> (\<forall>x \<in> set (st_sets t). at_status x = ''ready'' \<longrightarrow> x \<in> set (st_sets s))
    \<and> (\<forall>x \<in> set (st_sets s). x \<in> set (st_sets t) \<or> at_artifact_set_hash x = hash)
    \<and> (\<forall>h. h \<noteq> hash \<longrightarrow> files_of h t = files_of h s)"

lemma only_touched_refl: "only_touched hash s s"
  by (simp add: only_touched_def)

definition ready_sets :: "artifact_upsert \<Rightarrow> nat \<Rightarrow> artifact_set list \<Rightarrow> artifact_set list" where
  "ready_sets a now t = snd (update_where (\<lambda>r. at_source_hash r = au_source_hash a \<and> at_config_hash r = au_config_hash a
      \<and> at_options_hash r = au_options_hash a \<and> at_output_kind r = au_output_kind a
      \<and> at_status r = ''ready'' \<and> at_artifact_set_hash r \<noteq> au_artifact_key a)
      (supersede now (Some (au_artifact_key a)) (Some ''replaced''))
    (snd (update_where (\<lambda>r. at_artifact_set_hash r = au_artifact_key a) (\<lambda>r. r\<lparr>at_status := ''ready'',
      at_primary_object_key := Some (au_object_key a), at_updated_at := now\<rparr>) t)))"

lemma on_store_eq: "on_store f s = (Ok (fst (f (pb_store s))), s\<lparr>pb_store := snd (f (pb_store s))\<rparr>)"
  by (simp add: on_store_def case_prod_unfold Let_def)

lemma clock_store [simp]: "clock p (s\<lparr>pb_store := x\<rparr>) = clock p s"
  by (simp add: clock_def)

lemma make_ready_eq:
  "make_ready p a s = (Ok (au_object_key a), s\<lparr>pb_store := (pb_store s)\<lparr>st_sets := ready_sets a (clock p s) (st_sets (pb_store s))\<rparr>\<rparr>)"
  by (simp add: make_ready_def and_next_def on_store_eq answer_with_def mark_artifact_set_ready_def
      supersede_ready_artifacts_for_output_def snd_update_sets ready_sets_def)

lemma ready_sets_stand:
  fixes now later :: nat
  assumes own: "find_row at_artifact_set_hash (au_artifact_key a) t = Some (new_set now a metadata)"
  defines "r \<equiv> (new_set now a metadata)\<lparr>at_status := ''ready'', at_primary_object_key := Some (au_object_key a), at_updated_at := later\<rparr>"
  shows "find_row at_artifact_set_hash (au_artifact_key a) (ready_sets a later t) = Some r"
    and "x \<in> set (ready_sets a later t) \<Longrightarrow> at_status x = ''ready'' \<Longrightarrow> same_output r x \<Longrightarrow> at_artifact_set_hash x = au_artifact_key a"
proof -
  show "find_row at_artifact_set_hash (au_artifact_key a) (ready_sets a later t) = Some r"
    by (simp add: ready_sets_def replaced.row readied.row own r_def new_set_def)
  assume x: "x \<in> set (ready_sets a later t)" "at_status x = ''ready''" "same_output r x"
  let ?Q = "\<lambda>y. at_source_hash y = au_source_hash a \<and> at_config_hash y = au_config_hash a
      \<and> at_options_hash y = au_options_hash a \<and> at_output_kind y = au_output_kind a
      \<and> at_status y = ''ready'' \<and> at_artifact_set_hash y \<noteq> au_artifact_key a"
  let ?S = "supersede later (Some (au_artifact_key a)) (Some ''replaced'')"
  obtain y where y: "x = (if ?Q y then ?S y else y)"
    using x(1) unfolding ready_sets_def by (subst (asm) set_update) blast
  have "at_status (?S y) \<noteq> ''ready''" by (simp add: supersede_def)
  then have "\<not> ?Q y" using x(2) y by metis
  moreover from this have "x = y" using y by presburger
  moreover have "at_source_hash x = au_source_hash a" "at_config_hash x = au_config_hash a"
    "at_options_hash x = au_options_hash a" "at_output_kind x = au_output_kind a"
    using x(3) by (simp_all add: r_def new_set_def same_output_def)
  ultimately show "at_artifact_set_hash x = au_artifact_key a" using x(2) by metis
qed

section \<open>Publishing\<close>

lemma stage_for_upload_eq:
  "stage_for_upload p a files s = (r, t) \<longleftrightarrow> (\<exists>q st. stage_artifact (pu_libraries p) (clock p s) a files (pb_store s) = (q, st)
    \<and> r = map_err (pu_sql_text p) q \<and> t = s\<lparr>pb_store := st\<rparr>)"
  by (auto simp: stage_for_upload_def split: prod.splits)

lemma publish_cases:
  assumes "publish p a files upload s = (result, t)"
  obtains e q where "result = Err e" "stage_artifact (pu_libraries p) (clock p s) a files (pb_store s) = (Err q, pb_store t)"
  | e st x where "result = Err e" "stage_artifact (pu_libraries p) (clock p s) a files (pb_store s) = (Ok (), st)"
      "pb_store t = snd (transition_artifact_set_status (clock p (s\<lparr>pb_store := st, pb_export := x\<rparr>)) (au_artifact_key a) ''upload_failed'' st)"
  | st x u now where "result = Ok (au_object_key a)" "stage_artifact (pu_libraries p) (clock p s) a files (pb_store s) = (Ok (), st)"
      "upload (pb_export s) = (Ok u, x)" "pb_export t = x" "pb_store t = st\<lparr>st_sets := ready_sets a now (st_sets st)\<rparr>"
proof -
  obtain q st where staged: "stage_artifact (pu_libraries p) (clock p s) a files (pb_store s) = (q, st)" by fastforce
  obtain uploaded x where up: "upload (pb_export s) = (uploaded, x)" by fastforce
  show thesis
  proof (cases q)
    case (Inl e)
    then show thesis
      using assms that(1) staged by (auto simp: publish_def and_next_def stage_for_upload_def map_err_def)
  next
    case (Inr u)
    note run = assms [unfolded publish_def and_next_def stage_for_upload_def staged Let_def prod.case Inr map_err_def sum.case
        on_export_def publication.simps up]
    show thesis
    proof (cases uploaded)
      case (Inl e)
      then show thesis
        using run that(2) [of e st x] staged up \<open>q = Inr u\<close>
        by (auto simp: mark_artifact_upload_failed_def on_store_eq answer_with_def)
    next
      case (Inr v)
      then show thesis
        using run that(3) [of st v x] staged up \<open>q = Inr u\<close> by (auto simp: make_ready_eq)
    qed
  qed
qed

lemma publish_stands:
  assumes run: "publish p a (map fst files) (upload_files (upload_file p disposition cache_control) files) s = (Ok key, t)"
    and keys: "keys_distinct (pb_store s)"
    and rows: "\<forall>(f, bytes) \<in> set files. fl_artifact_set_hash f = au_artifact_key a \<and> fl_byte_len f = int (length bytes)
      \<and> fl_sha256 f = hex_sha256 sha bytes"
    and primary: "au_object_key a \<in> fl_object_key ` fst ` set files"
  shows "published_as sha (au_source_hash a) (au_config_hash a) (au_output_kind a) key t"
  using run
proof (cases rule: publish_cases)
  case (3 st x u now)
  let ?k = "au_artifact_key a"
  have own: "\<forall>f \<in> set (map fst files). fl_artifact_set_hash f = ?k" using rows by auto
  from stage_artifact_cases [OF 3(2) keys own] obtain metadata where
    r: "find_set ?k st = Some (new_set (clock p s) a metadata)" and files: "files_of ?k st = map fst files"
    and separate: "distinct (map fl_object_key (map fst files))" by auto
  have mine: "files_of ?k (pb_store t) = map fst files" using files by (simp add: 3(5) files_of_def)
  have objects: "\<forall>(f, bytes) \<in> set files. xs_objects (pb_export t) (fl_object_key f) = Some bytes"
    using upload_files_Ok [OF 3(3)] separate by (simp add: 3(4) comp_def)
  have "\<exists>bytes. xs_objects (pb_export t) (fl_object_key f) = Some bytes \<and> fl_byte_len f = int (length bytes)
      \<and> fl_sha256 f = hex_sha256 sha bytes" if "f \<in> fst ` set files" for f
  proof -
    obtain bytes where f: "(f, bytes) \<in> set files" using \<open>f \<in> fst ` set files\<close> by auto
    show ?thesis using bspec [OF objects f] bspec [OF rows f] by auto
  qed
  then have "files_stored sha ?k t" by (simp add: files_stored_def mine)
  moreover have "au_object_key a \<in> fl_object_key ` set (files_of ?k (pb_store t))" using primary by (simp add: mine)
  moreover note stand = ready_sets_stand [OF r [unfolded find_set_def], where later = now]
  let ?r = "(new_set (clock p s) a metadata)\<lparr>at_status := ''ready'', at_primary_object_key := Some (au_object_key a), at_updated_at := now\<rparr>"
  have "find_set ?k (pb_store t) = Some ?r" using stand(1) by (simp add: 3(5) find_set_def)
  moreover have "\<forall>x \<in> set (st_sets (pb_store t)). at_status x = ''ready'' \<longrightarrow> same_output ?r x \<longrightarrow> at_artifact_set_hash x = ?k"
    using stand(2) by (simp add: 3(5))
  moreover have "key = au_object_key a" using 3(1) by simp
  ultimately show ?thesis
    unfolding published_as_def by (intro exI [of _ ?k] exI [of _ ?r]) (simp add: unsuperseded_def new_set_def)
qed simp_all

lemma publish_touches:
  assumes run: "publish p a files upload s = (Err e, t)" and keys: "keys_distinct (pb_store s)"
    and own: "\<forall>f \<in> set files. fl_artifact_set_hash f = au_artifact_key a"
  shows "only_touched (au_artifact_key a) (pb_store s) (pb_store t)"
  using run
proof (cases rule: publish_cases)
  case (1 e q)
  then show ?thesis using stage_artifact_cases [OF 1(2) keys own] by (simp add: only_touched_refl)
next
  case (2 e st x)
  let ?k = "au_artifact_key a"
  let ?new = "\<lambda>metadata. new_set (clock p s) a metadata"
  from stage_artifact_cases [OF 2(2) keys own] obtain metadata where
    st: "\<forall>x \<in> set (st_sets (pb_store s)). x \<in> set (st_sets st) \<or> at_artifact_set_hash x = ?k"
    "\<forall>x \<in> set (st_sets st). x \<in> set (st_sets (pb_store s)) \<or> x = ?new metadata"
    "\<forall>h. h \<noteq> ?k \<longrightarrow> files_of h st = files_of h (pb_store s)" by auto
  have hash: "at_artifact_set_hash (?new metadata) = ?k" by (simp add: new_set_def)
  obtain change where change: "\<And>r. at_status (change r) = ''upload_failed''"
    and t: "st_sets (pb_store t) = snd (update_where (\<lambda>r. at_artifact_set_hash r = ?k) change (st_sets st))" "st_files (pb_store t) = st_files st"
    by (rule that [of "\<lambda>r. r\<lparr>at_status := ''upload_failed'', at_updated_at := clock p (s\<lparr>pb_store := st, pb_export := x\<rparr>)\<rparr>"])
      (simp_all add: 2(3) transition_artifact_set_status_def snd_update_sets)
  have "x \<in> set (st_sets (pb_store s))" if x: "x \<in> set (st_sets (pb_store t))" "at_status x = ''ready''" for x
  proof -
    obtain y where y: "y \<in> set (st_sets st)" "x = (if at_artifact_set_hash y = ?k then change y else y)"
      using x(1) unfolding t(1) set_update by blast
    then have "x = y" "at_artifact_set_hash y \<noteq> ?k" using x(2) change [of y] by (auto split: if_splits)
    then show ?thesis using st(2) y(1) hash by blast
  qed
  moreover have "x \<in> set (st_sets (pb_store t)) \<or> at_artifact_set_hash x = ?k" if "x \<in> set (st_sets (pb_store s))" for x
    using that st(1) unfolding t(1) set_update by fastforce
  ultimately show ?thesis using st(3) t(2) by (simp add: only_touched_def files_of_def)
qed simp

section \<open>Before the publication\<close>

text \<open>The steps up to the publication leave the store of artifacts as it is.\<close>

definition keeps_store :: "('w publication, 'a) action \<Rightarrow> bool" where
  "keeps_store m \<longleftrightarrow> (\<forall>s. pb_store (snd (m s)) = pb_store s)"

lemma store_answer [intro]: "keeps_store (answer_with r)"
  by (simp add: keeps_store_def answer_with_def)

lemma store_export [intro]: "keeps_store (on_export m)"
  by (simp add: keeps_store_def on_export_def case_prod_unfold Let_def)

lemma store_and_next [intro]:
  assumes "keeps_store m" and "\<And>a. keeps_store (f a)"
  shows "keeps_store (and_next m f)"
  unfolding keeps_store_def
proof
  fix s
  show "pb_store (snd (and_next m f s)) = pb_store s"
    using assms by (cases "m s"; cases "fst (m s)") (auto simp: keeps_store_def and_next_def, metis snd_conv, metis snd_conv)
qed

lemma store_runs [intro]: "keeps_store (stage_run p hash raw name version policy)" "keeps_store (settle_run p hash status entries derived)"
  by (simp_all add: keeps_store_def stage_run_def settle_run_def Let_def case_prod_unfold)

lemma store_persist [intro]: "keeps_store (persist_export_request p source config options kind format r)"
  by (simp add: keeps_store_def persist_export_request_def and_next_def answer_with_def Let_def case_prod_unfold split: sum.split)

lemma store_prepare [intro]:
  "keeps_store (prepare_preview_export p (on_export m) model source config)"
  "keeps_store (prepare_download_export p (on_export m) model source config format)"
  unfolding prepare_preview_export_def prepare_download_export_def Let_def by blast+

lemma store_postprocess [intro]: "keeps_store (postprocess p name version policy realize derived message raw)"
  unfolding postprocess_def by (intro store_and_next store_answer store_runs store_export) (auto split: prod.split sum.split)

text \<open>A run of such steps fails with the store untouched, or reaches what comes after them.\<close>

definition reaches :: "('w publication \<Rightarrow> (string, 'a) result \<Rightarrow> 'w publication \<Rightarrow> bool) \<Rightarrow> ('w publication, 'a) action \<Rightarrow> bool" where
  "reaches P m \<longleftrightarrow> (\<forall>s r t. m s = (r, t) \<longrightarrow> (\<exists>e. r = Err e \<and> pb_store t = pb_store s) \<or> (\<exists>u. pb_store u = pb_store s \<and> P u r t))"

lemma reaches_last: "(\<And>s r t. m s = (r, t) \<Longrightarrow> P s r t) \<Longrightarrow> reaches P m"
  unfolding reaches_def by blast

lemma reaches_next:
  assumes "keeps_store m" and "\<And>a. reaches P (f a)"
  shows "reaches P (and_next m f)"
  unfolding reaches_def
proof (intro allI impI)
  fix s r t assume run: "and_next m f s = (r, t)"
  obtain q u where m: "m s = (q, u)" by fastforce
  have kept: "pb_store u = pb_store s" using assms(1) m unfolding keeps_store_def by (metis snd_conv)
  show "(\<exists>e. r = Err e \<and> pb_store t = pb_store s) \<or> (\<exists>u. pb_store u = pb_store s \<and> P u r t)"
  proof (cases q)
    case (Inl e)
    then show ?thesis using run m kept by (auto simp: and_next_def)
  next
    case (Inr a)
    then have "f a u = (r, t)" using run m by (simp add: and_next_def)
    then show ?thesis using assms(2) [of a] kept unfolding reaches_def by metis
  qed
qed

section \<open>The two refreshes\<close>

lemma export_file_rows:
  "fl_artifact_set_hash (export_file p hash role path original key content_type bytes) = hash"
  "fl_byte_len (export_file p hash role path original key content_type bytes) = int (length bytes)"
  "fl_sha256 (export_file p hash role path original key content_type bytes) = hex_sha256 (ev_sha (pu_env p)) bytes"
  "fl_object_key (export_file p hash role path original key content_type bytes) = key"
  by (simp_all add: export_file_def)

lemma preview_files_rows:
  "\<forall>(f, bytes) \<in> set (preview_files p hash a). fl_artifact_set_hash f = hash \<and> fl_byte_len f = int (length bytes)
    \<and> fl_sha256 f = hex_sha256 (ev_sha (pu_env p)) bytes"
  by (auto simp: preview_files_def export_file_rows)

lemma export_upsert_fields:
  "au_artifact_key (export_upsert p m source config kind format values job prepared raw post f) = fl_artifact_set_hash f"
  "au_object_key (export_upsert p m source config kind format values job prepared raw post f) = fl_object_key f"
  "au_source_hash (export_upsert p m source config kind format values job prepared raw post f) = source"
  "au_config_hash (export_upsert p m source config kind format values job prepared raw post f) = config"
  "au_output_kind (export_upsert p m source config kind format values job prepared raw post f) = kind"
  by (simp_all add: export_upsert_def)

text \<open>A refresh fails with the store untouched or reaches its publication.\<close>

definition publishes ::
  "'w publisher \<Rightarrow> string \<Rightarrow> string \<Rightarrow> string \<Rightarrow> 'w publication \<Rightarrow> (string, string) result \<Rightarrow> 'w publication \<Rightarrow> bool" where
  "publishes p source config kind u result t \<longleftrightarrow> (\<exists>a files disposition cache_control.
     publish p a (map fst files) (upload_files (upload_file p disposition cache_control) files) u = (result, t)
     \<and> au_source_hash a = source \<and> au_config_hash a = config \<and> au_output_kind a = kind
     \<and> au_object_key a \<in> fl_object_key ` fst ` set files
     \<and> (\<forall>(f, bytes) \<in> set files. fl_artifact_set_hash f = au_artifact_key a \<and> fl_byte_len f = int (length bytes)
       \<and> fl_sha256 f = hex_sha256 (ev_sha (pu_env p)) bytes))"

lemma publishes_outcome:
  assumes "publishes p source config kind u result t" and keys: "keys_distinct (pb_store u)"
  shows "case result of Ok key \<Rightarrow> published_as (ev_sha (pu_env p)) source config kind key t
    | Err e \<Rightarrow> \<exists>hash. only_touched hash (pb_store u) (pb_store t)"
proof -
  obtain a files disposition cache_control where
    run: "publish p a (map fst files) (upload_files (upload_file p disposition cache_control) files) u = (result, t)"
    and a: "au_source_hash a = source" "au_config_hash a = config" "au_output_kind a = kind"
    and primary: "au_object_key a \<in> fl_object_key ` fst ` set files"
    and rows: "\<forall>(f, bytes) \<in> set files. fl_artifact_set_hash f = au_artifact_key a \<and> fl_byte_len f = int (length bytes)
       \<and> fl_sha256 f = hex_sha256 (ev_sha (pu_env p)) bytes"
    using assms(1) unfolding publishes_def by blast
  have own: "\<forall>f \<in> set (map fst files). fl_artifact_set_hash f = au_artifact_key a" using rows by auto
  show ?thesis
  proof (cases result)
    case (Inl e)
    then show ?thesis using publish_touches [OF run [unfolded Inl] keys own] by auto
  next
    case (Inr key)
    then show ?thesis using publish_stands [OF run [unfolded Inr] keys rows primary] a by simp
  qed
qed

lemma refresh_preview_reaches:
  "reaches (publishes p source config ''preview_glb'') (refresh_preview p encoding_of m source values config prepared job expected)"
proof -
  have last: "reaches (publishes p source config ''preview_glb'')
      (publish p (export_upsert p m source config ''preview_glb'' format values job prepared raw post (fst (hd files)))
        (map fst files) (upload_files (upload_file p None None) files))"
    if files: "files = preview_files p hash a" for format prepared raw post files hash and a :: preview_artifact
  proof (rule reaches_last, unfold publishes_def, intro exI conjI)
    show "au_object_key (export_upsert p m source config ''preview_glb'' format values job prepared raw post (fst (hd files)))
        \<in> fl_object_key ` fst ` set files"
      by (simp add: files export_upsert_fields preview_files_def)
    show "\<forall>(f, bytes) \<in> set files. fl_artifact_set_hash f = au_artifact_key (export_upsert p m source config ''preview_glb'' format
        values job prepared raw post (fst (hd files))) \<and> fl_byte_len f = int (length bytes)
        \<and> fl_sha256 f = hex_sha256 (ev_sha (pu_env p)) bytes"
      using preview_files_rows [of p hash a]
      by (simp add: files export_upsert_fields) (simp add: preview_files_def export_file_rows)
  qed (assumption, simp_all add: export_upsert_fields)
  show ?thesis
    unfolding refresh_preview_def Let_def postprocess_preview_artifact_def
    by (intro reaches_next store_answer store_export)
      (auto intro!: reaches_next last split: option.split prod.split)
qed

lemma refresh_download_reaches:
  "reaches (publishes p source config (format_slug format))
    (refresh_download p encoding_of m source values config format prepared job expected)"
proof -
  have last: "reaches (publishes p source config (format_slug format))
      (publish p (export_upsert p m source config (format_slug format) (format_slug format) values job prepared raw post f) [f]
        (upload_files (upload_file p disposition cache_control) [(f, bytes)]))"
    if f: "f = export_file p hash role path original key content_type bytes"
    for prepared raw post f bytes hash role path original key content_type disposition cache_control
  proof (rule reaches_last, unfold publishes_def, intro exI conjI)
    fix s r t
    assume "publish p (export_upsert p m source config (format_slug format) (format_slug format) values job prepared raw post f) [f]
        (upload_files (upload_file p disposition cache_control) [(f, bytes)]) s = (r, t)"
    then show "publish p (export_upsert p m source config (format_slug format) (format_slug format) values job prepared raw post f)
        (map fst [(f, bytes)]) (upload_files (upload_file p disposition cache_control) [(f, bytes)]) s = (r, t)" by simp
  qed (simp_all add: export_upsert_fields f export_file_rows)
  show ?thesis
    unfolding refresh_download_def Let_def postprocess_download_artifact_def
    by (intro reaches_next store_answer store_export)
      (auto simp del: upload_files.simps intro!: reaches_next last split: option.split prod.split)
qed

text \<open>
  C39: A refresh that succeeds, of a preview or of a download, has published the artifact it answers: its
  set is ready and not superseded, the object store has the bytes of each of its files with the length and
  the digest that the row of the file names, and no other set of the same output is ready.
\<close>
theorem refreshed_export_published:
  assumes "keys_distinct (pb_store s)"
    and "refresh_preview p encoding_of m source values config prepared job expected s = (Ok key, t)
        \<and> kind = ''preview_glb''
      \<or> refresh_download p encoding_of m source values config format prepared job expected s = (Ok key, t)
        \<and> kind = format_slug format"
  shows "published_as (ev_sha (pu_env p)) source config kind key t"
proof -
  obtain u where "pb_store u = pb_store s" "publishes p source config kind u (Ok key) t"
    using assms(2) refresh_preview_reaches refresh_download_reaches unfolding reaches_def by (metis sum.distinct(1))
  then show ?thesis using publishes_outcome [of p source config kind u "Ok key" t] assms(1) by simp
qed

text \<open>
  C40: A refresh that fails leaves the published artifacts alone: no set has become ready, and every set
  but at most the one that was being made again has its row and the rows of its files as before.
\<close>
theorem failed_refresh_keeps_published:
  assumes "keys_distinct (pb_store s)"
    and "refresh_preview p encoding_of m source values config prepared job expected s = (Err e, t)
      \<or> refresh_download p encoding_of m source values config format prepared job expected s = (Err e, t)"
  shows "\<exists>hash. only_touched hash (pb_store s) (pb_store t)"
proof -
  consider "pb_store t = pb_store s"
    | u kind where "pb_store u = pb_store s" "publishes p source config kind u (Err e) t"
    using assms(2) refresh_preview_reaches refresh_download_reaches unfolding reaches_def by metis
  then show ?thesis
  proof cases
    case 1
    then show ?thesis using only_touched_refl by simp
  next
    case 2
    then show ?thesis using publishes_outcome [of p source config kind u "Err e" t] assms(1) by simp
  qed
qed

end
