(* ===== verification/Export_Example.thy ===== *)
theory Export_Example
  imports Staged_Export_Runs
begin

text \<open>
  Exports at concrete inputs: two requests whose hashes differ, a download with a name outside ASCII, and a
  staged export from its start to its payload, in a world where Onshape answers at once.
\<close>

section \<open>Requests\<close>

definition example_host :: url_parts where
  "example_host = \<lparr>scheme = ''https'', url_host = Some ''cad.onshape.com'', username = [], password = None,
     url_query = None, fragment = None, url_port = None, known_port = Some 443, url_origin = PRODUCTION_ORIGIN\<rparr>"

definition example_client :: onshape_client where
  "example_client = \<lparr>oc_base_url = example_host, oc_access_key = Some ''a'', oc_secret_key = Some ''s''\<rparr>"

definition example_element :: onshape_source where
  "example_element = \<lparr>src_document_id = ''d'', src_version_id = ''v'', src_element_id = ''e'',
     src_element_kind = PartStudio, src_link_document_id = None\<rparr>"

definition example_encoding :: encoded_configuration where
  "example_encoding = \<lparr>ec_encoded_id = ''c'', ec_query_param = ''configuration=c''\<rparr>"

definition example_options :: download_options where
  "example_options = \<lparr>do_step_version_string = Ap242, do_stl = \<lparr>so_resolution = MeshFine, so_stl_mode = StlBinary\<rparr>,
     do_three_mf = \<lparr>to_resolution = MeshFine\<rparr>\<rparr>"

definition example_export :: "download_format \<Rightarrow> export_request" where
  "example_export f = build_export example_client example_element example_encoding (Download f example_options)"

lemma example_export_operation:
  "f \<noteq> Step \<Longrightarrow> field ''operation'' (request_identity_json (cx_identity (example_export f)))
    = Some (JStr (''create-'' @ format_slug f @ ''-translation''))"
  by (simp add: example_export_def build_translation_export_request_def Let_def request_identity_json_def field_members)

theorem export_hash_identifies_request_witness:
  "request_hash (example_jcs ''operation'') example_digest (cx_identity (example_export ThreeMf))
    \<noteq> request_hash (example_jcs ''operation'') example_digest (cx_identity (example_export Stl))"
proof -
  let ?h = "\<lambda>f. request_hash (example_jcs ''operation'') example_digest (cx_identity (example_export f))"
  obtain h where h: "?h Stl = Ok h"
    by (auto simp: request_hash_def hash_json_def example_jcs_preimage example_export_operation and_then_def)
  have u: "unambiguous (example_jcs ''operation'') example_digest
      {hash_preimage ''request-v2'' (request_identity_json (cx_identity (example_export Stl))),
       hash_preimage ''request-v2'' (request_identity_json (cx_identity (example_export ThreeMf)))}"
    by (auto simp: unambiguous_def example_jcs_preimage example_export_operation example_digest_def)
  show ?thesis
    using export_hash_identifies_request [OF u [unfolded example_export_def] h [unfolded example_export_def]] h
    by (simp add: same_export_def example_export_def)
qed

section \<open>File names\<close>

theorem download_filename_roundtrip_witness:
  "download_filename [(''content-disposition'', content_disposition ''a;b.stl'' (Some ([CHR 0xC3, CHR 0xA9] @ ''.stl'')))]
    = (Some ([CHR 0xC3, CHR 0xA9] @ ''.stl''), Some ''content-disposition-filename*'')"
proof -
  have "valid_utf8 ([CHR 0xC3, CHR 0xA9] @ ''.stl'')" by code_simp
  moreover have "list_all visible_byte ''a;b.stl''" by code_simp
  ultimately show ?thesis
    by (subst download_filename_roundtrip [where fallback = "''a;b.stl''" and name = "Some ([CHR 0xC3, CHR 0xA9] @ ''.stl'')"])
      (auto simp: get_header_def)
qed

section \<open>A world that answers\<close>

fun write_strings :: "string list \<Rightarrow> string" where
  "write_strings [] = []"
| "write_strings (s # ss) = concat (map (\<lambda>c. [CHR ''c'', c]) s) @ CHR ''e'' # write_strings ss"

fun read_strings :: "string \<Rightarrow> string \<Rightarrow> string list" where
  "read_strings current (c # d # s) =
    (if c = CHR ''e'' then current # read_strings [] (d # s) else read_strings (current @ [d]) s)"
| "read_strings current [c] = [current]"
| "read_strings current [] = []"

lemma read_written_string:
  "read_strings current (concat (map (\<lambda>c. [CHR ''c'', c]) w) @ CHR ''e'' # s) = (current @ w) # read_strings [] s"
  by (induction w arbitrary: current; cases s) auto

lemma read_written: "read_strings [] (write_strings ss) = ss"
  by (induction ss) (simp_all add: read_written_string)

definition started_json :: json where
  "started_json = JObj [(''id'', JStr ''t''), (''requestState'', JStr ''ACTIVE'')]"

definition done_json :: json where
  "done_json = JObj [(''requestState'', JStr ''DONE''), (''resultExternalDataIds'', JArr [JStr ''x''])]"

definition example_print :: "json \<Rightarrow> string" where
  "example_print v = (case v of
     JArr vs \<Rightarrow> CHR ''['' # write_strings (map (\<lambda>x. case as_str x of Some s \<Rightarrow> s | None \<Rightarrow> []) vs)
   | _ \<Rightarrow> if v = started_json then ''started'' else ''done'')"

definition example_parse :: "string \<Rightarrow> (string, json) result" where
  "example_parse s =
    (if starts_with ''['' s then Ok (JArr (map JStr (read_strings [] (tl s))))
     else if s = ''started'' then Ok started_json
     else if s = ''done'' then Ok done_json
     else Err ''syntax'')"

definition export_library_example :: export_library where
  "export_library_example = \<lparr>xl_set_path = id, xl_method_ok = (\<lambda>_. True), xl_parse = example_parse, xl_print = example_print,
     xl_signing = \<lparr>hmac = (\<lambda>_ _. Some ''m''), base64 = id, header_str = (\<lambda>_. True), form_encode = (\<lambda>_. [])\<rparr>\<rparr>"

lemma example_reads_back: "string_arrays_read_back export_library_example"
proof -
  have "map (\<lambda>x. case as_str x of Some s \<Rightarrow> s | None \<Rightarrow> []) (map JStr ids) = ids" for ids
    by (induction ids) auto
  then show ?thesis
    by (simp add: string_arrays_read_back_def export_library_example_def example_parse_def example_print_def
        starts_with_def read_written)
qed

definition answering :: "http_message \<Rightarrow> string" where
  "answering m = (if hm_method m = ''POST'' then ''started''
     else if starts_with ''/api/translations/'' (hm_path m) then ''done'' else ''solid'')"

definition example_env :: "unit export_env" where
  "example_env = \<lparr>ev_library = export_library_example,
     ev_remote = \<lparr>rm_date = (\<lambda>_. ''d''), rm_nanos = (\<lambda>_. 0), rm_millis = (\<lambda>_. 0),
       rm_send = (\<lambda>m w. (Ok \<lparr>an_status = 200, an_status_text = ''200 OK'', an_url = hm_path m, an_headers = [],
         an_body = Ok (answering m)\<rparr>, w)), rm_sleep = (\<lambda>_ w. w)\<rparr>,
     ev_client = example_client, ev_jcs = example_jcs ''translationId'', ev_sha = example_digest,
     ev_put = (\<lambda>_ _ _ _ _ w. (Stored, w)), ev_get = (\<lambda>_ w. (Ok (), w)), ev_zip = (\<lambda>_. Err ''no archive'')\<rparr>"

definition no_exports :: "unit export_state" where
  "no_exports = \<lparr>xs_translations = [], xs_payloads = [], xs_sources = [], xs_objects = Map.empty,
     xs_process = \<lparr>pc_nonces = 0, pc_world = ()\<rparr>\<rparr>"

definition example_payload :: string where
  "example_payload = hex_sha256 example_digest ''solid''"

lemma example_export_succeeds:
  "fst (execute_staged_export_request example_env ''h'' (example_export Stl) no_exports) = Ok example_payload"
  by code_simp
lemma example_run:
  "execute_staged_export_request example_env ''h'' (example_export Stl) no_exports =
    (Ok example_payload, snd (execute_staged_export_request example_env ''h'' (example_export Stl) no_exports))"
  using example_export_succeeds by (metis prod.collapse)

section \<open>Staged exports\<close>

text \<open>Once it succeeded, the export does not need Onshape or the store any more.\<close>

theorem staged_export_found_again_witness:
  "execute_staged_export_request (example_env\<lparr>ev_remote := posts_refused (ev_remote example_env),
      ev_put := (\<lambda>_ _ _ _ _ w. (NotStored ''down'', w))\<rparr>) ''h'' (example_export Stl)
    (snd (execute_staged_export_request example_env ''h'' (example_export Stl) no_exports)) =
    (Ok example_payload, snd (execute_staged_export_request example_env ''h'' (example_export Stl) no_exports))"
  by (rule staged_export_found_again [OF _ _ example_run])
    (simp_all add: example_env_def example_reads_back no_exports_def)

definition unfinished_export :: "unit export_state" where
  "unfinished_export = no_exports\<lparr>xs_translations := insert_translation_start 0 ''t'' ''h'' ''ACTIVE'' ''started'' []\<rparr>"


text \<open>A later export for another request refuses, and the payload stays.\<close>

theorem staged_payload_stays_loadable_witness:
  "\<exists>row bytes. fst (load_persisted_raw_payload example_env example_payload
      (run_exports [(without_posts example_env, ''g'', example_export ThreeMf)]
        (snd (execute_staged_export_request example_env ''h'' (example_export Stl) no_exports)))) = Ok (row, bytes)
    \<and> rw_raw_payload_hash row = example_payload \<and> hex_sha256 example_digest bytes = example_payload"
proof (rule staged_payload_stays_loadable [where earlier = "[]" and s = no_exports and env = example_env and rh = "''h''"
      and r = "example_export Stl"])
  show "execute_staged_export_request example_env ''h'' (example_export Stl) (run_exports [] no_exports) =
      (Ok example_payload, snd (execute_staged_export_request example_env ''h'' (example_export Stl) no_exports))"
    using example_run by (simp add: run_exports_def)
qed (simp_all add: example_env_def no_exports_def)

end
