(* ===== verification/Publication_Example.thy ===== *)
theory Publication_Example
  imports Export_Publication_Runs Export_Example
begin

text \<open>
  Publications at concrete inputs: an archive whose scene refers to a buffer beside it, the preview of a
  model out of a direct GLB, and the same with a store that refuses the upload.
\<close>

section \<open>An archive\<close>

definition scene_json :: json where
  "scene_json = JObj [(''asset'', JObj [(''version'', JStr ''2.0'')]), (''buffers'', JArr [JObj [(''uri'', JStr ''a.bin'')]])]"

definition scene_library :: export_library where
  "scene_library = export_library_example\<lparr>xl_parse := (\<lambda>s. if s = ''scene'' then Ok scene_json else Err ''syntax'')\<rparr>"

definition scene_archive :: zip_archive where
  "scene_archive =
    [Ok \<lparr>ze_name = Ok ''d/'', ze_is_dir = True, ze_size = 0, ze_data = Ok []\<rparr>,
     Ok \<lparr>ze_name = Ok ''d/scene.GLTF'', ze_is_dir = False, ze_size = 5, ze_data = Ok ''scene''\<rparr>,
     Ok \<lparr>ze_name = Ok ''d/a.bin'', ze_is_dir = False, ze_size = 2, ze_data = Ok ''xy''\<rparr>]"

definition scene_preview :: preview_artifact where
  "scene_preview = \<lparr>vw_logical_path = ''d/scene.GLTF'', vw_original_path = Some ''d/scene.GLTF'',
     vw_content_type = ''model/gltf+json'', vw_bytes = ''scene'', vw_sidecars = [\<lparr>sd_role = ''sidecar'',
       sd_logical_path = ''d/a.bin'', sd_original_path = Some ''d/a.bin'', sd_content_type = ''application/octet-stream'',
       sd_bytes = ''xy''\<rparr>]\<rparr>"

lemma scene_accepted:
  "preview_artifact_from_onshape_bytes scene_library (\<lambda>_. Ok scene_archive) ZIP_MAGIC = Ok scene_preview"
  by code_simp


text \<open>Without the buffer, the preview is refused.\<close>

lemma scene_alone_refused:
  "preview_artifact_from_onshape_bytes scene_library (\<lambda>_. Ok (take 2 scene_archive)) ZIP_MAGIC =
    Err ''glTF preview ZIP is missing referenced sidecar asset: d/a.bin''"
  by code_simp

section \<open>A preview\<close>

definition example_glb :: string where
  "example_glb = ''glTF'' @ [CHR 0x02, CHR 0x00, CHR 0x00, CHR 0x00, CHR 0x0C, CHR 0x00, CHR 0x00, CHR 0x00]"

definition glb_hash :: string where "glb_hash = hex_sha256 example_digest example_glb"

definition glb_env :: "put_outcome \<Rightarrow> unit export_env" where
  "glb_env outcome = example_env\<lparr>ev_jcs := (\<lambda>_. Ok ''j''), ev_put := (\<lambda>_ _ _ _ _ w. (outcome, w))\<rparr>"

text \<open>The payload of an earlier run is at hand.\<close>

definition glb_exported :: "unit export_state" where
  "glb_exported = \<lparr>xs_translations = [\<lparr>tr_translation_id = ''t'', tr_request_hash = ''h'', tr_state = ''DONE'',
       tr_start_response_json = None, tr_final_response_json = Some ''done'', tr_poll_state_json = None,
       tr_result_external_data_ids_json = Some (example_print (JArr [JStr ''x''])), tr_result_element_ids_json = None,
       tr_response_hash = None, tr_failure_reason = None, tr_created_at = 0, tr_updated_at = 0\<rparr>],
     xs_payloads = [\<lparr>rw_raw_payload_hash = glb_hash, rw_object_key = ''raw'', rw_content_type = None, rw_byte_len = 12,
       rw_headers_json = [], rw_original_filename = None, rw_filename_source = None, rw_detected_kind = ''glb'',
       rw_zip_manifest_json = None\<rparr>],
     xs_sources = [\<lparr>sx_request_hash = ''h'', sx_translation_id = Some ''t'', sx_external_data_id = Some ''x'',
       sx_result_index = Some 0, sx_response_headers_json = [], sx_etag = None, sx_raw_payload_hash = glb_hash\<rparr>],
     xs_objects = [''raw'' \<mapsto> example_glb], xs_process = \<lparr>pc_nonces = 0, pc_world = ()\<rparr>\<rparr>"

definition example_publisher :: "put_outcome \<Rightarrow> unit publisher" where
  "example_publisher outcome = \<lparr>pu_env = glb_env outcome,
     pu_libraries = \<lparr>lb_jcs = example_jcs ''modelSlug'', lb_sha = example_digest, lb_to_vec = (\<lambda>_. Ok ''m''), lb_print = (\<lambda>_. []),
       lb_tokens = (\<lambda>_. (Unit, Ok ())), lb_settings_v2_schema = []\<rparr>,
     pu_head = (\<lambda>_ object w. (case object of Some bytes \<Rightarrow> Ok (Some (int (length bytes)), None) | None \<Rightarrow> Err ''404'', w)),
     pu_sql_text = (\<lambda>_. ''sql'')\<rparr>"

definition example_prepared_export :: prepared_export where
  "example_prepared_export = \<lparr>px_options_hash = ''o'', px_request_hash = ''h'', px_request = example_export Stl\<rparr>"

definition nothing_published :: "unit publication" where
  "nothing_published = \<lparr>pb_export = glb_exported, pb_requests = [], pb_runs = [],
     pb_store = \<lparr>st_recipes = [], st_occurrences = [], st_sets = [], st_files = [], st_requests = [], st_provenance = []\<rparr>\<rparr>"

definition example_refresh :: "put_outcome \<Rightarrow> unit publication \<Rightarrow> (string, string) result \<times> unit publication" where
  "example_refresh outcome = refresh_preview (example_publisher outcome) (answer_with (Err ''unused'')) example_model ''s'' [] ''c''
     (Some example_prepared_export) None (Some ''h'')"

lemma example_executed:
  "execute_staged_export_request (glb_env outcome) ''h'' r glb_exported = (Ok glb_hash, glb_exported)"
proof (rule answered_execute)
  have ids: "parse_json_string_vec export_library_example (example_print (JArr [JStr ''x''])) = Ok [''x'']"
    using parse_printed_strings [OF example_reads_back, of "[''x'']"] by (simp add: export_library_example_def)
  show "answered (ev_library (glb_env outcome)) ''h'' glb_hash glb_exported"
    using ids by (simp add: answered_def glb_env_def example_env_def glb_exported_def latest_completed_translation_for_request_def
        completed_def persisted_result_external_data_id_def ifnull_def and_then_def existing_Some raw_payload_hash_for_source_def
        source_key_def find_row_def raw_payload_row_def)
qed

lemma example_loaded:
  "\<exists>row. load_persisted_raw_payload (glb_env outcome) glb_hash glb_exported = (Ok (row, example_glb), glb_exported)"
  by (simp add: load_persisted_raw_payload_def glb_exported_def raw_payload_row_def find_row_def and_next_def answer_with_def
      ok_or_def get_bytes_def glb_env_def example_env_def and_then_def verify_raw_payload_bytes_def glb_hash_def ensure_def)

lemma example_processed:
  "preview_artifact_from_onshape_bytes lib zip_new example_glb = Ok \<lparr>vw_logical_path = ''preview.glb'', vw_original_path = None,
     vw_content_type = ''model/gltf-binary'', vw_bytes = example_glb, vw_sidecars = []\<rparr>"
proof -
  have "validate_glb example_glb = Ok ()"
    by (simp add: validate_glb_def example_glb_def le_number_def result_simps Let_def)
  moreover have "starts_with ''glTF'' example_glb" by (simp add: starts_with_def example_glb_def)
  ultimately show ?thesis by (simp add: preview_artifact_from_onshape_bytes_def and_then_def map_err_def)
qed

definition glb_preview :: preview_artifact where
  "glb_preview = \<lparr>vw_logical_path = ''preview.glb'', vw_original_path = None, vw_content_type = ''model/gltf-binary'',
     vw_bytes = example_glb, vw_sidecars = []\<rparr>"

lemma publisher_simps [simp]:
  "pu_env (example_publisher outcome) = glb_env outcome" "ev_jcs (glb_env outcome) = (\<lambda>_. Ok ''j'')"
  "ev_sha (glb_env outcome) = example_digest" "pu_sql_text (example_publisher outcome) = (\<lambda>_. ''sql'')"
  "ev_put (glb_env outcome) = (\<lambda>_ _ _ _ _ w. (outcome, w))"
  by (simp_all add: example_publisher_def glb_env_def example_env_def)

lemma example_hashes:
  "postprocess_hash (\<lambda>_. Ok ''j'') example_digest i = Ok (hex_sha256 example_digest ''j'')"
  "artifact_set_hash (\<lambda>_. Ok ''j'') example_digest j = Ok (hex_sha256 example_digest ''j'')"
  by (simp_all add: postprocess_hash_def artifact_set_hash_def hash_json_def and_then_def)

lemma example_postprocessed:
  "\<exists>runs. postprocess_preview_artifact (example_publisher outcome) glb_hash nothing_published =
    (Ok (hex_sha256 example_digest ''j'', glb_preview), nothing_published\<lparr>pb_runs := runs\<rparr>)"
proof -
  obtain row where load: "load_persisted_raw_payload (glb_env outcome) glb_hash glb_exported = (Ok (row, example_glb), glb_exported)"
    using example_loaded by blast
  show ?thesis
    by (simp add: postprocess_preview_artifact_def postprocess_def and_next_def answer_with_def example_hashes stage_run_def
        settle_run_def on_export_def load example_processed glb_preview_def nothing_published_def case_prod_unfold Let_def)
qed

lemma example_published:
  fixes s :: "unit publication" and a :: artifact_upsert
  assumes "pb_store s = pb_store nothing_published" "au_generator_processing_hash a = None"
    and "fl_content_type f = content_type" "fl_byte_len f = int (length bytes)"
  shows "fst (publish (example_publisher Stored) a [f] (upload_files (upload_file (example_publisher Stored) None None) [(f, bytes)]) s)
      = Ok (au_object_key a)"
    and "fst (publish (example_publisher (NotStored e)) a [f]
      (upload_files (upload_file (example_publisher (NotStored e)) None None) [(f, bytes)]) s) = Err e"
proof -
  have staged: "\<exists>st. stage_artifact (pu_libraries (example_publisher outcome)) now a [f] (pb_store s) = (Ok (), st)" for outcome now
    using assms(1,2) by (simp add: stage_artifact_def stage_artifact_inner_def metadata_text_def example_publisher_def map_err_def
        transaction_def upsert_set_def find_set_def find_row_def nothing_published_def new_set_def recipe_exists_def and_then_def
        insert_file_def)
  have stored: "\<exists>x. upload_files (upload_file (example_publisher Stored) None None) [(f, bytes)] w = (Ok (), x)" for w
    using assms(3,4) by (simp add: upload_file_def put_bytes_with_headers_def and_next_def answer_with_def verify_uploaded_artifact_def
        verify_uploaded_object_def head_object_def verify_uploaded_object_metadata_def result_simps example_publisher_def
        STRICT_UPLOAD_VERIFICATION_def and_then_def ok_or_def checks.simps ensure_def if_some_def Let_def glb_env_def)
  have lost: "\<exists>x. upload_files (upload_file (example_publisher (NotStored e)) None None) [(f, bytes)] w = (Err e, x)" for w
    by (simp add: upload_file_def put_bytes_with_headers_def and_next_def Let_def)
  obtain st where st: "stage_artifact (pu_libraries (example_publisher Stored)) (clock (example_publisher Stored) s) a [f] (pb_store s)
      = (Ok (), st)"
    using staged by blast
  obtain su where su: "stage_artifact (pu_libraries (example_publisher (NotStored e))) (clock (example_publisher (NotStored e)) s) a [f]
      (pb_store s) = (Ok (), su)"
    using staged by blast
  obtain x where x: "upload_files (upload_file (example_publisher Stored) None None) [(f, bytes)] (pb_export s) = (Ok (), x)"
    using stored by blast
  obtain y where y: "upload_files (upload_file (example_publisher (NotStored e)) None None) [(f, bytes)] (pb_export s) = (Err e, y)"
    using lost by blast
  show "fst (publish (example_publisher Stored) a [f] (upload_files (upload_file (example_publisher Stored) None None) [(f, bytes)]) s)
      = Ok (au_object_key a)"
    by (simp add: publish_def and_next_def stage_for_upload_def st on_export_def x make_ready_eq map_err_def Let_def del: upload_files.simps)
  show "fst (publish (example_publisher (NotStored e)) a [f]
      (upload_files (upload_file (example_publisher (NotStored e)) None None) [(f, bytes)]) s) = Err e"
    by (simp add: publish_def and_next_def stage_for_upload_def su on_export_def y map_err_def Let_def
        mark_artifact_upload_failed_def on_store_eq answer_with_def del: upload_files.simps)
qed

lemma example_refreshed:
  "\<exists>key. fst (example_refresh Stored nothing_published) = Ok key"
  "fst (example_refresh (NotStored ''down'') nothing_published) = Err ''down''"
proof -
  have start: "pb_export nothing_published = glb_exported" by (simp add: nothing_published_def)
  have files: "\<exists>f. preview_files p hash glb_preview = [(f, example_glb)] \<and> fl_content_type f = ''model/gltf-binary''
      \<and> fl_byte_len f = int (length example_glb)" for p :: "unit publisher" and hash
    by (simp add: preview_files_def glb_preview_def export_file_def)
  have run: "\<exists>t a f. example_refresh outcome nothing_published = publish (example_publisher outcome) a [f]
      (upload_files (upload_file (example_publisher outcome) None None) [(f, example_glb)]) t \<and> pb_store t = pb_store nothing_published
      \<and> au_generator_processing_hash a = None \<and> fl_content_type f = ''model/gltf-binary'' \<and> fl_byte_len f = int (length example_glb)"
    for outcome
  proof -
    obtain runs where post: "postprocess_preview_artifact (example_publisher outcome) glb_hash nothing_published =
        (Ok (hex_sha256 example_digest ''j'', glb_preview), nothing_published\<lparr>pb_runs := runs\<rparr>)"
      using example_postprocessed by blast
    obtain f where f: "preview_files (example_publisher outcome) (hex_sha256 example_digest ''j'') glb_preview = [(f, example_glb)]"
      "fl_content_type f = ''model/gltf-binary''" "fl_byte_len f = int (length example_glb)" using files by blast
    have same: "nothing_published\<lparr>pb_export := glb_exported\<rparr> = nothing_published" by (simp add: nothing_published_def)
    show ?thesis
      unfolding example_refresh_def refresh_preview_def example_prepared_export_def
      by (simp add: and_next_def answer_with_def expected_request_def if_some_def ensure_def on_export_def start example_executed same
          post preview_artifact_key_def export_artifact_key_def example_hashes f Let_def del: upload_files.simps)
        (auto simp: f export_upsert_def intro!: exI)
  qed
  show "\<exists>key. fst (example_refresh Stored nothing_published) = Ok key"
    using run [of Stored] example_published(1) by metis
  show "fst (example_refresh (NotStored ''down'') nothing_published) = Err ''down''"
    using run [of "NotStored ''down''"] example_published(2) by metis
qed

theorem refreshed_export_published_witness:
  "\<exists>key t. example_refresh Stored nothing_published = (Ok key, t) \<and> published_as example_digest ''s'' ''c'' ''preview_glb'' key t"
proof -
  obtain key where key: "fst (example_refresh Stored nothing_published) = Ok key"
    using example_refreshed(1) by blast
  then have run: "example_refresh Stored nothing_published = (Ok key, snd (example_refresh Stored nothing_published))"
    by (metis prod.collapse)
  have "keys_distinct (pb_store nothing_published)" by (simp add: keys_distinct_def nothing_published_def)
  from refreshed_export_published [OF this disjI1 [OF conjI [OF run [unfolded example_refresh_def] refl]]] run
  show ?thesis by (auto simp: example_publisher_def glb_env_def example_env_def example_refresh_def)
qed

text \<open>What one run published stays published when the next one cannot store its file.\<close>

theorem failed_refresh_keeps_published_witness:
  "\<exists>hash. only_touched hash (pb_store nothing_published) (pb_store (snd (example_refresh (NotStored ''down'') nothing_published)))"
proof -
  have run: "example_refresh (NotStored ''down'') nothing_published =
      (Err ''down'', snd (example_refresh (NotStored ''down'') nothing_published))"
    using example_refreshed(2) by (metis prod.collapse)
  have "keys_distinct (pb_store nothing_published)" by (simp add: keys_distinct_def nothing_published_def)
  from failed_refresh_keeps_published [OF this disjI1 [OF run [unfolded example_refresh_def]]]
  show ?thesis by (simp add: example_refresh_def)
qed

end
