(* ===== verification/Spec2Isabelle.thy ===== *)
theory Spec2Isabelle
  imports Parameter_Validation Protocol_Documents Parameter_Schema Job_Queue_Runs Processing_Example Artifact_Example
    Http_Framing Geometry_Example Catalog_Documents Publication_Example
begin

text \<open>
  A verification library for the onshape-export service: the Rust program under \<open>src/src\<close>, which
  offers configurable Onshape models, validates the parameters a visitor submits, asks Onshape for
  geometry, feeds it to an external generator and caches what comes out. Everything here is a
  shallow embedding of that program: its structs are records, its enums datatypes, its integers
  \<open>32 word\<close>, \<open>64 word\<close> or bounded ints, its errors values of an \<open>Ok\<close>/\<open>Err\<close> result, its database
  tables lists of rows, and its functions total, executable HOL functions.

  \<^bold>\<open>The parts of the program and their theories.\<close>

  \<^item> Shared ground. \<open>Prelude\<close> holds the result type, the checks that a sequence of early returns
    becomes, and their lemmas; \<open>Rust_Strings\<close> the string and character functions of the standard
    library; \<open>Ordered_Map\<close> the \<open>BTreeMap\<close> (its laws are the locale \<open>keyed_map\<close>); \<open>Json\<close> the
    values of serde_json; \<open>Codec\<close> the injectivity of encodings (locale \<open>codec\<close>); \<open>Sql_Table\<close> what
    an SQL update does to a table (locale \<open>keyed_update\<close>).

  \<^item> Parameters (\<open>parameters.rs\<close>). \<open>Decimal\<close>: numbers as exact fractions and their decimal text.
    \<open>Parameters\<close> and \<open>Catalog_Types\<close>: the schema types, the canonical form of a submitted value per
    kind, \<open>validate_values\<close>. \<open>Parameter_Validation\<close>: what validation accepts, that it is
    idempotent, which errors it reports. \<open>Parameter_Schema\<close>: the normalisation of the Onshape
    response and the catalog's overrides, visibility conditions as a three-valued logic.

  \<^item> Cache identities (\<open>cache_key.rs\<close>, \<open>cache_model.rs\<close>). \<open>Cache_Identity\<close>: the documents hashed
    for sources, configurations and artifact sets; what equal hashes imply.

  \<^item> The generator protocol (\<open>generator_protocol.rs\<close>). \<open>Generator_Types\<close>: its documents and their
    JSON; \<open>Generator_Protocol\<close>: their validation; \<open>Protocol_Fields\<close>: the grammars of paths, media
    types, identities and JSON pointers; \<open>Protocol_Documents\<close>: manifests, requests and results.

  \<^item> The job queue (\<open>db.rs\<close> and the worker of \<open>main.rs\<close>). \<open>Job_Queue\<close>: the statements on the table
    \<open>jobs\<close>, claiming, leases, retries, the step of a worker; \<open>Job_Queue_Runs\<close>: sequences of
    operations of several workers, the invariant and the protection against stale workers. What runs
    of steps preserve is the locale of \<open>Runs\<close>, used here and for the artifacts.

  \<^item> Generated artifacts (\<open>db.rs\<close> and its migrations). \<open>Artifact_Store\<close>: recipes, occurrences,
    artifact sets and files, project requests and acquisition provenance, one operation per function;
    \<open>Artifact_Runs\<close>: what any sequence of operations keeps (immutable history, one ready artifact per
    output, withdrawal of the observed state only); \<open>Artifact_Staging\<close>: staging and publishing;
    \<open>Artifact_Example\<close>: a store at which the theorems are applied.

  \<^item> Annotations (\<open>onshape_annotation.rs\<close>). \<open>Annotation\<close>: the authoring document, its validation, the
    settings built from it, the settings of version 2; \<open>Annotation_Carriers\<close>: the suffix grammar of
    part names; \<open>Annotation_Settings\<close>: linking targets to objects, fitting a manifest;
    \<open>Annotation_Placements\<close>: matrices, signed zeros and the expected placements.

  \<^item> Readers of JSON. \<open>Strict_Json\<close>: the reader that refuses duplicate members, over the events of
    serde's deserializer; \<open>Bounded_Json\<close>: the reader of \<open>onshape_api.rs\<close> with its limits on depth,
    array entries and members, and the failures of the Onshape client.

  \<^item> The strict Onshape client (\<open>onshape_api.rs\<close>). \<open>Http_Response\<close>: the head of a response, media
    types and the readers of a fragmented connection; \<open>Http_Receive\<close>: the three framings of a body and
    the whole answer; \<open>Http_Framing\<close>: fragments do not matter, limits hold, chunks are read back;
    \<open>Onshape_Requests\<close>: origin, paths, signatures, deadlines and the operations of the API.

  \<^item> Encoded configurations (\<open>configuration_encoding.rs\<close>). \<open>Configuration_Encoding\<close>: the typed values
    sent to Onshape, the context and evidence of an encoding, the tables that keep them;
    \<open>Encoding_Cache\<close>: resolving with other writers in between, and the handoff to planning;
    \<open>Encoding_Example\<close>: an encoding resolved and found again.

  \<^item> Selections (\<open>onshape_selection.rs\<close>). \<open>Float64\<close>: IEEE doubles as 64-bit patterns;
    \<open>Selection_Types\<close>, \<open>Selection_Projection\<close>: the request, the answers of Onshape and what is read
    from them; \<open>Selection_Plan\<close>, \<open>Selection_Gates\<close>: the plan and the conditions under which parts and
    occurrences enter it; \<open>Selection_Assembly\<close>: the path of an occurrence and its transform;
    \<open>Selection_Retained\<close>: plans that are stored and checked again; \<open>Selection_Example\<close>: a plan.

  \<^item> Geometry acquisition (\<open>onshape_geometry.rs\<close>). \<open>Geometry_Provenance\<close>: the record of a plan, its
    identity, its rows and its lookup; \<open>Geometry_Acquisition\<close>: one translation per leaf, polled and
    retained in a world of clocks and connections; \<open>Geometry_Requests\<close>: that an acquisition returns
    and which requests it sends; \<open>Geometry_Handoff\<close>: what the consumer accepts; \<open>Geometry_Example\<close>:
    an acquisition from plan to handoff.

  \<^item> The catalog (\<open>catalog.rs\<close>). \<open>Catalog_Documents\<close>: its documents, the validation of all models
    together, with the preflight of their project selections, and loading with referenced files.

  \<^item> Exports (\<open>onshape.rs\<close>, the staged export of \<open>main.rs\<close> and its tables in \<open>db.rs\<close>).
    \<open>Export_Requests\<close>: the requests with the identity they are cached under, the documents answered,
    the file names of downloads; \<open>Export_Client\<close>: signed exchanges, nonces, polling and downloading;
    \<open>Staged_Exports\<close>: resuming, polling, settling and persisting, with the three tables and the object
    store; \<open>Staged_Export_Runs\<close>: a success is found again, nothing is started twice, payloads stay
    loadable; \<open>Export_Example\<close>: an export from its start to its payload. \<open>Payload_Artifacts\<close>: a payload
    becomes a preview or a download; \<open>Export_Publication\<close>: \<open>refresh_preview\<close> and \<open>refresh_download\<close>,
    which prepare, execute, process, stage, upload, check and make ready, over the staged export and the
    store of artifacts; \<open>Export_Publication_Runs\<close>: a success is published with all its bytes and alone
    of its output, a failure publishes nothing and leaves the other sets; \<open>Publication_Example\<close>: runs.

  \<^item> Generator processing (\<open>deployed_generator.rs\<close>, \<open>generator_processing.rs\<close>).
    \<open>Deployed_Generator\<close>: the configured executable, its checks, identity and compatibility;
    \<open>Generator_Processing\<close>: preparing and reopening a recipe; \<open>Processing_Recipe\<close>: its round trip and
    its occurrences; \<open>Processing_Example\<close>: a concrete recipe at which the theorems are applied.

  \<^bold>\<open>What the lemmas show.\<close> Validation is characterised by equivalences with declarative
  specifications (\<open>\<dots>_Ok\<close> lemmas, one per check of the source, composed as the code composes them);
  encodings are injective, so that identities identify, under the explicit hypothesis that the
  digest does not collide on the documents compared (\<open>unambiguous\<close>); the statements on the tables
  preserve the invariants of the tables over any sequence of operations; readers accept exactly
  the documents of their specification; operations that could panic in Rust (\<open>expect\<close>, indexing,
  arithmetic) are shown not to.

  \<^bold>\<open>Parameters of the model.\<close> Code outside \<open>src\<close> is an argument: SHA-256 (\<open>digest\<close>), the canonical
  JSON serializer (\<open>canonicalizer\<close>), the printer of floating-point numbers, serde's tokenizer and
  derived decoders, the file system (answers of \<open>metadata\<close>, \<open>open\<close>, \<open>read\<close>), the random number of the
  retry delay and the clock of SQLite, the URL parser, HMAC and base64, TLS connections (the fragments
  they deliver), ZIP archives. Where answers of the outside depend on what was done before, they are
  operations on a state of any type \<open>'w\<close>: the records \<open>world\<close> of \<open>Geometry_Acquisition\<close> (clock, requests,
  retained files; a step is an \<open>option\<close> of a result and a state, \<open>None\<close> where the code does not return)
  and \<open>remote\<close> of \<open>Export_Client\<close>. A write to the object store is done, not done, or done with its
  answer lost. Hypotheses on them are named in the theorems, and a witness
  instantiates each.

  \<^bold>\<open>Bounds and fuel.\<close> No definition takes fuel: loops are structural recursions or \<open>function\<close>s with
  a measure (the walk along parent objects removes an object at each step; the normalisation of the
  Onshape response descends into a smaller JSON value; the loops over a connection consume a byte or a
  fragment per step), except the polling of a translation, which is a \<open>partial_function\<close> into
  \<open>option\<close> and is proved to return: after at most 32 polls per leaf and 8705 requests per acquisition
  in \<open>onshape_geometry.rs\<close>; the export client polls along its list of eight delays. Doubles are 64-bit
  patterns whose operations round to nearest, ties to even. Times are milliseconds. Machine integers keep their width wherever
  the code's arithmetic can leave it: \<open>u32\<close> versions, \<open>u64\<close> lengths, the \<open>i64\<close> arithmetic of decimal
  scaling and of the retry delay, saturating or checked as the source has it.

  \<^bold>\<open>Not modelled.\<close> Sockets and TLS, child processes and their pipes (\<open>generator_runner.rs\<close>), the
  environment variables of \<open>config.rs\<close>, the S3 client of \<open>storage.rs\<close> beyond reads, writes and HEAD, the HTML
  templates and the HTTP routes of \<open>main.rs\<close> are input and output without decisions that this library
  could state. The orchestration of generator runs (\<open>generator_publication.rs\<close>, \<open>generator_inputs.rs\<close>,
  \<open>generator_output_checkpoint.rs\<close>), the ZIP and XML packaging of Bambu projects (\<open>bambu_project.rs\<close>,
  \<open>bambu_deployment.rs\<close>) and the reporting queries of \<open>db.rs\<close> are left out. Concurrency inside SQLite is taken as the serial order of its
  transactions, and its input/output errors are not modelled. The text of log lines and of the errors of
  third-party libraries is a parameter. Of an \<open>anyhow\<close> error only the outermost message is kept.
\<close>

end
